(* ===== verification/Prelude.thy ===== *)
theory Prelude
  imports Main "HOL-Library.Char_ord" "HOL-Library.List_Lexorder" "HOL-Library.AList"
    "HOL-Library.Code_Target_Nat"
begin

text \<open>
  What every component of the model shares: Python exceptions as values, the error type and the
  state-and-error programs with their weakest preconditions, the fragments of Python's
  \<^verbatim>\<open>str\<close>, \<^verbatim>\<open>re\<close>, \<^verbatim>\<open>list\<close> and \<^verbatim>\<open>pathlib\<close> the sources use, and two interfaces as locales: a
  relation that every step of a program keeps, and an encoder with its decoder.
\<close>

named_theorems wp_simps \<open>weakest preconditions of the program combinators\<close>
named_theorems py_simps \<open>equations of the Python string and container fragments\<close>

section \<open>Exceptions and results\<close>

text \<open>
  \<^verbatim>\<open>Failure(code, reason)\<close> is the exception class of \<^verbatim>\<open>unattended/common.py\<close>; the others are the
  builtin classes that the sources raise or catch. \<open>OutOfFuel\<close> is not a Python exception: it marks a
  model loop that was given too few rounds, and lemmas show where it cannot occur.
\<close>

datatype exn =
    Failure int string
  | OSError
  | ValueError
  | KeyError
  | IndexError
  | TypeError
  | AttributeError
  | TimeoutExpired
  | StopIteration
  | AssertionError
  | CalledProcessError
  | TarError
  | SystemExit string
  | ManifestError string
  | SourceMissing string
  | OutOfFuel

type_synonym 'a res = "exn + 'a"

definition bindE :: "'a res \<Rightarrow> ('a \<Rightarrow> 'b res) \<Rightarrow> 'b res" where
  "bindE m k = (case m of Inl e \<Rightarrow> Inl e | Inr x \<Rightarrow> k x)"

text \<open>\<open>requireE c reason code k\<close> is \<^verbatim>\<open>require(c, reason, code)\<close> followed by the code \<open>k\<close>.\<close>

definition requireE :: "bool \<Rightarrow> string \<Rightarrow> int \<Rightarrow> 'a res \<Rightarrow> 'a res" where
  "requireE c reason code k = (if c then k else Inl (Failure code reason))"

fun mapE :: "('a \<Rightarrow> 'b res) \<Rightarrow> 'a list \<Rightarrow> 'b list res" where
  "mapE f [] = Inr []"
| "mapE f (x # xs) = bindE (f x) (\<lambda>y. bindE (mapE f xs) (\<lambda>ys. Inr (y # ys)))"

fun foldE :: "('a \<Rightarrow> 'b \<Rightarrow> 'b res) \<Rightarrow> 'a list \<Rightarrow> 'b \<Rightarrow> 'b res" where
  "foldE f [] b = Inr b"
| "foldE f (x # xs) b = bindE (f x b) (foldE f xs)"

lemma bindE_simps [simp]:
  "bindE (Inl e) k = Inl e" "bindE (Inr x) k = k x"
  by (simp_all add: bindE_def)

lemma bindE_Inr_iff: "bindE m k = Inr y \<longleftrightarrow> (\<exists>x. m = Inr x \<and> k x = Inr y)"
  by (cases m) auto

lemma requireE_Inr_iff [simp]: "requireE c r n k = Inr y \<longleftrightarrow> c \<and> k = Inr y"
  by (simp add: requireE_def)

lemma requireE_True [simp]: "requireE True r n k = k"
  by (simp add: requireE_def)

lemma requireE_False [simp]: "requireE False r n k = Inl (Failure n r)"
  by (simp add: requireE_def)

lemma case_list_Inr_iff: "(case xs of [] \<Rightarrow> Inl e | c # r \<Rightarrow> f c r) = Inr y \<longleftrightarrow> (\<exists>c r. xs = c # r \<and> f c r = Inr y)"
  by (cases xs) auto

lemma if_Inl_Inr_iff: "(if b then Inl e else m) = Inr y \<longleftrightarrow> \<not> b \<and> m = Inr y"
  by simp

lemma if_Inr_Inl_iff: "(if b then m else Inl e) = Inr y \<longleftrightarrow> b \<and> m = Inr y"
  by simp

lemma case_option_Inr_iff: "(case x of None \<Rightarrow> Inl e | Some z \<Rightarrow> f z) = Inr y \<longleftrightarrow> (\<exists>z. x = Some z \<and> f z = Inr y)"
  by (cases x) auto

lemmas Inr_iffs = bindE_Inr_iff case_list_Inr_iff if_Inl_Inr_iff if_Inr_Inl_iff case_option_Inr_iff

lemma mapE_Inr_iff: "mapE f xs = Inr ys \<longleftrightarrow> list_all2 (\<lambda>x y. f x = Inr y) xs ys"
  by (induction xs arbitrary: ys) (auto simp: bindE_Inr_iff list_all2_Cons1)

lemma foldE_append: "foldE f (xs @ ys) b = bindE (foldE f xs b) (foldE f ys)"
proof (induction xs arbitrary: b)
  case Nil
  then show ?case by simp
next
  case (Cons x xs)
  then show ?case by (cases "f x b") simp_all
qed

text \<open>An invariant of a loop that may stop with an exception.\<close>

lemma foldE_invariant:
  assumes "foldE f xs b = Inr c" and "I b"
    and "\<And>x b b'. x \<in> set xs \<Longrightarrow> I b \<Longrightarrow> f x b = Inr b' \<Longrightarrow> I b'"
  shows "I c"
  using assms
proof (induction xs arbitrary: b)
  case Nil
  then show ?case by simp
next
  case (Cons x xs)
  from Cons.prems(1) obtain b' where b': "f x b = Inr b'" "foldE f xs b' = Inr c"
    by (auto simp: bindE_Inr_iff)
  have "I b'" using Cons.prems(2,3) b'(1) by auto
  show ?case by (rule Cons.IH [OF b'(2) \<open>I b'\<close>]) (use Cons.prems(3) in auto)
qed

section \<open>Programs over a state\<close>

text \<open>
  A program reads and updates a state and returns a value or raises. As in Python, what was
  written before an exception stays written.
\<close>

type_synonym ('s, 'a) prog = "'s \<Rightarrow> 'a res \<times> 's"

definition ret :: "'a \<Rightarrow> ('s, 'a) prog" where
  "ret x s = (Inr x, s)"

definition raiseM :: "exn \<Rightarrow> ('s, 'a) prog" where
  "raiseM e s = (Inl e, s)"

definition bindM :: "('s, 'a) prog \<Rightarrow> ('a \<Rightarrow> ('s, 'b) prog) \<Rightarrow> ('s, 'b) prog" where
  "bindM m k s = (case m s of (Inl e, s') \<Rightarrow> (Inl e, s') | (Inr x, s') \<Rightarrow> k x s')"

definition thenM :: "('s, 'a) prog \<Rightarrow> ('s, 'b) prog \<Rightarrow> ('s, 'b) prog" where
  "thenM m k = bindM m (\<lambda>_. k)"

definition requireM :: "bool \<Rightarrow> string \<Rightarrow> int \<Rightarrow> ('s, 'a) prog \<Rightarrow> ('s, 'a) prog" where
  "requireM c reason code k = (if c then k else raiseM (Failure code reason))"

definition liftE :: "'a res \<Rightarrow> ('s, 'a) prog" where
  "liftE r s = (r, s)"

definition getsM :: "('s \<Rightarrow> 'a) \<Rightarrow> ('s, 'a) prog" where
  "getsM f s = (Inr (f s), s)"

definition modifyM :: "('s \<Rightarrow> 's) \<Rightarrow> ('s, unit) prog" where
  "modifyM f s = (Inr (), f s)"

definition whenM :: "bool \<Rightarrow> ('s, unit) prog \<Rightarrow> ('s, unit) prog" where
  "whenM c m = (if c then m else ret ())"

text \<open>
  \<open>catchM m h\<close>: \<^verbatim>\<open>try: m except ...: h\<close>; the handler re-raises what its \<^verbatim>\<open>except\<close> clause
  does not list. \<open>finallyM m f\<close>: \<^verbatim>\<open>try: m finally: f\<close>; an exception of \<open>f\<close> replaces the one of \<open>m\<close>.
\<close>

definition catchM :: "('s, 'a) prog \<Rightarrow> (exn \<Rightarrow> ('s, 'a) prog) \<Rightarrow> ('s, 'a) prog" where
  "catchM m h s = (case m s of (Inl e, s') \<Rightarrow> h e s' | (Inr x, s') \<Rightarrow> (Inr x, s'))"

definition finallyM :: "('s, 'a) prog \<Rightarrow> ('s, unit) prog \<Rightarrow> ('s, 'a) prog" where
  "finallyM m f s = (case m s of (r, s') \<Rightarrow> (case f s' of (Inl e, s'') \<Rightarrow> (Inl e, s'') | (Inr _, s'') \<Rightarrow> (r, s'')))"

fun forM :: "'a list \<Rightarrow> ('a \<Rightarrow> ('s, unit) prog) \<Rightarrow> ('s, unit) prog" where
  "forM [] f = ret ()"
| "forM (x # xs) f = thenM (f x) (forM xs f)"

fun foldM :: "'a list \<Rightarrow> 'b \<Rightarrow> ('a \<Rightarrow> 'b \<Rightarrow> ('s, 'b) prog) \<Rightarrow> ('s, 'b) prog" where
  "foldM [] b f = ret b"
| "foldM (x # xs) b f = bindM (f x b) (\<lambda>b'. foldM xs b' f)"

subsection \<open>Weakest preconditions\<close>

text \<open>
  \<open>wp m Q E s\<close>: run from \<open>s\<close>, program \<open>m\<close> returns a value and a state that satisfy \<open>Q\<close>, or raises
  an exception and leaves a state that satisfy \<open>E\<close>. Every program here terminates, so this is
  total correctness.
\<close>

definition wp :: "('s, 'a) prog \<Rightarrow> ('a \<Rightarrow> 's \<Rightarrow> bool) \<Rightarrow> (exn \<Rightarrow> 's \<Rightarrow> bool) \<Rightarrow> 's \<Rightarrow> bool" where
  "wp m Q E s = (case m s of (Inl e, s') \<Rightarrow> E e s' | (Inr x, s') \<Rightarrow> Q x s')"

lemma wp_ret [wp_simps]: "wp (ret x) Q E s = Q x s"
  by (simp add: wp_def ret_def)

lemma wp_raiseM [wp_simps]: "wp (raiseM e) Q E s = E e s"
  by (simp add: wp_def raiseM_def)

lemma wp_bindM [wp_simps]: "wp (bindM m k) Q E s = wp m (\<lambda>x. wp (k x) Q E) E s"
  by (simp add: wp_def bindM_def split: prod.split sum.split)

lemma wp_thenM [wp_simps]: "wp (thenM m k) Q E s = wp m (\<lambda>_. wp k Q E) E s"
  by (simp add: thenM_def wp_bindM)

lemma wp_requireM [wp_simps]:
  "wp (requireM c r n k) Q E s = ((c \<longrightarrow> wp k Q E s) \<and> (\<not> c \<longrightarrow> E (Failure n r) s))"
  by (simp add: requireM_def wp_raiseM)

lemma wp_liftE [wp_simps]: "wp (liftE r) Q E s = (case r of Inl e \<Rightarrow> E e s | Inr x \<Rightarrow> Q x s)"
  by (simp add: wp_def liftE_def split: sum.split)

lemma wp_getsM [wp_simps]: "wp (getsM f) Q E s = Q (f s) s"
  by (simp add: wp_def getsM_def)

lemma wp_modifyM [wp_simps]: "wp (modifyM f) Q E s = Q () (f s)"
  by (simp add: wp_def modifyM_def)

lemma wp_whenM [wp_simps]: "wp (whenM c m) Q E s = (if c then wp m Q E s else Q () s)"
  by (simp add: whenM_def wp_ret)

lemma wp_catchM [wp_simps]: "wp (catchM m h) Q E s = wp m Q (\<lambda>e. wp (h e) Q E) s"
  by (simp add: wp_def catchM_def split: prod.split sum.split)

lemma wp_finallyM [wp_simps]:
  "wp (finallyM m f) Q E s = wp m (\<lambda>x. wp f (\<lambda>_. Q x) E) (\<lambda>e. wp f (\<lambda>_. E e) E) s"
  by (simp add: wp_def finallyM_def split: prod.split sum.split)

lemma wp_if [wp_simps]: "wp (if b then m else n) Q E s = (if b then wp m Q E s else wp n Q E s)"
  by simp

lemma wp_forM_Nil [wp_simps]: "wp (forM [] f) Q E s = Q () s"
  by (simp add: wp_ret)

lemma wp_forM_Cons [wp_simps]: "wp (forM (x # xs) f) Q E s = wp (f x) (\<lambda>_. wp (forM xs f) Q E) E s"
  by (simp add: wp_thenM)

lemma wp_mono:
  assumes "wp m Q E s" and "\<And>x s'. Q x s' \<Longrightarrow> Q' x s'" and "\<And>e s'. E e s' \<Longrightarrow> E' e s'"
  shows "wp m Q' E' s"
  using assms by (auto simp: wp_def split: prod.splits sum.splits)

lemma wp_conj: "wp m Q E s \<Longrightarrow> wp m Q' E' s \<Longrightarrow> wp m (\<lambda>x s. Q x s \<and> Q' x s) (\<lambda>e s. E e s \<and> E' e s) s"
  by (auto simp: wp_def split: prod.splits sum.splits)

lemma wp_True [simp]: "wp m (\<lambda>_ _. True) (\<lambda>_ _. True) s"
  by (simp add: wp_def split: prod.splits sum.splits)

lemma wp_InrD: "wp m Q E s \<Longrightarrow> m s = (Inr x, s') \<Longrightarrow> Q x s'"
  by (simp add: wp_def)

lemma wp_InlD: "wp m Q E s \<Longrightarrow> m s = (Inl e, s') \<Longrightarrow> E e s'"
  by (simp add: wp_def)

lemma wp_resultI:
  assumes "\<And>x s'. m s = (Inr x, s') \<Longrightarrow> Q x s'" and "\<And>e s'. m s = (Inl e, s') \<Longrightarrow> E e s'"
  shows "wp m Q E s"
  using assms by (auto simp: wp_def split: prod.splits sum.splits)

text \<open>Running one step after another, with an assertion between them.\<close>

lemma wp_seq:
  "wp m M E s \<Longrightarrow> (\<And>x s'. M x s' \<Longrightarrow> wp (k x) Q E s') \<Longrightarrow> wp (bindM m k) Q E s"
  by (simp add: wp_bindM wp_mono)

lemma wp_requireI:
  "(c \<Longrightarrow> wp k Q E s) \<Longrightarrow> (\<not> c \<Longrightarrow> E (Failure n r) s) \<Longrightarrow> wp (requireM c r n k) Q E s"
  by (simp add: wp_requireM)

lemma wp_liftI:
  "(\<And>x. r = Inr x \<Longrightarrow> wp (k x) Q E s) \<Longrightarrow> (\<And>e. r = Inl e \<Longrightarrow> E e s) \<Longrightarrow> wp (bindM (liftE r) k) Q E s"
  by (cases r) (simp_all add: wp_bindM wp_liftE)

text \<open>A loop keeps what its body keeps, whether it ends or raises.\<close>

lemma wp_forM_invariant:
  assumes "I s"
    and "\<And>x s. x \<in> set xs \<Longrightarrow> I s \<Longrightarrow> wp (f x) (\<lambda>_. I) E s"
  shows "wp (forM xs f) (\<lambda>_. I) E s"
  using assms
proof (induction xs arbitrary: s)
  case Nil
  then show ?case by (simp add: wp_simps)
next
  case (Cons x xs)
  have "wp (f x) (\<lambda>_. I) E s" using Cons.prems by simp
  then have "wp (f x) (\<lambda>_. wp (forM xs f) (\<lambda>_. I) E) E s"
    by (rule wp_mono) (simp_all add: Cons.IH Cons.prems(2))
  then show ?case by (simp add: wp_simps)
qed

lemma bindM_eq_iff:
  "bindM m k s = (Inr y, s'') \<longleftrightarrow> (\<exists>x s'. m s = (Inr x, s') \<and> k x s' = (Inr y, s''))"
  by (auto simp: bindM_def split: prod.splits sum.splits)

lemma requireM_eq_iff:
  "requireM c r n k s = (Inr y, s') \<longleftrightarrow> c \<and> k s = (Inr y, s')"
  by (simp add: requireM_def raiseM_def)

lemmas prog_defs = ret_def raiseM_def bindM_def thenM_def requireM_def liftE_def getsM_def
  modifyM_def whenM_def catchM_def finallyM_def

section \<open>Python strings\<close>

text \<open>
  A Python \<^verbatim>\<open>bytes\<close> is the list of its bytes and a \<^verbatim>\<open>str\<close> the list of the bytes of its UTF-8
  encoding, which keeps equality, prefixes, containment and the order of code points. The character
  classes of the regular expressions in the sources are all ASCII; of the white space and line
  boundaries of \<^verbatim>\<open>str\<close> only the ASCII ones are recognised.
\<close>

abbreviation ascii :: "nat \<Rightarrow> char" where
  "ascii n \<equiv> char_of n"

lemma ascii_eq_iff: "u < 256 \<Longrightarrow> ascii u = d \<longleftrightarrow> u = of_char d"
  by (metis char_of_char of_char_of mod_less)

definition in_range :: "char \<Rightarrow> char \<Rightarrow> char \<Rightarrow> bool" where
  "in_range lo hi c \<longleftrightarrow> lo \<le> c \<and> c \<le> hi"

definition is_digit :: "char \<Rightarrow> bool" where
  "is_digit c \<longleftrightarrow> c \<in> set ''0123456789''"

definition is_lower :: "char \<Rightarrow> bool" where
  "is_lower c \<longleftrightarrow> c \<in> set ''abcdefghijklmnopqrstuvwxyz''"

definition is_upper :: "char \<Rightarrow> bool" where
  "is_upper c \<longleftrightarrow> c \<in> set ''ABCDEFGHIJKLMNOPQRSTUVWXYZ''"

definition is_alnum :: "char \<Rightarrow> bool" where
  "is_alnum c \<longleftrightarrow> is_lower c \<or> is_upper c \<or> is_digit c"

definition is_hex :: "char \<Rightarrow> bool" where
  "is_hex c \<longleftrightarrow> c \<in> set ''0123456789abcdef''"

text \<open>\<^verbatim>\<open>re.fullmatch\<close> for the shapes \<open>[cls]+\<close>, \<open>[cls]{n}\<close>, \<open>[cls]{lo,hi}\<close> and \<open>[head][tail]*\<close>.\<close>

definition match_plus :: "(char \<Rightarrow> bool) \<Rightarrow> string \<Rightarrow> bool" where
  "match_plus cls s \<longleftrightarrow> s \<noteq> [] \<and> list_all cls s"

definition match_count :: "(char \<Rightarrow> bool) \<Rightarrow> nat \<Rightarrow> string \<Rightarrow> bool" where
  "match_count cls n s \<longleftrightarrow> length s = n \<and> list_all cls s"

definition match_range :: "(char \<Rightarrow> bool) \<Rightarrow> nat \<Rightarrow> nat \<Rightarrow> string \<Rightarrow> bool" where
  "match_range cls lo hi s \<longleftrightarrow> lo \<le> length s \<and> length s \<le> hi \<and> list_all cls s"

fun match_head_tail :: "(char \<Rightarrow> bool) \<Rightarrow> (char \<Rightarrow> bool) \<Rightarrow> string \<Rightarrow> bool" where
  "match_head_tail h t [] = False"
| "match_head_tail h t (c # cs) = (h c \<and> list_all t cs)"

text \<open>A literal prefix followed by a match: \<^verbatim>\<open>re.fullmatch("lit" + rest)\<close>.\<close>

fun after_prefix :: "string \<Rightarrow> string \<Rightarrow> string option" where
  "after_prefix [] s = Some s"
| "after_prefix (p # ps) [] = None"
| "after_prefix (p # ps) (c # cs) = (if p = c then after_prefix ps cs else None)"

definition startswith :: "string \<Rightarrow> string \<Rightarrow> bool" where
  "startswith s p \<longleftrightarrow> after_prefix p s \<noteq> None"

definition endswith :: "string \<Rightarrow> string \<Rightarrow> bool" where
  "endswith s p \<longleftrightarrow> after_prefix (rev p) (rev s) \<noteq> None"

definition match_prefixed :: "string \<Rightarrow> (string \<Rightarrow> bool) \<Rightarrow> string \<Rightarrow> bool" where
  "match_prefixed p m s = (case after_prefix p s of None \<Rightarrow> False | Some r \<Rightarrow> m r)"

definition removeprefix :: "string \<Rightarrow> string \<Rightarrow> string" where
  "removeprefix p s = (case after_prefix p s of None \<Rightarrow> s | Some r \<Rightarrow> r)"

lemma after_prefix_iff: "after_prefix p s = Some r \<longleftrightarrow> s = p @ r"
  by (induction p s rule: after_prefix.induct) auto

lemma after_prefix_append [simp]: "after_prefix p (p @ r) = Some r"
  by (simp add: after_prefix_iff)

lemma startswith_iff: "startswith s p \<longleftrightarrow> (\<exists>r. s = p @ r)"
  by (auto simp: startswith_def after_prefix_iff)

lemma startswith_append [simp]: "startswith (p @ r) p"
  by (simp add: startswith_def)

lemma endswith_iff: "endswith s p \<longleftrightarrow> (\<exists>r. s = r @ p)"
proof -
  have "(\<exists>r. s = r @ p) \<longleftrightarrow> (\<exists>y. rev s = rev p @ y)"
    by (metis rev_append rev_rev_ident)
  then show ?thesis by (auto simp: endswith_def after_prefix_iff)
qed

lemma match_prefixed_iff: "match_prefixed p m s \<longleftrightarrow> (\<exists>r. s = p @ r \<and> m r)"
  by (auto simp: match_prefixed_def after_prefix_iff split: option.splits)

text \<open>\<^verbatim>\<open>s.split(sep)\<close> for a one-character separator: always at least one piece.\<close>

fun split_on :: "char \<Rightarrow> string \<Rightarrow> string list" where
  "split_on c [] = [[]]"
| "split_on c (x # xs) =
     (if x = c then [] # split_on c xs
      else (case split_on c xs of [] \<Rightarrow> [[x]] | y # ys \<Rightarrow> (x # y) # ys))"

fun join_with :: "string \<Rightarrow> string list \<Rightarrow> string" where
  "join_with sep [] = []"
| "join_with sep [x] = x"
| "join_with sep (x # y # ys) = x @ sep @ join_with sep (y # ys)"

lemma split_on_not_Nil [simp]: "split_on c s \<noteq> []"
  by (cases s) (auto split: list.split)

lemma split_on_no_sep: "p \<in> set (split_on c s) \<Longrightarrow> c \<notin> set p"
proof (induction s arbitrary: p)
  case Nil
  then show ?case by simp
next
  case (Cons x xs)
  then show ?case
    by (cases "split_on c xs") (auto split: if_splits)
qed

lemma join_split_on: "join_with [c] (split_on c s) = s"
proof (induction s)
  case Nil
  then show ?case by simp
next
  case (Cons x xs)
  obtain y ys where y: "split_on c xs = y # ys"
    by (cases "split_on c xs") auto
  with Cons show ?case
    by (cases ys) auto
qed

lemma split_on_id: "c \<notin> set s \<Longrightarrow> split_on c s = [s]"
  by (induction s) auto

lemma split_on_append: "c \<notin> set p \<Longrightarrow> split_on c (p @ c # s) = p # split_on c s"
  by (induction p) auto

text \<open>\<^verbatim>\<open>s.partition(c)\<close> and \<^verbatim>\<open>s.rpartition(c)\<close>: before, whether the separator was found, after.\<close>

fun part_at :: "char \<Rightarrow> string \<Rightarrow> string \<times> bool \<times> string" where
  "part_at c [] = ([], False, [])"
| "part_at c (x # xs) =
     (if x = c then ([], True, xs)
      else (case part_at c xs of (a, f, b) \<Rightarrow> if f then (x # a, True, b) else (x # xs, False, [])))"

definition rpart_at :: "char \<Rightarrow> string \<Rightarrow> string \<times> bool \<times> string" where
  "rpart_at c s = (case part_at c (rev s) of (a, f, b) \<Rightarrow>
     if f then (rev b, True, rev a) else ([], False, s))"

lemma part_at_found: "part_at c s = (a, True, b) \<longleftrightarrow> s = a @ c # b \<and> c \<notin> set a"
proof (induction s arbitrary: a)
  case Nil
  then show ?case by simp
next
  case (Cons x xs)
  obtain a' f' b' where p: "part_at c xs = (a', f', b')" by (cases "part_at c xs")
  show ?case
  proof (cases "x = c")
    case True
    then show ?thesis by (cases a) auto
  next
    case False
    with p Cons.IH show ?thesis by (cases a) (auto split: if_splits)
  qed
qed

lemma part_at_not_found: "part_at c s = (a, False, b) \<longleftrightarrow> c \<notin> set s \<and> a = s \<and> b = []"
proof (induction s arbitrary: a b)
  case Nil
  then show ?case by auto
next
  case (Cons x xs)
  obtain a' f' b' where p: "part_at c xs = (a', f', b')" by (cases "part_at c xs")
  show ?case
  proof (cases f')
    case True
    with p have "c \<in> set xs" by (auto simp: part_at_found)
    with p True show ?thesis by auto
  next
    case False
    with p Cons.IH [of a' b'] have "c \<notin> set xs" by simp
    with p False show ?thesis by auto
  qed
qed

lemma rpart_at_found: "rpart_at c s = (a, True, b) \<longleftrightarrow> s = a @ c # b \<and> c \<notin> set b"
proof -
  obtain x f y where p: "part_at c (rev s) = (x, f, y)" by (cases "part_at c (rev s)")
  show ?thesis
  proof (cases f)
    case True
    with p have "rev s = x @ c # y" "c \<notin> set x" by (auto simp: part_at_found)
    then have s: "s = rev y @ c # rev x" by (metis append.assoc append_Cons append_Nil rev.simps(2) rev_append rev_swap)
    have "rpart_at c s = (rev y, True, rev x)" using p True by (simp add: rpart_at_def)
    moreover have "s = a @ c # b \<and> c \<notin> set b \<longleftrightarrow> a = rev y \<and> b = rev x"
    proof
      assume "s = a @ c # b \<and> c \<notin> set b"
      then have "rev s = rev b @ c # rev a" "c \<notin> set (rev b)" by auto
      then have "part_at c (rev s) = (rev b, True, rev a)" by (simp add: part_at_found)
      with p show "a = rev y \<and> b = rev x" by auto
    qed (use s \<open>c \<notin> set x\<close> in auto)
    ultimately show ?thesis by auto
  next
    case False
    with p have "c \<notin> set s" by (auto simp: part_at_not_found)
    with p False show ?thesis by (auto simp: rpart_at_def)
  qed
qed

text \<open>\<^verbatim>\<open>str.splitlines()\<close> and \<^verbatim>\<open>bytes.splitlines()\<close>: boundaries and a final piece only if not empty.\<close>

definition str_boundary :: "char \<Rightarrow> bool" where
  "str_boundary c \<longleftrightarrow> of_char c \<in> set [10, 11, 12, 13, 28, 29, 30 :: nat]"

definition bytes_boundary :: "char \<Rightarrow> bool" where
  "bytes_boundary c \<longleftrightarrow> of_char c \<in> set [10, 13 :: nat]"

fun lines_by :: "(char \<Rightarrow> bool) \<Rightarrow> string \<Rightarrow> string \<Rightarrow> string list" where
  "lines_by bd acc [] = (if acc = [] then [] else [rev acc])"
| "lines_by bd acc (c # cs) =
     (if bd c then
        (if of_char c = (13 :: nat) then
           (case cs of [] \<Rightarrow> [rev acc]
            | d # ds \<Rightarrow> if of_char d = (10 :: nat) then rev acc # lines_by bd [] ds
                       else rev acc # lines_by bd [] (d # ds))
         else rev acc # lines_by bd [] cs)
      else lines_by bd (c # acc) cs)"

definition splitlines :: "string \<Rightarrow> string list" where
  "splitlines s = lines_by str_boundary [] s"

definition bsplitlines :: "string \<Rightarrow> string list" where
  "bsplitlines s = lines_by bytes_boundary [] s"

definition newline :: char where
  "newline = CHR 0x0A"

lemma lines_by_line:
  "(\<And>c. c \<in> set n \<Longrightarrow> \<not> bd c) \<Longrightarrow> bd newline \<Longrightarrow>
     lines_by bd acc (n @ newline # r) = (rev acc @ n) # lines_by bd [] r"
  by (induction n arbitrary: acc) (auto simp: newline_def)

text \<open>A text that is made of lines splits into them again.\<close>

definition plain_line :: "string \<Rightarrow> bool" where
  "plain_line l \<longleftrightarrow> list_all (\<lambda>c. \<not> str_boundary c) l"

lemma plain_line_append [simp]:
  "plain_line (a @ b) \<longleftrightarrow> plain_line a \<and> plain_line b" "plain_line []"
  "plain_line (c # b) \<longleftrightarrow> \<not> str_boundary c \<and> plain_line b"
  by (simp_all add: plain_line_def)

lemma boundary_newline [simp]: "str_boundary newline"
  by (simp add: str_boundary_def newline_def)

lemma splitlines_lines:
  "list_all plain_line ls \<Longrightarrow> splitlines (concat (map (\<lambda>l. l @ [newline]) ls)) = ls"
proof (induction ls)
  case Nil
  then show ?case by (simp add: splitlines_def)
next
  case (Cons l ls)
  then have "lines_by str_boundary [] (l @ newline # concat (map (\<lambda>l. l @ [newline]) ls))
      = (rev [] @ l) # lines_by str_boundary [] (concat (map (\<lambda>l. l @ [newline]) ls))"
    by (intro lines_by_line) (auto simp: plain_line_def list_all_iff)
  with Cons show ?case by (simp add: splitlines_def)
qed

lemma join_lines: "ls \<noteq> [] \<Longrightarrow> join_with [newline] ls @ [newline] = concat (map (\<lambda>l. l @ [newline]) ls)"
  by (induction ls rule: induct_list012) auto

definition is_space :: "char \<Rightarrow> bool" where
  "is_space c \<longleftrightarrow> of_char c \<in> set [9, 10, 11, 12, 13, 28, 29, 30, 31, 32 :: nat]"

definition lstrip :: "string \<Rightarrow> string" where
  "lstrip s = dropWhile is_space s"

definition strip :: "string \<Rightarrow> string" where
  "strip s = rev (dropWhile is_space (rev (dropWhile is_space s)))"

definition contains_any :: "string \<Rightarrow> nat list \<Rightarrow> bool" where
  "contains_any s codes \<longleftrightarrow> list_ex (\<lambda>c. of_char c \<in> set codes) s"

text \<open>\<^verbatim>\<open>any(c in value for c in "\\n\\r\\x00")\<close>\<close>

definition has_line_break_or_nul :: "string \<Rightarrow> bool" where
  "has_line_break_or_nul s \<longleftrightarrow> contains_any s [10, 13, 0]"

text \<open>\<^verbatim>\<open>sub in s\<close> for strings, and \<^verbatim>\<open>s.replace(old, new)\<close> for a nonempty \<open>old\<close>.\<close>

fun substr :: "string \<Rightarrow> string \<Rightarrow> bool" where
  "substr p [] = (p = [])"
| "substr p (c # cs) = (startswith (c # cs) p \<or> substr p cs)"

lemma substr_iff: "substr p s \<longleftrightarrow> (\<exists>a b. s = a @ p @ b)"
proof (induction s)
  case Nil
  then show ?case by auto
next
  case (Cons c cs)
  have "(\<exists>a b. c # cs = a @ p @ b) \<longleftrightarrow> (\<exists>b. c # cs = p @ b) \<or> (\<exists>a b. cs = a @ p @ b)"
    by (metis append_Cons append_Nil list.exhaust list.inject)
  with Cons show ?case by (simp add: startswith_iff)
qed

function replace_all :: "string \<Rightarrow> string \<Rightarrow> string \<Rightarrow> string" where
  "replace_all old new [] = []"
| "replace_all old new (c # cs) =
     (if old = [] then c # cs
      else (case after_prefix old (c # cs) of
              Some r \<Rightarrow> new @ replace_all old new r
            | None \<Rightarrow> c # replace_all old new cs))"
  by pat_completeness auto
termination
proof (relation "measure (\<lambda>(old, new, s). length s)", simp)
  fix old new :: string and c cs r
  assume "old \<noteq> []" and "after_prefix old (c # cs) = Some r"
  then have "c # cs = old @ r" "old \<noteq> []" by (simp_all add: after_prefix_iff)
  then have "length (c # cs) = length old + length r" by simp
  with \<open>old \<noteq> []\<close> show "((old, new, r), old, new, c # cs) \<in> measure (\<lambda>(old, new, s). length s)"
    by (cases old) auto
qed simp

section \<open>Decimal numbers\<close>

fun show_nat :: "nat \<Rightarrow> string" where
  "show_nat n = (if n < 10 then [ascii (48 + n)] else show_nat (n div 10) @ [ascii (48 + n mod 10)])"

declare show_nat.simps [simp del]

definition show_int :: "int \<Rightarrow> string" where
  "show_int i = (if i < 0 then CHR ''-'' # show_nat (nat (- i)) else show_nat (nat i))"

definition digit_val :: "char \<Rightarrow> nat" where
  "digit_val c = of_char c - 48"

fun read_nat_acc :: "nat \<Rightarrow> string \<Rightarrow> nat" where
  "read_nat_acc a [] = a"
| "read_nat_acc a (c # cs) = read_nat_acc (10 * a + digit_val c) cs"

definition read_nat :: "string \<Rightarrow> nat" where
  "read_nat s = read_nat_acc 0 s"

lemma digits_set: "set ''0123456789'' = ascii ` {48..<58}"
proof -
  have u: "[48..<58 :: nat] = [48, 49, 50, 51, 52, 53, 54, 55, 56, 57]" by (simp add: upt_rec)
  have "''0123456789'' = map ascii [48..<58]"
    unfolding u by code_simp
  then show ?thesis by (metis set_map set_upt)
qed

lemma is_digit_iff: "is_digit c \<longleftrightarrow> 48 \<le> (of_char c :: nat) \<and> (of_char c :: nat) < 58"
proof
  assume "is_digit c"
  then have "c \<in> ascii ` {48..<58}" unfolding is_digit_def digits_set .
  then show "48 \<le> (of_char c :: nat) \<and> (of_char c :: nat) < 58"
    by (auto simp: of_char_of)
next
  assume r: "48 \<le> (of_char c :: nat) \<and> (of_char c :: nat) < 58"
  have "c = ascii (of_char c)" by simp
  with r have "c \<in> ascii ` {48..<58}" by (metis atLeastLessThan_iff image_eqI)
  then show "is_digit c" unfolding is_digit_def digits_set .
qed

lemma digit_char [simp]:
  assumes "d < 10"
  shows "is_digit (ascii (48 + d))" "digit_val (ascii (48 + d)) = d"
  using assms by (simp_all add: is_digit_iff digit_val_def of_char_of)

lemma show_nat_digits: "list_all is_digit (show_nat n)"
proof (induction n rule: show_nat.induct)
  case (1 n)
  then show ?case by (subst show_nat.simps) auto
qed

lemma show_nat_not_Nil [simp]: "show_nat n \<noteq> []"
  by (subst show_nat.simps) simp

lemma read_nat_acc_append: "read_nat_acc a (xs @ ys) = read_nat_acc (read_nat_acc a xs) ys"
  by (induction xs arbitrary: a) auto

lemma read_show_nat [simp]: "read_nat (show_nat n) = n"
proof (induction n rule: show_nat.induct)
  case (1 n)
  show ?case
  proof (cases "n < 10")
    case True
    then show ?thesis by (subst show_nat.simps) (simp add: read_nat_def)
  next
    case False
    have "read_nat (show_nat n) = read_nat_acc (read_nat (show_nat (n div 10))) [ascii (48 + n mod 10)]"
      using False by (subst show_nat.simps) (simp add: read_nat_def read_nat_acc_append)
    also have "\<dots> = n" using "1" [OF False] by simp
    finally show ?thesis .
  qed
qed

lemma show_nat_inj: "show_nat m = show_nat n \<Longrightarrow> m = n"
  by (metis read_show_nat)

lemma show_nat_head: "\<exists>c cs. show_nat n = c # cs \<and> is_digit c"
  using show_nat_digits [of n] by (cases "show_nat n") auto

section \<open>Sorted listings and duplicates\<close>

text \<open>\<^verbatim>\<open>sorted(set(xs))\<close>\<close>

definition sorted_set :: "string list \<Rightarrow> string list" where
  "sorted_set xs = sort (remdups xs)"

lemma sorted_set_props [simp]:
  "sorted (sorted_set xs)" "distinct (sorted_set xs)" "set (sorted_set xs) = set xs"
  by (simp_all add: sorted_set_def)

definition same_set :: "'a list \<Rightarrow> 'a list \<Rightarrow> bool" where
  "same_set xs ys \<longleftrightarrow> list_all (\<lambda>x. x \<in> set ys) xs \<and> list_all (\<lambda>y. y \<in> set xs) ys"

lemma same_set_iff: "same_set xs ys \<longleftrightarrow> set xs = set ys"
  by (auto simp: same_set_def list_all_iff)

definition subset_list :: "'a list \<Rightarrow> 'a list \<Rightarrow> bool" where
  "subset_list xs ys \<longleftrightarrow> list_all (\<lambda>x. x \<in> set ys) xs"

lemma subset_list_iff: "subset_list xs ys \<longleftrightarrow> set xs \<subseteq> set ys"
  by (auto simp: subset_list_def list_all_iff)

text \<open>\<^verbatim>\<open>list(dict.fromkeys(xs))\<close>: the first occurrence of each element, in order.\<close>

fun uniq :: "'a list \<Rightarrow> 'a list \<Rightarrow> 'a list" where
  "uniq seen [] = []"
| "uniq seen (x # xs) = (if x \<in> set seen then uniq seen xs else x # uniq (x # seen) xs)"

lemma set_uniq: "set (uniq seen xs) = set xs - set seen"
  by (induction xs arbitrary: seen) auto

lemma distinct_uniq: "distinct (uniq seen xs)"
  by (induction xs arbitrary: seen) (auto simp: set_uniq)

lemma uniq_distinct: "distinct xs \<Longrightarrow> set xs \<inter> set seen = {} \<Longrightarrow> uniq seen xs = xs"
  by (induction xs arbitrary: seen) auto

section \<open>Pure POSIX paths\<close>

text \<open>
  \<^verbatim>\<open>PurePosixPath(s)\<close>: the components other than empty ones and \<^verbatim>\<open>.\<close>, after a root that is
  \<^verbatim>\<open>//\<close> for exactly two leading slashes and \<^verbatim>\<open>/\<close> for one or for more than two.
\<close>

type_synonym path = "string list"

definition path_root :: "string \<Rightarrow> string" where
  "path_root s = (if startswith s ''//'' \<and> \<not> startswith s ''///'' then ''//''
                  else if startswith s ''/'' then ''/'' else [])"

definition path_comps :: "string \<Rightarrow> string list" where
  "path_comps s = filter (\<lambda>p. p \<noteq> [] \<and> p \<noteq> ''.'') (split_on (CHR ''/'') s)"

definition path_absolute :: "string \<Rightarrow> bool" where
  "path_absolute s \<longleftrightarrow> path_root s \<noteq> []"

definition path_parts :: "string \<Rightarrow> string list" where
  "path_parts s = (if path_absolute s then path_root s # path_comps s else path_comps s)"

definition path_str :: "string \<Rightarrow> string" where
  "path_str s = (let r = path_root s; b = join_with ''/'' (path_comps s)
                 in if r @ b = [] then ''.'' else r @ b)"

lemma path_comps_props: "p \<in> set (path_comps s) \<Longrightarrow> p \<noteq> [] \<and> p \<noteq> ''.'' \<and> CHR ''/'' \<notin> set p"
  by (auto simp: path_comps_def dest: split_on_no_sep)

lemma path_comps_append:
  "CHR ''/'' \<notin> set p \<Longrightarrow> p \<noteq> [] \<Longrightarrow> p \<noteq> ''.'' \<Longrightarrow> path_comps (p @ CHR ''/'' # r) = p # path_comps r"
  by (simp add: path_comps_def split_on_append)

text \<open>Joining the components below a directory, and staying below it.\<close>

definition below :: "path \<Rightarrow> path \<Rightarrow> bool" where
  "below d p \<longleftrightarrow> (\<exists>r. p = d @ r \<and> r \<noteq> [])"

text \<open>Resolving \<^verbatim>\<open>..\<close> components, as the kernel does when no component is a link.\<close>

fun resolve_dots :: "path \<Rightarrow> string list \<Rightarrow> path" where
  "resolve_dots d [] = d"
| "resolve_dots d (c # cs) =
     (if c = ''..'' then resolve_dots (butlast d) cs
      else if c = ''.'' \<or> c = [] then resolve_dots d cs
      else resolve_dots (d @ [c]) cs)"

lemma resolve_dots_plain:
  "''..'' \<notin> set cs \<Longrightarrow> ''.'' \<notin> set cs \<Longrightarrow> [] \<notin> set cs \<Longrightarrow> resolve_dots d cs = d @ cs"
  by (induction cs arbitrary: d) auto

text \<open>\<^verbatim>\<open>a != b and a not in b.parents and b not in a.parents\<close> for all pairs of a list.\<close>

definition is_prefix :: "path \<Rightarrow> path \<Rightarrow> bool" where
  "is_prefix a b \<longleftrightarrow> take (length a) b = a"

definition disjoint_dirs :: "path \<Rightarrow> path \<Rightarrow> bool" where
  "disjoint_dirs a b \<longleftrightarrow> \<not> is_prefix a b \<and> \<not> is_prefix b a"

fun pairwise_disjoint :: "path list \<Rightarrow> bool" where
  "pairwise_disjoint [] = True"
| "pairwise_disjoint (a # as) = (list_all (disjoint_dirs a) as \<and> pairwise_disjoint as)"

section \<open>Interfaces\<close>

text \<open>
  What a program may do to the state in any of its runs, also those that raise: a reflexive and
  transitive relation that each of its steps keeps is kept by the whole program.
\<close>

definition moves :: "('s \<Rightarrow> 's \<Rightarrow> bool) \<Rightarrow> ('s, 'a) prog \<Rightarrow> bool" where
  "moves R m \<longleftrightarrow> (\<forall>s. R s (snd (m s)))"

lemma movesD: "moves R m \<Longrightarrow> m s = (r, s') \<Longrightarrow> R s s'"
  by (metis moves_def snd_conv)

lemma movesI: "(\<And>s r s'. m s = (r, s') \<Longrightarrow> R s s') \<Longrightarrow> moves R m"
  by (metis moves_def prod.collapse)

locale guarantee =
  fixes R :: "'s \<Rightarrow> 's \<Rightarrow> bool"
  assumes R_refl: "R s s"
    and R_trans: "R s t \<Longrightarrow> R t u \<Longrightarrow> R s u"
begin

lemma moves_pure [intro!]:
  "moves R (ret x)" "moves R (raiseM e)" "moves R (liftE r)" "moves R (getsM f)"
  by (simp_all add: moves_def ret_def raiseM_def liftE_def getsM_def R_refl)

lemma moves_bind [intro!]:
  assumes "moves R m" and "\<And>x. moves R (k x)"
  shows "moves R (bindM m k)"
proof (rule movesI)
  fix s r s' assume r: "bindM m k s = (r, s')"
  obtain x t where m: "m s = (x, t)" by fastforce
  with assms(1) have st: "R s t" by (rule movesD)
  show "R s s'"
  proof (cases x)
    case (Inl e)
    with r m st show ?thesis by (simp add: bindM_def)
  next
    case (Inr y)
    with r m have "k y t = (r, s')" by (simp add: bindM_def)
    with assms(2) have "R t s'" by (rule movesD)
    with st show ?thesis by (rule R_trans)
  qed
qed

lemma moves_then [intro!]: "moves R m \<Longrightarrow> moves R k \<Longrightarrow> moves R (thenM m k)"
  unfolding thenM_def by (rule moves_bind)

lemma moves_if [intro!]: "(b \<Longrightarrow> moves R m) \<Longrightarrow> (\<not> b \<Longrightarrow> moves R n) \<Longrightarrow> moves R (if b then m else n)"
  by simp

lemma moves_require [intro!]: "(c \<Longrightarrow> moves R k) \<Longrightarrow> moves R (requireM c r n k)"
  by (auto simp: requireM_def)

lemma moves_when [intro!]: "(c \<Longrightarrow> moves R m) \<Longrightarrow> moves R (whenM c m)"
  by (auto simp: whenM_def)

lemma moves_option [intro!]:
  "(x = None \<Longrightarrow> moves R m) \<Longrightarrow> (\<And>y. x = Some y \<Longrightarrow> moves R (k y)) \<Longrightarrow>
     moves R (case x of None \<Rightarrow> m | Some y \<Rightarrow> k y)"
  by (cases x) auto

lemma moves_let [intro!]: "moves R (k x) \<Longrightarrow> moves R (let y = x in k y)"
  by simp

lemma moves_prod [intro!]: "(\<And>a b. x = (a, b) \<Longrightarrow> moves R (k a b)) \<Longrightarrow> moves R (case x of (a, b) \<Rightarrow> k a b)"
  by (cases x) auto

lemma moves_catch [intro!]:
  assumes "moves R m" and "\<And>e. moves R (h e)"
  shows "moves R (catchM m h)"
proof (rule movesI)
  fix s r s' assume r: "catchM m h s = (r, s')"
  obtain x t where m: "m s = (x, t)" by fastforce
  with assms(1) have st: "R s t" by (rule movesD)
  show "R s s'"
  proof (cases x)
    case (Inl e)
    with r m have "h e t = (r, s')" by (simp add: catchM_def)
    with assms(2) have "R t s'" by (rule movesD)
    with st show ?thesis by (rule R_trans)
  next
    case (Inr y)
    with r m st show ?thesis by (simp add: catchM_def)
  qed
qed

lemma moves_finally [intro!]:
  assumes "moves R m" and "moves R f"
  shows "moves R (finallyM m f)"
proof (rule movesI)
  fix s r s' assume r: "finallyM m f s = (r, s')"
  obtain x t where m: "m s = (x, t)" by fastforce
  obtain y u where f: "f t = (y, u)" by fastforce
  from r m f have "s' = u" by (auto simp: finallyM_def split: sum.splits)
  with movesD [OF assms(1) m] movesD [OF assms(2) f] show "R s s'" by (metis R_trans)
qed

lemma moves_forM [intro!]: "(\<And>x. x \<in> set xs \<Longrightarrow> moves R (f x)) \<Longrightarrow> moves R (forM xs f)"
  by (induction xs) auto

lemma moves_foldM [intro!]: "(\<And>x b. x \<in> set xs \<Longrightarrow> moves R (f x b)) \<Longrightarrow> moves R (foldM xs b f)"
  by (induction xs arbitrary: b) auto

lemma moves_app: "(\<And>s. moves R (m s)) \<Longrightarrow> moves R (\<lambda>s. m s s)"
  by (simp add: moves_def)

end

text \<open>
  A text encoding with its decoder: decoding what was encoded gives the value back in its normal
  form, so encodings of values with different normal forms differ.
\<close>

locale codec =
  fixes enc :: "'v \<Rightarrow> string"
    and dec :: "string \<Rightarrow> 'v res"
    and nf :: "'v \<Rightarrow> 'v"
    and ok :: "'v \<Rightarrow> bool"
  assumes dec_enc: "ok v \<Longrightarrow> dec (enc v) = Inr (nf v)"
    and enc_nf: "enc (nf v) = enc v"
begin

lemma enc_eq_iff: "ok v \<Longrightarrow> ok w \<Longrightarrow> enc v = enc w \<longleftrightarrow> nf v = nf w"
  by (metis dec_enc enc_nf sum.inject(2))

text \<open>A digest of the encoding binds the value wherever the digest has no collision.\<close>

lemma digest_binds:
  assumes "ok v" and "ok w" and "h (enc v) = h (enc w)"
    and "h (enc v) = h (enc w) \<Longrightarrow> enc v = enc w"
  shows "nf v = nf w"
  using assms enc_eq_iff by simp

end

end
