(* ===== verification/Json.thy ===== *)
theory Json
  imports Prelude
begin

text \<open>
  The values that \<^verbatim>\<open>json.loads\<close> builds and \<^verbatim>\<open>json.dumps\<close> writes, as the sources use them: a dictionary
  keeps its insertion order, a float keeps the text of its literal, a string is the list of the bytes
  of its UTF-8 encoding. The decoder is the one of \<^verbatim>\<open>common.decode\<close>, with the duplicate-key check of
  \<^verbatim>\<open>unique_object\<close>; the encoder is the one of \<^verbatim>\<open>common.canonical\<close> (sorted keys, no spaces,
  non-ASCII escaped). The two form a \<open>codec\<close>.
\<close>

section \<open>Values\<close>

datatype json =
    JNull
  | JBool bool
  | JInt int
  | JFloat string
  | JStr string
  | JList "json list"
  | JObj "(string \<times> json) list"

fun is_str :: "json \<Rightarrow> bool" where
  "is_str (JStr s) = True"
| "is_str _ = False"

fun is_dict :: "json \<Rightarrow> bool" where
  "is_dict (JObj kvs) = True"
| "is_dict _ = False"

fun is_list :: "json \<Rightarrow> bool" where
  "is_list (JList xs) = True"
| "is_list _ = False"

text \<open>\<^verbatim>\<open>type(v) is int\<close>: a \<^verbatim>\<open>bool\<close> is not one.\<close>

fun is_int :: "json \<Rightarrow> bool" where
  "is_int (JInt i) = True"
| "is_int _ = False"

fun str_of :: "json \<Rightarrow> string" where
  "str_of (JStr s) = s"
| "str_of _ = []"

fun int_of :: "json \<Rightarrow> int" where
  "int_of (JInt i) = i"
| "int_of (JBool b) = (if b then 1 else 0)"
| "int_of _ = 0"

fun list_of :: "json \<Rightarrow> json list" where
  "list_of (JList xs) = xs"
| "list_of _ = []"

fun items_of :: "json \<Rightarrow> (string \<times> json) list" where
  "items_of (JObj kvs) = kvs"
| "items_of _ = []"

definition keys_of :: "json \<Rightarrow> string list" where
  "keys_of v = map fst (items_of v)"

text \<open>\<^verbatim>\<open>v.get(k)\<close> on a dictionary, and \<^verbatim>\<open>v[k]\<close> with its exceptions.\<close>

definition jget :: "json \<Rightarrow> string \<Rightarrow> json" where
  "jget v k = (case map_of (items_of v) k of None \<Rightarrow> JNull | Some x \<Rightarrow> x)"

definition has_key :: "json \<Rightarrow> string \<Rightarrow> bool" where
  "has_key v k \<longleftrightarrow> map_of (items_of v) k \<noteq> None"

fun idx :: "json \<Rightarrow> string \<Rightarrow> json res" where
  "idx (JObj kvs) k = (case map_of kvs k of None \<Rightarrow> Inl KeyError | Some x \<Rightarrow> Inr x)"
| "idx _ k = Inl TypeError"

text \<open>\<^verbatim>\<open>v[k] = x\<close> on a dictionary: an existing key keeps its place.\<close>

definition jset :: "json \<Rightarrow> string \<Rightarrow> json \<Rightarrow> json" where
  "jset v k x = JObj (AList.update k x (items_of v))"

text \<open>\<^verbatim>\<open>isinstance(v, dict) and set(v) == fields\<close>\<close>

definition fields_are :: "json \<Rightarrow> string list \<Rightarrow> bool" where
  "fields_are v fields \<longleftrightarrow> is_dict v \<and> same_set (keys_of v) fields"

lemma is_str_iff: "is_str v \<longleftrightarrow> (\<exists>s. v = JStr s)" by (cases v) auto
lemma is_dict_iff: "is_dict v \<longleftrightarrow> (\<exists>kvs. v = JObj kvs)" by (cases v) auto
lemma is_list_iff: "is_list v \<longleftrightarrow> (\<exists>xs. v = JList xs)" by (cases v) auto
lemma is_int_iff: "is_int v \<longleftrightarrow> (\<exists>i. v = JInt i)" by (cases v) auto

lemma has_key_iff: "has_key v k \<longleftrightarrow> k \<in> set (keys_of v)"
  by (simp add: has_key_def keys_of_def map_of_eq_None_iff)

lemma jget_jset: "jget (jset v k x) k' = (if k' = k then x else jget v k')"
  by (simp add: jget_def jset_def update_conv)

lemma keys_jset: "set (keys_of (jset v k x)) = insert k (set (keys_of v))"
  by (simp add: keys_of_def jset_def dom_map_of_conv_image_fst [symmetric] update_conv' flip: set_map)
    (metis dom_fun_upd dom_map_of_conv_image_fst list.set_map option.distinct(1) update_conv')

text \<open>After the field check, indexing does not raise.\<close>

lemma idx_fields:
  assumes "fields_are v fields" and "k \<in> set fields"
  shows "idx v k = Inr (jget v k)"
proof -
  from assms obtain kvs where v: "v = JObj kvs" and "k \<in> set (map fst kvs)"
    by (auto simp: fields_are_def is_dict_iff same_set_iff keys_of_def)
  then have "map_of kvs k \<noteq> None" by (simp add: map_of_eq_None_iff)
  with v show ?thesis by (auto simp: jget_def)
qed

subsection \<open>Equality\<close>

text \<open>
  Python's \<^verbatim>\<open>==\<close>: dictionaries compare without their order, and numbers by value, so \<^verbatim>\<open>True == 1\<close> and
  \<^verbatim>\<open>6.0 == 6\<close>. A float literal that does not denote an integer below \<open>2 ^ 53\<close> equals only a literal
  with the same text.
\<close>

definition float_parts :: "string \<Rightarrow> bool \<times> string \<times> string \<times> int" where
  "float_parts t =
     (let neg = startswith t ''-''; u = removeprefix ''-'' t;
          m = takeWhile (\<lambda>c. c \<noteq> CHR ''e'' \<and> c \<noteq> CHR ''E'') u;
          x = drop (Suc (length m)) u;
          i = takeWhile (\<lambda>c. c \<noteq> CHR ''.'') m;
          f = drop (Suc (length i)) m;
          e = (if startswith x ''-'' then - int (read_nat (tl x))
               else int (read_nat (removeprefix ''+'' x)))
      in (neg, i, f, e))"

definition float_int :: "string \<Rightarrow> int option" where
  "float_int t =
     (if t \<in> set [''NaN'', ''Infinity'', ''-Infinity''] then None
      else (case float_parts t of (neg, i, f, e) \<Rightarrow>
        (let m = int (read_nat (i @ f)); x = e - int (length f);
             v = (if m = 0 then Some 0
                  else if x > 20 \<or> x < - int (length (i @ f)) then None
                  else if x \<ge> 0 then Some (m * 10 ^ nat x)
                  else if m mod 10 ^ nat (- x) = 0 then Some (m div 10 ^ nat (- x)) else None)
         in case v of None \<Rightarrow> None
            | Some n \<Rightarrow> if n < 2 ^ 53 then Some (if neg then - n else n) else None)))"

primrec jnorm :: "json \<Rightarrow> json" where
  "jnorm JNull = JNull"
| "jnorm (JBool b) = JInt (if b then 1 else 0)"
| "jnorm (JInt i) = JInt i"
| "jnorm (JFloat t) = (case float_int t of None \<Rightarrow> JFloat t | Some i \<Rightarrow> JInt i)"
| "jnorm (JStr s) = JStr s"
| "jnorm (JList xs) = JList (map jnorm xs)"
| "jnorm (JObj kvs) = JObj (sort_key fst (map (map_prod id jnorm) kvs))"

definition py_eq :: "json \<Rightarrow> json \<Rightarrow> bool" where
  "py_eq v w \<longleftrightarrow> jnorm v = jnorm w"

lemma py_eq_refl [simp]: "py_eq v v" by (simp add: py_eq_def)

lemma py_eq_sym: "py_eq v w \<Longrightarrow> py_eq w v" by (simp add: py_eq_def)

lemma py_eq_trans: "py_eq u v \<Longrightarrow> py_eq v w \<Longrightarrow> py_eq u w" by (simp add: py_eq_def)

lemma py_eq_JStr [simp]: "py_eq v (JStr s) \<longleftrightarrow> v = JStr s"
  by (cases v) (auto simp: py_eq_def split: option.splits)

lemma py_eq_JStr' [simp]: "py_eq (JStr s) v \<longleftrightarrow> v = JStr s"
  by (cases v) (auto simp: py_eq_def split: option.splits)

lemma py_eq_JNull [simp]: "py_eq v JNull \<longleftrightarrow> v = JNull"
  by (cases v) (auto simp: py_eq_def split: option.splits)

text \<open>\<^verbatim>\<open>v in (a, b, ...)\<close> for integers\<close>

definition in_ints :: "json \<Rightarrow> int list \<Rightarrow> bool" where
  "in_ints v ns \<longleftrightarrow> list_ex (\<lambda>n. py_eq v (JInt n)) ns"

text \<open>The truth value of a JSON value in a condition. A float literal is false when it denotes zero.\<close>

fun truthy :: "json \<Rightarrow> bool" where
  "truthy JNull = False"
| "truthy (JBool b) = b"
| "truthy (JInt i) = (i \<noteq> 0)"
| "truthy (JFloat t) = (float_int t \<noteq> Some 0)"
| "truthy (JStr s) = (s \<noteq> [])"
| "truthy (JList xs) = (xs \<noteq> [])"
| "truthy (JObj kvs) = (kvs \<noteq> [])"

section \<open>UTF-8\<close>

definition utf8_enc :: "nat \<Rightarrow> string" where
  "utf8_enc u =
     (if u < 128 then [ascii u]
      else if u < 2048 then [ascii (192 + u div 64), ascii (128 + u mod 64)]
      else if u < 65536 then
        [ascii (224 + u div 4096), ascii (128 + u div 64 mod 64), ascii (128 + u mod 64)]
      else [ascii (240 + u div 262144), ascii (128 + u div 4096 mod 64),
            ascii (128 + u div 64 mod 64), ascii (128 + u mod 64)])"

definition cont_byte :: "nat \<Rightarrow> bool" where
  "cont_byte b \<longleftrightarrow> 128 \<le> b \<and> b < 192"

text \<open>
  The code points of a byte string, or None: \<^verbatim>\<open>bytes.decode("utf-8", "surrogatepass")\<close>. A sequence is
  refused when it is truncated, overlong or above \<open>U+10FFFF\<close>.
\<close>

fun utf8_dec :: "string \<Rightarrow> nat list option" where
  "utf8_dec [] = Some []"
| "utf8_dec (a # r) =
     (let x = of_char a in
      if x < 128 then map_option ((#) x) (utf8_dec r)
      else (case r of [] \<Rightarrow> None
        | b # r2 \<Rightarrow>
          if \<not> cont_byte (of_char b) then None
          else if 194 \<le> x \<and> x < 224 then
            map_option ((#) ((x - 192) * 64 + (of_char b - 128))) (utf8_dec r2)
          else (case r2 of [] \<Rightarrow> None
            | c # r3 \<Rightarrow>
              if \<not> cont_byte (of_char c) then None
              else if 224 \<le> x \<and> x < 240 then
                (let u = (x - 224) * 4096 + (of_char b - 128) * 64 + (of_char c - 128) in
                 if u < 2048 then None else map_option ((#) u) (utf8_dec r3))
              else (case r3 of [] \<Rightarrow> None
                | d # r4 \<Rightarrow>
                  if \<not> cont_byte (of_char d) \<or> \<not> (240 \<le> x \<and> x < 245) then None
                  else (let u = (x - 240) * 262144 + (of_char b - 128) * 4096
                               + (of_char c - 128) * 64 + (of_char d - 128) in
                        if u < 65536 \<or> 1114111 < u then None else map_option ((#) u) (utf8_dec r4))))))"

declare utf8_dec.simps(2) [simp del]

definition ascii_only :: "string \<Rightarrow> bool" where
  "ascii_only s \<longleftrightarrow> list_all (\<lambda>c. of_char c < (128 :: nat)) s"

lemma utf8_dec_ascii: "ascii_only s \<Longrightarrow> utf8_dec s = Some (map of_char s)"
  by (induction s) (auto simp: ascii_only_def utf8_dec.simps(2))

section \<open>The encoder\<close>

definition hex_digit :: "nat \<Rightarrow> char" where
  "hex_digit d = (if d < 10 then ascii (48 + d) else ascii (87 + d))"

text \<open>\<^verbatim>\<open>repr\<close> of a string without non-printing characters beyond ASCII.\<close>

definition repr_char :: "char \<Rightarrow> char \<Rightarrow> string" where
  "repr_char q c =
     (if c = CHR 0x5C \<or> c = q then [CHR 0x5C, c]
      else if c = newline then [CHR 0x5C, CHR ''n'']
      else if c = CHR 0x0D then [CHR 0x5C, CHR ''r'']
      else if c = CHR 0x09 then [CHR 0x5C, CHR ''t'']
      else if of_char c < (32 :: nat) \<or> of_char c = (127 :: nat) then
        [CHR 0x5C, CHR ''x'', hex_digit (of_char c div 16), hex_digit (of_char c mod 16)]
      else [c])"

definition repr_str :: "string \<Rightarrow> string" where
  "repr_str s = (let q = (if CHR 0x27 \<in> set s \<and> CHR 0x22 \<notin> set s then CHR 0x22 else CHR 0x27)
     in q # concat (map (repr_char q) s) @ [q])"

definition hex4 :: "nat \<Rightarrow> string" where
  "hex4 u = [hex_digit (u div 4096 mod 16), hex_digit (u div 256 mod 16),
             hex_digit (u div 16 mod 16), hex_digit (u mod 16)]"

definition u_escape :: "nat \<Rightarrow> string" where
  "u_escape u = CHR 0x5C # CHR ''u'' # hex4 u"

text \<open>One code point in an ASCII string literal: \<^verbatim>\<open>ESCAPE_ASCII\<close> of \<^verbatim>\<open>json.encoder\<close>.\<close>

definition escape :: "nat \<Rightarrow> string" where
  "escape u =
     (if u = 34 then [CHR 0x5C, CHR 0x22]
      else if u = 92 then [CHR 0x5C, CHR 0x5C]
      else if u = 10 then [CHR 0x5C, CHR ''n'']
      else if u = 13 then [CHR 0x5C, CHR ''r'']
      else if u = 9 then [CHR 0x5C, CHR ''t'']
      else if u = 12 then [CHR 0x5C, CHR ''f'']
      else if u = 8 then [CHR 0x5C, CHR ''b'']
      else if 32 \<le> u \<and> u < 127 then [ascii u]
      else if u < 65536 then u_escape u
      else u_escape (55296 + (u - 65536) div 1024) @ u_escape (56320 + (u - 65536) mod 1024))"

definition codepoints :: "string \<Rightarrow> nat list" where
  "codepoints s = (case utf8_dec s of Some us \<Rightarrow> us | None \<Rightarrow> map of_char s)"

definition json_str :: "string \<Rightarrow> string" where
  "json_str s = [CHR 0x22] @ concat (map escape (codepoints s)) @ [CHR 0x22]"

text \<open>\<open>jsort\<close> is what \<^verbatim>\<open>sort_keys=True\<close> does at every level.\<close>

primrec jsort :: "json \<Rightarrow> json" where
  "jsort JNull = JNull"
| "jsort (JBool b) = JBool b"
| "jsort (JInt i) = JInt i"
| "jsort (JFloat t) = JFloat t"
| "jsort (JStr s) = JStr s"
| "jsort (JList xs) = JList (map jsort xs)"
| "jsort (JObj kvs) = JObj (sort_key fst (map (map_prod id jsort) kvs))"

primrec dumps :: "json \<Rightarrow> string" where
  "dumps JNull = ''null''"
| "dumps (JBool b) = (if b then ''true'' else ''false'')"
| "dumps (JInt i) = show_int i"
| "dumps (JFloat t) = t"
| "dumps (JStr s) = json_str s"
| "dumps (JList xs) = ''['' @ join_with '','' (map dumps xs) @ '']''"
| "dumps (JObj kvs) =
     ''{'' @ join_with '','' (map (\<lambda>(k, t). json_str k @ '':'' @ t) (map (map_prod id dumps) kvs)) @ ''}''"

definition canonical :: "json \<Rightarrow> string" where
  "canonical v = dumps (jsort v) @ [newline]"

section \<open>The decoder\<close>

definition is_ws :: "char \<Rightarrow> bool" where
  "is_ws c \<longleftrightarrow> c \<in> set [CHR '' '', CHR 0x09, CHR 0x0A, CHR 0x0D]"

definition skip_ws :: "string \<Rightarrow> string" where
  "skip_ws s = dropWhile is_ws s"

definition hex_val :: "char \<Rightarrow> nat option" where
  "hex_val c = (let x = of_char c in
     if 48 \<le> x \<and> x < 58 then Some (x - 48)
     else if 97 \<le> x \<and> x < 103 then Some (x - 87)
     else if 65 \<le> x \<and> x < 71 then Some (x - 55) else None)"

definition hex4_val :: "char \<Rightarrow> char \<Rightarrow> char \<Rightarrow> char \<Rightarrow> nat option" where
  "hex4_val a b c d = (case (hex_val a, hex_val b, hex_val c, hex_val d) of
     (Some w, Some x, Some y, Some z) \<Rightarrow> Some (w * 4096 + x * 256 + y * 16 + z) | _ \<Rightarrow> None)"

definition simple_escape :: "char \<Rightarrow> char option" where
  "simple_escape c =
     map_of [(CHR 0x22, CHR 0x22), (CHR 0x5C, CHR 0x5C), (CHR ''/'', CHR ''/''),
             (CHR ''b'', ascii 8), (CHR ''f'', ascii 12), (CHR ''n'', ascii 10),
             (CHR ''r'', ascii 13), (CHR ''t'', ascii 9)] c"

text \<open>The units of a string literal after its opening quote: plain bytes and \<^verbatim>\<open>\u\<close> escapes.\<close>

definition next_unit :: "char \<Rightarrow> string \<Rightarrow> ((char + nat) \<times> string) option" where
  "next_unit c cs =
     (if c = CHR 0x5C then
        (case cs of [] \<Rightarrow> None
         | e # r \<Rightarrow>
           (case simple_escape e of
              Some x \<Rightarrow> Some (Inl x, r)
            | None \<Rightarrow>
                if e \<noteq> CHR ''u'' then None
                else (case r of a # b # c # d # r2 \<Rightarrow> map_option (\<lambda>u. (Inr u, r2)) (hex4_val a b c d)
                      | _ \<Rightarrow> None)))
      else if of_char c < (32 :: nat) then None
      else Some (Inl c, cs))"

lemma next_unit_length: "next_unit c cs = Some (u, r) \<Longrightarrow> length r < Suc (length cs)"
  by (auto simp: next_unit_def split: if_splits list.splits option.splits)

function scan_units :: "string \<Rightarrow> ((char + nat) list \<times> string) res" where
  "scan_units [] = Inl ValueError"
| "scan_units (c # cs) =
     (if c = CHR 0x22 then Inr ([], cs)
      else (case next_unit c cs of None \<Rightarrow> Inl ValueError
            | Some (u, r) \<Rightarrow> bindE (scan_units r) (\<lambda>(us, t). Inr (u # us, t))))"
  by pat_completeness auto
termination
  by (relation "measure length") (auto dest: next_unit_length)

declare scan_units.simps(2) [simp del]

text \<open>A high and a low surrogate in sequence are one code point.\<close>

fun assemble :: "(char + nat) list \<Rightarrow> string" where
  "assemble [] = []"
| "assemble (Inl c # us) = c # assemble us"
| "assemble (Inr u # us) =
     (case us of Inr l # vs \<Rightarrow>
        if 55296 \<le> u \<and> u < 56320 \<and> 56320 \<le> l \<and> l < 57344
        then utf8_enc (65536 + (u - 55296) * 1024 + (l - 56320)) @ assemble vs
        else utf8_enc u @ assemble us
      | _ \<Rightarrow> utf8_enc u @ assemble us)"

definition scan_str :: "string \<Rightarrow> (string \<times> string) res" where
  "scan_str s = bindE (scan_units s) (\<lambda>(us, t). Inr (assemble us, t))"

text \<open>
  Numbers: \<^verbatim>\<open>-?(0|[1-9][0-9]*)(\.[0-9]+)?([eE][-+]?[0-9]+)?\<close>; \<^verbatim>\<open>int\<close> refuses more than 4300 digits.
\<close>

definition scan_frac :: "string \<Rightarrow> string" where
  "scan_frac r = (case r of [] \<Rightarrow> []
     | c # t \<Rightarrow>
         if c = CHR ''.'' then (let ds = takeWhile is_digit t in if ds = [] then [] else c # ds) else [])"

definition scan_exp :: "string \<Rightarrow> string" where
  "scan_exp r = (case r of e # t \<Rightarrow>
      if e = CHR ''e'' \<or> e = CHR ''E'' then
        (let sg = (case t of g # _ \<Rightarrow> if g = CHR ''+'' \<or> g = CHR ''-'' then [g] else [] | [] \<Rightarrow> []);
             ds = takeWhile is_digit (drop (length sg) t)
         in if ds = [] then [] else e # sg @ ds)
      else [] | [] \<Rightarrow> [])"

definition scan_number :: "string \<Rightarrow> (json \<times> string) res" where
  "scan_number s =
     (let neg = startswith s ''-''; u = removeprefix ''-'' s;
          ds = (case u of [] \<Rightarrow> [] | c # _ \<Rightarrow> if c = CHR ''0'' then ''0'' else takeWhile is_digit u);
          r = drop (length ds) u; fr = scan_frac r; ex = scan_exp (drop (length fr) r)
      in if ds = [] then Inl ValueError
         else if fr = [] \<and> ex = [] then
           (if 4300 < length ds then Inl ValueError
            else Inr (JInt (if neg then - int (read_nat ds) else int (read_nat ds)), r))
         else Inr (JFloat ((if neg then ''-'' else []) @ ds @ fr @ ex),
                   drop (length ex) (drop (length fr) r)))"

definition scan_word :: "string \<Rightarrow> (json \<times> string) res" where
  "scan_word s =
     (case after_prefix ''null'' s of Some r \<Rightarrow> Inr (JNull, r) | None \<Rightarrow>
      (case after_prefix ''true'' s of Some r \<Rightarrow> Inr (JBool True, r) | None \<Rightarrow>
       (case after_prefix ''false'' s of Some r \<Rightarrow> Inr (JBool False, r) | None \<Rightarrow>
        (case after_prefix ''NaN'' s of Some r \<Rightarrow> Inr (JFloat ''NaN'', r) | None \<Rightarrow>
         (case after_prefix ''Infinity'' s of Some r \<Rightarrow> Inr (JFloat ''Infinity'', r) | None \<Rightarrow>
          (case after_prefix ''-Infinity'' s of Some r \<Rightarrow> Inr (JFloat ''-Infinity'', r) | None \<Rightarrow>
           scan_number s))))))"

text \<open>\<^verbatim>\<open>unique_object(pairs)\<close>: called at the end of every object.\<close>

definition unique_object :: "(string \<times> json) list \<Rightarrow> json res" where
  "unique_object pairs = requireE (distinct (map fst pairs)) ''duplicate-json-key'' 64 (Inr (JObj pairs))"

text \<open>A key with the colon and the white space around it.\<close>

definition parse_key :: "string \<Rightarrow> (string \<times> string) res" where
  "parse_key s =
     (case s of [] \<Rightarrow> Inl ValueError
      | q # r0 \<Rightarrow>
        if q \<noteq> CHR 0x22 then Inl ValueError
        else bindE (scan_str r0) (\<lambda>(k, r1).
          (case skip_ws r1 of [] \<Rightarrow> Inl ValueError
           | d # r2 \<Rightarrow> if d \<noteq> CHR '':'' then Inl ValueError else Inr (k, skip_ws r2))))"

fun parse_value :: "nat \<Rightarrow> string \<Rightarrow> (json \<times> string) res"
  and parse_elems :: "nat \<Rightarrow> string \<Rightarrow> (json list \<times> string) res"
  and parse_members :: "nat \<Rightarrow> string \<Rightarrow> ((string \<times> json) list \<times> string) res" where
  "parse_value 0 s = Inl OutOfFuel"
| "parse_value (Suc n) s =
     (case s of [] \<Rightarrow> Inl ValueError
      | c # r \<Rightarrow>
        if c = CHR 0x22 then bindE (scan_str r) (\<lambda>(t, r'). Inr (JStr t, r'))
        else if c = CHR ''['' then
          (if startswith (skip_ws r) '']'' then Inr (JList [], tl (skip_ws r))
           else bindE (parse_elems n (skip_ws r)) (\<lambda>(xs, r'). Inr (JList xs, r')))
        else if c = CHR ''{'' then
          (if startswith (skip_ws r) ''}'' then Inr (JObj [], tl (skip_ws r))
           else bindE (parse_members n (skip_ws r)) (\<lambda>(kvs, r').
                bindE (unique_object kvs) (\<lambda>v. Inr (v, r'))))
        else scan_word (c # r))"
| "parse_elems 0 s = Inl OutOfFuel"
| "parse_elems (Suc n) s =
     bindE (parse_value n s) (\<lambda>(v, r).
       (case skip_ws r of [] \<Rightarrow> Inl ValueError
        | c # r' \<Rightarrow>
          if c = CHR '','' then bindE (parse_elems n (skip_ws r')) (\<lambda>(vs, t). Inr (v # vs, t))
          else if c = CHR '']'' then Inr ([v], r')
          else Inl ValueError))"
| "parse_members 0 s = Inl OutOfFuel"
| "parse_members (Suc n) s =
     bindE (parse_key s) (\<lambda>(k, r2).
       bindE (parse_value n r2) (\<lambda>(v, r3).
         (case skip_ws r3 of [] \<Rightarrow> Inl ValueError
          | c # r4 \<Rightarrow>
            if c = CHR '','' then
              bindE (parse_members n (skip_ws r4)) (\<lambda>(kvs, t). Inr ((k, v) # kvs, t))
            else if c = CHR ''}'' then Inr ([(k, v)], r4)
            else Inl ValueError)))"

definition loads :: "string \<Rightarrow> json res" where
  "loads raw =
     (if utf8_dec raw = None then Inl ValueError
      else (let s = skip_ws (removeprefix [ascii 239, ascii 187, ascii 191] raw) in
        bindE (parse_value (2 * length s + 1) s) (\<lambda>(v, r).
          if skip_ws r = [] then Inr v else Inl ValueError)))"

text \<open>\<^verbatim>\<open>decode(raw)\<close>: syntax and encoding errors become one failure, the duplicate key keeps its own.\<close>

definition decode :: "string \<Rightarrow> json res" where
  "decode raw = (case loads raw of
     Inl ValueError \<Rightarrow> Inl (Failure 64 ''invalid-json'') | r \<Rightarrow> r)"

end
