(* ===== verification/JsonCodec.thy ===== *)
theory JsonCodec
  imports Json
begin

text \<open>
  The facts about \<^verbatim>\<open>decode\<close> and \<^verbatim>\<open>canonical\<close>: the decoder always has enough fuel, it only ever fails
  with the two exceptions that \<^verbatim>\<open>common.decode\<close> documents, and it reads back what the encoder wrote.
\<close>

section \<open>The decoder is total\<close>

lemma length_skip_ws: "length (skip_ws s) \<le> length s"
  by (simp add: skip_ws_def length_dropWhile_le)

lemma scan_units_length: "scan_units s = Inr (us, r) \<Longrightarrow> length r < length s"
proof (induction s arbitrary: us rule: scan_units.induct)
  case 1
  then show ?case by simp
next
  case (2 c cs)
  show ?case
  proof (cases "c = CHR 0x22")
    case True
    with "2.prems" show ?thesis by (simp add: scan_units.simps)
  next
    case False
    with "2.prems" obtain u r' us' where
      "next_unit c cs = Some (u, r')" and "scan_units r' = Inr (us', r)"
      by (auto simp: scan_units.simps bindE_Inr_iff split: option.splits)
    with "2.IH" [OF False] next_unit_length show ?thesis by fastforce
  qed
qed

lemma scan_units_fuel: "scan_units s \<noteq> Inl OutOfFuel"
proof (induction s rule: scan_units.induct)
  case 1
  then show ?case by simp
next
  case (2 c cs)
  then show ?case
    by (auto simp: scan_units.simps bindE_def split: option.splits sum.splits)
qed

lemma scan_str_length: "scan_str s = Inr (t, r) \<Longrightarrow> length r < length s"
  by (auto simp: scan_str_def bindE_Inr_iff dest: scan_units_length)

lemma scan_str_fuel: "scan_str s \<noteq> Inl OutOfFuel"
  using scan_units_fuel [of s] by (auto simp: scan_str_def bindE_def split: sum.splits)

lemma scan_number_length: "scan_number s = Inr (v, r) \<Longrightarrow> length r < length s"
proof -
  assume a: "scan_number s = Inr (v, r)"
  define u where "u = removeprefix ''-'' s"
  define ds where "ds = (case u of [] \<Rightarrow> [] | c # _ \<Rightarrow> if c = CHR ''0'' then ''0'' else takeWhile is_digit u)"
  have u: "length u \<le> length s" by (auto simp: u_def removeprefix_def after_prefix_iff split: option.splits)
  from a have ne: "ds \<noteq> []"
    by (simp add: scan_number_def Let_def u_def [symmetric] ds_def [symmetric] split: if_splits)
  then have "u \<noteq> []" by (auto simp: ds_def)
  from a ne have "length r \<le> length (drop (length ds) u)"
    by (simp add: scan_number_def Let_def u_def [symmetric] ds_def [symmetric] split: if_splits) auto
  also have "\<dots> < length u" using ne \<open>u \<noteq> []\<close> by simp
  finally show ?thesis using u by simp
qed

lemma scan_word_length: "scan_word s = Inr (v, r) \<Longrightarrow> length r < length s"
  by (auto simp: scan_word_def after_prefix_iff dest: scan_number_length split: option.splits)

lemma scan_word_fuel: "scan_word s \<noteq> Inl OutOfFuel"
  by (auto simp: scan_word_def scan_number_def Let_def split: option.splits)

lemma startswith_tl: "startswith s [c] \<Longrightarrow> length (tl s) < length s"
  by (cases s) (auto simp: startswith_def)

lemma skip_tl: "startswith (skip_ws s) [c] \<Longrightarrow> length (tl (skip_ws s)) < Suc (length s)"
  using startswith_tl [of "skip_ws s" c] length_skip_ws [of s] by simp

lemma skip_Cons: "skip_ws s = c # r \<Longrightarrow> length (skip_ws r) < length s"
  using length_skip_ws [of s] length_skip_ws [of r] by simp

lemma skip_Cons': "skip_ws s = c # r \<Longrightarrow> length r < length s"
  using length_skip_ws [of s] by simp

lemma parse_key_length:
  assumes "parse_key s = Inr (k, r)"
  shows "length r < length s"
proof -
  from assms obtain q r0 r1 r2 d where s: "s = q # r0" and 1: "scan_str r0 = Inr (k, r1)"
    and 2: "skip_ws r1 = d # r2" and r: "r = skip_ws r2"
    by (auto simp: parse_key_def Inr_iffs)
  show ?thesis using s r scan_str_length [OF 1] skip_Cons [OF 2] by simp
qed

lemma parse_key_fuel: "parse_key s \<noteq> Inl OutOfFuel"
  using scan_str_fuel by (auto simp: parse_key_def bindE_def split: list.splits sum.splits)

lemma parse_length:
  "(\<forall>s v r. parse_value n s = Inr (v, r) \<longrightarrow> length r < length s) \<and>
   (\<forall>s vs r. parse_elems n s = Inr (vs, r) \<longrightarrow> length r < length s) \<and>
   (\<forall>s kvs r. parse_members n s = Inr (kvs, r) \<longrightarrow> length r < length s)"
proof (induction n)
  case 0
  then show ?case by simp
next
  case (Suc n)
  then have v: "parse_value n s = Inr (v, r) \<Longrightarrow> length r < length s"
    and e: "parse_elems n s = Inr (vs, r) \<Longrightarrow> length r < length s"
    and m: "parse_members n s = Inr (kvs, r) \<Longrightarrow> length r < length s" for s r v vs kvs
    by auto
  have "length r < length s" if "parse_value (Suc n) s = Inr (v, r)" for s v r
  proof (cases s)
    case Nil
    with that show ?thesis by simp
  next
    case (Cons c t)
    with that length_skip_ws [of t] show ?thesis
      by (auto simp: bindE_Inr_iff split: if_splits
          dest!: scan_str_length scan_word_length e m dest: skip_tl)
  qed
  moreover have "length r < length s" if "parse_elems (Suc n) s = Inr (vs, r)" for s vs r
  proof -
    from that obtain w r3 where w: "parse_value n s = Inr (w, r3)"
      by (cases "parse_value n s") auto
    with that obtain c r4 where 3: "skip_ws r3 = c # r4" by (cases "skip_ws r3") auto
    with that w have r: "r = r4 \<or> (\<exists>vs'. parse_elems n (skip_ws r4) = Inr (vs', r))"
      by (cases "parse_elems n (skip_ws r4)") (auto split: if_splits)
    from v [OF w] skip_Cons [OF 3] skip_Cons' [OF 3]
    show ?thesis using r e by fastforce
  qed
  moreover have "length r < length s" if "parse_members (Suc n) s = Inr (kvs, r)" for s kvs r
  proof -
    from that obtain k r2 where k: "parse_key s = Inr (k, r2)" by (cases "parse_key s") auto
    with that obtain w r3 where w: "parse_value n r2 = Inr (w, r3)"
      by (cases "parse_value n r2") auto
    with that k obtain c r4 where 3: "skip_ws r3 = c # r4" by (cases "skip_ws r3") auto
    with that k w have r: "r = r4 \<or> (\<exists>kvs'. parse_members n (skip_ws r4) = Inr (kvs', r))"
      by (cases "parse_members n (skip_ws r4)") (auto split: if_splits)
    from parse_key_length [OF k] v [OF w] skip_Cons [OF 3] skip_Cons' [OF 3]
    show ?thesis using r m by fastforce
  qed
  ultimately show ?case by blast
qed

lemmas parse_value_length = parse_length [THEN conjunct1, rule_format]

lemma parse_fuel:
  "(\<forall>s. 2 * length s < n \<longrightarrow> parse_value n s \<noteq> Inl OutOfFuel) \<and>
   (\<forall>s. 2 * length s + 1 < n \<longrightarrow> parse_elems n s \<noteq> Inl OutOfFuel) \<and>
   (\<forall>s. 2 * length s + 1 < n \<longrightarrow> parse_members n s \<noteq> Inl OutOfFuel)"
proof (induction n)
  case 0
  then show ?case by simp
next
  case (Suc n)
  then have v: "2 * length s < n \<Longrightarrow> parse_value n s \<noteq> Inl OutOfFuel"
    and e: "2 * length s + 1 < n \<Longrightarrow> parse_elems n s \<noteq> Inl OutOfFuel"
    and m: "2 * length s + 1 < n \<Longrightarrow> parse_members n s \<noteq> Inl OutOfFuel" for s
    by auto
  have "parse_value (Suc n) s \<noteq> Inl OutOfFuel" if "2 * length s < Suc n" for s
  proof (cases s)
    case Nil
    then show ?thesis by simp
  next
    case (Cons c t)
    with that length_skip_ws [of t] have "2 * length (skip_ws t) + 1 < n" by simp
    with Cons e [of "skip_ws t"] m [of "skip_ws t"] show ?thesis
      using scan_str_fuel [of t] scan_word_fuel [of s]
      by (auto simp: bindE_def unique_object_def requireE_def split: sum.splits if_splits)
  qed
  moreover have "parse_elems (Suc n) s \<noteq> Inl OutOfFuel" if "2 * length s + 1 < Suc n" for s
  proof (cases "parse_value n s")
    case (Inl x)
    with v [of s] that show ?thesis by simp
  next
    case (Inr p)
    obtain w r where p: "p = (w, r)" by (cases p)
    with Inr have "length r < length s" by (auto dest: parse_value_length)
    then have "parse_elems n (skip_ws r') \<noteq> Inl OutOfFuel" if "skip_ws r = c # r'" for c r'
      using e [of "skip_ws r'"] skip_Cons [OF that] \<open>2 * length s + 1 < Suc n\<close> by simp
    with Inr p show ?thesis
      by (auto simp: bindE_def split: sum.splits list.splits)
  qed
  moreover have "parse_members (Suc n) s \<noteq> Inl OutOfFuel" if l: "2 * length s + 1 < Suc n" for s
  proof (cases "parse_key s")
    case (Inl x)
    with parse_key_fuel [of s] show ?thesis by auto
  next
    case (Inr q)
    obtain k r2 where q: "q = (k, r2)" by (cases q)
    with Inr have r2: "length r2 < length s" by (auto dest: parse_key_length)
    show ?thesis
    proof (cases "parse_value n r2")
      case (Inl x)
      with \<open>parse_key s = Inr q\<close> q v [of r2] r2 l show ?thesis by simp
    next
      case (Inr p)
      obtain w r where p: "p = (w, r)" by (cases p)
      with Inr have "length r < length r2" by (auto dest: parse_value_length)
      then have "parse_members n (skip_ws r') \<noteq> Inl OutOfFuel" if "skip_ws r = c # r'" for c r'
        using m [of "skip_ws r'"] skip_Cons [OF that] r2 l by simp
      with \<open>parse_key s = Inr q\<close> q Inr p show ?thesis
        by (auto simp: bindE_def split: sum.splits list.splits)
    qed
  qed
  ultimately show ?case by blast
qed

text \<open>\<open>loads\<close> and \<open>decode\<close> never run out of fuel.\<close>

lemma loads_fuel: "loads raw \<noteq> Inl OutOfFuel"
  using parse_fuel [of "2 * length (skip_ws (removeprefix [ascii 239, ascii 187, ascii 191] raw)) + 1"]
  by (auto simp: loads_def Let_def bindE_def split: sum.splits)

section \<open>Reading back what was written\<close>

text \<open>
  The values for which the round trip is stated: no floats, ASCII strings, distinct keys, and
  integers of at most 4300 digits, the limit of Python's \<^verbatim>\<open>int\<close>.
\<close>

primrec plain :: "json \<Rightarrow> bool" where
  "plain JNull = True"
| "plain (JBool b) = True"
| "plain (JInt i) = (length (show_nat (nat \<bar>i\<bar>)) \<le> 4300)"
| "plain (JFloat t) = False"
| "plain (JStr s) = ascii_only s"
| "plain (JList xs) = list_all id (map plain xs)"
| "plain (JObj kvs) = (distinct (map fst kvs) \<and>
     list_all (\<lambda>(k, b). ascii_only k \<and> b) (map (map_prod id plain) kvs))"

lemma length_show_nat: "n < 10 ^ k \<Longrightarrow> length (show_nat n) \<le> max k 1"
proof (induction n arbitrary: k rule: show_nat.induct)
  case (1 n)
  show ?case
  proof (cases "n < 10")
    case True
    then show ?thesis by (subst show_nat.simps) simp
  next
    case False
    then obtain j where k: "k = Suc j" using "1.prems" by (cases k) auto
    have "n div 10 < 10 ^ j" using "1.prems" by (simp add: k div_less_iff_less_mult mult.commute)
    with "1.IH" [OF False] have "length (show_nat (n div 10)) \<le> max j 1" .
    moreover have "0 < j" using False "1.prems" by (cases j) (auto simp: k)
    ultimately show ?thesis using False by (subst show_nat.simps) (simp add: k)
  qed
qed

lemma plain_JInt:
  assumes "\<bar>i\<bar> < 10 ^ 20"
  shows "plain (JInt i)"
proof -
  have "nat \<bar>i\<bar> < 10 ^ 20" using assms by simp
  from length_show_nat [OF this] show ?thesis by simp
qed

lemma hex_val_digit: "d < 16 \<Longrightarrow> hex_val (hex_digit d) = Some d"
  by (auto simp: hex_val_def hex_digit_def Let_def of_char_of)

lemma hex4_val_hex4:
  assumes "u < 65536"
  shows "hex4_val (hex_digit (u div 4096 mod 16)) (hex_digit (u div 256 mod 16))
    (hex_digit (u div 16 mod 16)) (hex_digit (u mod 16)) = Some u"
proof -
  have 1: "u = 16 * (u div 16) + u mod 16" by simp
  have 2: "u div 16 = 16 * (u div 256) + u div 16 mod 16"
    using div_mult2_eq [of u 16 16] by simp
  have 3: "u div 256 = 16 * (u div 4096) + u div 256 mod 16"
    using div_mult2_eq [of u 256 16] by simp
  have "u div 4096 < 16" using assms by (simp add: less_mult_imp_div_less)
  moreover have "u div 4096 * 4096 + (u div 256 mod 16) * 256 + (u div 16 mod 16) * 16 + u mod 16 = u"
    using 1 2 3 by linarith
  ultimately show ?thesis by (simp add: hex4_val_def hex_val_digit)
qed

definition unit_of :: "char \<Rightarrow> char + nat" where
  "unit_of c = (let u = of_char c in
     if u \<in> {34, 92, 10, 13, 9, 12, 8} \<or> 32 \<le> u \<and> u < (127 :: nat) then Inl c else Inr u)"

lemma scan_units_u_escape:
  assumes "u < 65536"
  shows "scan_units (u_escape u @ t) = bindE (scan_units t) (\<lambda>(us, r). Inr (Inr u # us, r))"
proof -
  have "simple_escape CHR ''u'' = None" by (simp add: simple_escape_def)
  then show ?thesis
    by (simp add: scan_units.simps(2) u_escape_def hex4_def next_unit_def hex4_val_hex4 [OF assms])
qed

lemma scan_units_plain:
  assumes "32 \<le> u" and "u < (256 :: nat)" and "u \<noteq> 34" and "u \<noteq> 92"
  shows "scan_units (ascii u # t) = bindE (scan_units t) (\<lambda>(us, r). Inr (Inl (ascii u) # us, r))"
proof -
  have "ascii u \<noteq> CHR 0x22" "ascii u \<noteq> CHR 0x5C" using assms by (simp_all add: ascii_eq_iff)
  with assms show ?thesis
    by (simp add: scan_units.simps(2) next_unit_def of_char_of)
qed

lemma scan_units_simple:
  assumes "simple_escape e = Some x"
  shows "scan_units (CHR 0x5C # e # t) = bindE (scan_units t) (\<lambda>(us, r). Inr (Inl x # us, r))"
  using assms by (simp add: scan_units.simps(2) next_unit_def)

lemma simple_escapes:
  "u \<in> {34, 92, 10, 13, 9, 12, 8} \<Longrightarrow>
    escape u = [CHR 0x5C, last (escape u)] \<and> simple_escape (last (escape u)) = Some (ascii u)"
  by (elim insertE emptyE; hypsubst; code_simp)

lemma scan_units_escape:
  assumes "of_char c < (128 :: nat)"
  shows "scan_units (escape (of_char c) @ t) = bindE (scan_units t) (\<lambda>(us, r). Inr (unit_of c # us, r))"
proof -
  define u :: nat where "u = of_char c"
  have c: "c = ascii u" by (simp add: u_def)
  consider (special) "u \<in> {34, 92, 10, 13, 9, 12, 8}"
    | (plain) "u \<notin> {34, 92, 10, 13, 9, 12, 8}" "32 \<le> u" "u < 127"
    | (other) "u \<notin> {34, 92, 10, 13, 9, 12, 8}" "\<not> (32 \<le> u \<and> u < 127)" by blast
  then show ?thesis
  proof cases
    case special
    with simple_escapes [of u] obtain e where "escape u = [CHR 0x5C, e]" "simple_escape e = Some c"
      unfolding c by blast
    with special show ?thesis by (auto simp: u_def [symmetric] scan_units_simple unit_of_def Let_def)
  next
    case plain
    then show ?thesis
      by (auto simp: c escape_def unit_of_def scan_units_plain of_char_of)
  next
    case other
    have "u < 128" using assms by (simp add: u_def)
    with other have "escape u = u_escape u" "unit_of c = Inr u"
      by (auto simp add: escape_def unit_of_def Let_def u_def [symmetric])
    with \<open>u < 128\<close> show ?thesis by (simp add: u_def [symmetric] scan_units_u_escape)
  qed
qed

lemma assemble_unit:
  assumes "of_char c < (128 :: nat)"
  shows "assemble (unit_of c # us) = c # assemble us"
  using assms by (auto simp: unit_of_def Let_def utf8_enc_def split: list.split sum.split)

lemma scan_str_escape:
  assumes "ascii_only s"
  shows "scan_str (concat (map escape (map of_char s)) @ CHR 0x22 # r) = Inr (s, r)"
proof -
  have "scan_units (concat (map escape (map of_char s)) @ CHR 0x22 # r) = Inr (map unit_of s, r)"
    using assms
  proof (induction s)
    case Nil
    then show ?case by (simp add: scan_units.simps)
  next
    case (Cons c s)
    then show ?case by (simp add: ascii_only_def scan_units_escape)
  qed
  moreover have "assemble (map unit_of s) = s"
    using assms by (induction s) (simp_all add: ascii_only_def assemble_unit)
  ultimately show ?thesis by (simp add: scan_str_def)
qed

lemma scan_json_str:
  "ascii_only s \<Longrightarrow> scan_str (tl (json_str s) @ r) = Inr (s, r)"
  using scan_str_escape [of s r]
  by (simp add: json_str_def codepoints_def utf8_dec_ascii)

lemma json_str_Cons: "json_str s = CHR 0x22 # tl (json_str s)"
  by (simp add: json_str_def)

lemma show_nat_no_zero: "0 < n \<Longrightarrow> hd (show_nat n) \<noteq> CHR ''0''"
proof (induction n rule: show_nat.induct)
  case (1 n)
  show ?case
  proof (cases "n < 10")
    case True
    have "of_char CHR ''0'' = (48 :: nat)" by simp
    then have "ascii (48 + n) = CHR ''0'' \<longleftrightarrow> 48 + n = 48" using True by (simp add: ascii_eq_iff)
    with True "1.prems" show ?thesis by (subst show_nat.simps) simp
  next
    case False
    then have "hd (show_nat n) = hd (show_nat (n div 10))" by (subst show_nat.simps) simp
    with False "1.IH" show ?thesis by simp
  qed
qed

text \<open>What may follow a number in a document: the end or a delimiter.\<close>

definition delimited :: "string \<Rightarrow> bool" where
  "delimited r \<longleftrightarrow> r = [] \<or> hd r \<in> set [CHR '','', CHR '']'', CHR ''}'', newline]"

lemma delimited_stop: "delimited r \<Longrightarrow> takeWhile is_digit r = []"
  by (cases r) (auto simp: delimited_def is_digit_def newline_def)

lemma delimited_scan: "delimited r \<Longrightarrow> scan_frac r = [] \<and> scan_exp r = []"
  by (cases r) (auto simp: delimited_def scan_frac_def scan_exp_def newline_def)

lemma scan_number_nat:
  assumes "length (show_nat n) \<le> 4300" and "delimited r"
    and "neg \<longleftrightarrow> s = CHR ''-'' # show_nat n @ r" and "\<not> neg \<Longrightarrow> s = show_nat n @ r"
  shows "scan_number s = Inr (JInt (if neg then - int n else int n), r)"
proof -
  obtain c cs where d: "show_nat n = c # cs" "is_digit c" using show_nat_head by blast
  then have m: "c \<noteq> CHR ''-''" by (auto simp: is_digit_def)
  have u: "startswith s ''-'' = neg" "removeprefix ''-'' s = show_nat n @ r"
    using assms(3,4) d m by (auto simp: startswith_def removeprefix_def)
  have t: "takeWhile is_digit (show_nat n @ r) = show_nat n"
    using show_nat_digits [of n] delimited_stop [OF assms(2)]
    by (simp add: takeWhile_append2 list_all_iff)
  have ds: "(case show_nat n @ r of [] \<Rightarrow> [] | c # x \<Rightarrow> if c = CHR ''0'' then ''0''
      else takeWhile is_digit (show_nat n @ r)) = show_nat n"
  proof (cases "n = 0")
    case True
    then have "show_nat n = ''0''" by (subst show_nat.simps) (simp add: ascii_eq_iff)
    then show ?thesis by simp
  next
    case False
    then have "c \<noteq> CHR ''0''" using show_nat_no_zero [of n] d by simp
    with t d show ?thesis by simp
  qed
  show ?thesis
    using assms(1) delimited_scan [OF assms(2)]
    by (simp add: scan_number_def u Let_def ds)
qed

lemma scan_int:
  assumes "length (show_nat (nat \<bar>i\<bar>)) \<le> 4300" and "delimited r"
  shows "scan_number (show_int i @ r) = Inr (JInt i, r)"
proof (cases "i < 0")
  case True
  then show ?thesis
    using assms scan_number_nat [of "nat \<bar>i\<bar>" r True "show_int i @ r"]
    by (simp add: show_int_def)
next
  case False
  then obtain n where i: "i = int n" by (metis nonneg_int_cases not_less)
  obtain c cs where d: "show_nat n = c # cs" "is_digit c" using show_nat_head by blast
  then have "c \<noteq> CHR ''-''" by (auto simp: is_digit_def)
  with d assms i show ?thesis
    using scan_number_nat [of n r False "show_int i @ r"]
    by (simp add: show_int_def)
qed

text \<open>The first character of an encoded value.\<close>

lemma show_int_head: "\<exists>c cs. show_int i = c # cs \<and> (is_digit c \<or> c = CHR ''-'')"
  using show_nat_head [of "nat i"] by (auto simp: show_int_def)

lemma digit_neq:
  assumes "is_digit c"
  shows "(CHR ''n'' = c) = False" "(CHR ''t'' = c) = False" "(CHR ''f'' = c) = False"
    "(CHR ''N'' = c) = False" "(CHR ''I'' = c) = False" "(CHR ''-'' = c) = False"
    "(c = CHR 0x22) = False" "(c = CHR ''['') = False" "(c = CHR ''{'') = False"
    "(c = CHR '' '') = False" "(c = CHR 0x09) = False" "(c = CHR 0x0A) = False"
    "(c = CHR 0x0D) = False" "(c = CHR '']'') = False" "(c = CHR ''}'') = False"
  using assms by (auto simp: is_digit_def)

lemma scan_word_int:
  assumes "length (show_nat (nat \<bar>i\<bar>)) \<le> 4300" and "delimited r"
  shows "scan_word (show_int i @ r) = Inr (JInt i, r)"
proof -
  have "scan_word (show_int i @ r) = scan_number (show_int i @ r)"
  proof (cases "i < 0")
    case True
    obtain c cs where "show_nat (nat (- i)) = c # cs" "is_digit c" using show_nat_head by blast
    with True show ?thesis by (simp add: show_int_def scan_word_def digit_neq)
  next
    case False
    obtain c cs where "show_nat (nat i) = c # cs" "is_digit c" using show_nat_head by blast
    with False show ?thesis by (simp add: show_int_def scan_word_def digit_neq)
  qed
  then show ?thesis using scan_int [OF assms] by simp
qed

definition opens :: "char \<Rightarrow> bool" where
  "opens c \<longleftrightarrow> c \<notin> set [CHR '' '', CHR 0x09, CHR 0x0A, CHR 0x0D, CHR '']'', CHR ''}'']"

lemma dumps_head: "plain v \<Longrightarrow> \<exists>c cs. dumps v = c # cs \<and> opens c"
proof (cases v)
  case (JInt i)
  obtain c cs where c: "show_int i = c # cs" "is_digit c \<or> c = CHR ''-''"
    using show_int_head by blast
  have "opens c" using c(2) by (elim disjE) (simp_all add: opens_def digit_neq)
  with c JInt show ?thesis by simp
qed (simp_all add: json_str_def opens_def)

lemma skip_opens: "opens c \<Longrightarrow> skip_ws (c # s) = c # s"
  by (auto simp: opens_def skip_ws_def is_ws_def)

lemma skip_closed [simp]:
  "skip_ws (CHR '','' # s) = CHR '','' # s" "skip_ws (CHR '']'' # s) = CHR '']'' # s"
  "skip_ws (CHR ''}'' # s) = CHR ''}'' # s" "skip_ws (CHR '':'' # s) = CHR '':'' # s"
  "skip_ws (CHR 0x22 # s) = CHR 0x22 # s"
  by (simp_all add: skip_ws_def is_ws_def)

lemma skip_dumps: "plain v \<Longrightarrow> skip_ws (dumps v @ r) = dumps v @ r"
  using dumps_head [of v] skip_opens by auto

lemma dumps_not_close: "plain v \<Longrightarrow> \<not> startswith (dumps v @ r) '']''"
  using dumps_head [of v] by (auto simp: opens_def startswith_def)

text \<open>One value: the induction step of each constructor.\<close>

lemma parse_scalar:
  assumes "plain v" and "\<not> is_list v" and "\<not> is_dict v" and "delimited r" and "0 < n"
  shows "parse_value n (dumps v @ r) = Inr (v, r)"
proof -
  obtain m where n: "n = Suc m" using assms(5) by (cases n) auto
  show ?thesis
  proof (cases v)
    case (JInt i)
    obtain c cs where c: "show_int i = c # cs" "is_digit c \<or> c = CHR ''-''"
      using show_int_head by blast
    from c(2) have "c \<noteq> CHR 0x22" "c \<noteq> CHR ''[''" "c \<noteq> CHR ''{''"
      by (elim disjE; simp add: digit_neq)+
    with c JInt assms scan_word_int [of i r] show ?thesis by (simp add: n)
  next
    case (JStr t)
    obtain js where js: "json_str t = CHR 0x22 # js" "js = tl (json_str t)"
      using json_str_Cons [of t] by blast
    have "scan_str (js @ r) = Inr (t, r)" using scan_json_str [of t r] assms JStr js(2) by simp
    then show ?thesis by (simp add: JStr js(1) n)
  qed (use assms n in \<open>simp_all add: scan_word_def\<close>)
qed

definition parses :: "json \<Rightarrow> bool" where
  "parses v \<longleftrightarrow> (\<forall>n r. delimited r \<longrightarrow> 2 * length (dumps v @ r) < n \<longrightarrow>
     parse_value n (dumps v @ r) = Inr (v, r))"

lemma delimited_Cons [simp]:
  "delimited (CHR '','' # r)" "delimited (CHR '']'' # r)" "delimited (CHR ''}'' # r)"
  "delimited [newline]" "delimited []"
  by (simp_all add: delimited_def)

lemma parse_elems_dumps:
  assumes "\<And>x. x \<in> set xs \<Longrightarrow> parses x \<and> plain x" and "xs \<noteq> []"
    and "2 * length (join_with '','' (map dumps xs) @ CHR '']'' # r) + 1 < n"
  shows "parse_elems n (join_with '','' (map dumps xs) @ CHR '']'' # r) = Inr (xs, r)"
  using assms
proof (induction xs arbitrary: n)
  case Nil
  then show ?case by simp
next
  case (Cons x xs)
  obtain m where n: "n = Suc m" using Cons.prems(3) by (cases n) auto
  have x: "parses x" "plain x" using Cons.prems(1) by auto
  show ?case
  proof (cases xs)
    case Nil
    have "parse_value m (dumps x @ CHR '']'' # r) = Inr (x, CHR '']'' # r)"
      using x(1) Cons.prems(3) by (simp add: parses_def n Nil)
    then show ?thesis by (simp add: n Nil)
  next
    case (Cons y ys)
    define t where "t = join_with '','' (map dumps xs) @ CHR '']'' # r"
    have s: "join_with '','' (map dumps (x # xs)) @ CHR '']'' # r = dumps x @ CHR '','' # t"
      by (simp add: t_def Cons)
    have "parse_value m (dumps x @ CHR '','' # t) = Inr (x, CHR '','' # t)"
      using x(1) Cons.prems(3) unfolding s by (simp add: parses_def n)
    moreover have "skip_ws t = t"
      using Cons Cons.prems(1) skip_dumps [of y] by (cases ys) (auto simp: t_def)
    moreover have "parse_elems m t = Inr (xs, r)"
      unfolding t_def using Cons.prems Cons by (intro Cons.IH) (auto simp: n)
    ultimately show ?thesis unfolding s by (simp add: n)
  qed
qed

abbreviation dump_pair :: "string \<times> json \<Rightarrow> string" where
  "dump_pair p \<equiv> json_str (fst p) @ '':'' @ dumps (snd p)"

lemma parse_key_dumps:
  assumes "ascii_only k" and "plain v"
  shows "parse_key (dump_pair (k, v) @ r) = Inr (k, dumps v @ r)"
proof -
  obtain js where js: "json_str k = CHR 0x22 # js" "js = tl (json_str k)"
    using json_str_Cons [of k] by blast
  have "scan_str (js @ CHR '':'' # dumps v @ r) = Inr (k, CHR '':'' # dumps v @ r)"
    using scan_json_str [of k "CHR '':'' # dumps v @ r"] assms js(2) by simp
  then show ?thesis by (simp add: js(1) parse_key_def skip_dumps assms)
qed

lemma parse_members_dumps:
  assumes "\<And>k v. (k, v) \<in> set kvs \<Longrightarrow> ascii_only k \<and> parses v \<and> plain v" and "kvs \<noteq> []"
    and "2 * length (join_with '','' (map dump_pair kvs) @ CHR ''}'' # r) + 1 < n"
  shows "parse_members n (join_with '','' (map dump_pair kvs) @ CHR ''}'' # r) = Inr (kvs, r)"
  using assms
proof (induction kvs arbitrary: n)
  case Nil
  then show ?case by simp
next
  case (Cons x xs)
  obtain m where n: "n = Suc m" using Cons.prems(3) by (cases n) auto
  obtain k v where kv: "x = (k, v)" by (cases x)
  have x: "ascii_only k" "parses v" "plain v" using Cons.prems(1) kv by auto
  show ?case
  proof (cases xs)
    case Nil
    have "parse_value m (dumps v @ CHR ''}'' # r) = Inr (v, CHR ''}'' # r)"
      using x(2) Cons.prems(3) by (simp add: parses_def n Nil kv)
    then show ?thesis using parse_key_dumps [OF x(1,3)] by (simp add: n Nil kv)
  next
    case (Cons y ys)
    define t where "t = join_with '','' (map dump_pair xs) @ CHR ''}'' # r"
    have s: "join_with '','' (map dump_pair (x # xs)) @ CHR ''}'' # r = dump_pair (k, v) @ CHR '','' # t"
      by (simp add: t_def Cons kv)
    have "parse_value m (dumps v @ CHR '','' # t) = Inr (v, CHR '','' # t)"
      using x(2) Cons.prems(3) unfolding s by (simp add: parses_def n)
    moreover have "skip_ws t = t"
      using Cons by (cases ys) (simp_all add: t_def json_str_def)
    moreover have "parse_members m t = Inr (xs, r)"
      unfolding t_def using Cons.prems Cons by (intro Cons.IH) (auto simp: n)
    ultimately show ?thesis
      using parse_key_dumps [OF x(1,3)] unfolding s by (simp add: n kv)
  qed
qed

lemma parse_list:
  assumes "\<And>x. x \<in> set xs \<Longrightarrow> parses x \<and> plain x"
  shows "parses (JList xs)"
  unfolding parses_def
proof (intro allI impI)
  fix n r
  assume "delimited r" and l: "2 * length (dumps (JList xs) @ r) < n"
  then obtain m where n: "n = Suc m" by (cases n) auto
  show "parse_value n (dumps (JList xs) @ r) = Inr (JList xs, r)"
  proof (cases xs)
    case Nil
    then show ?thesis by (simp add: n startswith_def)
  next
    case (Cons y ys)
    define t where "t = join_with '','' (map dumps xs) @ CHR '']'' # r"
    obtain z where t: "t = dumps y @ z" using Cons by (cases ys) (auto simp: t_def)
    have "plain y" using assms Cons by simp
    then have "skip_ws t = t" "\<not> startswith t '']''" by (simp_all add: t skip_dumps dumps_not_close)
    moreover have "parse_elems m t = Inr (xs, r)"
      unfolding t_def using assms l Cons by (intro parse_elems_dumps) (auto simp: n)
    ultimately show ?thesis by (simp add: n t_def)
  qed
qed

lemma dumps_JObj: "dumps (JObj kvs) = ''{'' @ join_with '','' (map dump_pair kvs) @ ''}''"
  by (simp add: comp_def case_prod_beta map_prod_def)

lemma parse_obj:
  assumes "\<And>k v. (k, v) \<in> set kvs \<Longrightarrow> ascii_only k \<and> parses v \<and> plain v"
    and "distinct (map fst kvs)"
  shows "parses (JObj kvs)"
  unfolding parses_def
proof (intro allI impI)
  fix n r
  assume "delimited r" and l: "2 * length (dumps (JObj kvs) @ r) < n"
  then obtain m where n: "n = Suc m" by (cases n) auto
  show "parse_value n (dumps (JObj kvs) @ r) = Inr (JObj kvs, r)"
  proof (cases kvs)
    case Nil
    then show ?thesis by (simp add: n startswith_def)
  next
    case (Cons y ys)
    define t where "t = join_with '','' (map dump_pair kvs) @ CHR ''}'' # r"
    obtain z where t: "t = CHR 0x22 # z" using Cons by (cases ys) (auto simp: t_def json_str_def)
    then have "skip_ws t = t" "\<not> startswith t ''}''" by (simp_all add: startswith_def)
    moreover have "parse_members m t = Inr (kvs, r)"
      unfolding t_def using assms l Cons unfolding dumps_JObj
      by (intro parse_members_dumps) (auto simp: n)
    ultimately show ?thesis
      unfolding dumps_JObj using assms(2) by (simp add: n t_def unique_object_def)
  qed
qed

lemma parses_scalar: "plain v \<Longrightarrow> \<not> is_list v \<Longrightarrow> \<not> is_dict v \<Longrightarrow> parses v"
  by (simp add: parses_def parse_scalar)

lemma parses_plain: "plain v \<Longrightarrow> parses v"
proof (induction v)
  case (JList xs)
  then show ?case by (intro parse_list) (auto simp: list_all_iff)
next
  case (JObj kvs)
  have "ascii_only k \<and> parses v \<and> plain v" if "(k, v) \<in> set kvs" for k v
    using JObj.IH [of "(k, v)" v] JObj.prems that by (auto simp: list_all_iff)
  then show ?case using JObj.prems by (intro parse_obj) auto
qed (rule parses_scalar; simp)+

section \<open>The codec\<close>

lemma ascii_only_append [simp]: "ascii_only (s @ t) \<longleftrightarrow> ascii_only s \<and> ascii_only t"
  by (simp add: ascii_only_def)

lemma ascii_only_Cons [simp]: "ascii_only (c # t) \<longleftrightarrow> of_char c < (128 :: nat) \<and> ascii_only t"
  by (simp add: ascii_only_def)

lemma ascii_only_Nil [simp]: "ascii_only []"
  by (simp add: ascii_only_def)

lemma ascii_only_join: "ascii_only sep \<Longrightarrow> (\<And>s. s \<in> set xs \<Longrightarrow> ascii_only s) \<Longrightarrow> ascii_only (join_with sep xs)"
  by (induction sep xs rule: join_with.induct) auto

lemma ascii_digits: "list_all is_digit s \<Longrightarrow> ascii_only s"
  by (auto simp: ascii_only_def list_all_iff is_digit_iff)

lemma ascii_escape: "u < 65536 \<Longrightarrow> ascii_only (escape u)"
proof -
  have "of_char (hex_digit (d mod 16)) < (128 :: nat)" for d
  proof -
    have "d mod 16 < 16" by simp
    then show ?thesis unfolding hex_digit_def by (auto simp: of_char_of)
  qed
  then have "ascii_only (u_escape u)"
    unfolding u_escape_def hex4_def by simp
  then show "u < 65536 \<Longrightarrow> ascii_only (escape u)"
    by (auto simp: escape_def of_char_of)
qed

lemma ascii_json_str:
  assumes "ascii_only s"
  shows "ascii_only (json_str s)"
proof -
  have "ascii_only (concat (map escape (map of_char s)))"
    using assms by (induction s) (auto intro: ascii_escape)
  with assms show ?thesis by (simp add: json_str_def codepoints_def utf8_dec_ascii)
qed

lemma ascii_dumps: "plain v \<Longrightarrow> ascii_only (dumps v)"
proof (induction v)
  case (JInt i)
  then show ?case using show_nat_digits by (simp add: show_int_def ascii_digits)
next
  case (JList xs)
  then show ?case by (auto simp: list_all_iff intro!: ascii_only_join)
next
  case (JObj kvs)
  have "ascii_only (dump_pair (k, v))" if "(k, v) \<in> set kvs" for k v
    using JObj.IH [of "(k, v)" v] JObj.prems that by (auto simp: list_all_iff ascii_json_str)
  then show ?case unfolding dumps_JObj by (auto intro!: ascii_only_join)
qed (simp_all add: ascii_json_str)

lemma map_insort_fst:
  "map (map_prod id f) (insort_key fst x xs) = insort_key fst (map_prod id f x) (map (map_prod id f) xs)"
  by (induction xs) auto

lemma map_sort_fst: "map (map_prod id f) (sort_key fst xs) = sort_key fst (map (map_prod id f) xs)"
proof (induction xs)
  case Nil
  then show ?case by simp
next
  case (Cons a xs)
  have "map (map_prod id f) (sort_key fst (a # xs)) =
      insort_key fst (map_prod id f a) (map (map_prod id f) (sort_key fst xs))"
    using map_insort_fst [of f a "sort_key fst xs"] by (simp del: id_apply map_prod_simp add: id_def)
  then show ?case unfolding Cons.IH by (simp add: id_def)
qed

lemma distinct_insort_fst: "distinct (map fst (insort_key fst x xs)) \<longleftrightarrow> distinct (map fst (x # xs))"
  by (induction xs) (auto simp: set_insort_key)

lemma distinct_sort_fst: "distinct (map fst (sort_key fst xs)) \<longleftrightarrow> distinct (map fst xs)"
proof (induction xs)
  case (Cons a xs)
  then show ?case by (simp add: distinct_insort_fst)
qed simp

lemma jsort_jsort [simp]: "jsort (jsort v) = jsort v"
proof (induction v)
  case (JObj kvs)
  have "map (map_prod id jsort) (map (map_prod id jsort) kvs) = map (map_prod id jsort) kvs"
    using JObj.IH by (auto simp: map_prod_def)
  then have "map (map_prod id jsort) (sort_key fst (map (map_prod id jsort) kvs)) =
      sort_key fst (map (map_prod id jsort) kvs)"
    by (simp only: map_sort_fst)
  then show ?case by (simp add: sort_key_id_if_sorted)
qed simp_all

lemma plain_jsort: "plain v \<Longrightarrow> plain (jsort v)"
proof (induction v)
  case (JList xs)
  then show ?case by (auto simp: list_all_iff)
next
  case (JObj kvs)
  have "ascii_only k \<and> plain (jsort v)" if "(k, v) \<in> set kvs" for k v
    using JObj.IH [of "(k, v)" v] JObj.prems that by (auto simp: list_all_iff)
  then show ?case
    using JObj.prems by (auto simp: list_all_iff distinct_sort_fst comp_def)
qed simp_all

lemma decode_canonical:
  assumes "plain v"
  shows "decode (canonical v) = Inr (jsort v)"
proof -
  have p: "plain (jsort v)" by (rule plain_jsort [OF assms])
  obtain c cs where c: "dumps (jsort v) = c # cs" "opens c" using dumps_head [OF p] by blast
  have a: "ascii_only (canonical v)"
    using ascii_dumps [OF p] by (simp add: canonical_def newline_def)
  then have "of_char c < (128 :: nat)" using c by (simp add: canonical_def)
  then have "c \<noteq> ascii 239" by (auto simp: of_char_of)
  then have r: "removeprefix [ascii 239, ascii 187, ascii 191] (canonical v) = canonical v"
    by (auto simp: removeprefix_def canonical_def c)
  have s: "skip_ws (canonical v) = canonical v"
    unfolding canonical_def by (rule skip_dumps [OF p])
  have "parse_value (2 * length (canonical v) + 1) (canonical v) = Inr (jsort v, [newline])"
    using parses_plain [OF p] delimited_Cons(4) unfolding parses_def canonical_def
    by (meson less_add_one)
  moreover have "skip_ws [newline] = []" by (simp add: skip_ws_def is_ws_def newline_def)
  ultimately show ?thesis
    using utf8_dec_ascii [OF a] by (simp add: decode_def loads_def r s)
qed

interpretation json: codec canonical decode jsort plain
proof unfold_locales
  show "decode (canonical v) = Inr (jsort v)" if "plain v" for v by (rule decode_canonical [OF that])
  show "canonical (jsort v) = canonical v" for v by (simp add: canonical_def)
qed

section \<open>Reading a sorted value\<close>

lemma map_of_insort: "k \<notin> fst ` set xs \<Longrightarrow> map_of (insort_key fst (k, v) xs) = (map_of xs)(k \<mapsto> v)"
  by (induction xs) (auto simp: fun_eq_iff)

lemma map_of_sort_fst: "distinct (map fst xs) \<Longrightarrow> map_of (sort_key fst xs) = map_of xs"
proof (induction xs)
  case (Cons x xs)
  obtain k v where x: "x = (k, v)" by (cases x)
  have "k \<notin> fst ` set (sort_key fst xs)" using Cons.prems by (simp add: x)
  with Cons show ?case by (simp add: x map_of_insort)
qed simp

lemma jget_jsort:
  assumes "is_dict v" and "distinct (keys_of v)"
  shows "jget (jsort v) k = jsort (jget v k)" and "has_key (jsort v) k = has_key v k"
proof -
  obtain kvs where v: "v = JObj kvs" using assms(1) by (auto simp: is_dict_iff)
  have e: "map (map_prod id jsort) kvs = map (\<lambda>(k, x). (k, jsort x)) kvs"
    by (simp add: map_prod_def)
  have "distinct (map fst (map (\<lambda>(k, x). (k, jsort x)) kvs))"
    using assms(2) by (simp add: v keys_of_def comp_def case_prod_beta)
  then have "map_of (items_of (jsort v)) k = map_option jsort (map_of kvs k)"
    by (simp add: v e map_of_sort_fst map_of_map)
  then show "jget (jsort v) k = jsort (jget v k)" "has_key (jsort v) k = has_key v k"
    by (auto simp: jget_def has_key_def v split: option.split)
qed

lemma plain_JObj_iff:
  "plain (JObj kvs) \<longleftrightarrow> distinct (map fst kvs) \<and> (\<forall>(k, v) \<in> set kvs. ascii_only k \<and> plain v)"
  by (auto simp: list_all_iff)

lemma plain_jget: "plain v \<Longrightarrow> plain (jget v k)"
  by (cases v) (auto simp: jget_def list_all_iff split: option.split dest!: map_of_SomeD)

lemma plain_jset:
  assumes "plain r" and "is_dict r" and "ascii_only k" and "plain v"
  shows "plain (jset r k v)" and "is_dict (jset r k v)"
proof -
  obtain kvs where r: "r = JObj kvs" using assms(2) by (auto simp: is_dict_iff)
  have "set (AList.update k v kvs) \<subseteq> insert (k, v) (set kvs)"
    by (induction kvs) auto
  moreover have "distinct (map fst (AList.update k v kvs))"
    using assms(1) r by (intro distinct_update) auto
  ultimately have "plain (JObj (AList.update k v kvs))"
    using assms unfolding r plain_JObj_iff by blast
  then show "plain (jset r k v)" "is_dict (jset r k v)"
    by (simp_all add: jset_def r del: plain.simps)
qed

lemma plain_distinct: "plain r \<Longrightarrow> distinct (keys_of r)"
  by (cases r) (auto simp: keys_of_def)

lemma ascii_class: "list_all P t \<Longrightarrow> (\<And>c. P c \<Longrightarrow> of_char c < (128 :: nat)) \<Longrightarrow> ascii_only t"
  by (auto simp: ascii_only_def list_all_iff)

lemma ascii_hex: "match_count is_hex n t \<Longrightarrow> ascii_only t"
  by (auto simp: match_count_def is_hex_def elim!: ascii_class)

text \<open>A record that was written is read back with the same fields.\<close>

lemma decode_canonical_get:
  assumes "plain r" and "is_dict r"
  shows "\<exists>v. decode (canonical r) = Inr v \<and> is_dict v \<and> plain v \<and> v = jsort r \<and>
    (\<forall>k. jget v k = jsort (jget r k) \<and> has_key v k = has_key r k)"
proof -
  have "is_dict (jsort r)" using assms(2) by (cases r) auto
  then show ?thesis
    using decode_canonical [OF assms(1)] plain_jsort [OF assms(1)]
      jget_jsort [OF assms(2) plain_distinct [OF assms(1)]] by blast
qed

end
