(* ===== verification/Common.thy ===== *)
theory Common
  imports JsonCodec
begin

text \<open>
  \<^verbatim>\<open>scripts/hermes/unattended/common.py\<close>: the checked file access, the atomic replacement, the lock,
  the external commands and the report of a result. The world has a file system (paths to nodes), the
  effective user, the locks other processes hold, and the failures that the next writes will meet;
  \<open>'x\<close> is whatever else commands change (containers, packages, the provider).
\<close>

unbundle bit_operations_syntax

section \<open>The world\<close>

text \<open>Files and directories carry their permission bits and their owner.\<close>

datatype node =
    NFile string nat nat
  | NDir nat nat
  | NLink string

type_synonym fsys = "path \<Rightarrow> node option"

record 'x world =
  files :: fsys
  euid :: nat
  busy :: "path list"
  faults :: "nat list"
  ext :: 'x

fun node_mode :: "node \<Rightarrow> nat" where
  "node_mode (NFile c m u) = m"
| "node_mode (NDir m u) = m"
| "node_mode (NLink t) = 511"

fun node_uid :: "node \<Rightarrow> nat" where
  "node_uid (NFile c m u) = u"
| "node_uid (NDir m u) = u"
| "node_uid (NLink t) = 0"

fun is_reg :: "node \<Rightarrow> bool" where
  "is_reg (NFile c m u) = True"
| "is_reg _ = False"

fun is_dirn :: "node \<Rightarrow> bool" where
  "is_dirn (NDir m u) = True"
| "is_dirn _ = False"

fun is_link :: "node \<Rightarrow> bool" where
  "is_link (NLink t) = True"
| "is_link _ = False"

text \<open>Group or others may write: \<^verbatim>\<open>mode & 0o022\<close>; group or others may do anything: \<^verbatim>\<open>mode & 0o077\<close>.\<close>

definition writable_by_others :: "node \<Rightarrow> bool" where
  "writable_by_others n \<longleftrightarrow> node_mode n AND 18 \<noteq> 0"

definition open_to_others :: "node \<Rightarrow> bool" where
  "open_to_others n \<longleftrightarrow> node_mode n AND 63 \<noteq> 0"

text \<open>
  Following a final symbolic link, at most 40 times; the directories of a path are not links in the
  trees the sources use.
\<close>

fun follow :: "nat \<Rightarrow> fsys \<Rightarrow> path \<Rightarrow> path option" where
  "follow 0 fs p = None"
| "follow (Suc n) fs p =
     (case fs p of
        Some (NLink t) \<Rightarrow>
          follow n fs (resolve_dots (if path_absolute t then [] else butlast p) (path_comps t))
      | _ \<Rightarrow> Some p)"

definition node_at :: "fsys \<Rightarrow> path \<Rightarrow> node option" where
  "node_at fs p = (case follow 40 fs p of None \<Rightarrow> None | Some q \<Rightarrow> fs q)"

definition exists_at :: "fsys \<Rightarrow> path \<Rightarrow> bool" where
  "exists_at fs p \<longleftrightarrow> node_at fs p \<noteq> None"

text \<open>\<^verbatim>\<open>Path.is_dir\<close> and \<^verbatim>\<open>Path.is_file\<close> follow a link, \<^verbatim>\<open>Path.is_symlink\<close> does not.\<close>

definition is_dir_at :: "fsys \<Rightarrow> path \<Rightarrow> bool" where
  "is_dir_at fs p \<longleftrightarrow> (case node_at fs p of None \<Rightarrow> False | Some n \<Rightarrow> is_dirn n)"

definition is_file_at :: "fsys \<Rightarrow> path \<Rightarrow> bool" where
  "is_file_at fs p \<longleftrightarrow> (case node_at fs p of None \<Rightarrow> False | Some n \<Rightarrow> is_reg n)"

definition is_link_at :: "fsys \<Rightarrow> path \<Rightarrow> bool" where
  "is_link_at fs p \<longleftrightarrow> (case fs p of None \<Rightarrow> False | Some n \<Rightarrow> is_link n)"

text \<open>\<^verbatim>\<open>Path.read_bytes\<close>\<close>

definition read_bytes :: "fsys \<Rightarrow> path \<Rightarrow> string res" where
  "read_bytes fs p = (case node_at fs p of Some (NFile c m u) \<Rightarrow> Inr c | _ \<Rightarrow> Inl OSError)"

lemma node_at_plain: "fs p \<noteq> None \<Longrightarrow> \<not> (\<exists>t. fs p = Some (NLink t)) \<Longrightarrow> node_at fs p = fs p"
  by (auto simp: node_at_def numeral_eq_Suc split: node.splits)

lemma read_bytes_file [simp]: "fs p = Some (NFile c m u) \<Longrightarrow> read_bytes fs p = Inr c"
  by (simp add: read_bytes_def node_at_plain)

section \<open>Checked access\<close>

definition parents :: "path \<Rightarrow> path list" where
  "parents p = map (\<lambda>n. take n p) (rev [0..<length p])"

definition trusted_dir :: "fsys \<Rightarrow> nat \<Rightarrow> path \<Rightarrow> unit \<Rightarrow> unit res" where
  "trusted_dir fs owner d _ =
     (case fs d of None \<Rightarrow> Inl OSError
      | Some n \<Rightarrow> requireE (is_dirn n \<and> node_uid n = owner \<and> \<not> writable_by_others n)
                    ''unsafe-trust-directory'' 78 (Inr ()))"

definition protected_file :: "fsys \<Rightarrow> path \<Rightarrow> nat option \<Rightarrow> path res" where
  "protected_file fs p owner =
     (case fs p of None \<Rightarrow> Inl OSError
      | Some n \<Rightarrow>
          requireE (is_reg n) ''unsafe-file-type'' 78 (
          requireE (\<not> writable_by_others n) ''writable-trust-file'' 78 (
          (case owner of None \<Rightarrow> Inr p
           | Some u \<Rightarrow>
               requireE (node_uid n = u) ''wrong-file-owner'' 78 (
               bindE (foldE (trusted_dir fs u) (parents p) ()) (\<lambda>_. Inr p))))))"

lemma set_parents: "set (parents p) = {d. \<exists>r. r \<noteq> [] \<and> p = d @ r}"
proof -
  have "d \<in> (\<lambda>n. take n p) ` {0..<length p} \<longleftrightarrow> (\<exists>r. r \<noteq> [] \<and> p = d @ r)" for d
  proof
    assume "d \<in> (\<lambda>n. take n p) ` {0..<length p}"
    then obtain n where "n < length p" "d = take n p" by auto
    then show "\<exists>r. r \<noteq> [] \<and> p = d @ r"
      by (intro exI [of _ "drop n p"]) simp
  next
    assume "\<exists>r. r \<noteq> [] \<and> p = d @ r"
    then obtain r where "r \<noteq> []" "p = d @ r" by blast
    then show "d \<in> (\<lambda>n. take n p) ` {0..<length p}"
      by (intro image_eqI [of _ _ "length d"]) auto
  qed
  then show ?thesis by (auto simp: parents_def)
qed

lemma foldE_unit: "foldE f xs () = Inr () \<longleftrightarrow> (\<forall>x \<in> set xs. f x () = Inr ())"
  by (induction xs) (auto simp: bindE_Inr_iff)

lemma protected_file_iff:
  "protected_file fs p owner = Inr q \<longleftrightarrow>
     q = p \<and> (\<exists>c m u. fs p = Some (NFile c m u) \<and> m AND 18 = 0 \<and>
       (\<forall>o'. owner = Some o' \<longrightarrow> u = o' \<and>
          (\<forall>d r. p = d @ r \<and> r \<noteq> [] \<longrightarrow> (\<exists>dm. fs d = Some (NDir dm o') \<and> dm AND 18 = 0))))"
  (is "?L \<longleftrightarrow> ?R")
proof -
  have d: "trusted_dir fs o' d () = Inr () \<longleftrightarrow> (\<exists>dm. fs d = Some (NDir dm o') \<and> dm AND 18 = 0)" for o' d
  proof (cases "fs d")
    case (Some n)
    then show ?thesis by (cases n) (auto simp: trusted_dir_def writable_by_others_def)
  qed (simp add: trusted_dir_def)
  show ?thesis
  proof (cases "fs p")
    case (Some n)
    then show ?thesis
      by (cases n; cases owner)
        (auto simp: protected_file_def writable_by_others_def foldE_unit d set_parents bindE_Inr_iff)
  qed (simp add: protected_file_def)
qed

section \<open>Atomic replacement\<close>

text \<open>
  The primitive steps of \<^verbatim>\<open>atomic(path, data)\<close>. \<^verbatim>\<open>mkstemp\<close> makes the temporary file with mode 0600; the
  write may be cut short by a crash at any point, which \<open>exec\<close> shows by writing in two halves.
\<close>

datatype fsop =
    MkTemp path
  | Append path string
  | Sync path
  | Rename path path

fun exec_op :: "nat \<Rightarrow> fsop \<Rightarrow> fsys \<Rightarrow> fsys" where
  "exec_op u (MkTemp t) fs = fs(t \<mapsto> NFile [] 384 u)"
| "exec_op u (Append t d) fs =
     (case fs t of Some (NFile c m v) \<Rightarrow> fs(t \<mapsto> NFile (c @ d) m v) | _ \<Rightarrow> fs)"
| "exec_op u (Sync t) fs = fs"
| "exec_op u (Rename t p) fs = (case fs t of None \<Rightarrow> fs | Some n \<Rightarrow> (fs(p \<mapsto> n))(t := None))"

definition atomic_ops :: "path \<Rightarrow> path \<Rightarrow> string \<Rightarrow> nat \<Rightarrow> fsop list" where
  "atomic_ops t p d k =
     [MkTemp t, Append t (take k d), Append t (drop k d), Sync t, Rename t p, Sync (butlast p)]"

definition exec_ops :: "nat \<Rightarrow> fsop list \<Rightarrow> fsys \<Rightarrow> fsys" where
  "exec_ops u ops fs = foldl (\<lambda>f op. exec_op u op f) fs ops"

text \<open>The \<^verbatim>\<open>finally\<close> clause removes the temporary file if it is still there.\<close>

definition cleanup_temp :: "path \<Rightarrow> fsys \<Rightarrow> fsys" where
  "cleanup_temp t fs = fs(t := None)"

text \<open>
  \<open>atomicM p d\<close>: \<^verbatim>\<open>atomic(path, data)\<close> in a program. The head of \<open>faults\<close> says at which step the call
  fails (0: none): before step 5 the target keeps its old content, from step 5 on, when only the
  directory synchronisation fails, it has the new one and the exception is raised all the same.
\<close>

definition atomicM :: "path \<Rightarrow> string \<Rightarrow> ('x world, unit) prog" where
  "atomicM p d w =
     (let k = (case faults w of [] \<Rightarrow> 0 | k # _ \<Rightarrow> k); w' = w\<lparr>faults := tl (faults w)\<rparr>;
          new = w'\<lparr>files := (files w)(p \<mapsto> NFile d 384 (euid w))\<rparr>
      in if \<not> is_dir_at (files w) (butlast p) then (Inl OSError, w')
         else if \<not> is_link_at (files w) p \<and> is_dir_at (files w) p then (Inl OSError, w')
         else if 0 < k \<and> k < 5 then (Inl OSError, w')
         else if k = 5 then (Inl OSError, new)
         else (Inr (), new))"

section \<open>Locks, commands and reports\<close>

text \<open>\<^verbatim>\<open>with lock(path): body\<close>. The lock file is created when it is missing and stays.\<close>

definition opens_lock :: "fsys \<Rightarrow> path \<Rightarrow> bool" where
  "opens_lock fs p \<longleftrightarrow> (case fs p of None \<Rightarrow> True | Some n \<Rightarrow> is_reg n)"

definition with_lock_file :: "path \<Rightarrow> 'x world \<Rightarrow> 'x world" where
  "with_lock_file p w =
     (if files w p = None then w\<lparr>files := (files w)(p \<mapsto> NFile [] 384 (euid w))\<rparr> else w)"

definition unlock :: "path \<Rightarrow> ('x world, unit) prog" where
  "unlock p = modifyM (\<lambda>w. w\<lparr>busy := remove1 p (busy w)\<rparr>)"

definition lockM :: "path \<Rightarrow> ('x world, 'a) prog \<Rightarrow> ('x world, 'a) prog" where
  "lockM p body w =
     (if \<not> opens_lock (files w) p then (Inl OSError, w)
      else let w1 = with_lock_file p w in
        if p \<in> set (busy w) then (Inl (Failure 75 ''target-busy''), w1)
        else finallyM body (unlock p) (w1\<lparr>busy := p # busy w1\<rparr>))"

text \<open>
  An external command is a function of its arguments, its input and the world: it is missing, it
  runs past its timeout, or it exits with a status and an output. \<open>runM\<close> is \<^verbatim>\<open>run\<close>: the output of a
  command that fails is dropped.
\<close>

datatype outcome = Unavailable | TimedOut | Exited int string

type_synonym 'x commands = "string list \<Rightarrow> string option \<Rightarrow> 'x world \<Rightarrow> outcome \<times> 'x world"

definition runM :: "'x commands \<Rightarrow> string list \<Rightarrow> string option \<Rightarrow> ('x world, string) prog" where
  "runM cmd args data w =
     (case cmd args data w of
        (Unavailable, w') \<Rightarrow> (Inl (Failure 69 ''required-command-unavailable''), w')
      | (TimedOut, w') \<Rightarrow> (Inl (Failure 69 ''operation-timeout''), w')
      | (Exited rc out, w') \<Rightarrow>
          if rc = 0 then (Inr out, w') else (Inl (Failure 69 ''operation-failed''), w'))"

text \<open>\<^verbatim>\<open>report(function)\<close>: what is printed and the exit status; None is an exception it does not catch.\<close>

definition error_json :: "string \<Rightarrow> json" where
  "error_json reason = JObj [(''ok'', JBool False), (''error'', JStr reason)]"

definition report :: "json option res \<Rightarrow> (string \<times> int) option" where
  "report r =
     (case r of
        Inr None \<Rightarrow> Some ([], 0)
      | Inr (Some v) \<Rightarrow> Some (canonical v, 0)
      | Inl (Failure code reason) \<Rightarrow> Some (canonical (error_json reason), code)
      | Inl e \<Rightarrow>
          if e \<in> set [OSError, ValueError, KeyError, TypeError]
          then Some (''{\"ok\":false,\"error\":\"invalid-or-unavailable-input\"}'' @ [newline], 78)
          else None)"

section \<open>Facts\<close>

text \<open>An empty world and a command that succeeds without effect, for the concrete examples.\<close>

definition blank :: "unit world" where
  "blank = \<lparr>files = Map.empty, euid = 0, busy = [], faults = [], ext = ()\<rparr>"

definition quiet :: "'x commands" where
  "quiet a d w = (Exited 0 [], w)"

lemma exec_ops_Nil [simp]: "exec_ops u [] fs = fs"
  by (simp add: exec_ops_def)

lemma exec_ops_Cons [simp]: "exec_ops u (op # ops) fs = exec_ops u ops (exec_op u op fs)"
  by (simp add: exec_ops_def)

lemma take_cases6:
  "take j [a, b, c, d, e, f] \<in> {[], [a], [a, b], [a, b, c], [a, b, c, d], [a, b, c, d, e], [a, b, c, d, e, f]}"
proof -
  consider "j = 0" | "j = 1" | "j = 2" | "j = 3" | "j = 4" | "j = 5" | "6 \<le> j" by linarith
  then show ?thesis by cases (simp_all add: numeral_eq_Suc)
qed

lemma atomic_prefix:
  assumes "t \<noteq> p"
  shows "exec_ops u (take j (atomic_ops t p d k)) fs p \<in> {fs p, Some (NFile d 384 u)}"
    and "q \<noteq> t \<Longrightarrow> q \<noteq> p \<Longrightarrow> exec_ops u (take j (atomic_ops t p d k)) fs q = fs q"
  using take_cases6 [of j "MkTemp t" "Append t (take k d)" "Append t (drop k d)" "Sync t"
      "Rename t p" "Sync (butlast p)"] assms
  by (auto simp: atomic_ops_def)

lemma atomic_complete:
  assumes "t \<noteq> p" and "fs t = None"
  shows "exec_ops u (atomic_ops t p d k) fs = fs(p \<mapsto> NFile d 384 u)"
  using assms by (auto simp: atomic_ops_def fun_eq_iff)

text \<open>
  C4 (crash safety of \<open>atomic\<close>): if the process dies after any number of the primitive steps of
  \<^verbatim>\<open>atomic(path, data)\<close>, with the write itself cut at any byte, the target holds either what it held
  or the complete new data, and nothing but the target and the temporary file differs; once the
  temporary file is removed only the target can differ. All the steps together replace the target.
\<close>

theorem atomic_crash_safe:
  assumes "t \<noteq> p" and "fs t = None"
  shows "exec_ops u (take j (atomic_ops t p d k)) fs p \<in> {fs p, Some (NFile d 384 u)} \<and>
    cleanup_temp t (exec_ops u (take j (atomic_ops t p d k)) fs) \<in> {fs, fs(p \<mapsto> NFile d 384 u)} \<and>
    exec_ops u (atomic_ops t p d k) fs = fs(p \<mapsto> NFile d 384 u)"
proof -
  let ?g = "cleanup_temp t (exec_ops u (take j (atomic_ops t p d k)) fs)"
  have o: "?g q = fs q" if "q \<noteq> p" for q
    using that assms atomic_prefix(2) [OF assms(1), of q u j d k fs]
    by (cases "q = t") (simp_all add: cleanup_temp_def)
  have "?g p \<in> {fs p, Some (NFile d 384 u)}"
    using atomic_prefix(1) [OF assms(1), of u j d k fs] assms(1) by (simp add: cleanup_temp_def)
  then have "?g \<in> {fs, fs(p \<mapsto> NFile d 384 u)}"
  proof (elim insertE emptyE)
    assume "?g p = fs p"
    then have "?g = fs" using o by (intro ext) metis
    then show ?thesis by simp
  next
    assume "?g p = Some (NFile d 384 u)"
    then have "?g = fs(p \<mapsto> NFile d 384 u)" using o by (intro ext) simp
    then show ?thesis by simp
  qed
  then show ?thesis
    using atomic_prefix(1) [OF assms(1), of u j d k fs] atomic_complete [of t p fs u d k] assms by blast
qed

theorem atomic_crash_safe_witness:
  "let fs = Map.empty([''p''] \<mapsto> NFile ''old'' 384 0) in
     exec_ops 0 (take 3 (atomic_ops [''t''] [''p''] ''new'' 1)) fs [''p'']
       \<in> {fs [''p''], Some (NFile ''new'' 384 0)}"
  using atomic_crash_safe [of "[''t'']" "[''p'']" "Map.empty([''p''] \<mapsto> NFile ''old'' 384 0)" 0 3 "''new''" 1]
  unfolding Let_def by simp

text \<open>What a program may assume of the three primitives.\<close>

lemma wp_atomicM:
  assumes "\<And>w'. w' = w\<lparr>faults := tl (faults w)\<rparr> \<Longrightarrow> E OSError w'"
    and "\<And>w'. w' = w\<lparr>faults := tl (faults w), files := (files w)(p \<mapsto> NFile d 384 (euid w))\<rparr> \<Longrightarrow>
      E OSError w' \<and> Q () w'"
  shows "wp (atomicM p d) Q E w"
  using assms by (auto simp: wp_def atomicM_def Let_def split: list.splits)

lemma atomicM_Inr:
  "atomicM p d w = (Inr x, w') \<Longrightarrow>
     w' = w\<lparr>faults := tl (faults w), files := (files w)(p \<mapsto> NFile d 384 (euid w))\<rparr>"
  by (auto simp: atomicM_def Let_def split: list.splits if_splits)

lemma atomicM_files:
  "atomicM p d w = (r, w') \<Longrightarrow> files w' \<in> {files w, (files w)(p \<mapsto> NFile d 384 (euid w))}"
  by (auto simp: atomicM_def Let_def split: list.splits if_splits)

lemma atomicM_frame:
  "atomicM p d w = (r, w') \<Longrightarrow> euid w' = euid w \<and> busy w' = busy w \<and> ext w' = ext w"
  by (auto simp: atomicM_def Let_def split: list.splits if_splits)

lemma wp_lockM:
  assumes "\<And>w1. files w1 = files w \<or> files w1 = (files w)(p \<mapsto> NFile [] 384 (euid w)) \<Longrightarrow>
      wp body (\<lambda>x w2. \<forall>w3. files w3 = files w2 \<longrightarrow> Q x w3) (\<lambda>e w2. \<forall>w3. files w3 = files w2 \<longrightarrow> E e w3) w1"
    and "\<And>e w1. files w1 = files w \<or> files w1 = (files w)(p \<mapsto> NFile [] 384 (euid w)) \<Longrightarrow> E e w1"
  shows "wp (lockM p body) Q E w"
proof -
  have f: "files (with_lock_file p w) = files w \<or> files (with_lock_file p w) = (files w)(p \<mapsto> NFile [] 384 (euid w))"
    "files w = files w \<or> files w = (files w)(p \<mapsto> NFile [] 384 (euid w))"
    by (simp_all add: with_lock_file_def)
  define w1 where "w1 = (with_lock_file p w)\<lparr>busy := p # busy (with_lock_file p w)\<rparr>"
  have "wp (finallyM body (unlock p)) Q E w1"
    using assms(1) [of w1] f(1) by (auto simp: wp_simps unlock_def w1_def elim!: wp_mono)
  with assms(2) [OF f(1)] assms(2) [OF f(2)] show ?thesis
    by (simp add: wp_def lockM_def Let_def w1_def)
qed

lemma runM_Inr: "runM cmd args data w = (Inr out, w') \<longleftrightarrow> cmd args data w = (Exited 0 out, w')"
  by (auto simp: runM_def split: prod.splits outcome.splits)

lemma snd_runM: "snd (runM c a d w) = snd (c a d w)"
  by (simp add: runM_def split: prod.splits outcome.splits)

lemma runM_Inl:
  "runM cmd args data w = (Inl e, w') \<Longrightarrow>
     e \<in> {Failure 69 ''required-command-unavailable'', Failure 69 ''operation-timeout'', Failure 69 ''operation-failed''}"
  by (auto simp: runM_def split: prod.splits outcome.splits if_splits)

text \<open>
  Trusted files: \<^verbatim>\<open>protected_file\<close> returns exactly when the path is itself a regular file (no
  symbolic link) that neither group nor others may write and, when an owner is asked for, the owner has
  the file and every directory above it, none of them writable by others. The path is returned as given.
\<close>

lemma protected_file_spec:
  "protected_file fs p owner = Inr q \<longleftrightarrow>
     q = p \<and> (\<exists>c m u. fs p = Some (NFile c m u) \<and> m AND 18 = 0 \<and>
       (case owner of None \<Rightarrow> True
        | Some v \<Rightarrow> u = v \<and> set (parents p) \<subseteq> {d. \<exists>dm. fs d = Some (NDir dm v) \<and> dm AND 18 = 0}))"
  unfolding protected_file_iff set_parents by (cases owner) auto



end
