(* ===== verification/Fs.thy ===== *)
theory Fs
  imports Common
begin

text \<open>
  The file operations of \<^verbatim>\<open>pathlib\<close> and \<^verbatim>\<open>os\<close> that several components use, as programs on the world.
  Directories on a path are plain directories; group ownership is not kept.
\<close>

definition readM :: "path \<Rightarrow> ('x world, string) prog" where
  "readM p w = (read_bytes (files w) p, w)"

definition existsM :: "path \<Rightarrow> ('x world, bool) prog" where
  "existsM p w = (Inr (exists_at (files w) p), w)"

definition is_linkM :: "path \<Rightarrow> ('x world, bool) prog" where
  "is_linkM p w = (Inr (is_link_at (files w) p), w)"

definition protectedM :: "path \<Rightarrow> nat option \<Rightarrow> ('x world, path) prog" where
  "protectedM p owner w = (protected_file (files w) p owner, w)"

text \<open>\<^verbatim>\<open>protected_file(path, owner).read_bytes()\<close>\<close>

definition read_protectedM :: "path \<Rightarrow> nat option \<Rightarrow> ('x world, string) prog" where
  "read_protectedM p owner = bindM (protectedM p owner) readM"

definition set_files :: "fsys \<Rightarrow> 'x world \<Rightarrow> 'x world" where
  "set_files fs w = w\<lparr>files := fs\<rparr>"

text \<open>\<^verbatim>\<open>path.mkdir(mode)\<close> and \<^verbatim>\<open>path.mkdir(mode, parents=True, exist_ok=True)\<close>\<close>

definition mkdirM :: "path \<Rightarrow> nat \<Rightarrow> bool \<Rightarrow> ('x world, unit) prog" where
  "mkdirM p mode exist_ok w =
     (if is_dir_at (files w) p \<and> exist_ok then (Inr (), w)
      else if files w p \<noteq> None \<or> \<not> is_dir_at (files w) (butlast p) then (Inl OSError, w)
      else (Inr (), set_files ((files w)(p \<mapsto> NDir mode (euid w))) w))"

fun mkdir_chain :: "nat \<Rightarrow> nat \<Rightarrow> path list \<Rightarrow> fsys \<Rightarrow> fsys res" where
  "mkdir_chain u mode [] fs = Inr fs"
| "mkdir_chain u mode (d # ds) fs =
     (if is_dir_at fs d then mkdir_chain u mode ds fs
      else if fs d \<noteq> None then Inl OSError
      else mkdir_chain u mode ds (fs(d \<mapsto> NDir (if ds = [] then mode else 493) u)))"

definition prefixes :: "path \<Rightarrow> path list" where
  "prefixes p = map (\<lambda>n. take n p) [0..<Suc (length p)]"

definition mkdir_allM :: "path \<Rightarrow> nat \<Rightarrow> ('x world, unit) prog" where
  "mkdir_allM p mode w =
     (case mkdir_chain (euid w) mode (prefixes p) (files w) of
        Inl e \<Rightarrow> (Inl e, w) | Inr fs \<Rightarrow> (Inr (), set_files fs w))"

text \<open>\<^verbatim>\<open>path.unlink(missing_ok)\<close> removes a file or a link, not a directory.\<close>

definition unlinkM :: "path \<Rightarrow> bool \<Rightarrow> ('x world, unit) prog" where
  "unlinkM p missing_ok w =
     (case files w p of
        None \<Rightarrow> (if missing_ok then Inr () else Inl OSError, w)
      | Some (NDir m u) \<Rightarrow> (Inl OSError, w)
      | Some n \<Rightarrow> (Inr (), set_files ((files w)(p := None)) w))"

fun with_mode :: "nat \<Rightarrow> node \<Rightarrow> node" where
  "with_mode m (NFile c _ u) = NFile c m u"
| "with_mode m (NDir _ u) = NDir m u"
| "with_mode m (NLink t) = NLink t"

fun with_owner :: "nat \<Rightarrow> node \<Rightarrow> node" where
  "with_owner u (NFile c m _) = NFile c m u"
| "with_owner u (NDir m _) = NDir m u"
| "with_owner u (NLink t) = NLink t"

definition updateM :: "(node \<Rightarrow> node) \<Rightarrow> path \<Rightarrow> ('x world, unit) prog" where
  "updateM f p w =
     (case follow 40 (files w) p of None \<Rightarrow> (Inl OSError, w)
      | Some q \<Rightarrow> (case files w q of None \<Rightarrow> (Inl OSError, w)
                  | Some n \<Rightarrow> (Inr (), set_files ((files w)(q \<mapsto> f n)) w)))"

definition chmodM :: "path \<Rightarrow> nat \<Rightarrow> ('x world, unit) prog" where
  "chmodM p m = updateM (with_mode m) p"

definition chownM :: "path \<Rightarrow> nat \<Rightarrow> ('x world, unit) prog" where
  "chownM p u = updateM (with_owner u) p"

definition symlinkM :: "path \<Rightarrow> string \<Rightarrow> ('x world, unit) prog" where
  "symlinkM p target w =
     (if files w p \<noteq> None \<or> \<not> is_dir_at (files w) (butlast p) then (Inl OSError, w)
      else (Inr (), set_files ((files w)(p \<mapsto> NLink target)) w))"

text \<open>\<^verbatim>\<open>open(path, "xb")\<close> followed by the writes; the mode is that of the following \<^verbatim>\<open>chmod\<close>.\<close>

definition createM :: "path \<Rightarrow> string \<Rightarrow> nat \<Rightarrow> ('x world, unit) prog" where
  "createM p c mode w =
     (if files w p \<noteq> None \<or> \<not> is_dir_at (files w) (butlast p) then (Inl OSError, w)
      else (Inr (), set_files ((files w)(p \<mapsto> NFile c mode (euid w))) w))"

text \<open>The text of an absolute path, and the path of an absolute text.\<close>

definition path_text :: "path \<Rightarrow> string" where
  "path_text p = ''/'' @ join_with ''/'' p"

definition abs_path :: "string \<Rightarrow> path" where
  "abs_path s = path_comps s"

lemma files_set_files [simp]: "files (set_files fs w) = fs"
  by (simp add: set_files_def)

lemma world_set_files [simp]:
  "euid (set_files fs w) = euid w" "busy (set_files fs w) = busy w" "faults (set_files fs w) = faults w"
  "ext (set_files fs w) = ext w"
  by (simp_all add: set_files_def)

text \<open>What an operation on a path that is a plain file does.\<close>

lemma follow_plain: "fs p \<noteq> None \<Longrightarrow> \<not> is_link_at fs p \<Longrightarrow> follow 40 fs p = Some p"
  by (auto simp: numeral_eq_Suc is_link_at_def split: node.splits)

lemma follow_absent: "fs p = None \<Longrightarrow> follow 40 fs p = Some p"
  by (simp add: numeral_eq_Suc)

lemma chmodM_file:
  "files w p = Some (NFile c m u) \<Longrightarrow> chmodM p m' w = (Inr (), set_files ((files w)(p \<mapsto> NFile c m' u)) w)"
  by (simp add: chmodM_def updateM_def follow_plain is_link_at_def)

lemma chownM_file:
  "files w p = Some (NFile c m u) \<Longrightarrow> chownM p u' w = (Inr (), set_files ((files w)(p \<mapsto> NFile c m u')) w)"
  by (simp add: chownM_def updateM_def follow_plain is_link_at_def)

lemma unlinkM_Inr:
  "unlinkM p True w = (Inr (), w') \<Longrightarrow> files w' = (files w)(p := None)"
  by (auto simp: unlinkM_def split: option.splits node.splits)

lemma path_of_text:
  assumes "\<And>c. c \<in> set p \<Longrightarrow> c \<noteq> [] \<and> c \<noteq> ''.'' \<and> CHR ''/'' \<notin> set c"
  shows "abs_path (path_text p) = p"
proof -
  have "path_comps (join_with ''/'' p) = p"
    using assms
  proof (induction p rule: induct_list012)
    case 1
    then show ?case by (simp add: path_comps_def)
  next
    case (2 x)
    then show ?case by (simp add: path_comps_def split_on_id)
  next
    case (3 x y zs)
    then show ?case by (simp add: path_comps_append)
  qed
  then show ?thesis by (simp add: abs_path_def path_text_def path_comps_def)
qed

text \<open>\<^verbatim>\<open>path.stat()\<close>, the join \<^verbatim>\<open>d / rel\<close>, and \<^verbatim>\<open>bytes.strip()\<close>.\<close>

definition statM :: "path \<Rightarrow> ('x world, node) prog" where
  "statM p w = (case node_at (files w) p of None \<Rightarrow> (Inl OSError, w) | Some n \<Rightarrow> (Inr n, w))"

definition under :: "path \<Rightarrow> string \<Rightarrow> path" where
  "under d rel = (if path_absolute rel then path_comps rel else d @ path_comps rel)"

definition is_bspace :: "char \<Rightarrow> bool" where
  "is_bspace c \<longleftrightarrow> of_char c \<in> set [9, 10, 11, 12, 13, 32 :: nat]"

definition bstrip :: "string \<Rightarrow> string" where
  "bstrip s = rev (dropWhile is_bspace (rev (dropWhile is_bspace s)))"

text \<open>\<open>exceptM c m h\<close>: \<^verbatim>\<open>try: m except <classes c>: h\<close>, for a handler that does not look at the exception.\<close>

definition exceptM :: "(exn \<Rightarrow> bool) \<Rightarrow> ('s, 'a) prog \<Rightarrow> ('s, 'a) prog \<Rightarrow> ('s, 'a) prog" where
  "exceptM c m h = catchM m (\<lambda>x. if c x then h else raiseM x)"

fun is_failure :: "exn \<Rightarrow> bool" where
  "is_failure (Failure c r) = True"
| "is_failure _ = False"

text \<open>
  A command whose output goes to a file opened before: what it wrote stays there when it fails.
\<close>

definition append_file :: "path \<Rightarrow> string \<Rightarrow> fsys \<Rightarrow> fsys" where
  "append_file p d fs = (case fs p of Some (NFile c m u) \<Rightarrow> fs(p \<mapsto> NFile (c @ d) m u) | _ \<Rightarrow> fs)"

definition streamM :: "path \<Rightarrow> 'x commands \<Rightarrow> string list \<Rightarrow> string option \<Rightarrow> ('x world, unit) prog" where
  "streamM p c args data w =
     (case c args data w of
        (Unavailable, w') \<Rightarrow> (Inl (Failure 69 ''required-command-unavailable''), w')
      | (TimedOut, w') \<Rightarrow> (Inl (Failure 69 ''operation-timeout''), w')
      | (Exited rc out, w') \<Rightarrow>
          (if rc = 0 then Inr () else Inl (Failure 69 ''operation-failed''), set_files (append_file p out (files w')) w'))"

section \<open>Text files\<close>

text \<open>\<^verbatim>\<open>bytes.decode()\<close> refuses what is not UTF-8, surrogates included; the text is the same bytes here.\<close>

definition surrogate :: "nat \<Rightarrow> bool" where
  "surrogate u \<longleftrightarrow> 55296 \<le> u \<and> u < 57344"

definition decode_text :: "string \<Rightarrow> string res" where
  "decode_text s = (case utf8_dec s of None \<Rightarrow> Inl ValueError
     | Some us \<Rightarrow> if list_ex surrogate us then Inl ValueError else Inr s)"

text \<open>Text mode reads any of the three line ends as a line feed.\<close>

fun universal_newlines :: "string \<Rightarrow> string" where
  "universal_newlines [] = []"
| "universal_newlines (c # cs) =
     (if c = CHR 0x0D then
        newline # (case cs of d # ds \<Rightarrow> if d = newline then universal_newlines ds else universal_newlines (d # ds) | [] \<Rightarrow> [])
      else c # universal_newlines cs)"

definition read_text :: "fsys \<Rightarrow> path \<Rightarrow> string res" where
  "read_text fs p = bindE (read_bytes fs p) (\<lambda>raw. bindE (decode_text raw) (\<lambda>s. Inr (universal_newlines s)))"

definition read_textM :: "path \<Rightarrow> ('x world, string) prog" where
  "read_textM p w = (read_text (files w) p, w)"

lemma ascii_text:
  assumes "ascii_only s" and "list_all (\<lambda>c. c \<noteq> CHR 0x0D) s"
  shows "decode_text s = Inr s" and "universal_newlines s = s"
proof -
  have "\<not> surrogate (of_char c)" if "of_char c < (128 :: nat)" for c using that by (simp add: surrogate_def)
  with assms(1) show "decode_text s = Inr s"
    by (auto simp: decode_text_def utf8_dec_ascii ascii_only_def list_ex_iff list_all_iff)
  show "universal_newlines s = s" using assms(2) by (induction s) auto
qed

section \<open>Results of the operations\<close>

lemma readM_Inr [simp]: "readM p w = (Inr c, w') \<longleftrightarrow> read_bytes (files w) p = Inr c \<and> w' = w"
  by (auto simp: readM_def)

lemma read_protectedM_Inr:
  "read_protectedM p owner w = (Inr c, w') \<longleftrightarrow>
     w' = w \<and> protected_file (files w) p owner = Inr p \<and> read_bytes (files w) p = Inr c"
  by (auto simp: read_protectedM_def bindM_eq_iff protectedM_def protected_file_iff)

lemma liftE_Inr [simp]: "liftE r w = (Inr x, w') \<longleftrightarrow> r = Inr x \<and> w' = w"
  by (auto simp: liftE_def)

lemma getsM_Inr [simp]: "getsM f w = (Inr x, w') \<longleftrightarrow> x = f w \<and> w' = w"
  by (auto simp: getsM_def)

lemma ret_Inr [simp]: "ret y w = (Inr x, w') \<longleftrightarrow> x = y \<and> w' = w"
  by (auto simp: ret_def)

lemma is_linkM_Inr: "is_linkM p w = (Inr x, w') \<longleftrightarrow> x = is_link_at (files w) p \<and> w' = w"
  by (auto simp: is_linkM_def)

lemma existsM_Inr: "existsM p w = (Inr x, w') \<longleftrightarrow> x = exists_at (files w) p \<and> w' = w"
  by (auto simp: existsM_def)

lemma statM_Inr: "statM p w = (Inr n, w') \<longleftrightarrow> node_at (files w) p = Some n \<and> w' = w"
  by (auto simp: statM_def split: option.splits)

lemma catchM_Inr:
  "catchM m h w = (Inr x, w') \<Longrightarrow> (\<And>e w1. \<not> (\<exists>y v. h e w1 = (Inr y, v))) \<Longrightarrow> m w = (Inr x, w')"
  by (auto simp: catchM_def split: prod.splits sum.splits)

text \<open>Two programs that agree step by step; the second premise may use what the first step returned.\<close>

lemma bind_cong:
  assumes "m w = n w" and "\<And>x w'. n w = (Inr x, w') \<Longrightarrow> k x w' = l x w'"
  shows "bindM m k w = bindM n l w"
  using assms by (auto simp: bindM_def split: prod.splits sum.splits)

lemma require_cong: "(c \<Longrightarrow> k w = l w) \<Longrightarrow> requireM c r n k w = requireM c r n l w"
  by (simp add: requireM_def)

lemma lockM_cong:
  assumes "\<And>w1. files w1 = files w \<or> files w1 = (files w)(p \<mapsto> NFile [] 384 (euid w)) \<Longrightarrow> m w1 = n w1"
  shows "lockM p m w = lockM p n w"
proof -
  let ?w1 = "(with_lock_file p w)\<lparr>busy := p # busy (with_lock_file p w)\<rparr>"
  have "m ?w1 = n ?w1" by (rule assms) (simp add: with_lock_file_def)
  then show ?thesis by (simp add: lockM_def Let_def finallyM_def)
qed

section \<open>What the operations leave alone\<close>

lemma moves_mono: "moves R m \<Longrightarrow> (\<And>s t. R s t \<Longrightarrow> S s t) \<Longrightarrow> moves S m"
  by (auto simp: moves_def)

text \<open>
  \<open>creates P\<close>: only paths in \<open>P\<close> may come into being, and neither the user nor the rest of the
  world changes. Every file operation creates at most the path it names.
\<close>

definition creates :: "(path \<Rightarrow> bool) \<Rightarrow> 'x world \<Rightarrow> 'x world \<Rightarrow> bool" where
  "creates P w w' \<longleftrightarrow> ext w' = ext w \<and> euid w' = euid w \<and> (\<forall>p. \<not> P p \<longrightarrow> files w p = None \<longrightarrow> files w' p = None)"

interpretation creates: guarantee "creates P" for P
  by unfold_locales (auto simp: creates_def)

lemma creates_reads [intro!]:
  "moves (creates P) (readM p)" "moves (creates P) (existsM p)" "moves (creates P) (is_linkM p)"
  "moves (creates P) (protectedM p owner)"
  by (simp_all add: moves_def readM_def existsM_def is_linkM_def protectedM_def creates.R_refl)

lemma creates_read_protected [intro!]: "moves (creates P) (read_protectedM p owner)"
  unfolding read_protectedM_def by blast

lemma creates_atomicM [intro!]: "P p \<Longrightarrow> moves (creates P) (atomicM p d)"
  by (auto simp: moves_def creates_def atomicM_def Let_def split: list.splits)

lemma creates_unlinkM [intro!]: "moves (creates P) (unlinkM p b)"
  by (auto simp: moves_def creates_def unlinkM_def split: option.splits node.splits)

lemma creates_updateM [intro!]: "moves (creates P) (updateM f p)"
  by (auto simp: moves_def creates_def updateM_def split: option.splits)

lemma creates_chmod_chown [intro!]: "moves (creates P) (chmodM p m)" "moves (creates P) (chownM p u)"
  unfolding chmodM_def chownM_def by blast+

lemma creates_symlinkM [intro!]: "P p \<Longrightarrow> moves (creates P) (symlinkM p t)"
  by (auto simp: moves_def creates_def symlinkM_def)

lemma creates_createM [intro!]: "P p \<Longrightarrow> moves (creates P) (createM p c m)"
  by (auto simp: moves_def creates_def createM_def)

lemma creates_mkdirM [intro!]: "P p \<Longrightarrow> moves (creates P) (mkdirM p m b)"
  by (auto simp: moves_def creates_def mkdirM_def)

lemma mkdir_chain_creates:
  "mkdir_chain u m ds fs = Inr fs' \<Longrightarrow> fs p = None \<Longrightarrow> p \<notin> set ds \<Longrightarrow> fs' p = None"
proof (induction ds arbitrary: fs)
  case Nil
  then show ?case by simp
next
  case (Cons d ds)
  then show ?case by (auto split: if_splits)
qed

lemma creates_mkdir_allM [intro!]: "(\<And>q. q \<in> set (prefixes p) \<Longrightarrow> P q) \<Longrightarrow> moves (creates P) (mkdir_allM p m)"
  by (auto simp: moves_def creates_def mkdir_allM_def dest: mkdir_chain_creates split: sum.splits)

text \<open>\<open>keeps_file q\<close>: whatever else happens, the path \<open>q\<close> holds at the end what it held.\<close>

interpretation keeps: guarantee "\<lambda>w w'. files w' p = files w p" for p
  by unfold_locales auto

abbreviation keeps_file :: "path \<Rightarrow> ('x world, 'a) prog \<Rightarrow> bool" where
  "keeps_file p \<equiv> moves (\<lambda>w w'. files w' p = files w p)"

lemma moves_gets: "(\<And>s. moves R (k (f s))) \<Longrightarrow> moves R (bindM (getsM f) k)"
  by (simp add: moves_def bindM_def getsM_def)

lemma keeps_reads [intro!]:
  "keeps_file q (readM p)" "keeps_file q (existsM p)" "keeps_file q (is_linkM p)" "keeps_file q (protectedM p owner)"
  "keeps_file q (statM p)" "keeps_file q (read_protectedM p owner)"
  by (auto simp: moves_def readM_def existsM_def is_linkM_def protectedM_def statM_def read_protectedM_def bindM_def
      split: option.splits sum.splits)

lemma keeps_writes:
  assumes "p \<noteq> q"
  shows "keeps_file q (mkdirM p m b)" "keeps_file q (createM p c m)" "keeps_file q (atomicM p c)" "keeps_file q (unlinkM p b)"
  using assms by (auto simp: moves_def mkdirM_def createM_def atomicM_def unlinkM_def Let_def split: option.splits node.splits list.splits)

lemma keeps_update:
  assumes "p \<noteq> q" and "\<not> is_link_at (files w) p" and "updateM f p w = (r, w')"
  shows "files w' q = files w q"
  using assms by (cases "files w p") (auto simp: updateM_def follow_absent follow_plain split: option.splits)

lemma keeps_lock:
  assumes "p \<noteq> q" and "keeps_file q m"
  shows "keeps_file q (lockM p m)"
proof (rule movesI)
  fix w r w' assume l: "lockM p m w = (r, w')"
  define w1 where "w1 = (with_lock_file p w)\<lparr>busy := p # busy (with_lock_file p w)\<rparr>"
  have f: "files w1 q = files w q" "files (with_lock_file p w) q = files w q" using assms(1) by (simp_all add: w1_def with_lock_file_def)
  have "files (snd (finallyM m (unlock p) w1)) q = files w1 q"
    using keeps.moves_finally [OF assms(2), of "unlock p"] by (simp add: moves_def unlock_def modifyM_def)
  with l f show "files w' q = files w q"
    by (auto simp: lockM_def Let_def w1_def split: if_splits)
qed

text \<open>What holds of one path across a program also holds when that program runs under another path's lock.\<close>

lemma moves_lock_at:
  assumes "p \<noteq> q" and "\<And>n. P n n" and "moves (\<lambda>w w'. P (files w q) (files w' q)) m"
  shows "moves (\<lambda>w w'. P (files w q) (files w' q)) (lockM p m)"
proof (rule movesI)
  fix w r w' assume l: "lockM p m w = (r, w')"
  define w1 where "w1 = (with_lock_file p w)\<lparr>busy := p # busy (with_lock_file p w)\<rparr>"
  have f: "files w1 q = files w q" "files (with_lock_file p w) q = files w q" using assms(1) by (simp_all add: w1_def with_lock_file_def)
  have "P (files w1 q) (files (snd (finallyM m (unlock p) w1)) q)"
    using assms(3) by (auto simp: moves_def finallyM_def unlock_def modifyM_def split: prod.splits) (metis snd_conv)
  with l f assms(2) show "P (files w q) (files w' q)"
    by (auto simp: lockM_def Let_def w1_def split: if_splits)
qed

text \<open>The world in which the body of a lock runs.\<close>

definition locked :: "path \<Rightarrow> 'x world \<Rightarrow> 'x world" where
  "locked p w = (with_lock_file p w)\<lparr>busy := p # busy w\<rparr>"

lemma locked_simps [simp]:
  "q \<noteq> p \<Longrightarrow> files (locked p w) q = files w q" "euid (locked p w) = euid w" "busy (locked p w) = p # busy w"
  "faults (locked p w) = faults w" "ext (locked p w) = ext w"
  by (auto simp: locked_def with_lock_file_def)

lemma lockM_Inr_iff:
  "lockM p m w = (Inr x, w') \<longleftrightarrow> opens_lock (files w) p \<and> p \<notin> set (busy w) \<and>
     (\<exists>w2. m (locked p w) = (Inr x, w2) \<and> w' = w2\<lparr>busy := remove1 p (busy w2)\<rparr>)"
  by (auto simp: lockM_def Let_def finallyM_def unlock_def modifyM_def locked_def with_lock_file_def split: prod.splits if_splits)

lemma mkdir_chain_frame: "mkdir_chain u m ds fs = Inr fs' \<Longrightarrow> q \<notin> set ds \<Longrightarrow> fs' q = fs q"
  by (induction ds arbitrary: fs) (auto split: if_splits)

lemma keeps_mkdir_all: "q \<notin> set (prefixes p) \<Longrightarrow> keeps_file q (mkdir_allM p m)"
  by (auto simp: moves_def mkdir_allM_def dest: mkdir_chain_frame split: sum.splits)

section \<open>A process with its memory\<close>

text \<open>
  A long-lived object of a process, such as the state dictionary that \<^verbatim>\<open>save\<close> updates and writes, is
  kept beside the world: the commands and the files do not see it, and it keeps its updates when an
  exception is raised. \<open>outside m\<close> runs a program of the world in such a process.
\<close>

type_synonym ('m, 'x, 'a) process = "('m \<times> 'x world, 'a) prog"

definition outside :: "('x world, 'a) prog \<Rightarrow> ('m, 'x, 'a) process" where
  "outside m s = (case m (snd s) of (r, w) \<Rightarrow> (r, (fst s, w)))"

definition recall :: "('m, 'x, 'm) process" where
  "recall s = (Inr (fst s), s)"

definition remember :: "('m \<Rightarrow> 'm) \<Rightarrow> ('m, 'x, unit) process" where
  "remember f s = (Inr (), (f (fst s), snd s))"

lemma outside_Inr:
  "outside m s = (Inr x, s') \<longleftrightarrow> fst s' = fst s \<and> m (snd s) = (Inr x, snd s')"
  by (cases s; cases s') (auto simp: outside_def split: prod.splits)

lemma outside_cong: "m (snd s) = n (snd s) \<Longrightarrow> outside m s = outside n s"
  by (simp add: outside_def)

lemma recall_Inr [simp]: "recall s = (Inr x, s') \<longleftrightarrow> x = fst s \<and> s' = s"
  by (auto simp: recall_def)

lemma remember_Inr [simp]: "remember f s = (Inr u, s') \<longleftrightarrow> s' = (f (fst s), snd s)"
  by (auto simp: remember_def)

lemma wp_outside [wp_simps]:
  "wp (outside m) Q E s = wp m (\<lambda>x w. Q x (fst s, w)) (\<lambda>e w. E e (fst s, w)) (snd s)"
  by (simp add: wp_def outside_def split: prod.split)

lemma wp_recall [wp_simps]: "wp recall Q E s = Q (fst s) s"
  by (simp add: wp_def recall_def)

lemma wp_remember [wp_simps]: "wp (remember f) Q E s = Q () (f (fst s), snd s)"
  by (simp add: wp_def remember_def)

lemma wp_outside_any: "(\<And>x w. Q x (fst s, w)) \<Longrightarrow> (\<And>e w. E e (fst s, w)) \<Longrightarrow> wp (outside m) Q E s"
  by (simp add: wp_def outside_def split: prod.split sum.split)

end
