(* ===== verification/Transaction.thy ===== *)
theory Transaction
  imports Common
begin

text \<open>
  \<^verbatim>\<open>scripts/hermes/unattended/transaction.py\<close>: the normal form of a package name, the inventory that
  a stored transaction leads to, and the check of a stored bundle.
\<close>

section \<open>Package names\<close>

definition nevra_char :: "char \<Rightarrow> bool" where
  "nevra_char c \<longleftrightarrow> is_alnum c \<or> c \<in> set ''+_.:~^%-''"

definition hex_colon :: "char \<Rightarrow> bool" where
  "hex_colon c \<longleftrightarrow> is_hex c \<or> c = CHR '':''"

text \<open>\<^verbatim>\<open>gpg-pubkey-[a-f0-9:]+-[a-f0-9]+\.\(none\)\<close>\<close>

definition gpg_key :: "string \<Rightarrow> bool" where
  "gpg_key s =
     (case after_prefix ''gpg-pubkey-'' s of None \<Rightarrow> False
      | Some r \<Rightarrow> (case part_at (CHR ''-'') r of (v, found, t) \<Rightarrow>
          found \<and> match_plus hex_colon v \<and>
          (case part_at (CHR ''.'') t of (h, f2, e) \<Rightarrow> f2 \<and> match_plus is_hex h \<and> e = ''(none)'')))"

definition nevra_ok :: "string \<Rightarrow> bool" where
  "nevra_ok s \<longleftrightarrow> match_plus nevra_char s \<or> gpg_key s"

text \<open>\<^verbatim>\<open>nevra.rsplit('-', 2)\<close>\<close>

definition rsplit2 :: "string \<Rightarrow> string list" where
  "rsplit2 s = (case rpart_at (CHR ''-'') s of (a, f, b) \<Rightarrow>
     if \<not> f then [s]
     else (case rpart_at (CHR ''-'') a of (c, g, d) \<Rightarrow> if \<not> g then [a, b] else [c, d, b]))"

definition with_epoch :: "string \<Rightarrow> string" where
  "with_epoch version = (if CHR '':'' \<in> set version then version else ''0:'' @ version)"

definition normalize_parts :: "string \<Rightarrow> string \<Rightarrow> string \<Rightarrow> string res" where
  "normalize_parts name version release_arch =
     (case rpart_at (CHR ''.'') release_arch of (release, sep, arch) \<Rightarrow>
      requireE (sep \<and> release \<noteq> [] \<and> arch \<noteq> []) ''invalid-package-nevra'' 78 (
      (case part_at (CHR '':'') (with_epoch version) of (epoch, _, val) \<Rightarrow>
       requireE (epoch \<noteq> [] \<and> list_all is_digit epoch \<and> val \<noteq> [] \<and> CHR '':'' \<notin> set val)
         ''invalid-package-nevra'' 78 (
       if 4300 < length epoch then Inl ValueError
       else Inr (name @ ''-'' @ show_nat (read_nat epoch) @ '':'' @ val @ ''-'' @ release @ ''.'' @ arch)))))"

definition normalize :: "json \<Rightarrow> string res" where
  "normalize nevra =
     requireE (is_str nevra \<and> nevra_ok (str_of nevra)) ''invalid-package-nevra'' 78 (
     (case rsplit2 (str_of nevra) of
        [name, version, release_arch] \<Rightarrow>
          requireE (name \<noteq> [] \<and> version \<noteq> [] \<and> release_arch \<noteq> []) ''invalid-package-nevra'' 78 (
          normalize_parts name version release_arch)
      | _ \<Rightarrow> Inl (Failure 78 ''invalid-package-nevra'')))"

section \<open>The expected inventory\<close>

definition INCOMING :: "string list" where "INCOMING = [''Install'', ''Upgrade'', ''Downgrade'', ''Reinstall'']"
definition OUTGOING :: "string list" where "OUTGOING = [''Remove'', ''Replaced'']"

text \<open>The sets of the loop, as duplicate-free lists, and the stored packages by their relative path.\<close>

record plan =
  removed :: "string list"
  added :: "string list"
  reinstalled :: "string list"
  paths :: "(string \<times> string) list"

definition suffix_rpm :: "string \<Rightarrow> bool" where
  "suffix_rpm name \<longleftrightarrow> endswith name ''.rpm'' \<and> name \<noteq> ''.rpm''"

definition stored_path :: "json \<Rightarrow> string res" where
  "stored_path raw =
     requireE (is_str raw \<and> str_of raw \<noteq> []) ''missing-stored-package-path'' 78 (
     let s = str_of raw; parts = path_parts s in
     if \<not> path_absolute s \<and> parts = [] then Inl IndexError
     else requireE (\<not> path_absolute s \<and> ''..'' \<notin> set parts \<and> hd parts = ''packages'' \<and> length parts = 2
             \<and> suffix_rpm (last parts) \<and> CHR 0x5C \<notin> set s) ''unsafe-stored-package-path'' 78 (
     Inr (path_str s)))"

text \<open>\<^verbatim>\<open>action in INCOMING | OUTGOING\<close>: a list or an object is not hashable.\<close>

definition action_of :: "json \<Rightarrow> string res" where
  "action_of v =
     (if is_list v \<or> is_dict v then Inl TypeError
      else requireE (is_str v \<and> str_of v \<in> set (INCOMING @ OUTGOING)) ''unsupported-transaction-action'' 78
             (Inr (str_of v)))"

definition record_step :: "json \<Rightarrow> plan \<Rightarrow> plan res" where
  "record_step rc pl =
     requireE (is_dict rc) ''invalid-transaction-package'' 78 (
     bindE (action_of (jget rc ''action'')) (\<lambda>action.
     bindE (normalize (jget rc ''nevra'')) (\<lambda>name.
     let target = (if action \<in> set OUTGOING then removed pl
                   else if action = ''Reinstall'' then reinstalled pl else added pl) in
     requireE (name \<notin> set target) ''duplicate-transaction-package'' 78 (
     let pl1 = (if action \<in> set OUTGOING then pl\<lparr>removed := removed pl @ [name]\<rparr>
                else if action = ''Reinstall'' then pl\<lparr>reinstalled := reinstalled pl @ [name]\<rparr>
                else pl\<lparr>added := added pl @ [name]\<rparr>) in
     if action \<in> set INCOMING then
       bindE (stored_path (jget rc ''package_path'')) (\<lambda>rel.
       requireE (rel \<notin> set (map fst (paths pl1))) ''duplicate-stored-package-path'' 78 (
       Inr (pl1\<lparr>paths := paths pl1 @ [(rel, name)]\<rparr>)))
     else requireE (\<not> has_key rc ''package_path'') ''unexpected-outgoing-package-path'' 78 (Inr pl1)))))"

definition empty_plan :: plan where
  "empty_plan = \<lparr>removed = [], added = [], reinstalled = [], paths = []\<rparr>"

definition inventory_text :: "string list \<Rightarrow> string" where
  "inventory_text names = concat (map (\<lambda>n. n @ [newline]) names)"

definition expected_inventory :: "json \<Rightarrow> string \<Rightarrow> (string \<times> (string \<times> string) list) res" where
  "expected_inventory trx before =
     requireE (fields_are trx [''version'', ''rpms''] \<and> jget trx ''version'' = JStr ''1.0''
               \<and> is_list (jget trx ''rpms'') \<and> list_of (jget trx ''rpms'') \<noteq> [])
       ''unsupported-stored-transaction'' 78 (
     requireE (before \<noteq> [] \<and> endswith before [newline]) ''invalid-package-inventory'' 78 (
     if \<not> ascii_only before then Inl ValueError
     else bindE (mapE (\<lambda>line. normalize (JStr line)) (splitlines before)) (\<lambda>installed.
     requireE (distinct installed) ''duplicate-installed-package'' 78 (
     bindE (foldE record_step (list_of (jget trx ''rpms'')) empty_plan) (\<lambda>pl.
     requireE (subset_list (removed pl) installed \<and> subset_list (reinstalled pl) installed)
       ''transaction-baseline-mismatch'' 78 (
     let kept = filter (\<lambda>n. n \<notin> set (removed pl)) installed in
     requireE (list_all (\<lambda>n. n \<notin> set kept) (added pl)
               \<and> list_all (\<lambda>n. n \<notin> set (added pl) \<and> n \<notin> set (removed pl)) (reinstalled pl))
       ''transaction-package-conflict'' 78 (
     Inr (inventory_text (sorted_set (kept @ added pl)), paths pl))))))))"

section \<open>The stored bundle\<close>

text \<open>
  \<open>rglob_rpm\<close> is \<^verbatim>\<open>directory.rglob('*.rpm')\<close>, the paths below the directory whose name ends with
  \<^verbatim>\<open>.rpm\<close>; the traversal of the file system is a parameter.
\<close>

definition bundle_file :: "fsys \<Rightarrow> path \<Rightarrow> string \<Rightarrow> string res" where
  "bundle_file fs d name = bindE (protected_file fs (d @ [name]) None) (read_bytes fs)"

definition package_step :: "fsys \<Rightarrow> path \<Rightarrow> string \<times> string \<Rightarrow> unit \<Rightarrow> unit res" where
  "package_step fs d = (\<lambda>(rel, name) _.
     let p = d @ path_comps rel in
     requireE (\<not> is_link_at fs (butlast p)) ''unsafe-stored-package-directory'' 78 (
     bindE (protected_file fs p None) (\<lambda>_. Inr ())))"

definition validate_bundle ::
    "(string \<Rightarrow> string) \<Rightarrow> (fsys \<Rightarrow> path \<Rightarrow> string list) \<Rightarrow> fsys \<Rightarrow> path \<Rightarrow> string \<Rightarrow> (string \<times> string) list res" where
  "validate_bundle sha256 rglob_rpm fs d baseline =
     bindE (bundle_file fs d ''installed-before.txt'') (\<lambda>before.
     requireE (sha256 before = baseline) ''stored-transaction-baseline-mismatch'' 78 (
     bindE (bundle_file fs d ''transaction.json'') (\<lambda>raw.
     bindE (decode raw) (\<lambda>trx.
     bindE (expected_inventory trx before) (\<lambda>(expected, pths).
     bindE (foldE (package_step fs d) pths ()) (\<lambda>_.
     requireE (same_set (rglob_rpm fs d) (map fst pths)) ''stored-package-set-mismatch'' 78 (
     bindE (bundle_file fs d ''installed-after.sha256'') (\<lambda>after.
     requireE (strip after = sha256 expected) ''stored-transaction-result-mismatch'' 78 (
     Inr pths)))))))))"

end
