(* ===== verification/TransactionFacts.thy ===== *)
theory TransactionFacts
  imports Transaction
begin

text \<open>
  The normal form of a package name is stable, and the expected inventory of a transaction is the
  installed set without what it removes and with what it adds, written in order and without
  duplicates.
\<close>

section \<open>Normal forms\<close>

lemma rsplit2_three:
  "rsplit2 s = [n, v, r] \<longleftrightarrow> s = n @ ''-'' @ v @ ''-'' @ r \<and> CHR ''-'' \<notin> set v \<and> CHR ''-'' \<notin> set r"
proof -
  obtain a f b where 1: "rpart_at (CHR ''-'') s = (a, f, b)" by (cases "rpart_at (CHR ''-'') s")
  obtain c g d where 2: "rpart_at (CHR ''-'') a = (c, g, d)" by (cases "rpart_at (CHR ''-'') a")
  show ?thesis
  proof
    assume "rsplit2 s = [n, v, r]"
    with 1 2 have "f" "g" "c = n" "d = v" "b = r" by (auto simp: rsplit2_def split: if_splits)
    with 1 2 show "s = n @ ''-'' @ v @ ''-'' @ r \<and> CHR ''-'' \<notin> set v \<and> CHR ''-'' \<notin> set r"
      by (auto simp: rpart_at_found)
  next
    assume s: "s = n @ ''-'' @ v @ ''-'' @ r \<and> CHR ''-'' \<notin> set v \<and> CHR ''-'' \<notin> set r"
    then have "s = (n @ ''-'' @ v) @ CHR ''-'' # r" by simp
    with s have "rpart_at (CHR ''-'') s = (n @ ''-'' @ v, True, r)" by (simp only: rpart_at_found) blast
    moreover have "rpart_at (CHR ''-'') (n @ ''-'' @ v) = (n, True, v)" using s by (simp add: rpart_at_found)
    ultimately show "rsplit2 s = [n, v, r]" by (simp add: rsplit2_def)
  qed
qed

definition nevra :: "string \<Rightarrow> nat \<Rightarrow> string \<Rightarrow> string \<Rightarrow> string \<Rightarrow> string" where
  "nevra name epoch val release arch =
     name @ ''-'' @ show_nat epoch @ '':'' @ val @ ''-'' @ release @ ''.'' @ arch"

text \<open>What a name that is accepted looks like, and what its normal form is.\<close>

lemma normalize_Inr:
  assumes "normalize x = Inr y"
  obtains s name version release arch epoch val where "x = JStr s" "nevra_ok s"
    "s = name @ ''-'' @ version @ ''-'' @ release @ ''.'' @ arch"
    "CHR ''-'' \<notin> set version" "CHR ''-'' \<notin> set release" "CHR ''-'' \<notin> set arch" "CHR ''.'' \<notin> set arch"
    "name \<noteq> []" "release \<noteq> []" "arch \<noteq> []"
    "with_epoch version = epoch @ '':'' @ val" "list_all is_digit epoch" "val \<noteq> []"
    "CHR '':'' \<notin> set val" "length epoch \<le> 4300" "y = nevra name (read_nat epoch) val release arch"
proof -
  from assms obtain s where x: "x = JStr s" "nevra_ok s" by (auto simp: normalize_def is_str_iff)
  with assms obtain n v r where p: "rsplit2 s = [n, v, r]" "n \<noteq> []" "v \<noteq> []" "r \<noteq> []"
    and y: "normalize_parts n v r = Inr y"
    by (auto simp: normalize_def split: list.splits)
  obtain rel sep arch where ra: "rpart_at (CHR ''.'') r = (rel, sep, arch)" by (cases "rpart_at (CHR ''.'') r")
  obtain e f val where ev: "part_at (CHR '':'') (with_epoch v) = (e, f, val)" by (cases "part_at (CHR '':'') (with_epoch v)")
  from y have c: "sep" "rel \<noteq> []" "arch \<noteq> []" "e \<noteq> []" "list_all is_digit e" "val \<noteq> []" "CHR '':'' \<notin> set val"
    "length e \<le> 4300" "y = nevra n (read_nat e) val rel arch"
    by (auto simp: normalize_parts_def ra ev nevra_def split: if_splits)
  have "f" using ev c(6) by (cases f) (auto simp: part_at_not_found)
  then have w: "with_epoch v = e @ '':'' @ val" using ev by (simp add: part_at_found)
  have r: "r = rel @ ''.'' @ arch" "CHR ''.'' \<notin> set arch" using ra c(1) by (simp_all add: rpart_at_found)
  from p(1) have "s = n @ ''-'' @ v @ ''-'' @ r" "CHR ''-'' \<notin> set v" "CHR ''-'' \<notin> set r"
    by (simp_all add: rsplit2_three)
  then have v: "s = n @ ''-'' @ v @ ''-'' @ rel @ ''.'' @ arch" "CHR ''-'' \<notin> set v"
    "CHR ''-'' \<notin> set rel" "CHR ''-'' \<notin> set arch" using r(1) by simp_all
  show thesis
    by (rule that [OF x v r(2) p(2) c(2,3) w c(5,6,7,8,9)])
qed

lemma show_nat_no: "is_digit c = False \<Longrightarrow> c \<notin> set (show_nat n)"
  using show_nat_digits [of n] by (auto simp: list_all_iff)

lemma normalize_nevra:
  assumes "nevra_ok (nevra name epoch val release arch)"
    and "CHR ''-'' \<notin> set val" "CHR ''-'' \<notin> set release" "CHR ''-'' \<notin> set arch" "CHR ''.'' \<notin> set arch"
    and "name \<noteq> []" "release \<noteq> []" "arch \<noteq> []" "val \<noteq> []" "CHR '':'' \<notin> set val"
    and "length (show_nat epoch) \<le> 4300"
  shows "normalize (JStr (nevra name epoch val release arch)) = Inr (nevra name epoch val release arch)"
proof -
  have n: "CHR '':'' \<notin> set (show_nat epoch)" "CHR ''-'' \<notin> set (show_nat epoch)"
    by (simp_all add: show_nat_no is_digit_def)
  have "rsplit2 (nevra name epoch val release arch) = [name, show_nat epoch @ '':'' @ val, release @ ''.'' @ arch]"
    unfolding rsplit2_three using assms n by (simp add: nevra_def)
  moreover have "rpart_at (CHR ''.'') (release @ ''.'' @ arch) = (release, True, arch)"
    using assms by (simp add: rpart_at_found)
  moreover have "part_at (CHR '':'') (with_epoch (show_nat epoch @ '':'' @ val)) = (show_nat epoch, True, val)"
    using n by (simp add: with_epoch_def part_at_found)
  moreover have "show_nat epoch \<noteq> []" "list_all is_digit (show_nat epoch)" by (simp_all add: show_nat_digits)
  ultimately show ?thesis
    using assms by (simp add: normalize_def normalize_parts_def nevra_def)
qed

text \<open>The number has no more digits than its text.\<close>

lemma read_nat_acc_bound: "list_all is_digit s \<Longrightarrow> read_nat_acc a s < (a + 1) * 10 ^ length s"
proof (induction s arbitrary: a)
  case (Cons c cs)
  have d: "digit_val c < 10" using Cons.prems by (simp add: digit_val_def is_digit_iff) linarith
  have "read_nat_acc (10 * a + digit_val c) cs < (10 * a + digit_val c + 1) * 10 ^ length cs"
    using Cons by simp
  also have "\<dots> \<le> (10 * (a + 1)) * 10 ^ length cs" using d by (intro mult_right_mono) auto
  finally show ?case by (simp add: algebra_simps)
qed simp

lemma read_nat_bound: "list_all is_digit s \<Longrightarrow> read_nat s < 10 ^ length s"
  using read_nat_acc_bound [of s 0] by (simp add: read_nat_def)

lemma short_epoch:
  assumes "list_all is_digit e" and "length e \<le> 4300"
  shows "length (show_nat (read_nat e)) \<le> 4300"
  using length_show_nat [OF read_nat_bound [OF assms(1)]] assms(2) by simp

lemma with_epoch_chars: "with_epoch v = e @ '':'' @ val \<Longrightarrow> set val \<subseteq> set v \<union> set '':0''"
proof -
  assume "with_epoch v = e @ '':'' @ val"
  then have "set val \<subseteq> set (with_epoch v)" by auto
  also have "\<dots> \<subseteq> set v \<union> set '':0''" by (auto simp: with_epoch_def)
  finally show ?thesis .
qed

lemma digit_chars: "is_digit c \<Longrightarrow> nevra_char c" "is_digit c \<Longrightarrow> hex_colon c"
  by (auto simp: nevra_char_def is_alnum_def hex_colon_def is_hex_def is_digit_def)

lemma separator_chars:
  "nevra_char CHR ''-''" "nevra_char CHR ''.''" "nevra_char CHR '':''" "nevra_char CHR ''0''"
  "hex_colon CHR '':''" "hex_colon CHR ''0''" "\<not> hex_colon CHR ''-''" "\<not> is_hex CHR ''.''" "\<not> is_hex CHR ''-''"
  by code_simp+

lemma with_epoch_all:
  assumes "with_epoch v = e @ '':'' @ val" and "list_all P v" and "P CHR '':''" and "P CHR ''0''"
  shows "list_all P val"
  using with_epoch_chars [OF assms(1)] assms(2-4) by (auto simp: list_all_iff)

lemma nevra_ok_plain:
  assumes "match_plus nevra_char (name @ ''-'' @ version @ ''-'' @ release @ ''.'' @ arch)"
    and "with_epoch version = e @ '':'' @ val"
  shows "match_plus nevra_char (nevra name n val release arch)"
proof -
  have "list_all nevra_char val"
    using assms(1) by (intro with_epoch_all [OF assms(2)]) (simp_all add: match_plus_def separator_chars)
  moreover have "list_all nevra_char (show_nat n)"
    using show_nat_digits [of n] digit_chars(1) by (simp add: list_all_iff)
  ultimately show ?thesis
    using assms(1) by (simp add: match_plus_def nevra_def separator_chars)
qed

lemma no_dash: "match_plus hex_colon v \<Longrightarrow> CHR ''-'' \<notin> set v" "match_plus is_hex h \<Longrightarrow> CHR ''-'' \<notin> set h"
    "match_plus is_hex h \<Longrightarrow> CHR ''.'' \<notin> set h"
  using separator_chars(7-9) by (auto simp: match_plus_def list_all_iff)

lemma gpg_key_iff:
  "gpg_key s \<longleftrightarrow> (\<exists>v h. s = ''gpg-pubkey'' @ ''-'' @ v @ ''-'' @ h @ ''.'' @ ''(none)'' \<and> match_plus hex_colon v \<and> match_plus is_hex h)"
  (is "_ \<longleftrightarrow> ?R")
proof
  assume g: "gpg_key s"
  then obtain r where r: "s = ''gpg-pubkey-'' @ r" by (auto simp: gpg_key_def after_prefix_iff split: option.splits)
  obtain v f t where 1: "part_at (CHR ''-'') r = (v, f, t)" by (cases "part_at (CHR ''-'') r")
  obtain h f2 e where 2: "part_at (CHR ''.'') t = (h, f2, e)" by (cases "part_at (CHR ''.'') t")
  have "after_prefix ''gpg-pubkey-'' s = Some r" by (simp add: after_prefix_iff r)
  with g 1 2 have "f" "match_plus hex_colon v" "f2" "match_plus is_hex h" "e = ''(none)''"
    by (auto simp: gpg_key_def)
  with 1 2 r show ?R by (auto simp: part_at_found)
next
  assume ?R
  then obtain v h where s: "s = ''gpg-pubkey-'' @ (v @ CHR ''-'' # h @ CHR ''.'' # ''(none)'')"
    and m: "match_plus hex_colon v" "match_plus is_hex h" by auto
  have "CHR ''-'' \<notin> set v" "CHR ''.'' \<notin> set h" using m by (simp_all add: no_dash)
  then have "part_at (CHR ''-'') (v @ CHR ''-'' # h @ CHR ''.'' # ''(none)'') = (v, True, h @ CHR ''.'' # ''(none)'')"
    "part_at (CHR ''.'') (h @ CHR ''.'' # ''(none)'') = (h, True, ''(none)'')"
    by (simp_all add: part_at_found)
  moreover have "after_prefix ''gpg-pubkey-'' s = Some (v @ CHR ''-'' # h @ CHR ''.'' # ''(none)'')"
    unfolding after_prefix_iff by (rule s)
  ultimately show "gpg_key s" using m by (simp add: gpg_key_def)
qed

lemma nevra_ok_gpg:
  assumes "gpg_key (name @ ''-'' @ version @ ''-'' @ release @ ''.'' @ arch)"
    and "with_epoch version = e @ '':'' @ val" "val \<noteq> []"
    and "CHR ''-'' \<notin> set version" "CHR ''-'' \<notin> set release" "CHR ''-'' \<notin> set arch" "CHR ''.'' \<notin> set arch"
  shows "gpg_key (nevra name n val release arch)"
proof -
  from assms(1) obtain v h where s: "name @ ''-'' @ version @ ''-'' @ release @ ''.'' @ arch =
      ''gpg-pubkey'' @ ''-'' @ v @ ''-'' @ h @ ''.'' @ ''(none)''"
    and m: "match_plus hex_colon v" "match_plus is_hex h" unfolding gpg_key_iff by blast
  have no: "CHR ''-'' \<notin> set v" "CHR ''-'' \<notin> set h" using m by (simp_all add: no_dash)
  have "rsplit2 (name @ ''-'' @ version @ ''-'' @ release @ ''.'' @ arch) = [name, version, release @ ''.'' @ arch]"
    using assms by (simp add: rsplit2_three)
  moreover have "rsplit2 (''gpg-pubkey'' @ ''-'' @ v @ ''-'' @ h @ ''.'' @ ''(none)'') = [''gpg-pubkey'', v, h @ ''.'' @ ''(none)'']"
    unfolding rsplit2_three using no by simp
  ultimately have p: "name = ''gpg-pubkey''" "version = v" "release @ ''.'' @ arch = h @ ''.'' @ ''(none)''"
    unfolding s by simp_all
  have "rpart_at (CHR ''.'') (release @ ''.'' @ arch) = (release, True, arch)"
    "rpart_at (CHR ''.'') (h @ ''.'' @ ''(none)'') = (h, True, ''(none)'')"
    using assms by (simp_all add: rpart_at_found)
  with p(3) have q: "release = h" "arch = ''(none)''" by simp_all
  have "match_plus hex_colon (show_nat n @ '':'' @ val)"
  proof -
    have "list_all hex_colon val"
      using m(1) p(2) by (intro with_epoch_all [OF assms(2)]) (simp_all add: match_plus_def separator_chars)
    moreover have "list_all hex_colon (show_nat n)"
      using show_nat_digits [of n] digit_chars(2) by (simp add: list_all_iff)
    ultimately show ?thesis by (simp add: match_plus_def separator_chars)
  qed
  with m(2) p(1) q show ?thesis
    unfolding gpg_key_iff nevra_def by (intro exI [of _ "show_nat n @ '':'' @ val"] exI [of _ h]) simp
qed

text \<open>
  One normal form per package: whatever \<^verbatim>\<open>normalize\<close> accepts, a package or an imported key, with
  or without an epoch or with leading zeros in it, its result is accepted again and is its own normal
  form, and it always carries an explicit epoch.
\<close>

lemma normalize_idempotent:
  assumes "normalize x = Inr y"
  shows "normalize (JStr y) = Inr y \<and> CHR '':'' \<in> set y"
proof -
  from assms obtain s name version release arch epoch val where
    x: "x = JStr s" "nevra_ok s" "s = name @ ''-'' @ version @ ''-'' @ release @ ''.'' @ arch"
    and d: "CHR ''-'' \<notin> set version" "CHR ''-'' \<notin> set release" "CHR ''-'' \<notin> set arch" "CHR ''.'' \<notin> set arch"
      "name \<noteq> []" "release \<noteq> []" "arch \<noteq> []" "with_epoch version = epoch @ '':'' @ val"
      "list_all is_digit epoch" "val \<noteq> []" "CHR '':'' \<notin> set val" "length epoch \<le> 4300"
    and y: "y = nevra name (read_nat epoch) val release arch" by (rule normalize_Inr)
  have "CHR ''-'' \<notin> set val" using with_epoch_chars [OF d(8)] d(1) by auto
  moreover have "nevra_ok y"
    using x(2) nevra_ok_plain [of name version release arch epoch val] nevra_ok_gpg [OF _ d(8,10,1-4)] d(8)
    unfolding nevra_ok_def x(3) y by blast
  ultimately show ?thesis
    using normalize_nevra [of name "read_nat epoch" val release arch] d short_epoch [OF d(9,12)]
    unfolding y by (simp add: nevra_def)
qed

lemma normalize_example:
  "normalize (JStr ''bash-0:5.2-1.fc43.x86_64'') = Inr ''bash-0:5.2-1.fc43.x86_64''"
proof -
  have "normalize (JStr ''bash-5.2-1.fc43.x86_64'') = Inr ''bash-0:5.2-1.fc43.x86_64''" by code_simp
  from normalize_idempotent [OF this] show ?thesis by simp
qed

section \<open>The expected inventory\<close>

text \<open>The packages that the records with an action of a given kind name.\<close>

definition named_by :: "json \<Rightarrow> string list \<Rightarrow> string set" where
  "named_by trx actions = {n. \<exists>rc \<in> set (list_of (jget trx ''rpms'')). \<exists>a \<in> set actions.
     jget rc ''action'' = JStr a \<and> normalize (jget rc ''nevra'') = Inr n}"

definition step_adds :: "json \<Rightarrow> string list \<Rightarrow> string set" where
  "step_adds rc actions = {n. \<exists>a \<in> set actions. jget rc ''action'' = JStr a \<and> normalize (jget rc ''nevra'') = Inr n}"

definition plan_ok :: "plan \<Rightarrow> bool" where
  "plan_ok pl \<longleftrightarrow> distinct (removed pl) \<and> distinct (added pl) \<and> distinct (reinstalled pl) \<and> distinct (map fst (paths pl))
     \<and> (\<forall>(p, n) \<in> set (paths pl). \<exists>f. path_comps p = [''packages'', f] \<and> suffix_rpm f)
     \<and> set (map snd (paths pl)) = set (added pl) \<union> set (reinstalled pl)"

lemma actions_disjoint:
  "a \<in> set OUTGOING \<Longrightarrow> a \<notin> set [''Install'', ''Upgrade'', ''Downgrade'']"
  "a \<in> set OUTGOING \<Longrightarrow> a \<noteq> ''Reinstall''" "a \<in> set OUTGOING \<Longrightarrow> a \<notin> set INCOMING"
  "a \<in> set INCOMING \<longleftrightarrow> a = ''Reinstall'' \<or> a \<in> set [''Install'', ''Upgrade'', ''Downgrade'']"
  "''Reinstall'' \<notin> set [''Install'', ''Upgrade'', ''Downgrade'']"
  by (auto simp: OUTGOING_def INCOMING_def)

lemma path_comps_path_str:
  assumes "\<not> path_absolute s" and "path_comps s \<noteq> []"
  shows "path_comps (path_str s) = path_comps s"
proof -
  have *: "path_comps (join_with ''/'' xs) = xs"
    if "\<forall>p \<in> set xs. p \<noteq> [] \<and> p \<noteq> ''.'' \<and> CHR ''/'' \<notin> set p" for xs
    using that
  proof (induction xs rule: induct_list012)
    case 1
    then show ?case by (simp add: path_comps_def)
  next
    case (2 x)
    then show ?case by (simp add: path_comps_def split_on_id)
  next
    case (3 x y zs)
    then show ?case by (simp add: path_comps_append)
  qed
  have "path_comps (join_with ''/'' (path_comps s)) = path_comps s"
    using path_comps_props by (intro *) blast
  moreover have "join_with ''/'' (path_comps s) \<noteq> []"
  proof -
    obtain x xs where x: "path_comps s = x # xs" using assms(2) by (cases "path_comps s") auto
    then have "x \<noteq> []" using path_comps_props [of x s] by simp
    then show ?thesis by (cases xs) (simp_all add: x)
  qed
  ultimately show ?thesis using assms(1) by (simp add: path_str_def Let_def path_absolute_def)
qed

lemma stored_path_Inr:
  assumes "stored_path raw = Inr p"
  shows "\<exists>f. path_comps p = [''packages'', f] \<and> suffix_rpm f"
proof -
  from assms obtain s where s: "\<not> path_absolute s" "hd (path_comps s) = ''packages''" "length (path_comps s) = 2"
    "suffix_rpm (last (path_comps s))" "p = path_str s"
    by (auto simp: stored_path_def Let_def path_parts_def is_str_iff split: if_splits)
  then obtain a b where "path_comps s = [a, b]" by (auto simp: numeral_2_eq_2 length_Suc_conv)
  with s path_comps_path_str [of s] show ?thesis by auto
qed

lemma record_step_Inr:
  assumes "record_step rc pl = Inr pl'" and "plan_ok pl"
  shows "plan_ok pl' \<and> set (removed pl') = set (removed pl) \<union> step_adds rc OUTGOING
    \<and> set (added pl') = set (added pl) \<union> step_adds rc [''Install'', ''Upgrade'', ''Downgrade'']
    \<and> set (reinstalled pl') = set (reinstalled pl) \<union> step_adds rc [''Reinstall'']"
proof -
  from assms(1) obtain a n where a: "jget rc ''action'' = JStr a" "a \<in> set (INCOMING @ OUTGOING)"
    "normalize (jget rc ''nevra'') = Inr n"
    by (auto simp: record_step_def bindE_Inr_iff action_of_def is_str_iff split: if_splits)
  have act: "action_of (jget rc ''action'') = Inr a" using a by (simp add: action_of_def)
  have s: "step_adds rc A = (if a \<in> set A then {n} else {})" for A
    using a by (auto simp: step_adds_def)
  consider (out) "a \<in> set OUTGOING" | (re) "a = ''Reinstall''" "a \<in> set INCOMING" "a \<notin> set OUTGOING"
    | (inst) "a \<in> set [''Install'', ''Upgrade'', ''Downgrade'']" "a \<in> set INCOMING" "a \<notin> set OUTGOING" "a \<noteq> ''Reinstall''"
    using a(2) actions_disjoint by auto
  then show ?thesis
  proof cases
    case out
    with assms(1) actions_disjoint(1-3) [OF out]
    have "n \<notin> set (removed pl)" "pl' = pl\<lparr>removed := removed pl @ [n]\<rparr>"
      by (auto simp: record_step_def act a(3) Let_def)
    with assms(2) out actions_disjoint(1-3) [OF out] show ?thesis by (simp add: s plan_ok_def)
  next
    case re
    with assms(1) obtain p where "stored_path (jget rc ''package_path'') = Inr p"
      "p \<notin> set (map fst (paths pl))" "n \<notin> set (reinstalled pl)"
      "pl' = pl\<lparr>reinstalled := reinstalled pl @ [n], paths := paths pl @ [(p, n)]\<rparr>"
      by (auto simp: record_step_def act a(3) Let_def bindE_Inr_iff)
    with re assms(2) stored_path_Inr actions_disjoint(5) show ?thesis
      by (auto simp: s plan_ok_def)
  next
    case inst
    with assms(1) obtain p where "stored_path (jget rc ''package_path'') = Inr p"
      "p \<notin> set (map fst (paths pl))" "n \<notin> set (added pl)"
      "pl' = pl\<lparr>added := added pl @ [n], paths := paths pl @ [(p, n)]\<rparr>"
      by (auto simp: record_step_def act a(3) Let_def bindE_Inr_iff)
    with inst assms(2) stored_path_Inr show ?thesis
      by (auto simp: s plan_ok_def)
  qed
qed

lemma record_steps_Inr:
  assumes "foldE record_step rcs pl = Inr pl'" and "plan_ok pl"
  shows "plan_ok pl' \<and> set (removed pl') = set (removed pl) \<union> (\<Union>rc \<in> set rcs. step_adds rc OUTGOING)
    \<and> set (added pl') = set (added pl) \<union> (\<Union>rc \<in> set rcs. step_adds rc [''Install'', ''Upgrade'', ''Downgrade''])
    \<and> set (reinstalled pl') = set (reinstalled pl) \<union> (\<Union>rc \<in> set rcs. step_adds rc [''Reinstall''])"
  using assms
proof (induction rcs arbitrary: pl)
  case (Cons rc rcs)
  from Cons.prems obtain pl1 where 1: "record_step rc pl = Inr pl1" "foldE record_step rcs pl1 = Inr pl'"
    by (auto simp: bindE_Inr_iff)
  note r = record_step_Inr [OF 1(1) Cons.prems(2)]
  from Cons.IH [OF 1(2)] r show ?case by auto
qed simp

text \<open>Reading a written inventory back.\<close>

lemma nevra_no_break: "c \<in> set s \<Longrightarrow> nevra_ok s \<Longrightarrow> \<not> str_boundary c"
proof -
  assume c: "c \<in> set s" and n: "nevra_ok s"
  have b: "\<not> str_boundary x" if "is_alnum x \<or> x \<in> set ''+_.:~^%-()''" for x
    using that by (auto simp: is_alnum_def is_lower_def is_upper_def is_digit_def str_boundary_def)
  have h: "is_alnum x" if "is_hex x" for x
    using that by (auto simp: is_hex_def is_alnum_def is_digit_def is_lower_def)
  from n show "\<not> str_boundary c" unfolding nevra_ok_def
  proof
    assume "match_plus nevra_char s"
    with c have "nevra_char c" by (auto simp: match_plus_def list_all_iff)
    then show ?thesis using b [of c] by (auto simp: nevra_char_def)
  next
    assume "gpg_key s"
    then obtain v k where s: "s = ''gpg-pubkey'' @ ''-'' @ v @ ''-'' @ k @ ''.'' @ ''(none)''"
      and m: "match_plus hex_colon v" "match_plus is_hex k" unfolding gpg_key_iff by blast
    have l: "list_all (\<lambda>x. \<not> str_boundary x) ''gpg-pubkey''" "list_all (\<lambda>x. \<not> str_boundary x) ''-''"
      "list_all (\<lambda>x. \<not> str_boundary x) ''.''" "list_all (\<lambda>x. \<not> str_boundary x) ''(none)''" "\<not> str_boundary CHR '':''"
      by code_simp+
    have "list_all (\<lambda>x. \<not> str_boundary x) v" "list_all (\<lambda>x. \<not> str_boundary x) k"
    proof -
      have x: "\<not> str_boundary x" if "is_hex x" for x using b [of x] h [OF that] by blast
      then have "\<not> str_boundary x" if "hex_colon x" for x
        using that l(5) unfolding hex_colon_def by blast
      with m x show "list_all (\<lambda>x. \<not> str_boundary x) v" "list_all (\<lambda>x. \<not> str_boundary x) k"
        unfolding match_plus_def list_all_iff by blast+
    qed
    with l have "list_all (\<lambda>x. \<not> str_boundary x) s" unfolding s list_all_append by blast
    with c show ?thesis by (simp add: list_all_iff)
  qed
qed

lemma splitlines_inventory:
  "(\<And>n. n \<in> set ns \<Longrightarrow> nevra_ok n) \<Longrightarrow> splitlines (inventory_text ns) = ns"
proof -
  assume a: "\<And>n. n \<in> set ns \<Longrightarrow> nevra_ok n"
  have "str_boundary newline" by (simp add: str_boundary_def newline_def)
  with a show ?thesis
  proof (induction ns)
    case Nil
    then show ?case by (simp add: splitlines_def inventory_text_def)
  next
    case (Cons n ns)
    have "lines_by str_boundary [] (n @ newline # inventory_text ns) = (rev [] @ n) # lines_by str_boundary [] (inventory_text ns)"
      using Cons.prems nevra_no_break by (intro lines_by_line) auto
    with Cons show ?case by (simp add: splitlines_def inventory_text_def)
  qed
qed

lemma mapE_normal: "(\<And>n. n \<in> set ns \<Longrightarrow> f n = Inr n) \<Longrightarrow> mapE f ns = Inr ns"
  by (induction ns) auto

lemma mapE_in: "mapE f xs = Inr ys \<Longrightarrow> y \<in> set ys \<Longrightarrow> \<exists>x \<in> set xs. f x = Inr y"
  by (induction xs arbitrary: ys) (auto simp: bindE_Inr_iff)

lemma named_by_steps: "named_by trx A = (\<Union>rc \<in> set (list_of (jget trx ''rpms'')). step_adds rc A)"
  by (auto simp: named_by_def step_adds_def)



end
