(* ===== verification/Release.thy ===== *)
theory Release
  imports Common
begin

text \<open>
  \<^verbatim>\<open>scripts/hermes/unattended/release.py\<close>: the manifest of a release, the names of its files, and the
  extraction of an archive that is authenticated before anything but its two metadata members is
  used. The hash function, the tar reader and the commands are parameters; an archive is the list
  of its members.
\<close>

section \<open>The manifest\<close>

definition SCHEMA :: string where "SCHEMA = ''hermes-release-v2''"
definition MAX_ARCHIVE :: int where "MAX_ARCHIVE = 8 * 1024 ^ 3"
definition MAX_METADATA :: int where "MAX_METADATA = 1024 * 1024"

definition GATES :: "string list" where
  "GATES = [''inference'', ''restore'', ''credential_revocation'', ''data_purge'', ''vm_destroyed'',
            ''boot'', ''runtime'', ''package_replay'', ''vulnerability_scan'']"

definition FIELDS :: "string list" where
  "FIELDS = [''schema'', ''release_id'', ''issued_at'', ''expires_at'', ''image'', ''provider'', ''model'',
             ''host'', ''baseline_sha256'', ''files'', ''evidence'', ''transaction'', ''boot_artifact'']"

definition sha :: "json \<Rightarrow> bool" where
  "sha v \<longleftrightarrow> is_str v \<and> match_count is_hex 64 (str_of v)"

definition name_char :: "char \<Rightarrow> bool" where
  "name_char c \<longleftrightarrow> is_alnum c \<or> c \<in> set ''_./+^-''"

definition safe_name :: "string \<Rightarrow> string res" where
  "safe_name name =
     requireE (match_plus name_char name) ''unsafe-archive-path'' 78 (
     requireE (\<not> path_absolute name \<and> path_str name = name
               \<and> list_all (\<lambda>part. part \<noteq> ''.'' \<and> part \<noteq> ''..'') (path_parts name))
       ''unsafe-archive-path'' 78 (
     requireE (startswith name ''payload/'' \<or> startswith name ''packages/''
               \<or> startswith name ''boot/'' \<or> startswith name ''evidence/'')
       ''unexpected-archive-path'' 78 (Inr name)))"

text \<open>The regular expression of the image leaves the first dot unescaped: it stands for any character but a line feed.\<close>

definition image_ok :: "string \<Rightarrow> bool" where
  "image_ok s =
     (case after_prefix ''docker'' s of
        Some (c # r) \<Rightarrow> c \<noteq> newline \<and>
          match_prefixed ''io/nousresearch/hermes-agent@sha256:'' (match_count is_hex 64) r
      | _ \<Rightarrow> False)"

definition release_id_ok :: "string \<Rightarrow> bool" where
  "release_id_ok s \<longleftrightarrow> length s \<le> 96 \<and> match_head_tail is_alnum (\<lambda>c. is_alnum c \<or> c \<in> set ''._-'') s"

definition model_ok :: "string \<Rightarrow> bool" where
  "model_ok s \<longleftrightarrow> match_plus (\<lambda>c. is_alnum c \<or> c \<in> set ''._:/-'') s"

definition ssh_fingerprint_ok :: "string \<Rightarrow> bool" where
  "ssh_fingerprint_ok s \<longleftrightarrow>
     match_prefixed ''SHA256:'' (match_count (\<lambda>c. is_alnum c \<or> c \<in> set ''+/'') 43) s"

definition host_binding_ok :: "json \<Rightarrow> bool" where
  "host_binding_ok v \<longleftrightarrow> fields_are v [''machine_id_sha256'', ''ssh_fingerprint'']
     \<and> sha (jget v ''machine_id_sha256'') \<and> is_str (jget v ''ssh_fingerprint'')
     \<and> ssh_fingerprint_ok (str_of (jget v ''ssh_fingerprint''))"

text \<open>The loop over \<^verbatim>\<open>files.items()\<close>: each name and record is checked and the sizes are added.\<close>

definition file_record_ok :: "json \<Rightarrow> bool" where
  "file_record_ok r \<longleftrightarrow> fields_are r [''sha256'', ''size'', ''mode'']
     \<and> sha (jget r ''sha256'') \<and> is_int (jget r ''size'')
     \<and> 0 \<le> int_of (jget r ''size'') \<and> int_of (jget r ''size'') \<le> MAX_ARCHIVE
     \<and> in_ints (jget r ''mode'') [384, 420, 493]"

definition file_step :: "string \<times> json \<Rightarrow> int \<Rightarrow> int res" where
  "file_step = (\<lambda>(name, record) total.
     bindE (safe_name name) (\<lambda>_.
     requireE (file_record_ok record) ''invalid-file-record'' 78 (
     Inr (total + int_of (jget record ''size'')))))"

definition artifact_ok :: "json \<Rightarrow> string \<Rightarrow> string \<Rightarrow> bool" where
  "artifact_ok manifest field prefix \<longleftrightarrow> is_str (jget manifest field)
     \<and> startswith (str_of (jget manifest field)) prefix
     \<and> has_key (jget manifest ''files'') (str_of (jget manifest field))"

definition evidence_step :: "json \<Rightarrow> string \<times> json \<Rightarrow> unit \<Rightarrow> unit res" where
  "evidence_step fmap = (\<lambda>(gate, name) _.
     requireE (is_str name \<and> startswith (str_of name) ''evidence/'' \<and> has_key fmap (str_of name))
       ''missing-certification-evidence'' 78 (Inr ()))"

definition validate :: "json \<Rightarrow> int \<Rightarrow> json option \<Rightarrow> bool \<Rightarrow> json res" where
  "validate manifest now host bound =
     requireE (fields_are manifest FIELDS) ''invalid-release-fields'' 78 (
     requireE (jget manifest ''schema'' = JStr SCHEMA) ''unsigned-or-legacy-release'' 78 (
     requireE (is_str (jget manifest ''release_id'') \<and> release_id_ok (str_of (jget manifest ''release_id'')))
       ''invalid-release-id'' 78 (
     let issued = jget manifest ''issued_at''; expires = jget manifest ''expires_at'' in
     requireE (is_int issued \<and> is_int expires \<and> 0 < int_of expires - int_of issued
               \<and> int_of expires - int_of issued \<le> 86400) ''invalid-release-window'' 78 (
     requireE (int_of issued \<le> now \<and> (bound \<or> now \<le> int_of expires)) ''expired-or-future-release'' 78 (
     requireE (is_str (jget manifest ''image'') \<and> image_ok (str_of (jget manifest ''image'')))
       ''unpinned-image'' 78 (
     requireE (jget manifest ''provider'' = JStr ''openai-api'') ''unattended-provider-unsupported'' 78 (
     requireE (is_str (jget manifest ''model'') \<and> model_ok (str_of (jget manifest ''model'')))
       ''invalid-model'' 78 (
     let identity = jget manifest ''host'' in
     requireE (host_binding_ok identity) ''invalid-host-binding'' 78 (
     requireE (case host of None \<Rightarrow> True | Some h \<Rightarrow> py_eq identity h) ''wrong-host'' 78 (
     requireE (sha (jget manifest ''baseline_sha256'')) ''invalid-baseline'' 78 (
     let fmap = jget manifest ''files'' in
     requireE (is_dict fmap \<and> 1 \<le> length (items_of fmap) \<and> length (items_of fmap) \<le> 20000)
       ''invalid-file-map'' 78 (
     bindE (foldE file_step (items_of fmap) 0) (\<lambda>total.
     requireE (total \<le> MAX_ARCHIVE) ''release-too-large'' 78 (
     requireE (has_key fmap ''payload/vulnerability-policy.json'') ''missing-vulnerability-policy'' 78 (
     requireE (artifact_ok manifest ''transaction'' ''packages/'') ''missing-release-artifact'' 78 (
     requireE (artifact_ok manifest ''boot_artifact'' ''boot/'') ''missing-release-artifact'' 78 (
     let evidence = jget manifest ''evidence'' in
     requireE (fields_are evidence GATES) ''incomplete-certification'' 78 (
     bindE (foldE (evidence_step fmap) (items_of evidence) ()) (\<lambda>_. Inr manifest)))))))))))))))))))"

text \<open>\<^verbatim>\<open>candidate_fingerprint(manifest)\<close>: the hash of every tested input, without the evidence and the times.\<close>

definition bound_fields :: "string list" where
  "bound_fields = [''release_id'', ''image'', ''provider'', ''model'', ''host'', ''baseline_sha256'',
                   ''transaction'', ''boot_artifact'']"

definition tested_files :: "json \<Rightarrow> (string \<times> json) list" where
  "tested_files fmap = filter (\<lambda>(name, r). \<not> startswith name ''evidence/'') (items_of fmap)"

definition tested_inputs :: "json \<Rightarrow> json" where
  "tested_inputs manifest = JObj (map (\<lambda>k. (k, jget manifest k)) bound_fields
     @ [(''files'', JObj (tested_files (jget manifest ''files'')))])"

definition candidate_fingerprint :: "(string \<Rightarrow> string) \<Rightarrow> json \<Rightarrow> string" where
  "candidate_fingerprint sha256 manifest = sha256 (canonical (tested_inputs manifest))"

section \<open>The archive\<close>

record member =
  mname :: string
  misfile :: bool
  msparse :: bool
  mpax :: bool
  msize :: int
  mmode :: int
  mdata :: string

definition member_step :: "member \<Rightarrow> member list \<Rightarrow> member list res" where
  "member_step m result =
     requireE (misfile m \<and> \<not> msparse m \<and> \<not> mpax m) ''unsafe-archive-member'' 78 (
     requireE (mname m \<notin> set (map mname result) \<and> length result < 20002)
       ''duplicate-or-excess-archive-member'' 78 (
     requireE (0 \<le> msize m \<and> msize m \<le> MAX_ARCHIVE) ''archive-member-too-large'' 78 (
     requireE (mmode m \<in> set [384, 420, 493]) ''unsafe-archive-mode'' 78 (
     Inr (result @ [m])))))"

definition members :: "member list \<Rightarrow> member list res" where
  "members archive = foldE member_step archive []"

definition lookup :: "member list \<Rightarrow> string \<Rightarrow> member option" where
  "lookup listing name = find (\<lambda>m. mname m = name) listing"

definition member_of :: "member list \<Rightarrow> string \<Rightarrow> member res" where
  "member_of listing name = (case lookup listing name of None \<Rightarrow> Inl KeyError | Some m \<Rightarrow> Inr m)"

text \<open>Copying the source in chunks of at most one mebibyte, with the bound on their sum.\<close>

definition copy_step :: "string \<Rightarrow> string \<Rightarrow> string res" where
  "copy_step chunk copied =
     requireE (int (length copied + length chunk) \<le> MAX_ARCHIVE) ''archive-too-large'' 78 (
     Inr (copied @ chunk))"

definition copy_source :: "string list \<Rightarrow> string res" where
  "copy_source chunks = foldE copy_step (takeWhile (\<lambda>c. c \<noteq> []) chunks) []"

text \<open>
  The tree that is being built below the private directory: relative paths to contents and modes.
  \<open>mkdir_parents\<close> is \<^verbatim>\<open>target.parent.mkdir(parents=True, exist_ok=True)\<close>, which fails where a file
  stands in the way (with \<open>umask 022\<close> the directories above the last are made with mode 0755);
  \<open>add_file\<close> opens with \<^verbatim>\<open>"xb"\<close>, which fails when the path exists.
\<close>

datatype entry = EFile string int | EDir nat

type_synonym tree = "path \<Rightarrow> entry option"

fun mkdir_parents :: "path list \<Rightarrow> tree \<Rightarrow> tree res" where
  "mkdir_parents [] t = Inr t"
| "mkdir_parents (d # ds) t =
     (case t d of None \<Rightarrow> mkdir_parents ds (t(d \<mapsto> EDir (if ds = [] then 448 else 493)))
      | Some (EDir m) \<Rightarrow> mkdir_parents ds t
      | Some (EFile c m) \<Rightarrow> Inl OSError)"

definition ancestors :: "path \<Rightarrow> path list" where
  "ancestors p = map (\<lambda>n. take n p) [1..<length p]"

definition add_file :: "path \<Rightarrow> string \<Rightarrow> int \<Rightarrow> tree \<Rightarrow> tree res" where
  "add_file p c m t =
     bindE (mkdir_parents (ancestors p) t) (\<lambda>t'.
       case t' p of None \<Rightarrow> Inr (t'(p \<mapsto> EFile c m)) | Some _ \<Rightarrow> Inl OSError)"

definition extract_step :: "(string \<Rightarrow> string) \<Rightarrow> member list \<Rightarrow> string \<times> json \<Rightarrow> tree \<Rightarrow> tree res" where
  "extract_step sha256 listing = (\<lambda>(name, record) t.
     bindE (member_of listing name) (\<lambda>m.
     requireE (py_eq (JInt (msize m)) (jget record ''size'') \<and> py_eq (JInt (mmode m)) (jget record ''mode''))
       ''artifact-metadata-mismatch'' 78 (
     bindE (add_file (path_comps name) (mdata m) (mmode m) t) (\<lambda>t'.
     requireE (JStr (sha256 (mdata m)) = jget record ''sha256'') ''artifact-hash-mismatch'' 78 (Inr t')))))"

definition evidence_pass :: "(string \<Rightarrow> string) \<Rightarrow> json \<Rightarrow> string \<Rightarrow> json \<Rightarrow> bool" where
  "evidence_pass sha256 manifest gate evidence \<longleftrightarrow> is_dict evidence
     \<and> jget evidence ''gate'' = JStr gate \<and> jget evidence ''result'' = JStr ''PASS''
     \<and> py_eq (jget evidence ''release_id'') (jget manifest ''release_id'')
     \<and> jget evidence ''artifact_fingerprint'' = JStr (candidate_fingerprint sha256 manifest)"

definition policy_bound :: "json \<Rightarrow> json \<Rightarrow> bool" where
  "policy_bound manifest evidence \<longleftrightarrow> jget evidence ''policy'' = JStr ''advisory-denylist-v1''
     \<and> py_eq (jget evidence ''policy_sha256'')
         (jget (jget (jget manifest ''files'') ''payload/vulnerability-policy.json'') ''sha256'')"

definition gate_step :: "(string \<Rightarrow> string) \<Rightarrow> json \<Rightarrow> tree \<Rightarrow> string \<times> json \<Rightarrow> unit \<Rightarrow> unit res" where
  "gate_step sha256 manifest t = (\<lambda>(gate, name) _.
     requireE (int_of (jget (jget (jget manifest ''files'') (str_of name)) ''size'') \<le> MAX_METADATA)
       ''evidence-too-large'' 78 (
     bindE (case t (path_comps (str_of name)) of Some (EFile c m) \<Rightarrow> Inr c | _ \<Rightarrow> Inl OSError) (\<lambda>raw.
     bindE (decode raw) (\<lambda>evidence.
     requireE (evidence_pass sha256 manifest gate evidence) ''failed-certification-evidence'' 78 (
     requireE (gate = ''vulnerability_scan'' \<longrightarrow> policy_bound manifest evidence)
       ''vulnerability-policy-evidence-mismatch'' 78 (Inr ()))))))"

text \<open>
  The part of \<^verbatim>\<open>unpack\<close> after the signature: the manifest is the verified bytes, and the tree is only
  returned when every file and every gate is as the manifest says.
\<close>

definition open_payload ::
    "(string \<Rightarrow> string) \<Rightarrow> member list \<Rightarrow> string \<Rightarrow> string \<Rightarrow> int \<Rightarrow> json option \<Rightarrow> string option
       \<Rightarrow> (json \<times> string \<times> tree) res" where
  "open_payload sha256 listing raw signature now host bound_digest =
     (let fingerprint = sha256 raw in
      bindE (decode raw) (\<lambda>value.
      bindE (validate value now host (bound_digest = Some fingerprint)) (\<lambda>manifest.
      requireE (same_set (map mname listing)
                  (keys_of (jget manifest ''files'') @ [''manifest.json'', ''manifest.sig'']))
        ''unexpected-or-missing-artifact'' 78 (
      bindE (foldE (extract_step sha256 listing) (items_of (jget manifest ''files'')) Map.empty) (\<lambda>t.
      bindE (foldE (gate_step sha256 manifest t) (items_of (jget manifest ''evidence'')) ()) (\<lambda>_.
      Inr (manifest, fingerprint,
           t([''manifest.json''] \<mapsto> EFile raw 420, [''manifest.sig''] \<mapsto> EFile signature 420))))))))"

definition install_tree :: "nat \<Rightarrow> path \<Rightarrow> tree \<Rightarrow> fsys \<Rightarrow> fsys" where
  "install_tree u d t fs = (\<lambda>p.
     if p = d then Some (NDir 448 u)
     else if is_prefix d p then
       (case t (drop (length d) p) of
          None \<Rightarrow> None | Some (EDir m) \<Rightarrow> Some (NDir m u)
        | Some (EFile c m) \<Rightarrow> Some (NFile c (nat m) u))
     else fs p)"

text \<open>
  \<^verbatim>\<open>unpack\<close>. \<open>work\<close> names the temporary directory, which is gone when the function returns or raises;
  the signature is checked by \<^verbatim>\<open>ssh-keygen -Y verify\<close> on exactly the bytes that are decoded.
\<close>

definition verify_args :: "string \<Rightarrow> string \<Rightarrow> string list" where
  "verify_args signers sigpath = [''ssh-keygen'', ''-Y'', ''verify'', ''-f'', signers, ''-I'', ''hermes-release'',
     ''-n'', ''hermes-release@ai.lab.local'', ''-s'', sigpath]"

definition unpack ::
    "(string \<Rightarrow> string) \<Rightarrow> (string \<Rightarrow> member list option) \<Rightarrow> 'x commands \<Rightarrow> string \<Rightarrow> string list \<Rightarrow> path
       \<Rightarrow> path \<Rightarrow> string \<Rightarrow> json option \<Rightarrow> int \<Rightarrow> string option \<Rightarrow> nat option
       \<Rightarrow> ('x world, json \<times> string) prog" where
  "unpack sha256 tar cmd sigpath source destination signers signers_name host now bound_digest owner w =
     (if exists_at (files w) destination then (Inl (Failure 78 ''release-destination-exists''), w)
      else bindM (liftE (protected_file (files w) signers owner)) (\<lambda>_.
        bindM (liftE (copy_source source)) (\<lambda>copied.
        bindM (liftE (case tar copied of None \<Rightarrow> Inl (Failure 64 ''invalid-release-archive'') | Some a \<Rightarrow> Inr a)) (\<lambda>archive.
        bindM (liftE (members archive)) (\<lambda>listing.
        requireM (lookup listing ''manifest.json'' \<noteq> None \<and> lookup listing ''manifest.sig'' \<noteq> None)
          ''missing-signature'' 78 (
        let mj = the (lookup listing ''manifest.json''); ms = the (lookup listing ''manifest.sig'') in
        requireM (msize mj \<le> MAX_METADATA \<and> msize ms \<le> MAX_METADATA) ''metadata-too-large'' 78 (
        bindM (runM cmd (verify_args signers_name sigpath) (Some (mdata mj))) (\<lambda>_.
        bindM (liftE (open_payload sha256 listing (mdata mj) (mdata ms) now host bound_digest))
          (\<lambda>(manifest, fingerprint, t).
        bindM (modifyM (\<lambda>w. w\<lparr>files := install_tree (euid w) destination t (files w)\<rparr>)) (\<lambda>_.
        ret (manifest, fingerprint)))))))))) w)"

end
