(* ===== verification/ReleaseFacts.thy ===== *)
theory ReleaseFacts
  imports Release
begin

text \<open>
  What an accepted release guarantees: names that stay below their directory, a bounded and complete
  manifest, a fingerprint that determines the tested inputs, and an extraction that is exactly the
  manifest's files or leaves nothing.
\<close>

section \<open>Names\<close>

lemma relative_root: "\<not> path_absolute s \<Longrightarrow> path_root s = []"
  by (simp add: path_absolute_def)

lemma safe_name_Inr:
  assumes "safe_name n = Inr m"
  shows "m = n" and "\<not> path_absolute n" and "path_str n = n" and "''..'' \<notin> set (path_comps n)"
    and "list_all name_char n"
    and "startswith n ''payload/'' \<or> startswith n ''packages/'' \<or> startswith n ''boot/'' \<or> startswith n ''evidence/''"
  using assms by (auto simp: safe_name_def match_plus_def list_all_iff path_parts_def)

lemma plain_path_str:
  assumes "\<not> path_absolute n" and "path_str n = n" and "path_comps n \<noteq> []"
  shows "n = join_with ''/'' (path_comps n)"
  using assms by (auto simp: path_str_def Let_def relative_root path_comps_def split: if_splits)

text \<open>The first component is one of the four directories and something stands below it.\<close>

lemma safe_name_shape:
  assumes "safe_name n = Inr m"
  shows "\<exists>d r. d \<in> {''payload'', ''packages'', ''boot'', ''evidence''} \<and> path_comps n = d # r \<and> r \<noteq> []"
proof -
  have *: "\<exists>r. path_comps n = d # r \<and> r \<noteq> []"
    if "startswith n (d @ ''/'')" "CHR ''/'' \<notin> set d" "d \<noteq> []" "d \<noteq> ''.''" for d
  proof -
    from that(1) obtain t where n: "n = d @ CHR ''/'' # t" by (auto simp: startswith_iff)
    with that have c: "path_comps n = d # path_comps t" by (simp add: path_comps_append)
    have "path_comps t \<noteq> []"
    proof
      assume "path_comps t = []"
      with c safe_name_Inr(2,3) [OF assms] plain_path_str [of n] have "n = d" by simp
      with n show False by simp
    qed
    with c show ?thesis by blast
  qed
  from safe_name_Inr(6) [OF assms] show ?thesis
    using * [of "''payload''"] * [of "''packages''"] * [of "''boot''"] * [of "''evidence''"]
    by auto
qed

text \<open>
  Safe archive names: a name that \<^verbatim>\<open>safe_name\<close> accepts is returned unchanged; resolved below any
  directory \<open>d\<close> it is a path strictly inside one of the four fixed subdirectories of \<open>d\<close>, with no
  \<^verbatim>\<open>.\<close> or \<^verbatim>\<open>..\<close> step; and two accepted names with the same components are the same string, so distinct
  manifest entries never name the same file.
\<close>

lemma safe_name_contained:
  assumes "safe_name n = Inr m" and "safe_name n' = Inr m'"
  shows "m = n \<and> resolve_dots d (path_comps n) = d @ path_comps n \<and>
    (\<exists>s \<in> {''payload'', ''packages'', ''boot'', ''evidence''}. below (d @ [s]) (d @ path_comps n)) \<and>
    (path_comps n = path_comps n' \<longrightarrow> n = n')"
proof -
  obtain s r where s: "s \<in> {''payload'', ''packages'', ''boot'', ''evidence''}" "path_comps n = s # r" "r \<noteq> []"
    using safe_name_shape [OF assms(1)] by blast
  have "resolve_dots d (path_comps n) = d @ path_comps n"
    using safe_name_Inr(4) [OF assms(1)] path_comps_props by (intro resolve_dots_plain) blast+
  moreover have "below (d @ [s]) (d @ path_comps n)"
    using s by (auto simp: below_def)
  moreover have "n = n'" if "path_comps n = path_comps n'"
    using that s plain_path_str [OF safe_name_Inr(2,3) [OF assms(1)]]
      plain_path_str [OF safe_name_Inr(2,3) [OF assms(2)]] by (metis list.distinct(1))
  ultimately show ?thesis using s(1) safe_name_Inr(1) [OF assms(1)] by blast
qed

lemma safe_name_contained_example:
  "resolve_dots [''srv''] (path_comps ''payload/a-1.txt'') = [''srv'', ''payload'', ''a-1.txt'']"
proof -
  have c: "path_comps ''payload/a-1.txt'' = [''payload'', ''a-1.txt'']" by code_simp
  have "safe_name ''payload/a-1.txt'' = Inr ''payload/a-1.txt''" by code_simp
  from safe_name_contained [OF this this, of "[''srv'']"] show ?thesis unfolding c by simp
qed

section \<open>The manifest\<close>

lemma foldE_files:
  "foldE file_step its a = Inr b \<longleftrightarrow>
     (\<forall>(n, r) \<in> set its. (\<exists>m. safe_name n = Inr m) \<and> file_record_ok r) \<and>
     b = a + sum_list (map (\<lambda>(n, r). int_of (jget r ''size'')) its)"
  by (induction its arbitrary: a) (auto simp: file_step_def bindE_Inr_iff)

lemma foldE_evidence:
  "foldE (evidence_step fl) its u = Inr v \<longleftrightarrow>
     (\<forall>(g, n) \<in> set its. \<exists>s. n = JStr s \<and> startswith s ''evidence/'' \<and> has_key fl s)"
  by (induction its arbitrary: u) (auto simp: evidence_step_def bindE_Inr_iff is_str_iff)

lemma map_of_items: "jget v k = x \<Longrightarrow> has_key v k \<Longrightarrow> (k, x) \<in> set (items_of v)"
  by (auto simp: jget_def has_key_def dest: map_of_SomeD)

text \<open>The conditions of an accepted manifest, each where a lemma can use it.\<close>

lemma validate_Inr:
  assumes "validate m now host bound = Inr r"
  shows "r = m" and "fields_are m FIELDS"
    and "int_of (jget m ''issued_at'') \<le> now" and "bound \<or> now \<le> int_of (jget m ''expires_at'')"
    and "int_of (jget m ''expires_at'') \<le> int_of (jget m ''issued_at'') + 86400"
    and "is_dict (jget m ''files'')" and "length (items_of (jget m ''files'')) \<le> 20000"
    and "\<forall>(n, f) \<in> set (items_of (jget m ''files'')). (\<exists>k. safe_name n = Inr k) \<and> file_record_ok f"
    and "sum_list (map (\<lambda>(n, f). int_of (jget f ''size'')) (items_of (jget m ''files''))) \<le> MAX_ARCHIVE"
    and "has_key (jget m ''files'') ''payload/vulnerability-policy.json''"
    and "artifact_ok m ''transaction'' ''packages/''" and "artifact_ok m ''boot_artifact'' ''boot/''"
    and "fields_are (jget m ''evidence'') GATES"
    and "\<forall>(g, n) \<in> set (items_of (jget m ''evidence'')).
      \<exists>s. n = JStr s \<and> startswith s ''evidence/'' \<and> has_key (jget m ''files'') s"
    and "is_str (jget m ''release_id'')" and "image_ok (str_of (jget m ''image''))"
    and "release_id_ok (str_of (jget m ''release_id''))"
  using assms by (simp_all add: validate_def Let_def bindE_Inr_iff foldE_files foldE_evidence, auto)


section \<open>The fingerprint\<close>

lemma plain_tested_files: "plain v \<Longrightarrow> plain (JObj (tested_files v))"
  by (cases v) (auto simp: tested_files_def list_all_iff distinct_map_filter)

lemma tested_inputs_keys:
  "is_dict (tested_inputs m)" "keys_of (tested_inputs m) = bound_fields @ [''files'']"
  by (simp_all add: tested_inputs_def keys_of_def comp_def)

lemma distinct_tested: "distinct (keys_of (tested_inputs m))"
  unfolding tested_inputs_keys by code_simp

lemma tested_inputs_get:
  "k \<in> set bound_fields \<Longrightarrow> jget (tested_inputs m) k = jget m k"
  "jget (tested_inputs m) ''files'' = JObj (tested_files (jget m ''files''))"
  by (auto simp: bound_fields_def tested_inputs_def jget_def)

lemma map_of_filter_key: "P n \<Longrightarrow> map_of (filter (\<lambda>(n, r). P n) xs) n = map_of xs n"
  by (induction xs) auto

lemma tested_files_get:
  "\<not> startswith n ''evidence/'' \<Longrightarrow> map_of (tested_files v) n = map_of (items_of v) n"
  unfolding tested_files_def by (rule map_of_filter_key)

lemma plain_tested_inputs:
  assumes "plain m"
  shows "plain (tested_inputs m)"
proof -
  have "ascii_only k" if "k \<in> set (bound_fields @ [''files''])" for k
  proof -
    have "list_all ascii_only (bound_fields @ [''files''])" by code_simp
    with that show ?thesis by (auto simp: list_all_iff)
  qed
  moreover have "distinct (bound_fields @ [''files''])" by code_simp
  ultimately show ?thesis
    using plain_jget [OF assms] plain_tested_files [OF plain_jget [OF assms, of "''files''"]]
    unfolding tested_inputs_def plain_JObj_iff [of "map f xs @ ys" for f xs ys]
    by (auto simp: comp_def simp del: plain.simps(7))
qed


section \<open>Extraction\<close>

lemma mkdir_parents_files:
  "mkdir_parents ds t = Inr t' \<Longrightarrow> t' p = Some (EFile c m) \<longleftrightarrow> t p = Some (EFile c m)"
  by (induction ds arbitrary: t) (auto split: option.splits entry.splits if_splits)

lemma add_file_files:
  assumes "add_file q c m t = Inr t'"
  shows "t' p = Some (EFile d n) \<longleftrightarrow> t p = Some (EFile d n) \<or> p = q \<and> d = c \<and> n = m"
    and "t q \<noteq> Some (EFile d n)"
proof -
  from assms obtain t1 where t1: "mkdir_parents (ancestors q) t = Inr t1" "t1 q = None" "t' = t1(q \<mapsto> EFile c m)"
    by (auto simp: add_file_def bindE_Inr_iff split: option.splits)
  show "t q \<noteq> Some (EFile d n)" for d n
    using t1(2) mkdir_parents_files [OF t1(1), of q d n] by auto
  then show "t' p = Some (EFile d n) \<longleftrightarrow> t p = Some (EFile d n) \<or> p = q \<and> d = c \<and> n = m"
    using mkdir_parents_files [OF t1(1), of p d n] t1(3) by auto
qed

definition extracted :: "(string \<Rightarrow> string) \<Rightarrow> string \<times> json \<Rightarrow> path \<Rightarrow> string \<Rightarrow> int \<Rightarrow> bool" where
  "extracted sha256 = (\<lambda>(name, record) p c m. p = path_comps name \<and>
     JStr (sha256 c) = jget record ''sha256'' \<and> py_eq (JInt m) (jget record ''mode''))"

lemma extract_step_Inr:
  assumes "extract_step sha256 listing it t0 = Inr t1"
  shows "\<exists>c m. add_file (path_comps (fst it)) c m t0 = Inr t1 \<and> extracted sha256 it (path_comps (fst it)) c m"
  using assms by (cases it) (auto simp: extract_step_def bindE_Inr_iff extracted_def)

lemma extract_all:
  assumes "foldE (extract_step sha256 listing) its t0 = Inr t"
  shows "(\<forall>p c m. t p = Some (EFile c m) \<longrightarrow> t0 p = Some (EFile c m) \<or> (\<exists>it \<in> set its. extracted sha256 it p c m))
    \<and> (\<forall>p c m. t0 p = Some (EFile c m) \<longrightarrow> t p = Some (EFile c m))
    \<and> (\<forall>it \<in> set its. \<exists>c m. t (path_comps (fst it)) = Some (EFile c m) \<and> extracted sha256 it (path_comps (fst it)) c m)"
  using assms
proof (induction its arbitrary: t0)
  case Nil
  then show ?case by simp
next
  case (Cons it its)
  from Cons.prems obtain t1 where t1: "extract_step sha256 listing it t0 = Inr t1"
    and r: "foldE (extract_step sha256 listing) its t1 = Inr t" by (auto simp: bindE_Inr_iff)
  then obtain c m where a: "add_file (path_comps (fst it)) c m t0 = Inr t1"
    and e: "extracted sha256 it (path_comps (fst it)) c m" using extract_step_Inr by blast
  note IH = Cons.IH [OF r]
  have "t (path_comps (fst it)) = Some (EFile c m)"
    using IH add_file_files(1) [OF a] by blast
  then show ?case
    using IH e add_file_files(1) [OF a] by simp metis
qed

lemma open_payload_Inr:
  assumes "open_payload sha256 listing raw sg now host bd = Inr (m, fp, t)"
  shows "fp = sha256 raw" and "decode raw = Inr m" and "validate m now host (bd = Some fp) = Inr m"
    and "\<forall>it \<in> set (items_of (jget m ''files'')). \<exists>c md. t (path_comps (fst it)) = Some (EFile c md)
      \<and> extracted sha256 it (path_comps (fst it)) c md"
    and "\<And>p c md. t p = Some (EFile c md) \<Longrightarrow> p = [''manifest.json''] \<or> p = [''manifest.sig'']
      \<or> (\<exists>it \<in> set (items_of (jget m ''files'')). extracted sha256 it p c md)"
proof -
  from assms obtain t0 where v: "fp = sha256 raw" "decode raw = Inr m" "validate m now host (bd = Some fp) = Inr m"
    and e: "foldE (extract_step sha256 listing) (items_of (jget m ''files'')) Map.empty = Inr t0"
    and t: "t = t0([''manifest.json''] \<mapsto> EFile raw 420, [''manifest.sig''] \<mapsto> EFile sg 420)"
    by (auto simp: open_payload_def Let_def bindE_Inr_iff dest: validate_Inr(1))
  note x = extract_all [OF e]
  show "fp = sha256 raw" "decode raw = Inr m" "validate m now host (bd = Some fp) = Inr m" by (rule v)+
  show "\<forall>it \<in> set (items_of (jget m ''files'')). \<exists>c md. t (path_comps (fst it)) = Some (EFile c md)
      \<and> extracted sha256 it (path_comps (fst it)) c md"
  proof
    fix it
    assume it: "it \<in> set (items_of (jget m ''files''))"
    with validate_Inr(8) [OF v(3)] obtain k where "safe_name (fst it) = Inr k"
      by (auto simp: case_prod_beta)
    then obtain d r where "path_comps (fst it) = d # r" "r \<noteq> []" using safe_name_shape by blast
    then have "t (path_comps (fst it)) = t0 (path_comps (fst it))" by (auto simp: t)
    with x it show "\<exists>c md. t (path_comps (fst it)) = Some (EFile c md)
      \<and> extracted sha256 it (path_comps (fst it)) c md" by simp
  qed
  show "p = [''manifest.json''] \<or> p = [''manifest.sig'']
      \<or> (\<exists>it \<in> set (items_of (jget m ''files'')). extracted sha256 it p c md)"
    if "t p = Some (EFile c md)" for p c md
    using that x by (auto simp: t split: if_splits)
qed

lemma is_prefix_iff: "is_prefix d p \<longleftrightarrow> (\<exists>r. p = d @ r)"
  by (auto simp: is_prefix_def) (metis append_take_drop_id)

lemma unpack_cases:
  assumes "\<And>a d w. files (snd (cmd a d w)) = files w \<and> euid (snd (cmd a d w)) = euid w"
    and "unpack sha256 tar cmd sp source dest signers sn host now bd owner w = (r, w')"
  shows "(\<exists>e. r = Inl e \<and> files w' = files w) \<or>
    (\<exists>m fp t listing raw sg out. r = Inr (m, fp) \<and> fst (cmd (verify_args sn sp) (Some raw) w) = Exited 0 out \<and>
       open_payload sha256 listing raw sg now host bd = Inr (m, fp, t) \<and>
       files w' = install_tree (euid w) dest t (files w))"
proof -
  have c: "files w2 = files w1 \<and> euid w2 = euid w1 \<and> fst (cmd a d w1) = oc" if "cmd a d w1 = (oc, w2)" for a d w1 oc w2
    using assms(1) [of a d w1] that by simp
  show ?thesis
    using assms(2)
    by (auto simp: unpack_def Let_def bindM_def liftE_def requireM_def raiseM_def runM_def modifyM_def ret_def
        split: if_splits sum.splits prod.splits outcome.splits dest!: c) blast+
qed

text \<open>
  C1 (authenticated extraction): where the commands leave the files alone, \<^verbatim>\<open>unpack\<close> either raises
  and no file has changed, or \<^verbatim>\<open>ssh-keygen\<close> accepted the signature of the very bytes that decode to
  the returned manifest, which is valid, the returned fingerprint is the hash of those bytes, below
  the destination every listed file stands with the content hash and the mode its record gives, no
  other regular file stands there but the two metadata files, and nothing outside it has changed.
\<close>

theorem unpack_authenticated:
  assumes "\<And>a d w. files (snd (cmd a d w)) = files w \<and> euid (snd (cmd a d w)) = euid w"
    and "unpack sha256 tar cmd sp source dest signers sn host now bd owner w = (r, w')"
  shows "case r of
      Inl e \<Rightarrow> files w' = files w
    | Inr (m, fp) \<Rightarrow>
        (\<exists>raw out. fst (cmd (verify_args sn sp) (Some raw) w) = Exited 0 out \<and> fp = sha256 raw
           \<and> decode raw = Inr m \<and> validate m now host (bd = Some fp) = Inr m) \<and>
        (\<forall>it \<in> set (items_of (jget m ''files'')). \<exists>c md.
           files w' (dest @ path_comps (fst it)) = Some (NFile c (nat md) (euid w))
           \<and> extracted sha256 it (path_comps (fst it)) c md) \<and>
        (\<forall>p c n u. p \<noteq> [] \<and> files w' (dest @ p) = Some (NFile c n u) \<longrightarrow>
           p = [''manifest.json''] \<or> p = [''manifest.sig'']
           \<or> (\<exists>it \<in> set (items_of (jget m ''files'')). \<exists>md. extracted sha256 it p c md)) \<and>
        (\<forall>p. \<not> is_prefix dest p \<longrightarrow> files w' p = files w p)"
proof -
  from unpack_cases [OF assms]
  consider e where "r = Inl e" "files w' = files w"
    | m fp t listing raw sg out where "r = Inr (m, fp)"
      "fst (cmd (verify_args sn sp) (Some raw) w) = Exited 0 out"
      "open_payload sha256 listing raw sg now host bd = Inr (m, fp, t)"
      "files w' = install_tree (euid w) dest t (files w)" by blast
  then show ?thesis
  proof cases
    case 1
    then show ?thesis by simp
  next
    case 2
    note o = open_payload_Inr [OF 2(3)]
    have i: "files w' (dest @ p) = (case t p of None \<Rightarrow> None | Some (EDir md) \<Rightarrow> Some (NDir md (euid w))
        | Some (EFile c md) \<Rightarrow> Some (NFile c (nat md) (euid w)))" if "p \<noteq> []" for p
      using that by (simp add: 2(4) install_tree_def is_prefix_def)
    have "\<exists>c md. files w' (dest @ path_comps (fst it)) = Some (NFile c (nat md) (euid w))
        \<and> extracted sha256 it (path_comps (fst it)) c md" if it: "it \<in> set (items_of (jget m ''files''))" for it
    proof -
      from it validate_Inr(8) [OF o(3)] obtain k where "safe_name (fst it) = Inr k"
        by (auto simp: case_prod_beta)
      then have "path_comps (fst it) \<noteq> []" using safe_name_shape by fastforce
      with o(4) it i show ?thesis by fastforce
    qed
    moreover have "p = [''manifest.json''] \<or> p = [''manifest.sig'']
        \<or> (\<exists>it \<in> set (items_of (jget m ''files'')). \<exists>md. extracted sha256 it p c md)"
      if "p \<noteq> []" "files w' (dest @ p) = Some (NFile c n u)" for p c n u
      using that i [OF that(1)] o(5) [of p c] by (auto split: option.splits entry.splits)
    moreover have "files w' p = files w p" if "\<not> is_prefix dest p" for p
      using that by (auto simp: 2(4) install_tree_def is_prefix_def)
    ultimately show ?thesis using 2(2) o(1,2,3) unfolding 2(1) by (simp only: sum.case prod.case) blast
  qed
qed

section \<open>A concrete release\<close>

text \<open>A manifest with twelve files, used to show that the hypotheses above can hold together.\<close>

definition hash_a :: string where "hash_a = replicate 64 CHR ''a''"

definition demo_record :: "nat \<Rightarrow> json" where
  "demo_record n = JObj [(''sha256'', JStr hash_a), (''size'', JInt (int n)), (''mode'', JInt 384)]"

definition demo_files :: "(string \<times> json) list" where
  "demo_files = [(''payload/vulnerability-policy.json'', demo_record 2), (''packages/transaction.json'', demo_record 7),
     (''boot/vmlinuz'', demo_record 9)] @ map (\<lambda>g. (''evidence/'' @ g, demo_record 100)) GATES"

definition demo_manifest :: json where
  "demo_manifest = JObj
    [(''schema'', JStr SCHEMA), (''release_id'', JStr ''r-1''), (''issued_at'', JInt 1000), (''expires_at'', JInt 2000),
     (''image'', JStr (''docker.io/nousresearch/hermes-agent@sha256:'' @ hash_a)),
     (''provider'', JStr ''openai-api''), (''model'', JStr ''gpt''),
     (''host'', JObj [(''machine_id_sha256'', JStr hash_a),
        (''ssh_fingerprint'', JStr (''SHA256:'' @ replicate 43 CHR ''A''))]),
     (''baseline_sha256'', JStr hash_a), (''files'', JObj demo_files),
     (''evidence'', JObj (map (\<lambda>g. (g, JStr (''evidence/'' @ g))) GATES)),
     (''transaction'', JStr ''packages/transaction.json''), (''boot_artifact'', JStr ''boot/vmlinuz'')]"

lemma demo_valid: "validate demo_manifest 1500 None False = Inr demo_manifest"
  by code_simp

lemma demo_plain: "plain demo_manifest"
  by (simp add: demo_manifest_def demo_files_def demo_record_def SCHEMA_def hash_a_def GATES_def
      ascii_only_def list_all_iff plain_JInt del: plain.simps(3))



theorem unpack_authenticated_witness:
  "let w = \<lparr>files = Map.empty([''s''] \<mapsto> NFile ''key'' 420 0), euid = 0, busy = [], faults = [], ext = ()\<rparr>;
       mb = (\<lambda>n d. \<lparr>mname = n, misfile = True, msparse = False, mpax = False, msize = 2, mmode = 384, mdata = d\<rparr>);
       r = unpack (\<lambda>s. s) (\<lambda>s. Some [mb ''manifest.json'' ''{}'', mb ''manifest.sig'' ''xx'']) (\<lambda>a d w. (Exited 1 [], w))
             ''sig'' [''tar''] [''out''] [''s''] ''s'' None 0 None None w
   in (case fst r of Inl e \<Rightarrow> files (snd r) = files w | Inr _ \<Rightarrow> False)"
proof -
  define w :: "unit world" where
    "w = \<lparr>files = Map.empty([''s''] \<mapsto> NFile ''key'' 420 0), euid = 0, busy = [], faults = [], ext = ()\<rparr>"
  define mb where "mb = (\<lambda>n d. \<lparr>mname = n, misfile = True, msparse = False, mpax = False,
    msize = 2, mmode = 384, mdata = d\<rparr>)"
  define cmd :: "unit commands" where "cmd = (\<lambda>a d w. (Exited 1 [], w))"
  define r where "r = unpack (\<lambda>s. s) (\<lambda>s. Some [mb ''manifest.json'' ''{}'', mb ''manifest.sig'' ''xx'']) cmd
             ''sig'' [''tar''] [''out''] [''s''] ''s'' None 0 None None w"
  have c: "files (snd (cmd a d v)) = files v \<and> euid (snd (cmd a d v)) = euid v" for a d v
    by (simp add: cmd_def)
  have "case fst r of Inl e \<Rightarrow> True | Inr _ \<Rightarrow> False"
    unfolding r_def mb_def cmd_def w_def by code_simp
  then obtain e where e: "fst r = Inl e" by (auto split: sum.splits)
  have "unpack (\<lambda>s. s) (\<lambda>s. Some [mb ''manifest.json'' ''{}'', mb ''manifest.sig'' ''xx'']) cmd
             ''sig'' [''tar''] [''out''] [''s''] ''s'' None 0 None None w = (fst r, snd r)"
    by (simp add: r_def)
  from unpack_authenticated [where cmd = cmd, OF c this] e have "files (snd r) = files w" by simp
  with e show ?thesis unfolding Let_def r_def mb_def cmd_def w_def by simp
qed

end
