(* ===== verification/Dates.thy ===== *)
theory Dates
  imports Prelude
begin

text \<open>
  The part of Python's \<^verbatim>\<open>datetime.date\<close> that the sources use: the proleptic ordinal of a day (day 1 is
  0001-01-01) and \<^verbatim>\<open>date.fromisoformat\<close>, with the calendar and the week forms of ISO 8601.
\<close>

definition leap :: "int \<Rightarrow> bool" where
  "leap y \<longleftrightarrow> y mod 4 = 0 \<and> (y mod 100 \<noteq> 0 \<or> y mod 400 = 0)"

definition days_before_year :: "int \<Rightarrow> int" where
  "days_before_year y = (y - 1) * 365 + (y - 1) div 4 - (y - 1) div 100 + (y - 1) div 400"

definition month_lengths :: "int \<Rightarrow> int list" where
  "month_lengths y = [31, if leap y then 29 else 28, 31, 30, 31, 30, 31, 31, 30, 31, 30, 31]"

definition ordinal :: "int \<Rightarrow> nat \<Rightarrow> int \<Rightarrow> int option" where
  "ordinal y m d =
     (if 1 \<le> y \<and> y \<le> 9999 \<and> 1 \<le> m \<and> m \<le> 12 \<and> 1 \<le> d \<and> d \<le> month_lengths y ! (m - 1)
      then Some (days_before_year y + sum_list (take (m - 1) (month_lengths y)) + d) else None)"

text \<open>The ordinal of the Monday that starts the first ISO week of a year, and how many weeks it has.\<close>

definition first_monday :: "int \<Rightarrow> int" where
  "first_monday y = (let d = days_before_year y + 1; wd = (d + 6) mod 7
                     in if wd > 3 then d - wd + 7 else d - wd)"

definition week_ordinal :: "int \<Rightarrow> int \<Rightarrow> int \<Rightarrow> int option" where
  "week_ordinal y w d =
     (if 1 \<le> y \<and> y \<le> 9999 \<and> 1 \<le> w \<and> 1 \<le> d \<and> d \<le> 7
         \<and> first_monday y + 7 * (w - 1) < first_monday (y + 1)
      then Some (first_monday y + 7 * (w - 1) + (d - 1)) else None)"

definition number_of :: "string \<Rightarrow> int option" where
  "number_of s = (if s \<noteq> [] \<and> list_all is_digit s then Some (int (read_nat s)) else None)"

definition calendar_form :: "string \<Rightarrow> string \<Rightarrow> string \<Rightarrow> int option" where
  "calendar_form y m d = (case (number_of y, number_of m, number_of d) of
     (Some a, Some b, Some c) \<Rightarrow> ordinal a (nat b) c | _ \<Rightarrow> None)"

definition week_form :: "string \<Rightarrow> string \<Rightarrow> string \<Rightarrow> int option" where
  "week_form y w d = (case (number_of y, number_of w, number_of d) of
     (Some a, Some b, Some c) \<Rightarrow> week_ordinal a b c | _ \<Rightarrow> None)"

definition slice :: "nat \<Rightarrow> nat \<Rightarrow> string \<Rightarrow> string" where
  "slice i j s = take (j - i) (drop i s)"

definition date_fromisoformat :: "string \<Rightarrow> int option" where
  "date_fromisoformat s =
     (if length s = 10 \<and> s ! 4 = CHR ''-'' \<and> s ! 5 = CHR ''W'' then
        (if s ! 8 = CHR ''-'' then week_form (slice 0 4 s) (slice 6 8 s) (slice 9 10 s) else None)
      else if length s = 10 then
        (if s ! 4 = CHR ''-'' \<and> s ! 7 = CHR ''-''
         then calendar_form (slice 0 4 s) (slice 5 7 s) (slice 8 10 s) else None)
      else if length s = 8 \<and> s ! 4 = CHR ''-'' then
        (if s ! 5 = CHR ''W'' then week_form (slice 0 4 s) (slice 6 8 s) ''1'' else None)
      else if length s = 8 \<and> s ! 4 = CHR ''W'' then week_form (slice 0 4 s) (slice 5 7 s) (slice 7 8 s)
      else if length s = 8 then calendar_form (slice 0 4 s) (slice 4 6 s) (slice 6 8 s)
      else if length s = 7 \<and> s ! 4 = CHR ''W'' then week_form (slice 0 4 s) (slice 5 7 s) ''1''
      else None)"

end
