(* ===== verification/Gates.thy ===== *)
theory Gates
  imports TransactionFacts ReleaseFacts Dates
begin

text \<open>
  \<^verbatim>\<open>scripts/hermes/unattended/gates.py\<close>: the vulnerability policy, the package checks, and the
  backups of the application with their retention.
\<close>

section \<open>Vulnerabilities\<close>

definition DENY_FIELDS :: "string list" where
  "DENY_FIELDS = [''id'', ''package'', ''reason'', ''owner'', ''assessed_at'']"

definition SEVERITIES :: "string list" where
  "SEVERITIES = [''UNKNOWN'', ''LOW'', ''MEDIUM'', ''HIGH'', ''CRITICAL'']"

definition deny_step :: "int \<Rightarrow> json \<Rightarrow> (string \<times> string) list \<Rightarrow> (string \<times> string) list res" where
  "deny_step today item denied =
     requireE (fields_are item DENY_FIELDS) ''invalid-denylist-entry'' 78 (
     requireE (list_all (\<lambda>(k, v). is_str v \<and> strip (str_of v) \<noteq> []) (items_of item))
       ''invalid-denylist-entry'' 78 (
     case date_fromisoformat (str_of (jget item ''assessed_at'')) of
       None \<Rightarrow> Inl (Failure 78 ''invalid-denylist-date'')
     | Some assessed \<Rightarrow>
         requireE (assessed \<le> today) ''future-denylist-assessment'' 78 (
         Inr (denied @ [(str_of (jget item ''id''), str_of (jget item ''package''))]))))"

type_synonym counts = "string \<Rightarrow> nat"

definition vulnerability_step :: "(string \<times> string) list \<Rightarrow> json \<Rightarrow> counts \<Rightarrow> counts res" where
  "vulnerability_step denied v c =
     requireE (is_dict v) ''invalid-vulnerability-finding'' 78 (
     let severity = jget v ''Severity''; ident = jget v ''VulnerabilityID''; package = jget v ''PkgName'' in
     if is_list severity \<or> is_dict severity then Inl TypeError
     else requireE (is_str severity \<and> str_of severity \<in> set SEVERITIES) ''invalid-vulnerability-severity'' 78 (
     requireE (is_str ident \<and> str_of ident \<noteq> [] \<and> is_str package \<and> str_of package \<noteq> [])
       ''invalid-vulnerability-finding'' 78 (
     requireE ((str_of ident, str_of package) \<notin> set denied \<and> (str_of ident, ''*'') \<notin> set denied)
       ''denied-vulnerability'' 78 (
     Inr (c(str_of severity := c (str_of severity) + 1))))))"

definition result_step :: "(string \<times> string) list \<Rightarrow> json \<Rightarrow> counts \<Rightarrow> counts res" where
  "result_step denied r c =
     requireE (is_dict r) ''invalid-vulnerability-result'' 78 (
     let findings = jget r ''Vulnerabilities'' in
     requireE (findings = JNull \<or> is_list findings) ''invalid-vulnerability-list'' 78 (
     foldE (vulnerability_step denied) (list_of findings) c))"

definition scan_verdict :: "counts \<Rightarrow> json" where
  "scan_verdict c = JObj [(''result'', JStr ''PASS''), (''gate'', JStr ''vulnerability_scan''),
     (''policy'', JStr ''advisory-denylist-v1''),
     (''findings'', JObj (map (\<lambda>s. (s, JInt (int (c s)))) SEVERITIES)),
     (''advisory'', JBool (list_ex (\<lambda>s. c s \<noteq> 0) SEVERITIES))]"

definition check_vulnerabilities :: "json \<Rightarrow> json \<Rightarrow> int \<Rightarrow> json res" where
  "check_vulnerabilities rp denylist today =
     requireE (is_dict rp \<and> is_list (jget rp ''Results'') \<and> list_of (jget rp ''Results'') \<noteq> [])
       ''missing-vulnerability-results'' 78 (
     requireE (is_list denylist) ''invalid-denylist'' 78 (
     bindE (foldE (deny_step today) (list_of denylist) []) (\<lambda>denied.
     bindE (foldE (result_step denied) (list_of (jget rp ''Results'')) (\<lambda>_. 0)) (\<lambda>c.
     Inr (scan_verdict c)))))"

text \<open>\<^verbatim>\<open>x in names\<close> for the value of \<^verbatim>\<open>report.get("Metadata", {}).get("RepoDigests", [])\<close>.\<close>

definition get_default :: "json \<Rightarrow> string \<Rightarrow> json \<Rightarrow> json res" where
  "get_default v k d = (if \<not> is_dict v then Inl AttributeError else Inr (if has_key v k then jget v k else d))"

fun contains_str :: "json \<Rightarrow> string \<Rightarrow> bool res" where
  "contains_str (JList xs) x = Inr (JStr x \<in> set xs)"
| "contains_str (JStr s) x = Inr (substr x s)"
| "contains_str (JObj kvs) x = Inr (x \<in> set (map fst kvs))"
| "contains_str _ x = Inl TypeError"

definition trivy_args :: "string \<Rightarrow> string \<Rightarrow> string list" where
  "trivy_args cache img = [''trivy'', ''image'', ''--quiet'', ''--format'', ''json'', ''--scanners'', ''vuln'',
     ''--cache-dir'', cache, ''--config'', ''/dev/null'', ''--image-src'', ''remote'', ''--ignore-unfixed=false'',
     ''--ignorefile'', ''/dev/null'', ''--timeout'', ''15m'', img]"

definition scan_report :: "string \<Rightarrow> string \<Rightarrow> json \<Rightarrow> int \<Rightarrow> json res" where
  "scan_report raw img denylist today =
     bindE (decode raw) (\<lambda>rp.
     bindE (get_default rp ''Metadata'' (JObj [])) (\<lambda>meta.
     bindE (get_default meta ''RepoDigests'' (JList [])) (\<lambda>names.
     bindE (contains_str names img) (\<lambda>exact.
     bindE (if exact then Inr True else contains_str names (removeprefix ''docker.io/'' img)) (\<lambda>ok.
     requireE ok ''scan-image-mismatch'' 78 (check_vulnerabilities rp denylist today))))))"

definition scan_image :: "'x commands \<Rightarrow> string \<Rightarrow> string \<Rightarrow> json \<Rightarrow> int \<Rightarrow> ('x world, json) prog" where
  "scan_image cmd cache img denylist today =
     requireM (image_ok img) ''unpinned-image'' 78 (
     bindM (runM cmd (trivy_args cache img) None) (\<lambda>raw. liftE (scan_report raw img denylist today)))"

section \<open>Packages\<close>

text \<open>\<^verbatim>\<open>bytes.splitlines(keepends=True)\<close>\<close>

fun keep_lines :: "string \<Rightarrow> string \<Rightarrow> string list" where
  "keep_lines acc [] = (if acc = [] then [] else [rev acc])"
| "keep_lines acc (c # cs) =
     (if c = CHR 0x0A then rev (c # acc) # keep_lines [] cs
      else if c = CHR 0x0D then
        (case cs of [] \<Rightarrow> [rev (c # acc)]
         | d # ds \<Rightarrow> if d = CHR 0x0A then rev (d # c # acc) # keep_lines [] ds
                    else rev (c # acc) # keep_lines [] (d # ds))
      else keep_lines (c # acc) cs)"

definition inventory_query :: string where
  "inventory_query = ''%{NAME}-%{EPOCHNUM}:%{VERSION}-%{RELEASE}.%{ARCH}''"

definition package_baseline :: "(string \<Rightarrow> string) \<Rightarrow> 'x commands \<Rightarrow> ('x world, string) prog" where
  "package_baseline sha256 cmd =
     bindM (runM cmd [''rpm'', ''-qa'', ''--qf'', inventory_query @ [newline]] None)
       (\<lambda>raw. ret (sha256 (concat (sort (keep_lines [] raw)))))"

definition check_package ::
    "'x commands \<Rightarrow> path \<Rightarrow> (string \<times> string) list \<Rightarrow> string \<Rightarrow> ('x world, unit) prog" where
  "check_package cmd d expected rel w =
     (let p = d @ path_comps rel; name = ''/'' @ join_with ''/'' p in
      bindM (liftE (protected_file (files w) p (Some 0))) (\<lambda>_.
      bindM (runM cmd [''rpmkeys'', ''--checksig'', name] None) (\<lambda>result.
      requireM (substr ''signatures OK'' result \<and> \<not> substr ''NOT OK'' result) ''rpm-signature-unverified'' 78 (
      bindM (runM cmd [''rpm'', ''-qp'', ''--qf'', inventory_query, name] None) (\<lambda>identity.
      bindM (liftE (normalize (JStr identity))) (\<lambda>actual.
      bindM (liftE (case map_of expected rel of None \<Rightarrow> Inl KeyError | Some e \<Rightarrow> Inr e)) (\<lambda>e.
      requireM (actual = e) ''stored-rpm-identity-mismatch'' 78 (ret ()))))))) w)"

definition verify_packages ::
    "(string \<Rightarrow> string) \<Rightarrow> (fsys \<Rightarrow> path \<Rightarrow> string list) \<Rightarrow> 'x commands \<Rightarrow> path \<Rightarrow> string \<Rightarrow> ('x world, nat) prog" where
  "verify_packages sha256 rglob_rpm cmd d baseline =
     bindM (package_baseline sha256 cmd) (\<lambda>actual.
     requireM (actual = baseline) ''package-baseline-mismatch'' 78 (
     bindM (getsM files) (\<lambda>fs.
     bindM (liftE (validate_bundle sha256 rglob_rpm fs d baseline)) (\<lambda>expected.
     bindM (liftE (protected_file fs (d @ [''transaction.json'']) (Some 0))) (\<lambda>_.
     let packages = sort (rglob_rpm fs d) in
     requireM (packages \<noteq> []) ''missing-certified-rpms'' 78 (
     thenM (forM packages (check_package cmd d expected)) (ret (length packages))))))))"

section \<open>Backups\<close>

definition snapshot_ok :: "string \<Rightarrow> bool" where
  "snapshot_ok s \<longleftrightarrow> match_range is_hex 8 64 s"

definition restic_base :: "json \<Rightarrow> string list" where
  "restic_base config = [''restic'', ''--no-cache'', ''--repo'', str_of (jget config ''backup_repository''),
     ''--password-file'', str_of (jget config ''backup_password_file'')]"

definition digestM :: "(string \<Rightarrow> string) \<Rightarrow> path \<Rightarrow> ('x world, string) prog" where
  "digestM sha256 p w = (case read_bytes (files w) p of Inl e \<Rightarrow> (Inl e, w) | Inr c \<Rightarrow> (Inr (sha256 c), w))"

text \<open>
  \<^verbatim>\<open>command_digest\<close>: the hash of the output of a command, with the deadline and the exit status as
  outcomes of the command.
\<close>

definition command_digest :: "(string \<Rightarrow> string) \<Rightarrow> 'x commands \<Rightarrow> string list \<Rightarrow> ('x world, string) prog" where
  "command_digest sha256 cmd args w =
     (case cmd args None w of
        (Unavailable, w') \<Rightarrow> (Inl OSError, w')
      | (TimedOut, w') \<Rightarrow> (Inl (Failure 69 ''restore-timeout''), w')
      | (Exited rc out, w') \<Rightarrow>
          if rc = 0 then (Inr (sha256 out), w') else (Inl (Failure 69 ''restore-failed''), w'))"

definition summary_ids :: "string \<Rightarrow> json list res" where
  "summary_ids raw =
     bindE (mapE decode (filter (\<lambda>l. strip l \<noteq> []) (bsplitlines raw))) (\<lambda>summaries.
     if list_ex (\<lambda>v. \<not> is_dict v) summaries then Inl AttributeError
     else Inr (map (\<lambda>v. jget v ''snapshot_id'') (filter (\<lambda>v. jget v ''message_type'' = JStr ''summary'') summaries)))"

definition backup_snapshot ::
    "(string \<Rightarrow> string) \<Rightarrow> 'x commands \<Rightarrow> path \<Rightarrow> json \<Rightarrow> string \<Rightarrow> ('x world, json) prog" where
  "backup_snapshot sha256 cmd source config release_id w =
     (let base = restic_base config; name = ''/'' @ join_with ''/'' source in
      bindM (liftE (protected_file (files w) source None)) (\<lambda>_.
      requireM (release_id_ok release_id) ''invalid-release-id'' 78 (
      bindM (liftE (protected_file (files w) (path_comps (str_of (jget config ''backup_password_file''))) None)) (\<lambda>_.
      bindM (digestM sha256 source) (\<lambda>before.
      bindM (runM cmd (base @ [''backup'', ''--json'', ''--tag'', ''pre-change'', ''--tag'', ''release:'' @ release_id,
               ''--'', name]) None) (\<lambda>raw.
      bindM (liftE (summary_ids raw)) (\<lambda>snapshots.
      requireM (length snapshots = 1 \<and> is_str (hd snapshots) \<and> snapshot_ok (str_of (hd snapshots)))
        ''missing-backup-snapshot'' 78 (
      bindM (digestM sha256 source) (\<lambda>after.
      requireM (after = before) ''backup-source-changed'' 78 (
      bindM (command_digest sha256 cmd (base @ [''dump'', str_of (hd snapshots), name])) (\<lambda>restored.
      requireM (restored = before) ''backup-restore-mismatch'' 78 (
      ret (JObj [(''snapshot'', hd snapshots), (''sha256'', JStr before), (''restore_verified'', JBool True),
                 (''release_id'', JStr release_id)])))))))))))) w)"

definition kept_backups :: "string list \<Rightarrow> string \<Rightarrow> string list" where
  "kept_backups history current =
     (let h = uniq [] history; keep = current # drop (length h - 8) h in filter (\<lambda>i. i \<in> set keep) h)"

definition expired_backups :: "string list \<Rightarrow> string \<Rightarrow> string list" where
  "expired_backups history current =
     (let h = uniq [] history; keep = current # drop (length h - 8) h in filter (\<lambda>i. i \<notin> set keep) h)"

definition retain_backups :: "'x commands \<Rightarrow> json \<Rightarrow> string \<Rightarrow> json \<Rightarrow> ('x world, string list) prog" where
  "retain_backups cmd history current config =
     requireM (is_list history \<and> list_all (\<lambda>v. is_str v \<and> snapshot_ok (str_of v)) (list_of history))
       ''invalid-backup-history'' 78 (
     requireM (JStr current \<in> set (list_of history)) ''rollback-snapshot-not-in-history'' 78 (
     let h = map str_of (list_of history); expired = expired_backups h current in
     thenM (if expired = [] then ret ()
            else bindM (runM cmd (restic_base config @ [''forget'', ''--''] @ expired) None) (\<lambda>_. ret ()))
       (ret (kept_backups h current))))"

section \<open>Facts\<close>

text \<open>Every finding of a report, and the pairs a denylist denies.\<close>

definition all_findings :: "json \<Rightarrow> json list" where
  "all_findings rp = concat (map (\<lambda>r. list_of (jget r ''Vulnerabilities'')) (list_of (jget rp ''Results'')))"

definition denies :: "json \<Rightarrow> json \<Rightarrow> bool" where
  "denies item v \<longleftrightarrow> jget item ''id'' = jget v ''VulnerabilityID''
     \<and> (jget item ''package'' = jget v ''PkgName'' \<or> jget item ''package'' = JStr ''*'')"

definition tally :: "json list \<Rightarrow> counts" where
  "tally vs s = length (filter (\<lambda>v. jget v ''Severity'' = JStr s) vs)"

lemma deny_steps:
  assumes "foldE (deny_step today) items ds = Inr denied"
  shows "denied = ds @ map (\<lambda>i. (str_of (jget i ''id''), str_of (jget i ''package''))) items \<and>
    (\<forall>i \<in> set items. is_str (jget i ''id'') \<and> is_str (jget i ''package''))"
  using assms
proof (induction items arbitrary: ds)
  case (Cons i items)
  from Cons.prems obtain ds1 where 1: "deny_step today i ds = Inr ds1" "foldE (deny_step today) items ds1 = Inr denied"
    by (auto simp: bindE_Inr_iff)
  then have f: "fields_are i DENY_FIELDS" "\<forall>(k, v) \<in> set (items_of i). is_str v"
    "ds1 = ds @ [(str_of (jget i ''id''), str_of (jget i ''package''))]"
    by (auto simp: deny_step_def list_all_iff split: option.splits)
  have "is_str (jget i k)" if "k \<in> set DENY_FIELDS" for k
  proof -
    have "has_key i k" using f(1) that by (simp add: has_key_iff fields_are_def same_set_iff)
    then have "(k, jget i k) \<in> set (items_of i)" by (rule map_of_items [OF refl])
    with f(2) show ?thesis by auto
  qed
  then have "is_str (jget i ''id'') \<and> is_str (jget i ''package'')" by (simp add: DENY_FIELDS_def)
  with Cons.IH [OF 1(2)] f(3) show ?case by simp
qed simp

lemma vulnerability_steps:
  assumes "foldE (vulnerability_step denied) vs c = Inr c'"
  shows "c' = (\<lambda>s. c s + tally vs s) \<and> (\<forall>v \<in> set vs. is_str (jget v ''VulnerabilityID'') \<and> is_str (jget v ''PkgName'') \<and>
    (str_of (jget v ''VulnerabilityID''), str_of (jget v ''PkgName'')) \<notin> set denied \<and>
    (str_of (jget v ''VulnerabilityID''), ''*'') \<notin> set denied)"
  using assms
proof (induction vs arbitrary: c)
  case Nil
  then show ?case by (simp add: tally_def)
next
  case (Cons v vs)
  from Cons.prems obtain c1 where 1: "vulnerability_step denied v c = Inr c1" "foldE (vulnerability_step denied) vs c1 = Inr c'"
    by (auto simp: bindE_Inr_iff)
  then obtain sv where "jget v ''Severity'' = JStr sv" "c1 = c(sv := c sv + 1)"
    by (auto simp: vulnerability_step_def Let_def is_str_iff split: if_splits)
  with Cons.IH [OF 1(2)] 1(1) show ?case
    by (auto simp: vulnerability_step_def Let_def tally_def split: if_splits)
qed

lemma result_steps:
  assumes "foldE (result_step denied) rs c = Inr c'"
  shows "c' = (\<lambda>s. c s + tally (concat (map (\<lambda>r. list_of (jget r ''Vulnerabilities'')) rs)) s) \<and>
    (\<forall>v \<in> set (concat (map (\<lambda>r. list_of (jget r ''Vulnerabilities'')) rs)).
      is_str (jget v ''VulnerabilityID'') \<and> is_str (jget v ''PkgName'') \<and>
      (str_of (jget v ''VulnerabilityID''), str_of (jget v ''PkgName'')) \<notin> set denied \<and>
      (str_of (jget v ''VulnerabilityID''), ''*'') \<notin> set denied)"
  using assms
proof (induction rs arbitrary: c)
  case Nil
  then show ?case by (simp add: tally_def)
next
  case (Cons r rs)
  from Cons.prems obtain c1 where 1: "result_step denied r c = Inr c1" "foldE (result_step denied) rs c1 = Inr c'"
    by (auto simp: bindE_Inr_iff)
  then have "foldE (vulnerability_step denied) (list_of (jget r ''Vulnerabilities'')) c = Inr c1"
    by (simp add: result_step_def Let_def)
  from vulnerability_steps [OF this] Cons.IH [OF 1(2)] show ?case
    by (auto simp: tally_def)
qed



lemma kept_expired:
  "set (kept_backups h c) \<union> set (expired_backups h c) = set h"
  "set (kept_backups h c) \<inter> set (expired_backups h c) = {}"
  by (auto simp: kept_backups_def expired_backups_def Let_def set_uniq)

lemma kept_length: "length (kept_backups h c) \<le> 9"
proof -
  let ?u = "uniq [] h"
  have "set (kept_backups h c) \<subseteq> insert c (set (drop (length ?u - 8) ?u))"
    by (auto simp: kept_backups_def Let_def)
  then have "card (set (kept_backups h c)) \<le> card (insert c (set (drop (length ?u - 8) ?u)))"
    by (intro card_mono) auto
  also have "\<dots> \<le> Suc (length (drop (length ?u - 8) ?u))"
    by (metis card_insert_le_m1 card_length le_SucI List.finite_set card_insert_if Suc_le_mono)
  also have "\<dots> \<le> 9" by simp
  finally have "card (set (kept_backups h c)) \<le> 9" .
  moreover have "distinct (kept_backups h c)" by (simp add: kept_backups_def Let_def distinct_uniq)
  ultimately show ?thesis by (simp add: distinct_card)
qed

text \<open>
  C33 (backup retention): when \<^verbatim>\<open>retain_backups\<close> returns, the list it returns has at most nine snapshots,
  without duplicates and in their original order, holds the current one and the eight most recent
  distinct ones, and every other snapshot of the history, and no kept one, was named in the single
  \<^verbatim>\<open>restic forget\<close> that succeeded; when nothing expired no command ran.
\<close>

theorem retain_backups_spec:
  assumes "retain_backups cmd history current config w = (Inr kept, w')"
  shows "let h = map str_of (list_of history); expired = expired_backups h current in
    length kept \<le> 9 \<and> distinct kept \<and> current \<in> set kept \<and>
    kept = filter (\<lambda>i. i \<in> set kept) (uniq [] h) \<and>
    set (drop (length (uniq [] h) - 8) (uniq [] h)) \<subseteq> set kept \<and>
    set kept \<union> set expired = set h \<and> set kept \<inter> set expired = {} \<and>
    (if expired = [] then w' = w
     else \<exists>out. cmd (restic_base config @ [''forget'', ''--''] @ expired) None w = (Exited 0 out, w'))"
proof -
  define h where "h = map str_of (list_of history)"
  from assms have k: "kept = kept_backups h current" and c: "JStr current \<in> set (list_of history)"
    and r: "if expired_backups h current = [] then w' = w
      else \<exists>out. cmd (restic_base config @ [''forget'', ''--''] @ expired_backups h current) None w = (Exited 0 out, w')"
    by (auto simp: retain_backups_def requireM_def raiseM_def thenM_def bindM_def ret_def Let_def h_def runM_def
        split: if_splits prod.splits sum.splits outcome.splits)
  have "current \<in> set h" using c by (force simp: h_def)
  then have m: "current \<in> set kept" by (simp add: k kept_backups_def Let_def set_uniq)
  have "distinct kept" by (simp add: k kept_backups_def Let_def distinct_uniq)
  moreover have "kept = filter (\<lambda>i. i \<in> set kept) (uniq [] h)"
    unfolding k kept_backups_def Let_def by (rule filter_cong) auto
  moreover have "set (drop (length (uniq [] h) - 8) (uniq [] h)) \<subseteq> set kept"
    by (auto simp: k kept_backups_def Let_def dest: in_set_dropD)
  ultimately show ?thesis
    using kept_length [of h current] kept_expired [of h current] m r unfolding Let_def h_def [symmetric] k by blast
qed

theorem retain_backups_spec_witness:
  "let kept = [''bbbbbbbb'', ''aaaaaaaa'']; r = retain_backups quiet (JList (map JStr [''bbbbbbbb'', ''aaaaaaaa'', ''bbbbbbbb'']))
       ''aaaaaaaa'' (JObj []) blank in
     fst r = Inr kept \<and> length kept \<le> 9 \<and> ''aaaaaaaa'' \<in> set kept"
proof -
  define r where "r = retain_backups quiet (JList (map JStr [''bbbbbbbb'', ''aaaaaaaa'', ''bbbbbbbb''])) ''aaaaaaaa'' (JObj []) blank"
  have f: "fst r = Inr [''bbbbbbbb'', ''aaaaaaaa'']" unfolding r_def by code_simp
  then have "retain_backups quiet (JList (map JStr [''bbbbbbbb'', ''aaaaaaaa'', ''bbbbbbbb''])) ''aaaaaaaa'' (JObj []) blank
      = (Inr [''bbbbbbbb'', ''aaaaaaaa''], snd r)" unfolding r_def by (metis prod.collapse)
  from f retain_backups_spec [OF this] show ?thesis unfolding Let_def r_def by blast
qed

end
