(* ===== verification/Offline.thy ===== *)
theory Offline
  imports Fs Gates
begin

text \<open>
  \<^verbatim>\<open>scripts/hermes/unattended/offline.py\<close>: staging of a package replay for systemd's offline-update
  boot, its execution at most once, and the check that it completed. The identity of the running boot
  and the commands are parameters; the exception names recorded in the state are those of the classes
  the model distinguishes.
\<close>

section \<open>Environment\<close>

text \<open>
  What the programs rely on and do not define: SHA-256, the external commands, the identity of the
  running boot, the clock (\<open>clock\<close> in seconds since the epoch, \<open>wall\<close> in the microseconds of the
  maintenance window), the recursive listing of RPM files, free space, the account database, what
  happens while a program sleeps, the path of the running script, the group of a file, the tar reader
  and the next random name.
\<close>

record 'x env =
  sha256 :: "string \<Rightarrow> string"
  cmd :: "'x commands"
  boot :: "'x world \<Rightarrow> string"
  clock :: "'x world \<Rightarrow> int"
  rglob_rpm :: "fsys \<Rightarrow> path \<Rightarrow> string list"
  space :: "path \<Rightarrow> 'x world \<Rightarrow> int"
  account :: "'x world \<Rightarrow> (nat \<times> string) option"
  pause :: "nat \<Rightarrow> 'x world \<Rightarrow> 'x world"
  source :: path
  group :: "path \<Rightarrow> 'x world \<Rightarrow> int"
  wall :: "'x world \<Rightarrow> int"
  tar :: "string \<Rightarrow> member list option"
  fresh :: "'x world \<Rightarrow> string"

text \<open>A digest is sixty-four hexadecimal digits.\<close>

definition hex_digests :: "'x env \<Rightarrow> bool" where
  "hex_digests e \<longleftrightarrow> (\<forall>x. length (sha256 e x) = 64 \<and> list_all is_hex (sha256 e x))"

definition ESP :: path where "ESP = [''boot'', ''efi'', ''EFI'', ''Linux'']"
definition OROOT :: path where "OROOT = [''var'', ''lib'', ''hermes-unattended'', ''offline'']"
definition MARKER :: path where "MARKER = [''system-update'']"
definition OTHER_MARKER :: path where "OTHER_MARKER = [''etc'', ''system-update'']"
definition UNIT :: path where "UNIT = [''etc'', ''systemd'', ''system'', ''hermes-offline-replay.service'']"
definition WANT :: path where
  "WANT = [''etc'', ''systemd'', ''system'', ''system-update.target.wants'', ''hermes-offline-replay.service'']"

definition state_path :: "(string \<Rightarrow> string) \<Rightarrow> path \<Rightarrow> string \<Rightarrow> path" where
  "state_path h d baseline = OROOT @ [h (path_text d @ baseline) @ ''.json'']"

section \<open>The generated unit\<close>

definition command_char :: "char \<Rightarrow> bool" where
  "command_char c \<longleftrightarrow> is_alnum c \<or> c \<in> set ''_./-''"

definition safe_command_path :: "path \<Rightarrow> bool" where
  "safe_command_path p \<longleftrightarrow> match_prefixed ''/'' (match_plus command_char) (path_text p) \<and> ''..'' \<notin> set p"

definition text_lines :: "string list \<Rightarrow> string" where
  "text_lines ls = concat (map (\<lambda>l. l @ [newline]) ls)"

definition unit_text :: "path \<Rightarrow> path \<Rightarrow> string \<Rightarrow> string res" where
  "unit_text src d baseline =
     requireE (safe_command_path src \<and> safe_command_path d) ''unsafe-offline-command-path'' 78 (
     requireE (match_count is_hex 64 baseline) ''invalid-offline-baseline'' 78 (
     Inr (text_lines
      [''[Unit]'', ''Description=Hermes verified offline package replay'', ''DefaultDependencies=no'',
       ''Requires=sysinit.target dbus.socket'', ''After=sysinit.target systemd-journald.socket system-update-pre.target'',
       ''Before=poweroff.target reboot.target shutdown.target system-update.target'', ''FailureAction=reboot'', '''',
       ''[Service]'', ''Type=oneshot'',
       ''ExecStart=/usr/bin/python3 -I -B '' @ path_text src @ '' execute --directory '' @ path_text d @ '' --baseline '' @ baseline,
       ''TimeoutStartSec=25min'', ''UMask=0077'', ''PrivateNetwork=yes'', ''LimitCORE=0''])))"

section \<open>Staging\<close>

definition boot_entry_char :: "char \<Rightarrow> bool" where
  "boot_entry_char c \<longleftrightarrow> is_alnum c \<or> c \<in> set ''._-''"

text \<open>\<^verbatim>\<open>hermes-[A-Za-z0-9._-]+\.efi\<close>\<close>

definition boot_entry_ok :: "string \<Rightarrow> bool" where
  "boot_entry_ok s \<longleftrightarrow> startswith s ''hermes-'' \<and> endswith s ''.efi'' \<and> 11 < length s
     \<and> list_all boot_entry_char s"

definition boot_record :: "'x env \<Rightarrow> string option \<Rightarrow> ('x world, json) prog" where
  "boot_record e entry = (case entry of
     None \<Rightarrow> ret JNull
   | Some b \<Rightarrow>
       requireM (boot_entry_ok b) ''invalid-offline-boot-entry'' 78 (
       bindM (read_protectedM (ESP @ [b]) (Some 0)) (\<lambda>c.
       ret (JObj [(''entry'', JStr b), (''sha256'', JStr (sha256 e c))]))))"

definition not_staged :: "path \<Rightarrow> ('x world, unit) prog" where
  "not_staged p = bindM (existsM p) (\<lambda>x. bindM (is_linkM p) (\<lambda>l.
     requireM (\<not> x \<and> \<not> l) ''offline-update-already-staged'' 78 (ret ())))"

definition stage_state :: "'x env \<Rightarrow> path \<Rightarrow> string \<Rightarrow> string \<Rightarrow> json \<Rightarrow> string \<Rightarrow> string \<Rightarrow> 'x world \<Rightarrow> json" where
  "stage_state e d baseline expected bt content status w =
     JObj [(''directory'', JStr (path_text d)), (''baseline'', JStr baseline), (''expected'', JStr expected),
           (''status'', JStr status), (''boot_before'', JStr (boot e w)), (''started_at'', JInt (clock e w)),
           (''unit_sha256'', JStr (sha256 e content)), (''boot'', bt)]"

definition stage_locked :: "'x env \<Rightarrow> path \<Rightarrow> string \<Rightarrow> json \<Rightarrow> string \<Rightarrow> ('x world, unit) prog" where
  "stage_locked e d baseline bt content =
     bindM (forM [MARKER, OTHER_MARKER, UNIT, WANT] not_staged) (\<lambda>_.
     let target = state_path (sha256 e) d baseline in
     bindM (existsM target) (\<lambda>x.
     requireM (\<not> x) ''offline-replay-already-attempted'' 78 (
     bindM (read_protectedM (d @ [''installed-after.sha256'']) (Some 0)) (\<lambda>expected.
     bindM (getsM (stage_state e d baseline (strip expected) bt content ''staging'')) (\<lambda>s.
     bindM (atomicM target (canonical s)) (\<lambda>_.
     bindM (atomicM UNIT content) (\<lambda>_.
     bindM (chmodM UNIT 420) (\<lambda>_.
     bindM (runM (cmd e) [''systemd-analyze'', ''verify'', path_text UNIT] None) (\<lambda>_.
     bindM (mkdir_allM (butlast WANT) 493) (\<lambda>_.
     bindM (symlinkM WANT (path_text UNIT)) (\<lambda>_.
     bindM (atomicM target (canonical (jset s ''status'' (JStr ''staged'')))) (\<lambda>_.
     bindM (symlinkM MARKER (path_text d)) (\<lambda>_.
     bindM (runM (cmd e) [''sync'', ''-f'', ''/''] None) (\<lambda>_. ret ()))))))))))))))"

definition stage_replay :: "'x env \<Rightarrow> path \<Rightarrow> string \<Rightarrow> string option \<Rightarrow> ('x world, json) prog" where
  "stage_replay e d baseline entry w =
     requireM (euid w = 0) ''offline-staging-requires-root'' 78 (
     bindM (protectedM (d @ [''transaction.json'']) (Some 0)) (\<lambda>_.
     bindM (protectedM (source e) (Some 0)) (\<lambda>_.
     bindM (liftE (unit_text (source e) d baseline)) (\<lambda>content.
     bindM (boot_record e entry) (\<lambda>bt.
     bindM (is_linkM OROOT) (\<lambda>l.
     requireM (\<not> l) ''unsafe-offline-state'' 78 (
     bindM (mkdir_allM OROOT 448) (\<lambda>_.
     bindM (lockM (OROOT @ [''stage.lock'']) (stage_locked e d baseline bt content)) (\<lambda>_.
     ret (JObj [(''stage'', JStr ''offline-update-staged'')])))))))))) w"

section \<open>Execution\<close>

definition readlinkM :: "path \<Rightarrow> ('x world, path) prog" where
  "readlinkM p w = (case files w p of Some (NLink t) \<Rightarrow> (Inr (abs_path t), w) | _ \<Rightarrow> (Inl OSError, w))"

definition cleanup_unit :: "'x env \<Rightarrow> json \<Rightarrow> ('x world, unit) prog" where
  "cleanup_unit e st =
     bindM (read_protectedM UNIT (Some 0)) (\<lambda>c.
     bindM (liftE (idx st ''unit_sha256'')) (\<lambda>h.
     requireM (JStr (sha256 e c) = h) ''offline-service-changed'' 78 (
     bindM (is_linkM WANT) (\<lambda>l.
     if \<not> l then raiseM (Failure 78 ''offline-service-link-changed'')
     else bindM (readlinkM WANT) (\<lambda>t.
       requireM (t = UNIT) ''offline-service-link-changed'' 78 (
       bindM (unlinkM WANT False) (\<lambda>_. unlinkM UNIT False)))))))"

fun exn_name :: "exn \<Rightarrow> string" where
  "exn_name (Failure c r) = r"
| "exn_name OSError = ''OSError''"
| "exn_name ValueError = ''ValueError''"
| "exn_name KeyError = ''KeyError''"
| "exn_name _ = ''Exception''"

definition select_boot :: "'x env \<Rightarrow> json \<Rightarrow> ('x world, unit) prog" where
  "select_boot e st =
     (if jget st ''boot'' = JNull then ret ()
      else bindM (liftE (idx (jget st ''boot'') ''entry'')) (\<lambda>en.
        if \<not> is_str en then raiseM TypeError
        else if \<not> boot_entry_ok (str_of en) then raiseM (Failure 78 ''offline-boot-artifact-changed'')
        else bindM (read_protectedM (ESP @ [str_of en]) (Some 0)) (\<lambda>c.
          bindM (liftE (idx (jget st ''boot'') ''sha256'')) (\<lambda>h.
          requireM (JStr (sha256 e c) = h) ''offline-boot-artifact-changed'' 78 (
          bindM (runM (cmd e) [''bootctl'', ''--esp-path=/boot/efi'', ''set-default'', str_of en] None) (\<lambda>_. ret ()))))))"

definition replay :: "'x env \<Rightarrow> path \<Rightarrow> string \<Rightarrow> json \<Rightarrow> ('x world, unit) prog" where
  "replay e d baseline st =
     bindM (verify_packages (sha256 e) (rglob_rpm e) (cmd e) d baseline) (\<lambda>_.
     bindM (runM (cmd e) [''dnf5'', ''--disable-repo=*'', ''--assumeyes'', ''replay'', path_text d] None) (\<lambda>_.
     bindM (package_baseline (sha256 e) (cmd e)) (\<lambda>b.
     bindM (liftE (idx st ''expected'')) (\<lambda>x.
     requireM (JStr b = x) ''package-replay-result-mismatch'' 78 (
     bindM (select_boot e st) (\<lambda>_. cleanup_unit e st))))))"

definition stop_after_failure :: "'x env \<Rightarrow> path \<Rightarrow> json \<Rightarrow> exn \<Rightarrow> ('x world, unit) prog" where
  "stop_after_failure e target st x w =
     (case x of
        Failure c r \<Rightarrow> bindM (atomicM target (canonical (jset (jset (jset st ''status'' (JStr ''failed''))
              ''error'' (JStr (exn_name x))) ''completed_at'' (JInt (clock e w)))))
            (\<lambda>_. raiseM (Failure 75 ''offline-package-recovery-required'')) w
      | _ \<Rightarrow> if x \<in> set [OSError, ValueError, KeyError]
          then bindM (atomicM target (canonical (jset (jset (jset st ''status'' (JStr ''failed''))
              ''error'' (JStr (exn_name x))) ''completed_at'' (JInt (clock e w)))))
            (\<lambda>_. raiseM (Failure 75 ''offline-package-recovery-required'')) w
          else raiseM x w)"

text \<open>\<^verbatim>\<open>v[a] == x and v[b] == y and ...\<close>: a key is only looked up when the tests before it hold.\<close>

fun keysE :: "json \<Rightarrow> (string \<times> (json \<Rightarrow> bool)) list \<Rightarrow> bool res" where
  "keysE v [] = Inr True"
| "keysE v ((k, t) # ks) = bindE (idx v k) (\<lambda>x. if t x then keysE v ks else Inr False)"

definition stage_matches :: "json \<Rightarrow> path \<Rightarrow> string \<Rightarrow> string \<Rightarrow> bool res" where
  "stage_matches st d baseline b = keysE st
     [(''directory'', \<lambda>x. x = JStr (path_text d)), (''baseline'', \<lambda>x. x = JStr baseline),
      (''status'', \<lambda>x. x = JStr ''staged''), (''boot_before'', \<lambda>x. x \<noteq> JStr b)]"

definition selected :: "fsys \<Rightarrow> path \<Rightarrow> bool" where
  "selected fs d \<longleftrightarrow> (case fs MARKER of Some (NLink t) \<Rightarrow> path_absolute t \<and> abs_path t = d | _ \<Rightarrow> False)"

definition run_replay :: "'x env \<Rightarrow> path \<Rightarrow> string \<Rightarrow> path \<Rightarrow> json \<Rightarrow> ('x world, json) prog" where
  "run_replay e d baseline target st =
     bindM (catchM
       (bindM (replay e d baseline st) (\<lambda>_.
        bindM (getsM (clock e)) (\<lambda>t.
        atomicM target (canonical (jset (jset st ''status'' (JStr ''complete'')) ''completed_at'' (JInt t))))))
       (stop_after_failure e target st)) (\<lambda>_.
     bindM (runM (cmd e) [''systemctl'', ''--no-block'', ''reboot''] None) (\<lambda>_.
     ret (JObj [(''stage'', JStr ''offline-replay-complete'')])))"

definition execute :: "'x env \<Rightarrow> path \<Rightarrow> string \<Rightarrow> ('x world, json) prog" where
  "execute e d baseline =
     bindM (getsM (\<lambda>w. (euid w = 0, selected (files w) d))) (\<lambda>(root, mine).
     requireM root ''offline-execution-requires-root'' 78 (
     if \<not> mine then ret (JObj [(''stage'', JStr ''offline-update-not-selected'')])
     else
       bindM (unlinkM MARKER False) (\<lambda>_.
       bindM (runM (cmd e) [''sync'', ''-f'', ''/''] None) (\<lambda>_.
       let target = state_path (sha256 e) d baseline in
       bindM (read_protectedM target (Some 0)) (\<lambda>raw.
       bindM (liftE (decode raw)) (\<lambda>st.
       bindM (getsM (boot e)) (\<lambda>b.
       bindM (liftE (stage_matches st d baseline b)) (\<lambda>ok.
       requireM ok ''offline-stage-or-boot-mismatch'' 78 (
       let st' = jset (jset st ''status'' (JStr ''running'')) ''update_boot'' (JStr b) in
       bindM (atomicM target (canonical st')) (\<lambda>_. run_replay e d baseline target st'))))))))))"

definition require_complete :: "'x env \<Rightarrow> path \<Rightarrow> string \<Rightarrow> ('x world, unit) prog" where
  "require_complete e d baseline =
     bindM (read_protectedM (state_path (sha256 e) d baseline) (Some 0)) (\<lambda>raw.
     bindM (liftE (decode raw)) (\<lambda>st.
     bindM (liftE (idx st ''status'')) (\<lambda>s.
     if s \<noteq> JStr ''complete'' then raiseM (Failure 75 ''offline-package-recovery-required'')
     else bindM (liftE (idx st ''update_boot'')) (\<lambda>u.
       bindM (getsM (boot e)) (\<lambda>b.
       requireM (u \<noteq> JStr b) ''offline-package-recovery-required'' 75 (ret ()))))))"

text \<open>\<^verbatim>\<open>gates.replay_packages\<close>: verify, then stage the replay for the next boot.\<close>

definition replay_packages :: "'x env \<Rightarrow> path \<Rightarrow> string \<Rightarrow> string option \<Rightarrow> ('x world, json) prog" where
  "replay_packages e d baseline entry =
     bindM (verify_packages (sha256 e) (rglob_rpm e) (cmd e) d baseline) (\<lambda>_. stage_replay e d baseline entry)"

end
