(* ===== verification/Host.thy ===== *)
theory Host
  imports Offline
begin

text \<open>
  \<^verbatim>\<open>scripts/hermes/unattended/host.py\<close>: the release entrypoint on the host, one bounded stage per
  request. The state dictionary is the memory of the process, written to the journal by every \<^verbatim>\<open>save\<close>;
  the other operations are programs on the world. Groups are not kept by the file system: the group
  recorded for a file comes from the environment and its restoration has no visible effect.
\<close>

section \<open>The account\<close>

definition HROOT :: path where "HROOT = [''var'', ''lib'', ''hermes-unattended'']"
definition DATA :: path where "DATA = [''home'', ''hermes'', ''data'']"
definition HOST_POLICY :: path where "HOST_POLICY = [''etc'', ''hermes-unattended'', ''host.json'']"
definition CREDENTIAL :: path where "CREDENTIAL = [''etc'', ''credstore.encrypted'', ''hermes-openai-api'']"

definition CONFIG :: path where "CONFIG = DATA @ [''config.yaml'']"

definition pauseM :: "'x env \<Rightarrow> nat \<Rightarrow> ('x world, unit) prog" where
  "pauseM e n w = (Inr (), pause e n w)"

definition getpwnam :: "'x env \<Rightarrow> ('x world, nat \<times> string) prog" where
  "getpwnam e w = (case account e w of None \<Rightarrow> (Inl KeyError, w) | Some a \<Rightarrow> (Inr a, w))"

definition hermes_args :: "nat \<Rightarrow> string list \<Rightarrow> string list" where
  "hermes_args uid args = [''runuser'', ''-u'', ''hermes'', ''--'', ''env'', ''--chdir=/home/hermes'', ''HOME=/home/hermes'',
     ''XDG_RUNTIME_DIR=/run/user/'' @ show_nat uid] @ args"

definition as_hermes :: "'x env \<Rightarrow> string list \<Rightarrow> string option \<Rightarrow> ('x world, string) prog" where
  "as_hermes e args data = bindM (getpwnam e) (\<lambda>a. runM (cmd e) (hermes_args (fst a) args) data)"

definition service :: "'x env \<Rightarrow> string list \<Rightarrow> ('x world, string) prog" where
  "service e args = as_hermes e ([''systemctl'', ''--user''] @ args) None"

definition runs :: "'x env \<Rightarrow> string list \<Rightarrow> ('x world, unit) prog" where
  "runs e args = bindM (runM (cmd e) args None) (\<lambda>_. ret ())"

definition serve :: "'x env \<Rightarrow> string list \<Rightarrow> ('x world, unit) prog" where
  "serve e args = bindM (service e args) (\<lambda>_. ret ())"

section \<open>Preflight\<close>

text \<open>An argument taken from a JSON value: \<^verbatim>\<open>subprocess\<close> refuses what is not a string.\<close>

definition str_arg :: "json \<Rightarrow> string res" where
  "str_arg v = (if is_str v then Inr (str_of v) else Inl TypeError)"

definition luks_tokens :: "json \<Rightarrow> json list res" where
  "luks_tokens luks =
     bindE (get_default luks ''tokens'' (JObj [])) (\<lambda>t.
     if \<not> is_dict t \<or> list_ex (\<lambda>kv. \<not> is_dict (snd kv)) (items_of t) then Inl AttributeError
     else Inr (filter (\<lambda>v. jget v ''type'' = JStr ''systemd-tpm2'') (map snd (items_of t))))"

definition tpm_token_ok :: "json \<Rightarrow> bool" where
  "tpm_token_ok t \<longleftrightarrow> py_eq (jget t ''tpm2-pcrs'') (JList [JInt 7]) \<and> py_eq (jget t ''tpm2_pubkey_pcrs'') (JList [JInt 11])
     \<and> jget t ''tpm2-pcr-bank'' = JStr ''sha256'' \<and> is_str (jget t ''tpm2_pubkey'') \<and> str_of (jget t ''tpm2_pubkey'') \<noteq> []
     \<and> (if has_key t ''tpm2-pin'' then jget t ''tpm2-pin'' = JBool False else True)
     \<and> \<not> list_ex (\<lambda>(k, v). substr ''pcrlock'' k \<and> truthy v) (items_of t)"

definition preflight :: "'x env \<Rightarrow> json \<Rightarrow> ('x world, unit) prog" where
  "preflight e policy =
     bindM (read_textM [''etc'', ''os-release'']) (\<lambda>os_release.
     requireM (substr ''VERSION_ID=44'' os_release \<and> substr (''ID=fedora'' @ [newline]) os_release) ''unsupported-platform'' 78 (
     bindM (runM (cmd e) [''getenforce''] None) (\<lambda>enforce.
     requireM (bstrip enforce = ''Enforcing'') ''selinux-not-enforcing'' 78 (
     bindM (runs e [''systemctl'', ''is-active'', ''--quiet'', ''firewalld'']) (\<lambda>_.
     bindM (runM (cmd e) [''mokutil'', ''--sb-state''] None) (\<lambda>sb.
     requireM (substr ''SecureBoot enabled'' sb) ''secure-boot-disabled'' 78 (
     bindM (runs e [''systemd-analyze'', ''has-tpm2'']) (\<lambda>_.
     bindM (runs e [''bootctl'', ''--esp-path=/boot/efi'', ''is-installed'']) (\<lambda>_.
     bindM (getsM (space e [''var''])) (\<lambda>free.
     requireM (free \<ge> 20 * 1024 ^ 3) ''insufficient-var-space'' 78 (
     bindM (liftE (bindE (idx policy ''luks_device'') str_arg)) (\<lambda>device.
     bindM (runM (cmd e) [''cryptsetup'', ''luksDump'', ''--dump-json-metadata'', device] None) (\<lambda>raw.
     bindM (liftE (bindE (decode raw) luks_tokens)) (\<lambda>tpm.
     requireM (tpm \<noteq> []) ''tpm-boot-policy-mismatch'' 78 (
     requireM (list_all tpm_token_ok tpm) ''tpm-boot-policy-mismatch'' 78 (ret ()))))))))))))))))"

section \<open>The identity and the runtime\<close>

definition make_data :: string where
  "make_data = text_lines
     [''import os,stat'', ''try:'', ''    os.mkdir('/home/hermes/data',0o700)'', ''except FileExistsError:'',
     ''    pass'', ''fd=os.open('/home/hermes/data',os.O_RDONLY|os.O_DIRECTORY|os.O_NOFOLLOW)'', ''try:'',
     ''    info=os.fstat(fd)'', ''    os.fchown(fd,os.getuid(),os.getgid())'', ''    os.fchmod(fd,0o700)'',
     ''finally:'', ''    os.close(fd)'']"

definition subordinate_ids :: "path \<Rightarrow> ('x world, unit) prog" where
  "subordinate_ids p = bindM (read_textM p) (\<lambda>t.
     requireM (list_ex (\<lambda>l. startswith l ''hermes:'') (splitlines t)) ''missing-hermes-subordinate-ids'' 78 (ret ()))"

definition find_account :: "'x env \<Rightarrow> ('x world, nat \<times> string) prog" where
  "find_account e = exceptM (\<lambda>x. x = KeyError) (getpwnam e)
     (bindM (runs e [''useradd'', ''--create-home'', ''--home-dir'', ''/home/hermes'', ''--shell'', ''/usr/sbin/nologin'', ''hermes''])
       (\<lambda>_. getpwnam e))"

definition identity :: "'x env \<Rightarrow> ('x world, nat) prog" where
  "identity e =
     bindM (find_account e) (\<lambda>(uid, home).
     requireM (home = ''/home/hermes'' \<and> uid \<noteq> 0) ''unsafe-hermes-identity'' 78 (
     bindM (is_linkM [''home'', ''hermes'']) (\<lambda>l. bindM (is_linkM DATA) (\<lambda>l'.
     requireM (\<not> l \<and> \<not> l') ''unsafe-hermes-home'' 78 (
     bindM (existsM [''home'', ''hermes'', ''.ssh'', ''authorized_keys'']) (\<lambda>keys.
     requireM (\<not> keys) ''hermes-has-ssh-keys'' 78 (
     bindM (runs e [''passwd'', ''-l'', ''hermes'']) (\<lambda>_.
     bindM (runs e [''loginctl'', ''enable-linger'', ''hermes'']) (\<lambda>_.
     bindM (runs e [''systemctl'', ''start'', ''user@'' @ show_nat uid @ ''.service'']) (\<lambda>_.
     bindM (as_hermes e [''podman'', ''unshare'', ''python3'', ''-I'', ''-c'', make_data] None) (\<lambda>_.
     bindM (forM [[''etc'', ''subuid''], [''etc'', ''subgid'']] subordinate_ids) (\<lambda>_.
     ret uid))))))))))))"

text \<open>\<^verbatim>\<open>v[0]\<close> on a decoded value; what is made of the first character of a string only raises.\<close>

fun item0 :: "json \<Rightarrow> json res" where
  "item0 (JList (x # xs)) = Inr x"
| "item0 (JList []) = Inl IndexError"
| "item0 (JStr (c # s)) = Inr (JStr [c])"
| "item0 (JStr []) = Inl IndexError"
| "item0 (JObj kvs) = Inl KeyError"
| "item0 _ = Inl TypeError"

definition get_in :: "json \<Rightarrow> string \<Rightarrow> string \<Rightarrow> json res" where
  "get_in v a b = bindE (get_default v a (JObj [])) (\<lambda>x. get_default x b JNull)"

definition health_verdict :: "json \<Rightarrow> json \<Rightarrow> unit res" where
  "health_verdict img r =
     bindE (get_default r ''State'' (JObj [])) (\<lambda>state.
     bindE (get_in state ''Health'' ''Status'') (\<lambda>status.
     requireE (status = JStr ''healthy'') ''runtime-unhealthy'' 78 (
     requireE (py_eq (jget r ''ImageName'') img) ''runtime-image-mismatch'' 78 (
     bindE (get_in r ''HostConfig'' ''ReadonlyRootfs'') (\<lambda>read_only.
     requireE (read_only = JBool True) ''runtime-root-writable'' 78 (
     bindE (get_in r ''NetworkSettings'' ''Ports'') (\<lambda>ports.
     requireE (\<not> truthy ports) ''runtime-published-ports'' 78 (
     bindE (get_in r ''HostConfig'' ''Privileged'') (\<lambda>privileged.
     requireE (\<not> truthy privileged) ''privileged-runtime'' 78 (Inr ()))))))))))"

definition healthy :: "'x env \<Rightarrow> json \<Rightarrow> ('x world, unit) prog" where
  "healthy e img = bindM (as_hermes e [''podman'', ''inspect'', ''hermes''] None) (\<lambda>raw.
     liftE (bindE (decode raw) (\<lambda>v. bindE (item0 v) (health_verdict img))))"

fun health_rounds :: "'x env \<Rightarrow> json \<Rightarrow> nat \<Rightarrow> ('x world, unit) prog" where
  "health_rounds e img n =
     (if n = 0 then raiseM (Failure 69 ''runtime-health-timeout'')
      else exceptM is_failure (healthy e img) (bindM (pauseM e 5) (\<lambda>_. health_rounds e img (n - 1))))"

declare health_rounds.simps [simp del]

definition wait_health :: "'x env \<Rightarrow> json \<Rightarrow> ('x world, unit) prog" where
  "wait_health e img = health_rounds e img 36"

definition install_bytes :: "path \<Rightarrow> string \<Rightarrow> nat \<Rightarrow> ('x world, unit) prog" where
  "install_bytes d content mode =
     bindM (mkdir_allM (butlast d) 493) (\<lambda>_. bindM (atomicM d content) (\<lambda>_. chmodM d mode))"

definition install_file :: "path \<Rightarrow> path \<Rightarrow> nat \<Rightarrow> ('x world, unit) prog" where
  "install_file src d mode =
     bindM (is_linkM d) (\<lambda>l.
     requireM (\<not> l) ''unsafe-install-destination'' 78 (
     bindM (mkdir_allM (butlast d) 493) (\<lambda>_.
     bindM (readM src) (\<lambda>content.
     bindM (atomicM d content) (\<lambda>_. chmodM d mode)))))"

definition read_config :: string where
  "read_config = text_lines
     [''import os,stat,sys'', ''fd=os.open('config.yaml',os.O_RDONLY|os.O_NOFOLLOW|os.O_NONBLOCK)'',
     ''with os.fdopen(fd,'rb') as stream:'', ''    info=os.fstat(stream.fileno())'',
     ''    if not stat.S_ISREG(info.st_mode) or info.st_size>4194304: raise SystemExit(78)'',
     ''    raw=stream.read(4194305)'', ''    if len(raw)>4194304: raise SystemExit(78)'',
     ''    sys.stdout.buffer.write(raw)'']"

definition in_data :: "string list \<Rightarrow> string list" where
  "in_data args = [''podman'', ''unshare'', ''--'', ''env'', ''--chdir=/home/hermes/data'', ''setpriv'', ''--reuid=10000'',
     ''--regid=10000'', ''--clear-groups''] @ args"

definition read_application_file :: "'x env \<Rightarrow> path \<Rightarrow> ('x world, string) prog" where
  "read_application_file e p =
     (if p \<noteq> CONFIG then read_protectedM p (Some 0)
      else as_hermes e (in_data [''python3'', ''-c'', read_config]) None)"

section \<open>The saved application\<close>

definition unit_path :: "nat \<Rightarrow> path" where
  "unit_path uid = [''etc'', ''containers'', ''systemd'', ''users'', show_nat uid, ''hermes.container'']"

definition OVERLAY :: path where
  "OVERLAY = [''etc'', ''systemd'', ''user'', ''hermes.service.d'', ''80-hermes-credential.conf'']"

text \<open>The record of one file and, when the file exists, its copy under the record's index.\<close>

definition backup_record :: "'x env \<Rightarrow> path \<Rightarrow> path \<Rightarrow> nat \<Rightarrow> ('x world, json) prog" where
  "backup_record e previous p i =
     bindM (existsM p) (\<lambda>x.
     let base = [(''path'', JStr (path_text p)), (''exists'', JBool x), (''index'', JStr (show_nat i))] in
     if \<not> x then ret (JObj base)
     else bindM (statM p) (\<lambda>n.
       bindM (getsM (group e p)) (\<lambda>gid.
       bindM (read_application_file e p) (\<lambda>c.
       bindM (atomicM (previous @ [show_nat i]) c) (\<lambda>_.
       ret (JObj (base @ [(''uid'', JInt (int (node_uid n))), (''gid'', JInt gid),
         (''mode'', JInt (int (node_mode n AND 511)))])))))))"

definition application_paths :: "'x env \<Rightarrow> 'x world \<Rightarrow> path list" where
  "application_paths e w = [CREDENTIAL, CONFIG]
     @ (case account e w of None \<Rightarrow> [] | Some a \<Rightarrow> [unit_path (fst a)]) @ [OVERLAY]"

definition capture_step :: "'x env \<Rightarrow> path \<Rightarrow> nat \<times> path \<Rightarrow> json list \<Rightarrow> ('x world, json list) prog" where
  "capture_step e previous ip records =
     bindM (is_linkM (snd ip)) (\<lambda>l.
     requireM (\<not> l) ''unsafe-application-backup-path'' 78 (
     bindM (backup_record e previous (snd ip) (fst ip)) (\<lambda>r. ret (records @ [r]))))"

definition capture_application :: "'x env \<Rightarrow> path \<Rightarrow> ('x world, unit) prog" where
  "capture_application e previous =
     bindM (existsM previous) (\<lambda>x.
     if x then bindM (existsM (previous @ [''complete''])) (\<lambda>c. requireM c ''incomplete-application-backup'' 78 (ret ()))
     else
       bindM (mkdirM previous 448 False) (\<lambda>_.
       bindM (getsM (application_paths e)) (\<lambda>paths.
       bindM (foldM (enumerate 0 paths) [] (capture_step e previous)) (\<lambda>records.
       bindM (atomicM (previous @ [''files.json'']) (canonical (JList records))) (\<lambda>_.
       atomicM (previous @ [''complete'']) (''complete'' @ [newline]))))))"

text \<open>Iterating over a decoded value, and \<^verbatim>\<open>any(record["path"] == str(path) for record in records)\<close>.\<close>

fun iterate :: "json \<Rightarrow> json list res" where
  "iterate (JList xs) = Inr xs"
| "iterate (JObj kvs) = Inr (map (\<lambda>kv. JStr (fst kv)) kvs)"
| "iterate (JStr s) = Inr (map (\<lambda>c. JStr [c]) s)"
| "iterate _ = Inl TypeError"

fun any_path :: "string \<Rightarrow> json list \<Rightarrow> bool res" where
  "any_path p [] = Inr False"
| "any_path p (r # rs) = bindE (idx r ''path'') (\<lambda>x. if x = JStr p then Inr True else any_path p rs)"

definition read_records :: "path \<Rightarrow> ('x world, json) prog" where
  "read_records previous = bindM (readM (previous @ [''files.json''])) (\<lambda>raw. liftE (decode raw))"

definition track :: "'x env \<Rightarrow> path \<Rightarrow> path \<Rightarrow> ('x world, unit) prog" where
  "track e previous p =
     bindM (read_records previous) (\<lambda>v.
     bindM (liftE (iterate v)) (\<lambda>records.
     bindM (liftE (any_path (path_text p) records)) (\<lambda>known.
     if known then ret ()
     else
       bindM (is_linkM p) (\<lambda>l.
       requireM (\<not> l) ''unsafe-tracked-path'' 78 (
       bindM (backup_record e previous p (length records)) (\<lambda>r.
       if \<not> is_list v then raiseM AttributeError
       else atomicM (previous @ [''files.json'']) (canonical (JList (records @ [r])))))))))"

section \<open>The process\<close>

record host =
  hdir :: path
  hmanifest :: json
  release :: string
  hpolicy :: json

definition journal :: "host \<Rightarrow> path" where
  "journal h = under HROOT (release h @ ''.state.json'')"

definition snapshot_file :: "host \<Rightarrow> path" where
  "snapshot_file h = under HROOT (release h @ ''.snapshot.tar'')"

definition previous_dir :: "host \<Rightarrow> path" where
  "previous_dir h = under HROOT (release h @ ''.previous'')"

definition new_state :: json where
  "new_state = JObj [(''phase'', JStr ''new'')]"

definition load_host :: "path \<Rightarrow> ('x world, host \<times> json) prog" where
  "load_host d =
     bindM (readM (d @ [''manifest.json''])) (\<lambda>raw.
     bindM (liftE (decode raw)) (\<lambda>m.
     bindM (liftE (idx m ''release_id'')) (\<lambda>rid.
     bindM (read_protectedM HOST_POLICY (Some 0)) (\<lambda>p.
     bindM (liftE (decode p)) (\<lambda>policy.
     bindM (liftE (str_arg rid)) (\<lambda>r.
     let h = \<lparr>hdir = d, hmanifest = m, release = r, hpolicy = policy\<rparr> in
     bindM (existsM (journal h)) (\<lambda>x.
     if x then bindM (readM (journal h)) (\<lambda>j. bindM (liftE (decode j)) (\<lambda>s. ret (h, s)))
     else ret (h, new_state))))))))"

definition stage_reply :: "host \<Rightarrow> json \<Rightarrow> json" where
  "stage_reply h stage = JObj [(''ok'', JBool True), (''stage'', stage), (''release_id'', JStr (release h))]"

definition update :: "(string \<times> json) list \<Rightarrow> json \<Rightarrow> json" where
  "update kvs v = foldl (\<lambda>s kv. jset s (fst kv) (snd kv)) v kvs"

definition save :: "host \<Rightarrow> string \<Rightarrow> (string \<times> json) list \<Rightarrow> (json, 'x, json) process" where
  "save h phase values =
     bindM recall (\<lambda>s.
     if \<not> is_dict s then raiseM AttributeError
     else
       bindM (remember (update (values @ [(''phase'', JStr phase)]))) (\<lambda>_.
       bindM recall (\<lambda>s'.
       bindM (outside (atomicM (journal h) (canonical s'))) (\<lambda>_.
       ret (stage_reply h (JStr phase))))))"

definition field :: "string \<Rightarrow> (json, 'x, json) process" where
  "field k = bindM recall (\<lambda>s. liftE (idx s k))"

definition manifest_field :: "host \<Rightarrow> string \<Rightarrow> (json, 'x, json) process" where
  "manifest_field h k = liftE (idx (hmanifest h) k)"

definition in_phases :: "json \<Rightarrow> string list \<Rightarrow> bool" where
  "in_phases v ps \<longleftrightarrow> is_str v \<and> str_of v \<in> set ps"

section \<open>Snapshot, backup and credential\<close>

definition service_active :: "'x env \<Rightarrow> ('x world, bool) prog" where
  "service_active e = exceptM (\<lambda>x. is_failure x \<or> x = KeyError)
     (bindM (service e [''is-active'', ''hermes.service'']) (\<lambda>out. ret (bstrip out = ''active''))) (ret False)"

definition quiesce :: "'x env \<Rightarrow> ('x world, unit) prog" where
  "quiesce e = exceptM is_failure (serve e [''stop'', ''hermes.service''])
     (bindM (as_hermes e [''podman'', ''ps'', ''-q''] None) (\<lambda>out.
      requireM (bstrip out = []) ''cannot-quiesce-runtime'' 78 (ret ())))"

definition take_snapshot :: "'x env \<Rightarrow> path \<Rightarrow> ('x world, unit) prog" where
  "take_snapshot e p =
     bindM (existsM DATA) (\<lambda>x.
     if x then
       bindM (quiesce e) (\<lambda>_.
       bindM (createM p [] 384) (\<lambda>_.
       bindM (getpwnam e) (\<lambda>a. streamM p (cmd e)
         (hermes_args (fst a) [''podman'', ''unshare'', ''tar'', ''-C'', path_text DATA, ''-cf'', ''-'', ''.'']) None)))
     else
       bindM (createM p [] 384) (\<lambda>_. streamM p (cmd e) [''tar'', ''-cf'', ''-'', ''--files-from=/dev/null''] None))"

definition guard_name :: "'x env \<Rightarrow> host \<Rightarrow> string" where
  "guard_name e h = ''hermes-backup-guard-'' @ take 16 (sha256 e (release h))"

definition digest_reply :: "host \<Rightarrow> json \<Rightarrow> string \<Rightarrow> json" where
  "digest_reply h stage value = JObj [(''ok'', JBool True), (''stage'', stage), (''release_id'', JStr (release h)),
     (''snapshot_sha256'', JStr value)]"

definition snapshot_data :: "'x env \<Rightarrow> host \<Rightarrow> (json, 'x, json) process" where
  "snapshot_data e h =
     bindM (field ''phase'') (\<lambda>phase.
     if phase \<noteq> JStr ''new'' then
       bindM (outside (existsM (snapshot_file h))) (\<lambda>x.
       requireM x ''snapshot-unavailable'' 78 (
       bindM (outside (digestM (sha256 e) (snapshot_file h))) (\<lambda>value.
       ret (digest_reply h phase value))))
     else
       bindM (outside (preflight e (hpolicy h))) (\<lambda>_.
       bindM (outside (capture_application e (previous_dir h))) (\<lambda>_.
       bindM (outside (service_active e)) (\<lambda>active.
       bindM (remember (\<lambda>s. jset s ''previous_active'' (JBool active))) (\<lambda>_.
       bindM (save h ''snapshot-creating'' []) (\<lambda>_.
       bindM (outside (runs e [''systemd-run'', ''--unit='' @ guard_name e h, ''--on-active=20min'', ''/usr/bin/python3'', ''-I'',
           ''-B'', path_text (hdir h @ [''payload'', ''host.py'']), ''backup-guard''])) (\<lambda>_.
       bindM (outside (take_snapshot e (snapshot_file h))) (\<lambda>_.
       bindM (outside (digestM (sha256 e) (snapshot_file h))) (\<lambda>value.
       bindM (save h ''snapshot-ready'' [(''snapshot_sha256'', JStr value)]) (\<lambda>_.
       ret (digest_reply h (JStr ''snapshot-ready'') value)))))))))))"

definition acknowledge_backup :: "host \<Rightarrow> json \<Rightarrow> (json, 'x, json) process" where
  "acknowledge_backup h message =
     bindM (field ''phase'') (\<lambda>phase.
     requireM (in_phases phase [''snapshot-ready'', ''backup-verified'']) ''backup-stage-mismatch'' 78 (
     bindM (liftE (get_default message ''snapshot_sha256'' JNull)) (\<lambda>digest.
     bindM (field ''snapshot_sha256'') (\<lambda>expected.
     requireM (py_eq digest expected) ''backup-digest-mismatch'' 78 (
     bindM (liftE (idx message ''backup_snapshot'')) (\<lambda>b.
     save h ''backup-verified'' [(''backup_snapshot'', b)]))))))"

definition runtime_key_ok :: "json \<Rightarrow> bool" where
  "runtime_key_ok v \<longleftrightarrow> is_str v \<and> 1 \<le> length (codepoints (str_of v)) \<and> length (codepoints (str_of v)) \<le> 4096
     \<and> \<not> has_line_break_or_nul (str_of v)"

definition encrypt_args :: "string list" where
  "encrypt_args = [''systemd-creds'', ''encrypt'', ''--name=openai-api'', ''--with-key=host+tpm2'', ''--tpm2-pcrs=7'',
     ''--tpm2-public-key=/etc/systemd/tpm2-pcr-public-key.pem'', ''--tpm2-public-key-pcrs=11'', ''-'', ''-'']"

definition credential :: "'x env \<Rightarrow> host \<Rightarrow> json \<Rightarrow> (json, 'x, json) process" where
  "credential e h message =
     bindM (field ''phase'') (\<lambda>phase.
     requireM (in_phases phase [''backup-verified'', ''credential-ready'']) ''credential-stage-mismatch'' 78 (
     bindM (liftE (get_default message ''key'' JNull)) (\<lambda>value.
     requireM (runtime_key_ok value) ''invalid-runtime-key'' 78 (
     bindM (liftE (decode_text (str_of value))) (\<lambda>raw.
     bindM (outside (runM (cmd e) encrypt_args (Some raw))) (\<lambda>encrypted.
     bindM (outside (mkdir_allM (butlast CREDENTIAL) 448)) (\<lambda>_.
     bindM (outside (atomicM CREDENTIAL encrypted)) (\<lambda>_.
     save h ''credential-ready'' []))))))))"

section \<open>Installation\<close>

text \<open>\<^verbatim>\<open>self.directory / self.manifest[key]\<close>\<close>

definition manifest_path :: "host \<Rightarrow> string \<Rightarrow> path res" where
  "manifest_path h k = bindE (idx (hmanifest h) k) (\<lambda>v. bindE (str_arg v) (\<lambda>s. Inr (under (hdir h) s)))"

definition install_boot :: "'x env \<Rightarrow> host \<Rightarrow> ('x world, string) prog" where
  "install_boot e h =
     bindM (liftE (manifest_path h ''boot_artifact'')) (\<lambda>uki.
     bindM (runs e [''sbverify'', ''--cert'', ''/etc/hermes-unattended/uki.crt'', path_text uki]) (\<lambda>_.
     let target = under ESP (''hermes-'' @ release h @ ''.efi'') in
     bindM (getsM (space e [''boot'', ''efi''])) (\<lambda>free.
     bindM (readM uki) (\<lambda>content.
     requireM (free \<ge> int (length content) + 1024 * 1024) ''insufficient-esp-space'' 78 (
     bindM (install_file uki target 420) (\<lambda>_. ret (last target)))))))"

definition script_args :: "json \<Rightarrow> string \<Rightarrow> string list res" where
  "script_args manifest name =
     (if name = ''set-model.py'' then
        bindE (idx manifest ''model'') (\<lambda>m. bindE (str_arg m) (\<lambda>model.
        Inr ([''podman'', ''exec'', ''-i'', ''--user'', ''10000:10000'', ''-e'', ''HERMES_PROVIDER=openai-api'', ''-e'',
              ''HERMES_MODEL='' @ model, ''hermes'', ''python3'', ''-''])))
      else Inr [''podman'', ''exec'', ''-i'', ''--user'', ''10000:10000'', ''hermes'', ''python3'', ''-''])"

definition run_script :: "'x env \<Rightarrow> host \<Rightarrow> string \<Rightarrow> ('x world, unit) prog" where
  "run_script e h name =
     bindM (liftE (script_args (hmanifest h) name)) (\<lambda>args.
     bindM (readM (hdir h @ [''payload'', name])) (\<lambda>content.
     bindM (as_hermes e args (Some content)) (\<lambda>_. ret ())))"

definition track_install :: "'x env \<Rightarrow> host \<Rightarrow> path \<Rightarrow> path \<Rightarrow> nat \<Rightarrow> ('x world, unit) prog" where
  "track_install e h src target mode =
     bindM (track e (previous_dir h) target) (\<lambda>_. install_file src target mode)"

definition track_write :: "'x env \<Rightarrow> host \<Rightarrow> path \<Rightarrow> string \<Rightarrow> ('x world, unit) prog" where
  "track_write e h target content =
     bindM (track e (previous_dir h) target) (\<lambda>_. install_bytes target content 420)"

definition LIBEXEC :: path where "LIBEXEC = [''usr'', ''local'', ''libexec'', ''hermes-unattended'', ''materialize.py'']"

definition CREDENTIAL_UNIT :: path where
  "CREDENTIAL_UNIT = [''etc'', ''systemd'', ''system'', ''hermes-runtime-credentials.service'']"

definition RUNTIME_ORDER :: path where
  "RUNTIME_ORDER = [''etc'', ''systemd'', ''system'', ''hermes-runtime-credentials.service.d'', ''80-runtime-directory.conf'']"

definition service_dropin :: "string \<Rightarrow> path" where
  "service_dropin name = [''etc'', ''systemd'', ''user'', ''hermes.service.d'', name]"

definition manager_path :: "nat \<Rightarrow> path" where
  "manager_path uid = [''etc'', ''systemd'', ''system'', ''user@'' @ show_nat uid @ ''.service.d'', ''80-hermes-credentials.conf'']"

definition container_dropin :: "nat \<Rightarrow> path" where
  "container_dropin uid =
     [''etc'', ''containers'', ''systemd'', ''users'', show_nat uid, ''hermes.container.d'', ''80-credentials.conf'']"

definition install_quadlet :: "'x env \<Rightarrow> host \<Rightarrow> nat \<Rightarrow> json \<Rightarrow> ('x world, unit) prog" where
  "install_quadlet e h uid img =
     (let payload = hdir h @ [''payload'']; unit_file = payload @ [''hermes.container''] in
      bindM (liftE (str_arg img)) (\<lambda>name.
      bindM (read_textM unit_file) (\<lambda>t.
      requireM (''Image='' @ name \<in> set (splitlines t)) ''quadlet-image-mismatch'' 78 (
      bindM (as_hermes e [''podman'', ''pull'', name] None) (\<lambda>_.
      bindM (track_install e h unit_file (unit_path uid) 420) (\<lambda>_.
      bindM (forM [''60-hermes-runtime.conf'', ''70-hermes-volume-label.conf'']
          (\<lambda>n. track_install e h (payload @ [n]) (service_dropin n) 420)) (\<lambda>_.
      bindM (unlinkM OVERLAY True) (\<lambda>_.
      bindM (track e (previous_dir h) (container_dropin uid)) (\<lambda>_.
      bindM (unlinkM (container_dropin uid) True) (\<lambda>_.
      bindM (serve e [''daemon-reload'']) (\<lambda>_.
      bindM (serve e [''restart'', ''hermes.service'']) (\<lambda>_.
      wait_health e img))))))))))))"

definition install_credentials :: "'x env \<Rightarrow> host \<Rightarrow> nat \<Rightarrow> ('x world, unit) prog" where
  "install_credentials e h uid =
     (let payload = hdir h @ [''payload''] in
      bindM (track e (previous_dir h) LIBEXEC) (\<lambda>_.
      bindM (track e (previous_dir h) CREDENTIAL_UNIT) (\<lambda>_.
      bindM (install_file (payload @ [''materialize.py'']) LIBEXEC 493) (\<lambda>_.
      bindM (install_file (payload @ [''hermes-runtime-credentials.service'']) CREDENTIAL_UNIT 420) (\<lambda>_.
      bindM (track_write e h RUNTIME_ORDER
        (text_lines [''[Unit]'', ''Requires=user-runtime-dir@'' @ show_nat uid @ ''.service'',
          ''After=user-runtime-dir@'' @ show_nat uid @ ''.service''])) (\<lambda>_.
      bindM (track_write e h (manager_path uid)
        (text_lines [''[Unit]'', ''Requires=hermes-runtime-credentials.service'', ''After=hermes-runtime-credentials.service''])) (\<lambda>_.
      bindM (runs e [''systemctl'', ''daemon-reload'']) (\<lambda>_.
      bindM (runs e [''systemctl'', ''restart'', ''hermes-runtime-credentials.service'']) (\<lambda>_.
      runs e [''systemctl'', ''start'', ''user@'' @ show_nat uid @ ''.service''])))))))))"

definition install_runtime :: "'x env \<Rightarrow> host \<Rightarrow> ('x world, unit) prog" where
  "install_runtime e h =
     bindM (identity e) (\<lambda>uid.
     bindM (liftE (idx (hmanifest h) ''image'')) (\<lambda>img.
     bindM (install_quadlet e h uid img) (\<lambda>_.
     bindM (forM [''harden-config.py'', ''set-model.py''] (run_script e h)) (\<lambda>_.
     bindM (install_credentials e h uid) (\<lambda>_.
     bindM (install_bytes (container_dropin uid)
       (text_lines [''[Container]'', ''Volume=/run/hermes-secrets/provider.env:/opt/data/.env:ro,z'']) 420) (\<lambda>_.
     bindM (serve e [''daemon-reload'']) (\<lambda>_.
     bindM (serve e [''restart'', ''hermes.service'']) (\<lambda>_.
     wait_health e img))))))))"

definition check_config :: string where
  "check_config = text_lines
     [''import pathlib, yaml'', ''c=yaml.safe_load(pathlib.Path('/opt/data/config.yaml').read_text())'',
     ''assert c['approvals']['mode']=='manual'' @ [CHR 0x27],
     ''assert c['approvals']['cron_mode']=='deny'' @ [CHR 0x27],
     ''assert c['approvals']['single_query_mode']=='deny'' @ [CHR 0x27],
     ''assert c['security']['allow_private_urls'] is False'',
     ''assert c['security']['tirith_fail_open'] is False'',
     ''assert c['hooks']=={} and c['mcp_servers']=={}'',
     ''assert c['cron']['allow_agent_scheduling'] is False'']"

definition acceptance :: "'x env \<Rightarrow> host \<Rightarrow> ('x world, unit) prog" where
  "acceptance e h =
     bindM (liftE (idx (hmanifest h) ''image'')) (\<lambda>img.
     bindM (healthy e img) (\<lambda>_.
     bindM (as_hermes e [''podman'', ''exec'', ''-i'', ''--user'', ''10000:10000'', ''hermes'', ''python3'', ''-''] (Some check_config)) (\<lambda>_.
     bindM (liftE (bindE (idx (hmanifest h) ''model'') str_arg)) (\<lambda>model.
     bindM (as_hermes e [''podman'', ''exec'', ''--user'', ''10000:10000'', ''hermes'', ''hermes'', ''--safe-mode'', ''--provider'',
         ''openai-api'', ''--model'', model, ''--toolsets'', ''context_engine'', ''-z'',
         ''Return exactly HERMES_OK and nothing else.''] None) (\<lambda>output.
     requireM (output \<in> set [''HERMES_OK'', ''HERMES_OK'' @ [newline]]) ''inference-acceptance-failed'' 78 (ret ()))))))"

section \<open>Rollback\<close>

definition restore_config :: string where
  "restore_config = text_lines
     [''import os,secrets,sys'', ''directory=os.open('.',os.O_RDONLY|os.O_DIRECTORY)'',
     ''name='.rollback-'+secrets.token_hex(16)'',
     ''fd=os.open(name,os.O_WRONLY|os.O_CREAT|os.O_EXCL,0o600,dir_fd=directory)'', ''try:'',
     ''    with os.fdopen(fd,'wb') as stream:'', ''        stream.write(sys.stdin.buffer.read())'',
     ''        stream.flush()'', ''        os.fsync(stream.fileno())'',
     ''    os.replace(name,'config.yaml',src_dir_fd=directory,dst_dir_fd=directory)'',
     ''    os.fsync(directory)'', ''finally:'', ''    try: os.unlink(name,dir_fd=directory)'',
     ''    except FileNotFoundError: pass'', ''    os.close(directory)'']"

definition int_arg :: "json \<Rightarrow> nat res" where
  "int_arg v = (case v of JInt i \<Rightarrow> Inr (nat i) | JBool b \<Rightarrow> Inr (if b then 1 else 0) | _ \<Rightarrow> Inl TypeError)"

text \<open>\<^verbatim>\<open>self.previous / record["index"]\<close>\<close>

definition saved_copy :: "path \<Rightarrow> json \<Rightarrow> ('x world, string) prog" where
  "saved_copy previous r = bindM (liftE (bindE (idx r ''index'') str_arg)) (\<lambda>i. readM (under previous i))"

definition restore_user_config :: "'x env \<Rightarrow> path \<Rightarrow> json \<Rightarrow> bool \<Rightarrow> ('x world, unit) prog" where
  "restore_user_config e previous r present =
     (if present then
        bindM (saved_copy previous r) (\<lambda>c.
        bindM (as_hermes e (in_data [''python3'', ''-c'', restore_config]) (Some c)) (\<lambda>_. ret ()))
      else bindM (as_hermes e (in_data [''rm'', ''-f'', ''--'', ''config.yaml'']) None) (\<lambda>_. ret ()))"

definition restore_file :: "path \<Rightarrow> json \<Rightarrow> path \<Rightarrow> bool \<Rightarrow> ('x world, unit) prog" where
  "restore_file previous r p present =
     (if present then
        bindM (saved_copy previous r) (\<lambda>c.
        bindM (atomicM p c) (\<lambda>_.
        bindM (liftE (bindE (idx r ''mode'') int_arg)) (\<lambda>mode.
        bindM (chmodM p mode) (\<lambda>_.
        bindM (liftE (bindE (idx r ''uid'') int_arg)) (\<lambda>uid.
        bindM (liftE (bindE (idx r ''gid'') int_arg)) (\<lambda>_.
        chownM p uid))))))
      else unlinkM p True)"

text \<open>The accepted credential of a closed release stays; only its record asks for the phase.\<close>

definition retired :: "json res \<Rightarrow> path \<Rightarrow> bool res" where
  "retired phase p = (if p = CREDENTIAL then bindE phase (\<lambda>v. Inr (v = JStr ''closed'')) else Inr False)"

definition restore_record :: "'x env \<Rightarrow> path \<Rightarrow> json res \<Rightarrow> json \<Rightarrow> ('x world, unit) prog" where
  "restore_record e previous phase r =
     bindM (liftE (bindE (idx r ''path'') str_arg)) (\<lambda>name.
     let p = abs_path name in
     bindM (liftE (retired phase p)) (\<lambda>skip.
     if skip then ret ()
     else
       bindM (is_linkM p) (\<lambda>l.
       requireM (\<not> l) ''unsafe-rollback-destination'' 78 (
       bindM (liftE (idx r ''exists'')) (\<lambda>x.
       if p = CONFIG then restore_user_config e previous r (truthy x)
       else restore_file previous r p (truthy x))))))"

definition restore_all :: "'x env \<Rightarrow> path \<Rightarrow> json res \<Rightarrow> ('x world, unit) prog" where
  "restore_all e previous phase =
     bindM (read_records previous) (\<lambda>v.
     bindM (liftE (iterate v)) (\<lambda>records.
     forM records (restore_record e previous phase)))"

text \<open>\<^verbatim>\<open>next(line.removeprefix("Image=") for line in ... if line.startswith("Image="))\<close>\<close>

definition image_line :: "string \<Rightarrow> string res" where
  "image_line t = (case filter (\<lambda>l. startswith l ''Image='') (splitlines t) of
     [] \<Rightarrow> Inl StopIteration | l # ls \<Rightarrow> Inr (removeprefix ''Image='' l))"

definition restart_credentials :: "'x env \<Rightarrow> ('x world, unit) prog" where
  "restart_credentials e =
     bindM (existsM CREDENTIAL) (\<lambda>c. bindM (existsM CREDENTIAL_UNIT) (\<lambda>u.
     whenM (c \<and> u) (
       bindM (runs e [''systemctl'', ''restart'', ''hermes-runtime-credentials.service'']) (\<lambda>_.
       bindM (getpwnam e) (\<lambda>a. runs e [''systemctl'', ''start'', ''user@'' @ show_nat (fst a) @ ''.service''])))))"

definition restart_runtime :: "'x env \<Rightarrow> json \<Rightarrow> ('x world, unit) prog" where
  "restart_runtime e state =
     bindM (runs e [''systemctl'', ''daemon-reload'']) (\<lambda>_.
     bindM (restart_credentials e) (\<lambda>_.
     bindM (serve e [''daemon-reload'']) (\<lambda>_.
     bindM (liftE (get_default state ''previous_active'' JNull)) (\<lambda>active.
     whenM (truthy active) (
       bindM (serve e [''restart'', ''hermes.service'']) (\<lambda>_.
       bindM (getpwnam e) (\<lambda>a.
       bindM (read_textM (unit_path (fst a))) (\<lambda>t.
       bindM (liftE (image_line t)) (\<lambda>img. wait_health e (JStr img))))))))))"

definition rollback :: "'x env \<Rightarrow> host \<Rightarrow> (json, 'x, json) process" where
  "rollback e h =
     bindM (outside (existsM (previous_dir h @ [''complete'']))) (\<lambda>x.
     requireM x ''application-backup-unavailable'' 78 (
     bindM (outside (exceptM (\<lambda>x. is_failure x \<or> x = KeyError) (serve e [''stop'', ''hermes.service'']) (ret ()))) (\<lambda>_.
     bindM recall (\<lambda>state.
     bindM (outside (restore_all e (previous_dir h) (idx state ''phase''))) (\<lambda>_.
     bindM (exceptM (\<lambda>x. is_failure x \<or> x = KeyError)
         (bindM (outside (restart_runtime e state)) (\<lambda>_. ret ''rolled-back'')) (ret ''recovery-required'')) (\<lambda>phase.
     save h phase []))))))"

section \<open>The stages\<close>

definition transaction_dir :: "host \<Rightarrow> path res" where
  "transaction_dir h = bindE (manifest_path h ''transaction'') (\<lambda>p. Inr (butlast p))"

definition start_reboot :: "'x env \<Rightarrow> string \<Rightarrow> ('x world, unit) prog" where
  "start_reboot e name = runs e [''systemd-run'', ''--unit='' @ name, ''--on-active=5s'', ''/usr/bin/systemctl'', ''reboot'']"

definition stage_packages :: "'x env \<Rightarrow> host \<Rightarrow> (json, 'x, json) process" where
  "stage_packages e h =
     bindM (outside (preflight e (hpolicy h))) (\<lambda>_.
     bindM (outside (package_baseline (sha256 e) (cmd e))) (\<lambda>b.
     bindM (manifest_field h ''baseline_sha256'') (\<lambda>expected.
     requireM (JStr b = expected) ''package-baseline-mismatch'' 78 (
     bindM (outside (install_boot e h)) (\<lambda>entry.
     bindM (outside (getsM (boot e))) (\<lambda>bt.
     bindM (save h ''package-staging'' [(''boot_before'', JStr bt)]) (\<lambda>_.
     bindM (liftE (transaction_dir h)) (\<lambda>d.
     bindM (outside (replay_packages e d b (Some entry))) (\<lambda>_.
     bindM (save h ''reboot-pending'' []) (\<lambda>_.
     bindM (outside (start_reboot e ''hermes-offline-reboot'')) (\<lambda>_.
     ret (stage_reply h (JStr ''reboot-pending'')))))))))))))"

definition after_reboot :: "'x env \<Rightarrow> host \<Rightarrow> (json, 'x, unit) process" where
  "after_reboot e h =
     bindM (outside (read_textM (hdir h @ [''packages'', ''installed-after.sha256'']))) (\<lambda>t.
     bindM (outside (package_baseline (sha256 e) (cmd e))) (\<lambda>b.
     requireM (b = strip t) ''package-replay-result-mismatch'' 78 (
     bindM (liftE (transaction_dir h)) (\<lambda>d.
     bindM (liftE (bindE (idx (hmanifest h) ''baseline_sha256'') str_arg)) (\<lambda>baseline.
     bindM (outside (require_complete e d baseline)) (\<lambda>_.
     bindM (outside (preflight e (hpolicy h))) (\<lambda>_.
     bindM (save h ''runtime-pending'' []) (\<lambda>_. ret ()))))))))"

text \<open>
  The body of the \<^verbatim>\<open>try\<close>: Some reply is its early return, None goes on to close the release.
\<close>

definition accept_release :: "'x env \<Rightarrow> host \<Rightarrow> string \<Rightarrow> (json, 'x, json option) process" where
  "accept_release e h phase =
     bindM (whenM (phase = ''persistence-reboot'')
       (bindM (manifest_field h ''image'') (\<lambda>img. outside (wait_health e img)))) (\<lambda>_.
     bindM (whenM (phase = ''runtime-pending'')
       (bindM (outside (install_runtime e h)) (\<lambda>_. bindM (save h ''runtime-installed'' []) (\<lambda>_. ret ())))) (\<lambda>_.
     bindM (outside (acceptance e h)) (\<lambda>_.
     if phase \<noteq> ''persistence-reboot'' then
       bindM (outside (getsM (boot e))) (\<lambda>bt.
       bindM (save h ''persistence-reboot'' [(''runtime_boot_before'', JStr bt)]) (\<lambda>_.
       bindM (outside (start_reboot e ''hermes-persistence-reboot'')) (\<lambda>_.
       ret (Some (stage_reply h (JStr ''persistence-reboot''))))))
     else bindM (outside (preflight e (hpolicy h))) (\<lambda>_. ret None))))"

definition finish_release :: "'x env \<Rightarrow> host \<Rightarrow> string \<Rightarrow> (json, 'x, json) process" where
  "finish_release e h phase =
     bindM (exceptM is_failure (accept_release e h phase)
       (bindM (rollback e h) (\<lambda>_. raiseM (Failure 69 ''application-rolled-back'')))) (\<lambda>early.
     case early of
       Some reply \<Rightarrow> ret reply
     | None \<Rightarrow> bindM (outside (unlinkM (snapshot_file h) True)) (\<lambda>_. save h ''closed'' []))"

definition run_stage :: "'x env \<Rightarrow> host \<Rightarrow> json \<Rightarrow> (json, 'x, json) process" where
  "run_stage e h phase =
     requireM (in_phases phase [''runtime-pending'', ''runtime-installed'', ''persistence-reboot'']) ''release-needs-recovery'' 75 (
     bindM (outside (getsM (boot e))) (\<lambda>bt.
     bindM (if phase = JStr ''persistence-reboot'' then
              bindM (field ''runtime_boot_before'') (\<lambda>b. ret (JStr bt = b)) else ret False) (\<lambda>waiting.
     if waiting then ret (stage_reply h (JStr ''persistence-reboot''))
     else finish_release e h (str_of phase))))"

definition advance :: "'x env \<Rightarrow> host \<Rightarrow> (json, 'x, json) process" where
  "advance e h =
     bindM (field ''phase'') (\<lambda>phase.
     if phase = JStr ''closed'' then
       bindM (manifest_field h ''image'') (\<lambda>img.
       bindM (outside (healthy e img)) (\<lambda>_. save h ''closed'' []))
     else if phase = JStr ''credential-ready'' then stage_packages e h
     else if phase = JStr ''reboot-pending'' then
       bindM (outside (getsM (boot e))) (\<lambda>bt.
       bindM (field ''boot_before'') (\<lambda>b.
       if JStr bt = b then ret (stage_reply h (JStr ''reboot-pending''))
       else bindM (after_reboot e h) (\<lambda>_. run_stage e h (JStr ''runtime-pending''))))
     else run_stage e h phase)"

definition backup_guard :: "'x env \<Rightarrow> host \<Rightarrow> (json, 'x, json) process" where
  "backup_guard e h =
     bindM (field ''phase'') (\<lambda>phase.
     if in_phases phase [''snapshot-creating'', ''snapshot-ready'', ''backup-verified'', ''credential-ready'']
     then rollback e h else ret (stage_reply h phase))"

definition check_host :: "'x env \<Rightarrow> host \<Rightarrow> (json, 'x, json) process" where
  "check_host e h =
     bindM (outside (preflight e (hpolicy h))) (\<lambda>_.
     bindM (field ''phase'') (\<lambda>phase.
     bindM (if phase = JStr ''closed'' then bindM (manifest_field h ''image'') (\<lambda>i. outside (healthy e i)) else ret ()) (\<lambda>_.
     ret (stage_reply h phase))))"

definition host_action :: "'x env \<Rightarrow> host \<Rightarrow> string \<Rightarrow> string \<Rightarrow> (json, 'x, json) process" where
  "host_action e h action input =
     (if action = ''snapshot'' then snapshot_data e h
      else if action = ''backup-verified'' then bindM (liftE (decode (take 65537 input))) (acknowledge_backup h)
      else if action = ''credential'' then bindM (liftE (decode (take 65537 input))) (credential e h)
      else if action = ''rollback'' then rollback e h
      else if action \<in> set [''check'', ''status''] then check_host e h
      else requireM (action \<in> set [''deploy'', ''upgrade'']) ''unknown-host-action'' 64 (advance e h))"

text \<open>A process starts from the loaded state; its memory is gone when it ends.\<close>

definition process :: "'m \<Rightarrow> ('m, 'x, 'a) process \<Rightarrow> ('x world, 'a) prog" where
  "process s m w = (case m (s, w) of (r, t) \<Rightarrow> (r, snd t))"

definition host_main :: "'x env \<Rightarrow> path \<Rightarrow> string list \<Rightarrow> string \<Rightarrow> ('x world, json) prog" where
  "host_main e d args input =
     bindM (getsM euid) (\<lambda>u.
     requireM (u = 0 \<and> length args = 1) ''invalid-host-invocation'' 77 (
     bindM (load_host d) (\<lambda>(h, s).
     if hd args = ''backup-guard'' then lockM (HROOT @ [''target.lock'']) (process s (backup_guard e h))
     else process s (host_action e h (hd args) input))))"

end
