(* ===== verification/Policy.thy ===== *)
theory Policy
  imports ReleaseFacts
begin

text \<open>
  \<^verbatim>\<open>scripts/hermes/unattended/policy.py\<close>: the enrolled configuration of the controller, the
  maintenance window and the fixed options of \<^verbatim>\<open>ssh\<close>. An instant is the number of microseconds since
  the start of a Monday in \<^verbatim>\<open>America/Bogota\<close>, a zone without daylight saving time.
\<close>

section \<open>The configuration\<close>

definition CONFIG_FIELDS :: "string list" where
  "CONFIG_FIELDS = [''schema'', ''target'', ''identity_file'', ''known_hosts'', ''allowed_signers'', ''host'',
     ''state_dir'', ''provider'', ''model'', ''maintenance'', ''backup_repository'',
     ''backup_password_file'', ''credential_socket'']"

definition user_head :: "char \<Rightarrow> bool" where
  "user_head c \<longleftrightarrow> is_lower c \<or> c = CHR ''_''"

definition user_tail :: "char \<Rightarrow> bool" where
  "user_tail c \<longleftrightarrow> is_lower c \<or> is_digit c \<or> c \<in> set ''_-''"

text \<open>\<^verbatim>\<open>[a-z_][a-z0-9_-]*@[a-zA-Z0-9][a-zA-Z0-9.-]*\<close>: neither side can hold another \<^verbatim>\<open>@\<close>.\<close>

definition target_ok :: "string \<Rightarrow> bool" where
  "target_ok s = (case part_at (CHR ''@'') s of
     (user, found, host) \<Rightarrow> found \<and> match_head_tail user_head user_tail user
       \<and> match_head_tail is_alnum (\<lambda>c. is_alnum c \<or> c \<in> set ''.-'') host)"

definition config_path_ok :: "json \<Rightarrow> bool" where
  "config_path_ok v \<longleftrightarrow> is_str v \<and> path_absolute (str_of v) \<and> \<not> has_line_break_or_nul (str_of v)"

definition maintenance_policy :: json where
  "maintenance_policy = JObj [(''timezone'', JStr ''America/Bogota''), (''weekday'', JInt 6),
                              (''start_hour'', JInt 2), (''end_hour'', JInt 4)]"

definition path_step :: "json \<Rightarrow> string \<Rightarrow> unit \<Rightarrow> unit res" where
  "path_step config key _ = requireE (config_path_ok (jget config key)) ''invalid-config-path'' 64 (Inr ())"

definition trust_step :: "fsys \<Rightarrow> json \<Rightarrow> string \<Rightarrow> unit \<Rightarrow> unit res" where
  "trust_step fs config key _ =
     bindE (protected_file fs (path_comps (str_of (jget config key))) None) (\<lambda>_. Inr ())"

definition load_config :: "fsys \<Rightarrow> path \<Rightarrow> json res" where
  "load_config fs p =
     bindE (protected_file fs p None) (\<lambda>p. bindE (read_bytes fs p) (\<lambda>raw. bindE (decode raw) (\<lambda>config.
     requireE (fields_are config CONFIG_FIELDS) ''invalid-config-fields'' 64 (
     requireE (jget config ''schema'' = JStr ''hermes-controller-v1'') ''invalid-config-schema'' 64 (
     requireE (is_str (jget config ''target'') \<and> target_ok (str_of (jget config ''target''))) ''invalid-target'' 64 (
     bindE (foldE (path_step config) [''identity_file'', ''known_hosts'', ''allowed_signers'', ''state_dir'',
              ''backup_repository'', ''backup_password_file'', ''credential_socket''] ()) (\<lambda>_.
     bindE (foldE (trust_step fs config) [''identity_file'', ''known_hosts'', ''allowed_signers''] ()) (\<lambda>_.
     bindE (case node_at fs (path_comps (str_of (jget config ''identity_file''))) of
              None \<Rightarrow> Inl OSError | Some n \<Rightarrow> Inr n) (\<lambda>n.
     requireE (\<not> open_to_others n) ''ssh-identity-not-private'' 78 (
     requireE (jget config ''provider'' = JStr ''openai-api'') ''unattended-provider-unsupported'' 64 (
     requireE (is_str (jget config ''model'') \<and> model_ok (str_of (jget config ''model''))) ''invalid-model'' 64 (
     requireE (host_binding_ok (jget config ''host'')) ''invalid-host-binding'' 64 (
     requireE (py_eq (jget config ''maintenance'') maintenance_policy) ''unenrolled-maintenance-policy'' 64 (
     Inr config))))))))))))))"

definition cfg :: "json \<Rightarrow> string \<Rightarrow> string" where
  "cfg config key = str_of (jget config key)"

definition ssh_options :: "json \<Rightarrow> string list" where
  "ssh_options config =
     [''ssh'', ''-F'', ''/dev/null'', ''-T'', ''-i'', cfg config ''identity_file'',
      ''-o'', ''BatchMode=yes'', ''-o'', ''IdentitiesOnly=yes'', ''-o'', ''StrictHostKeyChecking=yes'',
      ''-o'', ''UserKnownHostsFile='' @ cfg config ''known_hosts'', ''-o'', ''GlobalKnownHostsFile=/dev/null'',
      ''-o'', ''ConnectTimeout=15'', ''-o'', ''ConnectionAttempts=1'', ''-o'', ''ServerAliveInterval=15'',
      ''-o'', ''ServerAliveCountMax=3'', ''-o'', ''ClearAllForwardings=yes'', cfg config ''target'']"

section \<open>The maintenance window\<close>

definition second_us :: int where "second_us = 1000000"
definition hour_us :: int where "hour_us = 3600 * second_us"
definition day_us :: int where "day_us = 24 * hour_us"

text \<open>\<^verbatim>\<open>now.weekday()\<close> (Monday is 0) and \<^verbatim>\<open>now.hour\<close>.\<close>

definition weekday :: "int \<Rightarrow> int" where
  "weekday now = now div day_us mod 7"

definition hour :: "int \<Rightarrow> int" where
  "hour now = now mod day_us div hour_us"

definition window_end :: "int \<Rightarrow> int" where
  "window_end now = now - now mod day_us + 4 * hour_us"

definition maintenance_open :: "int \<Rightarrow> int \<Rightarrow> bool" where
  "maintenance_open now minimum_seconds \<longleftrightarrow>
     weekday now = 6 \<and> 2 \<le> hour now \<and> now + minimum_seconds * second_us \<le> window_end now"

text \<open>
  The maintenance window: with a nonnegative reserve, the window is open exactly when it is Sunday
  between 02:00 and 04:00 and the reserve still fits before 04:00; every shorter reserve then fits as
  well, and no instant after it on that day up to the end of the reserve leaves Sunday.
\<close>

lemma maintenance_open_iff:
  assumes "0 \<le> minimum"
  shows "(maintenance_open now minimum \<longleftrightarrow>
      (\<exists>week t. now = week * (7 * day_us) + 6 * day_us + t \<and> 2 * hour_us \<le> t
         \<and> t + minimum * second_us \<le> 4 * hour_us)) \<and>
    (maintenance_open now minimum \<longrightarrow> 0 \<le> shorter \<and> shorter \<le> minimum \<longrightarrow> maintenance_open now shorter) \<and>
    (maintenance_open now minimum \<longrightarrow> 0 \<le> later \<and> later \<le> minimum \<longrightarrow> weekday (now + later * second_us) = 6)"
proof -
  define d where "d = now div day_us"
  define t where "t = now mod day_us"
  have now: "now = d * day_us + t" by (simp add: d_def t_def)
  have t: "0 \<le> t" "t < day_us" by (simp_all add: t_def day_us_def hour_us_def second_us_def)
  have h: "2 \<le> hour now \<longleftrightarrow> 2 * hour_us \<le> t"
    unfolding hour_def t_def [symmetric] by (simp add: hour_us_def second_us_def) linarith
  have w: "weekday now = 6 \<longleftrightarrow> (\<exists>week. d = 7 * week + 6)"
    unfolding weekday_def d_def [symmetric] by presburger
  have m: "maintenance_open now k \<longleftrightarrow> (\<exists>week. d = 7 * week + 6) \<and> 2 * hour_us \<le> t \<and> t + k * second_us \<le> 4 * hour_us" for k
    unfolding maintenance_open_def w h window_end_def t_def [symmetric] by auto
  have u: "week * (7 * day_us) + 6 * day_us + s = d * day_us + t \<longleftrightarrow> d = 7 * week + 6 \<and> s = t"
    if "0 \<le> s" "s < day_us" for week s
  proof
    assume a: "week * (7 * day_us) + 6 * day_us + s = d * day_us + t"
    then have "(week * 7 + 6) * day_us + s = d * day_us + t" by (simp add: algebra_simps)
    then have "((week * 7 + 6) * day_us + s) div day_us = (d * day_us + t) div day_us" by simp
    then have "week * 7 + 6 = d" using that t by simp
    with a show "d = 7 * week + 6 \<and> s = t" by (auto simp: algebra_simps)
  qed (simp add: algebra_simps)
  have "maintenance_open now minimum \<longleftrightarrow>
      (\<exists>week s. now = week * (7 * day_us) + 6 * day_us + s \<and> 2 * hour_us \<le> s \<and> s + minimum * second_us \<le> 4 * hour_us)"
    (is "_ \<longleftrightarrow> (\<exists>week s. ?P week s)")
  proof
    assume "maintenance_open now minimum"
    then obtain week where "d = 7 * week + 6" "2 * hour_us \<le> t" "t + minimum * second_us \<le> 4 * hour_us"
      by (auto simp: m)
    then show "\<exists>week s. ?P week s"
      by (intro exI [of _ week] exI [of _ t]) (simp add: now algebra_simps)
  next
    assume "\<exists>week s. ?P week s"
    then obtain week s where p: "?P week s" by blast
    have "0 \<le> s" "s < day_us" using p assms by (auto simp: hour_us_def day_us_def second_us_def)
    with p u [of s week] now have "d = 7 * week + 6" "s = t" by simp_all
    with p show "maintenance_open now minimum" unfolding m by blast
  qed
  moreover have "maintenance_open now shorter" if "maintenance_open now minimum" "shorter \<le> minimum"
    using that by (auto simp: m second_us_def)
  moreover have "weekday (now + later * second_us) = 6"
    if "maintenance_open now minimum" "0 \<le> later" "later \<le> minimum"
  proof -
    have "t + later * second_us < day_us" "0 \<le> t + later * second_us"
      using that t by (auto simp: m day_us_def hour_us_def second_us_def)
    then have "(now + later * second_us) div day_us = d"
      by (simp add: now add.assoc)
    then show ?thesis using that(1) by (simp add: maintenance_open_def weekday_def d_def)
  qed
  ultimately show ?thesis by blast
qed

lemma maintenance_open_iff_example:
  "maintenance_open (6 * day_us + 3 * hour_us) 1800 \<and> weekday (6 * day_us + 3 * hour_us + 1800 * second_us) = 6"
proof -
  have "maintenance_open (6 * day_us + 3 * hour_us) 1800"
    by (simp add: maintenance_open_def weekday_def hour_def window_end_def day_us_def hour_us_def second_us_def)
  with maintenance_open_iff [of 1800 "6 * day_us + 3 * hour_us" 1800 1800] show ?thesis by simp
qed

end
