(* ===== verification/Dispatcher.thy ===== *)
theory Dispatcher
  imports Host Policy
begin

text \<open>
  \<^verbatim>\<open>scripts/hermes/unattended/dispatcher.py\<close>: the forced command of the enrolled host. It reads one
  request from its standard input, and only starts \<^verbatim>\<open>payload/host.py\<close> of a release whose signature and
  files it has verified. What it prints is either a reply or the bytes of a snapshot. The environment
  variables and the timeout of the started program are not arguments of the model's commands.
\<close>

section \<open>Enrollment\<close>

definition SIGNERS :: path where "SIGNERS = [''etc'', ''hermes-unattended'', ''allowed_signers'']"
definition MACHINE_ID :: path where "MACHINE_ID = [''etc'', ''machine-id'']"

text \<open>\<^verbatim>\<open>s.split()\<close>\<close>

fun words_acc :: "string \<Rightarrow> string \<Rightarrow> string list" where
  "words_acc acc [] = (if acc = [] then [] else [rev acc])"
| "words_acc acc (c # cs) =
     (if is_space c then (if acc = [] then words_acc [] cs else rev acc # words_acc [] cs)
      else words_acc (c # acc) cs)"

definition second_word :: "string \<Rightarrow> string res" where
  "second_word s = (case words_acc [] s of a # b # r \<Rightarrow> Inr b | _ \<Rightarrow> Inl IndexError)"

definition machine_identity :: "'x env \<Rightarrow> ('x world, json) prog" where
  "machine_identity e =
     bindM (runM (cmd e) [''ssh-keygen'', ''-lf'', ''/etc/ssh/ssh_host_ed25519_key.pub'', ''-E'', ''sha256''] None) (\<lambda>raw.
     bindM (liftE (bindE (decode_text raw) second_word)) (\<lambda>fingerprint.
     bindM (digestM (sha256 e) MACHINE_ID) (\<lambda>m.
     ret (JObj [(''machine_id_sha256'', JStr m), (''ssh_fingerprint'', JStr fingerprint)]))))"

definition state_dir_ok :: "fsys \<Rightarrow> bool" where
  "state_dir_ok fs \<longleftrightarrow> is_dir_at fs HROOT \<and> \<not> is_link_at fs HROOT \<and>
     (case node_at fs HROOT of None \<Rightarrow> False | Some n \<Rightarrow> node_uid n = 0 \<and> \<not> open_to_others n)"

definition host_enrolled :: "'x env \<Rightarrow> json \<Rightarrow> ('x world, bool) prog" where
  "host_enrolled e policy =
     (if is_dict policy \<and> jget policy ''schema'' = JStr ''hermes-host-v1''
      then bindM (machine_identity e) (\<lambda>i. ret (py_eq (jget policy ''host'') i)) else ret False)"

definition enrollment :: "'x env \<Rightarrow> ('x world, json) prog" where
  "enrollment e =
     bindM (getsM euid) (\<lambda>u.
     requireM (u = 0) ''root-dispatcher-required'' 77 (
     bindM (read_protectedM HOST_POLICY (Some 0)) (\<lambda>raw.
     bindM (liftE (decode raw)) (\<lambda>policy.
     bindM (host_enrolled e policy) (\<lambda>mine.
     requireM mine ''host-enrollment-mismatch'' 78 (
     requireM (jget policy ''enabled'' = JBool True) ''host-not-enrolled'' 78 (
     requireM (jget policy ''boot_certified'' = JBool True \<and> jget policy ''recovery_verified'' = JBool True)
       ''boot-enrollment-incomplete'' 78 (
     bindM (protectedM SIGNERS (Some 0)) (\<lambda>_.
     bindM (getsM files) (\<lambda>fs.
     requireM (state_dir_ok fs) ''unsafe-dispatcher-state'' 78 (ret policy)))))))))))"

section \<open>The staged tree\<close>

definition staged_file :: "(string \<Rightarrow> string) \<Rightarrow> path \<Rightarrow> string \<times> json \<Rightarrow> ('x world, unit) prog" where
  "staged_file h d nr =
     bindM (protectedM (under d (fst nr)) (Some 0)) (\<lambda>p.
     bindM (readM p) (\<lambda>c.
     requireM (py_eq (JInt (int (length c))) (jget (snd nr) ''size'') \<and> JStr (h c) = jget (snd nr) ''sha256'')
       ''staged-artifact-changed'' 78 (ret ())))"

definition verify_tree :: "'x env \<Rightarrow> path \<Rightarrow> json \<Rightarrow> json \<Rightarrow> ('x world, json) prog" where
  "verify_tree e d host fingerprint =
     bindM (read_protectedM (d @ [''manifest.json'']) (Some 0)) (\<lambda>raw.
     requireM (JStr (sha256 e raw) = fingerprint) ''bound-release-changed'' 78 (
     bindM (protectedM (d @ [''manifest.sig'']) (Some 0)) (\<lambda>sig.
     bindM (runM (cmd e) (verify_args (path_text SIGNERS) (path_text sig)) (Some raw)) (\<lambda>_.
     bindM (getsM (clock e)) (\<lambda>now.
     bindM (liftE (bindE (decode raw) (\<lambda>v. validate v now (Some host) True))) (\<lambda>manifest.
     bindM (forM (items_of (jget manifest ''files'')) (staged_file (sha256 e) d)) (\<lambda>_.
     ret manifest)))))))"

definition release_dir :: "string \<Rightarrow> path" where
  "release_dir rid = HROOT @ [''releases'', rid]"

definition binding_path :: "string \<Rightarrow> path" where
  "binding_path rid = HROOT @ [rid @ ''.binding'']"

definition load_binding :: "string \<Rightarrow> ('x world, json) prog" where
  "load_binding rid = bindM (read_protectedM (binding_path rid) (Some 0)) (\<lambda>raw. liftE (decode raw))"

definition host_args :: "string \<Rightarrow> string \<Rightarrow> string list" where
  "host_args rid action =
     [''/usr/bin/python3'', ''-I'', path_text (release_dir rid @ [''payload'', ''host.py'']), action]"

section \<open>Requests\<close>

definition ACTIONS :: "string list" where
  "ACTIONS = [''status'', ''check'', ''stage'', ''bound'', ''snapshot'', ''backup'', ''backup-verified'',
     ''credential'', ''deploy'', ''upgrade'', ''rollback'']"

definition request_fields :: "string \<Rightarrow> string list" where
  "request_fields action =
     (if action \<in> set [''status'', ''check'', ''stage''] then [''schema'', ''action'']
      else [''schema'', ''action'', ''release_id'', ''fingerprint'']
        @ (if action = ''credential'' then [''key''] else [])
        @ (if action = ''backup-verified'' then [''backup_snapshot'', ''snapshot_sha256''] else []))"

text \<open>\<^verbatim>\<open>stream.readline(65537)\<close>\<close>

definition header_line :: "string \<Rightarrow> string" where
  "header_line input = (let l = takeWhile (\<lambda>c. c \<noteq> newline) input in
     take 65537 (if length l < length input then l @ [newline] else l))"

definition receipt_ok :: "json \<Rightarrow> bool" where
  "receipt_ok m \<longleftrightarrow> is_str (jget m ''backup_snapshot'') \<and> snapshot_ok (str_of (jget m ''backup_snapshot''))
     \<and> is_str (jget m ''snapshot_sha256'') \<and> match_count is_hex 64 (str_of (jget m ''snapshot_sha256''))"

definition parse_request :: "string \<Rightarrow> (json \<times> string) res" where
  "parse_request input =
     (let header = header_line input in
      requireE (length header \<le> 65536 \<and> endswith header [newline]) ''invalid-dispatch-frame'' 64 (
      bindE (decode header) (\<lambda>m.
      requireE (is_dict m \<and> jget m ''schema'' = JStr ''hermes-dispatch-v1'') ''invalid-dispatch-schema'' 64 (
      requireE (in_phases (jget m ''action'') ACTIONS) ''unauthorized-operation'' 77 (
      let action = str_of (jget m ''action'') in
      requireE (fields_are m (request_fields action)) ''unexpected-dispatch-fields'' 64 (
      if action = ''backup-verified''
      then requireE (receipt_ok m) ''invalid-backup-receipt'' 64 (Inr (m, action))
      else Inr (m, action)))))))"

definition merged :: "json \<Rightarrow> json \<Rightarrow> json" where
  "merged a b = update (items_of b) a"

definition response_of :: "json \<Rightarrow> json res" where
  "response_of policy = bindE (idx policy ''host'') (\<lambda>h.
     Inr (JObj [(''ok'', JBool True), (''host'', h), (''enrolled'', JBool True)]))"

section \<open>Reading the state\<close>

definition active_state :: "'x env \<Rightarrow> json \<Rightarrow> string \<Rightarrow> json \<Rightarrow> ('x world, json) prog" where
  "active_state e policy action active =
     requireM (is_str active \<and> release_id_ok (str_of active)) ''invalid-active-release'' 78 (
     let rid = str_of active in
     bindM (load_binding rid) (\<lambda>binding.
     bindM (liftE (idx policy ''host'')) (\<lambda>h.
     bindM (liftE (idx binding ''fingerprint'')) (\<lambda>fp.
     bindM (verify_tree e (release_dir rid) h fp) (\<lambda>_.
     bindM (runM (cmd e) (host_args rid action) None) (\<lambda>raw.
     bindM (liftE (decode raw)) (\<lambda>state.
     requireM (is_dict state \<and> subset_list (keys_of state) [''ok'', ''stage'', ''release_id'']) ''unsafe-status-response'' 78 (
     ret state))))))))"

definition read_status :: "'x env \<Rightarrow> json \<Rightarrow> string \<Rightarrow> json \<Rightarrow> ('x world, json) prog" where
  "read_status e policy action response =
     bindM (preflight e policy) (\<lambda>_.
     bindM (existsM (HROOT @ [''status.json''])) (\<lambda>x.
     bindM (if x then bindM (readM (HROOT @ [''status.json''])) (\<lambda>raw. liftE (decode raw))
            else ret (JObj [(''stage'', JStr ''enrolled'')])) (\<lambda>state.
     bindM (liftE (get_default state ''release_id'' JNull)) (\<lambda>active.
     bindM (if truthy active then active_state e policy action active else ret state) (\<lambda>s.
     ret (merged response s))))))"

section \<open>Staging a release\<close>

text \<open>\<^verbatim>\<open>os.rename\<close> of a directory to a name that is free, and the removal of the temporary directory.\<close>

definition move_tree :: "path \<Rightarrow> path \<Rightarrow> fsys \<Rightarrow> fsys" where
  "move_tree src dst fs = (\<lambda>p.
     if is_prefix dst p then fs (src @ drop (length dst) p)
     else if is_prefix src p then None else fs p)"

definition renameM :: "path \<Rightarrow> path \<Rightarrow> ('x world, unit) prog" where
  "renameM src dst w =
     (if files w src = None \<or> files w dst \<noteq> None \<or> \<not> is_dir_at (files w) (butlast dst) then (Inl OSError, w)
      else (Inr (), set_files (move_tree src dst (files w)) w))"

definition remove_tree :: "path \<Rightarrow> ('x world, unit) prog" where
  "remove_tree d = modifyM (\<lambda>w. set_files (\<lambda>p. if is_prefix d p then None else files w p) w)"

definition stage_reply_of :: "json \<Rightarrow> string \<Rightarrow> string \<Rightarrow> json" where
  "stage_reply_of response rid fingerprint = merged response
     (JObj [(''release_id'', JStr rid), (''fingerprint'', JStr fingerprint), (''stage'', JStr ''staged'')])"

definition place_release :: "'x env \<Rightarrow> path \<Rightarrow> string \<Rightarrow> string \<Rightarrow> ('x world, unit) prog" where
  "place_release e incoming rid fingerprint =
     bindM (mkdirM (HROOT @ [''releases'']) 448 True) (\<lambda>_.
     bindM (existsM (release_dir rid)) (\<lambda>x.
     if x then
       bindM (digestM (sha256 e) (release_dir rid @ [''manifest.json''])) (\<lambda>existing.
       requireM (existing = fingerprint) ''release-id-reused'' 78 (ret ()))
     else renameM incoming (release_dir rid)))"

definition receive_release :: "'x env \<Rightarrow> path \<Rightarrow> json \<Rightarrow> string \<Rightarrow> ('x world, json) prog" where
  "receive_release e temporary response archive =
     bindM (liftE (idx response ''host'')) (\<lambda>h.
     bindM (getsM (clock e)) (\<lambda>now.
     let incoming = temporary @ [''release''] in
     bindM (unpack (sha256 e) (tar e) (cmd e) (path_text (temporary @ [''.verify'', ''signature''])) [archive] incoming
         SIGNERS (path_text SIGNERS) (Some h) now None (Some 0)) (\<lambda>(manifest, fingerprint).
     requireM (has_key (jget manifest ''files'') ''payload/host.py'') ''missing-host-entrypoint'' 78 (
     let rid = str_of (jget manifest ''release_id'') in
     bindM (place_release e incoming rid fingerprint) (\<lambda>_.
     bindM (atomicM (binding_path rid) (canonical (JObj [(''fingerprint'', JStr fingerprint)]))) (\<lambda>_.
     ret (stage_reply_of response rid fingerprint)))))))"

definition stage_release :: "'x env \<Rightarrow> json \<Rightarrow> string \<Rightarrow> ('x world, json) prog" where
  "stage_release e response archive =
     bindM (getsM (\<lambda>w. HROOT @ [''.incoming-'' @ fresh e w])) (\<lambda>temporary.
     bindM (mkdirM temporary 448 False) (\<lambda>_.
     finallyM (receive_release e temporary response archive) (remove_tree temporary)))"

section \<open>Operations on a bound release\<close>

datatype dispatch_reply = Reply json | Stream string

definition bound_state :: "string \<Rightarrow> ('x world, json) prog" where
  "bound_state rid =
     (let p = HROOT @ [rid @ ''.state.json''] in
      bindM (existsM p) (\<lambda>x.
      bindM (if x then bindM (readM p) (\<lambda>raw. liftE (decode raw)) else ret new_state) (\<lambda>state.
      liftE (idx state ''phase''))))"

definition run_release :: "'x env \<Rightarrow> json \<Rightarrow> string \<Rightarrow> string \<Rightarrow> json \<Rightarrow> ('x world, json) prog" where
  "run_release e message rid action response =
     bindM (runM (cmd e) (host_args rid action)
       (if action \<in> set [''credential'', ''backup-verified''] then Some (canonical message) else None)) (\<lambda>raw.
     bindM (liftE (decode raw)) (\<lambda>result.
     requireM (is_dict result \<and> jget result ''ok'' = JBool True) ''release-operation-failed'' 78 (
     requireM (subset_list (keys_of result) [''ok'', ''stage'', ''release_id'', ''recovery'', ''snapshot_sha256''])
       ''unsafe-release-response'' 78 (
     bindM (atomicM (HROOT @ [''status.json'']) (canonical result)) (\<lambda>_.
     ret (merged response result))))))"

definition bound_operation :: "'x env \<Rightarrow> json \<Rightarrow> json \<Rightarrow> string \<Rightarrow> json \<Rightarrow> ('x world, dispatch_reply) prog" where
  "bound_operation e policy message action response =
     (let v = jget message ''release_id'' in
      requireM (is_str v \<and> release_id_ok (str_of v)) ''invalid-release-id'' 64 (
      let rid = str_of v in
      bindM (load_binding rid) (\<lambda>binding.
      bindM (liftE (idx binding ''fingerprint'')) (\<lambda>fp.
      requireM (py_eq (jget message ''fingerprint'') fp) ''release-binding-mismatch'' 78 (
      bindM (liftE (idx policy ''host'')) (\<lambda>h.
      bindM (verify_tree e (release_dir rid) h fp) (\<lambda>_.
      if action = ''bound'' then
        bindM (bound_state rid) (\<lambda>phase.
        ret (Reply (merged response (JObj [(''release_id'', v), (''fingerprint'', fp), (''stage'', phase)]))))
      else if action = ''backup'' then
        bindM (read_protectedM (HROOT @ [rid @ ''.snapshot.tar'']) (Some 0)) (\<lambda>c. ret (Stream c))
      else bindM (run_release e message rid action response) (\<lambda>r. ret (Reply r)))))))))"

definition needs_window :: "string \<Rightarrow> bool" where
  "needs_window action \<longleftrightarrow> action \<notin> set [''status'', ''check'', ''bound'', ''rollback'', ''backup'']"

definition window_reserve :: "string \<Rightarrow> int" where
  "window_reserve action = (if action \<in> set [''deploy'', ''upgrade''] then 0 else 1800)"

definition serve_request :: "'x env \<Rightarrow> json \<Rightarrow> json \<Rightarrow> string \<Rightarrow> json \<Rightarrow> string \<Rightarrow> ('x world, dispatch_reply) prog" where
  "serve_request e policy message action response rest =
     (if action \<in> set [''status'', ''check''] then
        bindM (read_status e policy action response) (\<lambda>r. ret (Reply r))
      else
        bindM (getsM (wall e)) (\<lambda>now.
        requireM (if needs_window action then maintenance_open now (window_reserve action) else True)
          ''outside-maintenance-window'' 75 (
        lockM (HROOT @ [''target.lock''])
          (if action = ''stage'' then bindM (stage_release e response rest) (\<lambda>r. ret (Reply r))
           else bound_operation e policy message action response))))"

definition dispatch :: "'x env \<Rightarrow> string \<Rightarrow> ('x world, dispatch_reply) prog" where
  "dispatch e input =
     bindM (enrollment e) (\<lambda>policy.
     bindM (liftE (parse_request input)) (\<lambda>(message, action).
     bindM (liftE (response_of policy)) (\<lambda>response.
     serve_request e policy message action response (drop (length (header_line input)) input))))"

end
