(* ===== verification/Credentials.thy ===== *)
theory Credentials
  imports Common
begin

text \<open>
  \<^verbatim>\<open>scripts/hermes/unattended/credentials.py\<close>: the credential broker. A lease has a record file and an
  encrypted credential; the provider is reached through \<open>http\<close>, a parameter that answers a request with
  a status and a body or fails.
\<close>

section \<open>The provider\<close>

type_synonym 'x http = "string \<Rightarrow> string \<Rightarrow> json option \<Rightarrow> string option \<Rightarrow> 'x world \<Rightarrow> (int \<times> string) option \<times> 'x world"

definition api_result :: "int \<Rightarrow> string \<Rightarrow> json res" where
  "api_result status raw =
     requireE (int (length raw) \<le> 1024 * 1024) ''provider-response-too-large'' 69 (
     if status = 401 then Inr (JObj [(''unauthorized'', JBool True)])
     else requireE (200 \<le> status \<and> status < 300) ''provider-administration-failed'' 69 (decode raw))"

definition call :: "'x http \<Rightarrow> string \<Rightarrow> string \<Rightarrow> json option \<Rightarrow> string option \<Rightarrow> ('x world, json) prog" where
  "call http meth route body token w =
     (case http meth (''/v1/'' @ route) body token w of
        (None, w') \<Rightarrow> (Inl OSError, w')
      | (Some (status, raw), w') \<Rightarrow> (api_result status raw, w'))"

text \<open>\<^verbatim>\<open>value.get(key)\<close>, which only a dictionary has.\<close>

definition getE :: "json \<Rightarrow> string \<Rightarrow> json res" where
  "getE v k = (if is_dict v then Inr (jget v k) else Inl AttributeError)"

section \<open>The policy\<close>

definition POLICY_FIELDS :: "string list" where
  "POLICY_FIELDS = [''test_project'', ''production_project'', ''test_uid'', ''production_uid'']"

definition project_char :: "char \<Rightarrow> bool" where
  "project_char c \<longleftrightarrow> is_alnum c \<or> c \<in> set ''_-''"

definition project_ok :: "json \<Rightarrow> bool" where
  "project_ok v \<longleftrightarrow> is_str v \<and> match_prefixed ''proj_'' (match_plus project_char) (str_of v)"

definition production_disabled :: "json \<Rightarrow> bool" where
  "production_disabled policy \<longleftrightarrow> jget policy ''production_project'' = JNull \<and> jget policy ''production_uid'' = JNull"

definition broker_policy :: "json \<Rightarrow> json res" where
  "broker_policy policy =
     requireE (fields_are policy POLICY_FIELDS) ''invalid-broker-policy'' 78 (
     let disabled = production_disabled policy; tu = jget policy ''test_uid''; pu = jget policy ''production_uid'' in
     requireE (project_ok (jget policy ''test_project'')) ''invalid-broker-project'' 78 (
     requireE (disabled \<or> project_ok (jget policy ''production_project'')) ''invalid-broker-project'' 78 (
     requireE (\<not> py_eq (jget policy ''test_project'') (jget policy ''production_project''))
       ''projects-must-be-separated'' 78 (
     requireE (is_int tu \<and> 0 < int_of tu \<and> (disabled \<or> is_int pu \<and> 0 < int_of pu \<and> tu \<noteq> pu))
       ''broker-roles-must-be-separated'' 78 (Inr policy)))))"

section \<open>Secrets and records\<close>

definition record_path :: "path \<Rightarrow> string \<Rightarrow> path" where
  "record_path st lease = st @ [lease @ ''.json'']"

definition cred_path :: "path \<Rightarrow> string \<Rightarrow> path" where
  "cred_path st lease = st @ [lease @ ''.cred'']"

definition store_secret :: "'x commands \<Rightarrow> path \<Rightarrow> string \<Rightarrow> string \<Rightarrow> ('x world, unit) prog" where
  "store_secret cmd st lease v =
     bindM (runM cmd [''systemd-creds'', ''encrypt'', ''--user'', ''--name=api-key'', ''-'', ''-''] (Some v))
       (\<lambda>enc. atomicM (cred_path st lease) enc)"

definition load_secret :: "'x commands \<Rightarrow> path \<Rightarrow> string \<Rightarrow> ('x world, string) prog" where
  "load_secret cmd st lease =
     bindM (runM cmd [''systemd-creds'', ''decrypt'', ''--user'', ''--name=api-key'',
                      ''/'' @ join_with ''/'' (cred_path st lease), ''-''] None)
       (\<lambda>raw. if utf8_dec raw = None then raiseM ValueError else ret (strip raw))"

definition save_record :: "path \<Rightarrow> string \<Rightarrow> json \<Rightarrow> ('x world, unit) prog" where
  "save_record st lease r = atomicM (record_path st lease) (canonical r)"

definition load_record :: "path \<Rightarrow> string \<Rightarrow> ('x world, json option) prog" where
  "load_record st lease w =
     (if exists_at (files w) (record_path st lease)
      then (map_sum id Some (bindE (read_bytes (files w) (record_path st lease)) decode), w)
      else (Inr None, w))"

definition lease_ok :: "json \<Rightarrow> bool" where
  "lease_ok v \<longleftrightarrow> is_str v \<and> match_count is_hex 32 (str_of v)"

definition account_ok :: "json \<Rightarrow> bool" where
  "account_ok v \<longleftrightarrow> is_str v \<and> match_plus project_char (str_of v)"

definition key_ok :: "json \<Rightarrow> bool" where
  "key_ok v \<longleftrightarrow> is_str v \<and> str_of v \<noteq> [] \<and> \<not> has_line_break_or_nul (str_of v)"

definition ok_key :: "string \<Rightarrow> string \<Rightarrow> json" where
  "ok_key lease v = JObj [(''ok'', JBool True), (''lease'', JStr lease), (''key'', JStr v)]"

definition ok_revoked :: "string \<Rightarrow> json" where
  "ok_revoked lease = JObj [(''ok'', JBool True), (''lease'', JStr lease), (''revoked'', JBool True)]"

section \<open>The operations\<close>

definition accounts_route :: "string \<Rightarrow> string" where
  "accounts_route project = ''organization/projects/'' @ project @ ''/service_accounts''"

text \<open>\<open>issue\<close>: a new record is written before the network is touched, and again with the account.\<close>

definition new_record :: "string \<Rightarrow> string \<Rightarrow> int \<Rightarrow> json" where
  "new_record role lease now = JObj [(''role'', JStr role), (''state'', JStr ''issuing''),
     (''name'', JStr (''hermes-'' @ lease)), (''created_at'', JInt now)]"

definition issue_new ::
    "'x http \<Rightarrow> 'x commands \<Rightarrow> path \<Rightarrow> int \<Rightarrow> string \<Rightarrow> string \<Rightarrow> string \<Rightarrow> ('x world, json) prog" where
  "issue_new http cmd st now role lease route =
     (let r0 = new_record role lease now in
      bindM (save_record st lease r0) (\<lambda>_.
      bindM (call http ''POST'' route (Some (JObj [(''name'', jget r0 ''name'')])) None) (\<lambda>result.
      bindM (liftE (getE result ''id'')) (\<lambda>ident.
      requireM (account_ok ident) ''invalid-service-account-response'' 78 (
      let r1 = jset r0 ''account_id'' ident in
      bindM (save_record st lease r1) (\<lambda>_.
      bindM (liftE (if has_key result ''api_key'' then getE (jget result ''api_key'') ''value'' else Inr JNull)) (\<lambda>v.
      requireM (key_ok v) ''missing-service-account-key'' 78 (
      bindM (store_secret cmd st lease (str_of v)) (\<lambda>_.
      bindM (save_record st lease (jset r1 ''state'' (JStr ''ready''))) (\<lambda>_.
      ret (ok_key lease (str_of v))))))))))))"

definition issue_again :: "'x commands \<Rightarrow> path \<Rightarrow> string \<Rightarrow> json \<Rightarrow> ('x world, json) prog" where
  "issue_again cmd st lease r =
     bindM (liftE (idx r ''state'')) (\<lambda>s.
     requireM (s = JStr ''ready'') ''lease-needs-reconciliation'' 75 (
     bindM (load_secret cmd st lease) (\<lambda>v. ret (ok_key lease v))))"

definition read_lease :: "'x commands \<Rightarrow> path \<Rightarrow> string \<Rightarrow> json \<Rightarrow> ('x world, json) prog" where
  "read_lease cmd st lease r =
     bindM (liftE (idx r ''state'')) (\<lambda>s.
     requireM (s = JStr ''ready'') ''lease-not-ready'' 75 (
     bindM (load_secret cmd st lease) (\<lambda>v. ret (ok_key lease v))))"

text \<open>\<open>revoke\<close>: the account is deleted once, and only the answer 401 to its own key proves the revocation.\<close>

definition delete_account ::
    "'x http \<Rightarrow> path \<Rightarrow> string \<Rightarrow> string \<Rightarrow> json \<Rightarrow> ('x world, json) prog" where
  "delete_account http st lease route r =
     (if jget r ''state'' = JStr ''deleted'' then ret r
      else if \<not> is_str (jget r ''account_id'') then raiseM TypeError
      else bindM (call http ''DELETE'' (route @ ''/'' @ str_of (jget r ''account_id'')) None None) (\<lambda>result.
           bindM (liftE (getE result ''deleted'')) (\<lambda>d.
           requireM (d = JBool True) ''service-account-deletion-unconfirmed'' 69 (
           let r' = jset r ''state'' (JStr ''deleted'') in
           bindM (save_record st lease r') (\<lambda>_. ret r')))))"

definition remove_cred :: "path \<Rightarrow> string \<Rightarrow> ('x world, unit) prog" where
  "remove_cred st lease w = (Inr (), w\<lparr>files := (files w)(cred_path st lease := None)\<rparr>)"

definition revoke_lease ::
    "'x http \<Rightarrow> 'x commands \<Rightarrow> path \<Rightarrow> string \<Rightarrow> string \<Rightarrow> json \<Rightarrow> ('x world, json) prog" where
  "revoke_lease http cmd st lease route r =
     bindM (liftE (idx r ''state'')) (\<lambda>s.
     if s = JStr ''revoked'' then ret (ok_revoked lease)
     else requireM (has_key r ''account_id'') ''lease-needs-reconciliation'' 75 (
       bindM (load_secret cmd st lease) (\<lambda>key.
       bindM (delete_account http st lease route r) (\<lambda>r'.
       bindM (call http ''GET'' ''models'' None (Some key)) (\<lambda>probe.
       bindM (liftE (getE probe ''unauthorized'')) (\<lambda>u.
       requireM (u = JBool True) ''credential-revocation-unverified'' 69 (
       bindM (save_record st lease (jset r' ''state'' (JStr ''revoked''))) (\<lambda>_.
       bindM (remove_cred st lease) (\<lambda>_. ret (ok_revoked lease))))))))))"

definition check_provider :: "'x http \<Rightarrow> string \<Rightarrow> string \<Rightarrow> ('x world, json) prog" where
  "check_provider http route role =
     bindM (call http ''GET'' route None None) (\<lambda>result.
     bindM (liftE (getE result ''data'')) (\<lambda>d.
     requireM (is_list d) ''provider-administration-unavailable'' 69 (
     ret (JObj [(''ok'', JBool True), (''role'', JStr role)]))))"

definition with_record ::
    "'x http \<Rightarrow> 'x commands \<Rightarrow> path \<Rightarrow> int \<Rightarrow> string \<Rightarrow> string \<Rightarrow> string \<Rightarrow> string \<Rightarrow> json option \<Rightarrow> ('x world, json) prog" where
  "with_record http cmd st now op role lease route rec =
     bindM (liftE (case rec of None \<Rightarrow> Inr ()
         | Some r \<Rightarrow> if truthy r then bindE (idx r ''role'') (\<lambda>x.
             requireE (x = JStr role) ''lease-role-mismatch'' 77 (Inr ())) else Inr ())) (\<lambda>_.
     if op = ''issue'' then
       (case rec of
          None \<Rightarrow> issue_new http cmd st now role lease route
        | Some r \<Rightarrow> if truthy r then issue_again cmd st lease r else issue_new http cmd st now role lease route)
     else (case rec of
          None \<Rightarrow> raiseM (Failure 66 ''unknown-lease'')
        | Some r \<Rightarrow> if r = JNull then raiseM (Failure 66 ''unknown-lease'')
            else if op = ''read'' then read_lease cmd st lease r
            else revoke_lease http cmd st lease route r))"

definition request_check :: "json \<Rightarrow> int \<Rightarrow> json \<Rightarrow> (string \<times> string \<times> string) res" where
  "request_check policy uid message =
     requireE (fields_are message [''operation'', ''role'', ''lease'']) ''invalid-broker-request'' 64 (
     let role = jget message ''role''; op = jget message ''operation''; lease = jget message ''lease'' in
     requireE (role = JStr ''test'' \<or> role = JStr ''production'') ''invalid-broker-role'' 64 (
     let r = str_of role in
     requireE (jget policy (r @ ''_project'') \<noteq> JNull \<and> jget policy (r @ ''_uid'') \<noteq> JNull)
       ''broker-role-disabled'' 77 (
     requireE (py_eq (JInt uid) (jget policy (r @ ''_uid''))) ''broker-peer-denied'' 77 (
     requireE (is_str op \<and> str_of op \<in> set [''check'', ''issue'', ''read'', ''revoke'']) ''invalid-broker-operation'' 64 (
     requireE (lease_ok lease) ''invalid-lease'' 64 (
     Inr (r, str_of op, str_of lease)))))))"

definition handle ::
    "'x http \<Rightarrow> 'x commands \<Rightarrow> json \<Rightarrow> path \<Rightarrow> int \<Rightarrow> int \<Rightarrow> json \<Rightarrow> ('x world, json) prog" where
  "handle http cmd policy st now uid message =
     bindM (liftE (request_check policy uid message)) (\<lambda>(role, op, lease).
     let route = accounts_route (str_of (jget policy (role @ ''_project''))) in
     if op = ''check'' then check_provider http route role
     else lockM (st @ [''broker.lock''])
       (bindM (load_record st lease) (with_record http cmd st now op role lease route)))"

text \<open>
  One connection of the server: the frame is bounded and complete, and any failure gives one answer
  that does not depend on it. An exception outside the list ends the connection without an answer.
\<close>

definition serve_frame ::
    "'x http \<Rightarrow> 'x commands \<Rightarrow> json \<Rightarrow> path \<Rightarrow> int \<Rightarrow> int \<Rightarrow> string \<Rightarrow> ('x world, string) prog" where
  "serve_frame http cmd policy st now uid raw =
     bindM (catchM
       (requireM (int (length raw) \<le> 65536 \<and> endswith raw [newline]) ''invalid-broker-frame'' 64
         (bindM (liftE (decode raw)) (handle http cmd policy st now uid)))
       (\<lambda>e. case e of
          Failure c r \<Rightarrow> ret (error_json ''credential-operation-failed'')
        | _ \<Rightarrow> if e \<in> set [OSError, ValueError, KeyError, TypeError]
               then ret (error_json ''credential-operation-failed'') else raiseM e))
     (\<lambda>response. ret (canonical response))"

definition client_result :: "string \<Rightarrow> json res" where
  "client_result raw =
     requireE (int (length raw) \<le> 65536) ''broker-response-too-large'' 78 (
     bindE (decode raw) (\<lambda>result. bindE (getE result ''ok'') (\<lambda>ok.
     requireE (ok = JBool True) ''credential-broker-rejected'' 69 (Inr result))))"

end
