(* ===== verification/Controller.thy ===== *)
theory Controller
  imports Dispatcher Credentials
begin

text \<open>
  \<^verbatim>\<open>scripts/hermes/unattended/controller.py\<close>: the operator's side of a release. It asks the dispatcher of
  the enrolled host over \<^verbatim>\<open>ssh\<close>, keeps one state file per target and drives a release until the host
  reports it closed. The state dictionary is the memory of the process: \<^verbatim>\<open>converge\<close>, \<^verbatim>\<open>finish\<close> and the
  handler of \<^verbatim>\<open>main\<close> share it.
\<close>

section \<open>What the controller relies on\<close>

text \<open>
  The monotonic clock in seconds, the exchange of one frame with the socket of the credential broker,
  the programs on the path, and the next random identifier.
\<close>

record 'x peers =
  mono :: "'x world \<Rightarrow> int"
  exchange :: "string \<Rightarrow> string \<Rightarrow> 'x world \<Rightarrow> string res \<times> 'x world"
  which :: "string \<Rightarrow> 'x world \<Rightarrow> bool"
  uuid :: "'x world \<Rightarrow> string"

text \<open>\<^verbatim>\<open>credentials.client\<close>\<close>

definition credential_frame :: "string \<Rightarrow> string \<Rightarrow> json \<Rightarrow> string" where
  "credential_frame operation role lease = canonical (JObj
     [(''operation'', JStr operation), (''role'', JStr role), (''lease'', lease)])"

definition credential_request :: "'x peers \<Rightarrow> json \<Rightarrow> string \<Rightarrow> json \<Rightarrow> ('x world, json) prog" where
  "credential_request k config operation lease =
     bindM (exchange k (cfg config ''credential_socket'') (credential_frame operation ''production'' lease)) (\<lambda>raw.
     liftE (client_result (header_line raw)))"

text \<open>A program with a memory of its own, \<open>m\<close> at its start.\<close>

definition inside :: "'m \<Rightarrow> ('m, 'x, 'a) process \<Rightarrow> ('x world, 'a) prog" where
  "inside m p w = (case p (m, w) of (r, s) \<Rightarrow> (r, snd s))"

text \<open>\<^verbatim>\<open>state.pop(key)\<close> of a key that is there.\<close>

definition pop_key :: "string \<Rightarrow> json \<Rightarrow> json" where
  "pop_key k v = JObj (filter (\<lambda>(a, _). a \<noteq> k) (items_of v))"

section \<open>Requests\<close>

definition dispatch_message :: "string \<Rightarrow> (string \<times> json) list \<Rightarrow> json" where
  "dispatch_message action values =
     JObj ([(''schema'', JStr ''hermes-dispatch-v1''), (''action'', JStr action)] @ values)"

definition dispatch_request :: "'x env \<Rightarrow> json \<Rightarrow> string \<Rightarrow> (string \<times> json) list \<Rightarrow> ('x world, json) prog" where
  "dispatch_request e config action values =
     bindM (runM (cmd e) (ssh_options config) (Some (canonical (dispatch_message action values)))) (\<lambda>raw.
     bindM (liftE (decode raw)) (\<lambda>response.
     requireM (is_dict response \<and> jget response ''ok'' = JBool True) ''remote-operation-rejected'' 78 (
     requireM (py_eq (jget response ''host'') (jget config ''host'')) ''wrong-host'' 78 (ret response))))"

definition fetch_backup :: "'x env \<Rightarrow> json \<Rightarrow> path \<Rightarrow> (string \<times> json) list \<Rightarrow> ('x world, unit) prog" where
  "fetch_backup e config destination binding =
     bindM (createM destination [] 384) (\<lambda>_.
     streamM destination (cmd e) (ssh_options config) (Some (canonical (dispatch_message ''backup'' binding))))"

definition upload :: "'x env \<Rightarrow> json \<Rightarrow> path \<Rightarrow> ('x world, json) prog" where
  "upload e config archive =
     bindM (readM archive) (\<lambda>source w.
     case cmd e (ssh_options config) (Some (canonical (dispatch_message ''stage'' []) @ source)) w of
       (Unavailable, w') \<Rightarrow> (Inl OSError, w')
     | (TimedOut, w') \<Rightarrow> (Inl (Failure 69 ''release-upload-timeout''), w')
     | (Exited rc out, w') \<Rightarrow>
         (requireE (rc = 0) ''release-upload-failed'' 69 (
          bindE (decode out) (\<lambda>response.
          if \<not> is_dict response then Inl AttributeError
          else requireE (jget response ''ok'' = JBool True \<and> py_eq (jget response ''host'') (jget config ''host''))
            ''release-upload-rejected'' 78 (Inr response))), w'))"

section \<open>Convergence\<close>

definition save_state :: "path \<Rightarrow> (json, 'x, unit) process" where
  "save_state p = bindM recall (\<lambda>st. outside (atomicM p (canonical st)))"

definition set_key :: "string \<Rightarrow> json \<Rightarrow> (json, 'x, unit) process" where
  "set_key key v = remember (\<lambda>st. jset st key v)"

text \<open>\<^verbatim>\<open>finish\<close>: the lease that the previous release used is revoked, and old backups are forgotten.\<close>

definition drop_previous :: "'x peers \<Rightarrow> json \<Rightarrow> path \<Rightarrow> (json, 'x, unit) process" where
  "drop_previous k config p =
     bindM recall (\<lambda>st.
     let previous = jget st ''previous_lease'' in
     if truthy previous \<and> \<not> py_eq previous (jget st ''lease'') then
       bindM (outside (credential_request k config ''revoke'' previous)) (\<lambda>_.
       bindM (remember (pop_key ''previous_lease'')) (\<lambda>_. save_state p))
     else ret ())"

definition with_snapshot :: "json \<Rightarrow> json \<Rightarrow> json res" where
  "with_snapshot history snapshot =
     (if \<not> is_list history then Inl TypeError
      else Inr (if list_ex (py_eq snapshot) (list_of history) then history else JList (list_of history @ [snapshot])))"

definition retire_backups :: "'x env \<Rightarrow> json \<Rightarrow> path \<Rightarrow> (json, 'x, unit) process" where
  "retire_backups e config p =
     bindM recall (\<lambda>st.
     if truthy (jget st ''backup'') then
       bindM (liftE (idx (jget st ''backup'') ''snapshot'')) (\<lambda>snapshot.
       bindM (liftE (with_snapshot (if has_key st ''backup_history'' then jget st ''backup_history'' else JList []) snapshot)) (\<lambda>history.
       bindM (set_key ''backup_history'' history) (\<lambda>_.
       bindM (outside (retain_backups (cmd e) history (str_of snapshot) config)) (\<lambda>kept.
       bindM (set_key ''backup_history'' (JList (map JStr kept))) (\<lambda>_. save_state p)))))
     else ret ())"

definition finish :: "'x env \<Rightarrow> 'x peers \<Rightarrow> json \<Rightarrow> path \<Rightarrow> json \<Rightarrow> (json, 'x, json) process" where
  "finish e k config p result =
     bindM (drop_previous k config p) (\<lambda>_. bindM (retire_backups e config p) (\<lambda>_. ret result))"

text \<open>
  The loop until the deadline: one request a round, and a failed one is only tried again while the
  state says that a reboot is pending. \<open>n\<close> bounds the number of rounds.
\<close>

definition PENDING :: "string list" where "PENDING = [''reboot-pending'', ''persistence-reboot'']"

definition ask :: "'x env \<Rightarrow> json \<Rightarrow> string \<Rightarrow> (string \<times> json) list \<Rightarrow> (json, 'x, json option) process" where
  "ask e config operation binding =
     catchM (bindM (outside (dispatch_request e config operation binding)) (\<lambda>r. ret (Some r)))
       (\<lambda>x. if is_failure x
            then bindM recall (\<lambda>st. if in_phases (jget st ''stage'') PENDING then ret None else raiseM x)
            else raiseM x)"

fun drive :: "nat \<Rightarrow> 'x env \<Rightarrow> 'x peers \<Rightarrow> json \<Rightarrow> (string \<times> json) list \<Rightarrow> path \<Rightarrow> string \<Rightarrow> int \<Rightarrow> (json, 'x, json) process" where
  "drive n e k config binding p operation deadline =
     (if n = 0 then raiseM OutOfFuel
      else bindM (outside (getsM (mono k))) (\<lambda>t.
        if t < deadline then
          bindM (ask e config operation binding) (\<lambda>answer. case answer of
            None \<Rightarrow> bindM (outside (pauseM e 10)) (\<lambda>_. drive (n - 1) e k config binding p operation deadline)
          | Some result \<Rightarrow>
              bindM (remember (\<lambda>st. merged st result)) (\<lambda>_.
              bindM (save_state p) (\<lambda>_.
              bindM (liftE (idx result ''stage'')) (\<lambda>stage.
              if stage = JStr ''closed'' then finish e k config p result
              else requireM (in_phases stage PENDING) ''release-needs-recovery'' 75 (
                bindM (outside (pauseM e 10)) (\<lambda>_. drive (n - 1) e k config binding p operation deadline))))))
        else raiseM (Failure 69 ''reboot-recovery-required'')))"

declare drive.simps [simp del]

definition pull_snapshot :: "'x env \<Rightarrow> json \<Rightarrow> (string \<times> json) list \<Rightarrow> string \<Rightarrow> ('x world, json) prog" where
  "pull_snapshot e config binding rid =
     bindM (dispatch_request e config ''snapshot'' binding) (\<lambda>snapshot.
     bindM (getsM (\<lambda>w. [''dev'', ''shm'', ''hermes-backup-'' @ fresh e w])) (\<lambda>temporary.
     bindM (mkdirM temporary 448 False) (\<lambda>_.
     finallyM
       (let source = temporary @ [''hermes.tar''] in
        bindM (fetch_backup e config source binding) (\<lambda>_.
        bindM (digestM (sha256 e) source) (\<lambda>d.
        bindM (liftE (idx snapshot ''snapshot_sha256'')) (\<lambda>expected.
        requireM (JStr d = expected) ''snapshot-transport-mismatch'' 78 (
        backup_snapshot (sha256 e) (cmd e) source config rid)))))
       (remove_tree temporary))))"

definition back_up :: "'x env \<Rightarrow> json \<Rightarrow> (string \<times> json) list \<Rightarrow> string \<Rightarrow> path \<Rightarrow> (json, 'x, unit) process" where
  "back_up e config binding rid p =
     bindM (outside (pull_snapshot e config binding rid)) (\<lambda>receipt.
     bindM (set_key ''backup'' receipt) (\<lambda>_.
     bindM (save_state p) (\<lambda>_.
     bindM (outside (dispatch_request e config ''backup-verified''
       (binding @ [(''backup_snapshot'', jget receipt ''snapshot''), (''snapshot_sha256'', jget receipt ''sha256'')]))) (\<lambda>_.
     ret ()))))"

definition give_credential :: "'x env \<Rightarrow> 'x peers \<Rightarrow> json \<Rightarrow> (string \<times> json) list \<Rightarrow> path \<Rightarrow> (json, 'x, unit) process" where
  "give_credential e k config binding p =
     bindM recall (\<lambda>st.
     bindM (if has_key st ''lease'' then ret ()
            else bindM (outside (getsM (uuid k))) (\<lambda>u.
              bindM (set_key ''lease'' (JStr u)) (\<lambda>_. save_state p))) (\<lambda>_.
     bindM recall (\<lambda>st'.
     bindM (outside (credential_request k config ''issue'' (jget st' ''lease''))) (\<lambda>secret.
     bindM (liftE (idx secret ''key'')) (\<lambda>key.
     bindM (outside (dispatch_request e config ''credential'' (binding @ [(''key'', key)]))) (\<lambda>_. ret ()))))))"

definition binding_of :: "json \<Rightarrow> string \<Rightarrow> (string \<times> json) list" where
  "binding_of manifest fingerprint =
     [(''release_id'', jget manifest ''release_id''), (''fingerprint'', JStr fingerprint)]"

definition converge ::
    "nat \<Rightarrow> 'x env \<Rightarrow> 'x peers \<Rightarrow> json \<Rightarrow> json \<Rightarrow> string \<Rightarrow> path \<Rightarrow> string \<Rightarrow> (json, 'x, json) process" where
  "converge n e k config manifest fingerprint p operation =
     (let binding = binding_of manifest fingerprint; rid = str_of (jget manifest ''release_id'') in
      bindM (outside (dispatch_request e config ''bound'' binding)) (\<lambda>remote.
      bindM (liftE (idx remote ''stage'')) (\<lambda>phase.
      if operation = ''rollback'' then
        bindM (outside (dispatch_request e config ''rollback'' binding)) (\<lambda>result.
        bindM recall (\<lambda>st.
        bindM (outside (atomicM p (canonical (merged st result)))) (\<lambda>_. ret result)))
      else if phase = JStr ''closed'' then
        bindM (outside (dispatch_request e config operation binding)) (finish e k config p)
      else
        bindM (if in_phases phase [''new'', ''snapshot-ready'']
               then bindM (back_up e config binding rid p) (\<lambda>_. ret (JStr ''backup-verified'')) else ret phase) (\<lambda>phase.
        bindM (if phase = JStr ''backup-verified'' then give_credential e k config binding p else ret ()) (\<lambda>_.
        bindM (outside (getsM (mono k))) (\<lambda>t.
        drive n e k config binding p operation (t + 3000)))))))"

section \<open>The command\<close>

definition RESTORABLE :: "string list" where
  "RESTORABLE = [''new'', ''snapshot-creating'', ''snapshot-ready'', ''backup-verified'', ''credential-ready'', ''rolled-back'']"

text \<open>The handler of \<^verbatim>\<open>main\<close>: a release that has not staged packages is rolled back, any other is left alone.\<close>

definition recover :: "'x env \<Rightarrow> 'x peers \<Rightarrow> json \<Rightarrow> json \<Rightarrow> string \<Rightarrow> path \<Rightarrow> (json, 'x, unit) process" where
  "recover e k config manifest fingerprint p =
     (let binding = binding_of manifest fingerprint in
      bindM (outside (dispatch_request e config ''bound'' binding)) (\<lambda>remote.
      bindM (liftE (idx remote ''stage'')) (\<lambda>phase.
      bindM (if in_phases phase RESTORABLE then
          bindM (outside (dispatch_request e config ''rollback'' binding)) (\<lambda>recovery.
          bindM (liftE (idx recovery ''stage'')) (\<lambda>stage.
          bindM recall (\<lambda>st.
          bindM (if stage = JStr ''rolled-back'' \<and> truthy (jget st ''lease'')
                 then bindM (outside (credential_request k config ''revoke'' (jget st ''lease''))) (\<lambda>_. ret ())
                 else ret ()) (\<lambda>_.
          remember (\<lambda>st. merged st recovery)))))
        else set_key ''recovery'' (JStr ''operator-required'')) (\<lambda>_.
      save_state p))))"

definition attempt_release ::
    "nat \<Rightarrow> 'x env \<Rightarrow> 'x peers \<Rightarrow> json \<Rightarrow> json \<Rightarrow> string \<Rightarrow> path \<Rightarrow> string \<Rightarrow> (json, 'x, json) process" where
  "attempt_release n e k config manifest fingerprint p operation =
     catchM (converge n e k config manifest fingerprint p operation)
       (\<lambda>x. if is_failure x
            then bindM (exceptM is_failure (recover e k config manifest fingerprint p) (ret ())) (\<lambda>_. raiseM x)
            else raiseM x)"

definition load_state :: "path \<Rightarrow> bool \<Rightarrow> ('x world, json) prog" where
  "load_state p checked =
     bindM (existsM p) (\<lambda>x.
     if x then bindM (if checked then read_protectedM p None else readM p) (\<lambda>raw. liftE (decode raw))
     else ret (JObj []))"

definition fresh_state :: "json \<Rightarrow> string \<Rightarrow> json \<Rightarrow> json" where
  "fresh_state manifest fingerprint prior = JObj
     [(''fingerprint'', JStr fingerprint), (''release_id'', jget manifest ''release_id''),
      (''previous_lease'', jget prior ''lease''),
      (''backup_history'', if has_key prior ''backup_history'' then jget prior ''backup_history'' else JList [])]"

definition release_locked ::
    "nat \<Rightarrow> 'x env \<Rightarrow> 'x peers \<Rightarrow> json \<Rightarrow> json \<Rightarrow> string \<Rightarrow> path \<Rightarrow> path \<Rightarrow> string \<Rightarrow> ('x world, json) prog" where
  "release_locked n e k config manifest fingerprint p archive operation =
     bindM (load_state p True) (\<lambda>prior.
     bindM (dispatch_request e config ''check'' []) (\<lambda>status.
     requireM (jget status ''enrolled'' = JBool True) ''host-not-enrolled'' 78 (
     bindM (liftE (getE prior ''fingerprint'')) (\<lambda>bound.
     bindM (if \<not> py_eq bound (JStr fingerprint) then
         bindM (upload e config archive) (\<lambda>_.
         let st = fresh_state manifest fingerprint prior in
         bindM (atomicM p (canonical st)) (\<lambda>_. ret st))
       else ret prior) (\<lambda>st.
     inside st (attempt_release n e k config manifest fingerprint p operation))))))"

definition state_directory_ok :: "fsys \<Rightarrow> nat \<Rightarrow> path \<Rightarrow> bool" where
  "state_directory_ok fs u d \<longleftrightarrow> \<not> is_link_at fs d \<and>
     (case node_at fs d of None \<Rightarrow> False | Some n \<Rightarrow> node_uid n = u \<and> \<not> open_to_others n)"

definition release_verified ::
    "nat \<Rightarrow> 'x env \<Rightarrow> 'x peers \<Rightarrow> json \<Rightarrow> path \<Rightarrow> string \<Rightarrow> path \<Rightarrow> json \<Rightarrow> path \<Rightarrow> ('x world, json) prog" where
  "release_verified n e k config archive operation temporary prior d =
     bindM (readM archive) (\<lambda>source.
     bindM (getsM (clock e)) (\<lambda>now.
     bindM (liftE (getE prior ''fingerprint'')) (\<lambda>bound.
     bindM (unpack (sha256 e) (tar e) (cmd e) (path_text (temporary @ [''.verify'', ''signature''])) [source]
         (temporary @ [''verified'']) (path_comps (cfg config ''allowed_signers'')) (cfg config ''allowed_signers'')
         (Some (jget config ''host'')) now (if is_str bound then Some (str_of bound) else None) None) (\<lambda>(manifest, fingerprint).
     requireM (py_eq (jget manifest ''provider'') (jget config ''provider'') \<and> py_eq (jget manifest ''model'') (jget config ''model''))
       ''provider-model-mismatch'' 78 (
     bindM (getsM (wall e)) (\<lambda>now.
     requireM (operation = ''rollback'' \<or> maintenance_open now 1800) ''outside-maintenance-window'' 75 (
     bindM (mkdir_allM d 448) (\<lambda>_.
     bindM (getsM (\<lambda>w. state_directory_ok (files w) (euid w) d)) (\<lambda>ok.
     requireM ok ''unsafe-controller-state'' 78 (
     let target = sha256 e (cfg config ''target'') in
     lockM (d @ [target @ ''.lock''])
       (release_locked n e k config manifest fingerprint (d @ [target @ ''.json'']) archive operation)))))))))))"

definition backup_ready :: "'x env \<Rightarrow> 'x peers \<Rightarrow> json \<Rightarrow> ('x world, unit) prog" where
  "backup_ready e k config =
     bindM (protectedM (path_comps (cfg config ''backup_password_file'')) None) (\<lambda>password.
     bindM (statM password) (\<lambda>n.
     requireM (\<not> open_to_others n) ''backup-password-not-private'' 78 (
     bindM (credential_request k config ''check'' (JStr (replicate 32 CHR ''0''))) (\<lambda>_.
     bindM (runM (cmd e) (restic_base config @ [''snapshots'', ''--json'', ''--no-lock'']) None) (\<lambda>_. ret ())))))"

definition controller_main ::
    "nat \<Rightarrow> 'x env \<Rightarrow> 'x peers \<Rightarrow> string \<Rightarrow> path \<Rightarrow> path option \<Rightarrow> ('x world, json) prog" where
  "controller_main n e k command config_path release_path =
     bindM (getsM files) (\<lambda>fs.
     bindM (liftE (load_config fs config_path)) (\<lambda>config.
     if command \<in> set [''check'', ''status''] then
       requireM (release_path = None) ''release-not-valid-for-read-only-command'' 64 (dispatch_request e config command [])
     else
       (case release_path of None \<Rightarrow> raiseM (Failure 64 ''release-required'') | Some archive \<Rightarrow>
        bindM (getsM (\<lambda>w. list_all (\<lambda>c. which k c w) [''ssh'', ''ssh-keygen'', ''restic''])) (\<lambda>found.
        requireM found ''missing-controller-dependency'' 69 (
        bindM (if command \<noteq> ''rollback'' then backup_ready e k config else ret ()) (\<lambda>_.
        let d = path_comps (cfg config ''state_dir'') in
        bindM (load_state (d @ [sha256 e (cfg config ''target'') @ ''.json'']) False) (\<lambda>prior.
        bindM (getsM (\<lambda>w. [''tmp'', ''hermes-release-'' @ fresh e w])) (\<lambda>temporary.
        bindM (mkdirM temporary 448 False) (\<lambda>_.
        finallyM (release_verified n e k config archive command temporary prior d) (remove_tree temporary))))))))))"

end
