(* ===== verification/Signing.thy ===== *)
theory Signing
  imports Fs Gates ReleaseFacts Offline
begin

text \<open>
  \<^verbatim>\<open>scripts/hermes/unattended/finalize.py\<close>, \<^verbatim>\<open>build_release.py\<close> and \<^verbatim>\<open>signer.py\<close>: the certified candidate
  becomes a signed archive. The listing of a directory tree and the writer of the archive are
  parameters; a hard link is a second name with the same contents, owner and mode.
\<close>

section \<open>Files\<close>

record tools =
  entries :: "fsys \<Rightarrow> path \<Rightarrow> path list"
  pack :: "(string \<times> nat \<times> string) list \<Rightarrow> string"

text \<open>\<^verbatim>\<open>shutil.copyfile\<close>, \<^verbatim>\<open>path.write_bytes\<close>, \<^verbatim>\<open>os.link\<close> and \<^verbatim>\<open>os.replace\<close>\<close>

definition write_bytesM :: "path \<Rightarrow> string \<Rightarrow> ('x world, unit) prog" where
  "write_bytesM p c w =
     (case files w p of
        Some (NFile _ m u) \<Rightarrow> (Inr (), set_files ((files w)(p \<mapsto> NFile c m u)) w)
      | Some _ \<Rightarrow> (Inl OSError, w)
      | None \<Rightarrow> if is_dir_at (files w) (butlast p)
                then (Inr (), set_files ((files w)(p \<mapsto> NFile c 420 (euid w))) w) else (Inl OSError, w))"

definition copyfileM :: "path \<Rightarrow> path \<Rightarrow> ('x world, unit) prog" where
  "copyfileM src dst = bindM (readM src) (write_bytesM dst)"

definition linkM :: "path \<Rightarrow> path \<Rightarrow> ('x world, unit) prog" where
  "linkM src dst w =
     (case files w src of
        Some (NFile c m u) \<Rightarrow>
          if files w dst \<noteq> None \<or> \<not> is_dir_at (files w) (butlast dst) then (Inl OSError, w)
          else (Inr (), set_files ((files w)(dst \<mapsto> NFile c m u)) w)
      | _ \<Rightarrow> (Inl OSError, w))"

definition replaceM :: "path \<Rightarrow> path \<Rightarrow> ('x world, unit) prog" where
  "replaceM src dst w =
     (case files w src of
        Some (NFile c m u) \<Rightarrow>
          if (case files w dst of Some n \<Rightarrow> is_dirn n | None \<Rightarrow> False) then (Inl OSError, w)
          else (Inr (), set_files (((files w)(dst \<mapsto> NFile c m u))(src := None)) w)
      | _ \<Rightarrow> (Inl OSError, w))"

text \<open>\<^verbatim>\<open>with tempfile.TemporaryDirectory(prefix=p, dir=d)\<close>: gone when the body returns or raises.\<close>

definition remove_dir :: "path \<Rightarrow> ('x world, unit) prog" where
  "remove_dir d = modifyM (\<lambda>w. set_files (\<lambda>p. if is_prefix d p then None else files w p) w)"

definition temporaryM :: "'x env \<Rightarrow> path \<Rightarrow> string \<Rightarrow> (path \<Rightarrow> ('x world, 'a) prog) \<Rightarrow> ('x world, 'a) prog" where
  "temporaryM e d prefix body =
     bindM (getsM (\<lambda>w. d @ [prefix @ fresh e w])) (\<lambda>t.
     bindM (mkdirM t 448 False) (\<lambda>_. finallyM (body t) (remove_dir t)))"

section \<open>Building the archive\<close>

text \<open>The walk over \<^verbatim>\<open>source.rglob("*")\<close>: no links, no directory that others write, protected files.\<close>

definition source_step :: "fsys \<Rightarrow> path \<Rightarrow> path \<Rightarrow> string list \<Rightarrow> string list res" where
  "source_step fs src rel actual =
     (let p = src @ rel in
      requireE (\<not> is_link_at fs p) ''unsafe-source-link'' 78 (
      case node_at fs p of
        Some (NDir m u) \<Rightarrow> requireE (\<not> writable_by_others (NDir m u)) ''writable-source-directory'' 78 (Inr actual)
      | _ \<Rightarrow> bindE (protected_file fs p None) (\<lambda>_. Inr (actual @ [join_with ''/'' rel]))))"

definition unchanged_step :: "'x env \<Rightarrow> fsys \<Rightarrow> path \<Rightarrow> string \<Rightarrow> string \<times> json \<Rightarrow> unit \<Rightarrow> unit res" where
  "unchanged_step e fs src reason = (\<lambda>(name, record) _.
     bindE (read_bytes fs (src @ path_comps name)) (\<lambda>c.
     requireE (py_eq (JInt (int (length c))) (jget record ''size'') \<and> JStr (sha256 e c) = jget record ''sha256'') reason 78 (Inr ())))"

definition proof_step :: "'x env \<Rightarrow> fsys \<Rightarrow> path \<Rightarrow> json \<Rightarrow> string \<times> json \<Rightarrow> unit \<Rightarrow> unit res" where
  "proof_step e fs src manifest = (\<lambda>(gate, name) _.
     requireE (int_of (jget (jget (jget manifest ''files'') (str_of name)) ''size'') \<le> MAX_METADATA) ''evidence-too-large'' 78 (
     bindE (read_bytes fs (src @ path_comps (str_of name))) (\<lambda>raw.
     bindE (decode raw) (\<lambda>value.
     requireE (evidence_pass (sha256 e) manifest gate value) ''certification-gate-incomplete'' 78 (
     requireE (gate = ''vulnerability_scan'' \<longrightarrow> policy_bound manifest value)
       ''vulnerability-policy-evidence-mismatch'' 78 (Inr ()))))))"

definition archive_member :: "fsys \<Rightarrow> path \<Rightarrow> string \<Rightarrow> (string \<times> nat \<times> string) res" where
  "archive_member fs p name =
     (case fs p of Some (NFile c m u) \<Rightarrow> Inr (name, m, c) | _ \<Rightarrow> Inl OSError)"

definition archive_members :: "fsys \<Rightarrow> path \<Rightarrow> path \<Rightarrow> json \<Rightarrow> (string \<times> nat \<times> string) list res" where
  "archive_members fs directory src manifest =
     bindE (archive_member fs (directory @ [''manifest.json'']) ''manifest.json'') (\<lambda>m.
     bindE (archive_member fs (directory @ [''manifest.json.sig'']) ''manifest.sig'') (\<lambda>s.
     bindE (mapE (\<lambda>name. bindE (safe_name name) (\<lambda>_. archive_member fs (src @ path_comps name) name))
       (sort (keys_of (jget manifest ''files'')))) (\<lambda>ms. Inr (m # s # ms))))"

definition sign_args :: "path \<Rightarrow> path \<Rightarrow> string list" where
  "sign_args key record =
     [''ssh-keygen'', ''-Y'', ''sign'', ''-f'', path_text key, ''-n'', ''hermes-release@ai.lab.local'', path_text record]"

text \<open>What happens in the temporary directory, up to the exclusive publication of the archive.\<close>

definition package :: "'x env \<Rightarrow> tools \<Rightarrow> path \<Rightarrow> path \<Rightarrow> path \<Rightarrow> path \<Rightarrow> json \<Rightarrow> path \<Rightarrow> ('x world, unit) prog" where
  "package e t src output key signers manifest directory =
     (let record = directory @ [''manifest.json'']; archive = directory @ [''release.tar''] in
      bindM (write_bytesM record (canonical manifest)) (\<lambda>_.
      bindM (runM (cmd e) (sign_args key record) None) (\<lambda>_.
      bindM (getsM files) (\<lambda>fs.
      bindM (liftE (archive_members fs directory src manifest)) (\<lambda>ms.
      bindM (write_bytesM archive (pack t ms)) (\<lambda>_.
      bindM (readM archive) (\<lambda>stream.
      bindM (getsM (clock e)) (\<lambda>now.
      bindM (unpack (sha256 e) (tar e) (cmd e) (path_text (directory @ [''.verify'', ''signature''])) [stream]
          (directory @ [''verified'']) signers (path_text signers) (Some (jget manifest ''host'')) now None None) (\<lambda>_.
      bindM (chmodM archive 384) (\<lambda>_. linkM archive output))))))))))"

definition build :: "'x env \<Rightarrow> tools \<Rightarrow> path \<Rightarrow> path \<Rightarrow> path \<Rightarrow> path \<Rightarrow> ('x world, json) prog" where
  "build e t src output key signers =
     bindM (existsM output) (\<lambda>x.
     requireM (\<not> x) ''release-output-exists'' 78 (
     bindM (protectedM key None) (\<lambda>_.
     bindM (read_protectedM (src @ [''manifest.json'']) None) (\<lambda>raw.
     bindM (getsM (clock e)) (\<lambda>now.
     bindM (liftE (bindE (decode raw) (\<lambda>v. validate v now None False))) (\<lambda>manifest.
     bindM (getsM files) (\<lambda>fs.
     bindM (liftE (foldE (source_step fs src) (entries t fs src) [])) (\<lambda>actual.
     requireM (same_set actual (keys_of (jget manifest ''files'') @ [''manifest.json''])) ''source-file-map-mismatch'' 78 (
     bindM (liftE (foldE (unchanged_step e fs src ''candidate-changed-before-signing'') (items_of (jget manifest ''files'')) ())) (\<lambda>_.
     bindM (liftE (foldE (proof_step e fs src manifest) (items_of (jget manifest ''evidence'')) ())) (\<lambda>_.
     bindM (temporaryM e (butlast output) ''.release-'' (package e t src output key signers manifest)) (\<lambda>_.
     bindM (digestM (sha256 e) output) (\<lambda>d.
     ret (JObj [(''ok'', JBool True), (''release_id'', jget manifest ''release_id''), (''sha256'', JStr d)]))))))))))))))"

section \<open>Completing the candidate\<close>

definition expected_evidence :: json where
  "expected_evidence = JObj (map (\<lambda>g. (g, JStr (''evidence/'' @ g @ ''.json''))) GATES)"

definition with_file :: "json \<Rightarrow> string \<Rightarrow> json \<Rightarrow> json" where
  "with_file manifest name record = jset manifest ''files'' (jset (jget manifest ''files'') name record)"

definition placeholder :: json where
  "placeholder = JObj [(''sha256'', JStr (replicate 64 CHR ''0'')), (''size'', JInt 0), (''mode'', JInt 384)]"

definition validate_candidate :: "json \<Rightarrow> int \<Rightarrow> json res" where
  "validate_candidate manifest now =
     requireE (is_dict manifest \<and> is_dict (jget manifest ''files'')) ''invalid-candidate'' 78 (
     requireE (py_eq (jget manifest ''evidence'') expected_evidence) ''invalid-candidate-evidence'' 78 (
     requireE (\<not> list_ex (\<lambda>name. startswith name ''evidence/'') (keys_of (jget manifest ''files'')))
       ''candidate-contains-evidence'' 78 (
     bindE (validate (foldl (\<lambda>m g. with_file m (''evidence/'' @ g @ ''.json'') placeholder) manifest GATES) now None True)
       (\<lambda>_. Inr manifest))))"

definition frozen_step :: "'x env \<Rightarrow> fsys \<Rightarrow> path \<Rightarrow> string \<times> json \<Rightarrow> unit \<Rightarrow> unit res" where
  "frozen_step e fs candidate = (\<lambda>(name, record) _.
     bindE (protected_file fs (candidate @ path_comps name) None) (\<lambda>p.
     bindE (read_bytes fs p) (\<lambda>c.
     requireE (JStr (sha256 e c) = jget record ''sha256'') ''candidate-changed-after-freeze'' 78 (Inr ()))))"

definition complete_file :: "path \<Rightarrow> path \<Rightarrow> string \<times> json \<Rightarrow> ('x world, unit) prog" where
  "complete_file candidate completed = (\<lambda>(name, record).
     let target = completed @ path_comps name in
     bindM (mkdir_allM (butlast target) 448) (\<lambda>_.
     bindM (copyfileM (candidate @ path_comps name) target) (\<lambda>_.
     chmodM target (nat (int_of (jget record ''mode''))))))"

definition gate_complete :: "json \<Rightarrow> string \<Rightarrow> string \<Rightarrow> json \<Rightarrow> bool" where
  "gate_complete manifest fingerprint gate value \<longleftrightarrow> is_dict value \<and> jget value ''gate'' = JStr gate
     \<and> jget value ''result'' = JStr ''PASS'' \<and> py_eq (jget value ''release_id'') (jget manifest ''release_id'')
     \<and> jget value ''artifact_fingerprint'' = JStr fingerprint"

definition complete_gate :: "'x env \<Rightarrow> path \<Rightarrow> path \<Rightarrow> string \<Rightarrow> string \<times> json \<Rightarrow> json \<Rightarrow> ('x world, json) prog" where
  "complete_gate e evidence completed fingerprint = (\<lambda>(gate, name) manifest.
     bindM (read_protectedM (evidence @ [gate @ ''.json'']) None) (\<lambda>raw.
     bindM (liftE (decode raw)) (\<lambda>value.
     requireM (gate_complete manifest fingerprint gate value) ''certification-gate-incomplete'' 78 (
     let target = completed @ path_comps (str_of name) in
     bindM (mkdir_allM (butlast target) 448) (\<lambda>_.
     bindM (atomicM target (canonical value)) (\<lambda>_.
     bindM (readM target) (\<lambda>c.
     ret (with_file manifest (str_of name)
       (JObj [(''sha256'', JStr (sha256 e c)), (''size'', JInt (int (length c))), (''mode'', JInt 384)])))))))))"

definition with_window :: "int \<Rightarrow> json \<Rightarrow> json" where
  "with_window now manifest = jset (jset manifest ''issued_at'' (JInt now)) ''expires_at'' (JInt (now + 86400))"

definition finalize :: "'x env \<Rightarrow> tools \<Rightarrow> path \<Rightarrow> path \<Rightarrow> path \<Rightarrow> path \<Rightarrow> path \<Rightarrow> ('x world, json) prog" where
  "finalize e t candidate evidence output key signers =
     bindM (read_protectedM (candidate @ [''candidate.json'']) None) (\<lambda>raw.
     bindM (getsM (clock e)) (\<lambda>now.
     bindM (liftE (bindE (decode raw) (\<lambda>v. validate_candidate v now))) (\<lambda>manifest.
     let fingerprint = candidate_fingerprint (sha256 e) manifest in
     bindM (getsM files) (\<lambda>fs.
     bindM (liftE (foldE (frozen_step e fs candidate) (items_of (jget manifest ''files'')) ())) (\<lambda>_.
     temporaryM e (butlast output) ''.completed-'' (\<lambda>completed.
       bindM (forM (items_of (jget manifest ''files'')) (complete_file candidate completed)) (\<lambda>_.
       bindM (foldM (items_of (jget manifest ''evidence'')) manifest (complete_gate e evidence completed fingerprint)) (\<lambda>full.
       bindM (getsM (clock e)) (\<lambda>issued.
       bindM (atomicM (completed @ [''manifest.json'']) (canonical (with_window issued full))) (\<lambda>_.
       build e t completed output key signers))))))))))"

section \<open>The signing service\<close>

definition owned_path :: "fsys \<Rightarrow> string \<Rightarrow> int \<Rightarrow> bool \<Rightarrow> path res" where
  "owned_path fs s owner directory =
     (let p = path_comps s; ok = (\<lambda>n. (if directory then is_dirn n else is_reg n) \<and> int (node_uid n) = owner \<and> \<not> writable_by_others n);
          above = (\<lambda>n. is_dirn n \<and> (node_uid n = 0 \<or> int (node_uid n) = owner) \<and> \<not> writable_by_others n) in
      requireE (path_absolute s) ''relative-signing-path'' 78 (
      bindE (case fs p of None \<Rightarrow> Inl OSError | Some n \<Rightarrow> requireE (ok n) ''untrusted-signing-input'' 78 (Inr ())) (\<lambda>_.
      bindE (foldE (\<lambda>d _. case fs d of None \<Rightarrow> Inl OSError
               | Some n \<Rightarrow> requireE (above n) ''untrusted-signing-parent'' 78 (Inr ())) (parents p) ()) (\<lambda>_.
      Inr p))))"

text \<open>
  \<^verbatim>\<open>open_owned\<close>: the directories below the root are opened one after the other without following a link,
  then the file itself; what is read is what that file holds.
\<close>

definition walk_step :: "fsys \<Rightarrow> int \<Rightarrow> path \<Rightarrow> unit \<Rightarrow> unit res" where
  "walk_step fs owner d _ =
     (case fs d of
        Some (NDir m u) \<Rightarrow> requireE ((u = 0 \<or> int u = owner) \<and> \<not> writable_by_others (NDir m u)) ''untrusted-signing-parent'' 78 (Inr ())
      | _ \<Rightarrow> Inl OSError)"

definition open_owned :: "fsys \<Rightarrow> path \<Rightarrow> int \<Rightarrow> string res" where
  "open_owned fs p owner =
     requireE (''..'' \<notin> set p) ''relative-signing-path'' 78 (
     bindE (foldE (walk_step fs owner) (map (\<lambda>n. take n p) [1..<length p]) ()) (\<lambda>_.
     case fs p of
       Some (NFile c m u) \<Rightarrow> requireE (int u = owner \<and> \<not> writable_by_others (NFile c m u)) ''untrusted-signing-input'' 78 (Inr c)
     | _ \<Rightarrow> Inl OSError))"

definition read_owned :: "fsys \<Rightarrow> path \<Rightarrow> int \<Rightarrow> int \<Rightarrow> string res" where
  "read_owned fs p owner limit =
     bindE (open_owned fs p owner) (\<lambda>c.
     requireE (int (length c) \<le> limit) ''untrusted-signing-input'' 78 (
     let raw = take (nat (limit + 1)) c in
     requireE (int (length raw) \<le> limit) ''oversized-signing-input'' 78 (Inr raw)))"

text \<open>The copy loop of \<^verbatim>\<open>copy_owned\<close> reads chunks and stops at the first that exceeds the declared size.\<close>

definition copy_owned :: "path \<Rightarrow> path \<Rightarrow> int \<Rightarrow> json \<Rightarrow> ('x world, unit) prog" where
  "copy_owned src dst owner limit =
     bindM (getsM (\<lambda>w. open_owned (files w) src owner)) (\<lambda>opened.
     bindM (liftE opened) (\<lambda>c.
     bindM (createM dst [] 384) (\<lambda>_.
     requireM (py_eq (JInt (int (length c))) limit) ''untrusted-signing-input'' 78 (
     requireM (int (length c) \<le> int_of limit) ''oversized-signing-input'' 78 (
     bindM (write_bytesM dst c) (\<lambda>_.
     requireM (py_eq (JInt (int (length c))) limit) ''truncated-signing-input'' 78 (ret ())))))))"

definition run_id_ok :: "json \<Rightarrow> bool" where
  "run_id_ok v \<longleftrightarrow> is_str v \<and> length (str_of v) = 64 \<and> list_all is_hex (str_of v)"

text \<open>The loop of \<^verbatim>\<open>validate_evidence\<close> with the dictionary of times and the set of run identifiers.\<close>

definition evidence_times :: "int \<Rightarrow> string \<times> json \<Rightarrow> (string \<times> int) list \<times> string list \<Rightarrow> ((string \<times> int) list \<times> string list) res" where
  "evidence_times now = (\<lambda>(gate, value) (times, runs).
     let completed = jget value ''completed_at''; run_id = jget value ''run_id'' in
     requireE (is_int completed \<and> now - 86400 \<le> int_of completed \<and> int_of completed \<le> now) ''stale-certification-evidence'' 78 (
     requireE (run_id_ok run_id) ''invalid-certification-run'' 78 (
     Inr (times @ [(gate, int_of completed)], if str_of run_id \<in> set runs then runs else runs @ [str_of run_id]))))"

definition validate_evidence :: "json \<Rightarrow> int \<Rightarrow> unit res" where
  "validate_evidence records now =
     requireE (is_dict records \<and> same_set (keys_of records) GATES \<and> list_all (\<lambda>(k, v). is_dict v) (items_of records))
       ''invalid-certification-evidence'' 78 (
     bindE (foldE (evidence_times now) (items_of records) ([], [])) (\<lambda>(times, runs).
     let time = (\<lambda>g. the (map_of times g)) in
     requireE (length runs = 1 \<and> time ''vm_destroyed'' = Max (set (map snd times))
         \<and> time ''inference'' \<le> time ''credential_revocation'') ''certification-order-mismatch'' 78 (Inr ())))"

definition SIGNER_FIELDS :: "string list" where
  "SIGNER_FIELDS = [''schema'', ''signer_uid'', ''certifier_uid'', ''candidate'', ''evidence'', ''output_dir'',
     ''signing_key'', ''allowed_signers'']"

definition signer_roles_ok :: "json \<Rightarrow> nat \<Rightarrow> bool" where
  "signer_roles_ok config me \<longleftrightarrow>
     (let signer = jget config ''signer_uid''; certifier = jget config ''certifier_uid'' in
      is_int signer \<and> is_int certifier \<and> 0 < int_of signer \<and> 0 < int_of certifier
        \<and> int_of signer \<noteq> int_of certifier \<and> int_of signer = int me)"

definition config_path :: "json \<Rightarrow> string \<Rightarrow> int \<Rightarrow> bool \<Rightarrow> ('x world, path) prog" where
  "config_path config key owner directory =
     bindM (getsM files) (\<lambda>fs.
     liftE (if is_str (jget config key) then owned_path fs (str_of (jget config key)) owner directory else Inl TypeError))"

definition read_gate :: "fsys \<Rightarrow> path \<Rightarrow> int \<Rightarrow> string \<Rightarrow> (string \<times> string) res" where
  "read_gate fs evidence owner gate =
     bindE (read_owned fs (evidence @ [gate @ ''.json'']) owner (1024 * 1024)) (\<lambda>raw. Inr (gate, raw))"

definition decode_gate :: "string \<times> string \<Rightarrow> (string \<times> json) res" where
  "decode_gate = (\<lambda>(gate, raw). bindE (decode raw) (\<lambda>v. Inr (gate, v)))"

definition freeze_file :: "path \<Rightarrow> path \<Rightarrow> int \<Rightarrow> string \<times> json \<Rightarrow> ('x world, unit) prog" where
  "freeze_file candidate frozen owner = (\<lambda>(name, record).
     let destination = frozen @ path_comps name in
     bindM (mkdir_allM (butlast destination) 448) (\<lambda>_.
     copy_owned (candidate @ path_comps name) destination owner (jget record ''size'')))"

text \<open>The checked handoff is copied under the signer's ownership before it is packaged.\<close>

definition hand_off ::
    "'x env \<Rightarrow> tools \<Rightarrow> path \<Rightarrow> int \<Rightarrow> string \<Rightarrow> json \<Rightarrow> (string \<times> string) list \<Rightarrow> path \<Rightarrow> path \<Rightarrow> path \<Rightarrow> path
       \<Rightarrow> ('x world, json) prog" where
  "hand_off e t candidate owner candidate_raw manifest evidence_raw target key signers temporary =
     (let frozen = temporary @ [''candidate'']; proved = temporary @ [''evidence''] in
      bindM (mkdirM frozen 448 False) (\<lambda>_.
      bindM (mkdirM proved 448 False) (\<lambda>_.
      bindM (atomicM (frozen @ [''candidate.json'']) candidate_raw) (\<lambda>_.
      bindM (forM (items_of (jget manifest ''files'')) (freeze_file candidate frozen owner)) (\<lambda>_.
      bindM (forM evidence_raw (\<lambda>(gate, raw). atomicM (proved @ [gate @ ''.json'']) raw)) (\<lambda>_.
      finalize e t frozen proved target key signers))))))"

definition publish_archive :: "path \<Rightarrow> path \<Rightarrow> ('x world, unit) prog" where
  "publish_archive output target =
     (let pending = output @ [''.selected.pending''] in
      bindM (chmodM target 420) (\<lambda>_.
      bindM (existsM pending) (\<lambda>x. bindM (is_linkM pending) (\<lambda>l.
      requireM (\<not> x \<and> \<not> l) ''pending-publication-needs-recovery'' 78 (
      bindM (linkM target pending) (\<lambda>_. replaceM pending (output @ [''selected.tar''])))))))"

definition sign_locked ::
    "'x env \<Rightarrow> tools \<Rightarrow> path \<Rightarrow> int \<Rightarrow> string \<Rightarrow> json \<Rightarrow> (string \<times> string) list \<Rightarrow> path \<Rightarrow> path \<Rightarrow> path \<Rightarrow> string
       \<Rightarrow> ('x world, unit) prog" where
  "sign_locked e t candidate owner candidate_raw manifest evidence_raw output key signers fingerprint =
     (let target = output @ [fingerprint @ ''.tar''] in
      bindM (existsM target) (\<lambda>x.
      requireM (\<not> x) ''candidate-already-signed'' 78 (
      bindM (temporaryM e output ''.handoff-''
        (hand_off e t candidate owner candidate_raw manifest evidence_raw target key signers)) (\<lambda>_.
      publish_archive output target))))"

definition signer_config_ok :: "json \<Rightarrow> bool" where
  "signer_config_ok config \<longleftrightarrow> fields_are config SIGNER_FIELDS \<and> jget config ''schema'' = JStr ''hermes-signer-v1''"

definition sign :: "'x env \<Rightarrow> tools \<Rightarrow> json \<Rightarrow> ('x world, json) prog" where
  "sign e t config =
     requireM (signer_config_ok config) ''invalid-signer-policy'' 78 (
     bindM (getsM euid) (\<lambda>me.
     requireM (signer_roles_ok config me) ''signer-role-mismatch'' 78 (
     let signer = int_of (jget config ''signer_uid''); certifier = int_of (jget config ''certifier_uid'') in
     bindM (config_path config ''candidate'' certifier True) (\<lambda>candidate.
     bindM (config_path config ''evidence'' certifier True) (\<lambda>evidence.
     bindM (config_path config ''output_dir'' signer True) (\<lambda>output.
     bindM (config_path config ''signing_key'' signer False) (\<lambda>key.
     bindM (statM key) (\<lambda>n.
     requireM (\<not> open_to_others n) ''signing-key-not-private'' 78 (
     bindM (liftE (if is_str (jget config ''allowed_signers'') then Inr (path_comps (str_of (jget config ''allowed_signers''))) else Inl TypeError)) (\<lambda>sp.
     bindM (protectedM sp (Some 0)) (\<lambda>signers.
     bindM (getsM files) (\<lambda>fs.
     bindM (liftE (read_owned fs (candidate @ [''candidate.json'']) certifier (1024 * 1024))) (\<lambda>candidate_raw.
     bindM (getsM (clock e)) (\<lambda>now.
     bindM (liftE (bindE (decode candidate_raw) (\<lambda>v. validate_candidate v now))) (\<lambda>manifest.
     bindM (liftE (mapE (read_gate fs evidence certifier) (keys_of (jget manifest ''evidence'')))) (\<lambda>evidence_raw.
     bindM (liftE (bindE (mapE decode_gate evidence_raw) (\<lambda>vs. validate_evidence (JObj vs) now))) (\<lambda>_.
     let fingerprint = candidate_fingerprint (sha256 e) manifest in
     bindM (lockM (output @ [''.signer.lock''])
       (sign_locked e t candidate certifier candidate_raw manifest evidence_raw output key signers fingerprint)) (\<lambda>_.
     bindM (digestM (sha256 e) (output @ [fingerprint @ ''.tar''])) (\<lambda>d.
     ret (JObj [(''ok'', JBool True), (''stage'', JStr ''signed''), (''artifact_fingerprint'', JStr fingerprint),
       (''archive_sha256'', JStr d)]))))))))))))))))))))"

definition signer_main :: "'x env \<Rightarrow> tools \<Rightarrow> path \<Rightarrow> ('x world, json) prog" where
  "signer_main e t config = bindM (read_protectedM config (Some 0)) (\<lambda>raw. bindM (liftE (decode raw)) (sign e t))"

end
