(* ===== verification/Certify.thy ===== *)
theory Certify
  imports Controller Signing
begin

text \<open>
  \<^verbatim>\<open>scripts/hermes/unattended/certify.py\<close> with \<^verbatim>\<open>scan_candidate.py\<close> and the comparison of
  \<^verbatim>\<open>lab_previous.py\<close>: the acceptance run of a frozen candidate in the laboratory. The certifier object is the
  memory of the process: its state dictionary, whether a lease was asked for, the attempts to revoke it,
  and the transport record that the last exception carries. Printed progress and signals are not kept.
\<close>

section \<open>The policy and the frozen candidate\<close>

definition DOMAIN :: string where "DOMAIN = ''4db6369a-2b8b-427f-a47a-a5d83bb40cff''"

definition LAB_TARGET :: string where "LAB_TARGET = ''hermes-certify@172.16.99.12''"

definition CERTIFY_FIELDS :: "string list" where
  "CERTIFY_FIELDS = [''schema'', ''certifier_uid'', ''domain_uuid'', ''target'', ''identity_file'', ''known_hosts'',
     ''candidate'', ''state_dir'', ''evidence_dir'', ''credential_socket'', ''backup_repository'',
     ''backup_password_file'', ''run_id'', ''kernel'']"

definition kernel_ok :: "json \<Rightarrow> bool res" where
  "kernel_ok v = (if is_str v then Inr (match_plus (\<lambda>c. is_alnum c \<or> c \<in> set ''._-'') (str_of v)) else Inl TypeError)"

definition certifier_path_ok :: "json \<Rightarrow> string \<Rightarrow> unit \<Rightarrow> unit res" where
  "certifier_path_ok config key _ =
     requireE (is_str (jget config key) \<and> path_absolute (cfg config key)) ''relative-certifier-path'' 78 (Inr ())"

definition validate_config :: "json \<Rightarrow> nat \<Rightarrow> json res" where
  "validate_config config me =
     requireE (fields_are config CERTIFY_FIELDS \<and> jget config ''schema'' = JStr ''hermes-certify-v1'') ''invalid-certifier-policy'' 78 (
     requireE (jget config ''domain_uuid'' = JStr DOMAIN \<and> jget config ''target'' = JStr LAB_TARGET) ''certifier-requires-fixed-lab'' 78 (
     requireE (is_int (jget config ''certifier_uid'') \<and> 0 < int_of (jget config ''certifier_uid'')
         \<and> int_of (jget config ''certifier_uid'') = int me) ''wrong-certifier-identity'' 77 (
     requireE (jget config ''credential_socket'' = JStr ''/run/hermes-lab-credentials/broker.sock'') ''non-lab-broker-forbidden'' 78 (
     bindE (if sha (jget config ''run_id'') then kernel_ok (jget config ''kernel'') else Inr False) (\<lambda>run.
     requireE run ''invalid-certifier-run'' 78 (
     bindE (foldE (certifier_path_ok config) [''identity_file'', ''known_hosts'', ''candidate'', ''state_dir'', ''evidence_dir'',
        ''backup_repository'', ''backup_password_file''] ()) (\<lambda>_. Inr config)))))))"

definition frozen_file :: "'x env \<Rightarrow> fsys \<Rightarrow> path \<Rightarrow> int \<Rightarrow> string \<times> json \<Rightarrow> unit \<Rightarrow> unit res" where
  "frozen_file e fs directory owner = (\<lambda>(name, record) _.
     bindE (owned_path fs (path_text (directory @ path_comps name)) owner False) (\<lambda>p.
     bindE (read_bytes fs p) (\<lambda>c.
     requireE (py_eq (JInt (int (length c))) (jget record ''size'') \<and> JStr (sha256 e c) = jget record ''sha256'')
       ''frozen-candidate-changed'' 78 (Inr ()))))"

definition candidate :: "'x env \<Rightarrow> tools \<Rightarrow> json \<Rightarrow> ('x world, json \<times> string) prog" where
  "candidate e t config =
     (let owner = int_of (jget config ''certifier_uid'') in
      bindM (getsM files) (\<lambda>fs.
      bindM (liftE (owned_path fs (cfg config ''candidate'') owner True)) (\<lambda>directory.
      bindM (read_protectedM (directory @ [''candidate.json'']) None) (\<lambda>raw.
      bindM (getsM (clock e)) (\<lambda>now.
      bindM (liftE (bindE (decode raw) (\<lambda>v. validate_candidate v now))) (\<lambda>manifest.
      let actual = map (join_with ''/'') (filter (\<lambda>r. \<not> is_dir_at fs (directory @ r)) (entries t fs directory)) in
      requireM (same_set actual (keys_of (jget manifest ''files'') @ [''candidate.json''])) ''unexpected-frozen-candidate-files'' 78 (
      bindM (liftE (foldE (frozen_file e fs directory owner) (items_of (jget manifest ''files'')) ())) (\<lambda>_.
      ret (manifest, raw)))))))))"

text \<open>
  \<^verbatim>\<open>archive_candidate\<close>: the payload files come first. \<^verbatim>\<open>addfile\<close> copies as many bytes as the record says; the
  corrupted archive ends after the first file, with its first bit flipped.
\<close>

definition archive_order :: "string list \<Rightarrow> string list" where
  "archive_order names = (let s = sort names in filter (\<lambda>n. startswith n ''payload/'') s @ filter (\<lambda>n. \<not> startswith n ''payload/'') s)"

definition archive_entry :: "json \<Rightarrow> string \<Rightarrow> string \<Rightarrow> (string \<times> nat \<times> string) res" where
  "archive_entry manifest name c =
     (let size = nat (int_of (jget (jget (jget manifest ''files'') name) ''size'')) in
      if length c < size then Inl OSError else Inr (name, 384, take size c))"

definition flip_first :: "string \<Rightarrow> string" where
  "flip_first c = (case c of [] \<Rightarrow> [] | b # r \<Rightarrow> (let n = of_char b :: nat in ascii (if even n then n + 1 else n - 1)) # r)"

definition archive_candidate :: "tools \<Rightarrow> fsys \<Rightarrow> path \<Rightarrow> string \<Rightarrow> json \<Rightarrow> bool \<Rightarrow> string res" where
  "archive_candidate t fs directory raw manifest corrupt =
     (let first = (''candidate.json'', 384, raw); names = archive_order (keys_of (jget manifest ''files''));
          read = (\<lambda>name. read_bytes fs (directory @ path_comps name)) in
      if corrupt then
        (case names of [] \<Rightarrow> Inr (pack t [first])
         | name # _ \<Rightarrow> bindE (read name) (\<lambda>c.
             requireE (c \<noteq> []) ''empty-corruption-fixture'' 78 (
             bindE (archive_entry manifest name (flip_first c)) (\<lambda>m. Inr (pack t [first, m])))))
      else bindE (mapE (\<lambda>name. bindE (read name) (archive_entry manifest name)) names) (\<lambda>ms. Inr (pack t (first # ms))))"

section \<open>Failures\<close>

definition BOOT_STAGES :: "string list" where "BOOT_STAGES = [''reboot-pending'', ''persistence-reboot'']"

definition transport_error :: "exn \<Rightarrow> bool" where
  "transport_error x =
     (case x of TimeoutExpired \<Rightarrow> True | Failure code reason \<Rightarrow> reason = ''lab-transport-unavailable'' | _ \<Rightarrow> False)"

definition retryable_boot_error :: "exn \<Rightarrow> json list \<Rightarrow> bool" where
  "retryable_boot_error x stages \<longleftrightarrow> stages \<noteq> [] \<and> in_phases (last stages) BOOT_STAGES \<and> transport_error x"

definition KNOWN_STAGES :: "string list" where
  "KNOWN_STAGES = [''new'', ''staging'', ''snapshot'', ''issuing-test-credential'', ''deploying'', ''reboot-pending'',
     ''persistence-reboot'', ''closed'', ''cold-boot'', ''semantic-restore'', ''scanning'', ''ua03-acceptance-passed'',
     ''previous-boot'', ''return-updated-boot'']"

definition failure_stage :: "json \<Rightarrow> string" where
  "failure_stage state = (if in_phases (jget state ''stage'') KNOWN_STAGES then str_of (jget state ''stage'') else ''unavailable'')"

section \<open>Revoking the test credential\<close>

text \<open>
  The broker speaks for the test role. Whether a failed exchange with its socket was a \<^verbatim>\<open>TimeoutError\<close> or a
  \<^verbatim>\<open>ConnectionError\<close>, the cache of the scanner and the present day are parameters.
\<close>

record 'x lab =
  lost :: "'x world \<Rightarrow> bool"
  cache :: "'x world \<Rightarrow> string"
  today :: "'x world \<Rightarrow> int"

definition test_request :: "'x peers \<Rightarrow> string \<Rightarrow> string \<Rightarrow> string \<Rightarrow> ('x world, json) prog" where
  "test_request k socket operation lease =
     bindM (exchange k socket (credential_frame operation ''test'' (JStr lease))) (\<lambda>raw.
     liftE (client_result (header_line raw)))"

definition revocation_reason :: "'x lab \<Rightarrow> 'x world \<Rightarrow> exn \<Rightarrow> string" where
  "revocation_reason lb w x =
     (case x of Failure code reason \<Rightarrow> if reason = ''credential-broker-rejected'' then ''broker-rejected'' else ''nonretryable''
      | OSError \<Rightarrow> if lost lb w then ''transport-unavailable'' else ''nonretryable''
      | _ \<Rightarrow> ''nonretryable'')"

definition attempt_record :: "nat \<Rightarrow> string option \<Rightarrow> json" where
  "attempt_record n reason =
     (case reason of
        None \<Rightarrow> JObj [(''attempt'', JInt (int n)), (''result'', JStr ''PASS'')]
      | Some r \<Rightarrow> JObj [(''attempt'', JInt (int n)), (''result'', JStr ''FAIL''), (''reason'', JStr r)])"

text \<open>The loop returns the attempts beside the result, since the exception carries them.\<close>

fun revoke_loop ::
    "(nat \<times> nat) list \<Rightarrow> 'x env \<Rightarrow> 'x peers \<Rightarrow> 'x lab \<Rightarrow> string \<Rightarrow> string \<Rightarrow> json list \<Rightarrow> 'x world \<Rightarrow> (json list \<times> json res) \<times> 'x world" where
  "revoke_loop [] e k lb socket lease attempts w = ((attempts, Inl TypeError), w)"
| "revoke_loop ((n, delay) # rest) e k lb socket lease attempts w =
     (let w1 = (if delay = 0 then w else pause e delay w) in
      case bindM (test_request k socket ''revoke'' lease)
             (\<lambda>result. requireM (jget result ''ok'' = JBool True) ''credential-revocation-failed'' 78 (ret result)) w1 of
        (Inr result, w2) \<Rightarrow>
          (let all = attempts @ [attempt_record n None] in ((all, Inr (merged result (JObj [(''attempts'', JList all)]))), w2))
      | (Inl x, w2) \<Rightarrow>
          (let reason = revocation_reason lb w2 x; all = attempts @ [attempt_record n (Some reason)] in
           if reason = ''nonretryable'' \<or> n = 3 then ((all, Inl x), w2)
           else revoke_loop rest e k lb socket lease all w2))"

definition revoke_test_credential ::
    "'x env \<Rightarrow> 'x peers \<Rightarrow> 'x lab \<Rightarrow> string \<Rightarrow> string \<Rightarrow> 'x world \<Rightarrow> (json list \<times> json res) \<times> 'x world" where
  "revoke_test_credential e k lb socket lease = revoke_loop [(1, 0), (2, 1), (3, 5)] e k lb socket lease []"

section \<open>The certifier\<close>

record certifier =
  cstate :: json
  attempted :: bool
  attempts :: "json option"
  transport :: "json option"

record job =
  jconfig :: json
  jmanifest :: json
  jraw :: string
  jprint :: string
  jlease :: string

definition jpath :: "job \<Rightarrow> string \<Rightarrow> path" where
  "jpath j key = path_comps (cfg (jconfig j) key)"

definition cert_save :: "'x env \<Rightarrow> job \<Rightarrow> json \<Rightarrow> (string \<times> json) list \<Rightarrow> (certifier, 'x, unit) process" where
  "cert_save e j stage values =
     bindM (outside (getsM (clock e))) (\<lambda>now.
     bindM (remember (\<lambda>m. m\<lparr>cstate := merged (cstate m) (JObj (values @ [(''stage'', stage), (''updated_at'', JInt now)]))\<rparr>)) (\<lambda>_.
     bindM recall (\<lambda>m. outside (atomicM (jpath j ''state_dir'' @ [''state.json'']) (canonical (cstate m))))))"

definition frame :: "job \<Rightarrow> string \<Rightarrow> (string \<times> json) list \<Rightarrow> json" where
  "frame j action values = JObj ([(''schema'', JStr ''hermes-lab-candidate-v1''), (''run_id'', jget (jconfig j) ''run_id''),
     (''action'', JStr action)] @ values)"

section \<open>Exchanges with the laboratory\<close>

definition lab_reason :: "json \<Rightarrow> bool" where
  "lab_reason v \<longleftrightarrow> is_str v \<and> match_range (\<lambda>c. is_lower c \<or> is_digit c \<or> c = CHR ''-'') 1 96 (str_of v)"

definition bound_reboot :: "job \<Rightarrow> json \<Rightarrow> json \<Rightarrow> bool" where
  "bound_reboot j message response \<longleftrightarrow>
     (let stage = jget response ''stage''; rid = jget (jmanifest j) ''release_id'' in
      jget message ''action'' = JStr ''deploy'' \<and> is_str rid \<and> in_phases stage BOOT_STAGES
        \<and> py_eq response (JObj [(''ok'', JBool True), (''stage'', stage), (''release_id'', rid)]))"

definition transport_record :: "int \<Rightarrow> json \<Rightarrow> json \<Rightarrow> bool \<Rightarrow> json" where
  "transport_record rc message response bound =
     JObj [(''ssh_returncode'', JInt rc),
       (''action'', JStr (if jget message ''action'' = JStr ''deploy'' then ''deploy'' else ''other'')),
       (''positive_reply'', JBool (jget response ''ok'' = JBool True)), (''bound_reboot_reply'', JBool bound)]"

text \<open>What the exit status and the output of \<^verbatim>\<open>ssh\<close> mean, with the record that a failure carries.\<close>

definition judge_reply :: "job \<Rightarrow> json \<Rightarrow> int \<Rightarrow> string \<Rightarrow> json res \<times> json option" where
  "judge_reply j message rc out =
     (if rc = 255 \<and> out = [] then (Inl (Failure 69 ''lab-transport-unavailable''), None)
      else case decode out of
        Inl x \<Rightarrow> (Inl x, None)
      | Inr response \<Rightarrow>
          if \<not> is_dict response then (Inl AttributeError, None)
          else if rc = 0 \<and> jget response ''ok'' = JBool True then (Inr response, None)
          else
            (let reason = (if has_key response ''error'' then jget response ''error'' else JStr ''lab-operation-failed'');
                 bound = bound_reboot j message response in
             if \<not> lab_reason reason then (Inl (Failure 78 ''invalid-lab-error''), None)
             else (Inl (Failure (if rc = 0 then 78 else rc)
                     (if (rc = 255 \<or> rc = 143) \<and> bound then ''lab-transport-unavailable'' else str_of reason)),
                   Some (transport_record rc message response bound))))"

definition lab_exchange :: "'x env \<Rightarrow> job \<Rightarrow> json \<Rightarrow> string \<Rightarrow> (certifier, 'x, json) process" where
  "lab_exchange e j message body s =
     (case cmd e (ssh_options (jconfig j)) (Some (canonical message @ body)) (snd s) of
        (Unavailable, w') \<Rightarrow> (Inl OSError, ((fst s)\<lparr>transport := None\<rparr>, w'))
      | (TimedOut, w') \<Rightarrow> (Inl TimeoutExpired, ((fst s)\<lparr>transport := None\<rparr>, w'))
      | (Exited rc out, w') \<Rightarrow>
          (case judge_reply j message rc out of (r, tr) \<Rightarrow> (r, ((fst s)\<lparr>transport := tr\<rparr>, w'))))"

text \<open>The same with the output in a file, as for the snapshot.\<close>

definition lab_fetch :: "'x env \<Rightarrow> job \<Rightarrow> json \<Rightarrow> path \<Rightarrow> ('x world, unit) prog" where
  "lab_fetch e j message p w =
     (case cmd e (ssh_options (jconfig j)) (Some (canonical message)) w of
        (Unavailable, w') \<Rightarrow> (Inl OSError, w')
      | (TimedOut, w') \<Rightarrow> (Inl TimeoutExpired, w')
      | (Exited rc out, w') \<Rightarrow>
          (if rc = 0 then Inr () else Inl (Failure 69 ''snapshot-transfer-failed''), set_files (append_file p out (files w')) w'))"

definition lab_request :: "'x env \<Rightarrow> job \<Rightarrow> string \<Rightarrow> (string \<times> json) list \<Rightarrow> (certifier, 'x, json) process" where
  "lab_request e j action values = lab_exchange e j (frame j action values) []"

text \<open>An exception that is caught takes its transport record with it.\<close>

definition forget :: "(certifier, 'x, unit) process" where
  "forget = remember (\<lambda>m. m\<lparr>transport := None\<rparr>)"

definition rejection :: "'x env \<Rightarrow> job \<Rightarrow> json \<Rightarrow> string \<Rightarrow> string \<Rightarrow> (certifier, 'x, bool) process" where
  "rejection e j message expected body =
     bindM (catchM (bindM (lab_exchange e j message body) (\<lambda>_. ret False))
       (\<lambda>x. case x of
          Failure code reason \<Rightarrow> bindM forget (\<lambda>_. requireM (reason = expected) ''wrong-negative-test-failure'' 78 (ret True))
        | _ \<Rightarrow> raiseM x)) (\<lambda>rejected.
     if rejected then ret True else raiseM (Failure 78 ''negative-test-accepted''))"

definition gate_value :: "job \<Rightarrow> string \<Rightarrow> json \<Rightarrow> int \<Rightarrow> json" where
  "gate_value j name result now =
     merged result (JObj [(''gate'', JStr name), (''result'', JStr ''PASS''), (''release_id'', jget (jmanifest j) ''release_id''),
       (''artifact_fingerprint'', JStr (jprint j)), (''run_id'', jget (jconfig j) ''run_id''), (''completed_at'', JInt now)])"

definition gate :: "'x env \<Rightarrow> job \<Rightarrow> string \<Rightarrow> json \<Rightarrow> ('x world, unit) prog" where
  "gate e j name result =
     (let target = jpath j ''evidence_dir'' @ [name @ ''.json''] in
      bindM (getsM (clock e)) (\<lambda>now.
      bindM (existsM target) (\<lambda>x.
      requireM (\<not> x) ''gate-evidence-already-exists'' 78 (
      atomicM target (canonical (gate_value j name result now))))))"

section \<open>Boots\<close>

definition power :: "'x env \<Rightarrow> string \<Rightarrow> ('x world, json) prog" where
  "power e action =
     bindM (runM (cmd e) [''sudo'', ''-n'', ''/usr/local/libexec/hermes-lab-power/lab-power'']
       (Some (canonical (JObj [(''action'', JStr action)])))) (\<lambda>raw. liftE (decode raw))"

fun wait_off :: "nat \<Rightarrow> 'x env \<Rightarrow> 'x peers \<Rightarrow> int \<Rightarrow> ('x world, unit) prog" where
  "wait_off n e k deadline =
     (if n = 0 then raiseM OutOfFuel
      else bindM (getsM (mono k)) (\<lambda>t.
        if t < deadline then
          bindM (power e ''state'') (\<lambda>v. bindM (liftE (idx v ''state'')) (\<lambda>st.
          if st = JStr ''shut off'' then ret ()
          else bindM (pauseM e 3) (\<lambda>_. wait_off (n - 1) e k deadline)))
        else raiseM (Failure 69 ''cold-shutdown-timeout'')))"

fun wait_observation :: "nat \<Rightarrow> 'x env \<Rightarrow> 'x peers \<Rightarrow> job \<Rightarrow> string \<Rightarrow> int \<Rightarrow> (certifier, 'x, json) process" where
  "wait_observation n e k j action deadline =
     (if n = 0 then raiseM OutOfFuel
      else bindM (outside (getsM (mono k))) (\<lambda>t.
        if t < deadline then
          bindM (catchM (bindM (lab_request e j action []) (\<lambda>r. ret (Some r)))
            (\<lambda>x. if retryable_boot_error x [JStr ''reboot-pending''] then bindM forget (\<lambda>_. ret None) else raiseM x)) (\<lambda>answer.
          case answer of
            Some r \<Rightarrow> ret r
          | None \<Rightarrow> bindM (outside (pauseM e 5)) (\<lambda>_. wait_observation (n - 1) e k j action deadline))
        else raiseM (Failure 69 ''boot-observation-timeout'')))"

declare wait_off.simps [simp del] wait_observation.simps [simp del]

definition cold_boot :: "nat \<Rightarrow> 'x env \<Rightarrow> 'x peers \<Rightarrow> job \<Rightarrow> string \<Rightarrow> (certifier, 'x, json) process" where
  "cold_boot n e k j observation =
     bindM (outside (power e ''shutdown'')) (\<lambda>_.
     bindM (outside (getsM (mono k))) (\<lambda>t.
     bindM (outside (wait_off n e k (t + 180))) (\<lambda>_.
     bindM (outside (power e ''start'')) (\<lambda>_.
     bindM (outside (getsM (mono k))) (\<lambda>t.
     wait_observation n e k j observation (t + 600))))))"

section \<open>The sequence of boots\<close>

definition andE :: "bool res \<Rightarrow> bool res \<Rightarrow> bool res" where
  "andE a b = bindE a (\<lambda>x. if x then b else Inr False)"

definition same_field :: "json \<Rightarrow> json \<Rightarrow> string \<Rightarrow> bool res" where
  "same_field a b key = bindE (idx a key) (\<lambda>x. bindE (idx b key) (\<lambda>y. Inr (py_eq x y)))"

definition other_field :: "json \<Rightarrow> json \<Rightarrow> string \<Rightarrow> bool res" where
  "other_field a b key = bindE (same_field a b key) (\<lambda>x. Inr (\<not> x))"

definition field_is :: "json \<Rightarrow> string \<Rightarrow> json \<Rightarrow> bool res" where
  "field_is a key v = bindE (idx a key) (\<lambda>x. Inr (x = v))"

definition hashable :: "json \<Rightarrow> bool" where
  "hashable v \<longleftrightarrow> \<not> is_list v \<and> \<not> is_dict v"

fun distinct_values :: "json list \<Rightarrow> bool" where
  "distinct_values [] = True"
| "distinct_values (v # vs) = (\<not> list_ex (py_eq v) vs \<and> distinct_values vs)"

definition PRESERVED :: "string list" where
  "PRESERVED = [''package_inventory'', ''encrypted_credential_sha256'', ''previous_modules_sha256'',
     ''updated_modules_sha256'', ''luks_metadata_sha256'', ''pcr_public_key_sha256'']"

definition preserved_step :: "json \<Rightarrow> json \<Rightarrow> json \<Rightarrow> string \<Rightarrow> unit \<Rightarrow> unit res" where
  "preserved_step updated previous returned key _ =
     bindE (andE (same_field updated previous key) (same_field previous returned key)) (\<lambda>ok.
     requireE ok ''previous-test-preservation-mismatch'' 78 (Inr ()))"

definition runtime_step :: "json \<Rightarrow> unit \<Rightarrow> unit res" where
  "runtime_step item _ =
     bindE (andE (field_is item ''secure_boot'' (JBool True)) (andE (field_is item ''selinux'' (JStr ''Enforcing''))
       (andE (field_is item ''runtime_healthy'' (JBool True)) (andE (field_is item ''credential_matches'' (JBool True))
       (andE (field_is item ''overlay_read_only'' (JBool True)) (field_is item ''tpm_services'' (JBool True))))))) (\<lambda>ok.
     requireE ok ''previous-test-runtime-failed'' 78 (Inr ()))"

definition verify_sequence :: "json \<Rightarrow> json \<Rightarrow> json \<Rightarrow> unit res" where
  "verify_sequence updated previous returned =
     bindE (mapE (\<lambda>item. idx item ''boot_id'') [updated, previous, returned]) (\<lambda>ids.
     if \<not> list_all hashable ids then Inl TypeError
     else requireE (distinct_values ids) ''previous-test-boot-id-reused'' 78 (
     bindE (andE (same_field updated returned ''kernel'') (other_field previous updated ''kernel'')) (\<lambda>kernels.
     requireE kernels ''previous-test-kernel-sequence-mismatch'' 78 (
     bindE (andE (same_field updated returned ''uki_sha256'') (other_field previous updated ''uki_sha256'')) (\<lambda>images.
     requireE images ''previous-test-image-sequence-mismatch'' 78 (
     bindE (foldE (preserved_step updated previous returned) PRESERVED ()) (\<lambda>_.
     bindE (foldE runtime_step [updated, previous, returned] ()) (\<lambda>_.
     bindE (andE (same_field previous returned ''inference'') (field_is returned ''inference'' (JStr ''HERMES_OK''))) (\<lambda>inference.
     requireE inference ''previous-test-inference-missing'' 78 (Inr ()))))))))))"

section \<open>The scan\<close>

definition POLICY_PATH :: string where "POLICY_PATH = ''payload/vulnerability-policy.json''"

definition scan :: "'x env \<Rightarrow> 'x lab \<Rightarrow> path \<Rightarrow> path \<Rightarrow> json \<Rightarrow> ('x world, json) prog" where
  "scan e lb directory target run_id =
     requireM (sha run_id) ''invalid-certification-run'' 78 (
     bindM (read_protectedM (directory @ [''candidate.json'']) None) (\<lambda>raw.
     bindM (getsM (clock e)) (\<lambda>now.
     bindM (liftE (bindE (decode raw) (\<lambda>v. validate_candidate v now))) (\<lambda>manifest.
     requireM (has_key (jget manifest ''files'') POLICY_PATH) ''missing-vulnerability-policy'' 78 (
     bindM (protectedM (directory @ path_comps POLICY_PATH) None) (\<lambda>policy_path.
     let expected = jget (jget (jget manifest ''files'') POLICY_PATH) ''sha256'' in
     bindM (digestM (sha256 e) policy_path) (\<lambda>d.
     requireM (JStr d = expected) ''vulnerability-policy-changed'' 78 (
     bindM (readM policy_path) (\<lambda>c. bindM (liftE (decode c)) (\<lambda>policy.
     requireM (fields_are policy [''schema'', ''denylist''] \<and> jget policy ''schema'' = JStr ''advisory-denylist-v1'')
       ''invalid-vulnerability-policy'' 78 (
     bindM (getsM (cache lb)) (\<lambda>place. bindM (getsM (today lb)) (\<lambda>day.
     bindM (scan_image (cmd e) place (str_of (jget manifest ''image'')) (jget policy ''denylist'') day) (\<lambda>result.
     bindM (readM (directory @ [''candidate.json''])) (\<lambda>raw2.
     bindM (if raw2 = raw then bindM (digestM (sha256 e) policy_path) (\<lambda>d2. ret (JStr d2 = expected)) else ret False) (\<lambda>same.
     requireM same ''candidate-changed-during-scan'' 78 (
     bindM (getsM (clock e)) (\<lambda>now2.
     let full = merged result (JObj [(''release_id'', jget manifest ''release_id''),
           (''artifact_fingerprint'', JStr (candidate_fingerprint (sha256 e) manifest)), (''run_id'', run_id),
           (''completed_at'', JInt now2), (''policy_sha256'', expected)]) in
     bindM (existsM target) (\<lambda>x.
     requireM (\<not> x) ''scan-evidence-already-exists'' 78 (
     bindM (atomicM target (canonical full)) (\<lambda>_. ret full)))))))))))))))))))))"

section \<open>The acceptance run\<close>

definition ask_field :: "'x env \<Rightarrow> job \<Rightarrow> string \<Rightarrow> (string \<times> json) list \<Rightarrow> string \<Rightarrow> (certifier, 'x, json) process" where
  "ask_field e j action values key = bindM (lab_request e j action values) (\<lambda>r. liftE (idx r key))"

definition wrong_digest :: json where "wrong_digest = JStr (replicate 64 CHR ''0'')"

text \<open>The candidate is staged, after the frames and archives that must be refused.\<close>

definition stage_candidate :: "'x env \<Rightarrow> tools \<Rightarrow> job \<Rightarrow> (certifier, 'x, (string \<times> bool) list) process" where
  "stage_candidate e t j =
     (let directory = jpath j ''candidate'' in
      bindM (rejection e j (jset (frame j ''status'' []) ''run_id'' wrong_digest) ''invalid-lab-run'' []) (\<lambda>n1.
      bindM (rejection e j (frame j ''status'' [(''command'', JStr ''forbidden'')]) ''unexpected-lab-fields'' []) (\<lambda>n2.
      bindM (outside (getsM files)) (\<lambda>fs.
      bindM (liftE (archive_candidate t fs directory (jraw j) (jmanifest j) True)) (\<lambda>corrupt.
      bindM (rejection e j (frame j ''stage'' []) ''candidate-member-hash-mismatch'' corrupt) (\<lambda>n3.
      bindM (outside (getsM files)) (\<lambda>fs.
      bindM (liftE (archive_candidate t fs directory (jraw j) (jmanifest j) False)) (\<lambda>archive.
      bindM (lab_exchange e j (frame j ''stage'' []) archive) (\<lambda>staged.
      bindM (liftE (idx staged ''artifact_fingerprint'')) (\<lambda>fp.
      requireM (fp = JStr (jprint j)) ''staged-candidate-mismatch'' 78 (
      bindM (ask_field e j ''status'' [] ''stage'') (\<lambda>clean.
      requireM (clean = JStr ''new'') ''non-clean-candidate-state'' 78 (
      bindM (rejection e j (frame j ''credential'' [(''key'', JStr ''synthetic-not-a-key'')]) ''credential-stage-mismatch'' []) (\<lambda>n4.
      bindM (rejection e j (frame j ''deploy'' []) ''release-needs-recovery'' []) (\<lambda>n5.
      bindM (ask_field e j ''lock-probe'' [] ''stage'') (\<lambda>probe.
      bindM (lab_request e j ''seed'' []) (\<lambda>_.
      ret [(''wrong_run'', n1), (''extra_fields'', n2), (''changed_payload'', n3), (''credential_before_backup'', n4),
        (''deploy_before_backup'', n5), (''target_lock'', probe = JStr ''lock-rejected'')])))))))))))))))))"

text \<open>The encrypted backup of the snapshot, which stays in a volatile directory meanwhile.\<close>

definition lab_backup :: "'x env \<Rightarrow> job \<Rightarrow> json \<Rightarrow> path \<Rightarrow> ('x world, json) prog" where
  "lab_backup e j receipt scratch =
     (let src = scratch @ [''snapshot.tar''] in
      bindM (createM src [] 384) (\<lambda>_.
      bindM (lab_fetch e j (frame j ''backup'' []) src) (\<lambda>_.
      bindM (digestM (sha256 e) src) (\<lambda>d.
      bindM (liftE (idx receipt ''snapshot_sha256'')) (\<lambda>expected.
      requireM (JStr d = expected) ''snapshot-hash-mismatch'' 78 (
      bindM (backup_snapshot (sha256 e) (cmd e) src (jconfig j) (str_of (jget (jmanifest j) ''release_id''))) (\<lambda>backup.
      let full = jset backup ''source_path'' (JStr (path_text src)) in
      bindM (atomicM (jpath j ''state_dir'' @ [''backup.json'']) (canonical full)) (\<lambda>_. ret full)))))))) "

definition take_backup :: "'x env \<Rightarrow> job \<Rightarrow> (certifier, 'x, json \<times> bool) process" where
  "take_backup e j =
     bindM (lab_request e j ''snapshot'' []) (\<lambda>receipt.
     bindM (rejection e j (frame j ''backup-verified'' [(''backup_snapshot'', wrong_digest), (''snapshot_sha256'', wrong_digest)])
       ''backup-digest-mismatch'' []) (\<lambda>negative.
     bindM (outside (temporaryM e [''dev'', ''shm''] ''hermes-certifier-'' (lab_backup e j receipt))) (\<lambda>backup.
     bindM (liftE (idx backup ''snapshot'')) (\<lambda>snapshot.
     bindM (liftE (idx backup ''sha256'')) (\<lambda>digest.
     bindM (lab_request e j ''backup-verified'' [(''backup_snapshot'', snapshot), (''snapshot_sha256'', digest)]) (\<lambda>_.
     ret (backup, negative)))))))"

definition issue_credential :: "'x env \<Rightarrow> 'x peers \<Rightarrow> job \<Rightarrow> (certifier, 'x, unit) process" where
  "issue_credential e k j =
     bindM (cert_save e j (JStr ''issuing-test-credential'') [(''lease'', JStr (jlease j))]) (\<lambda>_.
     bindM (remember (\<lambda>m. m\<lparr>attempted := True\<rparr>)) (\<lambda>_.
     bindM (outside (test_request k (cfg (jconfig j) ''credential_socket'') ''issue'' (jlease j))) (\<lambda>secret.
     bindM (liftE (idx secret ''key'')) (\<lambda>key.
     bindM (lab_request e j ''credential'' [(''key'', key)]) (\<lambda>_. ret ())))))"

text \<open>The deployment: the stages that were seen are recorded, and a lost connection during a reboot is tried again.\<close>

fun deploy_loop :: "nat \<Rightarrow> 'x env \<Rightarrow> 'x peers \<Rightarrow> job \<Rightarrow> int \<Rightarrow> json list \<Rightarrow> (certifier, 'x, json list) process" where
  "deploy_loop n e k j deadline stages =
     (if n = 0 then raiseM OutOfFuel
      else bindM (outside (getsM (mono k))) (\<lambda>t.
        if t < deadline then
          bindM (catchM (bindM (lab_request e j ''deploy'' []) (\<lambda>r. ret (Some r)))
            (\<lambda>x. if retryable_boot_error x stages then bindM forget (\<lambda>_. ret None) else raiseM x)) (\<lambda>answer.
          case answer of
            None \<Rightarrow> bindM (outside (pauseM e 10)) (\<lambda>_. deploy_loop (n - 1) e k j deadline stages)
          | Some result \<Rightarrow>
              bindM (liftE (idx result ''stage'')) (\<lambda>stage.
              let fresh_stage = stages = [] \<or> \<not> py_eq (last stages) stage;
                  seen = (if fresh_stage then stages @ [stage] else stages) in
              bindM (if fresh_stage then cert_save e j stage [(''stages'', JList seen)] else ret ()) (\<lambda>_.
              if stage = JStr ''closed'' then ret seen
              else requireM (in_phases stage BOOT_STAGES) ''unexpected-deployment-stage'' 78 (
                bindM (outside (pauseM e 10)) (\<lambda>_. deploy_loop (n - 1) e k j deadline seen)))))
        else raiseM (Failure 69 ''candidate-deployment-timeout'')))"

declare deploy_loop.simps [simp del]

definition EXPECTED_STAGES :: "json list" where
  "EXPECTED_STAGES = [JStr ''reboot-pending'', JStr ''persistence-reboot'', JStr ''closed'']"

definition deploy_candidate :: "nat \<Rightarrow> 'x env \<Rightarrow> 'x peers \<Rightarrow> job \<Rightarrow> (certifier, 'x, json) process" where
  "deploy_candidate n e k j =
     bindM (cert_save e j (JStr ''deploying'') []) (\<lambda>_.
     bindM (outside (getsM (mono k))) (\<lambda>t.
     bindM (deploy_loop n e k j (t + 3600) []) (\<lambda>stages.
     requireM (py_eq (JList stages) (JList EXPECTED_STAGES)) ''missing-deployment-boot-stage'' 78 (
     bindM (lab_request e j ''observe'' []) (\<lambda>warm.
     bindM (liftE (idx warm ''package_inventory'')) (\<lambda>inventory.
     bindM (outside (gate e j ''package_replay'' (JObj [(''inventory_sha256'', inventory), (''ordered_stages'', JList stages)]))) (\<lambda>_.
     bindM (outside (gate e j ''inference'' (JObj [(''exact_output'', JStr ''HERMES_OK''),
       (''source'', JStr ''candidate Host.acceptance before and after persistence reboot'')]))) (\<lambda>_.
     ret warm))))))))"

definition require_field ::
    "('a \<Rightarrow> json \<Rightarrow> string \<Rightarrow> bool res) \<Rightarrow> 'a \<Rightarrow> json \<Rightarrow> string \<Rightarrow> string \<Rightarrow> ('s, unit) prog" where
  "require_field test a b key reason = bindM (liftE (test a b key)) (\<lambda>ok. requireM ok reason 78 (ret ()))"

text \<open>The boots: a cold one, one into the previous image and one back.\<close>

definition boot_images :: "nat \<Rightarrow> 'x env \<Rightarrow> 'x peers \<Rightarrow> job \<Rightarrow> json \<Rightarrow> (certifier, 'x, unit) process" where
  "boot_images n e k j warm =
     bindM (cert_save e j (JStr ''cold-boot'') []) (\<lambda>_.
     bindM (cold_boot n e k j ''observe'') (\<lambda>cold.
     bindM (require_field other_field cold warm ''boot_id'' ''cold-boot-id-unchanged'') (\<lambda>_.
     bindM (outside (gate e j ''boot'' (JObj [(''warm'', warm), (''cold'', cold)]))) (\<lambda>_.
     bindM (outside (gate e j ''runtime'' cold)) (\<lambda>_.
     bindM (cert_save e j (JStr ''previous-boot'') []) (\<lambda>_.
     bindM (lab_request e j ''select-previous'' []) (\<lambda>_.
     bindM (cold_boot n e k j ''observe-previous'') (\<lambda>previous.
     bindM (cert_save e j (JStr ''return-updated-boot'') []) (\<lambda>_.
     bindM (lab_request e j ''select-updated'' []) (\<lambda>_.
     bindM (cold_boot n e k j ''observe-returned'') (\<lambda>returned.
     bindM (liftE (verify_sequence cold previous returned)) (\<lambda>_.
     outside (gate e j ''previous_boot'' (JObj [(''updated'', cold), (''previous'', previous), (''returned'', returned),
       (''post_update'', JBool True), (''reenrollment'', JBool False)]))))))))))))))"

definition rerun_closed :: "'x env \<Rightarrow> job \<Rightarrow> (certifier, 'x, unit) process" where
  "rerun_closed e j =
     bindM (lab_request e j ''observe'' []) (\<lambda>before.
     bindM (ask_field e j ''deploy'' [] ''stage'') (\<lambda>d.
     bindM (if d = JStr ''closed'' then bindM (ask_field e j ''upgrade'' [] ''stage'') (\<lambda>u. ret (u = JStr ''closed'')) else ret False) (\<lambda>closed.
     requireM closed ''closed-rerun-failed'' 78 (
     bindM (lab_request e j ''observe'' []) (\<lambda>after.
     bindM (liftE (andE (same_field before after ''boot_id'') (same_field before after ''package_inventory''))) (\<lambda>same.
     requireM same ''rerun-mutated-boot-or-packages'' 78 (ret ())))))))"

text \<open>The backup is restored from the repository and sent back.\<close>

definition restore_args :: "json \<Rightarrow> json \<Rightarrow> string list" where
  "restore_args config backup = restic_base config @ [''dump'', str_of (jget backup ''snapshot''), str_of (jget backup ''source_path'')]"

definition restore_backup :: "'x env \<Rightarrow> job \<Rightarrow> json \<Rightarrow> (certifier, 'x, bool) process" where
  "restore_backup e j backup =
     bindM (cert_save e j (JStr ''semantic-restore'') []) (\<lambda>_.
     bindM (lab_request e j ''damage'' []) (\<lambda>_.
     bindM (rejection e j (frame j ''restore'' [(''size'', JInt 1), (''sha256'', wrong_digest)]) ''invalid-restore-frame'' []) (\<lambda>negative.
     bindM (outside (runM (cmd e) (restore_args (jconfig j) backup) None)) (\<lambda>restored.
     requireM (JStr (sha256 e restored) = jget backup ''sha256'') ''restore-transport-changed'' 78 (
     bindM (lab_exchange e j (frame j ''restore'' [(''size'', JInt (int (length restored))), (''sha256'', jget backup ''sha256'')]) restored) (\<lambda>_.
     bindM (lab_request e j ''restore-check'' []) (\<lambda>state.
     bindM (outside (gate e j ''restore'' (merged state (JObj [(''snapshot'', jget backup ''snapshot''),
       (''encrypted_roundtrip'', JBool True)])))) (\<lambda>_. ret negative))))))))"

definition negative_matrix :: "job \<Rightarrow> (string \<times> bool) list \<Rightarrow> json" where
  "negative_matrix j negatives = JObj [(''result'', JStr ''PASS''),
     (''checks'', JObj (map (\<lambda>(name, passed). (name, JBool passed)) negatives)),
     (''run_id'', jget (jconfig j) ''run_id''), (''artifact_fingerprint'', JStr (jprint j))]"

definition certify_execute ::
    "nat \<Rightarrow> 'x env \<Rightarrow> tools \<Rightarrow> 'x peers \<Rightarrow> 'x lab \<Rightarrow> job \<Rightarrow> (certifier, 'x, unit) process" where
  "certify_execute n e t k lb j =
     bindM (cert_save e j (JStr ''staging'') []) (\<lambda>_.
     bindM (stage_candidate e t j) (\<lambda>staged.
     bindM (cert_save e j (JStr ''snapshot'') []) (\<lambda>_.
     bindM (take_backup e j) (\<lambda>(backup, wrong_receipt).
     bindM (issue_credential e k j) (\<lambda>_.
     bindM (deploy_candidate n e k j) (\<lambda>warm.
     bindM (boot_images n e k j warm) (\<lambda>_.
     bindM (rerun_closed e j) (\<lambda>_.
     bindM (restore_backup e j backup) (\<lambda>wrong_restore.
     let negatives = staged @ [(''wrong_backup_receipt'', wrong_receipt), (''closed_deploy_upgrade_rerun'', True),
           (''wrong_restore_receipt'', wrong_restore)] in
     requireM (list_all snd negatives) ''negative-matrix-incomplete'' 78 (
     bindM (outside (atomicM (jpath j ''state_dir'' @ [''negative-matrix.json'']) (canonical (negative_matrix j negatives)))) (\<lambda>_.
     bindM (cert_save e j (JStr ''scanning'') []) (\<lambda>_.
     bindM (outside (scan e lb (jpath j ''candidate'') (jpath j ''evidence_dir'' @ [''vulnerability_scan.json'']) (jget (jconfig j) ''run_id''))) (\<lambda>_.
     bindM (outside (candidate e t (jconfig j))) (\<lambda>(manifest, raw).
     requireM (raw = jraw j) ''candidate-changed-during-certification'' 78 (
     cert_save e j (JStr ''ua03-acceptance-passed'') [])))))))))))))))"

section \<open>Start, cleanup and the command\<close>

definition job_of :: "'x env \<Rightarrow> json \<Rightarrow> json \<Rightarrow> string \<Rightarrow> job" where
  "job_of e config manifest raw = \<lparr>jconfig = config, jmanifest = manifest, jraw = raw,
     jprint = candidate_fingerprint (sha256 e) manifest, jlease = take 32 (cfg config ''run_id'')\<rparr>"

definition new_certifier :: "json \<Rightarrow> certifier" where
  "new_certifier state = \<lparr>cstate = state, attempted = False, attempts = None, transport = None\<rparr>"

text \<open>\<^verbatim>\<open>Certifier(config)\<close>: the checks of the constructor; it saves the state \<^verbatim>\<open>new\<close>.\<close>

definition start_job :: "'x env \<Rightarrow> tools \<Rightarrow> json \<Rightarrow> ('x world, job) prog" where
  "start_job e t config =
     bindM (getsM euid) (\<lambda>me.
     bindM (liftE (validate_config config me)) (\<lambda>_.
     bindM (candidate e t config) (\<lambda>(manifest, raw).
     bindM (getsM files) (\<lambda>fs.
     bindM (liftE (owned_path fs (cfg config ''state_dir'') (int me) True)) (\<lambda>state_dir.
     bindM (liftE (owned_path fs (cfg config ''evidence_dir'') (int me) True)) (\<lambda>_.
     bindM (existsM (state_dir @ [''state.json''])) (\<lambda>x.
     requireM (\<not> x) ''certification-run-already-started'' 78 (ret (job_of e config manifest raw)))))))))"

definition new_state_of :: "job \<Rightarrow> json" where
  "new_state_of j = JObj [(''run_id'', jget (jconfig j) ''run_id''), (''artifact_fingerprint'', JStr (jprint j)), (''stage'', JStr ''new'')]"

text \<open>The credential is taken back from the laboratory, then revoked; the evidence of that is written once.\<close>

definition revoke_and_prove :: "'x env \<Rightarrow> 'x peers \<Rightarrow> 'x lab \<Rightarrow> job \<Rightarrow> (certifier, 'x, unit) process" where
  "revoke_and_prove e k lb j =
     (\<lambda>s. case revoke_test_credential e k lb (cfg (jconfig j) ''credential_socket'') (jlease j) (snd s) of
        ((tried, Inl x), w) \<Rightarrow> (Inl x, ((fst s)\<lparr>attempts := Some (JList tried)\<rparr>, w))
      | ((tried, Inr result), w) \<Rightarrow>
          (case bindM (existsM (jpath j ''evidence_dir'' @ [''credential_revocation.json''])) (\<lambda>x.
                  if x then ret () else gate e j ''credential_revocation'' result) w of
             (Inl x, w') \<Rightarrow> (Inl x, ((fst s)\<lparr>attempts := Some (JList [])\<rparr>, w'))
           | (Inr _, w') \<Rightarrow> (Inr (), ((fst s)\<lparr>attempts := Some (JList tried)\<rparr>, w'))))"

definition try_step :: "('s, unit) prog \<Rightarrow> string \<Rightarrow> ('s, string list) prog" where
  "try_step m reason = catchM (bindM m (\<lambda>_. ret [])) (\<lambda>_. ret [reason])"

definition cert_cleanup :: "'x env \<Rightarrow> 'x peers \<Rightarrow> 'x lab \<Rightarrow> job \<Rightarrow> (certifier, 'x, unit) process" where
  "cert_cleanup e k lb j =
     bindM recall (\<lambda>m.
     if \<not> attempted m then ret ()
     else bindM (try_step (bindM (lab_request e j ''cleanup-credential'' []) (\<lambda>_. ret ())) ''prior-credential-restoration-failed'') (\<lambda>first.
       bindM (try_step (revoke_and_prove e k lb j) ''provider-revocation-failed'') (\<lambda>second.
       let errors = first @ second in
       requireM (errors = []) (join_with ''-and-'' errors) 69 (ret ()))))"

definition reason_of :: "string \<Rightarrow> exn \<Rightarrow> string" where
  "reason_of other x = (case x of Failure code reason \<Rightarrow> reason | _ \<Rightarrow> other)"

definition opt_str :: "string option \<Rightarrow> json" where
  "opt_str x = (case x of None \<Rightarrow> JNull | Some s \<Rightarrow> JStr s)"

definition either :: "string option \<Rightarrow> string option \<Rightarrow> string option" where
  "either a b = (case a of None \<Rightarrow> b | Some s \<Rightarrow> if s = [] then b else Some s)"

text \<open>An exception of the run or of the cleanup is recorded; the record of a failed run tells the stage it failed in.\<close>

definition finish_failed :: "'x env \<Rightarrow> job \<Rightarrow> string option \<Rightarrow> (string \<times> json option) option \<Rightarrow> string option \<Rightarrow> (certifier, 'x, json) process" where
  "finish_failed e j failed context cleanup_failed =
     bindM recall (\<lambda>m.
     let tr = (case context of None \<Rightarrow> None | Some (_, tr) \<Rightarrow> tr);
         at = (case context of None \<Rightarrow> failure_stage (cstate m) | Some (st, _) \<Rightarrow> st);
         diagnostic = (case tr of None \<Rightarrow> [] | Some v \<Rightarrow> [(''failure_transport'', v)])
           @ (case attempts m of None \<Rightarrow> [] | Some v \<Rightarrow> [(''revocation_attempts'', v)]);
         failure = either failed cleanup_failed in
     bindM (cert_save e j (JStr ''failed'') ([(''failure'', opt_str failure), (''primary_failure'', opt_str failed),
       (''cleanup_failure'', opt_str cleanup_failed), (''failure_stage'', JStr at)] @ diagnostic)) (\<lambda>_.
     raiseM (Failure 69 (case failure of None \<Rightarrow> [] | Some s \<Rightarrow> s))))"

definition failing :: "string option \<Rightarrow> bool" where
  "failing x \<longleftrightarrow> (case x of None \<Rightarrow> False | Some s \<Rightarrow> s \<noteq> [])"

definition certify_run ::
    "nat \<Rightarrow> 'x env \<Rightarrow> tools \<Rightarrow> 'x peers \<Rightarrow> 'x lab \<Rightarrow> job \<Rightarrow> (certifier, 'x, json) process" where
  "certify_run n e t k lb j =
     bindM (cert_save e j (JStr ''new'') []) (\<lambda>_.
     bindM (catchM (bindM (certify_execute n e t k lb j) (\<lambda>_. ret (None, None)))
       (\<lambda>x. bindM recall (\<lambda>m. ret (Some (reason_of ''certification-command-failed'' x),
          Some (failure_stage (cstate m), transport m))))) (\<lambda>(failed, context).
     bindM (catchM (bindM (cert_cleanup e k lb j) (\<lambda>_. ret None))
       (\<lambda>x. ret (Some (reason_of ''certification-cleanup-failed'' x)))) (\<lambda>cleanup_failed.
     if failing failed \<or> failing cleanup_failed then finish_failed e j failed context cleanup_failed
     else bindM (cert_save e j (JStr ''ua03-complete'') []) (\<lambda>_.
       ret (JObj [(''ok'', JBool True), (''stage'', JStr ''ua03-complete''), (''run_id'', jget (jconfig j) ''run_id''),
         (''artifact_fingerprint'', JStr (jprint j)), (''release_signed'', JBool False)])))))"

definition cleanup_only :: "'x env \<Rightarrow> tools \<Rightarrow> 'x peers \<Rightarrow> 'x lab \<Rightarrow> json \<Rightarrow> ('x world, json) prog" where
  "cleanup_only e t k lb config =
     bindM (getsM euid) (\<lambda>me.
     bindM (liftE (validate_config config me)) (\<lambda>_.
     bindM (candidate e t config) (\<lambda>(manifest, raw).
     let j = job_of e config manifest raw; state_path = jpath j ''state_dir'' @ [''state.json''] in
     bindM (existsM state_path) (\<lambda>x.
     if \<not> x then ret (JObj [(''ok'', JBool True), (''stage'', JStr ''no-credential-issued'')])
     else bindM (read_protectedM state_path None) (\<lambda>c. bindM (liftE (decode c)) (\<lambda>state.
       bindM (liftE (andE (bindE (idx state ''run_id'') (\<lambda>r. Inr (py_eq r (jget config ''run_id''))))
         (field_is state ''artifact_fingerprint'' (JStr (jprint j))))) (\<lambda>bound.
       requireM bound ''cleanup-run-binding-mismatch'' 78 (
       if \<not> has_key state ''lease'' then ret (JObj [(''ok'', JBool True), (''stage'', JStr ''no-credential-issued'')])
       else requireM (jget state ''lease'' = JStr (jlease j)) ''cleanup-lease-mismatch'' 78 (
         bindM (inside ((new_certifier state)\<lparr>attempted := True\<rparr>) (cert_cleanup e k lb j)) (\<lambda>_.
         ret (JObj [(''ok'', JBool True), (''stage'', JStr ''credential-cleanup-complete'')]))))))))))) "

definition certify_main ::
    "nat \<Rightarrow> 'x env \<Rightarrow> tools \<Rightarrow> 'x peers \<Rightarrow> 'x lab \<Rightarrow> path \<Rightarrow> bool \<Rightarrow> ('x world, json) prog" where
  "certify_main n e t k lb policy_path only_cleanup =
     bindM (read_protectedM policy_path (Some 0)) (\<lambda>raw. bindM (liftE (decode raw)) (\<lambda>config.
     if only_cleanup then cleanup_only e t k lb config
     else bindM (start_job e t config) (\<lambda>j.
       inside (new_certifier (new_state_of j)) (certify_run n e t k lb j))))"

end
