(* ===== verification/Guest.thy ===== *)
theory Guest
  imports Certify
begin

text \<open>
  The guest side of the certification: \<^verbatim>\<open>scripts/hermes/unattended/certify_guest.py\<close>, the fixed endpoint that
  \<^verbatim>\<open>certify.py\<close> talks to, the checks of the previous image of \<^verbatim>\<open>lab_previous.py\<close>, and \<^verbatim>\<open>lab_stage.py\<close>, the
  operator's way to the same endpoint. The observations are made by \<^verbatim>\<open>certify_observe.py\<close>, which runs as a
  command. The tar stream is read as a whole: an archive with an unreadable end raises at once.
\<close>

definition GUEST_POLICY :: path where "GUEST_POLICY = [''etc'', ''hermes-lab-certifier.json'']"
definition GUEST_ROOT :: path where "GUEST_ROOT = [''var'', ''lib'', ''hermes-lab-certification'']"
definition GUEST_CANDIDATE :: path where "GUEST_CANDIDATE = GUEST_ROOT @ [''candidate'']"
definition PREVIOUS_RECORD :: path where "PREVIOUS_RECORD = GUEST_ROOT @ [''previous.json'']"
definition BOOT_ENROLLMENT :: path where
  "BOOT_ENROLLMENT = [''var'', ''lib'', ''hermes-lab-boot-enrollment'', ''state.json'']"
definition PREVIOUS :: string where "PREVIOUS = ''hermes-enrollment.efi''"
definition MODULES :: path where "MODULES = [''usr'', ''lib'', ''modules'']"
definition PRODUCT_UUID :: path where "PRODUCT_UUID = [''sys'', ''class'', ''dmi'', ''id'', ''product_uuid'']"
definition STAGE_MARKER :: path where "STAGE_MARKER = [''boot'', ''efi'', ''hermes-tpm-stage'']"
definition UKI_CERTIFICATE :: string where "UKI_CERTIFICATE = ''/etc/hermes-unattended/uki.crt''"

section \<open>The previous image\<close>

definition previous_kernel_ok :: "json \<Rightarrow> bool" where
  "previous_kernel_ok v \<longleftrightarrow> is_str v \<and> match_plus (\<lambda>c. is_alnum c \<or> c \<in> set ''._+-'') (str_of v)"

definition module_step :: "'x env \<Rightarrow> fsys \<Rightarrow> path \<Rightarrow> path \<Rightarrow> (string \<times> json) list \<Rightarrow> (string \<times> json) list res" where
  "module_step e fs root rel records =
     (let name = join_with ''/'' rel in
      case fs (root @ rel) of
        None \<Rightarrow> Inl OSError
      | Some (NLink target) \<Rightarrow> Inr (records @ [(name, JObj [(''link'', JStr target)])])
      | Some (NFile c m u) \<Rightarrow> Inr (records @ [(name, JObj [(''sha256'', JStr (sha256 e c)), (''mode'', JInt (int m))])])
      | Some (NDir m u) \<Rightarrow> Inr records)"

definition previous_modules :: "'x env \<Rightarrow> tools \<Rightarrow> json \<Rightarrow> ('x world, string) prog" where
  "previous_modules e t k =
     requireM (previous_kernel_ok k) ''invalid-previous-kernel'' 78 (
     let root = MODULES @ [str_of k] in
     bindM (getsM files) (\<lambda>fs.
     requireM (is_dir_at fs root \<and> \<not> is_link_at fs root) ''previous-modules-missing'' 78 (
     bindM (liftE (foldE (module_step e fs root) (sort (entries t fs root)) [])) (\<lambda>records.
     requireM (list_ex (\<lambda>(name, r). substr ''.ko'' name) records \<and> ''modules.dep'' \<in> set (map fst records))
       ''incomplete-previous-modules'' 78 (
     ret (sha256 e (canonical (JObj records))))))))"

text \<open>\<^verbatim>\<open>[entry["id"] for entry in entries if entry.get(key)]\<close> over a decoded value; nothing but an object has \<^verbatim>\<open>get\<close>.\<close>

fun iterated :: "json \<Rightarrow> json list res" where
  "iterated (JList xs) = Inr xs"
| "iterated (JObj kvs) = Inr (map (\<lambda>kv. JStr (fst kv)) kvs)"
| "iterated (JStr s) = Inr (map (\<lambda>c. JStr [c]) s)"
| "iterated _ = Inl TypeError"

definition entry_step :: "string \<Rightarrow> json \<Rightarrow> json list \<Rightarrow> json list res" where
  "entry_step key entry ids =
     bindE (get_default entry key JNull) (\<lambda>flag.
     if truthy flag then bindE (idx entry ''id'') (\<lambda>i. Inr (ids @ [i])) else Inr ids)"

definition boot_entries :: "'x env \<Rightarrow> string \<Rightarrow> ('x world, json list) prog" where
  "boot_entries e key =
     bindM (runM (cmd e) [''bootctl'', ''--esp-path=/boot/efi'', ''--json=short'', ''list''] None) (\<lambda>raw.
     liftE (bindE (decode raw) (\<lambda>v. bindE (iterated v) (\<lambda>xs. foldE (entry_step key) xs []))))"

definition selected_entry :: "'x env \<Rightarrow> ('x world, json) prog" where
  "selected_entry e =
     bindM (boot_entries e ''isSelected'') (\<lambda>ids.
     requireM (length ids = 1) ''ambiguous-selected-lab-entry'' 78 (ret (hd ids)))"

text \<open>The policy has the fields of the enrollment, which every caller has checked.\<close>

definition same_as :: "json \<Rightarrow> string \<Rightarrow> json \<Rightarrow> bool res" where
  "same_as value key expected = bindE (idx value key) (\<lambda>x. Inr (py_eq x expected))"

definition retained :: "'x env \<Rightarrow> tools \<Rightarrow> json \<Rightarrow> ('x world, json) prog" where
  "retained e t policy =
     bindM (read_protectedM PREVIOUS_RECORD (Some 0)) (\<lambda>raw. bindM (liftE (decode raw)) (\<lambda>value.
     bindM (liftE (andE (same_as value ''run_id'' (jget policy ''run_id''))
       (andE (same_as value ''candidate_sha256'' (jget policy ''candidate_sha256'')) (field_is value ''entry'' (JStr PREVIOUS))))) (\<lambda>bound.
     requireM bound ''previous-record-binding-mismatch'' 78 (
     bindM (read_protectedM (ESP @ [PREVIOUS]) (Some 0)) (\<lambda>image.
     bindM (liftE (field_is value ''uki_sha256'' (JStr (sha256 e image)))) (\<lambda>same.
     requireM same ''previous-image-changed'' 78 (
     bindM (liftE (idx value ''kernel'')) (\<lambda>kernel.
     bindM (previous_modules e t kernel) (\<lambda>m.
     bindM (liftE (field_is value ''modules_sha256'' (JStr m))) (\<lambda>kept.
     requireM kept ''previous-modules-changed'' 78 (ret value)))))))))))"

definition capture_previous :: "'x env \<Rightarrow> tools \<Rightarrow> json \<Rightarrow> ('x world, json) prog" where
  "capture_previous e t policy =
     bindM (existsM PREVIOUS_RECORD) (\<lambda>x.
     if x then retained e t policy
     else
       bindM (is_linkM PREVIOUS_RECORD) (\<lambda>l.
       requireM (\<not> l) ''linked-previous-record'' 78 (
       bindM (read_protectedM BOOT_ENROLLMENT (Some 0)) (\<lambda>raw. bindM (liftE (decode raw)) (\<lambda>enrolled.
       bindM (protectedM (ESP @ [PREVIOUS]) (Some 0)) (\<lambda>target.
       bindM (digestM (sha256 e) target) (\<lambda>d.
       bindM (liftE (bindE (idx enrolled ''binding'') (\<lambda>b. field_is b ''previous.efi'' (JStr d)))) (\<lambda>same.
       bindM (if same then bindM (selected_entry e) (\<lambda>s. ret (s = JStr PREVIOUS)) else ret False) (\<lambda>baseline.
       requireM baseline ''previous-baseline-not-selected'' 78 (
       bindM (runM (cmd e) [''sbverify'', ''--cert'', UKI_CERTIFICATE, path_text target] None) (\<lambda>_.
       bindM (runM (cmd e) [''uname'', ''-r''] None) (\<lambda>u. bindM (liftE (decode_text u)) (\<lambda>text.
       let kernel = strip text in
       requireM (\<not> py_eq (JStr kernel) (jget policy ''kernel'')) ''previous-and-updated-kernel-identical'' 78 (
       bindM (digestM (sha256 e) target) (\<lambda>uki.
       bindM (previous_modules e t (JStr kernel)) (\<lambda>m.
       let value = JObj [(''run_id'', jget policy ''run_id''), (''candidate_sha256'', jget policy ''candidate_sha256''),
         (''entry'', JStr PREVIOUS), (''uki_sha256'', JStr uki), (''kernel'', JStr kernel), (''modules_sha256'', JStr m)] in
       bindM (atomicM PREVIOUS_RECORD (canonical value)) (\<lambda>_. ret value)))))))))))))))))"

definition updated_entry :: "json \<Rightarrow> string" where
  "updated_entry manifest = ''hermes-'' @ str_of (jget manifest ''release_id'') @ ''.efi''"

definition select_entry :: "'x env \<Rightarrow> tools \<Rightarrow> json \<Rightarrow> json \<Rightarrow> bool \<Rightarrow> ('x world, json) prog" where
  "select_entry e t policy manifest previous =
     bindM (retained e t policy) (\<lambda>_.
     bindM (read_protectedM (HROOT @ [str_of (jget manifest ''release_id'') @ ''.state.json'']) (Some 0)) (\<lambda>raw.
     bindM (liftE (decode raw)) (\<lambda>state.
     bindM (liftE (field_is state ''phase'' (JStr ''closed''))) (\<lambda>closed.
     requireM closed ''previous-test-requires-completed-update'' 78 (
     let new = updated_entry manifest in
     bindM (read_protectedM (ESP @ [new]) (Some 0)) (\<lambda>image.
     requireM (JStr (sha256 e image) = jget (jget (jget manifest ''files'') (str_of (jget manifest ''boot_artifact''))) ''sha256'')
       ''updated-image-changed'' 78 (
     bindM (boot_entries e ''isDefault'') (\<lambda>ids.
     requireM (ids = [JStr new]) ''updated-default-not-retained'' 78 (
     let name = (if previous then PREVIOUS else new) in
     bindM (runM (cmd e) [''sbverify'', ''--cert'', UKI_CERTIFICATE, path_text (ESP @ [name])] None) (\<lambda>_.
     bindM (runM (cmd e) [''bootctl'', ''--esp-path=/boot/efi'', ''set-oneshot'', name] None) (\<lambda>_.
     ret (JObj [(''ok'', JBool True), (''stage'', JStr ''one-shot-selected''), (''entry'', JStr name), (''default'', JStr new)]))))))))))))"

section \<open>Enrollment of the guest\<close>

definition GUEST_FIELDS :: "string list" where
  "GUEST_FIELDS = [''schema'', ''domain_uuid'', ''host'', ''candidate_sha256'', ''run_id'', ''kernel'']"

text \<open>\<^verbatim>\<open>set(v) == {...}\<close> for names of several characters, on any decoded value.\<close>

fun set_is :: "json \<Rightarrow> string list \<Rightarrow> bool res" where
  "set_is (JObj kvs) names = Inr (same_set (map fst kvs) names)"
| "set_is (JList xs) names = (if list_all hashable xs then Inr (same_set xs (map JStr names)) else Inl TypeError)"
| "set_is (JStr s) names = Inr False"
| "set_is _ names = Inl TypeError"

definition private_dir :: "fsys \<Rightarrow> path \<Rightarrow> bool" where
  "private_dir fs p \<longleftrightarrow> is_dir_at fs p \<and> \<not> is_link_at fs p \<and>
     (case node_at fs p of None \<Rightarrow> False | Some n \<Rightarrow> node_uid n = 0 \<and> \<not> open_to_others n)"

definition guest_enrollment :: "'x env \<Rightarrow> ('x world, json) prog" where
  "guest_enrollment e =
     bindM (getsM euid) (\<lambda>me.
     requireM (me = 0) ''lab-certifier-requires-root'' 77 (
     bindM (read_protectedM GUEST_POLICY (Some 0)) (\<lambda>raw. bindM (liftE (decode raw)) (\<lambda>policy.
     bindM (liftE (set_is policy GUEST_FIELDS)) (\<lambda>fields.
     requireM fields ''invalid-lab-certifier-policy'' 78 (
     bindM (liftE (andE (field_is policy ''schema'' (JStr ''hermes-lab-certifier-v1'')) (field_is policy ''domain_uuid'' (JStr DOMAIN)))) (\<lambda>named.
     bindM (if named then bindM (read_textM PRODUCT_UUID) (\<lambda>u. ret (strip u = DOMAIN)) else ret False) (\<lambda>enrolled.
     requireM enrolled ''not-enrolled-disposable-domain'' 77 (
     bindM (read_textM STAGE_MARKER) (\<lambda>marker.
     requireM (strip marker = ''hermes-disposable-tpm-stage-v1'') ''not-disposable-tpm-installation'' 77 (
     requireM (sha (jget policy ''run_id'') \<and> sha (jget policy ''candidate_sha256'')) ''invalid-lab-binding'' 78 (
     bindM (digestM (sha256 e) MACHINE_ID) (\<lambda>m.
     bindM (liftE (field_is (jget policy ''host'') ''machine_id_sha256'' (JStr m))) (\<lambda>machine.
     requireM machine ''lab-machine-id-mismatch'' 78 (
     bindM (runM (cmd e) [''ssh-keygen'', ''-lf'', ''/etc/ssh/ssh_host_ed25519_key.pub'', ''-E'', ''sha256''] None) (\<lambda>out.
     bindM (liftE (bindE (decode_text out) second_word)) (\<lambda>fingerprint.
     bindM (liftE (field_is (jget policy ''host'') ''ssh_fingerprint'' (JStr fingerprint))) (\<lambda>ssh.
     requireM ssh ''lab-ssh-identity-mismatch'' 78 (
     bindM (getsM files) (\<lambda>fs.
     requireM (private_dir fs GUEST_ROOT) ''unsafe-lab-certifier-state'' 78 (ret policy)))))))))))))))))))))"

section \<open>The candidate\<close>

definition validate_raw :: "'x env \<Rightarrow> string \<Rightarrow> json \<Rightarrow> ('x world, json) prog" where
  "validate_raw e raw policy =
     requireM (int (length raw) \<le> 1024 * 1024 \<and> JStr (sha256 e raw) = jget policy ''candidate_sha256'') ''unenrolled-candidate'' 78 (
     bindM (getsM (clock e)) (\<lambda>now.
     bindM (liftE (bindE (decode raw) (\<lambda>v. validate_candidate v now))) (\<lambda>manifest.
     requireM (py_eq (jget manifest ''host'') (jget policy ''host'')) ''wrong-lab-candidate-host'' 78 (ret manifest))))"

definition candidate_file :: "(string \<Rightarrow> string) \<Rightarrow> path \<Rightarrow> nat \<Rightarrow> string \<times> json \<Rightarrow> ('x world, unit) prog" where
  "candidate_file h d owner nr =
     bindM (protectedM (under d (fst nr)) (Some owner)) (\<lambda>p.
     bindM (readM p) (\<lambda>c.
     requireM (py_eq (JInt (int (length c))) (jget (snd nr) ''size'') \<and> JStr (h c) = jget (snd nr) ''sha256'')
       ''candidate-bytes-changed'' 78 (ret ())))"

definition verify_candidate_tree :: "'x env \<Rightarrow> tools \<Rightarrow> path \<Rightarrow> json \<Rightarrow> nat \<Rightarrow> ('x world, json) prog" where
  "verify_candidate_tree e t d policy owner =
     bindM (read_protectedM (d @ [''manifest.json'']) (Some owner)) (\<lambda>raw.
     bindM (validate_raw e raw policy) (\<lambda>manifest.
     bindM (getsM files) (\<lambda>fs.
     let actual = map (join_with ''/'') (filter (\<lambda>rel. \<not> is_dir_at fs (d @ rel)) (entries t fs d)) in
     requireM (same_set actual (keys_of (jget manifest ''files'') @ [''manifest.json''])) ''unexpected-candidate-files'' 78 (
     bindM (forM (items_of (jget manifest ''files'')) (candidate_file (sha256 e) d owner)) (\<lambda>_. ret manifest)))))"

text \<open>Only regular files of the manifest are written, each into a new file below a new directory.\<close>

definition receive_member :: "'x env \<Rightarrow> path \<Rightarrow> json \<Rightarrow> member \<Rightarrow> string list \<Rightarrow> ('x world, string list) prog" where
  "receive_member e d manifest m seen =
     requireM (has_key (jget manifest ''files'') (mname m) \<and> mname m \<notin> set seen \<and> misfile m \<and> \<not> msparse m \<and> \<not> mpax m)
       ''unsafe-candidate-member'' 78 (
     let record = jget (jget manifest ''files'') (mname m); target = d @ path_comps (mname m); c = take (nat (msize m)) (mdata m) in
     requireM (py_eq (JInt (msize m)) (jget record ''size'')) ''candidate-member-size-mismatch'' 78 (
     bindM (mkdir_allM (butlast target) 448) (\<lambda>_.
     bindM (createM target c 384) (\<lambda>_.
     requireM (int (length c) = msize m) ''truncated-candidate'' 78 (
     requireM (JStr (sha256 e c) = jget record ''sha256'') ''candidate-member-hash-mismatch'' 78 (
     ret (seen @ [mname m])))))))"

definition header_ok :: "member list \<Rightarrow> bool" where
  "header_ok ms \<longleftrightarrow> ms \<noteq> [] \<and> mname (hd ms) = ''candidate.json'' \<and> misfile (hd ms) \<and> \<not> msparse (hd ms) \<and> \<not> mpax (hd ms)
     \<and> msize (hd ms) \<le> 1024 * 1024"

definition receive :: "'x env \<Rightarrow> path \<Rightarrow> json \<Rightarrow> string \<Rightarrow> ('x world, json) prog" where
  "receive e d policy stream =
     bindM (liftE (case tar e stream of None \<Rightarrow> Inl TarError | Some ms \<Rightarrow> Inr ms)) (\<lambda>ms.
     requireM (header_ok ms) ''invalid-candidate-header'' 78 (
     bindM (validate_raw e (mdata (hd ms)) policy) (\<lambda>manifest.
     bindM (atomicM (d @ [''manifest.json'']) (mdata (hd ms))) (\<lambda>_.
     bindM (foldM (tl ms) [] (receive_member e d manifest)) (\<lambda>seen.
     requireM (same_set seen (keys_of (jget manifest ''files''))) ''incomplete-candidate'' 78 (ret manifest))))))"

section \<open>Programs that are run\<close>

definition answered :: "outcome \<times> 'x world \<Rightarrow> (int \<Rightarrow> string \<Rightarrow> 'a res) \<Rightarrow> 'a res \<times> 'x world" where
  "answered r f = (case r of
        (Unavailable, w) \<Rightarrow> (Inl OSError, w) | (TimedOut, w) \<Rightarrow> (Inl TimeoutExpired, w)
      | (Exited rc out, w) \<Rightarrow> (f rc out, w))"

definition host_verdict :: "int \<Rightarrow> string \<Rightarrow> json res" where
  "host_verdict rc out =
     bindE (decode out) (\<lambda>value.
     if \<not> is_dict value then Inl AttributeError
     else if rc = 0 \<and> jget value ''ok'' = JBool True then Inr value
     else
       (let reason = (if has_key value ''error'' then jget value ''error'' else JStr ''candidate-operation-failed'') in
        requireE (lab_reason reason) ''invalid-candidate-error'' 78 (
        Inl (Failure (if rc = 0 then 78 else rc) (str_of reason)))))"

definition guest_host_args :: "string \<Rightarrow> string list" where
  "guest_host_args action =
     [''/usr/bin/python3'', ''-I'', ''-B'', path_text (GUEST_CANDIDATE @ [''payload'', ''host.py'']), action]"

definition guest_host_action :: "'x env \<Rightarrow> string \<Rightarrow> json option \<Rightarrow> ('x world, json) prog" where
  "guest_host_action e action message w =
     answered (cmd e (guest_host_args action) (map_option canonical message) w) host_verdict"

definition observe_args :: "'x env \<Rightarrow> string \<Rightarrow> json \<Rightarrow> string list res" where
  "observe_args e action policy =
     bindE (str_arg (jget policy ''run_id'')) (\<lambda>run_id. bindE (str_arg (jget policy ''kernel'')) (\<lambda>kernel.
     Inr [''/usr/bin/python3'', ''-I'', ''-B'', path_text (butlast (source e) @ [''certify_observe.py'']), action,
       path_text GUEST_CANDIDATE, run_id, kernel]))"

definition restore_frame_ok :: "json \<Rightarrow> bool" where
  "restore_frame_ok message \<longleftrightarrow>
     (let size = jget message ''size'' in is_int size \<and> 0 < int_of size \<and> int_of size \<le> 1024 ^ 3)"

definition restore_verdict :: "int \<Rightarrow> string \<Rightarrow> json res" where
  "restore_verdict rc out = requireE (rc = 0) ''semantic-restore-failed'' 69 (decode out)"

text \<open>Only the archive that the snapshot stage of the candidate recorded is accepted.\<close>

definition guest_restore :: "'x env \<Rightarrow> json \<Rightarrow> json \<Rightarrow> string \<Rightarrow> ('x world, json) prog" where
  "guest_restore e policy message rest =
     bindM (read_protectedM (GUEST_ROOT @ [''snapshot.json'']) (Some 0)) (\<lambda>raw. bindM (liftE (decode raw)) (\<lambda>receipt.
     bindM (liftE (idx receipt ''snapshot_sha256'')) (\<lambda>expected.
     requireM (py_eq (jget message ''sha256'') expected \<and> restore_frame_ok message) ''invalid-restore-frame'' 78 (
     let size = nat (int_of (jget message ''size'')); c = take size rest in
     requireM (length c = size) ''truncated-restore'' 78 (
     requireM (JStr (sha256 e c) = expected) ''restore-digest-mismatch'' 78 (
     bindM (liftE (observe_args e ''restore'' policy)) (\<lambda>args w.
     answered (cmd e args (Some c) w) restore_verdict)))))))"

definition observe :: "'x env \<Rightarrow> string \<Rightarrow> json \<Rightarrow> json \<Rightarrow> string \<Rightarrow> ('x world, json) prog" where
  "observe e action policy message rest =
     (if action = ''restore'' then guest_restore e policy message rest
      else bindM (liftE (observe_args e action policy)) (\<lambda>args.
        bindM (runM (cmd e) args None) (\<lambda>raw. liftE (decode raw))))"

section \<open>The endpoint\<close>

definition GUEST_ACTIONS :: "string list" where
  "GUEST_ACTIONS = [''stage'', ''status'', ''snapshot'', ''backup'', ''backup-verified'', ''credential'', ''deploy'', ''upgrade'',
     ''rollback'', ''observe'', ''seed'', ''damage'', ''restore'', ''restore-check'', ''cleanup-credential'', ''lock-probe'',
     ''observe-previous'', ''observe-returned'', ''select-previous'', ''select-updated'']"

definition OBSERVED :: "string list" where
  "OBSERVED = [''observe'', ''observe-previous'', ''observe-returned'', ''seed'', ''damage'', ''restore'', ''restore-check'',
     ''cleanup-credential'']"

definition guest_fields :: "json \<Rightarrow> string list" where
  "guest_fields action = [''schema'', ''run_id'', ''action'']
     @ (if action = JStr ''credential'' then [''key''] else [])
     @ (if action = JStr ''backup-verified'' then [''backup_snapshot'', ''snapshot_sha256''] else [])
     @ (if action = JStr ''restore'' then [''size'', ''sha256''] else [])"

definition parse_guest :: "json \<Rightarrow> string \<Rightarrow> (json \<times> string) res" where
  "parse_guest policy input =
     (let raw = header_line input in
      requireE (length raw \<le> 65536 \<and> endswith raw [newline]) ''invalid-lab-frame'' 78 (
      bindE (decode raw) (\<lambda>message.
      requireE (is_dict message \<and> jget message ''schema'' = JStr ''hermes-lab-candidate-v1''
          \<and> py_eq (jget message ''run_id'') (jget policy ''run_id'')) ''invalid-lab-run'' 78 (
      let action = jget message ''action'' in
      requireE (fields_are message (guest_fields action)) ''unexpected-lab-fields'' 78 (
      bindE (if hashable action then Inr (in_phases action GUEST_ACTIONS) else Inl TypeError) (\<lambda>known.
      requireE known ''unauthorized-lab-operation'' 77 (Inr (message, str_of action))))))))"

definition guest_stage :: "'x env \<Rightarrow> tools \<Rightarrow> json \<Rightarrow> string \<Rightarrow> ('x world, json) prog" where
  "guest_stage e t policy rest =
     bindM (capture_previous e t policy) (\<lambda>_.
     bindM (temporaryM e GUEST_ROOT ''.incoming-'' (\<lambda>temporary.
       let incoming = temporary @ [''candidate''] in
       bindM (mkdirM incoming 448 False) (\<lambda>_.
       bindM (receive e incoming policy rest) (\<lambda>manifest.
       bindM (existsM GUEST_CANDIDATE) (\<lambda>x.
       bindM (if x then bindM (verify_candidate_tree e t GUEST_CANDIDATE policy 0) (\<lambda>_. ret ())
              else renameM incoming GUEST_CANDIDATE) (\<lambda>_.
       ret manifest)))))) (\<lambda>manifest.
     ret (JObj [(''ok'', JBool True), (''stage'', JStr ''staged''),
       (''artifact_fingerprint'', JStr (candidate_fingerprint (sha256 e) manifest))])))"

definition probe_verdict :: "int \<Rightarrow> string \<Rightarrow> bool res" where
  "probe_verdict rc out =
     (if rc = 75 then bindE (decode out) (\<lambda>v. bindE (get_default v ''error'' JNull) (\<lambda>x. Inr (x = JStr ''target-busy'')))
      else Inr False)"

definition lock_probe :: "'x env \<Rightarrow> json \<Rightarrow> ('x world, json) prog" where
  "lock_probe e policy =
     bindM (\<lambda>w. answered (cmd e [''/usr/bin/python3'', ''-I'', path_text (source e)]
         (Some (canonical (JObj [(''schema'', JStr ''hermes-lab-candidate-v1''), (''run_id'', jget policy ''run_id''),
            (''action'', JStr ''status'')]))) w) probe_verdict) (\<lambda>rejected.
     requireM rejected ''concurrent-operation-not-rejected'' 78 (
     ret (JObj [(''ok'', JBool True), (''stage'', JStr ''lock-rejected'')])))"

definition guest_backup :: "'x env \<Rightarrow> json \<Rightarrow> ('x world, string) prog" where
  "guest_backup e manifest =
     bindM (read_protectedM (GUEST_ROOT @ [''snapshot.json'']) (Some 0)) (\<lambda>raw. bindM (liftE (decode raw)) (\<lambda>receipt.
     bindM (read_protectedM (HROOT @ [str_of (jget manifest ''release_id'') @ ''.snapshot.tar'']) (Some 0)) (\<lambda>c.
     bindM (liftE (field_is receipt ''snapshot_sha256'' (JStr (sha256 e c)))) (\<lambda>same.
     requireM same ''snapshot-changed'' 78 (ret c)))))"

definition guest_operation :: "'x env \<Rightarrow> json \<Rightarrow> string \<Rightarrow> ('x world, json) prog" where
  "guest_operation e message action =
     bindM (lockM (HROOT @ [''target.lock''])
       (guest_host_action e action (if action \<in> set [''credential'', ''backup-verified''] then Some message else None))) (\<lambda>result.
     bindM (if action = ''snapshot'' then atomicM (GUEST_ROOT @ [''snapshot.json'']) (canonical result) else ret ()) (\<lambda>_.
     ret result))"

definition guest_serve :: "'x env \<Rightarrow> tools \<Rightarrow> json \<Rightarrow> json \<Rightarrow> string \<Rightarrow> string \<Rightarrow> ('x world, dispatch_reply) prog" where
  "guest_serve e t policy message action rest =
     (if action = ''stage'' then bindM (guest_stage e t policy rest) (\<lambda>r. ret (Reply r))
      else bindM (verify_candidate_tree e t GUEST_CANDIDATE policy 0) (\<lambda>manifest.
        if action \<in> set [''select-previous'', ''select-updated''] then
          bindM (lockM (HROOT @ [''target.lock'']) (select_entry e t policy manifest (action = ''select-previous''))) (\<lambda>r. ret (Reply r))
        else if action = ''lock-probe'' then bindM (lock_probe e policy) (\<lambda>r. ret (Reply r))
        else if action \<in> set OBSERVED then bindM (observe e action policy message rest) (\<lambda>r. ret (Reply r))
        else if action = ''backup'' then bindM (guest_backup e manifest) (\<lambda>c. ret (Stream c))
        else bindM (guest_operation e message action) (\<lambda>r. ret (Reply r))))"

definition guest_dispatch :: "'x env \<Rightarrow> tools \<Rightarrow> string \<Rightarrow> ('x world, dispatch_reply) prog" where
  "guest_dispatch e t input =
     bindM (guest_enrollment e) (\<lambda>policy.
     bindM (liftE (parse_guest policy input)) (\<lambda>(message, action).
     lockM (GUEST_ROOT @ [''endpoint.lock''])
       (guest_serve e t policy message action (drop (length (header_line input)) input))))"

section \<open>The operator's stage\<close>

definition operator_stage :: "'x env \<Rightarrow> tools \<Rightarrow> job \<Rightarrow> (certifier, 'x, json) process" where
  "operator_stage e t j =
     bindM (outside (getsM files)) (\<lambda>fs.
     bindM (liftE (archive_candidate t fs (jpath j ''candidate'') (jraw j) (jmanifest j) False)) (\<lambda>archive.
     bindM (lab_exchange e j (frame j ''stage'' []) archive) (\<lambda>_.
     bindM (lab_request e j ''seed'' []) (\<lambda>_.
     bindM (lab_request e j ''snapshot'' []) (\<lambda>receipt.
     bindM (outside (temporaryM e [''dev'', ''shm''] ''hermes-b7-'' (lab_backup e j receipt))) (\<lambda>backup.
     bindM (liftE (idx backup ''snapshot'')) (\<lambda>snapshot.
     bindM (liftE (idx backup ''sha256'')) (\<lambda>d.
     bindM (lab_request e j ''backup-verified'' [(''backup_snapshot'', snapshot), (''snapshot_sha256'', d)]) (\<lambda>_.
     bindM (lab_request e j ''credential'' [(''key'', JStr (''hermes-public-b7-canary-'' @ cfg (jconfig j) ''run_id''))]) (\<lambda>_.
     bindM (cert_save e j (JStr ''b7-operator-ready'') [(''provider_credential_issued'', JBool False)]) (\<lambda>_.
     ret (JObj [(''ok'', JBool True), (''stage'', JStr ''b7-operator-ready''), (''run_id'', jget (jconfig j) ''run_id'')]))))))))))))"

definition operator_main :: "'x env \<Rightarrow> tools \<Rightarrow> path \<Rightarrow> ('x world, json) prog" where
  "operator_main e t config_file =
     bindM (read_protectedM config_file (Some 0)) (\<lambda>raw. bindM (liftE (decode raw)) (\<lambda>config.
     bindM (start_job e t config) (\<lambda>j.
     inside (new_certifier (new_state_of j)) (operator_stage e t j))))"

end
