(* ===== verification/TpmProfile.thy ===== *)
theory TpmProfile
  imports Guest
begin

text \<open>
  \<^verbatim>\<open>scripts/hermes/unattended/tpm_profile.py\<close>: the administrative masks of the standard TPM2 profile, their
  rendering into an offline staging tree, and the read-only checks of the services and of an initrd. The
  listing of a directory is a parameter.
\<close>

definition MASKS :: "path list" where
  "MASKS = [[''etc'', ''nvpcr'', ''hardware.nvpcr''], [''etc'', ''nvpcr'', ''cryptsetup.nvpcr''],
     [''etc'', ''systemd'', ''system'', ''systemd-pcrproduct.service'']]"

definition DRACUT_PATH :: path where
  "DRACUT_PATH = [''etc'', ''dracut.conf.d'', ''99-hermes-standard-tpm2.conf'']"

definition DRACUT :: string where
  "DRACUT = text_lines
     [''# Preserve TPM unlock and PCR11 phase modules; carry administrative masks into each new initrd.'',
      ''add_dracutmodules+=\" tpm2-tss systemd-pcrphase \"'',
      ''install_items+=\" /etc/nvpcr/hardware.nvpcr /etc/nvpcr/cryptsetup.nvpcr /etc/systemd/system/systemd-pcrproduct.service \"'']"

section \<open>The profile of a tree\<close>

definition masked :: "fsys \<Rightarrow> path \<Rightarrow> bool" where
  "masked fs p \<longleftrightarrow> fs p = Some (NLink ''/dev/null'')"

text \<open>A regular file that is no link, with exactly the configuration; only such a file is read.\<close>

definition dracut_ok :: "fsys \<Rightarrow> path \<Rightarrow> bool res" where
  "dracut_ok fs p =
     (if \<not> is_link_at fs p \<and> is_file_at fs p then bindE (read_text fs p) (\<lambda>s. Inr (s = DRACUT)) else Inr False)"

definition NVPCR_DIRECTORIES :: "path list" where
  "NVPCR_DIRECTORIES = [[''etc'', ''nvpcr''], [''run'', ''nvpcr''], [''usr'', ''local'', ''lib'', ''nvpcr''],
     [''usr'', ''lib'', ''nvpcr'']]"

text \<open>\<^verbatim>\<open>sorted(directory.glob("*.nvpcr"))\<close>, by name.\<close>

definition nvpcr_names :: "tools \<Rightarrow> fsys \<Rightarrow> path \<Rightarrow> string list" where
  "nvpcr_names t fs d = sort (map hd (filter (\<lambda>rel. length rel = 1 \<and> endswith (hd rel) ''.nvpcr'') (entries t fs d)))"

definition nvpcr_step :: "fsys \<Rightarrow> path \<Rightarrow> string \<Rightarrow> string list \<Rightarrow> string list res" where
  "nvpcr_step fs d name seen =
     (if name \<in> set seen then Inr seen
      else requireE (masked fs (d @ [name])) ''unreviewed-nvpcr-definition'' 78 (Inr (name # seen)))"

definition nvpcr_directory :: "tools \<Rightarrow> fsys \<Rightarrow> path \<Rightarrow> path \<Rightarrow> string list \<Rightarrow> string list res" where
  "nvpcr_directory t fs root d seen = foldE (nvpcr_step fs (root @ d)) (nvpcr_names t fs (root @ d)) seen"

definition profile :: "tools \<Rightarrow> fsys \<Rightarrow> path \<Rightarrow> string res" where
  "profile t fs root =
     (if \<not> list_ex (\<lambda>p. fs (root @ p) \<noteq> None) (MASKS @ [DRACUT_PATH]) then Inr ''vendor-nvpcr''
      else
        requireE (list_all (\<lambda>p. masked fs (root @ p)) MASKS) ''partial-standard-tpm2-profile'' 78 (
        bindE (dracut_ok fs (root @ DRACUT_PATH)) (\<lambda>same.
        requireE same ''standard-tpm2-dracut-mismatch'' 78 (
        bindE (foldE (nvpcr_directory t fs root) NVPCR_DIRECTORIES []) (\<lambda>_.
        Inr ''standard-tpm2'')))))"

section \<open>Rendering\<close>

text \<open>The directories between the root and an entry, the nearest first.\<close>

definition between :: "path \<Rightarrow> path \<Rightarrow> path list" where
  "between root rel = map (\<lambda>n. root @ take n rel) (rev [1..<length rel])"

definition profile_parent :: "fsys \<Rightarrow> path \<Rightarrow> unit \<Rightarrow> unit res" where
  "profile_parent fs d _ =
     requireE (\<not> is_link_at fs d) ''symlinked-profile-parent'' 78 (
     requireE (\<not> exists_at fs d \<or> is_dir_at fs d) ''invalid-profile-parent'' 78 (Inr ()))"

definition profile_entry :: "fsys \<Rightarrow> path \<Rightarrow> path \<Rightarrow> unit \<Rightarrow> unit res" where
  "profile_entry fs root rel _ =
     bindE (foldE (profile_parent fs) (between root rel) ()) (\<lambda>_.
     if fs (root @ rel) = None then Inr ()
     else bindE (if rel \<in> set MASKS then Inr (masked fs (root @ rel)) else dracut_ok fs (root @ rel)) (\<lambda>same.
       requireE same ''existing-profile-conflict'' 78 (Inr ())))"

definition make_mask :: "path \<Rightarrow> path \<Rightarrow> ('x world, unit) prog" where
  "make_mask root rel =
     bindM (mkdir_allM (butlast (root @ rel)) 493) (\<lambda>_.
     bindM (getsM files) (\<lambda>fs.
     if fs (root @ rel) = None then symlinkM (root @ rel) ''/dev/null'' else ret ()))"

definition make_dracut :: "path \<Rightarrow> ('x world, unit) prog" where
  "make_dracut root =
     bindM (mkdir_allM (butlast (root @ DRACUT_PATH)) 493) (\<lambda>_.
     bindM (existsM (root @ DRACUT_PATH)) (\<lambda>x.
     if x then ret () else createM (root @ DRACUT_PATH) DRACUT 420))"

definition staging_root :: "fsys \<Rightarrow> path \<Rightarrow> nat \<Rightarrow> unit res" where
  "staging_root fs root uid =
     requireE (follow 40 fs root \<noteq> Some [] \<and> is_dir_at fs root) ''offline-staging-root-required'' 78 (
     requireE (\<not> list_ex (is_link_at fs) (root # parents root)) ''symlinked-staging-root'' 78 (
     case node_at fs root of None \<Rightarrow> Inl OSError
     | Some n \<Rightarrow> requireE (node_uid n = uid \<and> \<not> writable_by_others n) ''unsafe-staging-root'' 78 (Inr ())))"

definition tpm_render :: "tools \<Rightarrow> path \<Rightarrow> ('x world, json) prog" where
  "tpm_render t root =
     bindM (getsM files) (\<lambda>fs. bindM (getsM euid) (\<lambda>me.
     bindM (liftE (staging_root fs root me)) (\<lambda>_.
     bindM (liftE (foldE (profile_entry fs root) (MASKS @ [DRACUT_PATH]) ())) (\<lambda>_.
     bindM (forM MASKS (make_mask root)) (\<lambda>_.
     bindM (make_dracut root) (\<lambda>_.
     bindM (getsM files) (\<lambda>fs'.
     bindM (liftE (profile t fs' root)) (\<lambda>p.
     ret (JObj [(''ok'', JBool True), (''profile'', JStr p), (''scope'', JStr ''offline-staging-only'')])))))))))"

section \<open>The services\<close>

text \<open>\<^verbatim>\<open>dict(line.split("=", 1) for line in raw.splitlines() if "=" in line)\<close>: the last line of a key wins.\<close>

definition assignments :: "string \<Rightarrow> (string \<times> string) list" where
  "assignments raw =
     rev (map (\<lambda>l. let (k, f, v) = part_at CHR ''='' l in (k, v)) (filter (\<lambda>l. CHR ''='' \<in> set l) (splitlines raw)))"

definition show_args :: "string \<Rightarrow> string list" where
  "show_args unit = [''systemctl'', ''show'', unit, ''-p'', ''LoadState'', ''-p'', ''ActiveState'', ''-p'', ''SubState'',
     ''-p'', ''ExecMainStatus'', ''-p'', ''ConditionResult'']"

definition unit_verdict :: "string \<Rightarrow> (string \<times> string) list \<Rightarrow> string res" where
  "unit_verdict unit settings =
     (let value = map_of settings in
      requireE (value ''LoadState'' = Some ''loaded'' \<and> value ''ExecMainStatus'' = Some ''0'') ''failed-tpm-service'' 78 (
      let active = value ''ActiveState'' = Some ''active'' \<and> value ''SubState'' = Some ''exited'';
          skipped = endswith unit ''-early.service'' \<and> value ''ActiveState'' = Some ''inactive''
            \<and> value ''ConditionResult'' = Some ''no'' in
      requireE (active \<or> skipped) ''failed-tpm-service'' 78 (
      Inr (if active then ''passed'' else ''skipped-existing-srk''))))"

definition observe_unit :: "'x env \<Rightarrow> string \<Rightarrow> (string \<times> json) list \<Rightarrow> ('x world, (string \<times> json) list) prog" where
  "observe_unit e unit observations =
     bindM (runM (cmd e) (show_args unit) None) (\<lambda>raw.
     bindM (liftE (decode_text raw)) (\<lambda>text.
     bindM (liftE (unit_verdict unit (assignments text))) (\<lambda>v.
     ret (observations @ [(unit, JStr v)]))))"

definition srk_size_ok :: "string \<Rightarrow> bool" where
  "srk_size_ok c \<longleftrightarrow> 0 < length c \<and> length c \<le> 65536"

definition srk_match :: "path \<Rightarrow> string \<Rightarrow> ('x world, unit) prog" where
  "srk_match root suffix =
     (let early = root @ [''run'', ''systemd'', ''tpm2-srk-public-key.'' @ suffix];
          late = root @ [''var'', ''lib'', ''systemd'', ''tpm2-srk-public-key.'' @ suffix] in
      bindM (getsM files) (\<lambda>fs.
      requireM (is_file_at fs early \<and> is_file_at fs late \<and> \<not> is_link_at fs early \<and> \<not> is_link_at fs late)
        ''srk-public-files-missing'' 78 (
      bindM (readM early) (\<lambda>a. bindM (readM late) (\<lambda>b.
      requireM (srk_size_ok a \<and> srk_size_ok b) ''srk-public-files-invalid'' 78 (
      requireM (a = b) ''srk-public-files-mismatch'' 78 (ret ())))))))"

definition tpm_services :: "'x env \<Rightarrow> tools \<Rightarrow> path \<Rightarrow> ('x world, json) prog" where
  "tpm_services e t root =
     bindM (getsM files) (\<lambda>fs.
     bindM (liftE (profile t fs root)) (\<lambda>p.
     bindM (foldM [''systemd-tpm2-setup-early.service'', ''systemd-tpm2-setup.service''] [] (observe_unit e)) (\<lambda>observations.
     bindM (forM [''pem'', ''tpm2b_public''] (srk_match root)) (\<lambda>_.
     bindM (if p = ''vendor-nvpcr'' then
         bindM (runM (cmd e) [''systemctl'', ''is-active'', ''systemd-pcrproduct.service''] None) (\<lambda>out.
         requireM (bstrip out = ''active'') ''failed-tpm-service'' 78 (ret ()))
       else
         bindM (runM (cmd e) [''systemctl'', ''show'', ''systemd-pcrproduct.service'', ''-p'', ''LoadState'', ''--value''] None) (\<lambda>out.
         requireM (bstrip out = ''masked'') ''unmasked-nvpcr-consumer'' 78 (ret ()))) (\<lambda>_.
     ret (JObj [(''profile'', JStr p), (''srk_services'', JObj observations), (''srk_public_files_match'', JBool True)]))))))"

section \<open>The initrd\<close>

text \<open>
  \<^verbatim>\<open>re.search(r"\s(?:\./)?NAME(?: -> (.*))?$", line)\<close> on one line: the leftmost match, with the target of a link
  when there is one.
\<close>

definition after_name :: "string \<Rightarrow> string \<Rightarrow> string option option" where
  "after_name name s =
     (case after_prefix name (removeprefix ''./'' s) of
        None \<Rightarrow> None
      | Some rest \<Rightarrow> if rest = [] then Some None
          else (case after_prefix '' -> '' rest of None \<Rightarrow> None | Some target \<Rightarrow> Some (Some target)))"

fun entry_match :: "string \<Rightarrow> string \<Rightarrow> string option option" where
  "entry_match name [] = None"
| "entry_match name (c # cs) =
     (if is_space c \<and> after_name name cs \<noteq> None then after_name name cs else entry_match name cs)"

definition initrd_entries :: "string list \<Rightarrow> string \<Rightarrow> (string \<times> string option) list" where
  "initrd_entries listing name =
     map (\<lambda>l. (l, the (entry_match name l))) (filter (\<lambda>l. entry_match name l \<noteq> None) listing)"

definition initrd_directory :: "string list \<Rightarrow> string \<Rightarrow> bool" where
  "initrd_directory listing name =
     (case initrd_entries listing name of [(l, target)] \<Rightarrow> startswith l ''d'' \<and> target = None | _ \<Rightarrow> False)"

text \<open>\<^verbatim>\<open>"../" * len(parents) + "dev/null"\<close>\<close>

definition relative_null :: "path \<Rightarrow> string" where
  "relative_null rel = concat (replicate (length rel - 1) ''../'') @ ''dev/null''"

definition mask_check :: "string list \<Rightarrow> path \<Rightarrow> (string \<times> json) list" where
  "mask_check listing rel =
     (let found = initrd_entries listing (join_with ''/'' rel);
          link = length found = 1 \<and> startswith (fst (hd found)) ''l'';
          target = (if link then snd (hd found) else None);
          directories = list_all (\<lambda>n. initrd_directory listing (join_with ''/'' (take (Suc n) rel))) [0..<length rel - 1]
            \<and> initrd_directory listing ''dev'';
          kind = (if target = Some ''/dev/null'' then ''absolute-null''
            else if target = Some (relative_null rel) then ''relative-null'' else ''other'');
          accepted = link \<and> (kind = ''absolute-null'' \<or> kind = ''relative-null'' \<and> directories) in
      [(''entries'', JInt (int (length found))), (''symbolic_link'', JBool link), (''target_kind'', JStr kind),
       (''directory_chain_verified'', JBool directories), (''accepted'', JBool accepted)])"

definition mask_accepted :: "string list \<Rightarrow> path \<Rightarrow> bool" where
  "mask_accepted listing rel \<longleftrightarrow> map_of (mask_check listing rel) ''accepted'' = Some (JBool True)"

text \<open>
  The name in \<^verbatim>\<open>\s(?:\./)?(?:etc|run|usr/local/lib|usr/lib)/nvpcr/([^\s]+\.nvpcr)(?: -> .*)?$\<close>: it ends where the
  next space is, since nothing but an arrow or the end of the line may follow it.
\<close>

definition nvpcr_name :: "string \<Rightarrow> string \<Rightarrow> string option" where
  "nvpcr_name d s =
     (case after_prefix (d @ ''/nvpcr/'') (removeprefix ''./'' s) of
        None \<Rightarrow> None
      | Some r \<Rightarrow>
          let name = takeWhile (\<lambda>c. \<not> is_space c) r; rest = dropWhile (\<lambda>c. \<not> is_space c) r in
          if 6 < length name \<and> endswith name ''.nvpcr'' \<and> (rest = [] \<or> startswith rest '' -> '') then Some name else None)"

fun first_some :: "('a \<Rightarrow> 'b option) \<Rightarrow> 'a list \<Rightarrow> 'b option" where
  "first_some f [] = None"
| "first_some f (x # xs) = (case f x of None \<Rightarrow> first_some f xs | Some y \<Rightarrow> Some y)"

fun nvpcr_match :: "string \<Rightarrow> string option" where
  "nvpcr_match [] = None"
| "nvpcr_match (c # cs) =
     (case (if is_space c then first_some (\<lambda>d. nvpcr_name d cs) [''etc'', ''run'', ''usr/local/lib'', ''usr/lib''] else None) of
        None \<Rightarrow> nvpcr_match cs | Some name \<Rightarrow> Some name)"

definition unknown_definition :: "string \<Rightarrow> bool" where
  "unknown_definition l =
     (case nvpcr_match l of None \<Rightarrow> False | Some name \<Rightarrow> name \<notin> {''hardware.nvpcr'', ''cryptsetup.nvpcr''})"

definition REQUIRED_MODULES :: "string list" where
  "REQUIRED_MODULES = [''crypt'', ''tpm2-tss'', ''systemd-pcrphase'']"

definition initrd_review :: "string list \<Rightarrow> string list \<Rightarrow> string \<Rightarrow> bool \<Rightarrow> json" where
  "initrd_review listing modules before unchanged =
     (let unknown = length (filter unknown_definition listing); supported = list_all (\<lambda>m. m \<in> set modules) REQUIRED_MODULES in
      JObj [(''profile'', JStr ''standard-tpm2''), (''sha256'', JStr before),
        (''masks'', JList (map (\<lambda>p. JStr (join_with ''/'' p)) MASKS)),
        (''required_modules_present'', JBool supported),
        (''mask_checks'', JObj (map (\<lambda>p. (join_with ''/'' p, JObj (mask_check listing p))) MASKS)),
        (''unknown_definition_count'', JInt (int unknown)), (''archive_unchanged'', JBool unchanged),
        (''boot_verified'', JBool False),
        (''passed'', JBool (supported \<and> list_all (mask_accepted listing) MASKS \<and> unknown = 0 \<and> unchanged))])"

text \<open>The observer, when one is given, sees the review before its verdict is required.\<close>

definition inspect_initrd ::
  "'x env \<Rightarrow> path \<Rightarrow> (json \<Rightarrow> ('x world, unit) prog) option \<Rightarrow> ('x world, json) prog" where
  "inspect_initrd e archive observer =
     bindM (getsM files) (\<lambda>fs.
     requireM (is_file_at fs archive \<and> \<not> is_link_at fs archive) ''invalid-profile-initrd'' 78 (
     bindM (digestM (sha256 e) archive) (\<lambda>before.
     bindM (runM (cmd e) [''lsinitrd'', path_text archive] None) (\<lambda>raw.
     bindM (liftE (decode_text raw)) (\<lambda>text.
     bindM (runM (cmd e) [''lsinitrd'', ''-m'', path_text archive] None) (\<lambda>raw_modules.
     bindM (liftE (decode_text raw_modules)) (\<lambda>text_modules.
     bindM (digestM (sha256 e) archive) (\<lambda>after.
     let listing = splitlines text; modules = map strip (splitlines text_modules);
         review = initrd_review listing modules before (after = before) in
     bindM (case observer of None \<Rightarrow> ret () | Some see \<Rightarrow> see review) (\<lambda>_.
     requireM (list_all (\<lambda>m. m \<in> set modules) REQUIRED_MODULES) ''initrd-tpm-modules-missing'' 78 (
     requireM (list_all (mask_accepted listing) MASKS) ''initrd-standard-mask-missing'' 78 (
     requireM (\<not> list_ex unknown_definition listing) ''initrd-unreviewed-nvpcr-definition'' 78 (
     requireM (after = before) ''initrd-changed-during-review'' 78 (
     ret review)))))))))))))"

end
