(* ===== verification/BootBuild.thy ===== *)
theory BootBuild
  imports TpmProfile
begin

text \<open>
  The boot artifacts: \<^verbatim>\<open>scripts/hermes/unattended/boot_build.py\<close> (the signed unified kernel image),
  \<^verbatim>\<open>firmware.py\<close> (a variable store with the enrolled certificate), \<^verbatim>\<open>efi_media.py\<close> (the installer disk) and
  \<^verbatim>\<open>lab_enroll_boot.py\<close> (the boot manager of the disposable guest). The lookup of a program on the path is a
  parameter; the locations given to the commands are absolute.
\<close>

section \<open>The unified kernel image\<close>

definition resolved :: "fsys \<Rightarrow> path \<Rightarrow> path" where
  "resolved fs p = (case follow 40 fs p of None \<Rightarrow> p | Some q \<Rightarrow> q)"

definition toolchain :: "(string \<Rightarrow> path option) \<Rightarrow> ('x world, path \<times> path) prog" where
  "toolchain found =
     requireM (found ''ukify'' \<noteq> None \<and> found ''sbsign'' \<noteq> None \<and> found ''sbverify'' \<noteq> None) ''missing-uki-tools'' 69 (
     requireM (found ''systemctl'' \<noteq> None) ''missing-systemd-tools'' 69 (
     bindM (getsM files) (\<lambda>fs.
     let library = butlast (butlast (resolved fs (the (found ''systemctl'')))) @ [''lib'', ''systemd''] in
     requireM (is_file_at fs (library @ [''systemd-measure''])) ''missing-systemd-measure'' 69 (
     ret (the (found ''ukify''), library)))))"

definition UKI_INPUTS :: "string list" where
  "UKI_INPUTS = [''linux'', ''initrd'', ''osrel'', ''cmdline'', ''stub'']"

definition signing_key :: "path \<Rightarrow> ('x world, unit) prog" where
  "signing_key key =
     bindM (protectedM key None) (\<lambda>p. bindM (statM p) (\<lambda>n. bindM (getsM euid) (\<lambda>me.
     requireM (node_uid n = me \<and> \<not> open_to_others n) ''boot-signing-key-not-private'' 78 (ret ()))))"

text \<open>The two keys are two files and two keys, and the public key is that of the private one.\<close>

definition check_keys :: "'x env \<Rightarrow> path \<Rightarrow> path \<Rightarrow> path \<Rightarrow> path \<Rightarrow> ('x world, unit) prog" where
  "check_keys e sb_key sb_cert pcr_key pcr_public =
     bindM (forM [sb_key, pcr_key] signing_key) (\<lambda>_.
     bindM (getsM files) (\<lambda>fs.
     requireM (resolved fs sb_key \<noteq> resolved fs pcr_key) ''boot-signing-roles-not-separated'' 78 (
     bindM (protectedM sb_cert None) (\<lambda>_.
     bindM (protectedM pcr_public None) (\<lambda>_.
     bindM (runM (cmd e) [''openssl'', ''rsa'', ''-pubin'', ''-in'', path_text pcr_public, ''-noout''] None) (\<lambda>_.
     bindM (runM (cmd e) [''openssl'', ''pkey'', ''-in'', path_text pcr_key, ''-pubout'', ''-outform'', ''DER''] None) (\<lambda>own.
     bindM (runM (cmd e) [''openssl'', ''pkey'', ''-pubin'', ''-in'', path_text pcr_public, ''-outform'', ''DER''] None) (\<lambda>given.
     requireM (own = given) ''pcr-signing-key-mismatch'' 78 (
     bindM (runM (cmd e) [''openssl'', ''pkey'', ''-in'', path_text sb_key, ''-pubout'', ''-outform'', ''DER''] None) (\<lambda>other.
     requireM (own \<noteq> other) ''boot-signing-roles-not-separated'' 78 (ret ())))))))))))"

definition freeze_input :: "path \<Rightarrow> string \<times> path \<Rightarrow> ('x world, unit) prog" where
  "freeze_input d = (\<lambda>(name, src). bindM (copyfileM src (d @ [name])) (\<lambda>_. chmodM (d @ [name]) 384))"

definition installed_options :: "string list \<Rightarrow> bool" where
  "installed_options os \<longleftrightarrow> list_ex (\<lambda>x. startswith x ''root='') os \<and> list_ex (\<lambda>x. startswith x ''rd.luks.uuid='') os
     \<and> ''rd.luks.options=tpm2-device=auto'' \<in> set os"

definition installer_options :: "string list \<Rightarrow> bool" where
  "installer_options os \<longleftrightarrow> ''inst.stage2=hd:LABEL=Fedora-S-dvd-x86_64-44'' \<in> set os
     \<and> ''inst.ks=hd:LABEL=OEMDRV:/ks.cfg'' \<in> set os"

definition unsafe_option :: "string \<Rightarrow> bool" where
  "unsafe_option x \<longleftrightarrow> x \<in> set [''selinux=0'', ''enforcing=0'', ''rd.luks=0'', ''rd.break'']
     \<or> startswith x ''init='' \<or> startswith x ''rdinit='' \<or> startswith x ''rd.break=''"

definition check_command_line :: "string \<Rightarrow> string \<Rightarrow> string res" where
  "check_command_line purpose text =
     (let line = strip text; os = words_acc [] line in
      requireE (line \<noteq> [] \<and> \<not> has_line_break_or_nul line) ''invalid-uki-command-line'' 78 (
      requireE (purpose \<noteq> ''installed'' \<or> installed_options os) ''missing-uki-encrypted-root-policy'' 78 (
      requireE (purpose = ''installed'' \<or> installer_options os) ''invalid-installer-command-line'' 78 (
      requireE (\<not> list_ex unsafe_option os) ''unsafe-uki-command-line'' 78 (Inr line)))))"

definition uki_phases :: "string \<Rightarrow> string list" where
  "uki_phases purpose =
     (if purpose = ''installed''
      then [''enter-initrd'', ''enter-initrd:leave-initrd'', ''enter-initrd:leave-initrd:sysinit'',
        ''enter-initrd:leave-initrd:sysinit:ready'']
      else [''sysinit'', ''sysinit:ready''])"

definition ukify_args :: "path \<Rightarrow> path \<Rightarrow> path \<Rightarrow> path \<Rightarrow> path \<Rightarrow> path \<Rightarrow> path \<Rightarrow> string \<Rightarrow> string list" where
  "ukify_args ukify library d sb_key sb_cert pcr_key pcr_public purpose =
     [path_text ukify, ''build'', ''--config=/dev/null'', ''--efi-arch=x64'', ''--no-sign-kernel'',
      ''--linux='' @ path_text (d @ [''linux'']), ''--initrd='' @ path_text (d @ [''initrd'']),
      ''--os-release=@'' @ path_text (d @ [''osrel'']), ''--cmdline=@'' @ path_text (d @ [''cmdline'']),
      ''--stub='' @ path_text (d @ [''stub'']), ''--tools='' @ path_text library,
      ''--signtool=sbsign'', ''--secureboot-private-key='' @ path_text sb_key,
      ''--secureboot-certificate='' @ path_text sb_cert, ''--pcr-private-key='' @ path_text pcr_key,
      ''--pcr-public-key='' @ path_text pcr_public, ''--pcr-banks=sha256'',
      ''--phases='' @ join_with '' '' (uki_phases purpose), ''--output='' @ path_text (d @ [''hermes.efi''])]"

definition UKI_SECTIONS :: "string list" where
  "UKI_SECTIONS = [''.linux'', ''.initrd'', ''.cmdline'', ''.osrel'', ''.pcrpkey'', ''.pcrsig'']"

text \<open>\<^verbatim>\<open>all(name in value for name in names)\<close>\<close>

fun contains_all :: "json \<Rightarrow> string list \<Rightarrow> bool res" where
  "contains_all v [] = Inr True"
| "contains_all v (n # ns) = bindE (contains_str v n) (\<lambda>b. if b then contains_all v ns else Inr False)"

definition digest_of :: "'x env \<Rightarrow> path \<Rightarrow> string \<Rightarrow> (string \<times> json) list \<Rightarrow> ('x world, (string \<times> json) list) prog" where
  "digest_of e d name ds = bindM (digestM (sha256 e) (d @ [name])) (\<lambda>x. ret (ds @ [(name, JStr x)]))"

text \<open>What happens in the temporary directory, up to the exclusive publication of the image.\<close>

definition assemble_uki ::
  "'x env \<Rightarrow> (string \<times> path) list \<Rightarrow> path \<Rightarrow> path \<Rightarrow> path \<Rightarrow> path \<Rightarrow> path \<Rightarrow> path \<times> path \<Rightarrow> string \<Rightarrow> path
     \<Rightarrow> ('x world, (string \<times> json) list) prog" where
  "assemble_uki e inputs output sb_key sb_cert pcr_key pcr_public programs purpose d =
     bindM (forM inputs (freeze_input d)) (\<lambda>_.
     bindM (read_textM (d @ [''cmdline''])) (\<lambda>text.
     bindM (liftE (check_command_line purpose text)) (\<lambda>line.
     bindM (atomicM (d @ [''cmdline'']) line) (\<lambda>_.
     bindM (foldM (map fst inputs) [] (digest_of e d)) (\<lambda>unsigned.
     bindM (runM (cmd e) (ukify_args (fst programs) (snd programs) d sb_key sb_cert pcr_key pcr_public purpose) None) (\<lambda>_.
     let result = d @ [''hermes.efi''] in
     bindM (runM (cmd e) [''sbverify'', ''--cert'', path_text sb_cert, path_text result] None) (\<lambda>_.
     bindM (runM (cmd e) [path_text (fst programs), ''--json=short'', ''inspect'', path_text result] None) (\<lambda>info.
     bindM (liftE (bindE (decode info) (\<lambda>sections. contains_all sections UKI_SECTIONS))) (\<lambda>whole.
     requireM whole ''incomplete-signed-uki'' 78 (
     bindM (chmodM result 384) (\<lambda>_.
     bindM (linkM result output) (\<lambda>_. ret unsigned))))))))))))"

definition build_uki ::
  "'x env \<Rightarrow> (string \<Rightarrow> path option) \<Rightarrow> (string \<times> path) list \<Rightarrow> path \<Rightarrow> path \<Rightarrow> path \<Rightarrow> path \<Rightarrow> path \<Rightarrow> string
     \<Rightarrow> ('x world, json) prog" where
  "build_uki e found inputs output sb_key sb_cert pcr_key pcr_public purpose =
     requireM (purpose \<in> {''installed'', ''installer''}) ''invalid-uki-purpose'' 78 (
     requireM (same_set (map fst inputs) UKI_INPUTS) ''invalid-uki-inputs'' 78 (
     bindM (forM (map snd inputs) (\<lambda>p. bindM (protectedM p None) (\<lambda>_. ret ()))) (\<lambda>_.
     bindM (check_keys e sb_key sb_cert pcr_key pcr_public) (\<lambda>_.
     bindM (existsM output) (\<lambda>x. bindM (is_linkM output) (\<lambda>l.
     requireM (\<not> x \<and> \<not> l) ''uki-output-exists'' 78 (
     bindM (toolchain found) (\<lambda>programs.
     bindM (temporaryM e (butlast output) ''.uki-''
       (assemble_uki e inputs output sb_key sb_cert pcr_key pcr_public programs purpose)) (\<lambda>unsigned.
     bindM (digestM (sha256 e) output) (\<lambda>uki.
     bindM (digestM (sha256 e) sb_cert) (\<lambda>cert.
     bindM (digestM (sha256 e) pcr_public) (\<lambda>pcr.
     ret (JObj [(''ok'', JBool True), (''stage'', JStr ''uki-built''), (''uki_sha256'', JStr uki), (''inputs'', JObj unsigned),
       (''secureboot_certificate_sha256'', JStr cert), (''pcr_public_key_sha256'', JStr pcr), (''pcr_bank'', JStr ''sha256''),
       (''signed_pcr'', JInt 11), (''phases'', JList (map JStr (uki_phases purpose))), (''purpose'', JStr purpose),
       (''boot_verified'', JBool False)])))))))))))))"

section \<open>The variable store\<close>

text \<open>\<^verbatim>\<open>bytes.fromhex\<close>: pairs of digits of either case, with ASCII space between the pairs.\<close>

function fromhex :: "string \<Rightarrow> string res" where
  "fromhex s =
     (case dropWhile is_bspace s of
        [] \<Rightarrow> Inr []
      | [c] \<Rightarrow> Inl ValueError
      | c # d # r \<Rightarrow>
          (case (hex_val c, hex_val d) of
             (Some x, Some y) \<Rightarrow> bindE (fromhex r) (\<lambda>bs. Inr (ascii (16 * x + y) # bs))
           | _ \<Rightarrow> Inl ValueError))"
  by auto

termination
proof (relation "measure length")
  fix s :: string and c r d r' x y
  assume "dropWhile is_bspace s = c # r" "r = d # r'"
  moreover have "length (dropWhile is_bspace s) \<le> length s" by (rule length_dropWhile_le)
  ultimately show "(r', s) \<in> measure length" by simp
qed simp

declare fromhex.simps [simp del]

definition variable_step :: "json \<Rightarrow> (json \<times> string) list \<Rightarrow> (json \<times> string) list res" where
  "variable_step item vars =
     bindE (idx item ''name'') (\<lambda>name.
     bindE (bindE (idx item ''data'') (\<lambda>d. if is_str d then fromhex (str_of d) else Inl TypeError)) (\<lambda>bytes.
     if hashable name then Inr ((name, bytes) # vars) else Inl TypeError))"

definition firmware_variables :: "string \<Rightarrow> (json \<times> string) list res" where
  "firmware_variables raw =
     bindE (decode raw) (\<lambda>v. bindE (idx v ''variables'') (\<lambda>xs. bindE (iterated xs) (\<lambda>items. foldE variable_step items [])))"

definition enrolled_store :: "(json \<times> string) list \<Rightarrow> string \<Rightarrow> bool" where
  "enrolled_store vars der \<longleftrightarrow>
     (let value = map_of vars; or_empty = (\<lambda>x. case x of None \<Rightarrow> [] | Some b \<Rightarrow> b) in
      value (JStr ''SecureBootEnable'') = Some [ascii 1] \<and> value (JStr ''CustomMode'') = Some [ascii 0]
      \<and> substr der (or_empty (value (JStr ''PK''))) \<and> substr der (or_empty (value (JStr ''db''))))"

definition enroll_args :: "path \<Rightarrow> path \<Rightarrow> path \<Rightarrow> path \<Rightarrow> string list" where
  "enroll_args template certificate store record =
     [''virt-fw-vars'', ''--input'', path_text template, ''--output'', path_text store, ''--enroll-cert'', path_text certificate,
      ''--microsoft-db=uefi11'', ''--microsoft-kek=all'', ''--add-db'', ''e9a063fd-54b5-4b71-9d0d-3a346a55f826'',
      path_text certificate, ''--distro-keys=fedora'', ''--sb'', ''--output-json'', path_text record]"

definition enroll_store :: "'x env \<Rightarrow> path \<Rightarrow> path \<Rightarrow> path \<Rightarrow> string \<Rightarrow> path \<Rightarrow> ('x world, unit) prog" where
  "enroll_store e template certificate output der d =
     (let store = d @ [''vars.fd'']; record = d @ [''vars.json''] in
      bindM (runM (cmd e) (enroll_args template certificate store record) None) (\<lambda>_.
      bindM (readM record) (\<lambda>raw.
      bindM (liftE (firmware_variables raw)) (\<lambda>vars.
      requireM (enrolled_store vars der) ''firmware-enrollment-verification-failed'' 78 (
      bindM (chmodM store 384) (\<lambda>_. linkM store output))))))"

definition prepare_firmware :: "'x env \<Rightarrow> path \<Rightarrow> path \<Rightarrow> path \<Rightarrow> ('x world, json) prog" where
  "prepare_firmware e template certificate output =
     bindM (protectedM template None) (\<lambda>_.
     bindM (protectedM certificate None) (\<lambda>_.
     bindM (existsM output) (\<lambda>x. bindM (is_linkM output) (\<lambda>l.
     requireM (\<not> x \<and> \<not> l) ''firmware-output-exists'' 78 (
     bindM (runM (cmd e) [''openssl'', ''x509'', ''-in'', path_text certificate, ''-outform'', ''DER''] None) (\<lambda>der.
     bindM (temporaryM e (butlast output) ''.firmware-'' (enroll_store e template certificate output der)) (\<lambda>_.
     bindM (digestM (sha256 e) output) (\<lambda>d.
     bindM (digestM (sha256 e) certificate) (\<lambda>c.
     ret (JObj [(''ok'', JBool True), (''stage'', JStr ''firmware-prepared''), (''firmware_sha256'', JStr d),
       (''certificate_sha256'', JStr c), (''boot_verified'', JBool False)]))))))))))"

section \<open>The installer disk\<close>

definition freeze_indexed :: "path \<Rightarrow> nat \<times> path \<Rightarrow> ('x world, unit) prog" where
  "freeze_indexed d = (\<lambda>(i, src). bindM (copyfileM src (d @ [show_nat i])) (\<lambda>_. chmodM (d @ [show_nat i]) 384))"

text \<open>The installer carries the renderer of the TPM2 profile beside this program's own source.\<close>

definition freeze_helper :: "'x env \<Rightarrow> path \<Rightarrow> string \<Rightarrow> ('x world, unit) prog" where
  "freeze_helper e d name =
     bindM (protectedM (butlast (source e) @ [name]) None) (\<lambda>p.
     bindM (readM p) (\<lambda>c.
     requireM (length c < 1024 ^ 2) ''installer-helper-too-large'' 78 (
     bindM (copyfileM p (d @ [name])) (\<lambda>_. chmodM (d @ [name]) 384))))"

definition media_sections :: "json \<Rightarrow> string \<Rightarrow> unit res" where
  "media_sections sections pcr_digest =
     bindE (get_in sections ''.pcrpkey'' ''sha256'') (\<lambda>x.
     requireE (x = JStr pcr_digest) ''installer-pcr-key-mismatch'' 78 (
     bindE (bindE (get_default sections ''.cmdline'' (JObj [])) (\<lambda>c. get_default c ''text'' (JStr []))) (\<lambda>t.
     bindE (if is_str t then Inr (words_acc [] (str_of t)) else Inl AttributeError) (\<lambda>os.
     requireE (installer_options os) ''not-a-certified-installer-uki'' 78 (Inr ())))))"

definition media_copy :: "'x env \<Rightarrow> path \<Rightarrow> path \<Rightarrow> path \<times> string \<Rightarrow> ('x world, unit) prog" where
  "media_copy e d disk = (\<lambda>(src, destination).
     let restored = d @ [''readback''] in
     bindM (digestM (sha256 e) src) (\<lambda>before.
     bindM (runM (cmd e) [''mcopy'', ''-i'', path_text disk, path_text src, destination] None) (\<lambda>_.
     bindM (runM (cmd e) [''mcopy'', ''-i'', path_text disk, destination, path_text restored] None) (\<lambda>_.
     bindM (digestM (sha256 e) src) (\<lambda>after.
     bindM (if after = before then bindM (digestM (sha256 e) restored) (\<lambda>x. ret (x = before)) else ret False) (\<lambda>same.
     requireM same ''installer-media-copy-mismatch'' 78 (unlinkM restored False)))))))"

definition media_copies :: "path \<Rightarrow> (path \<times> string) list" where
  "media_copies d = [(d @ [''0''], ''::/EFI/BOOT/BOOTX64.EFI''), (d @ [''3''], ''::/ks.cfg''),
     (d @ [''2''], ''::/tpm2-pcr-public-key.pem''), (d @ [''tpm_profile.py''], ''::/tpm_profile.py''),
     (d @ [''common.py''], ''::/common.py'')]"

definition assemble_media :: "'x env \<Rightarrow> path list \<Rightarrow> path \<Rightarrow> path \<Rightarrow> ('x world, unit) prog" where
  "assemble_media e inputs output d =
     (let disk = d @ [''oemdrv.img''] in
      bindM (forM (zip [0..<length inputs] inputs) (freeze_indexed d)) (\<lambda>_.
      bindM (forM [''tpm_profile.py'', ''common.py''] (freeze_helper e d)) (\<lambda>_.
      bindM (runM (cmd e) [''sbverify'', ''--cert'', path_text (d @ [''1'']), path_text (d @ [''0''])] None) (\<lambda>_.
      bindM (runM (cmd e) [''ukify'', ''--json=short'', ''inspect'', path_text (d @ [''0''])] None) (\<lambda>info.
      bindM (liftE (decode info)) (\<lambda>sections.
      bindM (liftE (get_in sections ''.pcrpkey'' ''sha256'')) (\<lambda>_.
      bindM (digestM (sha256 e) (d @ [''2''])) (\<lambda>pcr.
      bindM (liftE (media_sections sections pcr)) (\<lambda>_.
      bindM (createM disk (replicate (512 * 1024 ^ 2) (ascii 0)) 384) (\<lambda>_.
      bindM (runM (cmd e) [''mformat'', ''-i'', path_text disk, ''-F'', ''-v'', ''OEMDRV'', ''::''] None) (\<lambda>_.
      bindM (runM (cmd e) [''mmd'', ''-i'', path_text disk, ''::/EFI'', ''::/EFI/BOOT''] None) (\<lambda>_.
      bindM (forM (media_copies d) (media_copy e d disk)) (\<lambda>_.
      linkM disk output)))))))))))))"

definition build_media :: "'x env \<Rightarrow> path \<Rightarrow> path \<Rightarrow> path \<Rightarrow> path \<Rightarrow> path \<Rightarrow> ('x world, json) prog" where
  "build_media e uki certificate pcr_public kickstart output =
     (let inputs = [uki, certificate, pcr_public, kickstart] in
      bindM (forM inputs (\<lambda>p. bindM (protectedM p None) (\<lambda>_. ret ()))) (\<lambda>_.
      bindM (readM uki) (\<lambda>u. bindM (readM kickstart) (\<lambda>k.
      requireM (length u < 400 * 1024 ^ 2 \<and> length k < 1024 ^ 2) ''installer-media-input-too-large'' 78 (
      bindM (existsM output) (\<lambda>x. bindM (is_linkM output) (\<lambda>l.
      requireM (\<not> x \<and> \<not> l) ''installer-media-exists'' 78 (
      bindM (temporaryM e (butlast output) ''.efi-media-'' (assemble_media e inputs output)) (\<lambda>_.
      bindM (digestM (sha256 e) output) (\<lambda>d.
      ret (JObj [(''ok'', JBool True), (''stage'', JStr ''installer-media-built''), (''sha256'', JStr d),
        (''boot_verified'', JBool False)])))))))))))"

section \<open>The boot manager of the disposable guest\<close>

definition ESP_ROOT :: path where "ESP_ROOT = [''boot'', ''efi'']"
definition LAB_STATE :: path where "LAB_STATE = [''var'', ''lib'', ''hermes-lab-boot-enrollment'']"
definition LAB_SOURCE :: path where
  "LAB_SOURCE = [''usr'', ''lib'', ''systemd'', ''boot'', ''efi'', ''systemd-bootx64.efi.signed'']"
definition LAB_CERTIFICATE :: path where "LAB_CERTIFICATE = [''etc'', ''hermes-unattended'', ''uki.crt'']"

definition same_or_absent :: "path \<Rightarrow> string \<Rightarrow> ('x world, unit) prog" where
  "same_or_absent p expected =
     bindM (is_linkM p) (\<lambda>l.
     requireM (\<not> l) ''unsafe-lab-enrollment-path'' 78 (
     bindM (existsM p) (\<lambda>x.
     if x then bindM (read_protectedM p (Some 0)) (\<lambda>c.
       requireM (c = expected) ''lab-enrollment-file-conflict'' 78 (ret ()))
     else ret ())))"

definition loader_config :: string where
  "loader_config = text_lines [''default hermes-enrollment.efi'', ''timeout 0'', ''editor no'', ''auto-entries no'']"

definition install_target :: "path \<times> string \<Rightarrow> ('x world, unit) prog" where
  "install_target = (\<lambda>(p, c).
     bindM (mkdir_allM (butlast p) 493) (\<lambda>_.
     bindM (existsM p) (\<lambda>x.
     if x then ret () else bindM (atomicM p c) (\<lambda>_. chmodM p 420))))"

definition check_lab :: "string \<Rightarrow> ('x world, unit) prog" where
  "check_lab expected_uuid =
     bindM (getsM euid) (\<lambda>me.
     requireM (me = 0) ''lab-enrollment-requires-root'' 78 (
     bindM (read_textM PRODUCT_UUID) (\<lambda>u.
     requireM (strip u = expected_uuid) ''lab-domain-identity-mismatch'' 78 (
     bindM (read_textM STAGE_MARKER) (\<lambda>m.
     requireM (strip m = ''hermes-disposable-tpm-stage-v1'') ''lab-tpm-stage-marker-missing'' 78 (ret ()))))))"

definition verify_manager :: "'x env \<Rightarrow> string \<Rightarrow> path \<Rightarrow> ('x world, unit) prog" where
  "verify_manager e expected p =
     bindM (read_protectedM p (Some 0)) (\<lambda>c.
     requireM (sha256 e c = expected) ''lab-installed-boot-manager-mismatch'' 78 (ret ()))"

definition lab_journal :: "json \<Rightarrow> string \<Rightarrow> json" where
  "lab_journal binding stage =
     JObj [(''binding'', binding), (''stage'', JStr stage), (''certification'', JStr ''pending'')]"

definition known_binding :: "path \<Rightarrow> json \<Rightarrow> ('x world, unit) prog" where
  "known_binding record binding =
     bindM (existsM record) (\<lambda>x.
     if x then
       bindM (read_protectedM record (Some 0)) (\<lambda>raw.
       bindM (liftE (bindE (decode raw) (\<lambda>v. idx v ''binding''))) (\<lambda>b.
       requireM (py_eq b binding) ''lab-enrollment-inputs-changed'' 78 (ret ())))
     else ret ())"

text \<open>The targets are written only where they are absent; what is there already must be the same.\<close>

definition install_lab :: "'x env \<Rightarrow> path \<Rightarrow> string \<Rightarrow> ('x world, json) prog" where
  "install_lab e d expected_uuid =
     (let manager = d @ [''boot-manager.efi'']; previous = d @ [''previous.efi'']; cert = d @ [''uki.crt''];
          record = LAB_STATE @ [''state.json'']; recovery = ESP_ROOT @ [''EFI'', ''Linux'', PREVIOUS] in
      bindM (digestM (sha256 e) manager) (\<lambda>dm. bindM (digestM (sha256 e) previous) (\<lambda>dp. bindM (digestM (sha256 e) cert) (\<lambda>dc.
      let binding = JObj [(''boot-manager.efi'', JStr dm), (''previous.efi'', JStr dp), (''uki.crt'', JStr dc),
            (''domain_uuid'', JStr expected_uuid)] in
      bindM (is_linkM LAB_STATE) (\<lambda>l.
      requireM (\<not> l) ''unsafe-lab-enrollment-state'' 78 (
      bindM (mkdirM LAB_STATE 448 True) (\<lambda>_.
      bindM (known_binding record binding) (\<lambda>_.
      bindM (readM manager) (\<lambda>cm. bindM (readM previous) (\<lambda>cp. bindM (readM cert) (\<lambda>cc.
      let targets = [(LAB_SOURCE, cm), (recovery, cp), (LAB_CERTIFICATE, cc),
            (ESP_ROOT @ [''loader'', ''loader.conf''], loader_config)] in
      bindM (forM targets (\<lambda>(p, c). same_or_absent p c)) (\<lambda>_.
      bindM (atomicM record (canonical (lab_journal binding ''installing''))) (\<lambda>_.
      bindM (forM targets install_target) (\<lambda>_.
      bindM (runM (cmd e) [''bootctl'', ''--esp-path=/boot/efi'', ''install''] None) (\<lambda>_.
      bindM (forM [ESP_ROOT @ [''EFI'', ''systemd'', ''systemd-bootx64.efi''], ESP_ROOT @ [''EFI'', ''BOOT'', ''BOOTX64.EFI'']]
        (verify_manager e dm)) (\<lambda>_.
      bindM (digestM (sha256 e) recovery) (\<lambda>now.
      requireM (now = dp) ''lab-recovery-uki-changed'' 78 (
      bindM (runM (cmd e) [''bootctl'', ''--esp-path=/boot/efi'', ''is-installed''] None) (\<lambda>_.
      bindM (atomicM record (canonical (lab_journal binding ''installed-awaiting-boot''))) (\<lambda>_.
      ret (lab_journal binding ''installed-awaiting-boot'')))))))))))))))))))))"

definition enroll_lab :: "'x env \<Rightarrow> path \<Rightarrow> string \<Rightarrow> ('x world, json) prog" where
  "enroll_lab e d expected_uuid =
     bindM (check_lab expected_uuid) (\<lambda>_.
     bindM (forM [''boot-manager.efi'', ''previous.efi'', ''uki.crt'']
       (\<lambda>name. bindM (protectedM (d @ [name]) (Some 0)) (\<lambda>_. ret ()))) (\<lambda>_.
     bindM (forM [''boot-manager.efi'', ''previous.efi'']
       (\<lambda>name. runs e [''sbverify'', ''--cert'', path_text (d @ [''uki.crt'']), path_text (d @ [name])])) (\<lambda>_.
     bindM (runM (cmd e) [''mokutil'', ''--sb-state''] None) (\<lambda>sb.
     requireM (bstrip sb = ''SecureBoot enabled'') ''secure-boot-disabled'' 78 (
     bindM (read_protectedM (ESP_ROOT @ [''EFI'', ''fedora'', ''shimx64.efi'']) (Some 0)) (\<lambda>shim.
     bindM (digestM (sha256 e) (d @ [''previous.efi''])) (\<lambda>dp.
     requireM (sha256 e shim = dp) ''lab-previous-uki-mismatch'' 78 (
     install_lab e d expected_uuid))))))))"

end
