(* ===== verification/BrokerServer.thy ===== *)
theory BrokerServer
  imports Credentials Fs
begin

text \<open>
  The process of \<^verbatim>\<open>scripts/hermes/unattended/credentials.py\<close>: the checks before it serves, the socket that the
  system hands over, and the connections one after the other. What the process finds of its socket, the time and the
  peers of the connections are arguments; the provider is asked with the administration key that was read.
\<close>

record handed_socket =
  listen_pid :: "string option"
  listen_fds :: "string option"
  process_id :: string
  unix_family :: bool
  bound_to :: string
  streaming :: bool
  accepting :: bool

definition activated_socket :: "handed_socket \<Rightarrow> string \<Rightarrow> unit res" where
  "activated_socket l expected =
     requireE (listen_pid l = Some (process_id l) \<and> listen_fds l = Some ''1'') ''socket-activation-required'' 78 (
     requireE (unix_family l \<and> bound_to l = expected \<and> streaming l \<and> accepting l) ''broker-socket-mismatch'' 78 (Inr ()))"

text \<open>The policy and the administration key of a server that may start.\<close>

definition private_state :: "fsys \<Rightarrow> nat \<Rightarrow> path \<Rightarrow> bool" where
  "private_state fs uid p \<longleftrightarrow> is_dir_at fs p \<and> \<not> is_link_at fs p \<and>
     (case node_at fs p of None \<Rightarrow> False | Some n \<Rightarrow> node_uid n = uid \<and> \<not> open_to_others n)"

definition start_broker ::
    "string \<Rightarrow> string \<Rightarrow> string \<Rightarrow> path option \<Rightarrow> handed_socket \<Rightarrow> ('x world, json \<times> string) prog" where
  "start_broker config state_dir socket credentials l =
     requireM (list_all path_absolute [config, state_dir, socket]) ''absolute-broker-paths-required'' 78 (
     bindM (read_protectedM (abs_path config) (Some 0)) (\<lambda>raw. bindM (liftE (decode raw)) (\<lambda>policy.
     bindM (getsM files) (\<lambda>fs. bindM (getsM euid) (\<lambda>me.
     requireM (private_state fs me (abs_path state_dir)) ''private-broker-state-required'' 78 (
     bindM (case credentials of None \<Rightarrow> raiseM KeyError | Some d \<Rightarrow> read_textM (d @ [''openai-admin''])) (\<lambda>admin.
     bindM (liftE (broker_policy policy)) (\<lambda>checked_policy.
     bindM (liftE (activated_socket l socket)) (\<lambda>_.
     ret (checked_policy, strip admin))))))))))"

record connection =
  peer :: int
  arrival :: int
  frame :: string

text \<open>An exception that the handler does not answer ends its connection, not the server.\<close>

definition serve_connection ::
    "'x http \<Rightarrow> 'x commands \<Rightarrow> json \<Rightarrow> path \<Rightarrow> connection \<Rightarrow> string option list \<Rightarrow> ('x world, string option list) prog" where
  "serve_connection http cmd policy st c answers =
     catchM (bindM (serve_frame http cmd policy st (arrival c) (peer c) (frame c)) (\<lambda>a. ret (answers @ [Some a])))
       (\<lambda>_. ret (answers @ [None]))"

definition serve_broker ::
    "(string \<Rightarrow> 'x http) \<Rightarrow> 'x commands \<Rightarrow> string \<Rightarrow> string \<Rightarrow> string \<Rightarrow> path option \<Rightarrow> handed_socket \<Rightarrow>
     connection list \<Rightarrow> ('x world, string option list) prog" where
  "serve_broker http cmd config state_dir socket credentials l cs =
     bindM (start_broker config state_dir socket credentials l) (\<lambda>(policy, admin).
     foldM cs [] (serve_connection (http admin) cmd policy (abs_path state_dir)))"

section \<open>Facts\<close>

text \<open>A server that starts has an accepted policy, a private state directory of its own and its own socket; starting changes nothing.\<close>

lemma start_broker_Inr:
  assumes "start_broker config state_dir socket credentials l w = (Inr (policy, admin), w')"
  shows "w' = w \<and> broker_policy policy = Inr policy \<and> private_state (files w) (euid w) (abs_path state_dir)
    \<and> bound_to l = socket \<and> accepting l \<and> listen_pid l = Some (process_id l)"
proof -
  have p: "y = x" if "broker_policy x = Inr y" for x y
    using that by (auto simp: broker_policy_def requireE_Inr_iff Let_def)
  from assms obtain d where "credentials = Some d"
    by (cases credentials) (auto simp: start_broker_def bindM_eq_iff raiseM_def requireM_eq_iff)
  with assms obtain x where "broker_policy x = Inr policy" and "w' = w"
    and "private_state (files w) (euid w) (abs_path state_dir)" and "bound_to l = socket" "accepting l"
    and "listen_pid l = Some (process_id l)"
    by (auto simp: start_broker_def bindM_eq_iff requireM_eq_iff activated_socket_def requireE_Inr_iff
        read_protectedM_def protectedM_def readM_def read_textM_def)
  with p [of x policy] show ?thesis by simp
qed

text \<open>Every connection of a server has one answer or none, in the order of the connections, and none of them stops the server.\<close>

lemma serve_connection_total: "\<exists>a. fst (serve_connection http cmd policy st c answers w) = Inr (answers @ [a])"
  by (auto simp: serve_connection_def catchM_def bindM_def ret_def split: prod.splits sum.splits)

lemma serve_connections_total:
  "\<exists>as. fst (foldM cs answers (serve_connection http cmd policy st) w) = Inr (answers @ as) \<and> length as = length cs"
proof (induction cs arbitrary: answers w)
  case Nil
  then show ?case by (simp add: ret_def)
next
  case (Cons c cs)
  obtain x w1 where s: "serve_connection http cmd policy st c answers w = (x, w1)" by fastforce
  with serve_connection_total [of http cmd policy st c answers w] obtain a where x: "x = Inr (answers @ [a])" by auto
  with Cons [of "answers @ [a]" w1] obtain as where
    "fst (foldM cs (answers @ [a]) (serve_connection http cmd policy st) w1) = Inr (answers @ a # as)" "length as = length cs"
    by auto
  with s x show ?case by (intro exI [of _ "a # as"]) (simp add: bindM_def)
qed

end
