(* ===== verification/ControllerFacts.thy ===== *)
theory ControllerFacts
  imports Controller
begin

text \<open>
  Facts on \<^verbatim>\<open>controller.py\<close>: the dispatcher understands every request that the controller sends, the
  loop of \<^verbatim>\<open>converge\<close> ends, and the credential broker is only asked for a lease that the state file of
  the target already names.
\<close>

section \<open>Frames\<close>

text \<open>A canonical text is one line.\<close>

definition one_line :: "string \<Rightarrow> bool" where
  "one_line s \<longleftrightarrow> newline \<notin> set s"

lemma one_line_simps [simp]:
  "one_line []" "one_line (s @ t) \<longleftrightarrow> one_line s \<and> one_line t" "one_line (c # s) \<longleftrightarrow> c \<noteq> newline \<and> one_line s"
  by (auto simp: one_line_def)

lemma one_line_join: "one_line sep \<Longrightarrow> (\<And>s. s \<in> set xs \<Longrightarrow> one_line s) \<Longrightarrow> one_line (join_with sep xs)"
  by (induction sep xs rule: join_with.induct) auto

lemma one_line_escapes: "list_all (\<lambda>u. one_line (escape u)) [0..<128]"
  by code_simp

lemma one_line_json_str:
  assumes "ascii_only s"
  shows "one_line (json_str s)"
proof -
  have "one_line (escape (of_char c))" if "c \<in> set s" for c
    using assms that one_line_escapes by (auto simp: ascii_only_def list_all_iff)
  then have "one_line (concat (map escape (map of_char s)))" by (induction s) auto
  with assms show ?thesis by (simp add: json_str_def codepoints_def utf8_dec_ascii newline_def)
qed

lemma one_line_digits: "list_all is_digit s \<Longrightarrow> one_line s"
proof -
  have "\<not> is_digit newline" by code_simp
  then show "list_all is_digit s \<Longrightarrow> one_line s" by (metis list_all_iff one_line_def)
qed

lemma one_line_dumps: "plain v \<Longrightarrow> one_line (dumps v)"
proof (induction v)
  case (JInt i)
  then show ?case using show_nat_digits by (simp add: show_int_def one_line_digits newline_def)
next
  case (JList xs)
  then show ?case by (auto simp: list_all_iff newline_def intro!: one_line_join)
next
  case (JObj kvs)
  have "one_line (dump_pair (k, v))" if "(k, v) \<in> set kvs" for k v
    using JObj.IH [of "(k, v)" v] JObj.prems that by (auto simp: list_all_iff one_line_json_str newline_def)
  then show ?case unfolding dumps_JObj by (auto simp: newline_def intro!: one_line_join)
qed (simp_all add: one_line_json_str newline_def)

lemma header_canonical:
  assumes "plain v" and "length (canonical v) \<le> 65536"
  shows "header_line (canonical v @ rest) = canonical v"
proof -
  have "newline \<notin> set (dumps (jsort v))"
    using one_line_dumps [OF plain_jsort [OF assms(1)]] by (simp add: one_line_def)
  then have "takeWhile (\<lambda>c. c \<noteq> newline) (canonical v @ rest) = dumps (jsort v)"
    by (simp add: canonical_def takeWhile_append takeWhile_eq_all_conv)
  with assms(2) show ?thesis by (simp add: header_line_def canonical_def)
qed

lemma dispatch_fields: "jget (dispatch_message a vs) ''schema'' = JStr ''hermes-dispatch-v1''"
    "jget (dispatch_message a vs) ''action'' = JStr a"
  by (simp_all add: dispatch_message_def jget_def)

lemma keys_jsort: "set (keys_of (jsort v)) = set (keys_of v)"
  by (cases v) (force simp: keys_of_def image_iff)+

lemma fields_jsort: "fields_are (jsort v) fs = fields_are v fs"
proof -
  have "is_dict (jsort v) = is_dict v" by (cases v) simp_all
  then show ?thesis by (simp add: fields_are_def same_set_iff keys_jsort)
qed

lemma receipt_jsort: "is_dict m \<Longrightarrow> distinct (keys_of m) \<Longrightarrow> receipt_ok m \<Longrightarrow> receipt_ok (jsort m)"
  by (simp add: receipt_ok_def is_str_iff jget_jsort keys_of_def) auto


section \<open>The loop ends\<close>

text \<open>
  What the clock promises: it does not run backwards while a command or the broker works, sleeping for
  ten seconds moves it by ten seconds at least, and it does not depend on the files. The exchange with
  the broker ends, with an answer or an exception.
\<close>

definition ticks :: "'x env \<Rightarrow> 'x peers \<Rightarrow> bool" where
  "ticks e k \<longleftrightarrow> (\<forall>a d w. mono k w \<le> mono k (snd (cmd e a d w))) \<and>
     (\<forall>w. mono k w + 10 \<le> mono k (pause e 10 w)) \<and>
     (\<forall>fs w. mono k (w\<lparr>files := fs\<rparr>) = mono k w) \<and> (\<forall>fl w. mono k (w\<lparr>faults := fl\<rparr>) = mono k w) \<and>
     (\<forall>s f w. fst (exchange k s f w) \<noteq> Inl OutOfFuel)"

text \<open>\<open>ends m\<close>: the program returns or raises a Python exception.\<close>

definition ends :: "('s, 'a) prog \<Rightarrow> bool" where
  "ends m \<longleftrightarrow> (\<forall>s. fst (m s) \<noteq> Inl OutOfFuel)"

lemma endsI: "(\<And>s. fst (m s) \<noteq> Inl OutOfFuel) \<Longrightarrow> ends m"
  by (simp add: ends_def)

lemma ends_bind [intro!]: "ends m \<Longrightarrow> (\<And>x. ends (k x)) \<Longrightarrow> ends (bindM m k)"
  by (auto simp: ends_def bindM_def split: prod.splits sum.splits) (metis fst_conv)+

lemma ends_pure [intro!]:
  "ends (ret x)" "ends (getsM f)" "ends recall" "ends (remember g)" "err \<noteq> OutOfFuel \<Longrightarrow> ends (raiseM err)"
  "r \<noteq> Inl OutOfFuel \<Longrightarrow> ends (liftE r)" "ends (runM c a d)" "ends (atomicM p t)"
  by (auto simp: ends_def ret_def getsM_def recall_def remember_def raiseM_def liftE_def runM_def atomicM_def Let_def
      split: prod.splits outcome.splits list.splits)

lemma ends_if [intro!]: "(b \<Longrightarrow> ends m) \<Longrightarrow> (\<not> b \<Longrightarrow> ends n) \<Longrightarrow> ends (if b then m else n)"
  by simp

lemma ends_require [intro!]: "ends m \<Longrightarrow> ends (requireM c r n m)"
  by (simp add: ends_def requireM_def raiseM_def)

lemma ends_catch:
  assumes "ends m" and "\<And>x. x \<noteq> OutOfFuel \<Longrightarrow> ends (h x)"
  shows "ends (catchM m h)"
proof (rule endsI)
  fix s
  obtain r t where m: "m s = (r, t)" by fastforce
  then have "r \<noteq> Inl OutOfFuel" using assms(1) unfolding ends_def by (metis fst_conv)
  with m assms(2) show "fst (catchM m h s) \<noteq> Inl OutOfFuel"
    by (cases r) (auto simp: catchM_def ends_def)
qed

lemma ends_outside [intro!]: "ends m \<Longrightarrow> ends (outside m)"
  by (auto simp: ends_def outside_def split: prod.splits) (metis fst_conv)

lemma decode_ends [simp]: "decode raw \<noteq> Inl OutOfFuel"
  using loads_fuel [of raw] by (auto simp: decode_def split: sum.splits exn.splits)

lemma idx_ends [simp]: "idx v k \<noteq> Inl OutOfFuel"
  by (cases v) (auto split: option.splits)

lemma ends_dispatch_request [intro!]: "ends (dispatch_request e config action vs)"
  unfolding dispatch_request_def by auto

lemma ends_save [intro!]: "ends (save_state p)"
  unfolding save_state_def by blast

lemma with_snapshot_ends [simp]: "with_snapshot h v \<noteq> Inl OutOfFuel"
  by (simp add: with_snapshot_def)

lemma ends_finish:
  assumes "ticks e k"
  shows "ends (finish e k config p result)"
proof -
  have "client_result raw \<noteq> Inl OutOfFuel" for raw
    by (auto simp: client_result_def requireE_def bindE_def getE_def split: sum.splits)
  then have c: "ends (credential_request k config op l)" for op l
    unfolding credential_request_def using assms by (intro ends_bind ends_pure) (simp_all add: ends_def ticks_def)
  have "ends (drop_previous k config p)" unfolding drop_previous_def Let_def set_key_def using c by auto
  moreover have "ends (retain_backups (cmd e) h sn config)" for h sn
    unfolding retain_backups_def Let_def thenM_def by auto
  then have "ends (retire_backups e config p)" unfolding retire_backups_def set_key_def
    by auto
  ultimately show ?thesis unfolding finish_def by auto
qed

text \<open>Time does not run backwards.\<close>

interpretation later: guarantee "\<lambda>s t. mono k (snd s) \<le> mono k (snd t)" for k :: "'x peers"
  by unfold_locales auto

lemma later_outside:
  assumes "\<And>w. mono k w \<le> mono k (snd (m w))"
  shows "moves (\<lambda>s t. mono k (snd s) \<le> mono k (snd t)) (outside m)"
  using assms by (auto simp: moves_def outside_def split: prod.splits) (metis snd_conv)

lemma later_request:
  assumes "ticks e k"
  shows "mono k w \<le> mono k (snd (dispatch_request e config action vs w))"
  using assms
  by (auto simp: dispatch_request_def bindM_def requireM_def liftE_def ret_def raiseM_def ticks_def
      split: prod.splits sum.splits) (metis snd_conv snd_runM)+

lemma later_ask:
  assumes "ticks e k"
  shows "moves (\<lambda>s t. mono k (snd s) \<le> mono k (snd t)) (ask e config operation binding)"
  unfolding ask_def by (intro later.moves_catch later.moves_bind later_outside later_request [OF assms] later.moves_pure)
    (auto simp: moves_def recall_def bindM_def ret_def raiseM_def)

lemma ends_ask: "ends (ask e config operation binding)"
  unfolding ask_def by (intro ends_catch) auto

lemma later_save: "ticks e k \<Longrightarrow> moves (\<lambda>s t. mono k (snd s) \<le> mono k (snd t)) (save_state p)"
  by (auto simp: moves_def save_state_def bindM_def recall_def outside_def atomicM_def Let_def ticks_def world.defs
      split: prod.splits list.splits)

text \<open>
  C19 (the controller gives up in time): with a clock that never runs backwards and a sleep that lasts as
  long as it says, the loop of \<^verbatim>\<open>converge\<close> comes to an end within one round more than the ten-second
  pauses that fit before its deadline, whatever the host and the broker answer; for the deadline of
  3000 seconds 301 rounds are enough.
\<close>

theorem drive_terminates:
  assumes "ticks e k" and "deadline \<le> mono k w + 10 * int n"
  shows "fst (drive (Suc n) e k config binding p operation deadline (st, w)) \<noteq> Inl OutOfFuel"
  using assms(2)
proof (induction n arbitrary: st w)
  case 0
  then show ?case
    by (simp add: drive.simps bindM_def outside_def getsM_def raiseM_def)
next
  case (Suc n)
  let ?again = "bindM (outside (pauseM e 10)) (\<lambda>_. drive (Suc n) e k config binding p operation deadline)"
  have again: "fst (?again (st1, w1)) \<noteq> Inl OutOfFuel" if "mono k w \<le> mono k w1" for st1 w1
  proof -
    have "mono k w1 + 10 \<le> mono k (pause e 10 w1)" using assms(1) by (simp add: ticks_def)
    with Suc.prems that have "deadline \<le> mono k (pause e 10 w1) + 10 * int n" by simp
    from Suc.IH [OF this] show ?thesis by (simp add: bindM_def outside_def pauseM_def)
  qed
  obtain x st1 w1 where a: "ask e config operation binding (st, w) = (x, (st1, w1))" by (metis prod.collapse)
  have x: "x \<noteq> Inl OutOfFuel" using ends_ask a unfolding ends_def by (metis fst_conv)
  have t: "mono k w \<le> mono k w1" using movesD [OF later_ask [OF assms(1)] a] by simp
  show ?case
  proof (cases "\<exists>result. x = Inr (Some result)")
    case True
    then obtain result where r: "x = Inr (Some result)" by blast
    obtain y st2 w2 where v: "save_state p (merged st1 result, w1) = (y, (st2, w2))" by (metis prod.collapse)
    have y: "y \<noteq> Inl OutOfFuel" using ends_save v unfolding ends_def by (metis fst_conv)
    have "mono k w \<le> mono k w2" using movesD [OF later_save [OF assms(1)] v] t by simp
    from again [OF this] ends_finish [OF assms(1)] show ?thesis
      using a r v y
      by (subst drive.simps)
        (auto simp: bindM_def outside_def getsM_def raiseM_def remember_def liftE_def requireM_def ends_def
          split: sum.splits dest: arg_cong [of _ _ "\<lambda>r. r \<noteq> Inl OutOfFuel"])
  next
    case False
    with a x again [OF t] show ?thesis
      by (subst drive.simps)
        (auto simp: bindM_def outside_def getsM_def raiseM_def split: sum.splits option.splits)
  qed
qed

section \<open>Leases are recorded before they are used\<close>

text \<open>The state file holds the canonical text of a state with the lease (or without one) of \<open>st\<close>.\<close>

definition recorded :: "path \<Rightarrow> fsys \<Rightarrow> json \<Rightarrow> bool" where
  "recorded p fs st \<longleftrightarrow> (\<exists>v m u. fs p = Some (NFile (canonical v) m u) \<and>
     jget v ''lease'' = jget st ''lease'' \<and> has_key v ''lease'' = has_key st ''lease'')"

text \<open>
  The frames that may go to the broker: the issue of the lease that the state file names, and the
  revocation of another one.
\<close>

definition permitted :: "path \<Rightarrow> fsys \<Rightarrow> string \<Rightarrow> bool" where
  "permitted p fs frame \<longleftrightarrow> (\<exists>st l. recorded p fs st \<and>
     (frame = credential_frame ''issue'' ''production'' l \<and> has_key st ''lease'' \<and> jget st ''lease'' = l \<or>
      frame = credential_frame ''revoke'' ''production'' l \<and> \<not> py_eq l (jget st ''lease'')))"

text \<open>Nothing outside the controller writes its state file.\<close>

definition undisturbed :: "path \<Rightarrow> 'x env \<Rightarrow> 'x peers \<Rightarrow> bool" where
  "undisturbed p e k \<longleftrightarrow> (\<forall>a d w. files (snd (cmd e a d w)) p = files w p) \<and>
     (\<forall>s f w. files (snd (exchange k s f w)) p = files w p) \<and>
     (\<forall>w. files (pause e 10 w) p = files w p) \<and> \<not> is_prefix [''dev'', ''shm''] p"

lemma keeps_run: "undisturbed p e k \<Longrightarrow> keeps_file p (runM (cmd e) a d)"
  by (simp add: moves_def snd_runM undisturbed_def)

lemma keeps_request: "undisturbed p e k \<Longrightarrow> keeps_file p (dispatch_request e config action vs)"
  unfolding dispatch_request_def by (intro keeps.moves_bind keeps.moves_require keeps.moves_pure keeps_run)

lemma keeps_credential: "undisturbed p e k \<Longrightarrow> keeps_file p (credential_request k config op l)"
  unfolding credential_request_def by (intro keeps.moves_bind keeps.moves_pure) (simp add: moves_def undisturbed_def)

lemma keeps_stream: "undisturbed p e k \<Longrightarrow> q \<noteq> p \<Longrightarrow> keeps_file p (streamM q (cmd e) a d)"
  by (auto simp: moves_def streamM_def undisturbed_def append_file_def split: prod.splits outcome.splits option.splits node.splits)
    (metis snd_conv)+

lemma keeps_paths:
  assumes "q \<noteq> p"
  shows "keeps_file p (mkdirM q m b)" "keeps_file p (createM q c m)"
  by (rule keeps_writes [OF assms])+

lemma keeps_removed: "\<not> is_prefix q p \<Longrightarrow> keeps_file p (remove_tree q)"
  by (auto simp: moves_def remove_tree_def modifyM_def)

lemma keeps_digest: "keeps_file p (digestM h q)"
  by (auto simp: moves_def digestM_def split: sum.splits)

lemma keeps_command_digest: "undisturbed p e k \<Longrightarrow> keeps_file p (command_digest h (cmd e) a)"
  by (auto simp: moves_def command_digest_def undisturbed_def split: prod.splits outcome.splits) (metis snd_conv)+

lemma keeps_backup: "undisturbed p e k \<Longrightarrow> keeps_file p (backup_snapshot h (cmd e) src config rid)"
  unfolding backup_snapshot_def [abs_def] Let_def
  by (rule keeps.moves_app)
    (intro keeps.moves_bind keeps.moves_require keeps.moves_pure keeps_run keeps_digest keeps_command_digest)

lemma keeps_snapshot:
  assumes "undisturbed p e k"
  shows "keeps_file p (pull_snapshot e config binding rid)"
proof -
  have t: "\<not> is_prefix ([''dev'', ''shm'', x] @ r) p" for x r
  proof
    assume "is_prefix ([''dev'', ''shm'', x] @ r) p"
    then obtain t where "p = [''dev'', ''shm'', x] @ r @ t" by (auto simp: is_prefix_iff)
    with assms show False by (simp add: undisturbed_def is_prefix_def)
  qed
  have n: "[''dev'', ''shm'', x] @ r \<noteq> p" for x r
  proof
    assume e: "[''dev'', ''shm'', x] @ r = p"
    have "is_prefix ([''dev'', ''shm'', x] @ r) p" unfolding e by (simp add: is_prefix_def)
    with t show False by blast
  qed
  show ?thesis
    unfolding pull_snapshot_def fetch_backup_def Let_def
    using t [of _ "[]"] n [of _ "[]"] n
    by (intro moves_gets keeps.moves_bind [OF keeps_request [OF assms]] keeps.moves_bind keeps.moves_require keeps.moves_pure
        keeps.moves_finally keeps_stream [OF assms] keeps_digest keeps_backup [OF assms] keeps_paths keeps_removed) auto
qed

text \<open>The memory and the file name the same lease.\<close>

abbreviation in_step :: "path \<Rightarrow> json \<times> 'x world \<Rightarrow> bool" where
  "in_step p s \<equiv> recorded p (files (snd s)) (fst s)"

lemma in_step_save:
  assumes "save_state p s = (Inr u, s')"
  shows "in_step p s'" "fst s' = fst s"
proof -
  have f: "fst s' = fst s" "files (snd s') p = Some (NFile (canonical (fst s)) 384 (euid (snd s)))"
    using assms by (auto simp: save_state_def bindM_eq_iff outside_Inr dest!: atomicM_Inr)
  then show "in_step p s'" "fst s' = fst s" unfolding recorded_def by auto
qed

lemma in_step_outside:
  assumes "keeps_file p m" and "in_step p s" and "outside m s = (r, s')"
  shows "in_step p s'" "fst s' = fst s"
proof -
  have "files (snd s') p = files (snd s) p" "fst s' = fst s"
    using assms(1,3) by (auto simp: outside_def moves_def split: prod.splits) (metis snd_conv)
  with assms(2) show "in_step p s'" "fst s' = fst s" by (simp_all add: recorded_def)
qed

definition like :: "path \<Rightarrow> 'x peers \<Rightarrow> (string \<Rightarrow> string \<Rightarrow> 'x world \<Rightarrow> string res \<times> 'x world) \<Rightarrow> bool" where
  "like p k x \<longleftrightarrow> (\<forall>socket frame w. permitted p (files w) frame \<longrightarrow> x socket frame w = exchange k socket frame w)"

lemma credential_same:
  assumes "like p k x" and "permitted p (files w) (credential_frame op ''production'' l)"
  shows "credential_request (k\<lparr>exchange := x\<rparr>) config op l w = credential_request k config op l w"
  using assms by (simp add: credential_request_def like_def bindM_def)

lemma finish_same:
  assumes "like p k x" and "in_step p s"
  shows "finish e (k\<lparr>exchange := x\<rparr>) config p result s = finish e k config p result s"
proof -
  have "permitted p (files (snd s)) (credential_frame ''revoke'' ''production'' (jget (fst s) ''previous_lease''))"
    if "\<not> py_eq (jget (fst s) ''previous_lease'') (jget (fst s) ''lease'')"
    using that assms(2) unfolding permitted_def by blast
  from credential_same [OF assms(1) this]
  have "drop_previous (k\<lparr>exchange := x\<rparr>) config p s = drop_previous k config p s"
    by (auto simp: drop_previous_def Let_def bindM_def [of recall] recall_def bindM_def outside_def)
  then show ?thesis unfolding finish_def by (simp add: bindM_def)
qed

lemma give_same:
  assumes "like p k x" and "in_step p s"
  shows "give_credential e (k\<lparr>exchange := x\<rparr>) config binding p s = give_credential e k config binding p s"
  unfolding give_credential_def
proof (intro bind_cong refl outside_cong credential_same [OF assms(1)])
  fix st s1 u s2 st' s3
  assume a: "recall s = (Inr st, s1)" "recall s2 = (Inr st', s3)"
    and b: "(if has_key st ''lease'' then ret ()
      else bindM (outside (getsM (uuid k))) (\<lambda>u. bindM (set_key ''lease'' (JStr u)) (\<lambda>_. save_state p))) s1 = (Inr u, s2)"
  have "in_step p s2 \<and> has_key (fst s2) ''lease''"
  proof (cases "has_key st ''lease''")
    case True
    with a b assms(2) show ?thesis by simp
  next
    case False
    with b obtain u s4 where "save_state p s4 = (Inr (), s2)" "fst s4 = jset (fst s1) ''lease'' (JStr u)"
      by (auto simp: bindM_eq_iff set_key_def outside_Inr)
    from in_step_save [OF this(1)] this(2) show ?thesis by (simp add: has_key_def jset_def update_conv')
  qed
  with a(2) show "permitted p (files (snd s3)) (credential_frame ''issue'' ''production'' (jget st' ''lease''))"
    unfolding permitted_def by auto
qed simp_all

lemma ask_in_step:
  assumes "undisturbed p e k" and "in_step p s" and "ask e config operation binding s = (r, s')"
  shows "in_step p s' \<and> fst s' = fst s"
proof -
  obtain r1 s1 where q: "outside (dispatch_request e config operation binding) s = (r1, s1)" by (metis surj_pair)
  note in_step_outside [OF keeps_request [OF assms(1)] assms(2) q]
  with q assms(3) show ?thesis
    by (auto simp: ask_def catchM_def bindM_def recall_def ret_def raiseM_def split: sum.splits if_splits)
qed

lemma pause_in_step: "undisturbed p e k \<Longrightarrow> keeps_file p (pauseM e 10)"
  by (simp add: moves_def pauseM_def undisturbed_def)

lemma drive_same:
  assumes "like p k x" and "undisturbed p e k" and "in_step p s"
  shows "drive n e (k\<lparr>exchange := x\<rparr>) config binding p operation deadline s = drive n e k config binding p operation deadline s"
  using assms(3)
proof (induction n arbitrary: s)
  case 0
  show ?case by (subst (1 2) drive.simps) simp
next
  case (Suc n)
  let ?d = "\<lambda>k. drive n e k config binding p operation deadline"
  have again: "bindM (outside (pauseM e 10)) (\<lambda>_. ?d (k\<lparr>exchange := x\<rparr>)) t = bindM (outside (pauseM e 10)) (\<lambda>_. ?d k) t"
    if t: "in_step p t" for t
    by (rule bind_cong [OF refl]) (rule Suc.IH, rule in_step_outside(1) [OF pause_in_step [OF assms(2)] t])
  have step: "(case answer of
        None \<Rightarrow> bindM (outside (pauseM e 10)) (\<lambda>_. ?d (k\<lparr>exchange := x\<rparr>))
      | Some result \<Rightarrow>
          bindM (remember (\<lambda>st. merged st result)) (\<lambda>_.
          bindM (save_state p) (\<lambda>_.
          bindM (liftE (idx result ''stage'')) (\<lambda>stage.
          if stage = JStr ''closed'' then finish e (k\<lparr>exchange := x\<rparr>) config p result
          else requireM (in_phases stage PENDING) ''release-needs-recovery'' 75 (
            bindM (outside (pauseM e 10)) (\<lambda>_. ?d (k\<lparr>exchange := x\<rparr>))))))) t =
      (case answer of
        None \<Rightarrow> bindM (outside (pauseM e 10)) (\<lambda>_. ?d k)
      | Some result \<Rightarrow>
          bindM (remember (\<lambda>st. merged st result)) (\<lambda>_.
          bindM (save_state p) (\<lambda>_.
          bindM (liftE (idx result ''stage'')) (\<lambda>stage.
          if stage = JStr ''closed'' then finish e k config p result
          else requireM (in_phases stage PENDING) ''release-needs-recovery'' 75 (
            bindM (outside (pauseM e 10)) (\<lambda>_. ?d k)))))) t" if t: "in_step p t" for t answer
  proof (cases answer)
    case None
    then show ?thesis using again [OF t] by simp
  next
    case (Some result)
    show ?thesis unfolding Some option.case
    proof (intro bind_cong refl, goal_cases)
      case (1 u s1 v s2 stage s3)
      have i: "in_step p s3" using in_step_save(1) [OF 1(2)] 1(3) by simp
      show ?case using finish_same [OF assms(1) i] again [OF i] by (simp add: requireM_def)
    qed
  qed
  show ?case
    unfolding drive.simps [of "Suc n", unfolded diff_Suc_1 if_not_P [OF Suc_not_Zero]]
  proof (rule bind_cong)
    fix t s1
    assume "outside (getsM (mono k)) s = (Inr t, s1)"
    then have s1: "in_step p s1" using Suc.prems by (simp add: outside_def getsM_def prod_eq_iff)
    show "(if t < deadline then bindM (ask e config operation binding) (\<lambda>answer. case answer of
            None \<Rightarrow> bindM (outside (pauseM e 10)) (\<lambda>_. ?d (k\<lparr>exchange := x\<rparr>))
          | Some result \<Rightarrow>
              bindM (remember (\<lambda>st. merged st result)) (\<lambda>_.
              bindM (save_state p) (\<lambda>_.
              bindM (liftE (idx result ''stage'')) (\<lambda>stage.
              if stage = JStr ''closed'' then finish e (k\<lparr>exchange := x\<rparr>) config p result
              else requireM (in_phases stage PENDING) ''release-needs-recovery'' 75 (
                bindM (outside (pauseM e 10)) (\<lambda>_. ?d (k\<lparr>exchange := x\<rparr>)))))))
        else raiseM (Failure 69 ''reboot-recovery-required'')) s1 =
      (if t < deadline then bindM (ask e config operation binding) (\<lambda>answer. case answer of
            None \<Rightarrow> bindM (outside (pauseM e 10)) (\<lambda>_. ?d k)
          | Some result \<Rightarrow>
              bindM (remember (\<lambda>st. merged st result)) (\<lambda>_.
              bindM (save_state p) (\<lambda>_.
              bindM (liftE (idx result ''stage'')) (\<lambda>stage.
              if stage = JStr ''closed'' then finish e k config p result
              else requireM (in_phases stage PENDING) ''release-needs-recovery'' 75 (
                bindM (outside (pauseM e 10)) (\<lambda>_. ?d k))))))
        else raiseM (Failure 69 ''reboot-recovery-required'')) s1"
      by (simp, intro impI bind_cong [OF refl] step) (use ask_in_step [OF assms(2) s1] in blast)
  qed simp
qed

lemma back_up_in_step:
  assumes "undisturbed p e k" and "in_step p s" and "back_up e config binding rid p s = (Inr u, s')"
  shows "in_step p s'"
proof -
  from assms(3) obtain receipt s1 s2 r s3 where
    1: "outside (pull_snapshot e config binding rid) s = (Inr receipt, s1)"
    and 2: "save_state p (jset (fst s1) ''backup'' receipt, snd s1) = (Inr (), s2)"
    and 3: "outside (dispatch_request e config ''backup-verified''
      (binding @ [(''backup_snapshot'', jget receipt ''snapshot''), (''snapshot_sha256'', jget receipt ''sha256'')])) s2 = (Inr r, s')"
    by (auto simp: back_up_def bindM_eq_iff set_key_def)
  show ?thesis by (rule in_step_outside(1) [OF keeps_request [OF assms(1)] in_step_save(1) [OF 2] 3])
qed

lemma give_in_step:
  assumes "undisturbed p e k" and "in_step p s" and "give_credential e k config binding p s = (Inr u, s')"
  shows "in_step p s'"
proof -
  from assms(3) obtain s1 l secret s2 key r where
    1: "(if has_key (fst s) ''lease'' then ret ()
      else bindM (outside (getsM (uuid k))) (\<lambda>u. bindM (set_key ''lease'' (JStr u)) (\<lambda>_. save_state p))) s = (Inr (), s1)"
    and 2: "outside (credential_request k config ''issue'' l) s1 = (Inr secret, s2)"
    and 3: "outside (dispatch_request e config ''credential'' (binding @ [(''key'', key)])) s2 = (Inr r, s')"
    by (auto simp: give_credential_def bindM_eq_iff)
  have "in_step p s1"
  proof (cases "has_key (fst s) ''lease''")
    case True
    with 1 assms(2) show ?thesis by simp
  next
    case False
    with 1 obtain t where "save_state p t = (Inr (), s1)" by (auto simp: bindM_eq_iff)
    then show ?thesis by (rule in_step_save(1))
  qed
  from in_step_outside(1) [OF keeps_credential [OF assms(1)] this 2] show ?thesis
    by (rule in_step_outside(1) [OF keeps_request [OF assms(1)] _ 3])
qed

text \<open>
  C18 (a lease is on disk before it is used, and never revoked while it is): whatever the broker would
  do when asked to issue a lease that the state file of the target does not name at that moment, or to
  revoke the one that it names, \<^verbatim>\<open>converge\<close> gives the same result and leaves the same files: it never
  asks for that.
\<close>

theorem converge_lease_recorded:
  assumes "like p k x" and "undisturbed p e k" and "recorded p (files w) st"
  shows "converge n e (k\<lparr>exchange := x\<rparr>) config manifest fingerprint p operation (st, w) =
    converge n e k config manifest fingerprint p operation (st, w)"
proof -
  let ?b = "binding_of manifest fingerprint"
  let ?rid = "str_of (jget manifest ''release_id'')"
  have req: "in_step p s'" if "in_step p s" "outside (dispatch_request e config a v) s = (r, s')" for a v s r s'
    by (rule in_step_outside(1) [OF keeps_request [OF assms(2)] that])
  have prep: "in_step p s'" if "in_step p s"
    "(if in_phases phase [''new'', ''snapshot-ready'']
      then bindM (back_up e config ?b ?rid p) (\<lambda>_. ret (JStr ''backup-verified'')) else ret phase) s = (Inr q, s')" for s s' q phase
    using that back_up_in_step [OF assms(2)] by (auto simp: bindM_eq_iff split: if_splits)
  have cred: "in_step p s'" if "in_step p s" "(if q = JStr ''backup-verified'' then give_credential e k config ?b p else ret ()) s = (Inr u, s')" for s s' q u
    using that give_in_step [OF assms(2)] by (auto split: if_splits)
  have start: "in_step p (st, w)" using assms(3) by simp
  show ?thesis
    unfolding converge_def Let_def
  proof (intro bind_cong refl, goal_cases)
    case (1 remote s1 phase s2)
    have i: "in_step p s2" using req [OF start 1(1)] 1(2) by simp
    have "bindM (outside (dispatch_request e config operation ?b)) (finish e (k\<lparr>exchange := x\<rparr>) config p) s2 =
        bindM (outside (dispatch_request e config operation ?b)) (finish e k config p) s2"
      by (rule bind_cong [OF refl]) (rule finish_same [OF assms(1) req [OF i]])
    moreover have "bindM (if in_phases phase [''new'', ''snapshot-ready'']
               then bindM (back_up e config ?b ?rid p) (\<lambda>_. ret (JStr ''backup-verified'')) else ret phase) (\<lambda>phase.
        bindM (if phase = JStr ''backup-verified'' then give_credential e (k\<lparr>exchange := x\<rparr>) config ?b p else ret ()) (\<lambda>_.
        bindM (outside (getsM (mono (k\<lparr>exchange := x\<rparr>)))) (\<lambda>t.
        drive n e (k\<lparr>exchange := x\<rparr>) config ?b p operation (t + 3000)))) s2 =
      bindM (if in_phases phase [''new'', ''snapshot-ready'']
               then bindM (back_up e config ?b ?rid p) (\<lambda>_. ret (JStr ''backup-verified'')) else ret phase) (\<lambda>phase.
        bindM (if phase = JStr ''backup-verified'' then give_credential e k config ?b p else ret ()) (\<lambda>_.
        bindM (outside (getsM (mono k))) (\<lambda>t.
        drive n e k config ?b p operation (t + 3000)))) s2"
    proof (intro bind_cong refl, goal_cases)
      case (1 q s3)
      show ?case using give_same [OF assms(1) prep [OF i 1]] by simp
    next
      case (2 q s3 u s4)
      show ?case by simp
    next
      case (3 q s3 u s4 t s5)
      have "s5 = s4" using 3(3) by (auto simp: outside_def getsM_def prod_eq_iff)
      then show ?case using drive_same [OF assms(1,2) cred [OF prep [OF i 3(1)] 3(2)]] by simp
    qed
    ultimately show ?case by simp
  qed
qed

section \<open>Concrete runs\<close>

definition demo_values :: "(string \<times> json) list" where
  "demo_values = [(''release_id'', JStr ''r-1''), (''fingerprint'', JStr ''f''), (''key'', JStr (''sk'' @ [newline]))]"


text \<open>A host that always answers the same, a broker, and a clock that moves when the controller sleeps.\<close>

definition answer_env :: "json \<Rightarrow> nat env" where
  "answer_env v = \<lparr>sha256 = (\<lambda>s. s), cmd = (\<lambda>a d w. (Exited 0 (canonical v), w)), boot = (\<lambda>w. ''b''), clock = (\<lambda>w. 0),
     rglob_rpm = (\<lambda>fs d. []), space = (\<lambda>p w. 0), account = (\<lambda>w. None), pause = (\<lambda>n w. w\<lparr>ext := ext w + n\<rparr>),
     source = [''s''], group = (\<lambda>p w. 0), wall = (\<lambda>w. 0), tar = (\<lambda>s. None), fresh = (\<lambda>w. ''x'')\<rparr>"

definition demo_peers :: "nat peers" where
  "demo_peers = \<lparr>mono = (\<lambda>w. int (ext w)), exchange = (\<lambda>s f w. (Inr (canonical (JObj [(''ok'', JBool True), (''key'', JStr ''k'')])), w)),
     which = (\<lambda>c w. True), uuid = (\<lambda>w. ''1'')\<rparr>"

definition demo_target :: path where "demo_target = [''c'', ''t.json'']"

definition start_world :: "nat world" where
  "start_world = \<lparr>files = map_of [([], NDir 493 0), ([''c''], NDir 448 0), (demo_target, NFile (canonical (JObj [])) 384 0)],
     euid = 0, busy = [], faults = [], ext = 0\<rparr>"

definition demo_answer :: "string \<Rightarrow> json" where
  "demo_answer stage = JObj [(''ok'', JBool True), (''host'', JStr ''h''), (''stage'', JStr stage)]"

definition demo_config :: json where "demo_config = JObj [(''host'', JStr ''h'')]"

theorem drive_terminates_witness:
  "fst (drive 301 (answer_env (demo_answer ''reboot-pending'')) demo_peers demo_config [] demo_target ''deploy'' 3000
     (JObj [], start_world)) \<noteq> Inl OutOfFuel"
proof -
  have "ticks (answer_env (demo_answer ''reboot-pending'')) demo_peers"
    by (simp add: ticks_def answer_env_def demo_peers_def)
  moreover have "(3000 :: int) \<le> mono demo_peers start_world + 10 * int 300" by (simp add: demo_peers_def start_world_def)
  ultimately have "fst (drive (Suc 300) (answer_env (demo_answer ''reboot-pending'')) demo_peers demo_config [] demo_target ''deploy'' 3000
     (JObj [], start_world)) \<noteq> Inl OutOfFuel"
    by (rule drive_terminates)
  then show ?thesis by simp
qed

text \<open>A broker that answers nothing but what is permitted serves the release just as well.\<close>

definition strict_exchange :: "string \<Rightarrow> string \<Rightarrow> nat world \<Rightarrow> string res \<times> nat world" where
  "strict_exchange s f w = (if permitted demo_target (files w) f then exchange demo_peers s f w else (Inl OSError, w))"

theorem converge_lease_recorded_witness:
  "fst (converge 9 (answer_env (demo_answer ''backup-verified'')) (demo_peers\<lparr>exchange := strict_exchange\<rparr>) demo_config (JObj [])
     ''f'' demo_target ''deploy'' (JObj [], start_world)) = Inl (Failure 75 ''release-needs-recovery'')"
proof -
  let ?e = "answer_env (demo_answer ''backup-verified'')"
  have "like demo_target demo_peers strict_exchange" by (simp add: like_def strict_exchange_def)
  moreover have "undisturbed demo_target ?e demo_peers"
    by (simp add: undisturbed_def answer_env_def demo_peers_def is_prefix_def demo_target_def)
  moreover have "recorded demo_target (files start_world) (JObj [])"
    by (simp add: recorded_def start_world_def demo_target_def exI [of _ "JObj []"])
  ultimately have "converge 9 ?e (demo_peers\<lparr>exchange := strict_exchange\<rparr>) demo_config (JObj []) ''f'' demo_target ''deploy'' (JObj [], start_world) =
      converge 9 ?e demo_peers demo_config (JObj []) ''f'' demo_target ''deploy'' (JObj [], start_world)"
    by (rule converge_lease_recorded)
  moreover have "fst (converge 9 ?e demo_peers demo_config (JObj []) ''f'' demo_target ''deploy'' (JObj [], start_world)) =
      Inl (Failure 75 ''release-needs-recovery'')"
    by code_simp
  ultimately show ?thesis by simp
qed

end
