(* ===== verification/CredentialsFacts.thy ===== *)
theory CredentialsFacts
  imports Credentials Fs
begin

text \<open>
  The life of a lease as a state machine: what every request does to the stage its record is in,
  whatever fails on the way.
\<close>

section \<open>Stages\<close>

datatype stage = Absent | Issuing | Named string | Ready string | Deleted string | Revoked string

text \<open>The only moves of a record. The account, once known, stays; a revoked lease is final.\<close>

inductive lease_step :: "stage \<Rightarrow> stage \<Rightarrow> bool" where
  reserve: "lease_step Absent Issuing"
| name_account: "lease_step Issuing (Named a)"
| activate: "lease_step (Named a) (Ready a)"
| drop_named: "lease_step (Named a) (Deleted a)"
| drop_ready: "lease_step (Ready a) (Deleted a)"
| prove_revoked: "lease_step (Deleted a) (Revoked a)"

inductive_cases step_from_Absent: "lease_step Absent s"
inductive_cases step_from_Revoked: "lease_step (Revoked a) s"
inductive_simps step_from_Deleted: "lease_step (Deleted a) s"

definition stage_of :: "json \<Rightarrow> stage option" where
  "stage_of r = (case (jget r ''state'', jget r ''account_id'') of
     (JStr s, JNull) \<Rightarrow> if s = ''issuing'' then Some Issuing else None
   | (JStr s, JStr a) \<Rightarrow>
       if s = ''issuing'' then Some (Named a) else if s = ''ready'' then Some (Ready a)
       else if s = ''deleted'' then Some (Deleted a) else if s = ''revoked'' then Some (Revoked a) else None
   | _ \<Rightarrow> None)"

definition good_record :: "json \<Rightarrow> bool" where
  "good_record r \<longleftrightarrow> plain r \<and> is_dict r \<and> has_key r ''state'' \<and> (has_key r ''account_id'' \<longleftrightarrow> jget r ''account_id'' \<noteq> JNull)"

definition at_stage :: "fsys \<Rightarrow> path \<Rightarrow> stage \<Rightarrow> bool" where
  "at_stage fs p s \<longleftrightarrow>
     (if s = Absent then fs p = None
      else (\<exists>r m u. fs p = Some (NFile (canonical r) m u) \<and> good_record r \<and> stage_of r = Some s))"

lemma at_stage_cong: "fs p = fs' p \<Longrightarrow> at_stage fs p s = at_stage fs' p s"
  by (simp add: at_stage_def)

lemma stage_of_not_Absent: "stage_of r \<noteq> Some Absent"
  by (auto simp: stage_of_def split: json.splits)

lemma at_stage_saved:
  "good_record r \<Longrightarrow> stage_of r = Some s \<Longrightarrow> at_stage (fs(p \<mapsto> NFile (canonical r) m u)) p s"
  using stage_of_not_Absent [of r] by (auto simp: at_stage_def)

lemma stage_of_jset_state:
  "stage_of (jset r ''state'' (JStr t)) = (case jget r ''account_id'' of
     JNull \<Rightarrow> if t = ''issuing'' then Some Issuing else None
   | JStr a \<Rightarrow> if t = ''issuing'' then Some (Named a) else if t = ''ready'' then Some (Ready a)
       else if t = ''deleted'' then Some (Deleted a) else if t = ''revoked'' then Some (Revoked a) else None
   | _ \<Rightarrow> None)"
  by (simp add: stage_of_def jget_jset split: json.split)

lemma good_record_jset_state:
  "good_record r \<Longrightarrow> ascii_only t \<Longrightarrow> good_record (jset r ''state'' (JStr t))"
  by (auto simp: good_record_def plain_jset jget_jset has_key_iff keys_jset)

lemma good_record_jset_account:
  "good_record r \<Longrightarrow> ascii_only t \<Longrightarrow> good_record (jset r ''account_id'' (JStr t))"
  by (auto simp: good_record_def plain_jset jget_jset has_key_iff keys_jset)

text \<open>What is read from a record file.\<close>

lemma read_stage:
  assumes "at_stage fs p s" and "s \<noteq> Absent"
  shows "\<exists>v. exists_at fs p \<and> bindE (read_bytes fs p) decode = Inr v \<and> good_record v \<and> stage_of v = Some s \<and> truthy v \<and> v \<noteq> JNull"
proof -
  from assms obtain r m u where f: "fs p = Some (NFile (canonical r) m u)" and g: "good_record r" and s: "stage_of r = Some s"
    by (auto simp: at_stage_def)
  from g decode_canonical_get [of r] obtain v where v: "decode (canonical r) = Inr v" "is_dict v" "plain v"
    and e: "\<And>k. jget v k = jsort (jget r k)" "\<And>k. has_key v k = has_key r k"
    by (auto simp: good_record_def)
  have n: "jsort x = JNull \<longleftrightarrow> x = JNull" "jsort x = JStr t \<longleftrightarrow> x = JStr t" for x t by (cases x; simp)+
  have "good_record v" using g v e n(1) by (simp add: good_record_def)
  moreover have "stage_of v = Some s"
    using s unfolding stage_of_def e
    by (cases "jget r ''state''"; cases "jget r ''account_id''") (auto split: if_splits)
  moreover have "truthy v"
    using \<open>good_record v\<close> by (cases v) (auto simp: good_record_def has_key_def)
  moreover have "exists_at fs p" using f by (simp add: exists_at_def node_at_plain)
  ultimately show ?thesis using f v by auto
qed

section \<open>Requests\<close>

text \<open>The record file is touched by nothing but the broker's own writes.\<close>

definition leaves_files :: "'x http \<Rightarrow> 'x commands \<Rightarrow> bool" where
  "leaves_files http cmd \<longleftrightarrow> (\<forall>m r b t w. files (snd (http m r b t w)) = files w) \<and>
     (\<forall>a d w. files (snd (cmd a d w)) = files w)"

lemma wp_call:
  assumes "leaves_files http cmd"
    and "\<And>x w'. files w' = files w \<Longrightarrow> Q x w'" and "\<And>e w'. files w' = files w \<Longrightarrow> E e w'"
  shows "wp (call http m r b t) Q E w"
proof -
  obtain o' w' where h: "http m (''/v1/'' @ r) b t w = (o', w')" by (cases "http m (''/v1/'' @ r) b t w")
  then have "files w' = files w" using assms(1) by (metis leaves_files_def snd_conv)
  with h assms(2,3) show ?thesis
    by (auto simp: wp_def call_def split: option.split sum.split)
qed

lemma wp_runM:
  assumes "leaves_files http cmd"
    and "\<And>x w'. files w' = files w \<Longrightarrow> Q x w'" and "\<And>e w'. files w' = files w \<Longrightarrow> E e w'"
  shows "wp (runM cmd a d) Q E w"
proof -
  obtain o' w' where h: "cmd a d w = (o', w')" by (cases "cmd a d w")
  then have "files w' = files w" using assms(1) by (metis leaves_files_def snd_conv)
  with h assms(2,3) show ?thesis
    by (auto simp: wp_def runM_def split: outcome.split)
qed

lemma record_not_cred: "record_path st l \<noteq> cred_path st l'"
proof
  assume "record_path st l = cred_path st l'"
  then have "rev (l @ ''.json'') = rev (l' @ ''.cred'')" by (simp add: record_path_def cred_path_def)
  then show False by simp
qed

lemma wp_save:
  assumes "at_stage (files w) (record_path st l) s" and "good_record r" and "stage_of r = Some s'"
    and "\<And>w'. at_stage (files w') (record_path st l) s' \<Longrightarrow> Q () w' \<and> E OSError w'"
    and "\<And>w'. at_stage (files w') (record_path st l) s \<Longrightarrow> E OSError w'"
  shows "wp (save_record st l r) Q E w"
  unfolding save_record_def
  using assms(1) assms(4,5) at_stage_saved [OF assms(2,3)]
  by (intro wp_atomicM) auto

lemma wp_store_secret:
  assumes "leaves_files http cmd" and "at_stage (files w) (record_path st l) s"
    and "\<And>w'. at_stage (files w') (record_path st l) s \<Longrightarrow> Q () w'"
    and "\<And>e w'. at_stage (files w') (record_path st l) s \<Longrightarrow> E e w'"
  shows "wp (store_secret cmd st l v) Q E w"
  unfolding store_secret_def wp_simps
proof (rule wp_runM [OF assms(1)])
  fix enc and w' :: "'a world"
  assume f: "files w' = files w"
  then have "at_stage ((files w')(cred_path st l \<mapsto> n)) (record_path st l) s" for n
    using assms(2) record_not_cred at_stage_cong [of "(files w)(cred_path st l \<mapsto> n)" "record_path st l" "files w"] by simp
  with f assms(2-4) show "wp (atomicM (cred_path st l) enc) Q E w'" by (intro wp_atomicM) auto
next
  fix e and w' :: "'a world"
  assume "files w' = files w"
  with assms show "E e w'" by simp
qed

lemma wp_load_secret:
  assumes "leaves_files http cmd"
    and "\<And>x w'. files w' = files w \<Longrightarrow> Q x w'" and "\<And>e w'. files w' = files w \<Longrightarrow> E e w'"
  shows "wp (load_secret cmd st l) Q E w"
  unfolding load_secret_def wp_simps using assms by (intro wp_runM [OF assms(1)]) (simp_all add: wp_simps)

section \<open>The operations along the stages\<close>

definition reaches :: "path \<Rightarrow> stage \<Rightarrow> 'x world \<Rightarrow> bool" where
  "reaches p s w \<longleftrightarrow> (\<exists>s'. at_stage (files w) p s' \<and> lease_step\<^sup>*\<^sup>* s s')"

lemma reaches_refl: "at_stage (files w) p s \<Longrightarrow> reaches p s w"
  by (auto simp: reaches_def)

lemma reaches_step: "at_stage (files w) p s' \<Longrightarrow> lease_step\<^sup>*\<^sup>* s s' \<Longrightarrow> reaches p s w"
  by (auto simp: reaches_def)

lemma reaches_trans: "reaches p s' w \<Longrightarrow> lease_step\<^sup>*\<^sup>* s s' \<Longrightarrow> reaches p s w"
  by (auto simp: reaches_def intro: rtranclp_trans)

lemma steps_from_Absent:
  "lease_step\<^sup>*\<^sup>* Absent Issuing" "lease_step\<^sup>*\<^sup>* Absent (Named a)" "lease_step\<^sup>*\<^sup>* Absent (Ready a)"
  by (meson lease_step.intros r_into_rtranclp rtranclp.rtrancl_into_rtrancl)+

lemma ascii_project: "match_plus project_char t \<Longrightarrow> ascii_only t"
  by (auto simp: match_plus_def project_char_def is_alnum_def is_lower_def is_upper_def is_digit_def
      elim!: ascii_class)

lemma good_new_record:
  assumes "role = ''test'' \<or> role = ''production''" and "ascii_only lease" and "\<bar>now\<bar> < 10 ^ 20"
  shows "good_record (new_record role lease now)" and "stage_of (new_record role lease now) = Some Issuing"
proof -
  have "plain (JInt now)" by (rule plain_JInt [OF assms(3)])
  then show "good_record (new_record role lease now)"
    using assms(1,2)
    by (auto simp: good_record_def new_record_def has_key_def jget_def ascii_only_def list_all_iff)
  show "stage_of (new_record role lease now) = Some Issuing"
    by (simp add: stage_of_def new_record_def jget_def)
qed

text \<open>The triples of the primitive steps, for a run that started at stage \<open>s0\<close>.\<close>

lemma t_save:
  assumes "at_stage (files w) (record_path st l) s" and "good_record r" and "stage_of r = Some s'"
    and "lease_step\<^sup>*\<^sup>* s0 s" and "lease_step\<^sup>*\<^sup>* s0 s'"
  shows "wp (save_record st l r) (\<lambda>_ w'. at_stage (files w') (record_path st l) s') (\<lambda>_. reaches (record_path st l) s0) w"
  using assms by (intro wp_save [OF assms(1,2,3)]) (auto intro: reaches_step)

lemma t_call:
  assumes "leaves_files http cmd" and "at_stage (files w) p s" and "lease_step\<^sup>*\<^sup>* s0 s"
  shows "wp (call http m r b t) (\<lambda>_ w'. at_stage (files w') p s) (\<lambda>_. reaches p s0) w"
  using assms by (intro wp_call [OF assms(1)]) (auto intro: reaches_step)

lemma t_store:
  assumes "leaves_files http cmd" and "at_stage (files w) (record_path st l) s" and "lease_step\<^sup>*\<^sup>* s0 s"
  shows "wp (store_secret cmd st l v) (\<lambda>_ w'. at_stage (files w') (record_path st l) s) (\<lambda>_. reaches (record_path st l) s0) w"
  using assms by (intro wp_store_secret [OF assms(1,2)]) (auto intro: reaches_step)

lemma t_load:
  assumes "leaves_files http cmd" and "at_stage (files w) p s" and "lease_step\<^sup>*\<^sup>* s0 s"
  shows "wp (load_secret cmd st l) (\<lambda>_ w'. at_stage (files w') p s) (\<lambda>_. reaches p s0) w"
  using assms by (intro wp_load_secret [OF assms(1)]) (auto intro: reaches_step)

lemma account_okD: "account_ok v \<Longrightarrow> \<exists>a. v = JStr a \<and> match_plus project_char a"
  by (auto simp: account_ok_def is_str_iff)

lemma wp_issue_new:
  assumes "leaves_files http cmd" and "at_stage (files w) (record_path st lease) Absent"
    and "role = ''test'' \<or> role = ''production''" and "ascii_only lease" and "\<bar>now\<bar> < 10 ^ 20"
  shows "wp (issue_new http cmd st now role lease route)
    (\<lambda>v w'. (\<exists>k. v = ok_key lease k) \<and> (\<exists>a. at_stage (files w') (record_path st lease) (Ready a)))
    (\<lambda>_. reaches (record_path st lease) Absent) w"
proof -
  let ?r0 = "new_record role lease now"
  note g0 = good_new_record [OF assms(3,4,5)]
  have g1: "good_record (jset ?r0 ''account_id'' (JStr a))" "stage_of (jset ?r0 ''account_id'' (JStr a)) = Some (Named a)"
    "good_record (jset (jset ?r0 ''account_id'' (JStr a)) ''state'' (JStr ''ready''))"
    "stage_of (jset (jset ?r0 ''account_id'' (JStr a)) ''state'' (JStr ''ready'')) = Some (Ready a)"
    if "match_plus project_char a" for a
  proof -
    show "good_record (jset ?r0 ''account_id'' (JStr a))"
      by (rule good_record_jset_account [OF g0(1) ascii_project [OF that]])
    then show "good_record (jset (jset ?r0 ''account_id'' (JStr a)) ''state'' (JStr ''ready''))"
      by (rule good_record_jset_state) (simp add: ascii_only_def)
    show "stage_of (jset ?r0 ''account_id'' (JStr a)) = Some (Named a)"
      by (simp add: stage_of_def jget_jset) (simp add: new_record_def jget_def)
    show "stage_of (jset (jset ?r0 ''account_id'' (JStr a)) ''state'' (JStr ''ready'')) = Some (Ready a)"
      by (simp add: stage_of_jset_state jget_jset)
  qed
  show ?thesis
    unfolding issue_new_def Let_def
    apply (rule wp_seq)
     apply (rule t_save [OF assms(2) g0])
      apply (simp_all add: steps_from_Absent)
    apply (rule wp_seq)
     apply (rule t_call [OF assms(1)], assumption, rule steps_from_Absent)
    apply (rule wp_liftI)
     apply (rule wp_requireI)
      apply (drule account_okD, elim exE conjE, hypsubst)
      apply (rule wp_seq)
       apply (rule t_save, assumption, erule g1(1), erule g1(2), rule steps_from_Absent, rule steps_from_Absent)
      apply (rule wp_liftI)
       apply (rule wp_requireI)
        apply (rule wp_seq)
         apply (rule t_store [OF assms(1)], assumption, rule steps_from_Absent)
        apply (rule wp_seq)
         apply (rule t_save, assumption, erule g1(3), erule g1(4), rule steps_from_Absent, rule steps_from_Absent)
        apply (auto simp: wp_ret intro: reaches_step steps_from_Absent)
    done
qed

text \<open>Reading a key changes no file.\<close>

lemma wp_key_of:
  assumes "leaves_files http cmd" and "at_stage (files w) p s"
  shows "wp (read_lease cmd st lease r) (\<lambda>v w'. (\<exists>k. v = ok_key lease k) \<and> idx r ''state'' = Inr (JStr ''ready'') \<and> at_stage (files w') p s)
      (\<lambda>_. reaches p s) w"
    and "wp (issue_again cmd st lease r) (\<lambda>v w'. (\<exists>k. v = ok_key lease k) \<and> idx r ''state'' = Inr (JStr ''ready'') \<and> at_stage (files w') p s)
      (\<lambda>_. reaches p s) w"
  unfolding read_lease_def issue_again_def using reaches_refl [OF assms(2)]
  by (auto intro!: wp_liftI wp_requireI wp_seq [OF t_load [OF assms rtranclp.rtrancl_refl]] simp: wp_ret)

text \<open>Deleting and revoking.\<close>

lemma idx_good: "good_record r \<Longrightarrow> idx r ''state'' = Inr (jget r ''state'')"
  by (cases r) (auto simp: good_record_def has_key_def jget_def)

lemma stage_fields:
  "stage_of r = Some (Ready a) \<longleftrightarrow> jget r ''state'' = JStr ''ready'' \<and> jget r ''account_id'' = JStr a"
  "stage_of r = Some (Named a) \<longleftrightarrow> jget r ''state'' = JStr ''issuing'' \<and> jget r ''account_id'' = JStr a"
  "stage_of r = Some (Deleted a) \<longleftrightarrow> jget r ''state'' = JStr ''deleted'' \<and> jget r ''account_id'' = JStr a"
  "stage_of r = Some (Revoked a) \<longleftrightarrow> jget r ''state'' = JStr ''revoked'' \<and> jget r ''account_id'' = JStr a"
  "stage_of r = Some Issuing \<longleftrightarrow> jget r ''state'' = JStr ''issuing'' \<and> jget r ''account_id'' = JNull"
  by (auto simp: stage_of_def split: json.splits if_splits)

lemma wp_delete_account:
  assumes "leaves_files http cmd" and "at_stage (files w) (record_path st lease) s" and "good_record r"
    and "stage_of r = Some s" and "s \<in> {Named a, Ready a, Deleted a}"
  shows "wp (delete_account http st lease route r)
    (\<lambda>r' w'. good_record r' \<and> stage_of r' = Some (Deleted a) \<and> at_stage (files w') (record_path st lease) (Deleted a))
    (\<lambda>_. reaches (record_path st lease) s) w"
proof (cases "s = Deleted a")
  case True
  then show ?thesis using assms by (simp add: delete_account_def stage_fields wp_ret)
next
  case False
  then have s: "s \<in> {Named a, Ready a}" and st: "lease_step\<^sup>*\<^sup>* s (Deleted a)"
    using assms(5) by (auto intro: drop_named drop_ready)
  have acc: "jget r ''account_id'' = JStr a" "jget r ''state'' \<noteq> JStr ''deleted''"
    using s assms(4) by (auto simp: stage_fields)
  have g: "good_record (jset r ''state'' (JStr ''deleted''))" "stage_of (jset r ''state'' (JStr ''deleted'')) = Some (Deleted a)"
    using good_record_jset_state [OF assms(3)] acc by (auto simp: stage_of_jset_state ascii_only_def)
  have "wp (bindM (call http ''DELETE'' (route @ ''/'' @ a) None None) (\<lambda>result.
           bindM (liftE (getE result ''deleted'')) (\<lambda>d.
           requireM (d = JBool True) ''service-account-deletion-unconfirmed'' 69 (
           bindM (save_record st lease (jset r ''state'' (JStr ''deleted''))) (\<lambda>_. ret (jset r ''state'' (JStr ''deleted'')))))))
    (\<lambda>r' w'. good_record r' \<and> stage_of r' = Some (Deleted a) \<and> at_stage (files w') (record_path st lease) (Deleted a))
    (\<lambda>_. reaches (record_path st lease) s) w"
    apply (rule wp_seq)
     apply (rule t_call [OF assms(1,2)], rule rtranclp.rtrancl_refl)
    apply (rule wp_liftI)
     apply (rule wp_requireI)
      apply (rule wp_seq)
       apply (rule t_save, assumption, rule g(1), rule g(2), rule rtranclp.rtrancl_refl, rule st)
      apply (auto simp: wp_ret g intro: reaches_refl)
    done
  then show ?thesis using acc by (simp add: delete_account_def Let_def)
qed

lemma wp_revoke:
  assumes "leaves_files http cmd" and "at_stage (files w) (record_path st lease) s" and "good_record r"
    and "stage_of r = Some s"
  shows "wp (revoke_lease http cmd st lease route r)
    (\<lambda>v w'. v = ok_revoked lease \<and> (\<exists>a. at_stage (files w') (record_path st lease) (Revoked a) \<and> lease_step\<^sup>*\<^sup>* s (Revoked a)))
    (\<lambda>_. reaches (record_path st lease) s) w"
proof (cases "\<exists>a. s = Revoked a")
  case True
  with assms show ?thesis by (auto simp: revoke_lease_def idx_good stage_fields wp_simps)
next
  case False
  note r0 = reaches_refl [OF assms(2)]
  show ?thesis
  proof (cases "\<exists>a. s \<in> {Named a, Ready a, Deleted a}")
    case True
    then obtain a where a: "s \<in> {Named a, Ready a, Deleted a}" by blast
    then have d: "lease_step\<^sup>*\<^sup>* s (Deleted a)" "lease_step\<^sup>*\<^sup>* s (Revoked a)"
      by (auto intro: drop_named drop_ready prove_revoked rtranclp.rtrancl_into_rtrancl)
    have h: "has_key r ''account_id''" "jget r ''state'' \<noteq> JStr ''revoked''"
      using a assms(3,4) by (auto simp: stage_fields good_record_def)
    have rc: "at_stage ((files w')(cred_path st lease := None)) (record_path st lease) s' = at_stage (files w') (record_path st lease) s'"
      for w' :: "'a world" and s' by (rule at_stage_cong) (simp add: record_not_cred)
    show ?thesis
      unfolding revoke_lease_def idx_good [OF assms(3)]
      apply (rule wp_liftI)
       apply (simp only: sum.inject)
       apply (hypsubst)
       apply (simp only: h if_False)
       apply (rule wp_requireI)
        apply (rule wp_seq)
         apply (rule t_load [OF assms(1,2)], rule rtranclp.rtrancl_refl)
        apply (rule wp_seq)
         apply (rule wp_delete_account [OF assms(1) _ assms(3,4) a], assumption)
        apply (elim conjE)
        apply (rule wp_seq)
         apply (rule t_call [OF assms(1)], assumption, rule d(1))
        apply (rule wp_liftI)
         apply (rule wp_requireI)
          apply (rule wp_seq)
           apply (rule t_save [where s' = "Revoked a"], assumption)
              apply (rule good_record_jset_state, assumption, simp add: ascii_only_def)
             apply (simp add: stage_of_jset_state stage_fields)
            apply (rule d(1))
           apply (rule d(2))
          apply (auto simp: wp_simps remove_cred_def wp_def ret_def rc bindM_def h intro: reaches_refl reaches_step d)
      done
  next
    case F: False
    with False assms(4) have "s = Issuing" using stage_of_not_Absent by (cases s) auto
    then have "jget r ''account_id'' = JNull" "jget r ''state'' = JStr ''issuing''" using assms(4) by (simp_all add: stage_fields)
    then have "\<not> has_key r ''account_id''" using assms(3) by (simp add: good_record_def)
    with \<open>jget r ''state'' = JStr ''issuing''\<close> r0 show ?thesis
      by (simp add: revoke_lease_def idx_good [OF assms(3)] wp_simps)
  qed
qed

text \<open>A request under the lock, for the lease it names.\<close>

definition answered :: "string \<Rightarrow> path \<Rightarrow> string \<Rightarrow> stage \<Rightarrow> json \<Rightarrow> 'x world \<Rightarrow> bool" where
  "answered op st lease s v w' \<longleftrightarrow> reaches (record_path st lease) s w' \<and>
      (if op = ''revoke'' then v = ok_revoked lease \<and> (\<exists>a. at_stage (files w') (record_path st lease) (Revoked a))
       else (\<exists>k. v = ok_key lease k) \<and> (\<exists>a. at_stage (files w') (record_path st lease) (Ready a)))"

lemma wp_with_record:
  assumes "leaves_files http cmd" and "at_stage (files w) (record_path st lease) s"
    and "role = ''test'' \<or> role = ''production''" and "ascii_only lease" and "\<bar>now\<bar> < 10 ^ 20"
    and "op \<in> {''issue'', ''read'', ''revoke''}"
  shows "wp (bindM (load_record st lease) (with_record http cmd st now op role lease route))
    (answered op st lease s)
    (\<lambda>_. reaches (record_path st lease) s) w"
proof (cases "s = Absent")
  case True
  then have "files w (record_path st lease) = None" using assms(2) by (simp add: at_stage_def)
  then have "load_record st lease w = (Inr None, w)"
    by (simp add: load_record_def exists_at_def node_at_def numeral_eq_Suc)
  moreover have "wp (with_record http cmd st now op role lease route None)
      (answered op st lease s)
      (\<lambda>_. reaches (record_path st lease) s) w"
  proof (cases "op = ''issue''")
    case o: True
    have "wp (issue_new http cmd st now role lease route) (answered op st lease s) (\<lambda>_. reaches (record_path st lease) s) w"
      by (rule wp_mono [OF wp_issue_new [OF assms(1) _ assms(3,4,5)]])
        (use assms(2) True o reaches_step [OF _ steps_from_Absent(3)] in \<open>auto simp: answered_def\<close>)
    with o show ?thesis by (simp add: with_record_def wp_simps)
  next
    case False
    then show ?thesis using reaches_refl [OF assms(2)] by (simp add: with_record_def wp_simps)
  qed
  ultimately show ?thesis by (simp add: wp_def bindM_def)
next
  case False
  from read_stage [OF assms(2) False] obtain v where v: "exists_at (files w) (record_path st lease)"
    "bindE (read_bytes (files w) (record_path st lease)) decode = Inr v" "good_record v" "stage_of v = Some s"
    "truthy v" "v \<noteq> JNull" by blast
  then have l: "load_record st lease w = (Inr (Some v), w)" by (simp add: load_record_def)
  note k = wp_key_of [OF assms(1,2), of st lease v]
  have ready: "\<exists>a. s = Ready a" if "idx v ''state'' = Inr (JStr ''ready'')"
    using that v(3,4) stage_of_not_Absent by (cases s) (auto simp: idx_good stage_fields)
  have "wp (with_record http cmd st now op role lease route (Some v))
      (answered op st lease s)
      (\<lambda>_. reaches (record_path st lease) s) w"
    unfolding with_record_def
  proof (rule wp_liftI, goal_cases)
    case (1 x)
    consider "op = ''issue''" | "op = ''read''" | "op = ''revoke''" using assms(6) by blast
    then show ?case
    proof cases
      case 1
      have "wp (issue_again cmd st lease v) (answered op st lease s) (\<lambda>_. reaches (record_path st lease) s) w"
        by (rule wp_mono [OF k(2)]) (use 1 ready reaches_refl in \<open>auto simp: answered_def\<close>)
      with 1 v(5) show ?thesis by simp
    next
      case 2
      have "wp (read_lease cmd st lease v) (answered op st lease s) (\<lambda>_. reaches (record_path st lease) s) w"
        by (rule wp_mono [OF k(1)]) (use 2 ready reaches_refl in \<open>auto simp: answered_def\<close>)
      with 2 v(6) show ?thesis by simp
    next
      case 3
      have "wp (revoke_lease http cmd st lease route v) (answered op st lease s) (\<lambda>_. reaches (record_path st lease) s) w"
        by (rule wp_mono [OF wp_revoke [OF assms(1,2) v(3,4)]]) (use 3 reaches_step in \<open>auto simp: answered_def\<close>)
      with 3 v(6) show ?thesis by simp
    qed
  next
    case (2 e)
    show ?case by (rule reaches_refl [OF assms(2)])
  qed
  then show ?thesis by (simp add: wp_def bindM_def l)
qed

lemma record_not_lock: "record_path st lease \<noteq> st @ [''broker.lock'']"
proof
  assume "record_path st lease = st @ [''broker.lock'']"
  then have "rev (lease @ ''.json'') = rev ''broker.lock''" by (simp add: record_path_def)
  then show False by simp
qed

lemma request_check_Inr:
  assumes "request_check policy uid message = Inr (role, op, lease)"
  shows "role = ''test'' \<or> role = ''production''" and "jget message ''operation'' = JStr op"
    and "op \<in> {''check'', ''issue'', ''read'', ''revoke''}" and "jget message ''lease'' = JStr lease"
    and "match_count is_hex 32 lease" and "jget policy (role @ ''_uid'') \<noteq> JNull"
    and "py_eq (JInt uid) (jget policy (role @ ''_uid''))"
  using assms by (auto simp: request_check_def Let_def lease_ok_def is_str_iff)


text \<open>
  C13 (no second issue): once a lease has a record, at whatever stage, an \<^verbatim>\<open>issue\<close> request never
  reaches the provider: the answer, the files and every other effect are the same for any two
  providers.
\<close>

theorem broker_no_reissue:
  assumes "at_stage (files w) (record_path st lease) s" and "s \<noteq> Absent"
    and "jget message ''lease'' = JStr lease" and "jget message ''operation'' = JStr ''issue''"
  shows "handle http cmd policy st now uid message w = handle http' cmd policy st now uid message w"
proof (cases "request_check policy uid message")
  case (Inl e)
  then show ?thesis by (simp add: handle_def bindM_def liftE_def)
next
  case (Inr x)
  then obtain role op l where q: "request_check policy uid message = Inr (role, op, l)" by (cases x) auto
  note c = request_check_Inr [OF q]
  have e: "op = ''issue''" "l = lease" using c(2,4) assms(3,4) by simp_all
  have b: "bindM (load_record st lease) (with_record http cmd st now ''issue'' role lease route) w1 =
      bindM (load_record st lease) (with_record http' cmd st now ''issue'' role lease route) w1"
    if f: "files w1 = files w \<or> files w1 = (files w)(st @ [''broker.lock''] \<mapsto> NFile [] 384 (euid w))" for w1 route
  proof -
    have "at_stage (files w1) (record_path st lease) s"
      using f assms(1) at_stage_cong [of "files w1" "record_path st lease" "files w"] record_not_lock [of st lease] by auto
    from read_stage [OF this assms(2)] obtain v where "exists_at (files w1) (record_path st lease)"
      "bindE (read_bytes (files w1) (record_path st lease)) decode = Inr v" "truthy v" by blast
    then show ?thesis by (simp add: bindM_def load_record_def with_record_def)
  qed
  have "lockM (st @ [''broker.lock'']) (bindM (load_record st lease) (with_record http cmd st now ''issue'' role lease route)) w =
      lockM (st @ [''broker.lock'']) (bindM (load_record st lease) (with_record http' cmd st now ''issue'' role lease route)) w" for route
    by (rule lockM_cong) (rule b)
  then show ?thesis by (simp add: handle_def bindM_def liftE_def q e Let_def)
qed

text \<open>
  C14 (separate roles): under a policy the broker accepts, a peer whose requests pass the checks can
  act in one role only, and any other request is refused before the lock, the files or the provider
  are touched.
\<close>

theorem broker_roles_separated:
  assumes "broker_policy policy = Inr policy'"
  shows "(\<forall>m1 m2 r1 r2. request_check policy uid m1 = Inr r1 \<and> request_check policy uid m2 = Inr r2 \<longrightarrow> fst r1 = fst r2) \<and>
    (\<forall>m e. request_check policy uid m = Inl e \<longrightarrow> handle http cmd policy st now uid m w = (Inl e, w))"
proof -
  have u: "is_int (jget policy ''test_uid'')" "production_disabled policy \<or>
      is_int (jget policy ''production_uid'') \<and> jget policy ''test_uid'' \<noteq> jget policy ''production_uid''"
    using assms by (auto simp: broker_policy_def Let_def)
  have n: "jget policy ''production_uid'' = JNull" if "production_disabled policy"
    using that by (simp add: production_disabled_def)
  have "r1 = r2" if "request_check policy uid m1 = Inr (r1, o1, l1)" "request_check policy uid m2 = Inr (r2, o2, l2)"
    for m1 m2 r1 r2 o1 o2 l1 l2
  proof -
    have role: "r = ''test'' \<and> jget policy ''test_uid'' = JInt uid \<or> r = ''production'' \<and> jget policy ''production_uid'' = JInt uid"
      if "request_check policy uid m = Inr (r, op, l)" for m r op l
    proof -
      note c = request_check_Inr [OF that]
      have i: "x = JInt uid" if "is_int x" "py_eq (JInt uid) x" for x
        using that by (auto simp: is_int_iff py_eq_def)
      from c(1) show ?thesis
      proof
        assume "r = ''test''"
        with c(7) i [OF u(1)] show ?thesis by simp
      next
        assume r: "r = ''production''"
        with c(6) n u(2) have "is_int (jget policy ''production_uid'')" by auto
        with r c(7) i show ?thesis by simp
      qed
    qed
    show ?thesis using role [OF that(1)] role [OF that(2)] u(2) n by auto
  qed
  then show ?thesis by (auto simp: handle_def bindM_def liftE_def)
qed

section \<open>A concrete broker\<close>

definition demo_policy :: json where
  "demo_policy = JObj [(''test_project'', JStr ''proj_t''), (''production_project'', JStr ''proj_p''),
     (''test_uid'', JInt 1001), (''production_uid'', JInt 1002)]"

definition demo_lease :: string where "demo_lease = replicate 32 CHR ''a''"

definition demo_request :: "string \<Rightarrow> string \<Rightarrow> json" where
  "demo_request op role = JObj [(''operation'', JStr op), (''role'', JStr role), (''lease'', JStr demo_lease)]"

definition demo_world :: "unit world" where
  "demo_world = blank\<lparr>files := [[''st''] \<mapsto> NDir 448 0]\<rparr>"

definition demo_http :: "unit http" where
  "demo_http m r b t w = (Some (200, dumps (JObj [(''id'', JStr ''acct''), (''api_key'', JObj [(''value'', JStr ''k'')])])), w)"

lemma demo_leaves_files: "leaves_files demo_http quiet"
  by (simp add: leaves_files_def demo_http_def quiet_def)

lemma demo_issue:
  "fst (handle demo_http quiet demo_policy [''st''] 7 1001 (demo_request ''issue'' ''test'') demo_world) = Inr (ok_key demo_lease ''k'')"
  by code_simp


theorem broker_no_reissue_witness:
  "let w = demo_world\<lparr>files := (files demo_world)(record_path [''st''] demo_lease \<mapsto>
         NFile (canonical (new_record ''test'' demo_lease 0)) 384 0)\<rparr> in
     handle demo_http quiet demo_policy [''st''] 7 1001 (demo_request ''issue'' ''test'') w =
     handle (\<lambda>m r b t w. (None, w)) quiet demo_policy [''st''] 7 1001 (demo_request ''issue'' ''test'') w"
proof -
  let ?w = "demo_world\<lparr>files := (files demo_world)(record_path [''st''] demo_lease \<mapsto>
         NFile (canonical (new_record ''test'' demo_lease 0)) 384 0)\<rparr>"
  have l: "ascii_only demo_lease" by (simp add: ascii_only_def demo_lease_def list_all_iff)
  have "at_stage (files ?w) (record_path [''st''] demo_lease) Issuing"
    using at_stage_saved [OF good_new_record [of "''test''" demo_lease 0]] l by simp
  then show ?thesis
    unfolding Let_def
    by (rule broker_no_reissue) (simp_all add: demo_request_def jget_def)
qed

theorem broker_roles_separated_witness:
  "handle demo_http quiet demo_policy [''st''] 7 1001 (demo_request ''read'' ''production'') demo_world
     = (Inl (Failure 77 ''broker-peer-denied''), demo_world)"
proof -
  have p: "broker_policy demo_policy = Inr demo_policy" by code_simp
  have "request_check demo_policy 1001 (demo_request ''read'' ''production'') = Inl (Failure 77 ''broker-peer-denied'')" by code_simp
  with broker_roles_separated [OF p, of 1001 demo_http quiet "[''st'']" 7 demo_world] show ?thesis by blast
qed

end
