(* ===== verification/DispatcherFacts.thy ===== *)
theory DispatcherFacts
  imports Dispatcher
begin

text \<open>
  Facts on \<^verbatim>\<open>dispatcher.py\<close>: what the release's own code does matters only where its tree is
  authentic; what is refused without any effect; and a release identifier is never bound to a second
  fingerprint.
\<close>

section \<open>Only authentic code runs\<close>

text \<open>The bytes carry a valid signature of an enrolled signer: some run of the verification accepted them.\<close>

definition signed :: "'x env \<Rightarrow> string \<Rightarrow> bool" where
  "signed e raw \<longleftrightarrow> (\<exists>sig w out w'. cmd e (verify_args (path_text SIGNERS) sig) (Some raw) w = (Exited 0 out, w'))"

definition file_matches :: "'x env \<Rightarrow> fsys \<Rightarrow> path \<Rightarrow> string \<times> json \<Rightarrow> bool" where
  "file_matches e fs d nr \<longleftrightarrow> (\<exists>c. protected_file fs (under d (fst nr)) (Some 0) = Inr (under d (fst nr))
     \<and> read_bytes fs (under d (fst nr)) = Inr c
     \<and> py_eq (JInt (int (length c))) (jget (snd nr) ''size'') \<and> JStr (sha256 e c) = jget (snd nr) ''sha256'')"

text \<open>
  The tree of a release is authentic: root-owned files that nobody else may write hold the recorded
  fingerprint, a signed manifest with that hash, and for every entry of the manifest the bytes that it
  names.
\<close>

definition authentic :: "'x env \<Rightarrow> fsys \<Rightarrow> string \<Rightarrow> bool" where
  "authentic e fs rid \<longleftrightarrow> (\<exists>b binding raw v manifest now host. let m = release_dir rid @ [''manifest.json''] in
     protected_file fs (binding_path rid) (Some 0) = Inr (binding_path rid) \<and> read_bytes fs (binding_path rid) = Inr b \<and>
     decode b = Inr binding \<and> idx binding ''fingerprint'' = Inr (JStr (sha256 e raw)) \<and>
     protected_file fs m (Some 0) = Inr m \<and> read_bytes fs m = Inr raw \<and> signed e raw \<and>
     decode raw = Inr v \<and> validate v now (Some host) True = Inr manifest \<and>
     (\<forall>nr \<in> set (items_of (jget manifest ''files'')). file_matches e fs (release_dir rid) nr))"

lemma staged_file_Inr:
  "staged_file (sha256 e) d nr w = (Inr u, w') \<longleftrightarrow> w' = w \<and> file_matches e (files w) d nr"
  by (auto simp: staged_file_def bindM_eq_iff protectedM_def requireM_eq_iff file_matches_def protected_file_iff)

lemma staged_files_Inr:
  "forM nrs (staged_file (sha256 e) d) w = (Inr u, w') \<longleftrightarrow> w' = w \<and> (\<forall>nr \<in> set nrs. file_matches e (files w) d nr)"
  by (induction nrs) (auto simp: thenM_def bindM_eq_iff staged_file_Inr)

definition verification_reads :: "'x env \<Rightarrow> bool" where
  "verification_reads e \<longleftrightarrow>
     (\<forall>sig raw w. files (snd (cmd e (verify_args (path_text SIGNERS) sig) raw w)) = files w \<and>
        euid (snd (cmd e (verify_args (path_text SIGNERS) sig) raw w)) = euid w)"

lemma verify_tree_Inr:
  assumes "verify_tree e d host fp w = (Inr m, w')"
  shows "\<exists>raw v now. let p = d @ [''manifest.json''] in
    protected_file (files w) p (Some 0) = Inr p \<and> read_bytes (files w) p = Inr raw \<and> fp = JStr (sha256 e raw) \<and>
    signed e raw \<and> decode raw = Inr v \<and> validate v now (Some host) True = Inr m \<and>
    (\<forall>nr \<in> set (items_of (jget m ''files'')). file_matches e (files w') d nr) \<and>
    (\<exists>sig. w' = snd (cmd e (verify_args (path_text SIGNERS) sig) (Some raw) w))"
  using assms
  by (auto simp: verify_tree_def bindM_eq_iff read_protectedM_Inr requireM_eq_iff runM_Inr protectedM_def staged_files_Inr
      bindE_Inr_iff signed_def Let_def) (metis snd_conv)+

lemma load_binding_Inr:
  "load_binding rid w = (Inr v, w') \<longleftrightarrow> w' = w \<and> (\<exists>b. protected_file (files w) (binding_path rid) (Some 0) = Inr (binding_path rid)
     \<and> read_bytes (files w) (binding_path rid) = Inr b \<and> decode b = Inr v)"
  by (auto simp: load_binding_def bindM_eq_iff read_protectedM_Inr)

lemma verified_authentic:
  assumes "load_binding rid w = (Inr binding, w)" and "idx binding ''fingerprint'' = Inr fp"
    and "verify_tree e (release_dir rid) host fp w = (Inr m, w')" and "verification_reads e"
  shows "authentic e (files w') rid"
proof -
  from verify_tree_Inr [OF assms(3)] obtain raw v now sig where V:
    "protected_file (files w) (release_dir rid @ [''manifest.json'']) (Some 0) = Inr (release_dir rid @ [''manifest.json''])"
    "read_bytes (files w) (release_dir rid @ [''manifest.json'']) = Inr raw" "fp = JStr (sha256 e raw)" "signed e raw"
    "decode raw = Inr v" "validate v now (Some host) True = Inr m"
    "\<forall>nr \<in> set (items_of (jget m ''files'')). file_matches e (files w') (release_dir rid) nr"
    "w' = snd (cmd e (verify_args (path_text SIGNERS) sig) (Some raw) w)"
    unfolding Let_def by blast
  have "files w' = files w" using V(8) assms(4) by (simp add: verification_reads_def)
  then show ?thesis
    using V(1-7) assms(1,2) unfolding authentic_def Let_def load_binding_Inr by metis
qed

text \<open>
  The commands \<open>c\<close> and those of \<open>e\<close> may only differ on Python programs other than the entrypoint of a
  release whose tree is authentic when it is started.
\<close>

definition agrees :: "'x env \<Rightarrow> 'x commands \<Rightarrow> bool" where
  "agrees e c \<longleftrightarrow> (\<forall>a d w.
     hd a \<noteq> ''/usr/bin/python3'' \<or> (\<exists>rid action. a = host_args rid action \<and> authentic e (files w) rid) \<longrightarrow>
     c a d w = cmd e a d w)"

lemma run_other: "agrees e c \<Longrightarrow> hd a \<noteq> ''/usr/bin/python3'' \<Longrightarrow> runM c a d = runM (cmd e) a d"
  by (simp add: agrees_def runM_def fun_eq_iff)

lemma run_authentic:
  assumes "agrees e c" and "authentic e (files w) rid"
  shows "runM c (host_args rid action) d w = runM (cmd e) (host_args rid action) d w"
proof -
  have "c (host_args rid action) d w = cmd e (host_args rid action) d w"
    using assms unfolding agrees_def by blast
  then show ?thesis by (simp add: runM_def)
qed

lemma preflight_same: "agrees e c \<Longrightarrow> preflight (e\<lparr>cmd := c\<rparr>) p = preflight e p"
  by (simp add: preflight_def runs_def run_other)

lemma machine_identity_same: "agrees e c \<Longrightarrow> machine_identity (e\<lparr>cmd := c\<rparr>) = machine_identity e"
  by (simp add: machine_identity_def run_other)

lemma enrollment_same:
  assumes "agrees e c"
  shows "enrollment (e\<lparr>cmd := c\<rparr>) = enrollment e"
  unfolding enrollment_def host_enrolled_def machine_identity_same [OF assms] ..

lemma verify_tree_same: "agrees e c \<Longrightarrow> verify_tree (e\<lparr>cmd := c\<rparr>) d h fp = verify_tree e d h fp"
  by (simp add: verify_tree_def run_other verify_args_def)

lemma unpack_same: "agrees e c \<Longrightarrow> unpack h t c s src d sp sn host now b owner = unpack h t (cmd e) s src d sp sn host now b owner"
  by (simp add: unpack_def fun_eq_iff run_other verify_args_def)

lemma stage_same: "agrees e c \<Longrightarrow> stage_release (e\<lparr>cmd := c\<rparr>) response archive = stage_release e response archive"
proof -
  assume a: "agrees e c"
  have p: "place_release (e\<lparr>cmd := c\<rparr>) i r f = place_release e i r f" for i r f
    unfolding place_release_def by (simp cong: if_cong)
  show ?thesis by (simp add: stage_release_def receive_release_def unpack_same [OF a] p)
qed

lemma run_release_same:
  assumes "agrees e c" and "authentic e (files w) rid"
  shows "run_release (e\<lparr>cmd := c\<rparr>) message rid action response w = run_release e message rid action response w"
  unfolding run_release_def by (rule bind_cong) (simp_all add: run_authentic [OF assms])

lemma active_state_same:
  assumes "agrees e c" and "verification_reads e"
  shows "active_state (e\<lparr>cmd := c\<rparr>) policy action active w = active_state e policy action active w"
  unfolding active_state_def Let_def verify_tree_same [OF assms(1)]
proof (intro require_cong bind_cong refl)
  fix binding w1 h w2 fp w3 m w4
  assume b: "load_binding (str_of active) w = (Inr binding, w1)"
    and h: "liftE (idx policy ''host'') w1 = (Inr h, w2)" and f: "liftE (idx binding ''fingerprint'') w2 = (Inr fp, w3)"
    and v: "verify_tree e (release_dir (str_of active)) h fp w3 = (Inr m, w4)"
  have "w1 = w" "w3 = w" "idx binding ''fingerprint'' = Inr fp" using b h f by (auto simp: load_binding_Inr)
  with verified_authentic b v assms(2) have "authentic e (files w4) (str_of active)" by metis
  then show "runM (cmd (e\<lparr>cmd := c\<rparr>)) (host_args (str_of active) action) None w4 = runM (cmd e) (host_args (str_of active) action) None w4"
    by (simp add: run_authentic [OF assms(1)])
qed

lemma bound_operation_same:
  assumes "agrees e c" and "verification_reads e"
  shows "bound_operation (e\<lparr>cmd := c\<rparr>) policy message action response w = bound_operation e policy message action response w"
  unfolding bound_operation_def Let_def verify_tree_same [OF assms(1)]
proof (intro require_cong bind_cong refl)
  fix binding w1 fp w2 h w3 m w4
  let ?rid = "str_of (jget message ''release_id'')"
  assume b: "load_binding ?rid w = (Inr binding, w1)"
    and f: "liftE (idx binding ''fingerprint'') w1 = (Inr fp, w2)" and h: "liftE (idx policy ''host'') w2 = (Inr h, w3)"
    and v: "verify_tree e (release_dir ?rid) h fp w3 = (Inr m, w4)"
  have "w1 = w" "w3 = w" "idx binding ''fingerprint'' = Inr fp" using b h f by (auto simp: load_binding_Inr)
  with verified_authentic b v assms(2) have "authentic e (files w4) ?rid" by metis
  then show "(if action = ''bound'' then
        bindM (bound_state ?rid) (\<lambda>phase.
        ret (Reply (merged response (JObj [(''release_id'', jget message ''release_id''), (''fingerprint'', fp), (''stage'', phase)]))))
      else if action = ''backup'' then
        bindM (read_protectedM (HROOT @ [?rid @ ''.snapshot.tar'']) (Some 0)) (\<lambda>c. ret (Stream c))
      else bindM (run_release (e\<lparr>cmd := c\<rparr>) message ?rid action response) (\<lambda>r. ret (Reply r))) w4 =
    (if action = ''bound'' then
        bindM (bound_state ?rid) (\<lambda>phase.
        ret (Reply (merged response (JObj [(''release_id'', jget message ''release_id''), (''fingerprint'', fp), (''stage'', phase)]))))
      else if action = ''backup'' then
        bindM (read_protectedM (HROOT @ [?rid @ ''.snapshot.tar'']) (Some 0)) (\<lambda>c. ret (Stream c))
      else bindM (run_release e message ?rid action response) (\<lambda>r. ret (Reply r))) w4"
    by (auto simp: bindM_def run_release_same [OF assms(1)])
qed

lemma read_status_same:
  assumes "agrees e c" and "verification_reads e"
  shows "read_status (e\<lparr>cmd := c\<rparr>) policy action response w = read_status e policy action response w"
  unfolding read_status_def preflight_same [OF assms(1)]
  by (intro bind_cong refl) (simp add: active_state_same [OF assms])

text \<open>
  C15 (only authentic code decides): whatever a Python program would do that is not the entrypoint of a
  release with an authentic tree, and whatever an entrypoint would do in a tree that is not authentic at
  the moment it is started, no request to the dispatcher is answered differently for it and no file ends
  up different: such a program is never run.
\<close>

theorem dispatch_runs_authentic:
  assumes "agrees e c" and "verification_reads e"
  shows "dispatch (e\<lparr>cmd := c\<rparr>) input w = dispatch e input w"
proof -
  have b: "bound_operation (e\<lparr>cmd := c\<rparr>) policy message action response = bound_operation e policy message action response"
    and r: "read_status (e\<lparr>cmd := c\<rparr>) policy action response = read_status e policy action response"
    for policy message action response
    by (rule ext, rule bound_operation_same [OF assms]) (rule ext, rule read_status_same [OF assms])
  have "serve_request (e\<lparr>cmd := c\<rparr>) policy message action response rest = serve_request e policy message action response rest"
    for policy message action response rest
    unfolding serve_request_def b r stage_same [OF assms(1)] by simp
  then show ?thesis unfolding dispatch_def enrollment_same [OF assms(1)] by simp
qed

text \<open>An environment for concrete runs, and two that disagree on what the Python programs of an unsigned tree do.\<close>

definition bare_env :: "unit commands \<Rightarrow> (string \<Rightarrow> member list option) \<Rightarrow> unit env" where
  "bare_env c a = \<lparr>sha256 = (\<lambda>s. hash_a), cmd = c, boot = (\<lambda>w. ''b''), clock = (\<lambda>w. 1500), rglob_rpm = (\<lambda>fs d. []),
     space = (\<lambda>p w. 10 ^ 12), account = (\<lambda>w. None), pause = (\<lambda>n w. w), source = [''s''], group = (\<lambda>p w. 0),
     wall = (\<lambda>w. 0), tar = a, fresh = (\<lambda>w. ''x'')\<rparr>"

definition unsigned_cmd :: "string \<Rightarrow> unit commands" where
  "unsigned_cmd out a d w = (if hd a = ''/usr/bin/python3'' then (Exited 0 out, w) else (Exited 1 [], w))"

definition bare_world :: "unit world" where
  "bare_world = \<lparr>files = map_of (([''signers''], NFile ''key'' 420 0) # (SIGNERS, NFile ''key'' 420 0)
       # map (\<lambda>d. (d, NDir 493 0)) [[], [''etc''], [''etc'', ''hermes-unattended''], [''var''], [''var'', ''lib''], HROOT]),
     euid = 0, busy = [], faults = [], ext = ()\<rparr>"

theorem dispatch_runs_authentic_witness:
  "fst (dispatch (bare_env (unsigned_cmd ''good'') (\<lambda>s. None)\<lparr>cmd := unsigned_cmd ''evil''\<rparr>) [] bare_world) = Inl OSError"
proof -
  let ?e = "bare_env (unsigned_cmd ''good'') (\<lambda>s. None)"
  have u: "\<not> signed ?e raw" for raw
    by (simp add: signed_def bare_env_def unsigned_cmd_def verify_args_def)
  have "agrees ?e (unsigned_cmd ''evil'')"
    by (simp add: agrees_def authentic_def u) (simp add: bare_env_def unsigned_cmd_def)
  moreover have "verification_reads ?e" by (simp add: verification_reads_def bare_env_def unsigned_cmd_def)
  moreover have "fst (dispatch ?e [] bare_world) = Inl OSError" by code_simp
  ultimately show ?thesis using dispatch_runs_authentic [of ?e "unsigned_cmd ''evil''" "[]" bare_world] by simp
qed

section \<open>A release identifier is bound once\<close>

lemma unpack_Inr:
  assumes "verification_reads e"
    and "unpack (sha256 e) (tar e) (cmd e) sp [archive] dest SIGNERS (path_text SIGNERS) host now bd owner w = (Inr (m, fp), w')"
  shows "\<exists>raw sig listing t. signed e raw \<and> open_payload (sha256 e) listing raw sig now host bd = Inr (m, fp, t) \<and>
    files w' = install_tree (euid w) dest t (files w)"
proof -
  define c where "c a d w = (if hd a = ''ssh-keygen'' \<and> a = verify_args (path_text SIGNERS) sp then cmd e a d w else (Exited 1 [], w))" for a d w
  have run: "runM c (verify_args (path_text SIGNERS) sp) d = runM (cmd e) (verify_args (path_text SIGNERS) sp) d" for d
    by (simp add: runM_def c_def verify_args_def fun_eq_iff)
  have u: "unpack (sha256 e) (tar e) c sp [archive] dest SIGNERS (path_text SIGNERS) host now bd owner w = (Inr (m, fp), w')"
    using assms(2) unfolding unpack_def run .
  have "files (snd (c a d w)) = files w \<and> euid (snd (c a d w)) = euid w" for a d w
    using assms(1) by (auto simp: c_def verification_reads_def)
  from unpack_cases [OF this u] obtain t listing raw sg out where
    "fst (c (verify_args (path_text SIGNERS) sp) (Some raw) w) = Exited 0 out"
    "open_payload (sha256 e) listing raw sg now host bd = Inr (m, fp, t)"
    "files w' = install_tree (euid w) dest t (files w)" by auto
  moreover have "signed e raw"
    using calculation(1) unfolding signed_def c_def by (auto simp: prod_eq_iff split: if_splits)
  ultimately show ?thesis by blast
qed

lemma mkdirM_Inr:
  "mkdirM p m b w = (Inr u, w') \<Longrightarrow> euid w' = euid w \<and> (files w' = files w \<or> files w' = (files w)(p \<mapsto> NDir m (euid w)))"
  by (auto simp: mkdirM_def split: if_splits)

lemma digestM_Inr: "digestM h p w = (Inr x, w') \<longleftrightarrow> w' = w \<and> (\<exists>c. read_bytes (files w) p = Inr c \<and> x = h c)"
  by (auto simp: digestM_def split: sum.splits)

lemma finallyM_Inr: "finallyM m f w = (Inr x, w') \<Longrightarrow> \<exists>w1. m w = (Inr x, w1) \<and> f w1 = (Inr (), w')"
  by (auto simp: finallyM_def split: prod.splits sum.splits)

lemma release_id_head: "release_id_ok rid \<Longrightarrow> \<exists>c s. rid = c # s \<and> is_alnum c"
  by (cases rid) (auto simp: release_id_ok_def)

text \<open>
  C16 (staging binds authenticated bytes and never rebinds): when a request to stage a release succeeds,
  the fingerprint it answers is the hash of manifest bytes with a valid signature and is what the
  binding of the release now holds; if the identifier had no tree, its tree now has every file of that
  manifest with the declared content hash; if it had one, that tree's manifest has this very hash and
  the tree is as it was.
\<close>

theorem stage_release_binds:
  assumes "stage_release e response archive w = (Inr r, w')" and "verification_reads e"
  shows "\<exists>raw manifest now fs. let fingerprint = sha256 e raw; rid = str_of (jget manifest ''release_id''); d = release_dir rid in
    r = stage_reply_of response rid fingerprint \<and> signed e raw \<and> decode raw = Inr manifest \<and>
    validate manifest now (Some (jget response ''host'')) False = Inr manifest \<and>
    (\<exists>u. files w' (binding_path rid) = Some (NFile (canonical (JObj [(''fingerprint'', JStr fingerprint)])) 384 u)) \<and>
    (if files w d = None
     then \<forall>it \<in> set (items_of (jget manifest ''files'')). \<exists>c md.
       files w' (d @ path_comps (fst it)) = Some (NFile c (nat md) (euid w)) \<and> extracted (sha256 e) it (path_comps (fst it)) c md
     else (\<exists>old. read_bytes fs (d @ [''manifest.json'']) = Inr old \<and> sha256 e old = fingerprint) \<and>
       (\<forall>p. files w' (d @ p) = files w (d @ p) \<and> fs (d @ p) = files w (d @ p)))"
proof -
  define tmp where "tmp = HROOT @ [''.incoming-'' @ fresh e w]"
  define inc where "inc = tmp @ [''release'']"
  from assms(1) obtain w1 w9 where m: "mkdirM tmp 448 False w = (Inr (), w1)"
    and rr: "receive_release e tmp response archive w1 = (Inr r, w9)"
    and rm: "files w' = (\<lambda>p. if is_prefix tmp p then None else files w9 p)"
    by (auto simp: stage_release_def bindM_eq_iff tmp_def remove_tree_def modifyM_def dest!: finallyM_Inr)
  from rr obtain h manifest fp w2 w3 w4 rid where h: "idx response ''host'' = Inr h"
    and u: "unpack (sha256 e) (tar e) (cmd e) (path_text (tmp @ [''.verify'', ''signature''])) [archive] inc SIGNERS (path_text SIGNERS)
        (Some h) (clock e w1) None (Some 0) w1 = (Inr (manifest, fp), w2)"
    and rid: "rid = str_of (jget manifest ''release_id'')"
    and pl: "place_release e inc rid fp w2 = (Inr (), w3)"
    and at: "atomicM (binding_path rid) (canonical (JObj [(''fingerprint'', JStr fp)])) w3 = (Inr (), w4)"
    and r: "w9 = w4" "r = stage_reply_of response rid fp"
    by (auto simp: receive_release_def bindM_eq_iff Let_def inc_def requireM_eq_iff)
  from unpack_Inr [OF assms(2) u] obtain raw sig listing t where
    op: "signed e raw" "open_payload (sha256 e) listing raw sig (clock e w1) (Some h) None = Inr (manifest, fp, t)"
      "files w2 = install_tree (euid w1) inc t (files w1)" by blast
  note P = open_payload_Inr [OF op(2)]
  have hj: "h = jget response ''host''" using h by (cases response) (auto simp: jget_def split: option.splits)
  from release_id_head [OF validate_Inr(17) [OF P(3)]] obtain ch cs where ch: "rid = ch # cs" "is_alnum ch"
    unfolding rid by blast
  let ?d = "release_dir rid"
  have dot: "\<not> is_alnum CHR ''.''" by code_simp
  have away: "\<not> is_prefix tmp (?d @ p)" "\<not> is_prefix inc (?d @ p)" "?d @ p \<noteq> HROOT @ [''releases'']" "?d @ p \<noteq> binding_path rid" for p
    by (simp_all add: is_prefix_def tmp_def inc_def release_dir_def HROOT_def binding_path_def)
  have bnd: "\<not> is_prefix tmp (binding_path rid)"
    using ch dot by (auto simp: is_prefix_def tmp_def HROOT_def binding_path_def)
  have f1: "files w1 q = files w q" if "\<not> is_prefix tmp q" for q
    using mkdirM_Inr [OF m] that by (auto simp: is_prefix_def)
  have f2: "files w2 q = files w1 q" if "\<not> is_prefix inc q" for q
    using op(3) that by (auto simp: install_tree_def is_prefix_def)
  have dw2: "files w2 (?d @ p) = files w (?d @ p)" for p using f1 f2 away by simp
  from pl obtain wm where mk: "mkdirM (HROOT @ [''releases'']) 448 True w2 = (Inr (), wm)"
    and x: "if exists_at (files wm) ?d then w3 = wm \<and> (\<exists>old. read_bytes (files wm) (?d @ [''manifest.json'']) = Inr old \<and> sha256 e old = fp)
      else renameM inc ?d wm = (Inr (), w3)"
    by (auto simp: place_release_def bindM_eq_iff digestM_Inr requireM_eq_iff existsM_Inr split: if_splits)
  have fm: "files wm q = files w2 q" if "q \<noteq> HROOT @ [''releases'']" for q
    using mkdirM_Inr [OF mk] that by auto
  have dwm: "files wm (?d @ p) = files w (?d @ p)" for p using fm away(3) dw2 by simp
  have f4: "files w4 = (files w3)(binding_path rid \<mapsto> NFile (canonical (JObj [(''fingerprint'', JStr fp)])) 384 (euid w3))"
    using atomicM_Inr [OF at] by simp
  have last: "files w' (?d @ p) = files w3 (?d @ p)" for p using rm r(1) f4 away by simp
  have b: "files w' (binding_path rid) = Some (NFile (canonical (JObj [(''fingerprint'', JStr fp)])) 384 (euid w3))"
    using rm r(1) f4 bnd by simp
  have tree: "if files w ?d = None
     then \<forall>it \<in> set (items_of (jget manifest ''files'')). \<exists>c md.
       files w' (?d @ path_comps (fst it)) = Some (NFile c (nat md) (euid w)) \<and> extracted (sha256 e) it (path_comps (fst it)) c md
     else (\<exists>old. read_bytes (files wm) (?d @ [''manifest.json'']) = Inr old \<and> sha256 e old = fp) \<and>
       (\<forall>p. files w' (?d @ p) = files w (?d @ p) \<and> files wm (?d @ p) = files w (?d @ p))"
  proof (cases "files w ?d = None")
    case True
    then have "files wm ?d = None" using dwm [of "[]"] by simp
    then have "\<not> exists_at (files wm) ?d" by (simp add: exists_at_def node_at_def follow_absent)
    with x have "renameM inc ?d wm = (Inr (), w3)" by simp
    then have "files w3 = move_tree inc ?d (files wm)" by (auto simp: renameM_def split: if_splits)
    then have moved: "files w' (?d @ p) = files wm (inc @ p)" for p
      using last [of p] by (simp add: move_tree_def is_prefix_def)
    have "\<exists>c md. files w' (?d @ path_comps (fst it)) = Some (NFile c (nat md) (euid w)) \<and> extracted (sha256 e) it (path_comps (fst it)) c md"
      if it: "it \<in> set (items_of (jget manifest ''files''))" for it
    proof -
      from validate_Inr(8) [OF P(3)] it obtain k where "safe_name (fst it) = Inr k" by (auto simp: case_prod_beta)
      from safe_name_shape [OF this] have ne: "path_comps (fst it) \<noteq> []" by auto
      from P(4) it obtain c md where c: "t (path_comps (fst it)) = Some (EFile c md)" "extracted (sha256 e) it (path_comps (fst it)) c md"
        by blast
      have "files wm (inc @ path_comps (fst it)) = files w2 (inc @ path_comps (fst it))"
        by (rule fm) (simp add: inc_def tmp_def HROOT_def)
      also have "\<dots> = Some (NFile c (nat md) (euid w1))"
        using ne c(1) by (simp add: op(3) install_tree_def is_prefix_def)
      finally show ?thesis using moved c(2) mkdirM_Inr [OF m] by auto
    qed
    then show ?thesis using True by simp
  next
    case False
    then have "files wm ?d \<noteq> None" using dwm [of "[]"] by simp
    then have "exists_at (files wm) ?d" using x by (auto simp: renameM_def split: if_splits)
    with x have "w3 = wm" "\<exists>old. read_bytes (files wm) (?d @ [''manifest.json'']) = Inr old \<and> sha256 e old = fp" by simp_all
    with False last dwm show ?thesis by auto
  qed
  have fp: "fp = sha256 e raw" and mi: "decode raw = Inr manifest"
    and va: "validate manifest (clock e w1) (Some (jget response ''host'')) False = Inr manifest"
    using P(1-3) hj by simp_all
  show ?thesis
    unfolding Let_def
    by (rule exI [of _ raw], rule exI [of _ manifest], rule exI [of _ "clock e w1"], rule exI [of _ "files wm"])
      (intro conjI exI [of _ "euid w3"] r(2) [unfolded rid fp] op(1) mi va b [unfolded rid fp] tree [unfolded rid fp])
qed

section \<open>A concrete archive\<close>

definition bound_manifest :: json where
  "bound_manifest = jset demo_manifest ''files'' (JObj ((''payload/host.py'', demo_record 3) # demo_files))"

definition stored_manifest :: json where
  "stored_manifest = jsort bound_manifest"

definition demo_evidence :: "string \<Rightarrow> json" where
  "demo_evidence g = JObj [(''gate'', JStr g), (''result'', JStr ''PASS''), (''release_id'', JStr ''r-1''),
     (''artifact_fingerprint'', JStr hash_a), (''policy'', JStr ''advisory-denylist-v1''), (''policy_sha256'', JStr hash_a)]"

text \<open>The archive with the bytes \<open>b n\<close> for the file \<open>n\<close>.\<close>

definition stage_listing :: "(string \<Rightarrow> string) \<Rightarrow> string \<Rightarrow> member list" where
  "stage_listing b raw =
     (let mb = (\<lambda>n k d. \<lparr>mname = n, misfile = True, msparse = False, mpax = False, msize = k, mmode = 384, mdata = d\<rparr>)
      in mb ''manifest.json'' 2 raw # mb ''manifest.sig'' 2 ''xx''
         # map (\<lambda>(n, r). mb n (int_of (jget r ''size'')) (b n)) (items_of (jget bound_manifest ''files'')))"

lemma stored_valid: "validate stored_manifest 1500 (Some (jget stored_manifest ''host'')) False = Inr stored_manifest"
  by code_simp

lemma bound_plain: "plain bound_manifest"
  by (simp add: bound_manifest_def jset_def demo_manifest_def demo_files_def demo_record_def SCHEMA_def hash_a_def GATES_def
      ascii_only_def list_all_iff plain_JInt del: plain.simps(3))

lemma stored_decodes: "decode (canonical bound_manifest) = Inr stored_manifest"
  unfolding stored_manifest_def by (rule decode_canonical [OF bound_plain])

definition stored_tree :: "(string \<Rightarrow> string) \<Rightarrow> string \<Rightarrow> tree" where
  "stored_tree b raw = (case foldE (extract_step (\<lambda>s. hash_a) (stage_listing b raw)) (items_of (jget stored_manifest ''files'')) Map.empty of
     Inr t \<Rightarrow> t | Inl x \<Rightarrow> Map.empty)"

lemma stored_extracts:
  "foldE (extract_step (\<lambda>s. hash_a) (stage_listing b raw)) (items_of (jget stored_manifest ''files'')) Map.empty = Inr (stored_tree b raw)"
proof -
  have "case foldE (extract_step (\<lambda>s. hash_a) (stage_listing b raw)) (items_of (jget stored_manifest ''files'')) Map.empty of
      Inl x \<Rightarrow> False | Inr t \<Rightarrow> True"
    by code_simp
  then show ?thesis by (auto simp: stored_tree_def split: sum.splits)
qed

definition evidence_name :: "string \<Rightarrow> string" where "evidence_name g = ''evidence/'' @ g"

definition file_bytes :: "string \<Rightarrow> string" where
  "file_bytes n = (if startswith n ''evidence/'' then canonical (demo_evidence (drop 9 n)) else ''abc'')"

lemma stored_evidence:
  "list_all (\<lambda>g. stored_tree b raw (path_comps (evidence_name g)) = Some (EFile (b (evidence_name g)) 384)) GATES"
  by code_simp

lemma stored_gates:
  "list_all (\<lambda>g. int_of (jget (jget (jget stored_manifest ''files'') (evidence_name g)) ''size'') \<le> MAX_METADATA) GATES"
  by code_simp

lemma demo_evidence_passes:
  "list_all (\<lambda>g. evidence_pass (\<lambda>s. hash_a) stored_manifest g (jsort (demo_evidence g)) \<and>
     policy_bound stored_manifest (jsort (demo_evidence g))) GATES"
  unfolding evidence_pass_def candidate_fingerprint_def by code_simp

lemma demo_evidence_plain: "g \<in> set GATES \<Longrightarrow> plain (demo_evidence g)"
  by (auto simp: demo_evidence_def GATES_def hash_a_def ascii_only_def list_all_iff)

lemma stored_gate:
  assumes "g \<in> set GATES"
  shows "gate_step (\<lambda>s. hash_a) stored_manifest (stored_tree file_bytes raw) (g, JStr (evidence_name g)) () = Inr ()"
proof -
  have f: "file_bytes (evidence_name g) = canonical (demo_evidence g)" by (simp add: file_bytes_def startswith_def evidence_name_def)
  have t: "stored_tree file_bytes raw (path_comps (evidence_name g)) = Some (EFile (file_bytes (evidence_name g)) 384)"
    and s: "int_of (jget (jget (jget stored_manifest ''files'') (evidence_name g)) ''size'') \<le> MAX_METADATA"
    and p: "evidence_pass (\<lambda>s. hash_a) stored_manifest g (jsort (demo_evidence g))"
      "policy_bound stored_manifest (jsort (demo_evidence g))"
    using assms stored_evidence [of file_bytes raw] stored_gates demo_evidence_passes unfolding list_all_iff by blast+
  show ?thesis
    unfolding gate_step_def prod.case str_of.simps t f option.case entry.case
    using s p decode_canonical [OF demo_evidence_plain [OF assms]] by (cases "g = ''vulnerability_scan''") simp_all
qed

lemma stored_items: "items_of (jget stored_manifest ''evidence'') = map (\<lambda>g. (g, JStr (evidence_name g))) (sort GATES)"
  by code_simp

lemma stored_names:
  "same_set (map mname (stage_listing b raw)) (keys_of (jget stored_manifest ''files'') @ [''manifest.json'', ''manifest.sig''])"
  by code_simp

lemma foldE_units: "(\<And>x. x \<in> set xs \<Longrightarrow> f x () = Inr ()) \<Longrightarrow> foldE f xs () = Inr ()"
  by (induction xs) auto

lemma stored_opens:
  "\<exists>t. open_payload (\<lambda>s. hash_a) (stage_listing file_bytes (canonical bound_manifest)) (canonical bound_manifest) ''xx'' 1500
     (Some (jget stored_manifest ''host'')) None = Inr (stored_manifest, hash_a, t)"
proof -
  have g: "foldE (gate_step (\<lambda>s. hash_a) stored_manifest (stored_tree file_bytes raw)) (items_of (jget stored_manifest ''evidence'')) () = Inr ()" for raw
    by (rule foldE_units) (auto simp: stored_items stored_gate)
  show ?thesis
    by (simp add: open_payload_def stored_decodes stored_valid stored_names stored_extracts g)
qed

lemma stored_members: "members (stage_listing b raw) = Inr (stage_listing b raw)"
  by code_simp

lemma stored_metadata:
  "lookup (stage_listing b raw) ''manifest.json'' =
     Some \<lparr>mname = ''manifest.json'', misfile = True, msparse = False, mpax = False, msize = 2, mmode = 384, mdata = raw\<rparr>"
  "lookup (stage_listing b raw) ''manifest.sig'' =
     Some \<lparr>mname = ''manifest.sig'', misfile = True, msparse = False, mpax = False, msize = 2, mmode = 384, mdata = ''xx''\<rparr>"
  by code_simp+

definition accept_cmd :: "unit commands" where "accept_cmd a d w = (Exited 0 [], w)"

definition stage_env :: "unit env" where
  "stage_env = bare_env accept_cmd (\<lambda>s. Some (stage_listing file_bytes (canonical bound_manifest)))"

definition demo_response :: json where "demo_response = JObj [(''host'', jget stored_manifest ''host'')]"

definition demo_stage :: "json res \<times> unit world" where
  "demo_stage = stage_release stage_env demo_response ''archive'' bare_world"

definition demo_temporary :: path where "demo_temporary = HROOT @ [''.incoming-x'']"

definition demo_received :: "unit world" where
  "demo_received = set_files ((files bare_world)(demo_temporary \<mapsto> NDir 448 0)) bare_world"

lemma stage_unpacks:
  "\<exists>t. unpack (sha256 stage_env) (tar stage_env) (cmd stage_env) sp [''archive''] (demo_temporary @ [''release'']) SIGNERS
     (path_text SIGNERS) (Some (jget stored_manifest ''host'')) 1500 None (Some 0) demo_received =
   (Inr (stored_manifest, hash_a), set_files (install_tree 0 (demo_temporary @ [''release'']) t (files demo_received)) demo_received)"
proof -
  obtain t where t: "open_payload (\<lambda>s. hash_a) (stage_listing file_bytes (canonical bound_manifest)) (canonical bound_manifest) ''xx'' 1500
     (Some (jget stored_manifest ''host'')) None = Inr (stored_manifest, hash_a, t)"
    using stored_opens by blast
  have "\<not> exists_at (files demo_received) (demo_temporary @ [''release''])"
    and "protected_file (files demo_received) SIGNERS (Some 0) = Inr SIGNERS" and "copy_source [''archive''] = Inr ''archive''"
    by code_simp+
  then show ?thesis
    by (intro exI [of _ t])
      (simp add: unpack_def stage_env_def bare_env_def stored_members stored_metadata t MAX_METADATA_def runM_def accept_cmd_def
        bindM_def liftE_def requireM_def ret_def modifyM_def set_files_def demo_received_def bare_world_def)
qed

lemma stage_places:
  "case bindM (place_release (bare_env accept_cmd a) (demo_temporary @ [''release'']) ''r-1'' hash_a)
     (\<lambda>_. atomicM (binding_path ''r-1'') (canonical (JObj [(''fingerprint'', JStr hash_a)])))
     (set_files (install_tree 0 (demo_temporary @ [''release'']) t (files demo_received)) demo_received) of
   (Inl x, w) \<Rightarrow> False | (Inr u, w) \<Rightarrow> True"
  by code_simp

definition staged_reply :: json where "staged_reply = stage_reply_of demo_response ''r-1'' hash_a"

lemma demo_stage_runs: "\<exists>w'. demo_stage = (Inr staged_reply, w')"
proof -
  obtain t where u: "unpack (sha256 stage_env) (tar stage_env) (cmd stage_env) (path_text (demo_temporary @ [''.verify'', ''signature'']))
     [''archive''] (demo_temporary @ [''release'']) SIGNERS (path_text SIGNERS) (Some (jget stored_manifest ''host'')) 1500 None (Some 0) demo_received =
   (Inr (stored_manifest, hash_a), set_files (install_tree 0 (demo_temporary @ [''release'']) t (files demo_received)) demo_received)"
    using stage_unpacks by blast
  have p: "\<exists>u w2 w3. place_release stage_env (demo_temporary @ [''release'']) ''r-1'' hash_a
       (set_files (install_tree 0 (demo_temporary @ [''release'']) t (files demo_received)) demo_received) = (Inr u, w2) \<and>
     atomicM (binding_path ''r-1'') (canonical (JObj [(''fingerprint'', JStr hash_a)])) w2 = (Inr (), w3)"
    using stage_places [of "\<lambda>s. Some (stage_listing file_bytes (canonical bound_manifest))" t]
    by (auto simp: stage_env_def bindM_def split: prod.splits sum.splits)
  have "files bare_world demo_temporary = None" "is_dir_at (files bare_world) (butlast demo_temporary)"
    "\<not> is_dir_at (files bare_world) demo_temporary" "euid bare_world = 0" by code_simp+
  then have m: "mkdirM demo_temporary 448 False bare_world = (Inr (), demo_received)" by (simp add: mkdirM_def demo_received_def)
  have i: "idx demo_response ''host'' = Inr (jget stored_manifest ''host'')" "jget stored_manifest ''release_id'' = JStr ''r-1''"
    "has_key (jget stored_manifest ''files'') ''payload/host.py''" by code_simp+
  have c: "HROOT @ [''.incoming-'' @ fresh stage_env w] = demo_temporary" "clock stage_env w = 1500" for w
    by (simp_all add: demo_temporary_def stage_env_def bare_env_def)
  have "\<exists>w'. receive_release stage_env demo_temporary demo_response ''archive'' demo_received = (Inr staged_reply, w')"
    using p unfolding receive_release_def Let_def getsM_def
    by (auto simp: bindM_def liftE_def u i c staged_reply_def requireM_def ret_def)
  then show ?thesis
    unfolding demo_stage_def stage_release_def getsM_def c by (auto simp: bindM_def m finallyM_def remove_tree_def modifyM_def)
qed

theorem stage_release_binds_witness:
  "\<exists>u. files (snd demo_stage) (binding_path ''r-1'') = Some (NFile (canonical (JObj [(''fingerprint'', JStr hash_a)])) 384 u)"
proof -
  obtain w' where w: "stage_release stage_env demo_response ''archive'' bare_world = (Inr staged_reply, w')"
    using demo_stage_runs unfolding demo_stage_def by blast
  have "verification_reads stage_env" by (simp add: verification_reads_def stage_env_def bare_env_def accept_cmd_def)
  from stage_release_binds [OF w this] obtain manifest u where
    m: "staged_reply = stage_reply_of demo_response (str_of (jget manifest ''release_id'')) hash_a"
    "files w' (binding_path (str_of (jget manifest ''release_id''))) = Some (NFile (canonical (JObj [(''fingerprint'', JStr hash_a)])) 384 u)"
    unfolding Let_def stage_env_def bare_env_def by auto
  have "jget (stage_reply_of demo_response r hash_a) ''release_id'' = JStr r" for r by code_simp
  with m(1) have "str_of (jget manifest ''release_id'') = ''r-1''" unfolding staged_reply_def by (metis json.inject(4))
  with m(2) w show ?thesis by (auto simp: demo_stage_def)
qed

end
