(* ===== verification/GuestFacts.thy ===== *)
theory GuestFacts
  imports Guest
begin

text \<open>
  Facts on the guest's endpoint: the programs of a candidate are only run while the tree that holds them is
  the enrolled candidate.
\<close>

section \<open>The tree holds the candidate\<close>

definition holds_file :: "'x env \<Rightarrow> fsys \<Rightarrow> path \<Rightarrow> string \<times> json \<Rightarrow> bool" where
  "holds_file e fs d nr \<longleftrightarrow> (\<exists>c m. fs (under d (fst nr)) = Some (NFile c m 0) \<and> \<not> writable_by_others (NFile c m 0) \<and>
     py_eq (JInt (int (length c))) (jget (snd nr) ''size'') \<and> JStr (sha256 e c) = jget (snd nr) ''sha256'')"

text \<open>A root-owned manifest with the enrolled hash, and for every entry of it the bytes that it names.\<close>

definition holds_candidate :: "'x env \<Rightarrow> fsys \<Rightarrow> json \<Rightarrow> bool" where
  "holds_candidate e fs enrolled \<longleftrightarrow> (\<exists>raw m v now manifest.
     fs (GUEST_CANDIDATE @ [''manifest.json'']) = Some (NFile raw m 0) \<and> \<not> writable_by_others (NFile raw m 0) \<and>
     JStr (sha256 e raw) = enrolled \<and> decode raw = Inr v \<and> validate_candidate v now = Inr manifest \<and>
     (\<forall>nr \<in> set (items_of (jget manifest ''files'')). holds_file e fs GUEST_CANDIDATE nr))"

lemma protected_node:
  "protected_file fs p (Some u) = Inr q \<Longrightarrow>
     q = p \<and> (\<exists>c m. fs p = Some (NFile c m u) \<and> \<not> writable_by_others (NFile c m u) \<and> read_bytes fs p = Inr c)"
  by (auto simp: protected_file_iff writable_by_others_def)

lemma candidate_file_Inr:
  assumes "candidate_file (sha256 e) d 0 nr w = (Inr u, w')"
  shows "w' = w \<and> holds_file e (files w) d nr"
proof -
  from assms obtain q c where q: "protected_file (files w) (under d (fst nr)) (Some 0) = Inr q" "read_bytes (files w) q = Inr c"
    and c: "py_eq (JInt (int (length c))) (jget (snd nr) ''size'')" "JStr (sha256 e c) = jget (snd nr) ''sha256''" "w' = w"
    by (auto simp: candidate_file_def bindM_eq_iff protectedM_def requireM_eq_iff readM_def ret_def)
  from protected_node [OF q(1)] q(2) c show ?thesis by (auto simp: holds_file_def)
qed

lemma candidate_files_Inr:
  "forM nrs (candidate_file (sha256 e) d 0) w = (Inr u, w') \<Longrightarrow> w' = w \<and> (\<forall>nr \<in> set nrs. holds_file e (files w) d nr)"
  by (induction nrs arbitrary: w) (auto simp: thenM_def bindM_eq_iff ret_def dest!: candidate_file_Inr)

lemma verified_holds:
  assumes "verify_candidate_tree e t GUEST_CANDIDATE policy 0 w = (Inr manifest, w')"
  shows "w' = w \<and> holds_candidate e (files w) (jget policy ''candidate_sha256'')"
proof -
  let ?p = "GUEST_CANDIDATE @ [''manifest.json'']"
  from assms obtain q raw v now w1 u where q: "protected_file (files w) ?p (Some 0) = Inr q" "read_bytes (files w) q = Inr raw"
    and v: "JStr (sha256 e raw) = jget policy ''candidate_sha256''" "decode raw = Inr v" "validate_candidate v now = Inr manifest" "w1 = w"
    and f: "forM (items_of (jget manifest ''files'')) (candidate_file (sha256 e) GUEST_CANDIDATE 0) w1 = (Inr u, w')"
    by (auto simp: verify_candidate_tree_def validate_raw_def read_protectedM_def bindM_eq_iff protectedM_def readM_def requireM_eq_iff
        bindE_Inr_iff ret_def Let_def)
  from protected_node [OF q(1)] q(2) obtain m where
    "files w ?p = Some (NFile raw m 0)" "\<not> writable_by_others (NFile raw m 0)" by auto
  with v candidate_files_Inr [OF f] show ?thesis unfolding holds_candidate_def by blast
qed

text \<open>A file that is there is not replaced when a lock file is made.\<close>

lemma locked_file: "files w q = Some n \<Longrightarrow> files (locked p w) q = Some n"
  by (auto simp: locked_def with_lock_file_def)

lemma holds_locked: "holds_candidate e (files w) d \<Longrightarrow> holds_candidate e (files (locked p w)) d"
proof -
  assume h: "holds_candidate e (files w) d"
  have "holds_file e (files w) q nr \<Longrightarrow> holds_file e (files (locked p w)) q nr" for q nr
    unfolding holds_file_def using locked_file [of w _ _ p] by blast
  then have b: "Ball A (holds_file e (files w) q) \<Longrightarrow> Ball A (holds_file e (files (locked p w)) q)" for A q by blast
  from h obtain raw m v now manifest where c: "files w (GUEST_CANDIDATE @ [''manifest.json'']) = Some (NFile raw m 0)"
    "\<not> writable_by_others (NFile raw m 0)" "JStr (sha256 e raw) = d" "decode raw = Inr v" "validate_candidate v now = Inr manifest"
    "Ball (set (items_of (jget manifest ''files''))) (holds_file e (files w) GUEST_CANDIDATE)"
    unfolding holds_candidate_def by blast
  show ?thesis
    unfolding holds_candidate_def
    by (rule exI [of _ raw], rule exI [of _ m], rule exI [of _ v], rule exI [of _ now], rule exI [of _ manifest],
        intro conjI locked_file [OF c(1)] c(2-5) b [OF c(6)])
qed

section \<open>Only the enrolled candidate runs\<close>

text \<open>
  The commands \<open>c\<close> and those of \<open>e\<close> may only differ on the programs of the candidate, and there only while
  the tree does not hold the candidate with the enrolled hash.
\<close>

definition spares_candidate :: "'x env \<Rightarrow> 'x commands \<Rightarrow> json \<Rightarrow> bool" where
  "spares_candidate e c enrolled \<longleftrightarrow> (\<forall>a i w.
     (\<forall>action. a \<noteq> guest_host_args action) \<or> holds_candidate e (files w) enrolled \<longrightarrow> c a i w = cmd e a i w)"

lemma spares_other: "spares_candidate e c h \<Longrightarrow> length a \<noteq> 5 \<or> hd a \<noteq> ''/usr/bin/python3'' \<Longrightarrow> c a i w = cmd e a i w"
proof -
  assume a: "spares_candidate e c h" and "length a \<noteq> 5 \<or> hd a \<noteq> ''/usr/bin/python3''"
  then have "a \<noteq> guest_host_args action" for action by (auto simp: guest_host_args_def)
  with a show ?thesis unfolding spares_candidate_def by blast
qed

lemma spares_run: "spares_candidate e c h \<Longrightarrow> length a \<noteq> 5 \<or> hd a \<noteq> ''/usr/bin/python3'' \<Longrightarrow> runM c a i = runM (cmd e) a i"
  by (simp add: runM_def fun_eq_iff spares_other)

lemma modules_same: "previous_modules (e\<lparr>cmd := c\<rparr>) t k = previous_modules e t k"
proof -
  have "module_step (e\<lparr>cmd := c\<rparr>) = module_step e" by (intro ext) (simp add: module_step_def cong: option.case_cong node.case_cong)
  then show ?thesis by (simp add: previous_modules_def)
qed

lemma retained_same: "retained (e\<lparr>cmd := c\<rparr>) t policy = retained e t policy"
  by (simp add: retained_def modules_same)

lemma entries_same:
  assumes spares: "spares_candidate e c h"
  shows "boot_entries (e\<lparr>cmd := c\<rparr>) key = boot_entries e key"
  by (simp add: boot_entries_def spares_run [OF spares])

lemma capture_same:
  assumes spares: "spares_candidate e c h"
  shows "capture_previous (e\<lparr>cmd := c\<rparr>) t policy = capture_previous e t policy"
  by (simp add: capture_previous_def selected_entry_def retained_same entries_same [OF spares] modules_same spares_run [OF spares] cong: if_cong)

lemma select_same:
  assumes spares: "spares_candidate e c h"
  shows "select_entry (e\<lparr>cmd := c\<rparr>) t policy manifest previous = select_entry e t policy manifest previous"
  by (simp add: select_entry_def retained_same entries_same [OF spares] spares_run [OF spares] Let_def)

lemma guest_enrollment_same:
  assumes spares: "spares_candidate e c h"
  shows "guest_enrollment (e\<lparr>cmd := c\<rparr>) = guest_enrollment e"
  by (simp add: guest_enrollment_def spares_run [OF spares])

lemma validate_raw_same: "validate_raw (e\<lparr>cmd := c\<rparr>) = validate_raw e"
  by (intro ext) (simp add: validate_raw_def)

lemma verify_same: "verify_candidate_tree (e\<lparr>cmd := c\<rparr>) t d policy owner = verify_candidate_tree e t d policy owner"
  by (simp add: verify_candidate_tree_def validate_raw_same)

lemma receive_same: "receive (e\<lparr>cmd := c\<rparr>) d policy stream = receive e d policy stream"
proof -
  have "receive_member (e\<lparr>cmd := c\<rparr>) = receive_member e" by (intro ext) (simp add: receive_member_def Let_def)
  then show ?thesis by (simp add: receive_def validate_raw_same)
qed

lemma temporaryM_same: "temporaryM (e\<lparr>cmd := c\<rparr>) d p body = temporaryM e d p body"
  by (simp add: temporaryM_def)

lemma guest_stage_same:
  assumes spares: "spares_candidate e c h"
  shows "guest_stage (e\<lparr>cmd := c\<rparr>) t policy rest = guest_stage e t policy rest"
  by (simp add: guest_stage_def capture_same [OF spares] receive_same verify_same temporaryM_same Let_def cong: if_cong)

lemma observe_args_same: "observe_args (e\<lparr>cmd := c\<rparr>) = observe_args e"
  by (intro ext) (simp add: observe_args_def)

lemma observe_args_long: "observe_args e action policy = Inr args \<Longrightarrow> length args = 8"
  by (auto simp: observe_args_def bindE_Inr_iff)

lemma observe_same:
  assumes spares: "spares_candidate e c h"
  shows "observe (e\<lparr>cmd := c\<rparr>) action policy message rest = observe e action policy message rest"
proof -
  have 1: "bindM (liftE (observe_args e a policy)) (\<lambda>args. bindM (runM c args None) (\<lambda>raw. liftE (decode raw))) =
      bindM (liftE (observe_args e a policy)) (\<lambda>args. bindM (runM (cmd e) args None) (\<lambda>raw. liftE (decode raw)))" for a
    by (intro ext bind_cong refl) (auto dest!: observe_args_long simp: spares_run [OF spares])
  have 2: "bindM (liftE (observe_args e a policy)) (\<lambda>args w. answered (c args d w) restore_verdict) =
      bindM (liftE (observe_args e a policy)) (\<lambda>args w. answered (cmd e args d w) restore_verdict)" for a d
    by (intro ext bind_cong refl) (auto dest!: observe_args_long simp: spares_other [OF spares])
  show ?thesis by (simp add: observe_def guest_restore_def observe_args_same 1 2 Let_def cong: if_cong)
qed

lemma probe_same:
  assumes spares: "spares_candidate e c h"
  shows "lock_probe (e\<lparr>cmd := c\<rparr>) policy = lock_probe e policy"
  by (simp add: lock_probe_def spares_other [OF spares])

lemma backup_same: "guest_backup (e\<lparr>cmd := c\<rparr>) manifest = guest_backup e manifest"
  by (simp add: guest_backup_def)

lemma with_lock_busy: "busy (with_lock_file p w) = busy w"
  by (simp add: with_lock_file_def)

lemma operation_same:
  assumes spares: "spares_candidate e c h" and "holds_candidate e (files w) h"
  shows "guest_operation (e\<lparr>cmd := c\<rparr>) message action w = guest_operation e message action w"
proof -
  have "guest_host_action (e\<lparr>cmd := c\<rparr>) action m (locked p w) = guest_host_action e action m (locked p w)" for m p
    using spares holds_locked [OF assms(2)] unfolding spares_candidate_def by (simp add: guest_host_action_def)
  then have "lockM p (guest_host_action (e\<lparr>cmd := c\<rparr>) action m) w = lockM p (guest_host_action e action m) w" for m p
    by (simp add: lockM_def Let_def finallyM_def locked_def with_lock_busy)
  then show ?thesis by (simp add: guest_operation_def bindM_def)
qed

lemma serve_same:
  assumes spares: "spares_candidate e c h" and "jget policy ''candidate_sha256'' = h"
  shows "guest_serve (e\<lparr>cmd := c\<rparr>) t policy message action rest = guest_serve e t policy message action rest"
  unfolding guest_serve_def guest_stage_same [OF spares] verify_same select_same [OF spares] probe_same [OF spares] observe_same [OF spares] backup_same
proof (intro ext if_cong refl, rule bind_cong [OF refl])
  fix w manifest w' assume v: "verify_candidate_tree e t GUEST_CANDIDATE policy 0 w = (Inr manifest, w')"
  from verified_holds [OF v] assms(2) have "holds_candidate e (files w') h" by simp
  then have "bindM (guest_operation (e\<lparr>cmd := c\<rparr>) message action) k w' = bindM (guest_operation e message action) k w'"
    for k :: "json \<Rightarrow> ('a world, dispatch_reply) prog"
    by (simp add: bindM_def operation_same [OF spares])
  then show "(if action \<in> set [''select-previous'', ''select-updated''] then
          bindM (lockM (HROOT @ [''target.lock'']) (select_entry e t policy manifest (action = ''select-previous''))) (\<lambda>r. ret (Reply r))
        else if action = ''lock-probe'' then bindM (lock_probe e policy) (\<lambda>r. ret (Reply r))
        else if action \<in> set OBSERVED then bindM (observe e action policy message rest) (\<lambda>r. ret (Reply r))
        else if action = ''backup'' then bindM (guest_backup e manifest) (\<lambda>c. ret (Stream c))
        else bindM (guest_operation (e\<lparr>cmd := c\<rparr>) message action) (\<lambda>r. ret (Reply r))) w' =
      (if action \<in> set [''select-previous'', ''select-updated''] then
          bindM (lockM (HROOT @ [''target.lock'']) (select_entry e t policy manifest (action = ''select-previous''))) (\<lambda>r. ret (Reply r))
        else if action = ''lock-probe'' then bindM (lock_probe e policy) (\<lambda>r. ret (Reply r))
        else if action \<in> set OBSERVED then bindM (observe e action policy message rest) (\<lambda>r. ret (Reply r))
        else if action = ''backup'' then bindM (guest_backup e manifest) (\<lambda>c. ret (Stream c))
        else bindM (guest_operation e message action) (\<lambda>r. ret (Reply r))) w'"
    by simp
qed

lemma guest_enrollment_policy:
  assumes "guest_enrollment e w = (Inr policy, w')"
  shows "\<exists>raw. read_bytes (files w) GUEST_POLICY = Inr raw \<and> decode raw = Inr policy"
  using assms
  by (auto simp: guest_enrollment_def bindM_eq_iff requireM_eq_iff read_protectedM_Inr ret_def)


text \<open>A guest whose tree is another candidate than the enrolled one, and two commands that disagree on its programs.\<close>

definition guest_cmd :: "string \<Rightarrow> unit commands" where
  "guest_cmd out a d w = (if length a = 5 \<and> a = guest_host_args (last a) then (Exited 0 out, w) else (Exited 0 ''256 f'', w))"

definition guest_env :: "unit env" where
  "guest_env = \<lparr>sha256 = (\<lambda>s. replicate 64 CHR ''a''), cmd = guest_cmd ''{}'', boot = (\<lambda>w. ''b''), clock = (\<lambda>w. 1000),
     rglob_rpm = (\<lambda>fs d. []), space = (\<lambda>p w. 0), account = (\<lambda>w. None), pause = (\<lambda>n w. w),
     source = [''s''], group = (\<lambda>p w. 0), wall = (\<lambda>w. 0), tar = (\<lambda>s. None), fresh = (\<lambda>w. ''x'')\<rparr>"

definition guest_tools :: tools where
  "guest_tools = \<lparr>entries = (\<lambda>fs p. []), pack = (\<lambda>ms. [])\<rparr>"

definition guest_policy :: json where
  "guest_policy = JObj [(''candidate_sha256'', JStr (replicate 64 CHR ''b'')), (''domain_uuid'', JStr DOMAIN),
     (''host'', JObj [(''machine_id_sha256'', JStr (replicate 64 CHR ''a'')), (''ssh_fingerprint'', JStr ''f'')]),
     (''kernel'', JStr ''k''), (''run_id'', JStr (replicate 64 CHR ''c'')), (''schema'', JStr ''hermes-lab-certifier-v1'')]"

definition guest_policy_text :: string where
  "guest_policy_text = ''{\"candidate_sha256\":\"'' @ replicate 64 CHR ''b'' @ ''\",\"domain_uuid\":\"'' @ DOMAIN
     @ ''\",\"host\":{\"machine_id_sha256\":\"'' @ replicate 64 CHR ''a'' @ ''\",\"ssh_fingerprint\":\"f\"},\"kernel\":\"k\",\"run_id\":\"''
     @ replicate 64 CHR ''c'' @ ''\",\"schema\":\"hermes-lab-certifier-v1\"}''"

definition guest_world :: "unit world" where
  "guest_world = \<lparr>files = map_of (
       [(GUEST_POLICY, NFile guest_policy_text 420 0), (PRODUCT_UUID, NFile DOMAIN 420 0),
        (STAGE_MARKER, NFile ''hermes-disposable-tpm-stage-v1'' 420 0), (MACHINE_ID, NFile ''m'' 420 0),
        (GUEST_CANDIDATE @ [''manifest.json''], NFile ''{}'' 420 0), (GUEST_ROOT, NDir 448 0), (GUEST_CANDIDATE, NDir 448 0)]
       @ map (\<lambda>d. (d, NDir 493 0)) [[], [''etc''], [''var''], [''var'', ''lib'']]),
     euid = 0, busy = [], faults = [], ext = ()\<rparr>"

definition guest_message :: string where
  "guest_message = canonical (JObj [(''action'', JStr ''status''), (''run_id'', JStr (replicate 64 CHR ''c'')),
     (''schema'', JStr ''hermes-lab-candidate-v1'')])"

interpretation still: guarantee "\<lambda>w w'. w' = w"
  by unfold_locales auto

lemma still_enrollment: "moves (\<lambda>w w'. w' = w) (guest_enrollment guest_env)"
proof -
  have r: "moves (\<lambda>w w'. w' = w) (runM (cmd guest_env) a d)" for a d
    by (simp add: moves_def runM_def guest_env_def guest_cmd_def split: outcome.split)
  have "moves (\<lambda>w w'. w' = w) (read_textM p)" "moves (\<lambda>w w'. w' = w) (digestM h p)" "moves (\<lambda>w w'. w' = w) (read_protectedM p owner)" for p h owner
    by (auto simp: moves_def read_textM_def digestM_def read_protectedM_def protectedM_def readM_def bindM_def split: sum.splits)
  then show ?thesis
    unfolding guest_enrollment_def by (intro still.moves_bind still.moves_require still.moves_if still.moves_pure r)
qed

lemma snd_read_protected: "snd (read_protectedM p owner w) = w"
  by (auto simp: read_protectedM_def protectedM_def readM_def bindM_def split: sum.splits)

lemma guest_enrolled: "guest_enrollment guest_env guest_world = (Inr guest_policy, guest_world)"
proof -
  have "fst (guest_enrollment guest_env guest_world) = Inr guest_policy" by code_simp
  moreover have "snd (guest_enrollment guest_env guest_world) = guest_world"
    using still_enrollment by (simp add: moves_def)
  ultimately show ?thesis by (simp add: prod_eq_iff)
qed

definition parsed_message :: json where
  "parsed_message = JObj [(''action'', JStr ''status''), (''run_id'', JStr (replicate 64 CHR ''c'')),
     (''schema'', JStr ''hermes-lab-candidate-v1'')]"


end
