(* ===== verification/HostFacts.thy ===== *)
theory HostFacts
  imports Host "HOL-Library.Sublist"
begin

text \<open>
  Facts on \<^verbatim>\<open>host.py\<close>: the phases a call can leave in the journal, whatever its commands do; what must
  have happened before a release is closed; and the restoration of a tracked file by a rollback.
\<close>

section \<open>The memory of a process\<close>

text \<open>
  \<open>mp m Q E s\<close>: started with memory \<open>s\<close> in any world, \<open>m\<close> either returns a value with a memory in \<open>Q\<close>,
  or raises with a memory in \<open>E\<close>. Nothing is said of the world.
\<close>

definition mp :: "('m, 'x, 'a) process \<Rightarrow> ('a \<Rightarrow> 'm \<Rightarrow> bool) \<Rightarrow> ('m \<Rightarrow> bool) \<Rightarrow> 'm \<Rightarrow> bool" where
  "mp m Q E s \<longleftrightarrow> (\<forall>w. wp m (\<lambda>x t. Q x (fst t)) (\<lambda>_ t. E (fst t)) (s, w))"

named_theorems mp_rules \<open>memory assertions of the program combinators\<close>

lemma mp_bind [mp_rules]:
  assumes "mp m (\<lambda>x t. mp (k x) Q E t) E s"
  shows "mp (bindM m k) Q E s"
  unfolding mp_def wp_bindM
proof
  fix w
  have "wp m (\<lambda>x t. mp (k x) Q E (fst t)) (\<lambda>_ t. E (fst t)) (s, w)" using assms by (simp add: mp_def)
  then show "wp m (\<lambda>x. wp (k x) (\<lambda>x t. Q x (fst t)) (\<lambda>_ t. E (fst t))) (\<lambda>_ t. E (fst t)) (s, w)"
    by (rule wp_mono) (auto simp: mp_def split_paired_all)
qed

lemma mp_outside [mp_rules]: "(\<And>x. Q x s) \<Longrightarrow> E s \<Longrightarrow> mp (outside m) Q E s"
  by (simp add: mp_def wp_outside_any)

lemma mp_recall [mp_rules]: "Q s s \<Longrightarrow> mp recall Q E s"
  by (simp add: mp_def wp_simps)

lemma mp_remember [mp_rules]: "Q () (f s) \<Longrightarrow> mp (remember f) Q E s"
  by (simp add: mp_def wp_simps)

lemma mp_ret [mp_rules]: "Q x s \<Longrightarrow> mp (ret x) Q E s"
  by (simp add: mp_def wp_simps)

lemma mp_raise [mp_rules]: "E s \<Longrightarrow> mp (raiseM e) Q E s"
  by (simp add: mp_def wp_simps)

lemma mp_lift [mp_rules]: "(\<And>x. r = Inr x \<Longrightarrow> Q x s) \<Longrightarrow> E s \<Longrightarrow> mp (liftE r) Q E s"
  by (simp add: mp_def wp_simps split: sum.split)

lemma mp_require [mp_rules]: "(c \<Longrightarrow> mp k Q E s) \<Longrightarrow> E s \<Longrightarrow> mp (requireM c r n k) Q E s"
  by (simp add: mp_def wp_simps)

lemma mp_if [mp_rules]: "(b \<Longrightarrow> mp m Q E s) \<Longrightarrow> (\<not> b \<Longrightarrow> mp n Q E s) \<Longrightarrow> mp (if b then m else n) Q E s"
  by simp

lemma mp_when [mp_rules]: "(b \<Longrightarrow> mp m Q E s) \<Longrightarrow> (\<not> b \<Longrightarrow> Q () s) \<Longrightarrow> mp (whenM b m) Q E s"
  by (simp add: whenM_def mp_ret)

lemma mp_option [mp_rules]:
  "(x = None \<Longrightarrow> mp m Q E s) \<Longrightarrow> (\<And>y. x = Some y \<Longrightarrow> mp (k y) Q E s) \<Longrightarrow>
     mp (case x of None \<Rightarrow> m | Some y \<Rightarrow> k y) Q E s"
  by (cases x) simp_all

lemma mp_except [mp_rules]:
  assumes "mp m Q (\<lambda>t. E t \<and> mp h Q E t) s"
  shows "mp (exceptM c m h) Q E s"
  unfolding mp_def exceptM_def wp_catchM wp_if wp_raiseM
proof
  fix w
  have "wp m (\<lambda>x t. Q x (fst t)) (\<lambda>_ t. E (fst t) \<and> mp h Q E (fst t)) (s, w)" using assms by (simp add: mp_def)
  then show "wp m (\<lambda>x t. Q x (fst t))
      (\<lambda>x t. if c x then wp h (\<lambda>x t. Q x (fst t)) (\<lambda>_ t. E (fst t)) t else E (fst t)) (s, w)"
    by (rule wp_mono) (auto simp: mp_def split_paired_all)
qed

lemma mp_mono:
  assumes "mp m Q E s" and "\<And>x t. Q x t \<Longrightarrow> Q' x t" and "\<And>t. E t \<Longrightarrow> E' t"
  shows "mp m Q' E' s"
  unfolding mp_def
proof
  fix w
  have "wp m (\<lambda>x t. Q x (fst t)) (\<lambda>_ t. E (fst t)) (s, w)" using assms(1) by (simp add: mp_def)
  then show "wp m (\<lambda>x t. Q' x (fst t)) (\<lambda>_ t. E' (fst t)) (s, w)"
    by (rule wp_mono) (simp_all add: assms(2,3))
qed

lemma mpD:
  assumes "mp m Q E s" and "m (s, w) = (r, (t, w'))"
  shows "case r of Inl x \<Rightarrow> E t | Inr x \<Rightarrow> Q x t"
proof -
  have "wp m (\<lambda>x t. Q x (fst t)) (\<lambda>_ t. E (fst t)) (s, w)" using assms(1) by (simp add: mp_def)
  with assms(2) show ?thesis by (cases r) (auto simp: wp_def)
qed

section \<open>Phases\<close>

datatype phase = New | SnapshotCreating | SnapshotReady | BackupVerified | CredentialReady | PackageStaging
  | RebootPending | RuntimePending | RuntimeInstalled | PersistenceReboot | Closed | RolledBack | RecoveryRequired

fun phase_name :: "phase \<Rightarrow> string" where
  "phase_name New = ''new''"
| "phase_name SnapshotCreating = ''snapshot-creating''"
| "phase_name SnapshotReady = ''snapshot-ready''"
| "phase_name BackupVerified = ''backup-verified''"
| "phase_name CredentialReady = ''credential-ready''"
| "phase_name PackageStaging = ''package-staging''"
| "phase_name RebootPending = ''reboot-pending''"
| "phase_name RuntimePending = ''runtime-pending''"
| "phase_name RuntimeInstalled = ''runtime-installed''"
| "phase_name PersistenceReboot = ''persistence-reboot''"
| "phase_name Closed = ''closed''"
| "phase_name RolledBack = ''rolled-back''"
| "phase_name RecoveryRequired = ''recovery-required''"

definition in_phase :: "json \<Rightarrow> phase \<Rightarrow> bool" where
  "in_phase s p \<longleftrightarrow> is_dict s \<and> jget s ''phase'' = JStr (phase_name p)"

text \<open>The phases that one call of an action may leave, on success or on failure.\<close>

fun outcomes :: "string \<Rightarrow> phase \<Rightarrow> phase list" where
  "outcomes a p =
     p # (if a = ''snapshot'' then (if p = New then [SnapshotCreating, SnapshotReady] else [])
       else if a = ''backup-verified'' then (if p = SnapshotReady then [BackupVerified] else [])
       else if a = ''credential'' then (if p = BackupVerified then [CredentialReady] else [])
       else if a = ''rollback'' then [RolledBack, RecoveryRequired]
       else if a = ''backup-guard'' then
         (if p \<in> set [SnapshotCreating, SnapshotReady, BackupVerified, CredentialReady] then [RolledBack, RecoveryRequired] else [])
       else if a = ''deploy'' \<or> a = ''upgrade'' then
         (case p of
            CredentialReady \<Rightarrow> [PackageStaging, RebootPending]
          | RebootPending \<Rightarrow> [RuntimePending, RuntimeInstalled, PersistenceReboot, RolledBack, RecoveryRequired]
          | RuntimePending \<Rightarrow> [RuntimeInstalled, PersistenceReboot, RolledBack, RecoveryRequired]
          | RuntimeInstalled \<Rightarrow> [PersistenceReboot, RolledBack, RecoveryRequired]
          | PersistenceReboot \<Rightarrow> [Closed, RolledBack, RecoveryRequired]
          | _ \<Rightarrow> [])
       else [])"

declare outcomes.simps [simp del]

lemma phase_name_inj: "phase_name p = phase_name q \<longleftrightarrow> p = q"
  by (cases p; cases q; simp)

lemma field_phase: "mp (field k) Q E s \<longleftrightarrow> (case idx s k of Inl e \<Rightarrow> E s | Inr x \<Rightarrow> Q x s)"
  by (simp add: field_def mp_def wp_simps split: sum.split)

lemma in_phase_idx: "in_phase s p \<Longrightarrow> idx s ''phase'' = Inr (JStr (phase_name p))"
  by (cases s) (auto simp: in_phase_def jget_def split: option.splits)

lemma update_phase [simp]:
  "is_dict s \<Longrightarrow> is_dict (update (kvs @ [(k, v)]) s)" "jget (update (kvs @ [(k, v)]) s) k = v"
  by (simp_all add: update_def jset_def jget_jset [unfolded jset_def])

lemma mp_field [mp_rules]: "(\<And>x. idx s k = Inr x \<Longrightarrow> Q x s) \<Longrightarrow> E s \<Longrightarrow> mp (field k) Q E s"
  by (simp add: field_phase split: sum.split)

lemma mp_manifest [mp_rules]: "(\<And>x. Q x s) \<Longrightarrow> E s \<Longrightarrow> mp (manifest_field h k) Q E s"
  unfolding manifest_field_def by (rule mp_lift)

lemma mp_save:
  assumes "in_phase s p" and "E s"
    and "\<And>t. in_phase t q \<Longrightarrow> Q (stage_reply h (JStr (phase_name q))) t" and "\<And>t. in_phase t q \<Longrightarrow> E t"
    and n: "n = phase_name q"
  shows "mp (save h n kvs) Q E s"
proof -
  let ?t = "update (kvs @ [(''phase'', JStr n)]) s"
  have "in_phase ?t q" using assms(1) n by (simp add: in_phase_def)
  with assms show ?thesis
    unfolding save_def by (auto intro!: mp_rules)
qed

lemma mp_rollback:
  assumes "in_phase s p" and "E s" and "\<And>x q t. q \<in> {RolledBack, RecoveryRequired} \<Longrightarrow> in_phase t q \<Longrightarrow> Q x t \<and> E t"
  shows "mp (rollback e h) Q E s"
proof -
  have "mp (save h (phase_name q) []) Q E s" if "q \<in> {RolledBack, RecoveryRequired}" for q
    using mp_save [where q = q and s = s and p = p and Q = Q and E = E, OF assms(1,2)] assms(3) [OF that] by blast
  from this [of RolledBack] this [of RecoveryRequired]
  have r: "mp (save h ''rolled-back'' []) Q E s" "mp (save h ''recovery-required'' []) Q E s" by simp_all
  show ?thesis unfolding rollback_def
    by (intro mp_rules) (use assms r in \<open>auto intro: mp_ret\<close>)
qed

section \<open>What one call leaves\<close>

text \<open>
  \<open>good a p\<close>: the memories that a call of \<open>a\<close> from phase \<open>p\<close> may leave; \<open>told h a p\<close>: a value and a memory
  with the phase that the value reports.
\<close>

definition good :: "string \<Rightarrow> phase \<Rightarrow> json \<Rightarrow> bool" where
  "good a p t \<longleftrightarrow> (\<exists>q \<in> set (outcomes a p). in_phase t q)"

definition told :: "host \<Rightarrow> string \<Rightarrow> phase \<Rightarrow> json \<Rightarrow> json \<Rightarrow> bool" where
  "told h a p v t \<longleftrightarrow> good a p t \<and> jget v ''ok'' = JBool True \<and> jget v ''stage'' = jget t ''phase''
     \<and> jget v ''release_id'' = JStr (release h)"

lemma goodI: "in_phase t q \<Longrightarrow> q \<in> set (outcomes a p) \<Longrightarrow> good a p t"
  unfolding good_def by blast

lemma outcomes_self [simp]: "p \<in> set (outcomes a p)"
  by (subst outcomes.simps) simp

lemma jget_Cons: "jget (JObj ((k, v) # r)) k' = (if k' = k then v else jget (JObj r) k')"
  by (simp add: jget_def)

lemma told_reply: "in_phase t q \<Longrightarrow> q \<in> set (outcomes a p) \<Longrightarrow> told h a p (stage_reply h (JStr (phase_name q))) t"
  using goodI [of t q a p] by (simp add: told_def stage_reply_def jget_Cons in_phase_def)

lemma told_digest: "in_phase t q \<Longrightarrow> q \<in> set (outcomes a p) \<Longrightarrow> told h a p (digest_reply h (JStr (phase_name q)) v) t"
  using goodI [of t q a p] by (simp add: told_def digest_reply_def jget_Cons in_phase_def)

lemma in_phase_jset: "in_phase s p \<Longrightarrow> k \<noteq> ''phase'' \<Longrightarrow> in_phase (jset s k v) p"
  by (simp add: in_phase_def jget_jset) (simp add: jset_def)

lemma mp_save_good:
  assumes "in_phase s p'" and "p' \<in> set (outcomes a p)" and "q \<in> set (outcomes a p)" and "n = phase_name q"
    and "\<And>t. in_phase t q \<Longrightarrow> Q (stage_reply h (JStr (phase_name q))) t"
  shows "mp (save h n kvs) Q (good a p) s"
  by (rule mp_save [OF assms(1), where q = q]) (use assms goodI in auto)

lemma mp_snapshot:
  assumes "in_phase s p"
  shows "mp (snapshot_data e h) (told h ''snapshot'' p) (good ''snapshot'' p) s"
proof -
  have g: "good ''snapshot'' p s" using assms by (auto intro: goodI)
  show ?thesis
  proof (cases "p = New")
    case False
    then have "JStr (phase_name p) \<noteq> JStr ''new''" by (cases p) auto
    then show ?thesis unfolding snapshot_data_def
      using g by (intro mp_rules) (auto simp: in_phase_idx [OF assms] intro!: told_digest [OF assms])
  next
    case True
    have last: "mp (save h ''snapshot-ready'' kvs)
        (\<lambda>_. mp (ret (digest_reply h (JStr ''snapshot-ready'') v)) (told h ''snapshot'' p) (good ''snapshot'' p))
        (good ''snapshot'' p) t" if "in_phase t SnapshotCreating" for t v kvs
      by (rule mp_save_good [OF that, where q = SnapshotReady])
        (use True in \<open>simp_all add: outcomes.simps mp_ret told_digest [where q = SnapshotReady, simplified phase_name.simps]\<close>)
    have creating: "mp (save h ''snapshot-creating'' []) (\<lambda>_ t. in_phase t SnapshotCreating) (good ''snapshot'' p)
        (jset s ''previous_active'' b)" for b
      by (rule mp_save_good [where p' = p, where q = SnapshotCreating]) (use True in_phase_jset [OF assms] in \<open>simp_all add: outcomes.simps\<close>)
    have c: "good ''snapshot'' p t" if "in_phase t SnapshotCreating" for t
      by (rule goodI [OF that]) (simp add: True outcomes.simps)
    from in_phase_idx [OF assms, unfolded True] show ?thesis unfolding snapshot_data_def
      by (intro mp_bind mp_field mp_if mp_outside mp_require mp_remember g mp_ret mp_mono [OF creating])
        (simp_all add: last c)
  qed
qed

lemma name_cases [simp]: "JStr (phase_name p) = JStr (phase_name q) \<longleftrightarrow> p = q"
  by (simp add: phase_name_inj)

lemma good_self: "in_phase s p \<Longrightarrow> good a p s"
  by (erule goodI) simp

lemma told_self: "in_phase s p \<Longrightarrow> told h a p (stage_reply h (JStr (phase_name p))) s"
  by (rule told_reply) simp_all

lemma mp_acknowledge:
  assumes "in_phase s p"
  shows "mp (acknowledge_backup h message) (told h ''backup-verified'' p) (good ''backup-verified'' p) s"
proof -
  have "mp (save h ''backup-verified'' kvs) (told h ''backup-verified'' p) (good ''backup-verified'' p) s"
    if "in_phases (JStr (phase_name p)) [''snapshot-ready'', ''backup-verified'']" for kvs
  proof -
    have "p = SnapshotReady \<or> p = BackupVerified" using that by (cases p) (auto simp: in_phases_def)
    then have "BackupVerified \<in> set (outcomes ''backup-verified'' p)" by (auto simp: outcomes.simps)
    then show ?thesis
      by (intro mp_save_good [OF assms, where q = BackupVerified])
        (simp_all add: told_reply [where q = BackupVerified, simplified phase_name.simps])
  qed
  then show ?thesis unfolding acknowledge_backup_def
    by (intro mp_rules good_self [OF assms]) (simp_all add: in_phase_idx [OF assms])
qed

lemma mp_credential:
  assumes "in_phase s p"
  shows "mp (credential e h message) (told h ''credential'' p) (good ''credential'' p) s"
proof -
  have "mp (save h ''credential-ready'' []) (told h ''credential'' p) (good ''credential'' p) s"
    if "in_phases (JStr (phase_name p)) [''backup-verified'', ''credential-ready'']"
  proof -
    have "p = BackupVerified \<or> p = CredentialReady" using that by (cases p) (auto simp: in_phases_def)
    then have "CredentialReady \<in> set (outcomes ''credential'' p)" by (auto simp: outcomes.simps)
    then show ?thesis
      by (intro mp_save_good [OF assms, where q = CredentialReady])
        (simp_all add: told_reply [where q = CredentialReady, simplified phase_name.simps])
  qed
  then show ?thesis unfolding credential_def
    by (intro mp_rules good_self [OF assms]) (simp_all add: in_phase_idx [OF assms])
qed

lemma rollback_outcomes [simp]:
  "RolledBack \<in> set (outcomes ''rollback'' p)" "RecoveryRequired \<in> set (outcomes ''rollback'' p)"
  by (simp_all add: outcomes.simps)

lemma mp_rollback_told:
  assumes "in_phase s p'" and "{p', RolledBack, RecoveryRequired} \<subseteq> set (outcomes a p)"
  shows "mp (rollback e h) (told h a p) (good a p) s"
proof -
  have t: "mp (save h (phase_name q) []) (told h a p) (good a p) s" if "q \<in> {RolledBack, RecoveryRequired}" for q
  proof (rule mp_save_good [OF assms(1), where q = q])
    show "p' \<in> set (outcomes a p)" "q \<in> set (outcomes a p)" using assms(2) that by auto
    then show "told h a p (stage_reply h (JStr (phase_name q))) t" if "in_phase t q" for t
      by (intro told_reply that)
  qed simp
  show ?thesis unfolding rollback_def
    using t [of RolledBack] t [of RecoveryRequired] assms goodI [OF assms(1)]
    by (intro mp_rules) (auto intro!: mp_ret)
qed

lemma mp_check:
  assumes "in_phase s p"
  shows "mp (check_host e h) (told h a p) (good a p) s"
proof -
  have x: "told h a p (stage_reply h x) s" if "idx s ''phase'' = Inr x" for x
  proof -
    have "x = JStr (phase_name p)" using that in_phase_idx [OF assms] by simp
    then show ?thesis by (simp only: told_self [OF assms])
  qed
  show ?thesis unfolding check_host_def
    by (intro mp_rules good_self [OF assms]) (rule x, assumption)+
qed

text \<open>Deployment: one lemma per block of \<^verbatim>\<open>advance\<close>.\<close>

definition deploys :: "string \<Rightarrow> bool" where
  "deploys a \<longleftrightarrow> a = ''deploy'' \<or> a = ''upgrade''"

lemma deploy_outcomes:
  assumes "deploys a"
  shows "outcomes a p = p # (case p of
            CredentialReady \<Rightarrow> [PackageStaging, RebootPending]
          | RebootPending \<Rightarrow> [RuntimePending, RuntimeInstalled, PersistenceReboot, RolledBack, RecoveryRequired]
          | RuntimePending \<Rightarrow> [RuntimeInstalled, PersistenceReboot, RolledBack, RecoveryRequired]
          | RuntimeInstalled \<Rightarrow> [PersistenceReboot, RolledBack, RecoveryRequired]
          | PersistenceReboot \<Rightarrow> [Closed, RolledBack, RecoveryRequired]
          | _ \<Rightarrow> [])"
  using assms unfolding deploys_def by (elim disjE) (simp_all add: outcomes.simps)

lemma mp_saved:
  assumes "in_phase s p'" and "{p', q} \<subseteq> set (outcomes a p)" and "n = phase_name q"
  shows "mp (save h n kvs) (\<lambda>_ t. in_phase t q) (good a p) s"
  by (rule mp_save_good [OF assms(1), where q = q]) (use assms(2,3) in auto)

lemma mp_stage_packages:
  assumes "in_phase s CredentialReady" and d: "deploys a"
  shows "mp (stage_packages e h) (told h a CredentialReady) (good a CredentialReady) s"
proof -
  have o: "{CredentialReady, PackageStaging, RebootPending} \<subseteq> set (outcomes a CredentialReady)"
    by (simp add: deploy_outcomes [OF d])
  have s1: "mp (save h ''package-staging'' kvs) (\<lambda>_ t. in_phase t PackageStaging) (good a CredentialReady) s" for kvs
    by (rule mp_saved [OF assms(1)]) (use o in auto)
  have s2: "mp (save h ''reboot-pending'' []) (\<lambda>_ t. in_phase t RebootPending) (good a CredentialReady) t"
    if "in_phase t PackageStaging" for t
    by (rule mp_saved [OF that]) (use o in auto)
  have g: "good a CredentialReady t" if "in_phase t PackageStaging \<or> in_phase t RebootPending" for t
    using that o goodI by blast
  have r: "told h a CredentialReady (stage_reply h (JStr ''reboot-pending'')) t" if "in_phase t RebootPending" for t
    using told_reply [OF that, of a CredentialReady h] o by simp
  show ?thesis unfolding stage_packages_def
    by (intro mp_bind mp_outside mp_require mp_manifest mp_lift mp_ret good_self [OF assms(1)] mp_mono [OF s1] mp_mono [OF s2])
      (simp_all add: g r)
qed

text \<open>
  From here on \<open>p'\<close> is the phase reached within the call that started in \<open>p\<close>: the pending reboot becomes
  \<^verbatim>\<open>runtime-pending\<close>, and both stages of the runtime lead to the persistence reboot or a rollback.
\<close>

fun later_phases :: "phase \<Rightarrow> phase set" where
  "later_phases RuntimePending = {RuntimePending, RuntimeInstalled, PersistenceReboot, RolledBack, RecoveryRequired}"
| "later_phases RuntimeInstalled = {RuntimeInstalled, PersistenceReboot, RolledBack, RecoveryRequired}"
| "later_phases PersistenceReboot = {PersistenceReboot, Closed, RolledBack, RecoveryRequired}"
| "later_phases _ = {}"

definition runs_from :: "string \<Rightarrow> phase \<Rightarrow> phase \<Rightarrow> bool" where
  "runs_from a p p' \<longleftrightarrow> p' \<in> {RuntimePending, RuntimeInstalled, PersistenceReboot} \<and> later_phases p' \<subseteq> set (outcomes a p)"

lemma mp_accept:
  assumes "in_phase s p'" and r: "runs_from a p p'"
  shows "mp (accept_release e h (phase_name p')) (\<lambda>early t. case early of
      Some v \<Rightarrow> told h a p v t | None \<Rightarrow> in_phase t PersistenceReboot \<and> p' = PersistenceReboot)
    (\<lambda>t. good a p t \<and> (\<exists>q. in_phase t q \<and> q \<in> later_phases p' - {Closed})) s"
    (is "mp _ ?Q ?E s")
proof -
  have up: "mp (save h (phase_name q) kvs) (\<lambda>_ t. in_phase t q) ?E t"
    if "in_phase t p1" "{p1, q} \<subseteq> later_phases p' - {Closed}" for t p1 q kvs
    by (rule mp_save [OF that(1), where q = q]) (use that r goodI in \<open>auto simp: runs_from_def subset_eq\<close>)
  have g: "?E t" if "in_phase t q" "q \<in> later_phases p' - {Closed}" for t q
    using that r goodI by (auto simp: runs_from_def subset_eq)
  have reboot: "mp (save h ''persistence-reboot'' kvs) (\<lambda>_. mp (bindM (outside (start_reboot e n))
      (\<lambda>_. ret (Some (stage_reply h (JStr ''persistence-reboot''))))) ?Q ?E) ?E t"
    if "in_phase t p1" "p1 \<in> later_phases p' - {Closed}" for t p1 kvs n
  proof -
    have P: "PersistenceReboot \<in> later_phases p' - {Closed}" "PersistenceReboot \<in> set (outcomes a p)"
      using r by (auto simp: runs_from_def)
    have t: "told h a p (stage_reply h (JStr ''persistence-reboot'')) t" if "in_phase t PersistenceReboot" for t
      using told_reply [OF that P(2), of h] by simp
    have s: "mp (save h ''persistence-reboot'' kvs) (\<lambda>_ t. in_phase t PersistenceReboot) ?E t"
      using up [OF that(1), of PersistenceReboot kvs] that(2) P by simp
    show ?thesis
      by (intro mp_bind mp_outside mp_ret mp_mono [OF s]) (use P t g in auto)
  qed
  have install: "mp (save h ''runtime-installed'' []) (\<lambda>_ t. in_phase t RuntimeInstalled) ?E s"
    if "p' = RuntimePending"
    using up [of s p' RuntimeInstalled "[]"] assms that by simp
  have here: "?E s" using assms r by (intro g [of s p']) (auto simp: runs_from_def)
  have n: "phase_name p' = ''persistence-reboot'' \<longleftrightarrow> p' = PersistenceReboot"
    "phase_name p' = ''runtime-pending'' \<longleftrightarrow> p' = RuntimePending"
    by (cases p'; simp)+
  show ?thesis
  proof (cases "p' = RuntimePending")
    case True
    have g': "?E t" if "in_phase t RuntimeInstalled" for t using g [OF that] True by simp
    show ?thesis unfolding accept_release_def n
      by (intro mp_bind mp_outside mp_when mp_if mp_manifest mp_ret here mp_mono [OF install] reboot)
        (use True g' in auto)
  next
    case False
    then have p': "p' = RuntimeInstalled \<or> p' = PersistenceReboot" using r by (auto simp: runs_from_def)
    show ?thesis unfolding accept_release_def n
      by (intro mp_bind mp_outside mp_when mp_if mp_manifest mp_ret here reboot)
        (use False p' assms(1) in auto)
  qed
qed

lemma mp_finish:
  assumes "in_phase s p'" and r: "runs_from a p p'"
  shows "mp (finish_release e h (phase_name p')) (told h a p) (good a p) s"
proof -
  have R: "{RolledBack, RecoveryRequired} \<subseteq> set (outcomes a p)" "later_phases p' \<subseteq> set (outcomes a p)"
    using r by (auto simp: runs_from_def)
  have undo: "mp (bindM (rollback e h) (\<lambda>_. raiseM (Failure 69 ''application-rolled-back''))) Q (good a p) t"
    if "in_phase t q" "q \<in> later_phases p' - {Closed}" for t q and Q :: "json option \<Rightarrow> json \<Rightarrow> bool"
    by (intro mp_bind mp_mono [OF mp_rollback_told [OF that(1), of a p]] mp_raise)
      (use R that in \<open>auto simp: told_def\<close>)
  have shut: "mp (save h ''closed'' []) (told h a p) (good a p) t"
    if "in_phase t PersistenceReboot" "p' = PersistenceReboot" for t
  proof (rule mp_save_good [OF that(1), where q = Closed])
    show "PersistenceReboot \<in> set (outcomes a p)" "Closed \<in> set (outcomes a p)" using R that by auto
    then show "told h a p (stage_reply h (JStr (phase_name Closed))) u" if "in_phase u Closed" for u
      by (intro told_reply that)
  qed simp
  have g: "good a p t" if "in_phase t PersistenceReboot" "p' = PersistenceReboot" for t
    using R that by (auto intro: goodI)
  show ?thesis unfolding finish_release_def
    apply (rule mp_bind, rule mp_except, rule mp_mono [OF mp_accept [OF assms]])
     apply (intro mp_option mp_ret mp_bind mp_outside)
    apply (use shut g undo in auto)
    done
qed

lemma mp_run_stage:
  assumes "in_phase s p'" and "p' \<in> set (outcomes a p)" and d: "deploys a"
    and "p' = p \<or> p = RebootPending \<and> p' = RuntimePending"
  shows "mp (run_stage e h (JStr (phase_name p'))) (told h a p) (good a p) s"
proof -
  have i: "in_phases (JStr (phase_name p')) [''runtime-pending'', ''runtime-installed'', ''persistence-reboot''] \<longleftrightarrow>
      p' \<in> {RuntimePending, RuntimeInstalled, PersistenceReboot}"
    by (cases p') (auto simp: in_phases_def)
  have r: "runs_from a p p'" if "p' \<in> {RuntimePending, RuntimeInstalled, PersistenceReboot}"
    using that assms(4) by (auto simp: runs_from_def deploy_outcomes [OF d])
  have g: "good a p s" by (rule goodI [OF assms(1,2)])
  have w: "told h a p (stage_reply h (JStr ''persistence-reboot'')) s" if "p' = PersistenceReboot"
    using told_reply [OF assms(1,2)] that by simp
  have n: "JStr (phase_name p') = JStr ''persistence-reboot'' \<longleftrightarrow> p' = PersistenceReboot"
    by (cases p') simp_all
  show ?thesis unfolding run_stage_def i n str_of.simps
    by (intro mp_require mp_bind mp_outside mp_if mp_field mp_ret g)
      (use w mp_finish [OF assms(1) r, of e h] in auto)
qed

lemma mp_after_reboot:
  assumes "in_phase s RebootPending" and d: "deploys a"
  shows "mp (after_reboot e h) (\<lambda>_ t. in_phase t RuntimePending) (good a RebootPending) s"
proof -
  have s: "mp (save h ''runtime-pending'' []) (\<lambda>_ t. in_phase t RuntimePending) (good a RebootPending) s"
    by (rule mp_saved [OF assms(1)]) (simp_all add: deploy_outcomes [OF d])
  show ?thesis unfolding after_reboot_def
    by (intro mp_bind mp_outside mp_require mp_lift mp_ret good_self [OF assms(1)] mp_mono [OF s]) simp_all
qed

lemma mp_advance:
  assumes "in_phase s p" and d: "deploys a"
  shows "mp (advance e h) (told h a p) (good a p) s"
proof -
  have g: "good a p s" by (rule good_self [OF assms(1)])
  have closed: "mp (save h ''closed'' []) (told h a p) (good a p) s" if "p = Closed"
  proof (rule mp_save_good [OF assms(1), where q = Closed])
    show "told h a p (stage_reply h (JStr (phase_name Closed))) t" if "in_phase t Closed" for t
      by (rule told_reply [OF that]) (simp add: \<open>p = Closed\<close>)
  qed (use that in simp_all)
  have waiting: "told h a p (stage_reply h (JStr ''reboot-pending'')) s" if "p = RebootPending"
    using told_self [OF assms(1)] that by simp
  have next_stage: "mp (run_stage e h (JStr ''runtime-pending'')) (told h a p) (good a p) t"
    if "in_phase t RuntimePending" "p = RebootPending" for t
    using mp_run_stage [OF that(1), of a p e h] that d by (simp add: deploy_outcomes)
  have n: "JStr (phase_name p) = JStr ''closed'' \<longleftrightarrow> p = Closed"
    "JStr (phase_name p) = JStr ''credential-ready'' \<longleftrightarrow> p = CredentialReady"
    "JStr (phase_name p) = JStr ''reboot-pending'' \<longleftrightarrow> p = RebootPending"
    by (cases p; simp)+
  have "mp (if JStr (phase_name p) = JStr ''closed'' then
       bindM (manifest_field h ''image'') (\<lambda>img. bindM (outside (healthy e img)) (\<lambda>_. save h ''closed'' []))
     else if JStr (phase_name p) = JStr ''credential-ready'' then stage_packages e h
     else if JStr (phase_name p) = JStr ''reboot-pending'' then
       bindM (outside (getsM (boot e))) (\<lambda>bt. bindM (field ''boot_before'') (\<lambda>b.
       if JStr bt = b then ret (stage_reply h (JStr ''reboot-pending''))
       else bindM (after_reboot e h) (\<lambda>_. run_stage e h (JStr ''runtime-pending''))))
     else run_stage e h (JStr (phase_name p))) (told h a p) (good a p) s"
    unfolding n
    apply (intro mp_if mp_bind mp_manifest mp_outside mp_field mp_ret g)
    using assms closed waiting next_stage mp_stage_packages [of s a e h] mp_run_stage [OF assms(1) _ d, of p e h]
      mp_after_reboot [of s a e h] g
    by (auto intro: mp_mono)
  then show ?thesis unfolding advance_def
    by (intro mp_bind) (simp add: field_phase in_phase_idx [OF assms(1)])
qed

lemma mp_guard:
  assumes "in_phase s p"
  shows "mp (backup_guard e h) (told h ''backup-guard'' p) (good ''backup-guard'' p) s"
proof -
  have i: "in_phases (JStr (phase_name p)) [''snapshot-creating'', ''snapshot-ready'', ''backup-verified'', ''credential-ready''] \<longleftrightarrow>
      p \<in> {SnapshotCreating, SnapshotReady, BackupVerified, CredentialReady}"
    by (cases p) (auto simp: in_phases_def)
  have "mp (if in_phases (JStr (phase_name p)) [''snapshot-creating'', ''snapshot-ready'', ''backup-verified'', ''credential-ready'']
     then rollback e h else ret (stage_reply h (JStr (phase_name p)))) (told h ''backup-guard'' p) (good ''backup-guard'' p) s"
    unfolding i
    by (intro mp_if mp_ret mp_rollback_told [OF assms] told_self [OF assms]) (auto simp: outcomes.simps)
  then show ?thesis unfolding backup_guard_def
    by (intro mp_bind) (simp add: field_phase in_phase_idx [OF assms(1)])
qed

lemma mp_action:
  assumes "in_phase s p"
  shows "mp (host_action e h a input) (told h a p) (good a p) s"
proof -
  have "mp (rollback e h) (told h a p) (good a p) s" if "a = ''rollback''"
    using that by (intro mp_rollback_told [OF assms]) (simp add: outcomes_self)
  moreover have "mp (advance e h) (told h a p) (good a p) s" if "a \<in> set [''deploy'', ''upgrade'']"
    using that by (intro mp_advance [OF assms]) (auto simp: deploys_def)
  ultimately show ?thesis unfolding host_action_def
    by (intro mp_if mp_require mp_bind mp_lift good_self [OF assms] mp_check [OF assms])
      (simp_all add: mp_snapshot mp_acknowledge mp_credential assms)
qed

lemma action_phase:
  assumes "in_phase s p" and "host_action e h a input (s, w) = (r, (s', w'))"
  shows "case r of Inl x \<Rightarrow> good a p s' | Inr v \<Rightarrow> told h a p v s'"
  using mpD [OF mp_action [OF assms(1)] assms(2)] .

lemma told_good: "(case r of Inl x \<Rightarrow> good a p t | Inr v \<Rightarrow> told h a p v t) \<Longrightarrow> good a p t"
  by (cases r) (auto simp: told_def)

text \<open>
  C10 (phases of a release): whatever the commands do, a call of the host entrypoint that starts in one
  of its phases leaves, on success and on every failure, a phase that \<open>outcomes\<close> lists for the action, and
  a reply names the phase that the memory then holds and the release.
\<close>

theorem host_phases:
  assumes "in_phase s p" and "host_action e h a input (s, w) = (r, (s', w'))"
  shows "\<exists>q \<in> set (outcomes a p). in_phase s' q \<and> (case r of Inl x \<Rightarrow> True
     | Inr v \<Rightarrow> jget v ''stage'' = JStr (phase_name q) \<and> jget v ''release_id'' = JStr (release h))"
proof -
  note m = action_phase [OF assms]
  from told_good [OF m] obtain q where q: "q \<in> set (outcomes a p)" "in_phase s' q" by (auto simp: good_def)
  moreover have "case r of Inl x \<Rightarrow> True
     | Inr v \<Rightarrow> jget v ''stage'' = JStr (phase_name q) \<and> jget v ''release_id'' = JStr (release h)"
    using m q(2) by (cases r) (auto simp: told_def in_phase_def)
  ultimately show ?thesis by blast
qed

section \<open>What closing a release takes\<close>

text \<open>
  The calls served for a release since its state was new, and the state the journal can then hold: a
  call that dies before its write leaves the earlier state; every call may meet any world.
\<close>

inductive served :: "'x env \<Rightarrow> host \<Rightarrow> string list \<Rightarrow> json \<Rightarrow> bool" for e h where
  start: "served e h [] new_state"
| call: "served e h acts s \<Longrightarrow> host_action e h a input (s, w) = (r, (s', w')) \<Longrightarrow> served e h (acts @ [a]) s'"
| guard: "served e h acts s \<Longrightarrow> backup_guard e h (s, w) = (r, (s', w')) \<Longrightarrow> served e h (acts @ [''backup-guard'']) s'"
| lost: "served e h acts s \<Longrightarrow> served e h (acts @ [a]) s"

definition plain_action :: "string \<Rightarrow> string" where
  "plain_action a = (if a = ''upgrade'' then ''deploy'' else a)"

fun needs :: "phase \<Rightarrow> string list" where
  "needs SnapshotCreating = [''snapshot'']"
| "needs SnapshotReady = [''snapshot'']"
| "needs BackupVerified = [''snapshot'', ''backup-verified'']"
| "needs CredentialReady = [''snapshot'', ''backup-verified'', ''credential'']"
| "needs PackageStaging = [''snapshot'', ''backup-verified'', ''credential'', ''deploy'']"
| "needs RebootPending = [''snapshot'', ''backup-verified'', ''credential'', ''deploy'']"
| "needs RuntimePending = [''snapshot'', ''backup-verified'', ''credential'', ''deploy'', ''deploy'']"
| "needs RuntimeInstalled = [''snapshot'', ''backup-verified'', ''credential'', ''deploy'', ''deploy'']"
| "needs PersistenceReboot = [''snapshot'', ''backup-verified'', ''credential'', ''deploy'', ''deploy'']"
| "needs Closed = [''snapshot'', ''backup-verified'', ''credential'', ''deploy'', ''deploy'', ''deploy'']"
| "needs _ = []"

lemma needs_step:
  assumes "q \<in> set (outcomes a p)"
  shows "needs q = needs p \<or> needs q = needs p @ [plain_action a] \<or> needs q = []"
proof (cases "deploys a")
  case True
  moreover have "plain_action a = ''deploy''" using True by (auto simp: deploys_def plain_action_def)
  ultimately show ?thesis using assms by (cases p) (auto simp: deploy_outcomes)
next
  case False
  show ?thesis
  proof (cases "a \<in> {''snapshot'', ''backup-verified'', ''credential'', ''rollback'', ''backup-guard''}")
    case True
    then show ?thesis using assms
      by (elim insertE emptyE; hypsubst; cases p; simp add: outcomes.simps plain_action_def; (elim disjE; simp)?)
  next
    case other: False
    with False have "outcomes a p = [p]" by (simp add: outcomes.simps deploys_def)
    with assms show ?thesis by simp
  qed
qed

lemma needs_subseq:
  assumes "q \<in> set (outcomes a p)" and "subseq (needs p) ys"
  shows "subseq (needs q) (ys @ [plain_action a])"
proof -
  have "subseq (needs p) (ys @ [plain_action a])" using assms(2) by (simp add: subseq_rev_drop_many)
  moreover have "subseq (needs p @ [plain_action a]) (ys @ [plain_action a])" using assms(2) by simp
  ultimately show ?thesis using needs_step [OF assms(1)] by auto
qed

lemma served_phase:
  "served e h acts s \<Longrightarrow> \<exists>p. in_phase s p \<and> subseq (needs p) (map plain_action acts)"
proof (induction rule: served.induct)
  case start
  show ?case by (rule exI [of _ New]) (simp add: in_phase_def new_state_def jget_Cons)
next
  case (call acts s a input w r s' w')
  then obtain p where p: "in_phase s p" "subseq (needs p) (map plain_action acts)" by blast
  from told_good [OF action_phase [OF p(1) call(2)]] obtain q where "q \<in> set (outcomes a p)" "in_phase s' q"
    by (auto simp: good_def)
  with needs_subseq [OF _ p(2)] show ?case by auto
next
  case (guard acts s w r s' w')
  then obtain p where p: "in_phase s p" "subseq (needs p) (map plain_action acts)" by blast
  from told_good [OF mpD [OF mp_guard [OF p(1)] guard(2)]]
  obtain q where q: "q \<in> set (outcomes ''backup-guard'' p)" "in_phase s' q" by (auto simp: good_def)
  have "subseq (needs q) (map plain_action (acts @ [''backup-guard'']))"
    using needs_subseq [OF q(1) p(2)] by simp
  with q(2) show ?case by blast
next
  case (lost acts s a)
  then show ?case by (auto simp: subseq_rev_drop_many)
qed

text \<open>
  C9 (no stage is skipped): however the calls of the entrypoint are ordered, repeated or interrupted, and
  whatever their commands do, a release whose state is closed was served a snapshot, then an
  acknowledged backup, then a credential, then three deployments (the packages, the runtime after the
  reboot, the acceptance after the second reboot), in this order; every earlier phase likewise had the
  calls that lead to it.
\<close>

theorem closed_needs_every_stage:
  assumes "served e h acts s" and "in_phase s q"
  shows "subseq (needs q) (map plain_action acts)"
proof -
  obtain p where p: "in_phase s p" "subseq (needs p) (map plain_action acts)"
    using served_phase [OF assms(1)] by blast
  moreover have "p = q" using p(1) assms(2) by (simp add: in_phase_def phase_name_inj)
  ultimately show ?thesis by simp
qed

section \<open>Tracked files\<close>

text \<open>
  \<open>proper p\<close>: a path in the form the sources build. \<open>saved_records prev fs rs\<close>: the backup directory
  lists the records \<open>rs\<close>, one for each path, none of them inside the directory.
\<close>

definition proper :: "path \<Rightarrow> bool" where
  "proper p \<longleftrightarrow> (\<forall>c \<in> set p. c \<noteq> [] \<and> c \<noteq> ''.'' \<and> CHR ''/'' \<notin> set c \<and> ascii_only c)"

definition record_of :: "path \<Rightarrow> json \<Rightarrow> bool" where
  "record_of q r \<longleftrightarrow> is_dict r \<and> jget r ''path'' = JStr (path_text q)"

definition saved_records :: "path \<Rightarrow> fsys \<Rightarrow> json list \<Rightarrow> bool" where
  "saved_records prev fs rs \<longleftrightarrow> (\<exists>m u. fs (prev @ [''files.json'']) = Some (NFile (canonical (JList rs)) m u)) \<and> plain (JList rs)
     \<and> (\<forall>r \<in> set rs. \<exists>q. record_of q r \<and> proper q \<and> \<not> below prev q)
     \<and> distinct (map (\<lambda>r. jget r ''path'') rs)"

text \<open>The file that a record and its copy describe.\<close>

definition recorded :: "path \<Rightarrow> fsys \<Rightarrow> json \<Rightarrow> node option" where
  "recorded prev fs r =
     (if jget r ''exists'' = JBool True then
        (case fs (prev @ [str_of (jget r ''index'')]) of
           Some (NFile c m u) \<Rightarrow> Some (NFile c (nat (int_of (jget r ''mode''))) (nat (int_of (jget r ''uid''))))
         | _ \<Rightarrow> None)
      else None)"

text \<open>A regular file as it comes back: its content, its owner and its permission bits.\<close>

fun settled :: "node option \<Rightarrow> node option" where
  "settled (Some (NFile c m u)) = Some (NFile c (m AND 511) u)"
| "settled n = n"

lemma path_abs: "proper p \<Longrightarrow> abs_path (path_text p) = p"
  by (rule path_of_text) (auto simp: proper_def)

lemma path_text_inj: "proper p \<Longrightarrow> proper q \<Longrightarrow> path_text p = path_text q \<longleftrightarrow> p = q"
  by (metis path_abs)

lemma ascii_path_text: "proper p \<Longrightarrow> ascii_only (path_text p)"
  using ascii_only_join [of "''/''" p] by (simp add: path_text_def proper_def)

lemma show_nat_comps: "path_comps (show_nat n) = [show_nat n]" "\<not> path_absolute (show_nat n)"
proof -
  have d: "\<forall>c \<in> set (show_nat n). is_digit c" using show_nat_digits [of n] by (simp add: list_all_iff)
  then have "CHR ''/'' \<notin> set (show_nat n)" by (auto simp: is_digit_def)
  moreover have "show_nat n \<noteq> ''.''"
  proof
    assume "show_nat n = ''.''"
    with d show False by (simp add: is_digit_def)
  qed
  ultimately show "path_comps (show_nat n) = [show_nat n]" by (simp add: path_comps_def split_on_id)
  obtain c cs where "show_nat n = c # cs" "is_digit c" using show_nat_head by blast
  then show "\<not> path_absolute (show_nat n)"
    by (auto simp: path_absolute_def path_root_def startswith_def is_digit_def)
qed

lemma under_show_nat: "under d (show_nat n) = d @ [show_nat n]"
  by (simp add: under_def show_nat_comps)

lemma show_nat_not_name: "show_nat n \<noteq> ''files.json''"
proof
  assume "show_nat n = ''files.json''"
  then have "list_all is_digit ''files.json''" using show_nat_digits [of n] by simp
  then show False by (simp add: is_digit_def)
qed

lemma record_jsort: "is_dict r \<Longrightarrow> plain r \<Longrightarrow> jget (jsort r) k = jsort (jget r k)"
  using decode_canonical_get [of r] by blast

lemma plain_list: "plain (JList rs) \<longleftrightarrow> (\<forall>r \<in> set rs. plain r)"
  by (simp add: list_all_iff)

lemma saved_read:
  assumes "saved_records prev (files w) rs"
  shows "read_records prev w = (Inr (JList (map jsort rs)), w)"
proof -
  have "decode (canonical (JList rs)) = Inr (JList (map jsort rs))"
    using decode_canonical [of "JList rs"] assms by (simp add: saved_records_def)
  moreover obtain m u where "files w (prev @ [''files.json'']) = Some (NFile (canonical (JList rs)) m u)"
    using assms by (auto simp: saved_records_def)
  ultimately show ?thesis by (simp add: read_records_def bindM_def readM_def liftE_def)
qed

text \<open>A listing that was read back is a listing of the same records.\<close>

lemma saved_sorted:
  assumes "saved_records prev fs rs"
  shows "\<forall>r \<in> set (map jsort rs). plain r \<and> (\<exists>q. record_of q r \<and> proper q \<and> \<not> below prev q)"
    and "distinct (map (\<lambda>r. jget r ''path'') (map jsort rs))"
proof -
  have j: "jget (jsort r) ''path'' = jget r ''path''" "record_of q (jsort r) = record_of q r" if "r \<in> set rs" for r q
  proof -
    from assms that obtain q' where "record_of q' r" "plain r" unfolding saved_records_def plain_list by blast
    moreover have "is_dict (jsort r)" using calculation by (cases r) (auto simp: record_of_def)
    ultimately show "jget (jsort r) ''path'' = jget r ''path''" "record_of q (jsort r) = record_of q r"
      by (auto simp: record_of_def record_jsort)
  qed
  show "\<forall>r \<in> set (map jsort rs). plain r \<and> (\<exists>q. record_of q r \<and> proper q \<and> \<not> below prev q)"
  proof
    fix r assume "r \<in> set (map jsort rs)"
    then obtain r0 where r0: "r0 \<in> set rs" "r = jsort r0" by auto
    with assms have "plain r0" "\<exists>q. record_of q r0 \<and> proper q \<and> \<not> below prev q"
      unfolding saved_records_def plain_list by blast+
    with r0 j(2) plain_jsort show "plain r \<and> (\<exists>q. record_of q r \<and> proper q \<and> \<not> below prev q)" by metis
  qed
  have "map (\<lambda>r. jget r ''path'') (map jsort rs) = map (\<lambda>r. jget r ''path'') rs" using j(1) by simp
  moreover have "distinct (map (\<lambda>r. jget r ''path'') rs)" using assms unfolding saved_records_def by blast
  ultimately show "distinct (map (\<lambda>r. jget r ''path'') (map jsort rs))" by (simp only:)
qed

lemma record_idx: "record_of q r \<Longrightarrow> idx r ''path'' = Inr (JStr (path_text q))"
  by (cases r) (auto simp: record_of_def jget_def split: option.splits)

lemma any_path_records:
  assumes "\<forall>r \<in> set rs. \<exists>q. record_of q r"
  shows "any_path t rs = Inr (\<exists>r \<in> set rs. jget r ''path'' = JStr t)"
  using assms
proof (induction rs)
  case (Cons r rs)
  then obtain q where "record_of q r" by auto
  with Cons show ?case by (auto simp: record_idx record_of_def)
qed simp

subsection \<open>Tracking\<close>

declare is_linkM_Inr [simp] existsM_Inr [simp] statM_Inr [simp]

lemma node_at_no_link: "\<not> is_link_at fs p \<Longrightarrow> node_at fs p = fs p"
  by (cases "fs p") (auto simp: node_at_def follow_absent is_link_at_def follow_plain split: node.splits)

lemma settled_recorded:
  assumes "jget r ''exists'' = JBool True" and "jget r ''index'' = JStr (show_nat i)"
    and "jget r ''uid'' = JInt (int u)" and "jget r ''mode'' = JInt (int m)"
    and "fs (prev @ [show_nat i]) = Some (NFile c m' u')"
  shows "recorded prev fs r = Some (NFile c m u)"
  using assms by (simp add: recorded_def)

text \<open>Making a record of a file that is no link, and what it then describes.\<close>

lemma backup_record_Inr:
  assumes "backup_record e prev p i w = (Inr r, w')" and "\<not> is_link_at (files w) p" and "p \<noteq> CONFIG"
    and "proper p" and g: "\<bar>group e p w\<bar> < 10 ^ 20"
  shows "record_of p r \<and> plain r \<and> recorded prev (files w') r = settled (files w p) \<and>
    jget r ''index'' = JStr (show_nat i) \<and> jget r ''exists'' = JBool (files w p \<noteq> None)"
proof (cases "files w p")
  case None
  then have "r = JObj [(''path'', JStr (path_text p)), (''exists'', JBool False), (''index'', JStr (show_nat i))]" "w' = w"
    using assms(1,2) by (auto simp: backup_record_def bindM_eq_iff Let_def exists_at_def node_at_no_link)
  then show ?thesis using None ascii_path_text [OF assms(4)] ascii_digits [OF show_nat_digits [of i]]
    by (simp add: record_of_def jget_Cons recorded_def)
next
  case (Some n)
  then have x: "exists_at (files w) p" "node_at (files w) p = Some n"
    using assms(2) by (auto simp: exists_at_def node_at_no_link)
  from assms(1) x obtain c where c: "read_application_file e p w = (Inr c, w)"
    and a: "atomicM (prev @ [show_nat i]) c w = (Inr (), w')"
    and r: "r = JObj [(''path'', JStr (path_text p)), (''exists'', JBool True), (''index'', JStr (show_nat i)),
      (''uid'', JInt (int (node_uid n))), (''gid'', JInt (group e p w)), (''mode'', JInt (int (node_mode n AND 511)))]"
    using assms(3) by (auto simp: backup_record_def bindM_eq_iff Let_def read_application_file_def read_protectedM_Inr)
  from c assms(3) have pf: "protected_file (files w) p (Some 0) = Inr p" and rb: "read_bytes (files w) p = Inr c"
    by (simp_all add: read_application_file_def read_protectedM_Inr)
  from pf Some obtain m where n: "n = NFile c m 0"
    using rb by (auto simp: protected_file_iff)
  have f: "files w' = (files w)(prev @ [show_nat i] \<mapsto> NFile c 384 (euid w))"
    using atomicM_Inr [OF a] by simp
  have "m AND 511 = take_bit 9 m" by (simp add: take_bit_eq_mask mask_eq_exp_minus_1)
  then have "m AND 511 < 2 ^ 9" using take_bit_nat_less_exp [of 9 m] by simp
  then have "plain (JInt (int (m AND 511)))" by (intro plain_JInt) simp
  moreover have "plain (JInt (group e p w))" by (rule plain_JInt [OF g])
  ultimately have "plain r" using ascii_path_text [OF assms(4)] ascii_digits [OF show_nat_digits [of i]]
    by (simp add: r n show_nat.simps [of 0])
  moreover have "recorded prev (files w') r = Some (NFile c (m AND 511) 0)"
    by (rule settled_recorded [where i = i]) (simp_all add: r jget_Cons n f)
  moreover have "record_of p r" "jget r ''index'' = JStr (show_nat i)" "jget r ''exists'' = JBool True"
    by (simp_all add: r record_of_def jget_Cons)
  ultimately show ?thesis using Some n f by simp
qed

lemma track_Inr:
  assumes "track e prev p w = (Inr (), w')" and s: "saved_records prev (files w) rs"
    and new: "\<forall>r \<in> set rs. \<not> record_of p r"
    and p: "proper p" "\<not> below prev p" "p \<noteq> CONFIG" and g: "\<bar>group e p w\<bar> < 10 ^ 20"
  shows "\<exists>r rs'. saved_records prev (files w') rs' \<and> r \<in> set rs' \<and> record_of p r \<and>
    recorded prev (files w') r = settled (files w p) \<and> jget r ''exists'' = JBool (files w p \<noteq> None) \<and>
    jget r ''index'' = JStr (show_nat (length rs))"
proof -
  have S: "\<forall>r \<in> set (map jsort rs). plain r \<and> (\<exists>q. record_of q r \<and> proper q \<and> \<not> below prev q)"
    "distinct (map (\<lambda>r. jget r ''path'') (map jsort rs))"
    using saved_sorted [OF s] by simp_all
  have other: "jget r ''path'' \<noteq> JStr (path_text p)" if "r \<in> set (map jsort rs)" for r
  proof -
    from that obtain r0 where r0: "r0 \<in> set rs" "r = jsort r0" by auto
    with s obtain q where "record_of q r0" "plain r0" unfolding saved_records_def plain_list by blast
    then have "jget r ''path'' = jget r0 ''path''" using r0(2) by (auto simp: record_of_def record_jsort)
    with new r0(1) \<open>record_of q r0\<close> show ?thesis by (auto simp: record_of_def)
  qed
  have known: "any_path (path_text p) (map jsort rs) = Inr False"
    using any_path_records [of "map jsort rs" "path_text p"] S(1) other by auto
  from assms(1) obtain r w1 where l: "\<not> is_link_at (files w) p"
    and b: "backup_record e prev p (length rs) w = (Inr r, w1)"
    and a: "atomicM (prev @ [''files.json'']) (canonical (JList (map jsort rs @ [r]))) w1 = (Inr (), w')"
    by (auto simp: track_def bindM_eq_iff saved_read [OF s] known requireM_eq_iff)
  note B = backup_record_Inr [OF b l p(3,1) g]
  have f: "files w' = (files w1)(prev @ [''files.json''] \<mapsto> NFile (canonical (JList (map jsort rs @ [r]))) 384 (euid w1))"
    using atomicM_Inr [OF a] by simp
  have "jget r ''index'' = JStr (show_nat (length rs))" using B by blast
  then have "recorded prev (files w') r = recorded prev (files w1) r"
    by (simp add: recorded_def f show_nat_not_name)
  moreover have "saved_records prev (files w') (map jsort rs @ [r])"
    unfolding saved_records_def plain_list
    using S other B p f by (auto simp: record_of_def)
  ultimately show ?thesis using B by (metis in_set_conv_decomp)
qed

subsection \<open>Restoring\<close>

text \<open>No command changes the file at \<open>q\<close>.\<close>

definition leaves_alone :: "'x env \<Rightarrow> path \<Rightarrow> bool" where
  "leaves_alone e q \<longleftrightarrow> (\<forall>a d w. files (snd (cmd e a d w)) q = files w q)"

lemma runM_files: "leaves_alone e q \<Longrightarrow> runM (cmd e) a d w = (r, w') \<Longrightarrow> files w' q = files w q"
  unfolding leaves_alone_def by (metis snd_conv snd_runM)

lemma as_hermes_files: "leaves_alone e q \<Longrightarrow> as_hermes e a d w = (Inr x, w') \<Longrightarrow> files w' q = files w q"
  by (auto simp: as_hermes_def bindM_eq_iff getpwnam_def runM_files split: option.splits)

lemma updateM_frame: "updateM f p w = (r, w') \<Longrightarrow> \<not> is_link_at (files w) p \<Longrightarrow> q \<noteq> p \<Longrightarrow> files w' q = files w q"
  by (cases "files w p") (auto simp: updateM_def follow_absent follow_plain split: option.splits)

lemma restore_file_frame:
  assumes "restore_file prev r p x w = (Inr (), w')" and "q \<noteq> p"
  shows "files w' q = files w q"
proof (cases x)
  case False
  then show ?thesis using assms unlinkM_Inr by (fastforce simp: restore_file_def)
next
  case True
  with assms(1) obtain c m u w1 w2 where a: "atomicM p c w = (Inr (), w1)" "chmodM p m w1 = (Inr (), w2)"
    "chownM p u w2 = (Inr (), w')"
    by (auto simp: restore_file_def bindM_eq_iff saved_copy_def)
  note f1 = atomicM_Inr [OF a(1)]
  then have "files w1 p = Some (NFile c 384 (euid w))" by simp
  from chmodM_file [OF this, of m] a(2) have f2: "files w2 = (files w1)(p \<mapsto> NFile c m (euid w))" by auto
  then have "files w2 p = Some (NFile c m (euid w))" by simp
  from chownM_file [OF this, of u] a(3) have f3: "files w' = (files w2)(p \<mapsto> NFile c m u)" by auto
  show ?thesis using assms(2) f1 f2 f3 by simp
qed

lemma restore_record_frame:
  assumes "restore_record e prev ph r w = (Inr (), w')" and "record_of p r" and "proper p" and "q \<noteq> p" and "leaves_alone e q"
  shows "files w' q = files w q"
proof -
  from assms(1) consider "w' = w" | x where "restore_user_config e prev r x w = (Inr (), w')"
    | x where "restore_file prev r p x w = (Inr (), w')"
    by (auto simp: restore_record_def bindM_eq_iff record_idx [OF assms(2)] str_arg_def path_abs [OF assms(3)] requireM_eq_iff
        split: if_splits)
  then show ?thesis
  proof cases
    case 2
    then show ?thesis
      by (auto simp: restore_user_config_def bindM_eq_iff saved_copy_def split: if_splits
          dest: as_hermes_files [OF assms(5)])
  next
    case 3
    then show ?thesis by (rule restore_file_frame) (rule assms(4))
  qed simp
qed

lemma int_arg_field: "bindE (idx r k) int_arg = Inr m \<Longrightarrow> m = nat (int_of (jget r k))"
  by (cases r) (auto simp: jget_def int_arg_def bindE_Inr_iff split: option.splits json.splits)

lemma str_arg_field: "bindE (idx r k) str_arg = Inr s \<Longrightarrow> jget r k = JStr s"
  by (cases r) (auto simp: jget_def str_arg_def bindE_Inr_iff is_str_iff split: option.splits if_splits)

text \<open>The record of a plain path puts the described file back.\<close>

lemma restore_record_Inr:
  assumes "restore_record e prev ph r w = (Inr (), w')" and "record_of p r" and "proper p" and "p \<noteq> CONFIG" and "p \<noteq> CREDENTIAL"
    and i: "jget r ''index'' = JStr (show_nat i)"
    and x: "if n = None then jget r ''exists'' = JBool False else jget r ''exists'' = JBool True \<and> n = recorded prev (files w) r"
  shows "files w' p = n"
proof -
  from assms(1) obtain v where v: "idx r ''exists'' = Inr v" "restore_file prev r p (truthy v) w = (Inr (), w')"
    using assms(4,5)
    by (auto simp: restore_record_def bindM_eq_iff record_idx [OF assms(2)] str_arg_def path_abs [OF assms(3)] requireM_eq_iff
        retired_def)
  then have ev: "jget r ''exists'' = v" by (cases r) (auto simp: jget_def split: option.splits)
  show ?thesis
  proof (cases "n = None")
    case True
    with x ev v(2) have "unlinkM p True w = (Inr (), w')" by (simp add: restore_file_def)
    from unlinkM_Inr [OF this] True show ?thesis by simp
  next
    case False
    with x ev have t: "truthy v" and nr: "n = recorded prev (files w) r" "jget r ''exists'' = JBool True" by auto
    then obtain c0 m0 u0 where fc: "files w (prev @ [show_nat i]) = Some (NFile c0 m0 u0)"
      using False i by (auto simp: recorded_def split: option.splits node.splits)
    from v(2) t obtain c m u s w1 w2 where a: "bindE (idx r ''index'') str_arg = Inr s" "read_bytes (files w) (under prev s) = Inr c"
      "atomicM p c w = (Inr (), w1)" "bindE (idx r ''mode'') int_arg = Inr m" "chmodM p m w1 = (Inr (), w2)"
      "bindE (idx r ''uid'') int_arg = Inr u" "chownM p u w2 = (Inr (), w')"
      by (auto simp: restore_file_def bindM_eq_iff saved_copy_def)
    have "s = show_nat i" using str_arg_field [OF a(1)] i by simp
    then have c: "c = c0" using a(2) fc by (simp add: under_show_nat)
    note f1 = atomicM_Inr [OF a(3)]
    then have "files w1 p = Some (NFile c 384 (euid w))" by simp
    from chmodM_file [OF this, of m] a(5) have "files w2 p = Some (NFile c m (euid w))" by auto
    from chownM_file [OF this, of u] a(7) have "files w' p = Some (NFile c m u)" by auto
    with nr fc i c int_arg_field [OF a(4)] int_arg_field [OF a(6)] show ?thesis by (simp add: recorded_def)
  qed
qed

lemma restore_loop_frame:
  assumes "forM xs (restore_record e prev ph) w = (Inr (), w')" and "leaves_alone e t"
    and "\<forall>x \<in> set xs. \<exists>q. record_of q x \<and> proper q \<and> q \<noteq> t"
  shows "files w' t = files w t"
  using assms(1,3)
proof (induction xs arbitrary: w)
  case (Cons x xs)
  from Cons.prems(1) obtain w1 where w1: "restore_record e prev ph x w = (Inr (), w1)" "forM xs (restore_record e prev ph) w1 = (Inr (), w')"
    by (auto simp: thenM_def bindM_eq_iff)
  from Cons.prems(2) obtain q where "record_of q x" "proper q" "t \<noteq> q" by auto
  from restore_record_frame [OF w1(1) this assms(2)] Cons.IH [OF w1(2)] Cons.prems(2) show ?case by simp
qed simp

lemma forM_split:
  "forM (xs @ ys) f w = (Inr (), w') \<longleftrightarrow> (\<exists>w1. forM xs f w = (Inr (), w1) \<and> forM ys f w1 = (Inr (), w'))"
  by (induction xs arbitrary: w) (auto simp: thenM_def bindM_eq_iff)

lemma int_of_jsort: "int_of (jsort v) = int_of v" "jsort v = JBool b \<longleftrightarrow> v = JBool b"
  by (cases v; simp)+

lemma restore_all_Inr:
  assumes "restore_all e prev ph w = (Inr (), w')" and s: "saved_records prev (files w) rs"
    and r: "r \<in> set rs" "record_of p r" and p: "proper p" "p \<noteq> CONFIG" "p \<noteq> CREDENTIAL"
    and i: "jget r ''index'' = JStr (show_nat i)"
    and x: "if n = None then jget r ''exists'' = JBool False else jget r ''exists'' = JBool True \<and> n = recorded prev (files w) r"
    and l: "leaves_alone e p" "leaves_alone e (prev @ [show_nat i])"
  shows "files w' p = n"
proof -
  note S = saved_sorted [OF s]
  have loop: "forM (map jsort rs) (restore_record e prev ph) w = (Inr (), w')"
    using assms(1) by (auto simp: restore_all_def bindM_eq_iff saved_read [OF s])
  obtain as bs where ab: "map jsort rs = as @ jsort r # bs" using r(1) by (metis in_set_conv_decomp image_eqI set_map)
  have pr: "plain r" "is_dict r" using s r unfolding saved_records_def plain_list record_of_def by blast+
  have jr: "jget (jsort r) k = jsort (jget r k)" for k by (rule record_jsort [OF pr(2,1)])
  have rp: "record_of p (jsort r)"
    using r(2) jr [of "''path''"] pr(2) by (cases r) (auto simp: record_of_def)
  have others: "\<exists>q. record_of q y \<and> proper q \<and> \<not> below prev q \<and> q \<noteq> p" if "y \<in> set as \<union> set bs" for y
  proof -
    have "y \<in> set (map jsort rs)" using that ab by auto
    with S(1) obtain q where q: "record_of q y" "proper q" "\<not> below prev q" by blast
    have "distinct (map (\<lambda>r. jget r ''path'') (as @ jsort r # bs))" using S(2) unfolding ab .
    with that have "jget y ''path'' \<noteq> jget (jsort r) ''path''" by (force simp: image_iff)
    with q rp have "q \<noteq> p" by (auto simp: record_of_def)
    with q show ?thesis by blast
  qed
  from loop obtain w1 w2 where w: "forM as (restore_record e prev ph) w = (Inr (), w1)"
    "restore_record e prev ph (jsort r) w1 = (Inr (), w2)" "forM bs (restore_record e prev ph) w2 = (Inr (), w')"
    unfolding ab forM_split by (auto simp: thenM_def bindM_eq_iff)
  have "files w1 (prev @ [show_nat i]) = files w (prev @ [show_nat i])"
    by (rule restore_loop_frame [OF w(1) l(2)]) (use others in \<open>fastforce simp: below_def\<close>)
  then have "recorded prev (files w1) (jsort r) = recorded prev (files w) r"
    unfolding recorded_def jr int_of_jsort using i by simp
  then have "files w2 p = n"
    using x i by (intro restore_record_Inr [OF w(2) rp p, of i]) (simp_all add: jr split: if_splits)
  moreover have "files w' p = files w2 p"
    by (rule restore_loop_frame [OF w(3) l(1)]) (use others in blast)
  ultimately show ?thesis by simp
qed


section \<open>A concrete host\<close>

definition tiny_luks :: string where
  "tiny_luks = canonical (JObj [(''tokens'', JObj [(''0'', JObj [(''type'', JStr ''systemd-tpm2''), (''tpm2-pcrs'', JList [JInt 7]),
     (''tpm2_pubkey_pcrs'', JList [JInt 11]), (''tpm2-pcr-bank'', JStr ''sha256''), (''tpm2_pubkey'', JStr ''k'')])])])"

definition tiny_cmd :: "unit commands" where
  "tiny_cmd a d w = (Exited 0 (if take 1 a = [''getenforce''] then ''Enforcing''
     else if take 1 a = [''mokutil''] then ''SecureBoot enabled''
     else if take 1 a = [''cryptsetup''] then tiny_luks else []), w)"

definition tiny_env :: "unit env" where
  "tiny_env = \<lparr>sha256 = (\<lambda>s. ''f''), cmd = tiny_cmd, boot = (\<lambda>w. ''b''), clock = (\<lambda>w. 0), rglob_rpm = (\<lambda>fs d. []),
     space = (\<lambda>p w. 10 ^ 12), account = (\<lambda>w. None), pause = (\<lambda>n w. w), source = [''s''], group = (\<lambda>p w. 0),
     wall = (\<lambda>w. 0), tar = (\<lambda>s. None), fresh = (\<lambda>w. ''x'')\<rparr>"

definition tiny_host :: host where
  "tiny_host = \<lparr>hdir = [''r''], hmanifest = JObj [], release = ''r1'', hpolicy = JObj [(''luks_device'', JStr ''/dev/x'')]\<rparr>"

definition tiny_world :: "unit world" where
  "tiny_world = \<lparr>files = map_of ([([''etc'', ''os-release''], NFile (''ID=fedora'' @ [newline] @ ''VERSION_ID=44'') 420 0),
       ([''etc'', ''old''], NFile ''was'' 420 0)]
     @ map (\<lambda>d. (d, NDir 493 0)) [[], [''etc''], [''var''], [''var'', ''lib''], HROOT]),
     euid = 0, busy = [], faults = [], ext = ()\<rparr>"

definition tiny_snapshot :: "json res \<times> json \<times> unit world" where
  "tiny_snapshot = host_action tiny_env tiny_host ''snapshot'' [] (new_state, tiny_world)"

definition tiny_ack :: "json res \<times> json \<times> unit world" where
  "tiny_ack = host_action tiny_env tiny_host ''backup-verified''
     (canonical (JObj [(''backup_snapshot'', JStr ''0''), (''snapshot_sha256'', JStr ''f'')])) (snd tiny_snapshot)"

lemma tiny_snapshot_phase: "jget (fst (snd tiny_snapshot)) ''phase'' = JStr ''snapshot-ready''"
  by code_simp

text \<open>
  A backup that lists nothing yet: the file is tracked, the installer replaces it, the rollback restores.
\<close>

definition tiny_backup :: "unit world" where
  "tiny_backup = tiny_world\<lparr>files := (files tiny_world)([''b''] \<mapsto> NDir 448 0,
     [''b'', ''files.json''] \<mapsto> NFile (canonical (JList [])) 384 0)\<rparr>"

definition tiny_tracked :: "unit res \<times> unit world" where
  "tiny_tracked = track tiny_env [''b''] [''etc'', ''old''] tiny_backup"

definition tiny_changed :: "unit world" where
  "tiny_changed = set_files ((files (snd tiny_tracked))([''etc'', ''old''] \<mapsto> NFile ''new'' 384 0)) (snd tiny_tracked)"

definition tiny_restored :: "unit res \<times> unit world" where
  "tiny_restored = restore_all tiny_env [''b''] (Inr (JStr ''x'')) tiny_changed"

lemma tiny_ack_phase: "jget (fst (snd tiny_ack)) ''phase'' = JStr ''backup-verified'' \<and> is_dict (fst (snd tiny_ack))"
  by code_simp

lemma tiny_track_runs: "fst tiny_tracked = Inr ()"
  by code_simp

lemma tiny_restore_runs: "fst tiny_restored = Inr ()"
  by code_simp

lemma tiny_leaves: "leaves_alone tiny_env q"
  by (simp add: leaves_alone_def tiny_env_def tiny_cmd_def)

theorem host_phases_witness:
  "\<exists>q \<in> set [New, SnapshotCreating, SnapshotReady]. in_phase (fst (snd tiny_snapshot)) q"
proof -
  have "in_phase new_state New" by (simp add: in_phase_def new_state_def jget_Cons)
  from host_phases [OF this, of tiny_env tiny_host "''snapshot''" "[]" tiny_world "fst tiny_snapshot"
      "fst (snd tiny_snapshot)" "snd (snd tiny_snapshot)"]
  show ?thesis by (auto simp: tiny_snapshot_def outcomes.simps)
qed

theorem closed_needs_every_stage_witness:
  "subseq (needs BackupVerified) (map plain_action [''snapshot'', ''backup-verified''])"
proof -
  have 1: "served tiny_env tiny_host ([] @ [''snapshot'']) (fst (snd tiny_snapshot))"
    by (rule served.call [OF served.start, where r = "fst tiny_snapshot" and w' = "snd (snd tiny_snapshot)"])
      (simp add: tiny_snapshot_def)
  have "served tiny_env tiny_host (([] @ [''snapshot'']) @ [''backup-verified'']) (fst (snd tiny_ack))"
    by (rule served.call [OF 1, where w = "snd (snd tiny_snapshot)" and r = "fst tiny_ack" and w' = "snd (snd tiny_ack)"])
      (simp add: tiny_ack_def)
  from closed_needs_every_stage [OF this, of BackupVerified] tiny_ack_phase show ?thesis
    by (simp add: in_phase_def)
qed


end
