(* ===== verification/Prepare.thy ===== *)
theory Prepare
  imports Signing
begin

text \<open>
  \<^verbatim>\<open>scripts/hermes/unattended/prepare.py\<close>: a candidate directory is frozen before its certification. The
  destination is not inside the transaction, so the listing of the transaction is the one at the start
  of the copies.
\<close>

section \<open>Copying the inputs\<close>

definition PAYLOAD_CODE :: "string list" where
  "PAYLOAD_CODE = [''host.py'', ''common.py'', ''gates.py'', ''materialize.py'', ''transaction.py'', ''offline.py'', ''tpm_profile.py'']"

definition PAYLOAD_UNITS :: "string list" where
  "PAYLOAD_UNITS = [''hermes.container'', ''60-hermes-runtime.conf'', ''70-hermes-volume-label.conf'',
     ''harden-config.py'', ''set-model.py'']"

definition copy_payload :: "path \<Rightarrow> path \<Rightarrow> ('x world, unit) prog" where
  "copy_payload repository payload =
     (let library = repository @ [''scripts'', ''hermes''] in
      bindM (forM PAYLOAD_CODE (\<lambda>name. copyfileM (library @ [''unattended'', name]) (payload @ [name]))) (\<lambda>_.
      bindM (copyfileM (library @ [''unattended'', ''vulnerability-policy.json'']) (payload @ [''vulnerability-policy.json''])) (\<lambda>_.
      bindM (forM PAYLOAD_UNITS (\<lambda>name. copyfileM (library @ [name]) (payload @ [name]))) (\<lambda>_.
      copyfileM (library @ [''unattended'', ''systemd'', ''hermes-runtime-credentials.service''])
        (payload @ [''hermes-runtime-credentials.service''])))))"

definition copy_package :: "path \<Rightarrow> path \<Rightarrow> path \<Rightarrow> ('x world, unit) prog" where
  "copy_package transaction destination relative =
     (let src = transaction @ relative; name = ''packages/'' @ join_with ''/'' relative in
      bindM (is_linkM src) (\<lambda>l.
      requireM (\<not> l) ''unsafe-package-source'' 78 (
      bindM (getsM (\<lambda>w. is_dir_at (files w) src)) (\<lambda>directory.
      if directory then ret ()
      else bindM (protectedM src None) (\<lambda>_.
        bindM (liftE (safe_name name)) (\<lambda>_.
        let out = destination @ path_comps name in
        bindM (mkdir_allM (butlast out) 448) (\<lambda>_. copyfileM src out)))))))"

section \<open>The manifest\<close>

text \<open>\<^verbatim>\<open>next(line.removeprefix("Image=") for line in ... if line.startswith("Image="))\<close>\<close>

definition container_image :: "string \<Rightarrow> string res" where
  "container_image t =
     (case filter (\<lambda>line. startswith line ''Image='') (splitlines t) of
        [] \<Rightarrow> Inl StopIteration
      | line # _ \<Rightarrow> Inr (removeprefix ''Image='' line))"

definition freeze_step :: "'x env \<Rightarrow> path \<Rightarrow> path \<Rightarrow> (string \<times> json) list \<Rightarrow> ('x world, (string \<times> json) list) prog" where
  "freeze_step e destination relative records =
     (let p = destination @ relative in
      bindM (getsM (\<lambda>w. is_file_at (files w) p)) (\<lambda>f.
      if \<not> f then ret records
      else bindM (chmodM p 384) (\<lambda>_.
        bindM (readM p) (\<lambda>c.
        ret (records @ [(join_with ''/'' relative,
          JObj [(''size'', JInt (int (length c))), (''mode'', JInt 384), (''sha256'', JStr (sha256 e c))])])))))"

definition candidate_manifest ::
    "int \<Rightarrow> string \<Rightarrow> json \<Rightarrow> string \<Rightarrow> string \<Rightarrow> string \<Rightarrow> (string \<times> json) list \<Rightarrow> json" where
  "candidate_manifest now img identity release_id model baseline records = JObj
     [(''schema'', JStr SCHEMA), (''release_id'', JStr release_id), (''issued_at'', JInt now), (''expires_at'', JInt (now + 86400)),
      (''image'', JStr img), (''provider'', JStr ''openai-api''), (''model'', JStr model), (''host'', identity),
      (''baseline_sha256'', JStr baseline), (''transaction'', JStr ''packages/transaction.json''),
      (''boot_artifact'', JStr ''boot/hermes.efi''), (''files'', JObj records), (''evidence'', expected_evidence)]"

definition prepare ::
    "'x env \<Rightarrow> tools \<Rightarrow> path \<Rightarrow> path \<Rightarrow> path \<Rightarrow> path \<Rightarrow> json \<Rightarrow> string \<Rightarrow> string \<Rightarrow> string \<Rightarrow> ('x world, json) prog" where
  "prepare e t repository destination transaction uki identity release_id model baseline =
     (let payload = destination @ [''payload''] in
      bindM (existsM destination) (\<lambda>x.
      requireM (\<not> x) ''candidate-destination-exists'' 78 (
      bindM (protectedM uki None) (\<lambda>_.
      bindM (protectedM (transaction @ [''transaction.json'']) None) (\<lambda>_.
      bindM (protectedM (transaction @ [''installed-after.sha256'']) None) (\<lambda>_.
      bindM (getsM files) (\<lambda>fs.
      bindM (liftE (validate_bundle (sha256 e) (rglob_rpm e) fs transaction baseline)) (\<lambda>_.
      bindM (mkdirM destination 448 False) (\<lambda>_.
      bindM (mkdirM payload 448 False) (\<lambda>_.
      bindM (copy_payload repository payload) (\<lambda>_.
      bindM (mkdirM (destination @ [''packages'']) 448 False) (\<lambda>_.
      bindM (getsM (\<lambda>w. entries t (files w) transaction)) (\<lambda>listing.
      bindM (forM listing (copy_package transaction destination)) (\<lambda>_.
      bindM (mkdirM (destination @ [''boot'']) 448 False) (\<lambda>_.
      bindM (copyfileM uki (destination @ [''boot'', ''hermes.efi''])) (\<lambda>_.
      bindM (read_textM (payload @ [''hermes.container''])) (\<lambda>container.
      bindM (liftE (container_image container)) (\<lambda>img.
      bindM (getsM (\<lambda>w. sort (entries t (files w) destination))) (\<lambda>frozen_paths.
      bindM (foldM frozen_paths [] (freeze_step e destination)) (\<lambda>records.
      bindM (getsM (clock e)) (\<lambda>now.
      let manifest = candidate_manifest now img identity release_id model baseline records in
      bindM (atomicM (destination @ [''candidate.json'']) (canonical manifest)) (\<lambda>_.
      ret (JObj [(''ok'', JBool True), (''release_id'', JStr release_id),
        (''artifact_fingerprint'', JStr (candidate_fingerprint (sha256 e) manifest)),
        (''stage'', JStr ''candidate-frozen'')])))))))))))))))))))))))"

definition prepare_main ::
    "'x env \<Rightarrow> tools \<Rightarrow> path \<Rightarrow> path \<Rightarrow> path \<Rightarrow> path \<Rightarrow> path \<Rightarrow> string \<Rightarrow> string \<Rightarrow> string \<Rightarrow> ('x world, json) prog" where
  "prepare_main e t repository destination transaction uki host_identity release_id model baseline =
     bindM (read_protectedM host_identity None) (\<lambda>raw. bindM (liftE (decode raw)) (\<lambda>identity.
     prepare e t repository destination transaction uki identity release_id model baseline))"

end
