(* ===== verification/Maintenance.thy ===== *)
theory Maintenance
  imports Controller
begin

text \<open>
  \<^verbatim>\<open>scripts/hermes/unattended/maintenance.py\<close>: the scheduled run of a certified release and the local
  event that tells its outcome. The clock shows whole seconds. Two things about values that other
  programs wrote are parameters: the text of a rel identifier that is not a string, and whether a
  fractional time stamp lies within the last two minutes.
\<close>

section \<open>Events\<close>

definition OUTCOMES :: "string list" where
  "OUTCOMES = [''completed'', ''failed'', ''action-required'', ''deferred'']"

definition EVENT_FIELDS :: "string list" where
  "EVENT_FIELDS = [''schema'', ''outcome'', ''code'', ''timestamp'', ''event_id'', ''release'']"

definition event_directory_ok :: "fsys \<Rightarrow> nat \<Rightarrow> path \<Rightarrow> bool" where
  "event_directory_ok fs u d \<longleftrightarrow> is_dir_at fs d \<and> \<not> is_link_at fs d \<and>
     (case node_at fs d of None \<Rightarrow> False | Some n \<Rightarrow> node_uid n = u \<and> \<not> writable_by_others n)"

definition release_field :: "(string \<Rightarrow> string) \<Rightarrow> string option \<Rightarrow> json" where
  "release_field h rel = (case rel of None \<Rightarrow> JNull | Some r \<Rightarrow> JStr (h r))"

definition event_value :: "(string \<Rightarrow> string) \<Rightarrow> string \<Rightarrow> int \<Rightarrow> int \<Rightarrow> json \<Rightarrow> json" where
  "event_value h outcome code now rel =
     (let value = JObj [(''schema'', JStr ''hermes-event-v1''), (''outcome'', JStr outcome), (''code'', JInt code),
        (''timestamp'', JInt now), (''release'', rel)]
      in jset value ''event_id'' (JStr (h (canonical value))))"

definition same_event :: "json \<Rightarrow> string \<Rightarrow> int \<Rightarrow> json \<Rightarrow> bool" where
  "same_event previous outcome code rel \<longleftrightarrow> py_eq (jget previous ''outcome'') (JStr outcome)
     \<and> py_eq (jget previous ''code'') (JInt code) \<and> py_eq (jget previous ''release'') rel"

definition read_event :: "path \<Rightarrow> ('x world, json) prog" where
  "read_event p =
     bindM (read_protectedM p None) (\<lambda>raw. bindM (liftE (decode raw)) (\<lambda>previous.
     requireM (is_dict previous) ''invalid-event-state'' 78 (ret previous)))"

definition publish_locked :: "'x env \<Rightarrow> path \<Rightarrow> string \<Rightarrow> int \<Rightarrow> string option \<Rightarrow> ('x world, json) prog" where
  "publish_locked e d outcome code rel =
     (let p = d @ [''latest.json'']; r = release_field (sha256 e) rel in
      bindM (existsM p) (\<lambda>x.
      bindM (if x then read_event p else ret (JObj [])) (\<lambda>previous.
      if same_event previous outcome code r then ret previous
      else bindM (getsM (clock e)) (\<lambda>now.
        let v = event_value (sha256 e) outcome code now r in
        bindM (atomicM p (canonical v)) (\<lambda>_. bindM (chmodM p 420) (\<lambda>_. ret v))))))"

definition publish :: "'x env \<Rightarrow> path \<Rightarrow> string \<Rightarrow> int \<Rightarrow> string option \<Rightarrow> ('x world, json) prog" where
  "publish e d outcome code rel =
     requireM (outcome \<in> set OUTCOMES \<and> 0 \<le> code \<and> code \<le> 255) ''invalid-event'' 64 (
     bindM (getsM (\<lambda>w. event_directory_ok (files w) (euid w) d)) (\<lambda>ok.
     requireM ok ''unsafe-event-directory'' 78 (
     lockM (d @ [''.event.lock'']) (publish_locked e d outcome code rel))))"

section \<open>The scheduled run\<close>

definition run_reply :: "string \<Rightarrow> json" where
  "run_reply stage = JObj [(''ok'', JBool True), (''stage'', JStr stage)]"

definition release_text :: "(json \<Rightarrow> string) \<Rightarrow> json \<Rightarrow> string option" where
  "release_text shown v = (case v of JNull \<Rightarrow> None | JStr s \<Rightarrow> Some s | _ \<Rightarrow> Some (shown v))"

definition input_error :: "exn \<Rightarrow> bool" where
  "input_error x \<longleftrightarrow> x \<in> set [OSError, ValueError, KeyError, TypeError]"

text \<open>The two \<^verbatim>\<open>except\<close> clauses: the event tells a class of failure, the exception names none.\<close>

definition attention :: "'x env \<Rightarrow> path \<Rightarrow> exn \<Rightarrow> ('x world, json) prog" where
  "attention e events x =
     (case x of
        Failure code reason \<Rightarrow>
          bindM (publish e events (if code \<in> set [66, 75, 77, 78] then ''action-required'' else ''failed'') code None) (\<lambda>_.
          raiseM (Failure code ''maintenance-needs-attention''))
      | _ \<Rightarrow>
          if input_error x
          then bindM (publish e events ''failed'' 78 None) (\<lambda>_. raiseM (Failure 78 ''maintenance-needs-attention''))
          else raiseM x)"

definition upgrade :: "nat \<Rightarrow> 'x env \<Rightarrow> 'x peers \<Rightarrow> path \<Rightarrow> path \<Rightarrow> ('x world, json) prog" where
  "upgrade n e k config rel =
     bindM (controller_main n e k ''upgrade'' config (Some rel)) (\<lambda>result.
     requireM (is_dict result \<and> jget result ''ok'' = JBool True \<and> py_eq (jget result ''stage'') (JStr ''closed''))
       ''maintenance-incomplete'' 75 (ret result))"

definition maintain ::
    "nat \<Rightarrow> 'x env \<Rightarrow> 'x peers \<Rightarrow> (json \<Rightarrow> string) \<Rightarrow> path \<Rightarrow> path \<Rightarrow> path \<Rightarrow> ('x world, json) prog" where
  "maintain n e k shown config rel events =
     bindM (getsM (wall e)) (\<lambda>now.
     if \<not> maintenance_open now 1800 then ret (run_reply ''deferred'')
     else bindM (getsM (\<lambda>w. is_file_at (files w) rel)) (\<lambda>found.
       if \<not> found then
         bindM (publish e events ''action-required'' 66 None) (\<lambda>_. raiseM (Failure 66 ''certified-release-unavailable''))
       else
         bindM (catchM (upgrade n e k config rel) (attention e events)) (\<lambda>result.
         bindM (publish e events ''completed'' 0 (release_text shown (jget result ''release_id''))) (\<lambda>_.
         ret (run_reply ''closed'')))))"

section \<open>The command\<close>

text \<open>\<^verbatim>\<open>0 <= time.time() - previous.get("timestamp", 0) <= 120\<close>\<close>

definition recent :: "(string \<Rightarrow> int \<Rightarrow> bool) \<Rightarrow> int \<Rightarrow> json \<Rightarrow> bool res" where
  "recent fraction now previous =
     (if \<not> has_key previous ''timestamp'' then Inr (0 \<le> now \<and> now \<le> 120)
      else (case jget previous ''timestamp'' of
        JInt t \<Rightarrow> Inr (0 \<le> now - t \<and> now - t \<le> 120)
      | JBool b \<Rightarrow> Inr (0 \<le> now - int_of (JBool b) \<and> now - int_of (JBool b) \<le> 120)
      | JFloat s \<Rightarrow> Inr (fraction s now)
      | _ \<Rightarrow> Inl TypeError))"

definition service_failed :: "'x env \<Rightarrow> (string \<Rightarrow> int \<Rightarrow> bool) \<Rightarrow> path \<Rightarrow> ('x world, json) prog" where
  "service_failed e fraction events =
     (let p = events @ [''latest.json''] in
      bindM (existsM p) (\<lambda>x.
      if \<not> x then publish e events ''action-required'' 69 None
      else bindM (read_event p) (\<lambda>previous.
        if \<not> in_phases (jget previous ''outcome'') [''failed'', ''action-required'']
        then publish e events ''action-required'' 69 None
        else bindM (getsM (clock e)) (\<lambda>now.
          bindM (liftE (recent fraction now previous)) (\<lambda>r.
          if r then ret previous else publish e events ''action-required'' 69 None)))))"

definition maintenance_main ::
    "nat \<Rightarrow> 'x env \<Rightarrow> 'x peers \<Rightarrow> (json \<Rightarrow> string) \<Rightarrow> (string \<Rightarrow> int \<Rightarrow> bool) \<Rightarrow> path option \<Rightarrow> path option \<Rightarrow> path \<Rightarrow> bool
       \<Rightarrow> ('x world, json) prog" where
  "maintenance_main n e k shown fraction config rel events failed =
     (if failed then service_failed e fraction events
      else case (config, rel) of
        (Some c, Some r) \<Rightarrow> maintain n e k shown c r events
      | _ \<Rightarrow> raiseM (Failure 64 ''maintenance-input-required''))"

section \<open>Delivery\<close>

definition MESSAGES :: "(string \<times> string) list" where
  "MESSAGES = [(''completed'', ''Hermes certified maintenance completed.''),
     (''failed'', ''Hermes maintenance failed. Review the local deployment status.''),
     (''action-required'', ''Hermes maintenance needs operator attention. Review the local deployment status.'')]"

text \<open>The one condition of \<^verbatim>\<open>deliver\<close>; a list or an object as the outcome is not hashable.\<close>

definition notification_ok :: "json \<Rightarrow> bool res" where
  "notification_ok value =
     (if fields_are value EVENT_FIELDS \<and> jget value ''schema'' = JStr ''hermes-event-v1'' then
        (let outcome = jget value ''outcome''; code = jget value ''code''; timestamp = jget value ''timestamp'' in
         if is_list outcome \<or> is_dict outcome then Inl TypeError
         else Inr (is_str outcome \<and> str_of outcome \<in> set OUTCOMES
           \<and> is_int code \<and> 0 \<le> int_of code \<and> int_of code \<le> 255
           \<and> is_int timestamp \<and> 0 < int_of timestamp
           \<and> (jget value ''release'' = JNull \<or> sha (jget value ''release''))
           \<and> sha (jget value ''event_id'')))
      else Inr False)"

definition event_digest :: "(string \<Rightarrow> string) \<Rightarrow> json \<Rightarrow> string" where
  "event_digest h value = h (canonical (pop_key ''event_id'' value))"

definition notified :: "bool \<Rightarrow> json" where
  "notified b = JObj [(''ok'', JBool True), (''notified'', JBool b)]"

definition notify_args :: "string \<Rightarrow> string list" where
  "notify_args message = [''notify-send'', ''--app-name=Hermes'', ''--urgency=normal'', ''--'', ''Hermes maintenance'', message]"

definition deliver_locked :: "'x env \<Rightarrow> path \<Rightarrow> string \<Rightarrow> string \<Rightarrow> ('x world, json) prog" where
  "deliver_locked e d outcome event_id =
     (let seen = d @ [''seen'']; message = map_of MESSAGES outcome in
      bindM (existsM seen) (\<lambda>x.
      bindM (if x then bindM (protectedM seen None) (\<lambda>p. bindM (read_textM p) (\<lambda>t. ret (t = event_id))) else ret False) (\<lambda>known.
      if known then ret (notified False)
      else bindM (case message of None \<Rightarrow> ret [] | Some m \<Rightarrow> runM (cmd e) (notify_args m) None) (\<lambda>_.
        bindM (atomicM seen event_id) (\<lambda>_. ret (notified (message \<noteq> None)))))))"

definition small_file :: "node \<Rightarrow> bool" where
  "small_file n \<longleftrightarrow> (case n of NFile c m u \<Rightarrow> length c \<le> 4096 | _ \<Rightarrow> True)"

definition deliver :: "'x env \<Rightarrow> path \<Rightarrow> path \<Rightarrow> ('x world, json) prog" where
  "deliver e event d =
     bindM (existsM event) (\<lambda>x.
     if \<not> x then ret (notified False)
     else bindM (statM event) (\<lambda>n.
       requireM (small_file n) ''oversized-notification'' 78 (
       bindM (read_protectedM event None) (\<lambda>raw.
       bindM (liftE (decode raw)) (\<lambda>value.
       bindM (liftE (notification_ok value)) (\<lambda>valid.
       requireM valid ''invalid-notification'' 78 (
       requireM (jget value ''event_id'' = JStr (event_digest (sha256 e) value)) ''notification-integrity-mismatch'' 78 (
       bindM (mkdir_allM d 448) (\<lambda>_.
       bindM (getsM (\<lambda>w. state_directory_ok (files w) (euid w) d)) (\<lambda>ok.
       requireM ok ''unsafe-notification-state'' 78 (
       lockM (d @ [''notify.lock''])
         (deliver_locked e d (str_of (jget value ''outcome'')) (str_of (jget value ''event_id''))))))))))))))"

end
