(* ===== verification/Schedule.thy ===== *)
theory Schedule
  imports Certify Prepare Maintenance
begin

text \<open>
  \<^verbatim>\<open>scripts/hermes/unattended/schedule.py\<close>: the scheduled preparation and certification of a candidate.
  The certifier runs as a command; its environment is not an argument of the commands, and its output
  is what the command writes. The jr is the memory of the process.
\<close>

section \<open>The policy\<close>

definition SCHEDULE_FIELDS :: "string list" where
  "SCHEDULE_FIELDS = [''schema'', ''certifier_config'', ''state_dir'', ''prepare'']"

definition PREPARE_FIELDS :: "string list" where
  "PREPARE_FIELDS = [''repository'', ''transaction'', ''uki'', ''host_identity'', ''release_id'', ''model'', ''baseline'']"

definition STAGES :: "string list" where
  "STAGES = [''preparing'', ''prepared'', ''certifying'', ''ua03-complete'', ''failed'']"

definition recipe_ok :: "json \<Rightarrow> bool" where
  "recipe_ok recipe \<longleftrightarrow> fields_are recipe PREPARE_FIELDS \<and> list_all (\<lambda>(k, v). is_str v \<and> str_of v \<noteq> []) (items_of recipe)
     \<and> sha (jget recipe ''baseline'')"

definition schedule_path_ok :: "json \<Rightarrow> bool" where
  "schedule_path_ok v \<longleftrightarrow> is_str v \<and> path_absolute (str_of v) \<and> ''..'' \<notin> set (path_parts (str_of v))
     \<and> \<not> has_line_break_or_nul (str_of v)"

definition schedule_path_step :: "json \<Rightarrow> unit \<Rightarrow> unit res" where
  "schedule_path_step v _ = requireE (schedule_path_ok v) ''invalid-schedule-path'' 78 (Inr ())"

definition schedule_load :: "path \<Rightarrow> ('x world, json \<times> json) prog" where
  "schedule_load p =
     bindM (read_protectedM p (Some 0)) (\<lambda>raw. bindM (liftE (decode raw)) (\<lambda>policy.
     requireM (fields_are policy SCHEDULE_FIELDS \<and> jget policy ''schema'' = JStr ''hermes-schedule-v1'') ''invalid-schedule-policy'' 78 (
     let recipe = jget policy ''prepare'' in
     requireM (recipe_ok recipe) ''invalid-schedule-recipe'' 78 (
     bindM (liftE (foldE schedule_path_step ([jget policy ''certifier_config'', jget policy ''state_dir'']
        @ map (jget recipe) [''repository'', ''transaction'', ''uki'', ''host_identity'']) ())) (\<lambda>_.
     bindM (read_protectedM (path_comps (cfg policy ''certifier_config'')) (Some 0)) (\<lambda>c. bindM (liftE (decode c)) (\<lambda>v.
     bindM (getsM euid) (\<lambda>me.
     bindM (liftE (validate_config v me)) (\<lambda>config.
     bindM (getsM files) (\<lambda>fs.
     bindM (liftE (owned_path fs (cfg policy ''state_dir'') (int me) True)) (\<lambda>state_dir.
     bindM (statM state_dir) (\<lambda>n.
     requireM (\<not> open_to_others n) ''schedule-state-not-private'' 78 (
     requireM (pairwise_disjoint (map path_comps [cfg policy ''state_dir'', cfg config ''state_dir'', cfg config ''candidate'',
         cfg config ''evidence_dir''])) ''overlapping-schedule-directories'' 78 (
     ret (policy, config)))))))))))))))"

definition policy_binding :: "'x env \<Rightarrow> json \<Rightarrow> json \<Rightarrow> string" where
  "policy_binding e policy config = sha256 e (canonical (JObj [(''policy'', policy), (''certifier'', config)]))"

section \<open>The certifier as a child\<close>

definition CERTIFIER_TOOLS :: "string list" where "CERTIFIER_TOOLS = [''ssh'', ''sudo'', ''restic'', ''trivy'']"

text \<open>The interpreter of the child, and the programs found on a search path, are parameters.\<close>

record 'x runner =
  python :: string
  finds :: "string \<Rightarrow> string \<Rightarrow> 'x world \<Rightarrow> bool"

definition child_path :: "'x env \<Rightarrow> ('x world, string) prog" where
  "child_path e =
     (let bin = butlast (source e) @ [''bin'']; plain_path = ''/usr/local/bin:/usr/bin:/bin'' in
      bindM (existsM bin) (\<lambda>x. bindM (is_linkM bin) (\<lambda>l.
      if x \<or> l then
        bindM (getsM files) (\<lambda>fs. bindM (liftE (owned_path fs (path_text bin) 0 True)) (\<lambda>_.
        ret (path_text bin @ '':'' @ plain_path)))
      else ret plain_path)))"

definition tool_readiness :: "'x env \<Rightarrow> 'x runner \<Rightarrow> ('x world, json) prog" where
  "tool_readiness e r =
     bindM (child_path e) (\<lambda>search.
     bindM (forM CERTIFIER_TOOLS (\<lambda>name. bindM (getsM (finds r name search)) (\<lambda>found.
       requireM found (''missing-certifier-tool-'' @ name) 69 (ret ())))) (\<lambda>_.
     ret (JObj [(''ok'', JBool True), (''stage'', JStr ''certifier-tools-ready''),
       (''tools'', JList (map JStr CERTIFIER_TOOLS))])))"

definition child_args :: "'x env \<Rightarrow> 'x runner \<Rightarrow> string \<Rightarrow> bool \<Rightarrow> string list" where
  "child_args e r config_name cleanup =
     [python r, ''-B'', ''-E'', ''-s'', path_text (butlast (source e) @ [''certify.py'']), ''--config'', config_name]
       @ (if cleanup then [''--cleanup-only''] else [])"

definition child_result :: "string \<Rightarrow> json res" where
  "child_result out =
     requireE (length out \<le> 65536) ''oversized-certifier-result'' 78 (
     let ls = bsplitlines out in
     requireE (ls \<noteq> []) ''missing-certifier-result'' 78 (
     bindE (decode (last ls)) (\<lambda>result.
     requireE (is_dict result \<and> jget result ''ok'' = JBool True) ''invalid-certifier-result'' 78 (Inr result))))"

definition child :: "'x env \<Rightarrow> 'x runner \<Rightarrow> string \<Rightarrow> bool \<Rightarrow> ('x world, json) prog" where
  "child e r config_name cleanup =
     bindM (child_path e) (\<lambda>_.
     bindM (runM (cmd e) (child_args e r config_name cleanup) None) (\<lambda>out. liftE (child_result out)))"

definition schedule_cleanup :: "'x env \<Rightarrow> 'x runner \<Rightarrow> json \<Rightarrow> json \<Rightarrow> ('x world, json) prog" where
  "schedule_cleanup e r policy config =
     (let state = path_comps (cfg config ''state_dir'') @ [''state.json''] in
      bindM (existsM state) (\<lambda>x.
      if \<not> x then
        bindM (is_linkM state) (\<lambda>l. requireM (\<not> l) ''unsafe-certifier-state'' 78 (ret (run_reply ''no-certifier-state'')))
      else
        bindM (child e r (cfg policy ''certifier_config'') True) (\<lambda>result.
        requireM (in_phases (jget result ''stage'') [''no-credential-issued'', ''credential-cleanup-complete''])
          ''incomplete-certifier-cleanup'' 78 (ret (run_reply ''credential-cleanup-complete'')))))"

section \<open>The window\<close>

definition frozen :: "'x env \<Rightarrow> tools \<Rightarrow> json \<Rightarrow> json \<Rightarrow> ('x world, json) prog" where
  "frozen e t config jr =
     bindM (candidate e t config) (\<lambda>(manifest, raw).
     bindM (digestM (sha256 e) (path_comps (cfg config ''candidate'') @ [''candidate.json''])) (\<lambda>d.
     bindM (liftE (andE (field_is jr ''candidate_sha256'' (JStr d))
        (field_is jr ''artifact_fingerprint'' (JStr (candidate_fingerprint (sha256 e) manifest))))) (\<lambda>same.
     requireM same ''scheduled-candidate-changed'' 78 (ret manifest))))"

definition GRANT_FIELDS :: "string list" where
  "GRANT_FIELDS = [''schema'', ''binding'', ''run_id'', ''candidate_sha256'', ''issued_at'', ''expires_at'']"

definition grant_current :: "json \<Rightarrow> int \<Rightarrow> bool" where
  "grant_current grant now \<longleftrightarrow>
     (let issued = jget grant ''issued_at''; expires = jget grant ''expires_at'' in
      is_int issued \<and> is_int expires \<and> int_of issued \<le> now \<and> now < int_of expires
        \<and> 0 < int_of expires - int_of issued \<and> int_of expires - int_of issued \<le> 4 * 3600)"

definition read_grant :: "string \<Rightarrow> ('x world, json) prog" where
  "read_grant name =
     bindM (getsM files) (\<lambda>fs.
     bindM (liftE (owned_path fs name 0 False)) (\<lambda>p.
     bindM (read_protectedM p (Some 0)) (\<lambda>raw. liftE (decode raw))))"

definition window_open :: "'x env \<Rightarrow> json \<Rightarrow> json \<Rightarrow> string option \<Rightarrow> ('x world, bool) prog" where
  "window_open e policy config grant_path =
     (case grant_path of
        None \<Rightarrow> bindM (getsM (wall e)) (\<lambda>now. ret (maintenance_open now 1800))
      | Some name \<Rightarrow>
          bindM (read_grant name) (\<lambda>grant.
          requireM (fields_are grant GRANT_FIELDS \<and> jget grant ''schema'' = JStr ''hermes-lab-window-v1'') ''invalid-lab-window-grant'' 78 (
          requireM (jget config ''domain_uuid'' = JStr DOMAIN \<and> jget config ''target'' = JStr LAB_TARGET)
            ''window-grant-requires-fixed-lab'' 78 (
          bindM (getsM (clock e)) (\<lambda>now.
          requireM (grant_current grant now) ''expired-or-invalid-lab-window'' 78 (
          bindM (if jget grant ''binding'' = JStr (policy_binding e policy config) \<and> py_eq (jget grant ''run_id'') (jget config ''run_id'')
                   \<and> sha (jget grant ''candidate_sha256'')
                 then bindM (digestM (sha256 e) (path_comps (cfg config ''candidate'') @ [''candidate.json'']))
                   (\<lambda>d. ret (jget grant ''candidate_sha256'' = JStr d))
                 else ret False) (\<lambda>bound.
          requireM bound ''lab-window-binding-mismatch'' 78 (
          bindM (getsM (\<lambda>w. is_file_at (files w) (path_comps (cfg policy ''state_dir'') @ [''schedule.json'']))) (\<lambda>prepared.
          requireM prepared ''lab-window-needs-prepared-run'' 78 (ret True))))))))))"

section \<open>The schedule\<close>

definition journal_save :: "path \<Rightarrow> (string \<times> json) list \<Rightarrow> (json, 'x, unit) process" where
  "journal_save p values =
     bindM (remember (\<lambda>jr. merged jr (JObj values))) (\<lambda>_.
     bindM recall (\<lambda>jr. outside (atomicM p (canonical jr))))"

text \<open>A run that was prepared, or certified, may go on; any other stage needs an operator.\<close>

definition resume_journal :: "'x env \<Rightarrow> tools \<Rightarrow> json \<Rightarrow> json \<Rightarrow> path \<Rightarrow> ('x world, json) prog" where
  "resume_journal e t policy config p =
     bindM (read_protectedM p None) (\<lambda>raw. bindM (liftE (decode raw)) (\<lambda>jr.
     requireM (is_dict jr \<and> py_eq (jget jr ''binding'') (JStr (policy_binding e policy config))
         \<and> in_phases (jget jr ''stage'') STAGES) ''schedule-binding-mismatch'' 78 (
     requireM (in_phases (jget jr ''stage'') [''prepared'', ''ua03-complete'']) ''schedule-recovery-required'' 75 (
     bindM (frozen e t config jr) (\<lambda>_. ret jr)))))"

definition prepare_candidate :: "'x env \<Rightarrow> tools \<Rightarrow> json \<Rightarrow> json \<Rightarrow> path \<Rightarrow> (json, 'x, unit) process" where
  "prepare_candidate e t policy config p =
     (let recipe = jget policy ''prepare''; directory = path_comps (cfg config ''candidate'');
          place = (\<lambda>key. path_comps (cfg recipe key)) in
      bindM (outside (bindM (read_protectedM (place ''host_identity'') None) (\<lambda>raw. bindM (liftE (decode raw)) (\<lambda>identity.
        prepare e t (place ''repository'') directory (place ''transaction'') (place ''uki'') identity
          (cfg recipe ''release_id'') (cfg recipe ''model'') (cfg recipe ''baseline''))))) (\<lambda>_.
      bindM (outside (candidate e t config)) (\<lambda>(manifest, raw).
      bindM (outside (digestM (sha256 e) (directory @ [''candidate.json'']))) (\<lambda>d.
      journal_save p [(''stage'', JStr ''prepared''), (''candidate_sha256'', JStr d),
        (''artifact_fingerprint'', JStr (candidate_fingerprint (sha256 e) manifest))]))))"

text \<open>A run without a journal starts here; a failed preparation is recorded and never resumed.\<close>

definition start_journal :: "'x env \<Rightarrow> tools \<Rightarrow> json \<Rightarrow> json \<Rightarrow> path \<Rightarrow> (json, 'x, unit) process" where
  "start_journal e t policy config p =
     (let directory = path_comps (cfg config ''candidate'') in
      bindM (outside (is_linkM p)) (\<lambda>l.
      requireM (\<not> l) ''unsafe-schedule-state'' 78 (
      bindM (outside (existsM directory)) (\<lambda>x. bindM (outside (is_linkM directory)) (\<lambda>l.
      requireM (\<not> x \<and> \<not> l) ''candidate-destination-exists'' 78 (
      bindM (outside (existsM (path_comps (cfg config ''state_dir'') @ [''state.json'']))) (\<lambda>started.
      requireM (\<not> started) ''certification-run-already-started'' 78 (
      bindM (outside (getsM (\<lambda>w. owned_path (files w) (path_text (butlast directory)) (int (euid w)) True))) (\<lambda>parent.
      bindM (liftE parent) (\<lambda>_.
      bindM (remember (\<lambda>_. JObj [(''schema'', JStr ''hermes-schedule-state-v1''),
        (''binding'', JStr (policy_binding e policy config)), (''stage'', JStr ''preparing'')])) (\<lambda>_.
      bindM (journal_save p []) (\<lambda>_.
      catchM (prepare_candidate e t policy config p)
        (\<lambda>_. bindM (journal_save p [(''stage'', JStr ''failed''), (''failure'', JStr ''candidate-preparation-failed'')]) (\<lambda>_.
           raiseM (Failure 78 ''candidate-preparation-failed'')))))))))))))))"

definition certified_reply :: "json \<Rightarrow> json \<Rightarrow> json \<Rightarrow> bool" where
  "certified_reply config jr result \<longleftrightarrow> py_eq (jget result ''stage'') (JStr ''ua03-complete'')
     \<and> py_eq (jget result ''run_id'') (jget config ''run_id'')
     \<and> py_eq (jget result ''artifact_fingerprint'') (jget jr ''artifact_fingerprint'') \<and> jget result ''release_signed'' = JBool False"

definition run_certifier :: "'x env \<Rightarrow> tools \<Rightarrow> 'x runner \<Rightarrow> json \<Rightarrow> json \<Rightarrow> (json, 'x, string option) process" where
  "run_certifier e t r policy config =
     catchM
       (bindM (outside (child e r (cfg policy ''certifier_config'') False)) (\<lambda>result.
        bindM recall (\<lambda>jr.
        requireM (certified_reply config jr result) ''incomplete-scheduled-certification'' 78 (
        bindM (outside (frozen e t config jr)) (\<lambda>_. ret None)))))
       (\<lambda>_. ret (Some ''scheduled-certification-failed''))"

definition clean_after :: "'x env \<Rightarrow> 'x runner \<Rightarrow> json \<Rightarrow> json \<Rightarrow> string option \<Rightarrow> (json, 'x, string option) process" where
  "clean_after e r policy config failure =
     catchM (bindM (outside (schedule_cleanup e r policy config)) (\<lambda>_. ret failure))
       (\<lambda>_. bindM (remember (\<lambda>jr. jset jr ''cleanup_failure'' (JStr ''credential-cleanup-failed''))) (\<lambda>_.
          ret (either failure (Some ''credential-cleanup-failed''))))"

definition certify_prepared ::
    "'x env \<Rightarrow> tools \<Rightarrow> 'x runner \<Rightarrow> json \<Rightarrow> json \<Rightarrow> string option \<Rightarrow> path \<Rightarrow> (json, 'x, json) process" where
  "certify_prepared e t r policy config grant_path p =
     bindM (outside (window_open e policy config grant_path)) (\<lambda>is_open.
     if \<not> is_open then ret (run_reply ''deferred'')
     else
       bindM (case grant_path of None \<Rightarrow> ret ()
          | Some name \<Rightarrow> bindM (outside (digestM (sha256 e) (path_comps name))) (\<lambda>d.
              remember (\<lambda>jr. jset jr ''lab_window_grant_sha256'' (JStr d)))) (\<lambda>_.
       bindM (journal_save p [(''stage'', JStr ''certifying'')]) (\<lambda>_.
       bindM (run_certifier e t r policy config) (\<lambda>failure.
       bindM (clean_after e r policy config failure) (\<lambda>failure.
       case failure of
         Some reason \<Rightarrow> bindM (journal_save p [(''stage'', JStr ''failed''), (''failure'', JStr reason)]) (\<lambda>_. raiseM (Failure 69 reason))
       | None \<Rightarrow> bindM (journal_save p [(''stage'', JStr ''ua03-complete'')]) (\<lambda>_.
           ret (JObj [(''ok'', JBool True), (''stage'', JStr ''ua03-complete''), (''release_signed'', JBool False)])))))))"

definition schedule_locked ::
    "'x env \<Rightarrow> tools \<Rightarrow> 'x runner \<Rightarrow> json \<Rightarrow> json \<Rightarrow> bool \<Rightarrow> string option \<Rightarrow> path \<Rightarrow> (json, 'x, json) process" where
  "schedule_locked e t r policy config prepare_only grant_path p =
     bindM (outside (existsM p)) (\<lambda>x.
     bindM (if x then bindM (outside (resume_journal e t policy config p)) (\<lambda>jr. remember (\<lambda>_. jr))
            else start_journal e t policy config p) (\<lambda>_.
     bindM recall (\<lambda>jr.
     if x \<and> py_eq (jget jr ''stage'') (JStr ''ua03-complete'') then
       ret (JObj [(''ok'', JBool True), (''stage'', JStr ''already-certified''), (''release_signed'', JBool False)])
     else if prepare_only then
       ret (JObj [(''ok'', JBool True), (''stage'', JStr ''prepared''), (''candidate_sha256'', jget jr ''candidate_sha256''),
         (''release_signed'', JBool False)])
     else certify_prepared e t r policy config grant_path p)))"

definition schedule_execute ::
    "'x env \<Rightarrow> tools \<Rightarrow> 'x runner \<Rightarrow> json \<Rightarrow> json \<Rightarrow> bool \<Rightarrow> bool \<Rightarrow> string option \<Rightarrow> ('x world, json) prog" where
  "schedule_execute e t r policy config prepare_only only_cleanup grant_path =
     (let root = path_comps (cfg policy ''state_dir'') in
      lockM (root @ [''.schedule.lock''])
        (if only_cleanup then schedule_cleanup e r policy config
         else bindM (if prepare_only then ret True else window_open e policy config grant_path) (\<lambda>go.
           if \<not> go then ret (run_reply ''deferred'')
           else inside JNull (schedule_locked e t r policy config prepare_only grant_path (root @ [''schedule.json''])))))"

section \<open>The command\<close>

definition schedule_failed :: "'x env \<Rightarrow> path \<Rightarrow> exn \<Rightarrow> ('x world, 'a) prog" where
  "schedule_failed e events x =
     (case x of
        Failure code reason \<Rightarrow> bindM (publish e events ''action-required'' code None) (\<lambda>_. raiseM x)
      | _ \<Rightarrow> if input_error x then bindM (publish e events ''action-required'' 78 None) (\<lambda>_. raiseM x) else raiseM x)"

definition schedule_main ::
    "'x env \<Rightarrow> tools \<Rightarrow> 'x runner \<Rightarrow> (json \<Rightarrow> string) \<Rightarrow> path \<Rightarrow> path \<Rightarrow> bool \<Rightarrow> bool \<Rightarrow> string option \<Rightarrow> ('x world, json) prog" where
  "schedule_main e t r shown policy_path events prepare_only only_cleanup grant_path =
     bindM (catchM
       (bindM (schedule_load policy_path) (\<lambda>(policy, config).
        bindM (schedule_execute e t r policy config prepare_only only_cleanup grant_path) (\<lambda>result. ret (config, result))))
       (schedule_failed e events)) (\<lambda>(config, result).
     bindM (if in_phases (jget result ''stage'') [''prepared'', ''ua03-complete'']
            then bindM (publish e events ''action-required'' 75 (release_text shown (jget config ''run_id''))) (\<lambda>_. ret ())
            else ret ()) (\<lambda>_. ret result))"

end
