(* ===== verification/Lifecycle.thy ===== *)
theory Lifecycle
  imports Schedule
begin

text \<open>
  \<^verbatim>\<open>scripts/hermes/unattended/lifecycle.py\<close>: one disposable certification lifecycle at a time. As in the source
  the driver that provisions, certifies and cleans up is an argument; its methods see the state dictionary
  and may save it. The code locations of an exception, the day in the zone of the window, the next random
  identifier and the account database are parameters.
\<close>

section \<open>The driver\<close>

record 'x driver =
  drv_prepare :: "json \<Rightarrow> path \<Rightarrow> (json, 'x, unit) process"
  drv_certify :: "json \<Rightarrow> path \<Rightarrow> (json, 'x, unit) process"
  drv_cleanup :: "json \<Rightarrow> path \<Rightarrow> (json, 'x, unit) process"
  located :: "exn \<Rightarrow> json"
  today_slot :: "'x world \<Rightarrow> string"
  token :: "'x world \<Rightarrow> string"
  uid_of :: "string \<Rightarrow> 'x world \<Rightarrow> nat option"

section \<open>The policy\<close>

definition LIFECYCLE_FIELDS :: "string list" where
  "LIFECYCLE_FIELDS = [''schema'', ''repository'', ''state_dir'', ''events_dir'', ''certifier_user'', ''model'',
     ''iso'', ''iso_sha256'', ''checksum'', ''keyring'', ''fedora_fingerprint'', ''firmware_code'', ''firmware_vars'']"

definition TERMINAL :: "string list" where
  "TERMINAL = [''complete'', ''failed-cleaned'', ''deferred-cleaned'']"

definition is_hex_upper :: "char \<Rightarrow> bool" where
  "is_hex_upper c \<longleftrightarrow> c \<in> set ''ABCDEF0123456789''"

definition lifecycle_path_ok :: "json \<Rightarrow> bool" where
  "lifecycle_path_ok v \<longleftrightarrow> is_str v \<and> match_prefixed ''/'' (match_plus (\<lambda>c. is_alnum c \<or> c \<in> set ''_./-'')) (str_of v)
     \<and> ''..'' \<notin> set (path_parts (str_of v))"

definition lifecycle_path_step :: "fsys \<Rightarrow> json \<Rightarrow> string \<Rightarrow> unit \<Rightarrow> unit res" where
  "lifecycle_path_step fs v key _ =
     requireE (lifecycle_path_ok (jget v key)) ''unsafe-lifecycle-path'' 78 (
     if key \<in> set [''repository'', ''state_dir'', ''events_dir'']
     then bindE (owned_path fs (cfg v key) 0 True) (\<lambda>_. Inr ())
     else bindE (protected_file fs (path_comps (cfg v key)) (Some 0)) (\<lambda>_. Inr ()))"

definition media_ok :: "json \<Rightarrow> bool" where
  "media_ok v \<longleftrightarrow> sha (jget v ''iso_sha256'') \<and> is_str (jget v ''fedora_fingerprint'')
     \<and> match_count is_hex_upper 40 (cfg v ''fedora_fingerprint'')"

definition lifecycle_load :: "'x driver \<Rightarrow> path \<Rightarrow> ('x world, json) prog" where
  "lifecycle_load dr p =
     bindM (getsM euid) (\<lambda>me.
     requireM (me = 0) ''lifecycle-requires-root-enrollment'' 77 (
     bindM (read_protectedM p (Some 0)) (\<lambda>raw. bindM (liftE (decode raw)) (\<lambda>v.
     requireM (fields_are v LIFECYCLE_FIELDS \<and> jget v ''schema'' = JStr ''hermes-lifecycle-v1'') ''invalid-lifecycle-policy'' 78 (
     requireM (jget v ''certifier_user'' = JStr ''hermes-certification'') ''wrong-lifecycle-certifier'' 78 (
     bindM (getsM (uid_of dr (cfg v ''certifier_user''))) (\<lambda>uid.
     bindM (liftE (case uid of None \<Rightarrow> Inl KeyError | Some u \<Rightarrow> Inr u)) (\<lambda>u.
     requireM (0 < u) ''root-certifier-forbidden'' 78 (
     requireM (media_ok v) ''invalid-media-binding'' 78 (
     requireM (is_str (jget v ''model'') \<and> model_ok (cfg v ''model'')) ''invalid-lifecycle-model'' 78 (
     bindM (getsM files) (\<lambda>fs.
     bindM (liftE (foldE (lifecycle_path_step fs v) [''repository'', ''state_dir'', ''events_dir'', ''iso'', ''checksum'', ''keyring'',
        ''firmware_code'', ''firmware_vars''] ())) (\<lambda>_.
     requireM (pairwise_disjoint (map (\<lambda>key. path_comps (cfg v key)) [''repository'', ''state_dir'', ''events_dir'']))
       ''overlapping-lifecycle-paths'' 78 (
     bindM (statM (path_comps (cfg v ''state_dir''))) (\<lambda>n.
     requireM (node_mode n AND 63 = 9) ''lifecycle-state-mode-must-be-0711'' 78 (ret v))))))))))))))))"

definition identity_of :: "'x env \<Rightarrow> json \<Rightarrow> string" where
  "identity_of e policy = sha256 e (canonical policy)"

definition failure_context :: "'x driver \<Rightarrow> exn \<Rightarrow> json" where
  "failure_context dr x = JObj [(''type'', JStr (case x of Failure c r \<Rightarrow> ''Failure'' | OSError \<Rightarrow> ''OSError''
      | ValueError \<Rightarrow> ''ValueError'' | KeyError \<Rightarrow> ''KeyError'' | TypeError \<Rightarrow> ''TypeError''
      | AttributeError \<Rightarrow> ''AttributeError'' | TimeoutExpired \<Rightarrow> ''TimeoutExpired'' | _ \<Rightarrow> ''Exception'')),
    (''locations'', located dr x)]"

definition LAB_GRANT_FIELDS :: "string list" where
  "LAB_GRANT_FIELDS = [''schema'', ''binding'', ''run_id'', ''issued_at'', ''expires_at'']"

definition lab_window :: "'x env \<Rightarrow> json \<Rightarrow> string \<Rightarrow> ('x world, json) prog" where
  "lab_window e policy name =
     bindM (read_grant name) (\<lambda>grant.
     requireM (fields_are grant LAB_GRANT_FIELDS \<and> jget grant ''schema'' = JStr ''hermes-lifecycle-lab-window-v1'')
       ''invalid-lifecycle-lab-grant'' 78 (
     requireM (jget grant ''binding'' = JStr (identity_of e policy) \<and> sha (jget grant ''run_id''))
       ''lifecycle-lab-binding-mismatch'' 78 (
     bindM (getsM (clock e)) (\<lambda>now.
     requireM (grant_current grant now) ''expired-or-invalid-lifecycle-lab-window'' 78 (ret grant)))))"

section \<open>One lifecycle\<close>

definition active_lifecycle :: "'x env \<Rightarrow> json \<Rightarrow> path \<Rightarrow> ('x world, (path \<times> json) option) prog" where
  "active_lifecycle e policy root =
     (let pointer = root @ [''active.json''] in
      bindM (existsM pointer) (\<lambda>x.
      if \<not> x then ret None
      else bindM (read_protectedM pointer (Some 0)) (\<lambda>raw. bindM (liftE (decode raw)) (\<lambda>active.
        requireM (fields_are active [''run_id''] \<and> sha (jget active ''run_id'')) ''invalid-active-lifecycle'' 78 (
        bindM (getsM (\<lambda>w. owned_path (files w) (path_text (root @ [cfg active ''run_id''])) 0 True)) (\<lambda>r.
        bindM (liftE r) (\<lambda>directory.
        bindM (read_protectedM (directory @ [''lifecycle.json'']) (Some 0)) (\<lambda>c. bindM (liftE (decode c)) (\<lambda>state.
        bindM (liftE (andE (bindE (idx state ''run_id'') (\<lambda>v. Inr (py_eq v (jget active ''run_id''))))
           (field_is state ''binding'' (JStr (identity_of e policy))))) (\<lambda>same.
        requireM same ''lifecycle-policy-changed'' 78 (ret (Some (directory, state)))))))))))))"

definition is_terminal :: "json \<Rightarrow> bool res" where
  "is_terminal state = bindE (idx state ''stage'') (\<lambda>v. if hashable v then Inr (in_phases v TERMINAL) else Inl TypeError)"

definition life_save :: "path \<Rightarrow> (string \<times> json) list \<Rightarrow> (json, 'x, unit) process" where
  "life_save directory values = journal_save (directory @ [''lifecycle.json'']) values"

definition new_lifecycle :: "'x env \<Rightarrow> 'x driver \<Rightarrow> json \<Rightarrow> path \<Rightarrow> json option \<Rightarrow> string \<Rightarrow> ('x world, path \<times> json) prog" where
  "new_lifecycle e dr policy root grant slot =
     bindM (getsM (token dr)) (\<lambda>fresh_id.
     let run_id = (case grant of None \<Rightarrow> fresh_id | Some g \<Rightarrow> cfg g ''run_id''); directory = root @ [run_id];
         state = JObj ([(''schema'', JStr ''hermes-lifecycle-state-v1''), (''run_id'', JStr run_id),
           (''binding'', JStr (identity_of e policy)), (''slot'', JStr slot), (''stage'', JStr ''starting''),
           (''certified'', JBool False)] @ (case grant of None \<Rightarrow> [] | Some g \<Rightarrow> [(''lab_window'', g)])) in
     bindM (existsM directory) (\<lambda>x. bindM (is_linkM directory) (\<lambda>l.
     requireM (\<not> x \<and> \<not> l) ''lifecycle-lab-run-already-consumed'' 78 (
     bindM (mkdirM directory 457 False) (\<lambda>_.
     bindM (chmodM directory 457) (\<lambda>_.
     bindM (atomicM (directory @ [''lifecycle.json'']) (canonical state)) (\<lambda>_.
     bindM (atomicM (root @ [''active.json'']) (canonical (JObj [(''run_id'', JStr run_id)]))) (\<lambda>_.
     ret (directory, state)))))))))"

text \<open>The run up to the cleanup; the result tells whether it was deferred. A failure is recorded, not raised.\<close>

definition window_again :: "'x env \<Rightarrow> json \<Rightarrow> string option \<Rightarrow> (json, 'x, bool) process" where
  "window_again e policy grant_path =
     (case grant_path of
        None \<Rightarrow> bindM (outside (getsM (wall e))) (\<lambda>now. ret (maintenance_open now 1800))
      | Some name \<Rightarrow> bindM (outside (lab_window e policy name)) (\<lambda>grant.
          bindM recall (\<lambda>state. liftE (bindE (idx state ''lab_window'') (\<lambda>g. Inr (py_eq grant g))))))"

definition life_run :: "'x env \<Rightarrow> 'x driver \<Rightarrow> json \<Rightarrow> path \<Rightarrow> string option \<Rightarrow> (json, 'x, bool \<times> bool) process" where
  "life_run e dr policy directory grant_path =
     catchM
       (bindM (life_save directory [(''stage'', JStr ''provisioning'')]) (\<lambda>_.
        bindM (drv_prepare dr policy directory) (\<lambda>_.
        bindM (life_save directory [(''stage'', JStr ''enrolled'')]) (\<lambda>_.
        bindM (window_again e policy grant_path) (\<lambda>in_window.
        if \<not> in_window then ret (False, True)
        else
          bindM (life_save directory [(''stage'', JStr ''certifying'')]) (\<lambda>_.
          bindM (drv_certify dr policy directory) (\<lambda>_.
          bindM (life_save directory [(''certified'', JBool True)]) (\<lambda>_. ret (False, False)))))))))
       (\<lambda>x. bindM (life_save directory [(''failure'', JStr ''lifecycle-execution-failed''), (''failure_context'', failure_context dr x)])
          (\<lambda>_. ret (True, False)))"

definition life_clean :: "'x driver \<Rightarrow> json \<Rightarrow> path \<Rightarrow> (json, 'x, unit) process" where
  "life_clean dr policy directory =
     bindM (life_save directory [(''stage'', JStr ''cleaning'')]) (\<lambda>_.
     catchM (drv_cleanup dr policy directory)
       (\<lambda>x. bindM (life_save directory [(''stage'', JStr ''cleanup-failed''), (''cleanup_failure'', JStr ''lifecycle-cleanup-failed''),
            (''cleanup_context'', failure_context dr x)]) (\<lambda>_. raiseM (Failure 69 ''lifecycle-cleanup-failed''))))"

definition life_end :: "path \<Rightarrow> bool \<Rightarrow> bool \<Rightarrow> (json, 'x, json) process" where
  "life_end directory failed deferred =
     (let stage = (if failed then ''failed-cleaned'' else if deferred then ''deferred-cleaned'' else ''complete'') in
      bindM recall (\<lambda>state.
      bindM (liftE (if stage = ''complete'' then idx state ''certified'' else Inr (JBool True))) (\<lambda>certified.
      requireM (truthy certified) ''missing-lifecycle-certification'' 78 (
      bindM (life_save directory [(''stage'', JStr stage), (''cleanup_failure'', JNull)]) (\<lambda>_.
      if failed then raiseM (Failure 69 ''lifecycle-failed-and-cleaned'')
      else bindM recall (\<lambda>state.
        ret (JObj [(''ok'', JBool True), (''stage'', JStr stage), (''run_id'', jget state ''run_id''), (''release_signed'', JBool False)])))))))"

text \<open>A recovery keeps the failure that was recorded, and never turns an interrupted run into a pass.\<close>

definition life_recover :: "path \<Rightarrow> (json, 'x, bool) process" where
  "life_recover directory =
     bindM recall (\<lambda>state.
     let failed = (if truthy (jget state ''failure'') then jget state ''failure'' else JStr ''interrupted-lifecycle'') in
     bindM (life_save directory [(''failure'', failed)]) (\<lambda>_. ret True))"

definition life_body ::
    "'x env \<Rightarrow> 'x driver \<Rightarrow> json \<Rightarrow> path \<Rightarrow> bool \<Rightarrow> string option \<Rightarrow> (json, 'x, json) process" where
  "life_body e dr policy directory only_cleanup grant_path =
     bindM (if only_cleanup then bindM (life_recover directory) (\<lambda>f. ret (f, False))
            else life_run e dr policy directory grant_path) (\<lambda>(failed, deferred).
     bindM (life_clean dr policy directory) (\<lambda>_. life_end directory failed deferred))"

definition life_locked ::
    "'x env \<Rightarrow> 'x driver \<Rightarrow> json \<Rightarrow> path \<Rightarrow> bool \<Rightarrow> int \<Rightarrow> string \<Rightarrow> string option \<Rightarrow> ('x world, json) prog" where
  "life_locked e dr policy root only_cleanup now slot grant_path =
     bindM (active_lifecycle e policy root) (\<lambda>active.
     bindM (liftE (case active of None \<Rightarrow> Inr True | Some (_, state) \<Rightarrow> is_terminal state)) (\<lambda>terminal.
     if only_cleanup then
       (case active of
          Some (directory, state) \<Rightarrow>
            if terminal then ret (run_reply ''nothing-to-clean'')
            else inside state (life_body e dr policy directory True grant_path)
        | None \<Rightarrow> ret (run_reply ''nothing-to-clean''))
     else requireM terminal ''interrupted-lifecycle-needs-cleanup'' 75 (
       bindM (case grant_path of None \<Rightarrow> ret None | Some name \<Rightarrow> bindM (lab_window e policy name) (\<lambda>g. ret (Some g))) (\<lambda>grant.
       if grant = None \<and> \<not> maintenance_open now 1800 then ret (run_reply ''deferred'')
       else bindM (liftE (case active of None \<Rightarrow> Inr False
              | Some (_, state) \<Rightarrow> (case grant of
                  Some g \<Rightarrow> bindE (idx state ''run_id'') (\<lambda>v. Inr (py_eq v (jget g ''run_id'')))
                | None \<Rightarrow> bindE (idx state ''slot'') (\<lambda>v. Inr (py_eq v (JStr slot)))))) (\<lambda>finished.
         if finished then ret (run_reply ''slot-already-finished'')
         else bindM (new_lifecycle e dr policy root grant slot) (\<lambda>(directory, state).
           inside state (life_body e dr policy directory False grant_path)))))))"

definition lifecycle_execute :: "'x env \<Rightarrow> 'x driver \<Rightarrow> json \<Rightarrow> bool \<Rightarrow> string option \<Rightarrow> ('x world, json) prog" where
  "lifecycle_execute e dr policy only_cleanup grant_path =
     (let root = path_comps (cfg policy ''state_dir'') in
      bindM (getsM (wall e)) (\<lambda>now. bindM (getsM (today_slot dr)) (\<lambda>slot.
      lockM (root @ [''.lifecycle.lock'']) (life_locked e dr policy root only_cleanup now slot grant_path))))"

definition lifecycle_main :: "'x env \<Rightarrow> 'x driver \<Rightarrow> path \<Rightarrow> bool \<Rightarrow> string option \<Rightarrow> ('x world, json) prog" where
  "lifecycle_main e dr policy_path only_cleanup grant_path =
     bindM (lifecycle_load dr policy_path) (\<lambda>policy.
     bindM (catchM (lifecycle_execute e dr policy only_cleanup grant_path)
       (\<lambda>_. bindM (publish e (path_comps (cfg policy ''events_dir'')) ''action-required'' 69 None) (\<lambda>_.
          raiseM (Failure 69 ''lifecycle-needs-attention'')))) (\<lambda>result.
     bindM (if jget result ''stage'' = JStr ''complete''
            then bindM (publish e (path_comps (cfg policy ''events_dir'')) ''completed'' 0 (Some (cfg result ''run_id''))) (\<lambda>_. ret ())
            else ret ()) (\<lambda>_. ret result)))"

end
