(* ===== verification/ScheduleFacts.thy ===== *)
theory ScheduleFacts
  imports Schedule
begin

text \<open>
  Facts on the schedule: nothing but the certifier and the cleanup depends on the commands, and the
  certifier is only ever started while the journal on disk says that it runs.
\<close>

section \<open>What does not depend on the commands\<close>

lemma candidate_free: "candidate (e\<lparr>cmd := c\<rparr>) t config = candidate e t config"
  by (simp add: candidate_def frozen_file_def)

lemma frozen_free: "frozen (e\<lparr>cmd := c\<rparr>) t config jr = frozen e t config jr"
  by (simp add: frozen_def candidate_free)

lemma binding_free: "policy_binding (e\<lparr>cmd := c\<rparr>) policy config = policy_binding e policy config"
  by (simp add: policy_binding_def)

lemma window_free: "window_open (e\<lparr>cmd := c\<rparr>) policy config grant_path = window_open e policy config grant_path"
  by (simp add: window_open_def binding_free cong: if_cong option.case_cong)

lemma freeze_free: "freeze_step (e\<lparr>cmd := c\<rparr>) = freeze_step e"
  by (intro ext) (simp add: freeze_step_def Let_def cong: if_cong)

lemma prepare_free:
  "prepare (e\<lparr>cmd := c\<rparr>) t repository destination transaction uki ident rid model baseline =
   prepare e t repository destination transaction uki ident rid model baseline"
  by (simp add: prepare_def freeze_free)

lemma resume_free: "resume_journal (e\<lparr>cmd := c\<rparr>) t policy config p = resume_journal e t policy config p"
  by (simp add: resume_journal_def frozen_free binding_free)

lemma start_free: "start_journal (e\<lparr>cmd := c\<rparr>) t policy config p = start_journal e t policy config p"
  by (simp add: start_journal_def prepare_candidate_def prepare_free candidate_free binding_free)

lemma path_free: "child_path (e\<lparr>cmd := c\<rparr>) = child_path e"
  by (simp add: child_path_def)

lemmas free = candidate_free frozen_free binding_free window_free prepare_free resume_free start_free path_free

section \<open>The certifier runs on record\<close>

definition recorded_stage :: "fsys \<Rightarrow> path \<Rightarrow> string \<Rightarrow> bool" where
  "recorded_stage fs p stage \<longleftrightarrow> (\<exists>jr m u. fs p = Some (NFile (canonical jr) m u) \<and> jget jr ''stage'' = JStr stage)"

text \<open>The same commands, except that the certifier cannot be started unless the journal says that it runs.\<close>

definition on_record :: "'x env \<Rightarrow> 'x runner \<Rightarrow> json \<Rightarrow> path \<Rightarrow> 'x env" where
  "on_record e r policy p = e\<lparr>cmd := \<lambda>a d w.
     if a = child_args e r (cfg policy ''certifier_config'') False \<and> \<not> recorded_stage (files w) p ''certifying''
     then (Unavailable, w) else cmd e a d w\<rparr>"

lemma child_same:
  assumes "cleanup \<or> recorded_stage (files w) p ''certifying''"
  shows "child (on_record e r policy p) r (cfg policy ''certifier_config'') cleanup w = child e r (cfg policy ''certifier_config'') cleanup w"
proof -
  have a: "child_args (on_record e r policy p) r cn b = child_args e r cn b" for cn b
    by (simp add: child_args_def on_record_def)
  have c: "child_path (on_record e r policy p) = child_path e" by (simp add: on_record_def path_free)
  show ?thesis
    unfolding child_def a c
  proof (rule bind_cong [OF refl])
    fix x w' assume "child_path e w = (Inr x, w')"
    then have "w' = w" by (auto simp: child_path_def Let_def bindM_eq_iff existsM_Inr is_linkM_Inr split: if_splits)
    moreover have "child_args e r (cfg policy ''certifier_config'') True \<noteq> child_args e r (cfg policy ''certifier_config'') False"
      by (simp add: child_args_def)
    ultimately have "runM (cmd (on_record e r policy p)) (child_args e r (cfg policy ''certifier_config'') cleanup) None w' =
        runM (cmd e) (child_args e r (cfg policy ''certifier_config'') cleanup) None w'"
      using assms by (cases cleanup) (simp_all add: runM_def on_record_def)
    then show "bindM (runM (cmd (on_record e r policy p)) (child_args e r (cfg policy ''certifier_config'') cleanup) None)
          (\<lambda>out. liftE (child_result out)) w' =
        bindM (runM (cmd e) (child_args e r (cfg policy ''certifier_config'') cleanup) None) (\<lambda>out. liftE (child_result out)) w'"
      by (simp add: bindM_def)
  qed
qed

lemma cleanup_same: "schedule_cleanup (on_record e r policy p) r policy config = schedule_cleanup e r policy config"
  unfolding schedule_cleanup_def Let_def
  by (intro ext bind_cong refl) (simp add: bindM_def child_same)

lemma journal_saved:
  assumes "journal_save p values s = (Inr x, s')"
  shows "files (snd s') p = Some (NFile (canonical (merged (fst s) (JObj values))) 384 (euid (snd s)))"
    and "fst s' = merged (fst s) (JObj values)"
  using assms by (auto simp: journal_save_def bindM_eq_iff outside_Inr dest: atomicM_Inr)

lemma certify_same:
  "certify_prepared (on_record e r policy p) t r policy config grant_path p s = certify_prepared e t r policy config grant_path p s"
proof -
  have w: "window_open (on_record e r policy p) = window_open e"
    by (intro ext) (simp add: on_record_def window_free)
  have h: "sha256 (on_record e r policy p) = sha256 e" by (simp add: on_record_def)
  have f: "frozen (on_record e r policy p) = frozen e" by (intro ext) (simp add: on_record_def frozen_free)
  have r: "run_certifier (on_record e r policy p) t r policy config s2 = run_certifier e t r policy config s2"
    if "journal_save p [(''stage'', JStr ''certifying'')] s1 = (Inr x, s2)" for x s1 s2
  proof -
    have "recorded_stage (files (snd s2)) p ''certifying''"
      using journal_saved(1) [OF that] by (auto simp: recorded_stage_def merged_def update_def jget_jset)
    then have "child (on_record e r policy p) r (cfg policy ''certifier_config'') False (snd s2) =
        child e r (cfg policy ''certifier_config'') False (snd s2)" by (simp add: child_same)
    then show ?thesis by (simp add: run_certifier_def f catchM_def bindM_def outside_def)
  qed
  have c: "clean_after (on_record e r policy p) r policy config = clean_after e r policy config"
    by (intro ext) (simp add: clean_after_def cleanup_same)
  show ?thesis
    unfolding certify_prepared_def w h c
    by (intro bind_cong refl if_cong [THEN fun_cong]) (auto intro!: bind_cong r)
qed

lemma on_record_free:
  "window_open (on_record e r policy p) = window_open e" "resume_journal (on_record e r policy p) = resume_journal e"
  "start_journal (on_record e r policy p) = start_journal e"
  by (intro ext; simp add: on_record_def free)+

lemma locked_same:
  "schedule_locked (on_record e r policy p) t r policy config prepare_only grant_path p =
   schedule_locked e t r policy config prepare_only grant_path p"
  unfolding schedule_locked_def on_record_free
  by (intro ext bind_cong refl) (simp add: certify_same)

text \<open>
  C29 (certification on record): the certifier is only ever started while the journal on disk says that it
  runs. Whatever the policy, the stage, the window and the commands are, the schedule does exactly what
  it would do if starting the certifier without such a journal were impossible.
\<close>

theorem schedule_certifies_on_record:
  "schedule_execute (on_record e r policy (path_comps (cfg policy ''state_dir'') @ [''schedule.json''])) t r policy config
     prepare_only only_cleanup grant_path =
   schedule_execute e t r policy config prepare_only only_cleanup grant_path"
  unfolding schedule_execute_def Let_def cleanup_same on_record_free locked_same ..

end
