(* ===== verification/SigningFacts.thy ===== *)
theory SigningFacts
  imports Signing
begin

text \<open>
  Facts on the signing service: what the evidence must look like, that an archive once signed is never
  written again, and that what is published has passed the release verification.
\<close>

section \<open>Evidence\<close>

definition record_in_time :: "int \<Rightarrow> json \<Rightarrow> bool" where
  "record_in_time now v \<longleftrightarrow> is_int (jget v ''completed_at'') \<and> now - 86400 \<le> int_of (jget v ''completed_at'') \<and>
     int_of (jget v ''completed_at'') \<le> now \<and> run_id_ok (jget v ''run_id'')"

definition gather_run :: "string list \<Rightarrow> json \<Rightarrow> string list" where
  "gather_run us v = (if str_of (jget v ''run_id'') \<in> set us then us else us @ [str_of (jget v ''run_id'')])"

lemma evidence_step:
  "evidence_times now (g, v) (ts, us) = Inr r \<longleftrightarrow>
     record_in_time now v \<and> r = (ts @ [(g, int_of (jget v ''completed_at''))], gather_run us v)"
  by (auto simp: evidence_times_def Let_def record_in_time_def gather_run_def)

lemma evidence_steps:
  "foldE (evidence_times now) rs (ts, us) = Inr r \<longleftrightarrow>
     (\<forall>gv \<in> set rs. record_in_time now (snd gv)) \<and>
     r = (ts @ map (\<lambda>(g, v). (g, int_of (jget v ''completed_at''))) rs, foldl gather_run us (map snd rs))"
  by (induction rs arbitrary: ts us) (auto simp: evidence_step bindE_Inr_iff)

lemma gathered:
  "set (foldl gather_run us vs) = set us \<union> (\<lambda>v. str_of (jget v ''run_id'')) ` set vs"
  "distinct us \<Longrightarrow> distinct (foldl gather_run us vs)"
  by (induction vs arbitrary: us) (auto simp: gather_run_def)

lemma one_element: "distinct xs \<Longrightarrow> length xs = 1 \<longleftrightarrow> (\<exists>x. set xs = {x})"
proof
  assume d: "distinct xs" and "\<exists>x. set xs = {x}"
  then obtain x where "set xs = {x}" by blast
  with distinct_card [OF d] show "length xs = 1" by simp
qed (auto simp: length_Suc_conv)

lemma image_single: "a \<in> A \<Longrightarrow> (\<exists>x. f ` A = {x}) \<longleftrightarrow> (\<exists>x. \<forall>g \<in> A. f g = x)"
  by auto

lemma run_of_gates:
  assumes "a \<in> A"
  shows "(\<forall>g \<in> A. D g) \<and> (\<forall>g \<in> A. record_in_time now (f g)) \<and> (\<exists>run. \<forall>g \<in> A. str_of (jget (f g) ''run_id'') = run) \<and>
      (\<forall>g \<in> A. L g) \<and> R \<longleftrightarrow>
    (\<exists>run. run_id_ok (JStr run) \<and> (\<forall>g \<in> A. D g \<and> record_in_time now (f g) \<and> jget (f g) ''run_id'' = JStr run \<and> L g)) \<and> R"
  (is "?a \<longleftrightarrow> ?b")
proof
  assume l: ?a
  then obtain run where r: "\<forall>g \<in> A. str_of (jget (f g) ''run_id'') = run" by blast
  have "jget (f g) ''run_id'' = JStr run \<and> run_id_ok (JStr run)" if "g \<in> A" for g
    using l r that by (cases "jget (f g) ''run_id''") (auto simp: record_in_time_def run_id_ok_def)
  with l assms show ?b by blast
next
  assume ?b
  then show ?a by fastforce
qed

text \<open>
  C22 (the evidence that may be signed): the records of a run pass exactly when there is one object for
  every gate and no other, each completed within the last day and not in the future, all of one run,
  with the destruction of the machine last of all and the revocation of the credential not before the
  inference.
\<close>

theorem validate_evidence_iff:
  assumes "distinct (keys_of records)"
  shows "validate_evidence records now = Inr () \<longleftrightarrow>
    is_dict records \<and> set (keys_of records) = set GATES \<and>
    (\<exists>run. run_id_ok (JStr run) \<and> (\<forall>gate \<in> set GATES. let v = jget records gate; t = int_of (jget v ''completed_at'') in
       is_dict v \<and> is_int (jget v ''completed_at'') \<and> now - 86400 \<le> t \<and> t \<le> now \<and> jget v ''run_id'' = JStr run \<and>
       t \<le> int_of (jget (jget records ''vm_destroyed'') ''completed_at''))) \<and>
    int_of (jget (jget records ''inference'') ''completed_at'') \<le> int_of (jget (jget records ''credential_revocation'') ''completed_at'')"
proof -
  let ?rs = "items_of records"
  let ?c = "\<lambda>g. int_of (jget (jget records g) ''completed_at'')"
  let ?run = "\<lambda>g. str_of (jget (jget records g) ''run_id'')"
  let ?times = "map (\<lambda>(g, v). (g, int_of (jget v ''completed_at''))) ?rs"
  show ?thesis
  proof (cases "is_dict records \<and> set (keys_of records) = set GATES")
    case False
    then show ?thesis by (auto simp: validate_evidence_def same_set_iff)
  next
    case True
    have dist: "distinct (map fst ?rs)" using assms by (simp add: keys_of_def)
    have gk: "g \<in> set GATES \<longleftrightarrow> map_of ?rs g \<noteq> None" for g
      using True by (simp add: map_of_eq_None_iff keys_of_def)
    have get: "(g, v) \<in> set ?rs \<longleftrightarrow> g \<in> set GATES \<and> v = jget records g" for g v
      unfolding gk map_of_eq_Some_iff [OF dist, symmetric] jget_def by (auto split: option.splits)
    have all: "(\<forall>gv \<in> set ?rs. P (snd gv)) \<longleftrightarrow> (\<forall>g \<in> set GATES. P (jget records g))" for P
      using get by force
    have vals: "f ` snd ` set ?rs = (\<lambda>g. f (jget records g)) ` set GATES" for f
      using get by (force simp: image_iff)
    have tm: "map_of ?times g = Some (?c g)" if "g \<in> set GATES" for g
    proof (rule map_of_is_SomeI)
      show "distinct (map fst ?times)" using assms by (simp add: keys_of_def comp_def case_prod_beta)
      show "(g, ?c g) \<in> set ?times" using that get by force
    qed
    have mx: "set (map snd ?times) = ?c ` set GATES"
      using vals [of "\<lambda>v. int_of (jget v ''completed_at'')"] by (simp add: image_image case_prod_beta comp_def)
    let ?us = "foldl gather_run [] (map snd ?rs)"
    have us: "set ?us = ?run ` set GATES" using vals [of "\<lambda>v. str_of (jget v ''run_id'')"] by (simp add: gathered)
    have g: "''vm_destroyed'' \<in> set GATES" "''inference'' \<in> set GATES" "''credential_revocation'' \<in> set GATES" by code_simp+
    have one: "length ?us = 1 \<longleftrightarrow> (\<exists>run. \<forall>g \<in> set GATES. ?run g = run)"
    proof -
      have d: "distinct ?us" by (rule gathered(2)) simp
      show ?thesis unfolding one_element [OF d] us by (rule image_single [OF g(1)])
    qed
    have last: "?c ''vm_destroyed'' = Max (?c ` set GATES) \<longleftrightarrow> (\<forall>g \<in> set GATES. ?c g \<le> ?c ''vm_destroyed'')"
    proof
      assume "?c ''vm_destroyed'' = Max (?c ` set GATES)"
      then show "\<forall>g \<in> set GATES. ?c g \<le> ?c ''vm_destroyed''" by simp
    next
      assume "\<forall>g \<in> set GATES. ?c g \<le> ?c ''vm_destroyed''"
      then show "?c ''vm_destroyed'' = Max (?c ` set GATES)" using g(1) by (intro Max_eqI [symmetric]) auto
    qed
    have "validate_evidence records now = Inr () \<longleftrightarrow> (\<forall>gv \<in> set ?rs. is_dict (snd gv)) \<and>
        (\<forall>gv \<in> set ?rs. record_in_time now (snd gv)) \<and> length ?us = 1 \<and>
        the (map_of ?times ''vm_destroyed'') = Max (set (map snd ?times)) \<and>
        the (map_of ?times ''inference'') \<le> the (map_of ?times ''credential_revocation'')"
      using True by (simp add: validate_evidence_def same_set_iff bindE_Inr_iff evidence_steps list_all_iff case_prod_beta Let_def image_image)
    also have "\<dots> \<longleftrightarrow> (\<forall>g \<in> set GATES. is_dict (jget records g)) \<and>
        (\<forall>g \<in> set GATES. record_in_time now (jget records g)) \<and> (\<exists>run. \<forall>g \<in> set GATES. ?run g = run) \<and>
        (\<forall>g \<in> set GATES. ?c g \<le> ?c ''vm_destroyed'') \<and> ?c ''inference'' \<le> ?c ''credential_revocation''"
      by (simp only: all one last tm [OF g(1)] tm [OF g(2)] tm [OF g(3)] mx option.sel)
    also have "\<dots> \<longleftrightarrow> (\<exists>run. run_id_ok (JStr run) \<and> (\<forall>g \<in> set GATES. is_dict (jget records g) \<and>
        record_in_time now (jget records g) \<and> jget (jget records g) ''run_id'' = JStr run \<and> ?c g \<le> ?c ''vm_destroyed'')) \<and>
        ?c ''inference'' \<le> ?c ''credential_revocation''"
      by (rule run_of_gates [OF g(1)])
    finally show ?thesis using True by (auto simp: record_in_time_def Let_def)
  qed
qed

section \<open>What signing leaves alone\<close>

text \<open>No command touches the path \<open>q\<close>, and the verification of a signature only reads.\<close>

definition spares :: "'x env \<Rightarrow> path \<Rightarrow> bool" where
  "spares e q \<longleftrightarrow> (\<forall>a d w. files (snd (cmd e a d w)) q = files w q) \<and>
     (\<forall>signers sig raw w. files (snd (cmd e (verify_args signers sig) raw w)) = files w)"

lemma keeps_bytes: "p \<noteq> q \<Longrightarrow> keeps_file q (write_bytesM p c)" "p \<noteq> q \<Longrightarrow> keeps_file q (copyfileM s p)"
proof -
  show k: "keeps_file q (write_bytesM p c)" if "p \<noteq> q" for c
    using that by (auto simp: moves_def write_bytesM_def split: option.splits node.splits)
  show "keeps_file q (copyfileM s p)" if "p \<noteq> q"
    unfolding copyfileM_def by (intro keeps.moves_bind keeps_reads k that)
qed

lemma keeps_links:
  "dst \<noteq> q \<Longrightarrow> keeps_file q (linkM src dst)"
  "src \<noteq> q \<Longrightarrow> dst \<noteq> q \<Longrightarrow> keeps_file q (replaceM src dst)"
  by (auto simp: moves_def linkM_def replaceM_def split: option.splits node.splits)

lemma keeps_command: "spares e q \<Longrightarrow> keeps_file q (runM (cmd e) a d)"
  by (simp add: moves_def snd_runM spares_def)

lemma keeps_temporary:
  assumes "\<And>x. \<not> is_prefix (d @ [pre @ x]) q" and "\<And>x. keeps_file q (body (d @ [pre @ x]))"
  shows "keeps_file q (temporaryM e d pre body)"
proof -
  have r: "keeps_file q (remove_dir (d @ [pre @ x]))" for x
    using assms(1) by (simp add: moves_def remove_dir_def modifyM_def)
  have "d @ [pre @ x] \<noteq> q" for x using assms(1) [of x] by (auto simp: is_prefix_def)
  then show ?thesis
    unfolding temporaryM_def by (intro moves_gets keeps.moves_bind keeps.moves_finally keeps_writes r assms(2))
qed

lemma moves_guarded: "R s s \<Longrightarrow> (\<And>s. moves R (m s)) \<Longrightarrow> (\<And>s. R s s) \<Longrightarrow> moves R (\<lambda>s. if c s then (r s, s) else m s s)"
  by (simp add: moves_def)

lemma keeps_unpack:
  assumes "spares e q" and "\<not> is_prefix dest q"
  shows "keeps_file q (unpack h t (cmd e) sp src dest signers sn host now bd owner)"
proof -
  have i: "keeps_file q (modifyM (\<lambda>w. w\<lparr>files := install_tree (euid w) dest tr (files w)\<rparr>))" for tr
    using assms(2) by (auto simp: moves_def modifyM_def install_tree_def is_prefix_def)
  show ?thesis
    unfolding unpack_def [abs_def] Let_def
    by (rule moves_guarded)
      (simp, intro keeps.moves_bind keeps.moves_require keeps.moves_pure keeps.moves_prod keeps_command [OF assms(1)] i, simp)
qed

text \<open>The bytes of an archive that the verification of a release accepts.\<close>

definition accepted :: "'x env \<Rightarrow> path \<Rightarrow> string \<Rightarrow> bool" where
  "accepted e signers c \<longleftrightarrow> (\<exists>archive listing mj sig out w w' sp now host manifest fingerprint t.
     tar e c = Some archive \<and> members archive = Inr listing \<and> lookup listing ''manifest.json'' = Some mj \<and>
     cmd e (verify_args (path_text signers) sp) (Some (mdata mj)) w = (Exited 0 out, w') \<and>
     open_payload (sha256 e) listing (mdata mj) sig now host None = Inr (manifest, fingerprint, t))"

lemma copy_source_one: "copy_source [c] = Inr x \<longleftrightarrow> x = c \<and> (c = [] \<or> int (length c) \<le> MAX_ARCHIVE)"
  by (auto simp: copy_source_def copy_step_def bindE_Inr_iff)

lemma unpack_accepted:
  assumes "spares e q"
    and "unpack (sha256 e) (tar e) (cmd e) sp [c] dest signers (path_text signers) host now None owner w = (Inr x, w')"
  shows "accepted e signers c" and "\<exists>t u. files w' = install_tree u dest t (files w)"
proof -
  have f: "files w2 = files w1" if "cmd e (verify_args s p) r w1 = (oc, w2)" for s p r w1 oc w2
    using assms(1) that unfolding spares_def by (metis snd_conv)
  show "accepted e signers c"
    using assms(2) unfolding accepted_def
    by (auto simp: unpack_def Let_def bindM_eq_iff requireM_eq_iff runM_Inr copy_source_one split: if_splits option.splits)
      blast+
  show "\<exists>t u. files w' = install_tree u dest t (files w)"
    using assms(2)
    by (auto simp: unpack_def Let_def bindM_eq_iff requireM_eq_iff runM_Inr modifyM_def split: if_splits dest!: f) blast
qed

text \<open>The last steps of the packaging, from the written archive on.\<close>

definition publish_bytes :: "'x env \<Rightarrow> path \<Rightarrow> path \<Rightarrow> json \<Rightarrow> path \<Rightarrow> ('x world, unit) prog" where
  "publish_bytes e output signers manifest d =
     (let archive = d @ [''release.tar''] in
      bindM (readM archive) (\<lambda>stream.
      bindM (getsM (clock e)) (\<lambda>now.
      bindM (unpack (sha256 e) (tar e) (cmd e) (path_text (d @ [''.verify'', ''signature''])) [stream]
          (d @ [''verified'']) signers (path_text signers) (Some (jget manifest ''host'')) now None None) (\<lambda>_.
      bindM (chmodM archive 384) (\<lambda>_. linkM archive output)))))"

lemma package_parts:
  "package e t src output key signers manifest d =
     bindM (write_bytesM (d @ [''manifest.json'']) (canonical manifest)) (\<lambda>_.
     bindM (runM (cmd e) (sign_args key (d @ [''manifest.json''])) None) (\<lambda>_.
     bindM (getsM files) (\<lambda>fs.
     bindM (liftE (archive_members fs d src manifest)) (\<lambda>ms.
     bindM (write_bytesM (d @ [''release.tar'']) (pack t ms)) (\<lambda>_. publish_bytes e output signers manifest d)))))"
  by (simp add: package_def publish_bytes_def Let_def)

lemma publish_bytes_run:
  assumes "spares e q" and "\<not> is_prefix d q" and "files w (d @ [''release.tar'']) = Some (NFile c m u)"
    and "publish_bytes e output signers manifest d w = (r, w')"
  shows "q \<noteq> output \<Longrightarrow> files w' q = files w q"
    and "r = Inr () \<Longrightarrow> files w' output = Some (NFile c 384 u) \<and> accepted e signers c"
proof -
  let ?a = "d @ [''release.tar'']"
  let ?dest = "d @ [''verified'']"
  let ?u = "unpack (sha256 e) (tar e) (cmd e) (path_text (d @ [''.verify'', ''signature''])) [c]
          ?dest signers (path_text signers) (Some (jget manifest ''host'')) (clock e w) None None"
  have n: "\<not> is_prefix ?dest q" using assms(2) by (auto simp: is_prefix_iff)
  have aq: "?a \<noteq> q" using assms(2) by (auto simp: is_prefix_iff)
  obtain y w1 where uw: "?u w = (y, w1)" by (metis surj_pair)
  have k: "files w1 q = files w q" by (rule movesD [OF keeps_unpack [OF assms(1) n] uw])
  have p: "publish_bytes e output signers manifest d w =
      (case y of Inl x \<Rightarrow> (Inl x, w1) | Inr z \<Rightarrow> bindM (chmodM ?a 384) (\<lambda>_. linkM ?a output) w1)"
    by (simp add: publish_bytes_def Let_def bindM_def readM_def getsM_def read_bytes_file [of "files w", OF assms(3)] uw)
  have z: "files w1 ?a = Some (NFile c m u)" if "y = Inr z" for z
  proof -
    have "?u w = (Inr z, w1)" using uw that by simp
    from unpack_accepted(2) [OF assms(1) this] obtain t v where "files w1 = install_tree v ?dest t (files w)" by blast
    then show ?thesis using assms(3) by (simp add: install_tree_def is_prefix_def)
  qed
  have l: "bindM (chmodM ?a 384) (\<lambda>_. linkM ?a output) w1 = linkM ?a output (set_files ((files w1)(?a \<mapsto> NFile c 384 u)) w1)"
    if "y = Inr z" for z
    by (simp add: bindM_def chmodM_file [OF z [OF that]])
  show "files w' q = files w q" if "q \<noteq> output"
  proof (cases y)
    case (Inl x)
    with assms(4) p k show ?thesis by simp
  next
    case (Inr z)
    define w2 where "w2 = set_files ((files w1)(?a \<mapsto> NFile c 384 u)) w1"
    have "linkM ?a output w2 = (r, w')" using assms(4) p l [OF Inr] Inr by (simp add: w2_def)
    from movesD [OF keeps_links(1) [OF that [symmetric]] this] have "files w' q = files w2 q" .
    also have "\<dots> = files w1 q" using aq by (simp add: w2_def)
    finally show ?thesis using k by simp
  qed
  show "files w' output = Some (NFile c 384 u) \<and> accepted e signers c" if "r = Inr ()"
  proof (cases y)
    case (Inl x)
    with assms(4) p that show ?thesis by simp
  next
    case (Inr z)
    have "linkM ?a output (set_files ((files w1)(?a \<mapsto> NFile c 384 u)) w1) = (Inr (), w')"
      using assms(4) p l [OF Inr] Inr that by simp
    then have "files w' output = Some (NFile c 384 u)" by (simp add: linkM_def split: if_splits) auto
    moreover have "?u w = (Inr z, w1)" using uw Inr by simp
    ultimately show ?thesis using unpack_accepted(1) [OF assms(1)] by simp
  qed
qed

text \<open>\<open>d\<close> and \<open>q\<close> are neither above nor below each other.\<close>

definition apart :: "path \<Rightarrow> path \<Rightarrow> bool" where
  "apart d q \<longleftrightarrow> \<not> is_prefix d q \<and> \<not> is_prefix q d"

lemma apart_below:
  assumes "apart d q"
  shows "d @ r \<noteq> q" "q \<notin> set (prefixes (butlast (d @ r)))" "apart (d @ r) q"
proof -
  have b: "\<not> (\<exists>t. q = d @ t)" "\<not> (\<exists>t. d = q @ t)" using assms by (auto simp: apart_def is_prefix_iff)
  show "d @ r \<noteq> q" using b(1) by blast
  have x: "\<not> (\<exists>t. d @ r = q @ t)" for r
    using b by (auto simp: append_eq_append_conv2)
  then show "apart (d @ r) q" using b(1) by (auto simp: apart_def is_prefix_iff)
  show "q \<notin> set (prefixes (butlast (d @ r)))"
  proof
    assume "q \<in> set (prefixes (butlast (d @ r)))"
    then obtain n where "q = take n (butlast (d @ r))" by (auto simp: prefixes_def simp del: upt_Suc)
    then have "butlast (d @ r) = q @ drop n (butlast (d @ r))" by simp
    then obtain t where "d @ r = q @ t" by (metis append_assoc append_butlast_last_id append_self_conv2 butlast.simps(1) append_Nil2 x)
    with x show False by blast
  qed
qed

lemma write_bytes_Inr: "write_bytesM p c w = (Inr u, w') \<Longrightarrow> \<exists>m v. files w' p = Some (NFile c m v)"
  by (auto simp: write_bytesM_def split: option.splits node.splits if_splits)

lemma keeps_copy_chmod:
  assumes "p \<noteq> q"
  shows "keeps_file q (bindM (copyfileM s p) (\<lambda>_. chmodM p m))"
proof (rule movesI)
  fix w r w' assume b: "bindM (copyfileM s p) (\<lambda>_. chmodM p m) w = (r, w')"
  obtain x w1 where c: "copyfileM s p w = (x, w1)" by (metis surj_pair)
  have k: "files w1 q = files w q" by (rule movesD [OF keeps_bytes(2) [OF assms] c])
  show "files w' q = files w q"
  proof (cases x)
    case (Inl y)
    with b c k show ?thesis by (simp add: bindM_def)
  next
    case (Inr y)
    with c obtain c2 m2 v where "files w1 p = Some (NFile c2 m2 v)"
      by (auto simp: copyfileM_def bindM_eq_iff dest!: write_bytes_Inr)
    with b c Inr k assms show ?thesis by (auto simp: bindM_def chmodM_file)
  qed
qed

text \<open>
  A program that leaves \<open>q\<close> alone, unless that is the archive it makes, and that when it returns has made
  an archive that the verification accepts.
\<close>

definition sealing :: "'x env \<Rightarrow> path \<Rightarrow> path \<Rightarrow> path \<Rightarrow> ('x world, 'a) prog \<Rightarrow> bool" where
  "sealing e signers output q m \<longleftrightarrow> (\<forall>w r w'. m w = (r, w') \<longrightarrow>
     (q \<noteq> output \<longrightarrow> files w' q = files w q) \<and>
     (\<forall>x. r = Inr x \<longrightarrow> (\<exists>c u. files w' output = Some (NFile c 384 u) \<and> accepted e signers c)))"

lemma sealing_bind:
  assumes "keeps_file q m" and "\<And>x. sealing e signers output q (k x)"
  shows "sealing e signers output q (bindM m k)"
  unfolding sealing_def
proof (intro allI impI)
  fix w r w' assume b: "bindM m k w = (r, w')"
  obtain x w1 where c: "m w = (x, w1)" by (metis surj_pair)
  have k: "files w1 q = files w q" by (rule movesD [OF assms(1) c])
  show "(q \<noteq> output \<longrightarrow> files w' q = files w q) \<and>
     (\<forall>x. r = Inr x \<longrightarrow> (\<exists>c u. files w' output = Some (NFile c 384 u) \<and> accepted e signers c))"
    using b c k assms(2) unfolding sealing_def by (cases x) (auto simp: bindM_def)
qed

lemma sealing_require: "sealing e signers output q m \<Longrightarrow> sealing e signers output q (requireM c r n m)"
  by (simp add: sealing_def requireM_def raiseM_def)

lemma sealing_gets: "(\<And>w. sealing e signers output q (k (g w))) \<Longrightarrow> sealing e signers output q (bindM (getsM g) k)"
  by (simp add: sealing_def bindM_def getsM_def)

lemma sealing_lift: "(\<And>x. sealing e signers output q (k x)) \<Longrightarrow> sealing e signers output q (bindM (liftE y) k)"
  by (intro sealing_bind) (auto simp: moves_def liftE_def)

lemma sealing_after:
  assumes "sealing e signers output q m" and "\<And>x w. files (snd (k x w)) = files w"
  shows "sealing e signers output q (bindM m k)"
  unfolding sealing_def
proof (intro allI impI)
  fix w r w' assume b: "bindM m k w = (r, w')"
  obtain x w1 where c: "m w = (x, w1)" by (metis surj_pair)
  have "files w' = files w1" using b c assms(2) by (cases x) (auto simp: bindM_def, metis snd_conv)
  with b c show "(q \<noteq> output \<longrightarrow> files w' q = files w q) \<and>
     (\<forall>x. r = Inr x \<longrightarrow> (\<exists>c u. files w' output = Some (NFile c 384 u) \<and> accepted e signers c))"
    using assms(1) unfolding sealing_def by (cases x) (auto simp: bindM_def)
qed

lemma sealing_temporary:
  assumes "\<And>x. \<not> is_prefix (d @ [pre @ x]) q" and "\<And>x. \<not> is_prefix (d @ [pre @ x]) output"
    and "\<And>x. sealing e signers output q (body (d @ [pre @ x]))"
  shows "sealing e signers output q (temporaryM e d pre body)"
proof -
  have "sealing e signers output q (finallyM (body (d @ [pre @ x])) (remove_dir (d @ [pre @ x])))" for x
    using assms(3) [of x] assms(1,2) [of x] unfolding sealing_def
    by (auto simp: finallyM_def remove_dir_def modifyM_def split: prod.splits)
  moreover have "d @ [pre @ x] \<noteq> q" for x using assms(1) [of x] by (auto simp: is_prefix_def)
  ultimately show ?thesis
    unfolding temporaryM_def by (intro sealing_gets sealing_bind keeps_writes)
qed

section \<open>Signing\<close>

lemma sealing_package:
  assumes "spares e q" and "apart d q" and "apart d output"
  shows "sealing e signers output q (package e t src output key signers manifest d)"
proof -
  have tail: "sealing e signers output q
      (bindM (write_bytesM (d @ [''release.tar'']) (pack t x)) (\<lambda>_. publish_bytes e output signers manifest d))" for x
    unfolding sealing_def
  proof (intro allI impI)
    fix w r w' assume b: "bindM (write_bytesM (d @ [''release.tar'']) (pack t x)) (\<lambda>_. publish_bytes e output signers manifest d) w = (r, w')"
    obtain y w1 where c: "write_bytesM (d @ [''release.tar'']) (pack t x) w = (y, w1)" by (metis surj_pair)
    have k: "files w1 q = files w q" by (rule movesD [OF keeps_bytes(1) [OF apart_below(1) [OF assms(2)]] c])
    show "(q \<noteq> output \<longrightarrow> files w' q = files w q) \<and>
       (\<forall>x. r = Inr x \<longrightarrow> (\<exists>c u. files w' output = Some (NFile c 384 u) \<and> accepted e signers c))"
    proof (cases y)
      case (Inl z)
      with b c k show ?thesis by (auto simp: bindM_def)
    next
      case (Inr z)
      with c obtain m v where "files w1 (d @ [''release.tar'']) = Some (NFile (pack t x) m v)"
        by (auto dest: write_bytes_Inr)
      moreover have "publish_bytes e output signers manifest d w1 = (r, w')" using b c Inr by (simp add: bindM_def)
      moreover have "\<not> is_prefix d q" using assms(2) by (simp add: apart_def)
      ultimately have "q \<noteq> output \<longrightarrow> files w' q = files w1 q"
        "r = Inr () \<longrightarrow> files w' output = Some (NFile (pack t x) 384 v) \<and> accepted e signers (pack t x)"
        using publish_bytes_run [OF assms(1)] by blast+
      with k show ?thesis by auto
    qed
  qed
  show ?thesis
    unfolding package_parts
    by (rule sealing_bind [OF keeps_bytes(1) [OF apart_below(1) [OF assms(2)]]],
        rule sealing_bind [OF keeps_command [OF assms(1)]], rule sealing_gets, rule sealing_lift, rule tail)
qed

lemma files_reads: "files (snd (digestM h p w)) = files w" "files (snd (ret x w)) = files w"
  by (auto simp: digestM_def ret_def split: sum.splits)

lemma sealing_build:
  assumes "spares e q" and "\<And>x. apart (butlast output @ [''.release-'' @ x]) q"
    and "\<And>x. apart (butlast output @ [''.release-'' @ x]) output"
  shows "sealing e signers output q (build e t src output key signers)"
proof -
  have n: "\<not> is_prefix (butlast output @ [''.release-'' @ x]) q" "\<not> is_prefix (butlast output @ [''.release-'' @ x]) output" for x
    using assms(2,3) [of x] by (simp_all add: apart_def)
  have f: "files (snd (bindM (digestM (sha256 e) output) (\<lambda>d. ret (v d)) w)) = files w" for v w
    by (auto simp: bindM_def digestM_def ret_def split: sum.splits)
  show ?thesis
    unfolding build_def
    by (intro sealing_bind [OF keeps_reads(2)] sealing_bind [OF keeps_reads(4)] sealing_bind [OF keeps_reads(6)]
        sealing_require sealing_gets sealing_lift sealing_after sealing_temporary sealing_package assms n f)
qed

lemma keeps_complete:
  assumes "apart completed q"
  shows "keeps_file q (complete_file candidate completed nr)"
  using apart_below [OF assms, of "path_comps (fst nr)"]
  by (auto simp: complete_file_def Let_def case_prod_beta intro!: keeps.moves_bind [OF keeps_mkdir_all] keeps_copy_chmod)

lemma keeps_foldM:
  "(\<And>x b. x \<in> set xs \<Longrightarrow> keeps_file q (f x b)) \<Longrightarrow> keeps_file q (foldM xs b f)"
  by (rule keeps.moves_foldM)

lemma keeps_gate:
  assumes "apart completed q"
  shows "keeps_file q (complete_gate e evidence completed fingerprint gn manifest)"
  using apart_below [OF assms, of "path_comps (str_of (snd gn))"]
  by (auto simp: complete_gate_def Let_def case_prod_beta intro!: keeps_mkdir_all keeps_writes)

text \<open>The temporary directories lie beside \<open>q\<close> and beside the archive.\<close>

definition beside :: "path \<Rightarrow> path \<Rightarrow> path \<Rightarrow> bool" where
  "beside d output q \<longleftrightarrow> (\<forall>x. apart (d @ [''.completed-'' @ x]) q \<and> apart (d @ [''.completed-'' @ x]) output \<and>
     apart (d @ [''.release-'' @ x]) q \<and> apart (d @ [''.release-'' @ x]) output \<and>
     apart (d @ [''.handoff-'' @ x]) q \<and> apart (d @ [''.handoff-'' @ x]) output)"

lemma sealing_finalize:
  assumes "spares e q" and "beside (butlast output) output q"
  shows "sealing e signers output q (finalize e t candidate evidence output key signers)"
proof -
  have a: "apart (butlast output @ [''.completed-'' @ x]) q" "apart (butlast output @ [''.completed-'' @ x]) output"
    "apart (butlast output @ [''.release-'' @ x]) q" "apart (butlast output @ [''.release-'' @ x]) output" for x
    by (rule assms(2) [unfolded beside_def, THEN spec, THEN conjunct1],
        rule assms(2) [unfolded beside_def, THEN spec, THEN conjunct2, THEN conjunct1],
        rule assms(2) [unfolded beside_def, THEN spec, THEN conjunct2, THEN conjunct2, THEN conjunct1],
        rule assms(2) [unfolded beside_def, THEN spec, THEN conjunct2, THEN conjunct2, THEN conjunct2, THEN conjunct1])
  have n: "\<not> is_prefix (butlast output @ [''.completed-'' @ x]) q" "\<not> is_prefix (butlast output @ [''.completed-'' @ x]) output" for x
    by (rule a(1) [unfolded apart_def, THEN conjunct1], rule a(2) [unfolded apart_def, THEN conjunct1])
  show ?thesis
    unfolding finalize_def Let_def
    by (intro sealing_bind [OF keeps_reads(6)] sealing_gets sealing_lift sealing_temporary n
        sealing_bind [OF keeps.moves_forM [OF keeps_complete [OF a(1)]]] sealing_bind [OF keeps_foldM [OF keeps_gate [OF a(1)]]]
        sealing_bind [OF keeps_writes(3) [OF apart_below(1) [OF a(1)]]] sealing_build assms(1) a)
qed

lemma keeps_freeze:
  assumes "apart frozen q"
  shows "keeps_file q (freeze_file candidate frozen owner nr)"
proof -
  have k: "keeps_file q (copy_owned s p o' l)" if "p \<noteq> q" for s p o' l
    using that unfolding copy_owned_def by (intro moves_gets keeps.moves_bind keeps.moves_pure keeps.moves_require keeps_writes keeps_bytes)
  show ?thesis
    unfolding freeze_file_def Let_def case_prod_beta
    by (intro keeps.moves_bind keeps_mkdir_all k apart_below [OF assms])
qed

lemma sealing_hand_off:
  assumes "spares e q" and "beside (butlast output) output q" and "apart d q"
  shows "sealing e signers output q (hand_off e t candidate owner craw manifest eraw output key signers d)"
proof -
  have f: "apart (d @ r) q" for r by (rule apart_below(3) [OF assms(3)])
  have n: "(d @ r) @ r' \<noteq> q" for r r' by (rule apart_below(1) [OF f])
  have g: "keeps_file q (forM xs (\<lambda>(g, raw). atomicM ((d @ r) @ [g @ ''.json'']) raw))" for xs r
    by (rule keeps.moves_forM) (simp only: case_prod_beta, rule keeps_writes(3) [OF n])
  show ?thesis
    unfolding hand_off_def Let_def
    by (rule sealing_bind [OF keeps_writes(1) [OF apart_below(1) [OF assms(3)]]],
        rule sealing_bind [OF keeps_writes(1) [OF apart_below(1) [OF assms(3)]]],
        rule sealing_bind [OF keeps_writes(3) [OF n]], rule sealing_bind [OF keeps.moves_forM [OF keeps_freeze [OF f]]],
        rule sealing_bind [OF g], rule sealing_finalize [OF assms(1,2)])
qed

text \<open>The published archive: the contents of the signed one, readable by everyone.\<close>

lemma chmod_signed:
  assumes "files w target = Some (NFile c m u)"
  shows "publish_archive output target w =
    bindM (existsM (output @ [''.selected.pending''])) (\<lambda>x. bindM (is_linkM (output @ [''.selected.pending''])) (\<lambda>l.
      requireM (\<not> x \<and> \<not> l) ''pending-publication-needs-recovery'' 78 (
      bindM (linkM target (output @ [''.selected.pending''])) (\<lambda>_.
        replaceM (output @ [''.selected.pending'']) (output @ [''selected.tar''])))))
    (set_files ((files w)(target \<mapsto> NFile c 420 u)) w)"
  by (simp add: publish_archive_def Let_def bindM_def chmodM_file [OF assms])

lemma publish_keeps:
  assumes "files w target = Some (NFile c m u)" and "q \<noteq> target" and "q \<noteq> output @ [''.selected.pending'']"
    and "q \<noteq> output @ [''selected.tar'']" and "publish_archive output target w = (r, w')"
  shows "files w' q = files w q"
proof -
  let ?p = "output @ [''.selected.pending'']"
  have "keeps_file q (bindM (existsM ?p) (\<lambda>x. bindM (is_linkM ?p) (\<lambda>l.
      requireM (\<not> x \<and> \<not> l) ''pending-publication-needs-recovery'' 78 (
      bindM (linkM target ?p) (\<lambda>_. replaceM ?p (output @ [''selected.tar'']))))))"
    by (intro keeps.moves_bind keeps_reads keeps.moves_require keeps_links assms(3,4) [symmetric])
  from movesD [OF this assms(5) [unfolded chmod_signed [OF assms(1)]]] show ?thesis using assms(2) by simp
qed

lemma publish_selects:
  assumes "files w target = Some (NFile c m u)" and "target \<noteq> output @ [''selected.tar'']"
    and "publish_archive output target w = (r, w')"
  shows "files w' (output @ [''selected.tar'']) = files w (output @ [''selected.tar'']) \<or>
    files w' (output @ [''selected.tar'']) = Some (NFile c 420 u)"
proof -
  let ?p = "output @ [''.selected.pending'']" and ?s = "output @ [''selected.tar'']"
  define w1 where "w1 = set_files ((files w)(target \<mapsto> NFile c 420 u)) w"
  have ps: "?p \<noteq> ?s" by simp
  have 1: "files w1 ?s = files w ?s" "files w1 target = Some (NFile c 420 u)" using assms(2) by (auto simp: w1_def)
  consider "(r, w') = (r, w1)" | w2 where "linkM target ?p w1 = (Inr (), w2)" "replaceM ?p ?s w2 = (r, w')" | x where "linkM target ?p w1 = (Inl x, w')"
    using assms(3) unfolding chmod_signed [OF assms(1)] w1_def [symmetric]
    by (auto simp: bindM_def existsM_def is_linkM_def requireM_def raiseM_def split: prod.splits sum.splits if_splits)
  then show ?thesis
  proof cases
    case 1
    then show ?thesis using \<open>files w1 ?s = files w ?s\<close> by simp
  next
    case 2
    have "files w2 ?p = Some (NFile c 420 u)" using 2(1) 1(2) by (auto simp: linkM_def split: if_splits)
    moreover have "files w2 ?s = files w1 ?s" by (rule movesD [OF keeps_links(1) [OF ps] 2(1)])
    ultimately show ?thesis using 2(2) 1(1) ps by (auto simp: replaceM_def split: if_splits option.splits)
  next
    case 3
    then show ?thesis using movesD [OF keeps_links(1) [OF ps] 3] 1(1) by simp
  qed
qed

lemma apart_siblings: "a \<noteq> b \<Longrightarrow> apart (d @ [a]) (d @ [b])"
  by (simp add: apart_def is_prefix_def)

text \<open>A name that does not start with a dot is none of the service's own files and directories.\<close>

definition visible :: "string \<Rightarrow> bool" where
  "visible name \<longleftrightarrow> name \<noteq> [] \<and> hd name \<noteq> CHR ''.''"

lemma visible_other: "visible name \<Longrightarrow> CHR ''.'' # x \<noteq> name"
  by (auto simp: visible_def)

lemma beside_visible:
  assumes "visible a" and "visible b"
  shows "beside d (d @ [a]) (d @ [b])"
  using visible_other [OF assms(1)] visible_other [OF assms(2)]
  by (simp add: beside_def apart_siblings)

lemma sealing_signed:
  assumes "spares e (output @ [name])" and "visible name" and "visible fp"
  shows "sealing e signers (output @ [fp @ ''.tar'']) (output @ [name])
    (temporaryM e output ''.handoff-'' (hand_off e t candidate owner craw manifest eraw (output @ [fp @ ''.tar'']) key signers))"
proof -
  have v: "visible (fp @ ''.tar'')" using assms(3) by (simp add: visible_def)
  have b: "beside (butlast (output @ [fp @ ''.tar''])) (output @ [fp @ ''.tar'']) (output @ [name])"
    using beside_visible [OF v assms(2)] by simp
  have q: "apart (output @ [''.handoff-'' @ x]) (output @ [name])" "apart (output @ [''.handoff-'' @ x]) (output @ [fp @ ''.tar''])" for x
    using visible_other [OF assms(2)] visible_other [OF v] by (simp_all add: apart_siblings)
  have n: "\<not> is_prefix (output @ [''.handoff-'' @ x]) (output @ [name])"
    "\<not> is_prefix (output @ [''.handoff-'' @ x]) (output @ [fp @ ''.tar''])" for x
    by (rule q(1) [unfolded apart_def, THEN conjunct1], rule q(2) [unfolded apart_def, THEN conjunct1])
  show ?thesis
    by (intro sealing_temporary n sealing_hand_off assms(1) b q(1))
qed

lemma exists_file: "files w p = Some (NFile c m u) \<Longrightarrow> exists_at (files w) p"
  by (simp add: exists_at_def node_at_def follow_plain is_link_at_def)

lemma sign_locked_keeps:
  assumes "spares e (output @ [name])" and "visible name" and "visible fp" and "name \<noteq> ''selected.tar''"
    and "files w (output @ [name]) = Some (NFile c m u)"
    and "sign_locked e t candidate owner craw manifest eraw output key signers fp w = (r, w')"
  shows "files w' (output @ [name]) = files w (output @ [name])"
proof (cases "exists_at (files w) (output @ [fp @ ''.tar''])")
  case True
  then show ?thesis using assms(6) by (simp add: sign_locked_def Let_def bindM_def existsM_def requireM_def raiseM_def)
next
  case False
  let ?t = "output @ [fp @ ''.tar'']"
  have qt: "output @ [name] \<noteq> ?t" using False exists_file [OF assms(5)] by auto
  have qp: "output @ [name] \<noteq> output @ [''.selected.pending'']" using visible_other [OF assms(2)] by auto
  have qs: "output @ [name] \<noteq> output @ [''selected.tar'']" using assms(4) by simp
  obtain x w1 where h: "temporaryM e output ''.handoff-'' (hand_off e t candidate owner craw manifest eraw ?t key signers) w = (x, w1)"
    by (metis surj_pair)
  note s = sealing_signed [OF assms(1-3), unfolded sealing_def, rule_format, OF h]
  have k: "files w1 (output @ [name]) = files w (output @ [name])" using s qt by blast
  have eq: "sign_locked e t candidate owner craw manifest eraw output key signers fp w =
      (case x of Inl y \<Rightarrow> (Inl y, w1) | Inr v \<Rightarrow> publish_archive output ?t w1)"
    using False h by (simp add: sign_locked_def Let_def bindM_def existsM_def requireM_def)
  show ?thesis
  proof (cases x)
    case (Inl y)
    with eq assms(6) k show ?thesis by simp
  next
    case (Inr v)
    with s obtain c2 u2 where f: "files w1 ?t = Some (NFile c2 384 u2)" by blast
    have "publish_archive output ?t w1 = (r, w')" using eq Inr assms(6) by simp
    from publish_keeps [OF f qt qp qs this] k show ?thesis by simp
  qed
qed

lemma sign_locked_selects:
  assumes "spares e (output @ [''selected.tar''])" and "visible fp" and "fp \<noteq> ''selected''"
    and "sign_locked e t candidate owner craw manifest eraw output key signers fp w = (r, w')"
  shows "files w' (output @ [''selected.tar'']) = files w (output @ [''selected.tar'']) \<or>
    (\<exists>c u. files w' (output @ [''selected.tar'']) = Some (NFile c 420 u) \<and> accepted e signers c)"
proof (cases "exists_at (files w) (output @ [fp @ ''.tar''])")
  case True
  then show ?thesis using assms(4) by (simp add: sign_locked_def Let_def bindM_def existsM_def requireM_def raiseM_def)
next
  case False
  let ?t = "output @ [fp @ ''.tar'']" and ?s = "output @ [''selected.tar'']"
  have v: "visible ''selected.tar''" by (simp add: visible_def)
  have "fp @ ''.tar'' \<noteq> ''selected'' @ ''.tar''" using assms(3) by (simp only: append_same_eq)  simp
  then have ts: "?t \<noteq> ?s" by simp
  obtain x w1 where h: "temporaryM e output ''.handoff-'' (hand_off e t candidate owner craw manifest eraw ?t key signers) w = (x, w1)"
    by (metis surj_pair)
  note s = sealing_signed [OF assms(1) v assms(2), unfolded sealing_def, rule_format, OF h]
  have k: "files w1 ?s = files w ?s" using s ts by (metis (no_types))
  have eq: "sign_locked e t candidate owner craw manifest eraw output key signers fp w =
      (case x of Inl y \<Rightarrow> (Inl y, w1) | Inr v \<Rightarrow> publish_archive output ?t w1)"
    using False h by (simp add: sign_locked_def Let_def bindM_def existsM_def requireM_def)
  show ?thesis
  proof (cases x)
    case (Inl y)
    with eq assms(4) k show ?thesis by simp
  next
    case (Inr v)
    with s obtain c2 u2 where f: "files w1 ?t = Some (NFile c2 384 u2)" "accepted e signers c2" by blast
    have "publish_archive output ?t w1 = (r, w')" using eq Inr assms(4) by simp
    from publish_selects [OF f(1) ts this] k f(2) show ?thesis by auto
  qed
qed

definition archive_stays :: "node option \<Rightarrow> node option \<Rightarrow> bool" where
  "archive_stays n n' \<longleftrightarrow> (\<forall>c m u. n = Some (NFile c m u) \<longrightarrow> n' = n)"

definition selects :: "'x env \<Rightarrow> path \<Rightarrow> node option \<Rightarrow> node option \<Rightarrow> bool" where
  "selects e signers n n' \<longleftrightarrow> n' = n \<or> (\<exists>c u. n' = Some (NFile c 420 u) \<and> accepted e signers c)"

interpretation stays: guarantee "\<lambda>w w'. archive_stays (files w p) (files w' p)" for p
  by unfold_locales (auto simp: archive_stays_def)

interpretation selects: guarantee "\<lambda>w w'. selects e signers (files w p) (files w' p)" for e signers p
  by unfold_locales (auto simp: selects_def)

lemma moves_reads_only:
  assumes "\<And>w. R w w"
  shows "moves R (readM p)" "moves R (statM p)" "moves R (protectedM p owner)" "moves R (digestM h p)"
  using assms by (auto simp: moves_def readM_def statM_def protectedM_def digestM_def split: option.splits sum.splits)

text \<open>\<open>sign\<close> up to the lock only reads; the paths are those of the policy.\<close>

lemma moves_config_path:
  assumes "guarantee R" and "\<And>p. p = path_comps (str_of (jget config key)) \<Longrightarrow> moves R (k p)"
  shows "moves R (bindM (config_path config key owner directory) k)"
proof (rule movesI)
  fix w r w' assume b: "bindM (config_path config key owner directory) k w = (r, w')"
  let ?y = "if is_str (jget config key) then owned_path (files w) (str_of (jget config key)) owner directory else Inl TypeError"
  have c: "config_path config key owner directory w = (?y, w)"
    by (simp add: config_path_def bindM_def getsM_def liftE_def)
  show "R w w'"
  proof (cases ?y)
    case (Inl x)
    with b c show ?thesis using guarantee.R_refl [OF assms(1)] by (simp add: bindM_def)
  next
    case (Inr p)
    then have "p = path_comps (str_of (jget config key))"
      by (auto simp: owned_path_def Let_def requireE_Inr_iff bindE_Inr_iff split: if_splits)
    from movesD [OF assms(2) [OF this], of w r w'] b c Inr show ?thesis by (simp add: bindM_def)
  qed
qed

lemma moves_sign:
  fixes P :: "node option \<Rightarrow> node option \<Rightarrow> bool" and e :: "'x env"
  assumes g: "guarantee (\<lambda>(w :: 'x world) w'. P (files w q) (files w' q))"
    and q: "q = path_comps (str_of (jget config ''output_dir'')) @ [name]" and "visible name"
    and l: "\<And>candidate owner craw manifest eraw key fp. (\<exists>v. fp = sha256 e v) \<Longrightarrow>
      moves (\<lambda>w w'. P (files w q) (files w' q))
        (sign_locked e t candidate owner craw manifest eraw (path_comps (str_of (jget config ''output_dir''))) key
          (path_comps (str_of (jget config ''allowed_signers''))) fp)"
  shows "moves (\<lambda>w w'. P (files w q) (files w' q)) (sign e t config)"
proof -
  note I = guarantee.moves_bind [OF g] guarantee.moves_require [OF g] guarantee.moves_pure [OF g]
  have r: "P n n" for n using guarantee.R_refl [OF g, of "w\<lparr>files := \<lambda>_. n\<rparr>" for w :: "'x world"] by simp
  have s: "moves (\<lambda>w w'. P (files w q) (files w' q)) (bindM (protectedM sp o1) k)"
    if "moves (\<lambda>w w'. P (files w q) (files w' q)) (k sp)" for sp o1 and k :: "path \<Rightarrow> ('x world, 'b) prog"
    using that r by (auto simp: moves_def bindM_def protectedM_def protected_file_iff split: sum.splits)
  have y: "moves (\<lambda>w w'. P (files w q) (files w' q)) (bindM (liftE (if c then Inr x else Inl x')) k)"
    if "moves (\<lambda>w w'. P (files w q) (files w' q)) (k x)" for c x x' and k :: "path \<Rightarrow> ('x world, 'b) prog"
    using that r by (auto simp: moves_def bindM_def liftE_def)
  have lock: "d @ [''.signer.lock''] \<noteq> q" if "d = path_comps (str_of (jget config ''output_dir''))" for d
    using visible_other [OF assms(3)] q that by auto
  have fp: "\<exists>v. candidate_fingerprint (sha256 e) m = sha256 e v" for m by (auto simp: candidate_fingerprint_def)
  show ?thesis
    unfolding sign_def Let_def
    by (intro s y moves_gets moves_config_path [OF g] I moves_reads_only r moves_lock_at lock, assumption, simp only: l [OF fp])
qed

lemma digest_name:
  assumes "hex_digests e"
  shows "visible (sha256 e x)" "sha256 e x \<noteq> ''selected''"
proof -
  have "length (sha256 e x) = 64" and h: "list_all is_hex (sha256 e x)" using assms by (auto simp: hex_digests_def)
  then show "sha256 e x \<noteq> ''selected''" by auto
  have "\<not> is_hex (CHR ''.'')" by code_simp
  with h \<open>length _ = 64\<close> show "visible (sha256 e x)" by (cases "sha256 e x") (auto simp: visible_def)
qed

text \<open>
  C21 (a signed archive is final): whatever the signer is asked to sign and however it ends, a file of the
  output directory other than \<^verbatim>\<open>selected.tar\<close> and the signer's hidden files - in particular every archive
  signed before - is afterwards the same file with the same contents, mode and owner.
\<close>

theorem signed_archive_kept:
  assumes archive_def: "archive = path_comps (str_of (jget config ''output_dir'')) @ [name]"
    and "spares e archive" and "hex_digests e" and "visible name" and "name \<noteq> ''selected.tar''"
    and "files w archive = Some (NFile c m u)" and "sign e t config w = (r, w')"
  shows "files w' archive = Some (NFile c m u)"
proof -
  let ?o = "path_comps (str_of (jget config ''output_dir''))"
  have "moves (\<lambda>w w'. archive_stays (files w archive) (files w' archive))
        (sign_locked e t candidate owner craw manifest eraw ?o key signers fp)" if "\<exists>v. fp = sha256 e v" for candidate owner craw manifest eraw key signers fp
  proof (rule movesI)
    fix w r w' assume s: "sign_locked e t candidate owner craw manifest eraw ?o key signers fp w = (r, w')"
    have "visible fp" using that digest_name(1) [OF assms(3)] by blast
    with sign_locked_keeps [OF assms(2) [unfolded archive_def] assms(4) _ assms(5) _ s]
    show "archive_stays (files w archive) (files w' archive)" by (simp add: archive_stays_def archive_def)
  qed
  with moves_sign [OF stays.guarantee_axioms _ assms(4), of archive config e t]
  have "moves (\<lambda>w w'. archive_stays (files w archive) (files w' archive)) (sign e t config)" by (simp add: archive_def)
  from movesD [OF this assms(7)] assms(6) show ?thesis by (simp add: archive_stays_def)
qed

text \<open>
  C20 (only a verified archive is selected): however signing ends, \<^verbatim>\<open>selected.tar\<close> is what it was before, or it
  is a world-readable file whose bytes the release verification has accepted: a tar archive with a manifest
  that the release key signed, with every file as the manifest says.
\<close>

theorem selected_is_verified:
  assumes chosen_def: "chosen = path_comps (str_of (jget config ''output_dir'')) @ [''selected.tar'']"
    and "spares e chosen" and "hex_digests e" and "sign e t config w = (r, w')"
  shows "files w' chosen = files w chosen \<or>
    (\<exists>c u. files w' chosen = Some (NFile c 420 u) \<and> accepted e (path_comps (str_of (jget config ''allowed_signers''))) c)"
proof -
  let ?o = "path_comps (str_of (jget config ''output_dir''))" and ?s = "path_comps (str_of (jget config ''allowed_signers''))"
  have v: "visible ''selected.tar''" by (simp add: visible_def)
  have l: "moves (\<lambda>w w'. selects e ?s (files w chosen) (files w' chosen))
        (sign_locked e t candidate owner craw manifest eraw ?o key ?s fp)" if "\<exists>v. fp = sha256 e v" for candidate owner craw manifest eraw key fp
  proof (rule movesI)
    fix w r w' assume s: "sign_locked e t candidate owner craw manifest eraw ?o key ?s fp w = (r, w')"
    from that obtain v where fp: "fp = sha256 e v" by blast
    from sign_locked_selects [OF assms(2) [unfolded chosen_def] _ _ s [unfolded fp]] digest_name [OF assms(3)]
    show "selects e ?s (files w chosen) (files w' chosen)" by (simp add: selects_def chosen_def)
  qed
  have "moves (\<lambda>w w'. selects e ?s (files w chosen) (files w' chosen)) (sign e t config)"
    by (rule moves_sign [OF selects.guarantee_axioms chosen_def v l])
  from movesD [OF this assms(4)] show ?thesis by (simp add: selects_def)
qed

section \<open>Concrete runs\<close>

definition gate_record :: "int \<Rightarrow> json" where
  "gate_record at = JObj [(''completed_at'', JInt at), (''run_id'', JStr (replicate 64 CHR ''a''))]"

definition demo_evidence :: json where
  "demo_evidence = JObj (map (\<lambda>g. (g, gate_record (if g = ''vm_destroyed'' then 900 else 800))) GATES)"

theorem validate_evidence_iff_witness:
  "validate_evidence demo_evidence 1000 = Inr () \<and> set (keys_of demo_evidence) = set GATES \<and>
   validate_evidence demo_evidence 899 = Inl (Failure 78 ''stale-certification-evidence'')"
proof -
  have d: "distinct (keys_of demo_evidence)" by code_simp
  have "validate_evidence demo_evidence 1000 = Inr ()" by code_simp
  then have "set (keys_of demo_evidence) = set GATES"
    by (rule validate_evidence_iff [OF d, THEN iffD1, THEN conjunct2, THEN conjunct1])
  moreover have "validate_evidence demo_evidence 899 = Inl (Failure 78 ''stale-certification-evidence'')" by code_simp
  ultimately show ?thesis using \<open>validate_evidence demo_evidence 1000 = Inr ()\<close> by (simp only:)
qed

text \<open>A signer with an archive signed before, and a candidate that is not complete.\<close>

definition sign_env :: "nat env" where
  "sign_env = \<lparr>sha256 = (\<lambda>s. replicate 64 CHR ''b''), cmd = (\<lambda>a d w. (Exited 0 [], w)), boot = (\<lambda>w. ''b''), clock = (\<lambda>w. 1000),
     rglob_rpm = (\<lambda>fs d. []), space = (\<lambda>p w. 0), account = (\<lambda>w. None), pause = (\<lambda>n w. w),
     source = [''s''], group = (\<lambda>p w. 0), wall = (\<lambda>w. 0), tar = (\<lambda>s. None), fresh = (\<lambda>w. ''x'')\<rparr>"

definition sign_tools :: tools where
  "sign_tools = \<lparr>entries = (\<lambda>fs p. []), pack = (\<lambda>ms. ''tar'')\<rparr>"

definition sign_config :: json where
  "sign_config = JObj [(''schema'', JStr ''hermes-signer-v1''), (''signer_uid'', JInt 7), (''certifier_uid'', JInt 8),
     (''candidate'', JStr ''/c''), (''evidence'', JStr ''/v''), (''output_dir'', JStr ''/o''), (''signing_key'', JStr ''/k''),
     (''allowed_signers'', JStr ''/s'')]"

definition sign_world :: "nat world" where
  "sign_world = \<lparr>files = map_of [([], NDir 493 0), ([''c''], NDir 448 8), ([''v''], NDir 448 8), ([''o''], NDir 448 7),
     ([''k''], NFile ''key'' 384 7), ([''s''], NFile ''signers'' 420 0), ([''c'', ''candidate.json''], NFile (canonical (JObj [])) 384 8),
     ([''o'', ''old.tar''], NFile ''archive'' 384 7), ([''o'', ''selected.tar''], NFile ''archive'' 420 7)],
     euid = 7, busy = [], faults = [], ext = 0\<rparr>"

lemma sign_env_hex: "hex_digests sign_env"
proof -
  have "list_all is_hex (replicate 64 CHR ''b'')" by code_simp
  then show ?thesis by (simp add: hex_digests_def sign_env_def)
qed

theorem signed_archive_kept_witness:
  "files (snd (sign sign_env sign_tools sign_config sign_world)) [''o'', ''old.tar''] = Some (NFile ''archive'' 384 7)"
proof -
  have p: "[''o'', ''old.tar''] = path_comps (str_of (jget sign_config ''output_dir'')) @ [''old.tar'']" by code_simp
  have s: "spares sign_env [''o'', ''old.tar'']" by (simp add: spares_def sign_env_def)
  have v: "visible ''old.tar''" "''old.tar'' \<noteq> ''selected.tar''" by (simp_all add: visible_def)
  have f: "files sign_world [''o'', ''old.tar''] = Some (NFile ''archive'' 384 7)" by (simp add: sign_world_def)
  show "files (snd (sign sign_env sign_tools sign_config sign_world)) [''o'', ''old.tar''] = Some (NFile ''archive'' 384 7)"
    by (rule signed_archive_kept [OF p s sign_env_hex v f surjective_pairing])
qed

theorem selected_is_verified_witness:
  "let w' = snd (sign sign_env sign_tools sign_config sign_world); f = files w' [''o'', ''selected.tar''] in
   f = Some (NFile ''archive'' 420 7) \<or> (\<exists>c u. f = Some (NFile c 420 u) \<and> accepted sign_env [''s''] c)"
proof -
  have p: "[''o'', ''selected.tar''] = path_comps (str_of (jget sign_config ''output_dir'')) @ [''selected.tar'']" by code_simp
  have s: "spares sign_env [''o'', ''selected.tar'']" by (simp add: spares_def sign_env_def)
  have f: "files sign_world [''o'', ''selected.tar''] = Some (NFile ''archive'' 420 7)" by (simp add: sign_world_def)
  have a: "path_comps (str_of (jget sign_config ''allowed_signers'')) = [''s'']" by code_simp
  show ?thesis
    using selected_is_verified [OF p s sign_env_hex surjective_pairing, of sign_tools sign_world]
    unfolding Let_def f a .
qed

end
