(* ===== verification/CertifyFacts.thy ===== *)
theory CertifyFacts
  imports Certify SigningFacts
begin

text \<open>
  Facts on the certification: the revocation is tried at most three times, and no evidence of a gate is
  ever written over.
\<close>

section \<open>Revocation\<close>

definition again :: "string list" where
  "again = [''broker-rejected'', ''transport-unavailable'']"

lemma revocation_reasons: "revocation_reason lb w x \<noteq> ''nonretryable'' \<Longrightarrow> revocation_reason lb w x \<in> set again"
  by (auto simp: revocation_reason_def again_def split: exn.splits if_splits)

definition tried_well :: "json list \<times> json res \<Rightarrow> nat \<Rightarrow> json list \<Rightarrow> bool" where
  "tried_well r n before \<longleftrightarrow> (\<exists>reasons final. length reasons + n \<le> 3 \<and> set reasons \<subseteq> set again \<and>
     fst r = before @ map (\<lambda>(i, x). attempt_record i x) (zip [n..<n + length reasons + 1] (map Some reasons @ [final])) \<and>
     ((\<exists>v. snd r = Inr v) \<longleftrightarrow> final = None))"

lemma tried_last: "tried_well (before @ [attempt_record n final], r) n before" if "n \<le> 3" "(\<exists>v. r = Inr v) \<longleftrightarrow> final = None"
  using that unfolding tried_well_def by (intro exI [of _ "[]"] exI [of _ final]) simp

lemma tried_next:
  assumes "tried_well r (Suc n) (before @ [attempt_record n (Some reason)])" and "reason \<in> set again"
  shows "tried_well r n before"
proof -
  from assms(1) obtain reasons final where a: "length reasons + Suc n \<le> 3" "set reasons \<subseteq> set again"
    "fst r = (before @ [attempt_record n (Some reason)]) @ map (\<lambda>(i, x). attempt_record i x)
       (zip [Suc n..<Suc n + length reasons + 1] (map Some reasons @ [final]))" "(\<exists>v. snd r = Inr v) \<longleftrightarrow> final = None"
    unfolding tried_well_def by blast
  have "[n..<n + length (reason # reasons) + 1] = n # [Suc n..<Suc n + length reasons + 1]"
    using upt_conv_Cons [of n "n + length (reason # reasons) + 1"] by simp
  with a assms(2) show ?thesis
    unfolding tried_well_def by (intro exI [of _ "reason # reasons"] exI [of _ final]) simp
qed


section \<open>Evidence is written once\<close>

text \<open>Neither the commands nor the broker nor the passing of time touch the path \<open>q\<close>.\<close>

definition untouched :: "'x env \<Rightarrow> 'x peers \<Rightarrow> path \<Rightarrow> bool" where
  "untouched e k q \<longleftrightarrow> (\<forall>a d w. files (snd (cmd e a d w)) q = files w q) \<and>
     (\<forall>p f w. files (snd (exchange k p f w)) q = files w q) \<and> (\<forall>n w. files (pause e n w) q = files w q)"

interpretation kept: guarantee "\<lambda>s s'. archive_stays (files (snd s) q) (files (snd s') q)" for q
  by unfold_locales (auto simp: archive_stays_def)

abbreviation kept_file :: "path \<Rightarrow> ('m, 'x, 'a) process \<Rightarrow> bool" where
  "kept_file q \<equiv> moves (\<lambda>s s'. archive_stays (files (snd s) q) (files (snd s') q))"

abbreviation stays_file :: "path \<Rightarrow> ('x world, 'a) prog \<Rightarrow> bool" where
  "stays_file q \<equiv> moves (\<lambda>w w'. archive_stays (files w q) (files w' q))"

lemma stays_of_keeps: "keeps_file q m \<Longrightarrow> stays_file q m"
  by (auto simp: moves_def archive_stays_def)

lemma kept_outside: "stays_file q m \<Longrightarrow> kept_file q (outside m)"
  by (auto simp: moves_def outside_def split: prod.splits) (metis snd_conv)

lemma kept_memory: "kept_file q recall" "kept_file q (remember f)" "kept_file q forget"
  by (simp_all add: moves_def recall_def remember_def forget_def archive_stays_def)

lemma atomic_absent:
  assumes "\<not> exists_at (files w) p" and "atomicM p c w = (y, w')"
  shows "archive_stays (files w q) (files w' q)"
proof (cases "p = q")
  case True
  with assms(1) show ?thesis by (auto simp: archive_stays_def exists_at_def node_at_plain)
next
  case False
  from movesD [OF keeps_writes(3) [OF False] assms(2)] show ?thesis by (simp add: archive_stays_def)
qed

lemma stays_guarded_write: "stays_file q (bindM (existsM p) (\<lambda>x. requireM (\<not> x) r n (bindM (atomicM p c) (\<lambda>_. ret v))))"
proof (rule movesI)
  fix w y w' assume "bindM (existsM p) (\<lambda>x. requireM (\<not> x) r n (bindM (atomicM p c) (\<lambda>_. ret v))) w = (y, w')"
  then have "w' = w \<or> (\<not> exists_at (files w) p \<and> (\<exists>z. atomicM p c w = (z, w')))"
    by (auto simp: bindM_def existsM_def requireM_def raiseM_def ret_def split: prod.splits sum.splits if_splits)
  then show "archive_stays (files w q) (files w' q)" using atomic_absent stays.R_refl by blast
qed

lemma stays_guarded_last: "stays_file q (bindM (existsM p) (\<lambda>x. requireM (\<not> x) r n (atomicM p c)))"
proof (rule movesI)
  fix w y w' assume "bindM (existsM p) (\<lambda>x. requireM (\<not> x) r n (atomicM p c)) w = (y, w')"
  then have "w' = w \<or> (\<not> exists_at (files w) p \<and> atomicM p c w = (y, w'))"
    by (auto simp: bindM_def existsM_def requireM_def raiseM_def split: if_splits)
  then show "archive_stays (files w q) (files w' q)" using atomic_absent stays.R_refl by blast
qed

lemma stays_gate: "stays_file q (gate e j name result)"
  unfolding gate_def Let_def by (intro moves_gets stays_guarded_last)

lemma untouched_run: "untouched e k q \<Longrightarrow> keeps_file q (runM (cmd e) a d)"
  by (simp add: moves_def snd_runM untouched_def)

lemma untouched_pause: "untouched e k q \<Longrightarrow> keeps_file q (pauseM e n)"
  by (simp add: moves_def pauseM_def untouched_def)

lemma untouched_exchange: "untouched e k q \<Longrightarrow> kept_file q (lab_exchange e j message body)"
proof (rule movesI)
  fix s r s' assume u: "untouched e k q" and l: "lab_exchange e j message body s = (r, s')"
  obtain oc w' where c: "cmd e (ssh_options (jconfig j)) (Some (canonical message @ body)) (snd s) = (oc, w')" by (metis surj_pair)
  have "files w' q = files (snd s) q" using u c unfolding untouched_def by (metis snd_conv)
  with l c show "archive_stays (files (snd s) q) (files (snd s') q)"
    by (cases oc) (auto simp: lab_exchange_def archive_stays_def split: prod.splits)
qed

lemma kept_request:
  assumes "untouched e k q"
  shows "kept_file q (lab_request e j action values)" "kept_file q (ask_field e j action values key)"
  unfolding ask_field_def lab_request_def by (intro kept.moves_bind kept.moves_pure untouched_exchange [OF assms])+

lemma kept_rejection: "untouched e k q \<Longrightarrow> kept_file q (rejection e j message expected body)"
proof -
  assume u: "untouched e k q"
  have h: "kept_file q (case x of Failure code reason \<Rightarrow> bindM forget (\<lambda>_. requireM (reason = expected) ''wrong-negative-test-failure'' 78 (ret True))
        | _ \<Rightarrow> raiseM x)" for x
    by (cases x) (auto intro!: kept.moves_bind kept_memory kept.moves_require)
  show ?thesis
    unfolding rejection_def by (intro kept.moves_bind kept.moves_catch kept.moves_if kept.moves_pure untouched_exchange [OF u] h)
qed

text \<open>The files of the state directory, and the volatile directories, are not \<open>q\<close>.\<close>

definition elsewhere :: "job \<Rightarrow> path \<Rightarrow> bool" where
  "elsewhere j q \<longleftrightarrow> (\<forall>n. jpath j ''state_dir'' @ [n] \<noteq> q) \<and> \<not> is_prefix [''dev'', ''shm''] q"

lemma elsewhere_scratch:
  assumes "elsewhere j q"
  shows "\<not> is_prefix ([''dev'', ''shm''] @ r) q" and "[''dev'', ''shm''] @ r \<noteq> q"
  using assms by (auto simp: elsewhere_def is_prefix_iff)

lemma kept_save:
  assumes "elsewhere j q"
  shows "kept_file q (cert_save e j stage values)"
proof -
  have n: "jpath j ''state_dir'' @ [''state.json''] \<noteq> q" using assms by (simp add: elsewhere_def)
  show ?thesis
    unfolding cert_save_def
    by (intro kept.moves_bind kept_memory kept_outside stays_of_keeps keeps_writes(3) n keeps.moves_pure)
qed

lemma keeps_backup_snapshot: "untouched e k q \<Longrightarrow> keeps_file q (backup_snapshot h (cmd e) src config rid)"
proof -
  assume u: "untouched e k q"
  have c: "keeps_file q (command_digest h (cmd e) args)" for h args
  proof (rule movesI)
    fix w r w' assume d: "command_digest h (cmd e) args w = (r, w')"
    obtain oc v where c: "cmd e args None w = (oc, v)" by (metis surj_pair)
    have "files v q = files w q" using u c unfolding untouched_def by (metis snd_conv)
    with c d show "files w' q = files w q" by (cases oc) (auto simp: command_digest_def split: if_splits)
  qed
  have d: "keeps_file q (digestM h p)" for h p by (simp add: moves_def files_reads)
  show ?thesis
    unfolding backup_snapshot_def [abs_def] Let_def
    by (rule keeps.moves_app)
      (intro keeps.moves_bind keeps.moves_require keeps.moves_pure untouched_run [OF u] c d)
qed

lemma keeps_lab_backup:
  assumes "untouched e k q" and "elsewhere j q" and "scratch = [''dev'', ''shm''] @ r"
  shows "keeps_file q (lab_backup e j receipt scratch)"
proof -
  have s: "scratch @ [''snapshot.tar''] \<noteq> q" using elsewhere_scratch(2) [OF assms(2), of "r @ [''snapshot.tar'']"] assms(3) by simp
  have b: "jpath j ''state_dir'' @ [''backup.json''] \<noteq> q" using assms(2) by (simp add: elsewhere_def)
  have f: "keeps_file q (lab_fetch e j m (scratch @ [''snapshot.tar'']))" for m
  proof (rule movesI)
    fix w r w' assume l: "lab_fetch e j m (scratch @ [''snapshot.tar'']) w = (r, w')"
    obtain oc v where c: "cmd e (ssh_options (jconfig j)) (Some (canonical m)) w = (oc, v)" by (metis surj_pair)
    have "files v q = files w q" using assms(1) c unfolding untouched_def by (metis snd_conv)
    with c l s show "files w' q = files w q"
      by (cases oc) (auto simp: lab_fetch_def append_file_def split: option.splits node.splits)
  qed
  have d: "keeps_file q (digestM h p)" for h p by (simp add: moves_def files_reads)
  show ?thesis
    unfolding lab_backup_def Let_def
    by (intro keeps.moves_bind keeps.moves_require keeps.moves_pure keeps_writes s b f d keeps_backup_snapshot [OF assms(1)])
qed

lemma kept_take_backup:
  assumes "untouched e k q" and "elsewhere j q"
  shows "kept_file q (take_backup e j)"
proof -
  have t: "keeps_file q (temporaryM e [''dev'', ''shm''] ''hermes-certifier-'' (lab_backup e j receipt))" for receipt
    by (rule keeps_temporary) (rule elsewhere_scratch(1) [OF assms(2)], rule keeps_lab_backup [OF assms refl])
  show ?thesis
    unfolding take_backup_def
    by (intro kept.moves_bind kept.moves_pure kept_request [OF assms(1)] kept_rejection [OF assms(1)] kept_outside stays_of_keeps t)
qed

lemma keeps_power: "untouched e k q \<Longrightarrow> keeps_file q (power e action)"
  unfolding power_def by (intro keeps.moves_bind keeps.moves_pure untouched_run)

lemma keeps_wait_off:
  assumes "untouched e k q"
  shows "keeps_file q (wait_off n e k' deadline)"
proof (induction n)
  case 0
  show ?case by (subst wait_off.simps) (simp add: moves_def raiseM_def)
next
  case (Suc n)
  show ?case
    by (subst wait_off.simps, unfold diff_Suc_1 if_not_P [OF Suc_not_Zero])
      (intro keeps.moves_bind keeps.moves_if keeps.moves_pure keeps_power [OF assms] untouched_pause [OF assms] Suc)
qed

lemma kept_option: "kept_file q (case x of None \<Rightarrow> m | Some y \<Rightarrow> f y)" if "kept_file q m" "\<And>y. kept_file q (f y)"
  using that by (cases x) auto

lemma kept_answer:
  assumes "untouched e k q"
  shows "kept_file q (catchM (bindM (lab_request e j action values) (\<lambda>r. ret (Some r)))
    (\<lambda>x. if b x then bindM forget (\<lambda>_. ret None) else raiseM x))"
  by (intro kept.moves_catch kept.moves_bind kept.moves_pure kept.moves_if kept_memory kept_request [OF assms])

lemma kept_reads: "kept_file q (outside (getsM f))" "kept_file q (outside (existsM p))"
  by (simp_all add: moves_def outside_def getsM_def existsM_def archive_stays_def)

lemma kept_wait_observation:
  assumes "untouched e k q"
  shows "kept_file q (wait_observation n e k' j action deadline)"
proof (induction n)
  case 0
  show ?case by (subst wait_observation.simps) (simp add: moves_def raiseM_def archive_stays_def)
next
  case (Suc n)
  show ?case
    by (subst wait_observation.simps, unfold diff_Suc_1 if_not_P [OF Suc_not_Zero])
      (intro kept.moves_bind kept.moves_if kept.moves_pure kept_option kept_answer [OF assms] kept_reads
        kept_outside stays_of_keeps untouched_pause [OF assms] Suc)
qed

lemma kept_cold_boot:
  assumes "untouched e k q"
  shows "kept_file q (cold_boot n e k' j observation)"
  unfolding cold_boot_def
  by (intro kept.moves_bind kept_reads kept_outside stays_of_keeps keeps_power [OF assms] keeps_wait_off [OF assms]
      kept_wait_observation [OF assms])

lemma kept_deploy_loop:
  assumes "untouched e k q" and "elsewhere j q"
  shows "kept_file q (deploy_loop n e k' j deadline stages)"
proof (induction n arbitrary: stages)
  case 0
  show ?case by (subst deploy_loop.simps) (simp add: moves_def raiseM_def archive_stays_def)
next
  case (Suc n)
  show ?case
    by (subst deploy_loop.simps, unfold diff_Suc_1 if_not_P [OF Suc_not_Zero] Let_def)
      (intro kept.moves_bind kept.moves_if kept.moves_require kept.moves_pure kept_option kept_answer [OF assms(1)] kept_reads
        kept_outside stays_of_keeps untouched_pause [OF assms(1)] kept_save [OF assms(2)] Suc)
qed

lemma stays_scan:
  assumes "untouched e k q"
  shows "stays_file q (scan e lb directory target run_id)"
proof -
  have d: "keeps_file q (digestM h p)" for h p by (simp add: moves_def files_reads)
  have i: "keeps_file q (scan_image (cmd e) a b c y)" for a b c y
    unfolding scan_image_def by (intro keeps.moves_bind keeps.moves_require keeps.moves_pure untouched_run [OF assms])
  show ?thesis
    unfolding scan_def Let_def
    by (intro stays_guarded_write stays.moves_bind stays.moves_if stays.moves_require stays.moves_pure stays_of_keeps keeps_reads d i)
qed

lemma kept_candidate: "kept_file q (outside (candidate e t config))"
  unfolding candidate_def Let_def
  by (intro kept_outside stays_of_keeps keeps.moves_bind keeps.moves_require keeps.moves_pure keeps_reads)

lemma kept_execute:
  assumes "untouched e k q" and "elsewhere j q"
  shows "kept_file q (certify_execute n e t k lb j)"
proof -
  note r = kept_request [OF assms(1)] kept_rejection [OF assms(1)] untouched_exchange [OF assms(1)] kept_cold_boot [OF assms(1)]
  note p = kept.moves_bind kept.moves_require kept.moves_if kept.moves_pure kept_memory kept_reads kept_save [OF assms(2)]
  have f: "kept_file q (require_field test a b key reason)" for test and a b key reason
    unfolding require_field_def by (intro p)
  have x: "keeps_file q (test_request k sock operation lease)" for sock operation lease
  proof -
    have "keeps_file q (exchange k sock f)" for f using assms(1) by (simp add: moves_def untouched_def)
    then show ?thesis unfolding test_request_def by (intro keeps.moves_bind keeps.moves_pure)
  qed
  have n: "jpath j ''state_dir'' @ [''negative-matrix.json''] \<noteq> q" using assms(2) by (simp add: elsewhere_def)
  have 1: "kept_file q (stage_candidate e t j)"
    unfolding stage_candidate_def Let_def by (intro p r)
  have 2: "kept_file q (issue_credential e k j)"
    unfolding issue_credential_def by (intro p r kept_outside stays_of_keeps x)
  have 3: "kept_file q (deploy_candidate n e k j)"
    unfolding deploy_candidate_def by (intro p r kept_deploy_loop [OF assms] kept_outside stays_gate)
  have 4: "kept_file q (boot_images n e k j warm)" for warm
    unfolding boot_images_def by (intro p r f kept_outside stays_gate)
  have 5: "kept_file q (rerun_closed e j)"
    unfolding rerun_closed_def by (intro p r)
  have 6: "kept_file q (restore_backup e j backup)" for backup
    unfolding restore_backup_def by (intro p r kept_outside stays_gate stays_of_keeps untouched_run [OF assms(1)])
  show ?thesis
    unfolding certify_execute_def Let_def
    by (intro kept.moves_prod p 1 2 3 4 5 6 kept_take_backup [OF assms] kept_candidate kept_outside stays_scan [OF assms(1)]
        stays_of_keeps keeps_writes(3) n)
qed

lemma revoke_untouched:
  assumes "untouched e k q"
  shows "files (snd (revoke_loop rest e k lb socket lease before w)) q = files w q"
proof (induction rest arbitrary: before w)
  case (Cons nd rest)
  obtain n delay where nd: "nd = (n, delay)" by (cases nd)
  define w1 where "w1 = (if delay = 0 then w else pause e delay w)"
  have w1: "files w1 q = files w q" using assms by (simp add: w1_def untouched_def)
  let ?body = "bindM (test_request k socket ''revoke'' lease)
             (\<lambda>result. requireM (jget result ''ok'' = JBool True) ''credential-revocation-failed'' 78 (ret result))"
  obtain x w2 where b: "?body w1 = (x, w2)" by (cases "?body w1")
  have "keeps_file q (exchange k sock f)" for sock f using assms by (simp add: moves_def untouched_def)
  then have "keeps_file q ?body" unfolding test_request_def by (intro keeps.moves_bind keeps.moves_require keeps.moves_pure)
  from movesD [OF this b] w1 have w2: "files w2 q = files w q" by simp
  show ?case
    using b w2 Cons.IH by (cases x) (simp_all add: nd w1_def [symmetric] Let_def)
qed simp

lemma kept_revoke:
  assumes "untouched e k q"
  shows "kept_file q (revoke_and_prove e k lb j)"
proof (rule movesI)
  fix s r s' assume h: "revoke_and_prove e k lb j s = (r, s')"
  let ?rv = "revoke_test_credential e k lb (cfg (jconfig j) ''credential_socket'') (jlease j) (snd s)"
  let ?prove = "\<lambda>result. bindM (existsM (jpath j ''evidence_dir'' @ [''credential_revocation.json'']))
      (\<lambda>x. if x then ret () else gate e j ''credential_revocation'' result)"
  obtain tried y w where rv: "?rv = ((tried, y), w)" by (metis surj_pair)
  have "files (snd ?rv) q = files (snd s) q"
    unfolding revoke_test_credential_def by (rule revoke_untouched [OF assms])
  with rv have w: "files w q = files (snd s) q" by simp
  show "archive_stays (files (snd s) q) (files (snd s') q)"
  proof (cases y)
    case (Inl x)
    with h rv w show ?thesis by (auto simp: revoke_and_prove_def archive_stays_def)
  next
    case (Inr result)
    obtain z w2 where p: "?prove result w = (z, w2)" by (cases "?prove result w")
    have "stays_file q (?prove result)"
      by (intro stays.moves_bind stays.moves_if stays.moves_pure stays_of_keeps [OF keeps_reads(2)] stays_gate)
    from movesD [OF this p] w have "archive_stays (files (snd s) q) (files w2 q)" by simp
    moreover have "snd s' = w2" using h rv Inr p by (cases z) (auto simp: revoke_and_prove_def)
    ultimately show ?thesis by simp
  qed
qed

lemma kept_cleanup:
  assumes "untouched e k q"
  shows "kept_file q (cert_cleanup e k lb j)"
  unfolding cert_cleanup_def try_step_def Let_def
  by (intro kept.moves_bind kept.moves_if kept.moves_require kept.moves_catch kept.moves_pure kept_memory
      kept_request [OF assms] kept_revoke [OF assms])

text \<open>
  C25 (evidence is final): whatever the laboratory answers and however the certification ends, a file of the
  evidence directory that was there before - the record of a gate above all - is afterwards the same file
  with the same contents. The commands, the broker and the clock are taken to leave it alone, the
  evidence directory is not the state directory and not below \<^verbatim>\<open>/dev/shm\<close>.
\<close>

theorem certify_evidence_kept:
  assumes "untouched e k evidence" and "evidence = jpath j ''evidence_dir'' @ [name]"
    and "jpath j ''evidence_dir'' \<noteq> jpath j ''state_dir''" and "\<not> is_prefix [''dev'', ''shm''] evidence"
    and "files (snd s) evidence = Some (NFile c m u)" and "certify_run n e t k lb j s = (r, s')"
  shows "files (snd s') evidence = Some (NFile c m u)"
proof -
  have el: "elsewhere j evidence" using assms(2-4) by (auto simp: elsewhere_def)
  have f: "kept_file evidence (finish_failed e j failed ctx cleanup_failed)" for failed ctx cleanup_failed
    unfolding finish_failed_def Let_def by (intro kept.moves_bind kept_memory kept_save [OF el] kept.moves_pure)
  have "kept_file evidence (certify_run n e t k lb j)"
    unfolding certify_run_def
    by (intro kept.moves_bind kept.moves_prod kept.moves_catch kept.moves_if kept.moves_pure kept_memory kept_save [OF el]
        kept_execute [OF assms(1) el] kept_cleanup [OF assms(1)] f)
  from movesD [OF this assms(6)] assms(5) show ?thesis by (simp add: archive_stays_def)
qed

section \<open>A laboratory that cannot be reached\<close>

definition lab_env :: "nat env" where
  "lab_env = \<lparr>sha256 = (\<lambda>s. replicate 64 CHR ''b''), cmd = (\<lambda>a d w. (Unavailable, w)), boot = (\<lambda>w. ''b''), clock = (\<lambda>w. 1000),
     rglob_rpm = (\<lambda>fs d. []), space = (\<lambda>p w. 0), account = (\<lambda>w. None), pause = (\<lambda>n w. w\<lparr>ext := ext w + n\<rparr>),
     source = [''s''], group = (\<lambda>p w. 0), wall = (\<lambda>w. 0), tar = (\<lambda>s. None), fresh = (\<lambda>w. ''x'')\<rparr>"

definition lab_peers :: "nat peers" where
  "lab_peers = \<lparr>mono = (\<lambda>w. int (ext w)), exchange = (\<lambda>s f w. (Inl OSError, w)), which = (\<lambda>c w. True), uuid = (\<lambda>w. ''1'')\<rparr>"

definition lab_lost :: "nat lab" where
  "lab_lost = \<lparr>lost = (\<lambda>w. True), cache = (\<lambda>w. ''c''), today = (\<lambda>w. 0)\<rparr>"

definition lab_job :: job where
  "lab_job = job_of lab_env (JObj [(''run_id'', JStr (replicate 64 CHR ''a'')), (''candidate'', JStr ''/c''), (''state_dir'', JStr ''/t''),
     (''evidence_dir'', JStr ''/v'')]) (JObj [(''release_id'', JStr ''r1''), (''files'', JObj [])]) ''{}''"

definition lab_start :: "certifier \<times> nat world" where
  "lab_start = (new_certifier (new_state_of lab_job),
     \<lparr>files = map_of [([], NDir 493 0), ([''c''], NDir 448 8), ([''t''], NDir 448 8), ([''v''], NDir 448 8),
        ([''v'', ''boot.json''], NFile ''{}'' 384 8)], euid = 8, busy = [], faults = [], ext = 0\<rparr>)"

definition lab_end :: "certifier \<times> nat world" where
  "lab_end = snd (certify_run 3 lab_env sign_tools lab_peers lab_lost lab_job lab_start)"

theorem certify_evidence_kept_witness:
  "files (snd lab_end) [''v'', ''boot.json''] = Some (NFile ''{}'' 384 8)"
proof -
  have "untouched lab_env lab_peers [''v'', ''boot.json'']" by (simp add: untouched_def lab_env_def lab_peers_def)
  moreover have "[''v'', ''boot.json''] = jpath lab_job ''evidence_dir'' @ [''boot.json'']"
    "jpath lab_job ''evidence_dir'' \<noteq> jpath lab_job ''state_dir''" by code_simp+
  moreover have "\<not> is_prefix [''dev'', ''shm''] [''v'', ''boot.json'']" by (simp add: is_prefix_def)
  moreover have "files (snd lab_start) [''v'', ''boot.json''] = Some (NFile ''{}'' 384 8)" by (simp add: lab_start_def)
  moreover have "certify_run 3 lab_env sign_tools lab_peers lab_lost lab_job lab_start =
      (fst (certify_run 3 lab_env sign_tools lab_peers lab_lost lab_job lab_start), lab_end)"
    by (simp add: lab_end_def)
  ultimately show ?thesis by (rule certify_evidence_kept)
qed

end
