(* ===== verification/LifecycleFacts.thy ===== *)
theory LifecycleFacts
  imports Lifecycle ScheduleFacts CertifyFacts
begin

text \<open>
  Facts on the disposable lifecycle: what the run reports is what its journal holds, a lifecycle is only
  complete when the preparation and the certification of this very run passed, and a recovery never passes.
\<close>

section \<open>The journal of a run\<close>

definition life_journal :: "path \<Rightarrow> json \<times> 'x world \<Rightarrow> bool" where
  "life_journal directory s \<longleftrightarrow>
     (\<exists>u. files (snd s) (directory @ [''lifecycle.json'']) = Some (NFile (canonical (fst s)) 384 u))"

lemma life_saved:
  assumes "life_save directory values s = (Inr x, s')"
  shows "life_journal directory s'" and "fst s' = merged (fst s) (JObj values)"
  using journal_saved [OF assms [unfolded life_save_def]] by (simp_all add: life_journal_def)

lemma life_not_saved: "life_save directory values s = (Inl x, s') \<Longrightarrow> x = OSError"
  by (auto simp: life_save_def journal_save_def bindM_def remember_def recall_def outside_def atomicM_def Let_def
      split: prod.splits sum.splits list.splits if_splits)

lemma merged_field: "jget (merged v (JObj [(a, x)])) k = (if k = a then x else jget v k)"
  by (simp add: merged_def update_def jget_jset)

lemma merged_fields: "jget (merged v (JObj [(a, x), (b, y)])) k = (if k = b then y else if k = a then x else jget v k)"
  by (simp add: merged_def update_def jget_jset)

lemma merged_three:
  "jget (merged v (JObj [(a, x), (b, y), (c, z)])) k =
     (if k = c then z else if k = b then y else if k = a then x else jget v k)"
  by (simp add: merged_def update_def jget_jset)

section \<open>The three parts of a run\<close>

text \<open>The preparation and the certification of the run passed.\<close>

definition passed_run :: "'x driver \<Rightarrow> json \<Rightarrow> path \<Rightarrow> bool" where
  "passed_run dr policy directory \<longleftrightarrow>
     (\<exists>p p'. drv_prepare dr policy directory p = (Inr (), p') \<and> life_journal directory p \<and> jget (fst p) ''stage'' = JStr ''provisioning'') \<and>
     (\<exists>c c'. drv_certify dr policy directory c = (Inr (), c') \<and> life_journal directory c \<and> jget (fst c) ''stage'' = JStr ''certifying'')"

lemma life_run_passes:
  assumes "life_run e dr policy directory grant_path s = (Inr (False, False), s')"
  shows "passed_run dr policy directory"
proof -
  let ?h = "\<lambda>x. bindM (life_save directory [(''failure'', JStr ''lifecycle-execution-failed''), (''failure_context'', failure_context dr x)])
      (\<lambda>_. ret (True, False))"
  have h: "\<not> (\<exists>v. ?h x w = (Inr (False, False), v))" for x and w :: "json \<times> 'a world" by (auto simp: bindM_eq_iff ret_def)
  let ?body = "bindM (life_save directory [(''stage'', JStr ''provisioning'')]) (\<lambda>_.
        bindM (drv_prepare dr policy directory) (\<lambda>_.
        bindM (life_save directory [(''stage'', JStr ''enrolled'')]) (\<lambda>_.
        bindM (window_again e policy grant_path) (\<lambda>in_window.
        if \<not> in_window then ret (False, True)
        else
          bindM (life_save directory [(''stage'', JStr ''certifying'')]) (\<lambda>_.
          bindM (drv_certify dr policy directory) (\<lambda>_.
          bindM (life_save directory [(''certified'', JBool True)]) (\<lambda>_. ret (False, False))))))))"
  obtain r s1 where b: "?body s = (r, s1)" by (cases "?body s")
  have "?body s = (Inr (False, False), s')"
  proof (cases r)
    case (Inl x)
    with b assms have "?h x s1 = (Inr (False, False), s')" by (simp add: life_run_def catchM_def)
    with h show ?thesis by blast
  next
    case (Inr y)
    with b assms show ?thesis by (simp add: life_run_def catchM_def)
  qed
  then obtain s2 s3 s4 s5 s6 s7 where a:
    "life_save directory [(''stage'', JStr ''provisioning'')] s = (Inr (), s2)"
    "drv_prepare dr policy directory s2 = (Inr (), s3)"
    "life_save directory [(''stage'', JStr ''certifying'')] s5 = (Inr (), s6)"
    "drv_certify dr policy directory s6 = (Inr (), s7)"
    by (auto simp: bindM_eq_iff ret_def split: if_splits)
  show ?thesis
    unfolding passed_run_def
    using a(2,4) life_saved [OF a(1)] life_saved [OF a(3)]
    by (intro conjI exI [of _ s2] exI [of _ s3] exI [of _ s6] exI [of _ s7]) (simp_all add: merged_field)
qed

lemma life_run_fails: "life_run e dr policy directory grant_path s = (Inl x, s') \<Longrightarrow> x = OSError"
  by (auto simp: life_run_def catchM_def bindM_def [where m = "life_save directory [(''failure'', JStr ''lifecycle-execution-failed''),
      (''failure_context'', failure_context dr y)]" for y] ret_def dest: life_not_saved split: prod.splits sum.splits)

lemma life_recover_spec:
  "life_recover directory s = (r, s') \<Longrightarrow> r = Inr True \<or> r = Inl OSError"
  by (auto simp: life_recover_def bindM_def recall_def Let_def ret_def dest: life_not_saved split: prod.splits sum.splits)

text \<open>What the journal says of the stage.\<close>

definition life_stage :: "path \<Rightarrow> json \<times> 'x world \<Rightarrow> string \<Rightarrow> bool" where
  "life_stage directory s stage \<longleftrightarrow> life_journal directory s \<and> jget (fst s) ''stage'' = JStr stage"

lemma life_clean_fails:
  assumes "life_clean dr policy directory s = (Inl x, s')"
  shows "x = OSError \<or> x = Failure 69 ''lifecycle-cleanup-failed'' \<and> life_stage directory s' ''cleanup-failed''"
proof -
  let ?save = "\<lambda>y. life_save directory [(''stage'', JStr ''cleanup-failed''), (''cleanup_failure'', JStr ''lifecycle-cleanup-failed''),
            (''cleanup_context'', failure_context dr y)]"
  obtain r s1 where a: "life_save directory [(''stage'', JStr ''cleaning'')] s = (r, s1)" by (metis surj_pair)
  show ?thesis
  proof (cases r)
    case (Inl y)
    with a assms life_not_saved [OF a [unfolded Inl]] show ?thesis by (simp add: life_clean_def bindM_def)
  next
    case (Inr u)
    obtain q s2 where d: "drv_cleanup dr policy directory s1 = (q, s2)" by (metis surj_pair)
    with Inr a assms obtain y where q: "q = Inl y"
      by (cases q) (auto simp: life_clean_def bindM_def catchM_def)
    obtain z s3 where v: "?save y s2 = (z, s3)" by (metis surj_pair)
    show ?thesis
    proof (cases z)
      case (Inl o)
      with a Inr d q v assms life_not_saved [OF v [unfolded Inl]] show ?thesis
        by (simp add: life_clean_def bindM_def catchM_def)
    next
      case (Inr u')
      with a \<open>r = Inr u\<close> d q v assms life_saved [OF v [unfolded Inr]] show ?thesis
        by (auto simp: life_clean_def bindM_def catchM_def raiseM_def life_stage_def merged_three)
    qed
  qed
qed

lemma life_end_passes:
  assumes "life_end directory failed deferred s = (Inr reply, s')"
  shows "\<not> failed" and "jget reply ''stage'' = JStr (if deferred then ''deferred-cleaned'' else ''complete'')"
    and "life_journal directory s'" and "jget (fst s') ''stage'' = jget reply ''stage''"
    and "jget (fst s') ''run_id'' = jget reply ''run_id''" and "jget (fst s') ''cleanup_failure'' = JNull"
    and "\<not> deferred \<Longrightarrow> truthy (jget (fst s') ''certified'')"
proof -
  let ?stage = "if failed then ''failed-cleaned'' else if deferred then ''deferred-cleaned'' else ''complete''"
  obtain c s1 where a: "(if ?stage = ''complete'' then idx (fst s) ''certified'' else Inr (JBool True)) = Inr c" "truthy c"
     "life_save directory [(''stage'', JStr ?stage), (''cleanup_failure'', JNull)] s = (Inr (), s1)"
     "(if failed then raiseM (Failure 69 ''lifecycle-failed-and-cleaned'')
      else bindM recall (\<lambda>state.
        ret (JObj [(''ok'', JBool True), (''stage'', JStr ?stage), (''run_id'', jget state ''run_id''), (''release_signed'', JBool False)]))) s1
        = (Inr reply, s')"
    using assms by (auto simp: life_end_def Let_def bindM_eq_iff requireM_eq_iff recall_def simp del: if_split split del: if_split)
  show f: "\<not> failed" using a(4) by (auto simp: raiseM_def)
  then have r: "reply = JObj [(''ok'', JBool True), (''stage'', JStr ?stage), (''run_id'', jget (fst s1) ''run_id''), (''release_signed'', JBool False)]"
    "s' = s1" using a(4) by (auto simp: bindM_def recall_def ret_def split del: if_split)
  note l = life_saved [OF a(3)]
  have q: "jget reply ''stage'' = JStr ?stage" "jget reply ''run_id'' = jget (fst s1) ''run_id''"
    by (simp_all add: r(1) jget_def [of "JObj kvs" for kvs] split del: if_split)
  show "jget reply ''stage'' = JStr (if deferred then ''deferred-cleaned'' else ''complete'')"
    and "life_journal directory s'" and "jget (fst s') ''stage'' = jget reply ''stage''"
    and "jget (fst s') ''run_id'' = jget reply ''run_id''" and "jget (fst s') ''cleanup_failure'' = JNull"
    using r(2) l f q by (simp_all add: merged_fields)
  show "truthy (jget (fst s') ''certified'')" if "\<not> deferred"
  proof -
    from a(1,2) f that have "idx (fst s) ''certified'' = Inr c" by simp
    then have "jget (fst s) ''certified'' = c" by (cases "fst s") (auto simp: jget_def split: option.splits)
    with a(2) r l show ?thesis by (simp add: merged_fields)
  qed
qed

lemma life_end_fails:
  assumes "life_end directory failed deferred s = (Inl x, s')"
    and "x = Failure 69 ''lifecycle-failed-and-cleaned'' \<or> x = Failure 69 ''lifecycle-cleanup-failed''"
  shows "x = Failure 69 ''lifecycle-failed-and-cleaned'' \<and> failed \<and> life_stage directory s' ''failed-cleaned''"
proof -
  let ?stage = "if failed then ''failed-cleaned'' else if deferred then ''deferred-cleaned'' else ''complete''"
  let ?r = "if ?stage = ''complete'' then idx (fst s) ''certified'' else Inr (JBool True)"
  let ?sv = "life_save directory [(''stage'', JStr ?stage), (''cleanup_failure'', JNull)]"
  let ?last = "if failed then raiseM (Failure 69 ''lifecycle-failed-and-cleaned'')
      else bindM recall (\<lambda>state.
        ret (JObj [(''ok'', JBool True), (''stage'', JStr ?stage), (''run_id'', jget state ''run_id''), (''release_signed'', JBool False)]))"
  have e: "life_end directory failed deferred s =
      bindM (liftE ?r) (\<lambda>c. requireM (truthy c) ''missing-lifecycle-certification'' 78 (bindM ?sv (\<lambda>_. ?last))) s"
    by (simp add: life_end_def Let_def bindM_def [of recall] recall_def split del: if_split)
  have k: "y = KeyError \<or> y = TypeError" if "idx v n = Inl y" for y v n
    using that by (cases v) (auto split: option.splits)
  obtain c where c: "?r = Inr c"
    using assms k by (cases ?r) (auto simp: e bindM_def liftE_def split: if_splits)
  obtain q s1 where q: "?sv s = (q, s1)" by (metis surj_pair)
  have "truthy c"
  proof (rule ccontr)
    assume "\<not> truthy c"
    with assms(1) c have "x = Failure 78 ''missing-lifecycle-certification''"
      by (simp add: e bindM_def liftE_def requireM_def raiseM_def split del: if_split)
    with assms(2) show False by auto
  qed
  then have l: "bindM ?sv (\<lambda>_. ?last) s = (Inl x, s')"
    using assms(1) c by (simp add: e bindM_def [of "liftE _"] liftE_def requireM_def split del: if_split)
  then obtain u where u: "q = Inr u" "?last s1 = (Inl x, s')"
  proof (cases q)
    case (Inl y)
    with q l have "y = x" by (simp add: bindM_def)
    with life_not_saved [OF q [unfolded Inl]] assms(2) show ?thesis by auto
  next
    case (Inr u)
    with q l that show ?thesis by (auto simp: bindM_def split del: if_split)
  qed
  then have f: "failed" "x = Failure 69 ''lifecycle-failed-and-cleaned''" "s1 = s'"
    by (auto simp: raiseM_def bindM_def recall_def ret_def split: if_splits)
  with life_saved [OF q [unfolded u(1)]] show ?thesis by (simp add: life_stage_def merged_fields)
qed

section \<open>The verdict\<close>


section \<open>A run that is let through completes\<close>

text \<open>The journal of the run in \<open>d\<close> can be written.\<close>

definition calm :: "path \<Rightarrow> json \<times> 'x world \<Rightarrow> bool" where
  "calm d s \<longleftrightarrow> faults (snd s) = [] \<and> (\<exists>m u. files (snd s) d = Some (NDir m u)) \<and>
     (files (snd s) (d @ [''lifecycle.json'']) = None \<or> (\<exists>c m u. files (snd s) (d @ [''lifecycle.json'']) = Some (NFile c m u)))"

lemma calm_save:
  assumes "calm d s"
  obtains s' where "life_save d values s = (Inr (), s')" "calm d s'" "fst s' = merged (fst s) (JObj values)"
proof -
  let ?p = "d @ [''lifecycle.json'']" and ?v = "merged (fst s) (JObj values)"
  have d: "is_dir_at (files (snd s)) d" using assms by (auto simp: is_dir_at_def calm_def node_at_plain)
  have p: "\<not> is_dir_at (files (snd s)) ?p"
    using assms by (auto simp: is_dir_at_def calm_def node_at_def follow_absent follow_plain is_link_at_def)
  have f: "faults (snd s) = []" using assms by (simp add: calm_def)
  have l: "life_save d values s = (Inr (), (?v, (snd s)\<lparr>files := (files (snd s))(?p \<mapsto> NFile (canonical ?v) 384 (euid (snd s)))\<rparr>))"
    using d p f by (simp add: life_save_def journal_save_def bindM_def remember_def recall_def outside_def atomicM_def Let_def)
  show ?thesis by (rule that [OF l]) (use assms in \<open>auto simp: calm_def\<close>)
qed

text \<open>A step that passes from every state in which the journal can be written, and leaves it so.\<close>

definition lets_through :: "path \<Rightarrow> (json, 'x, unit) process \<Rightarrow> bool" where
  "lets_through d m \<longleftrightarrow> (\<forall>s. calm d s \<longrightarrow> (\<exists>s'. m s = (Inr (), s') \<and> calm d s'))"

lemma lets_throughE:
  assumes "lets_through d m" and "calm d s"
  obtains s' where "m s = (Inr (), s')" "calm d s'"
  using assms unfolding lets_through_def by blast

text \<open>
  C31 (a lifecycle completes): when the window is open, the preparation, the certification and the
  cleanup pass and the journal can be written all along, then the run is not only not refused: it returns the reply
  that it is complete, and the journal on disk says so. The cleanup must not take the certification back.
\<close>

theorem lifecycle_completes:
  assumes "lets_through d (drv_prepare dr policy d)" and "lets_through d (drv_certify dr policy d)"
    and "lets_through d (drv_cleanup dr policy d)"
    and "\<And>s u s'. drv_cleanup dr policy d s = (Inr u, s') \<Longrightarrow> idx (fst s) ''certified'' = Inr (JBool True) \<Longrightarrow>
      idx (fst s') ''certified'' = Inr (JBool True)"
    and "\<And>s. calm d s \<Longrightarrow> window_again e policy grant_path s = (Inr True, s)" and "calm d s"
  shows "\<exists>reply s'. life_body e dr policy d False grant_path s = (Inr reply, s') \<and>
    jget reply ''stage'' = JStr ''complete'' \<and> life_stage d s' ''complete''"
proof -
  from calm_save [OF assms(6), of "[(''stage'', JStr ''provisioning'')]"] obtain s1 where
    1: "life_save d [(''stage'', JStr ''provisioning'')] s = (Inr (), s1)" "calm d s1" by blast
  from lets_throughE [OF assms(1) 1(2)] obtain p where p: "drv_prepare dr policy d s1 = (Inr (), p)" "calm d p" by blast
  from calm_save [OF p(2), of "[(''stage'', JStr ''enrolled'')]"] obtain s2 where
    2: "life_save d [(''stage'', JStr ''enrolled'')] p = (Inr (), s2)" "calm d s2" by blast
  note w = assms(5) [OF 2(2)]
  from calm_save [OF 2(2), of "[(''stage'', JStr ''certifying'')]"] obtain s3 where
    3: "life_save d [(''stage'', JStr ''certifying'')] s2 = (Inr (), s3)" "calm d s3" by blast
  from lets_throughE [OF assms(2) 3(2)] obtain c where c: "drv_certify dr policy d s3 = (Inr (), c)" "calm d c" by blast
  from calm_save [OF c(2), of "[(''certified'', JBool True)]"] obtain s4 where
    4: "life_save d [(''certified'', JBool True)] c = (Inr (), s4)" "calm d s4"
      "fst s4 = merged (fst c) (JObj [(''certified'', JBool True)])" by blast
  from calm_save [OF 4(2), of "[(''stage'', JStr ''cleaning'')]"] obtain s5 where
    5: "life_save d [(''stage'', JStr ''cleaning'')] s4 = (Inr (), s5)" "calm d s5"
      "fst s5 = merged (fst s4) (JObj [(''stage'', JStr ''cleaning'')])" by blast
  have "idx (fst s5) ''certified'' = Inr (JBool True)"
    by (simp add: 4(3) 5(3) merged_def update_def jset_def update_conv')
  moreover from lets_throughE [OF assms(3) 5(2)] obtain q where q: "drv_cleanup dr policy d s5 = (Inr (), q)" "calm d q" by blast
  ultimately have cq: "idx (fst q) ''certified'' = Inr (JBool True)" using assms(4) by blast
  from calm_save [OF q(2), of "[(''stage'', JStr ''complete''), (''cleanup_failure'', JNull)]"] obtain s6 where
    6: "life_save d [(''stage'', JStr ''complete''), (''cleanup_failure'', JNull)] q = (Inr (), s6)" by blast
  define reply where "reply = JObj [(''ok'', JBool True), (''stage'', JStr ''complete''), (''run_id'', jget (fst s6) ''run_id''), (''release_signed'', JBool False)]"
  have run: "life_run e dr policy d grant_path s = (Inr (False, False), s4)"
    by (simp add: life_run_def catchM_def bindM_def 1(1) p(1) 2(1) w 3(1) c(1) 4(1) ret_def)
  have "life_body e dr policy d False grant_path s = (Inr reply, s6)"
    by (simp add: life_body_def bindM_def run life_clean_def catchM_def 5(1) q(1) ret_def life_end_def Let_def recall_def liftE_def cq
        requireM_def 6 reply_def)
  moreover have "jget reply ''stage'' = JStr ''complete''" by (simp add: reply_def jget_def)
  moreover have "life_stage d s6 ''complete''" using life_saved [OF 6] by (simp add: life_stage_def merged_fields)
  ultimately show ?thesis by blast
qed

section \<open>A run that passes\<close>

definition smooth :: "nat driver" where
  "smooth = \<lparr>drv_prepare = (\<lambda>policy d. ret ()), drv_certify = (\<lambda>policy d. ret ()), drv_cleanup = (\<lambda>policy d. ret ()),
     located = (\<lambda>x. JList []), today_slot = (\<lambda>w. ''2026-01-01''), token = (\<lambda>w. replicate 64 CHR ''a''), uid_of = (\<lambda>n w. Some 8)\<rparr>"

definition life_begin :: "json \<times> nat world" where
  "life_begin = (JObj [(''run_id'', JStr ''r''), (''stage'', JStr ''starting''), (''certified'', JBool False)],
     \<lparr>files = map_of [([], NDir 493 0), ([''d''], NDir 457 0)], euid = 0, busy = [], faults = [], ext = 0\<rparr>)"

definition sunday_env :: "nat env" where
  "sunday_env = lab_env\<lparr>wall := \<lambda>w. 6 * day_us + 3 * hour_us\<rparr>"

lemma smooth_steps:
  "drv_prepare smooth = (\<lambda>policy d. ret ())" "drv_certify smooth = (\<lambda>policy d. ret ())" "drv_cleanup smooth = (\<lambda>policy d. ret ())"
  by (simp_all add: smooth_def)

lemma sunday_window: "window_again sunday_env JNull None s = (Inr True, s)"
  by (simp add: window_again_def bindM_def outside_def getsM_def ret_def sunday_env_def
      maintenance_open_def weekday_def hour_def window_end_def day_us_def hour_us_def second_us_def)

lemma calm_begin: "calm [''d''] life_begin"
  by (simp add: calm_def life_begin_def)

theorem lifecycle_completes_witness:
  "\<exists>reply s'. life_body sunday_env smooth JNull [''d''] False None life_begin = (Inr reply, s') \<and>
    jget reply ''stage'' = JStr ''complete'' \<and> life_stage [''d''] s' ''complete''"
  by (rule lifecycle_completes)
    (simp_all add: smooth_steps sunday_window calm_begin lets_through_def ret_def)

text \<open>A driver whose cleanup fails: the verdict is that it could not be cleaned.\<close>

definition stuck :: "nat driver" where
  "stuck = smooth\<lparr>drv_cleanup := \<lambda>policy d. raiseM OSError\<rparr>"


end
