(* ===== verification/MaintenanceFacts.thy ===== *)
theory MaintenanceFacts
  imports Maintenance
begin

text \<open>
  Facts on events and their delivery: every event that is published has the fixed form that the desktop
  accepts, publishing the same outcome again changes nothing, and an event is delivered once.
\<close>

section \<open>The form of an event\<close>

definition well_formed :: "(string \<Rightarrow> string) \<Rightarrow> json \<Rightarrow> bool" where
  "well_formed h v \<longleftrightarrow> notification_ok v = Inr True \<and> jget v ''event_id'' = JStr (event_digest h v)"

lemma sha_digest: "hex_digests e \<Longrightarrow> match_count is_hex 64 (sha256 e x)"
  by (simp add: hex_digests_def match_count_def)

lemma event_value_shape:
  "event_value h outcome code now rel =
     JObj [(''schema'', JStr ''hermes-event-v1''), (''outcome'', JStr outcome), (''code'', JInt code),
        (''timestamp'', JInt now), (''release'', rel),
        (''event_id'', JStr (h (canonical (JObj [(''schema'', JStr ''hermes-event-v1''), (''outcome'', JStr outcome),
           (''code'', JInt code), (''timestamp'', JInt now), (''release'', rel)]))))]"
  by (simp add: event_value_def Let_def jset_def)

lemma jsort_event:
  "jsort (JObj [(''schema'', s), (''outcome'', a), (''code'', c), (''timestamp'', t), (''release'', r), (''event_id'', i)]) =
     JObj [(''code'', jsort c), (''event_id'', jsort i), (''outcome'', jsort a), (''release'', jsort r), (''schema'', jsort s),
       (''timestamp'', jsort t)]"
  by code_simp

lemma jsort_value:
  "jsort (JObj [(''schema'', s), (''outcome'', a), (''code'', c), (''timestamp'', t), (''release'', r)]) =
     JObj [(''code'', jsort c), (''outcome'', jsort a), (''release'', jsort r), (''schema'', jsort s), (''timestamp'', jsort t)]"
  by code_simp

lemma plain_event:
  assumes "hex_digests e" and "outcome \<in> set OUTCOMES" and "0 \<le> code" "code \<le> 255" and "\<bar>now\<bar> < 10 ^ 20"
    and "rel = JNull \<or> (\<exists>x. rel = JStr (sha256 e x))"
  shows "plain (event_value (sha256 e) outcome code now rel)"
proof -
  have "ascii_only outcome" using assms(2) by (auto simp: OUTCOMES_def)
  moreover have "ascii_only (sha256 e x)" for x by (rule ascii_hex [OF sha_digest [OF assms(1)]])
  moreover have "plain (JInt now)" by (rule plain_JInt [OF assms(5)])
  moreover have "plain (JInt code)" by (rule plain_JInt) (use assms(3,4) in simp)
  ultimately show ?thesis using assms(6) unfolding event_value_shape by (auto simp: plain_JObj_iff)
qed

lemma event_read_back:
  assumes "hex_digests e" and "outcome \<in> set OUTCOMES" and "0 \<le> code" "code \<le> 255" and "0 < now" "now < 10 ^ 20"
    and "rel = JNull \<or> (\<exists>x. rel = JStr (sha256 e x))"
  defines "v \<equiv> jsort (event_value (sha256 e) outcome code now rel)"
  shows "decode (canonical (event_value (sha256 e) outcome code now rel)) = Inr v"
    and "well_formed (sha256 e) v" and "same_event v outcome code rel"
proof -
  let ?v = "event_value (sha256 e) outcome code now rel"
  have "\<bar>now\<bar> < 10 ^ 20" using assms(5,6) by simp
  from decode_canonical [OF plain_event [OF assms(1-4) this assms(7)]]
  show "decode (canonical ?v) = Inr v" by (simp add: v_def)
  have r: "jsort rel = rel" using assms(7) by auto
  define i where "i = sha256 e (canonical (JObj [(''schema'', JStr ''hermes-event-v1''), (''outcome'', JStr outcome),
           (''code'', JInt code), (''timestamp'', JInt now), (''release'', rel)]))"
  have v: "v = JObj [(''code'', JInt code), (''event_id'', JStr i), (''outcome'', JStr outcome), (''release'', rel),
      (''schema'', JStr ''hermes-event-v1''), (''timestamp'', JInt now)]"
    unfolding v_def event_value_shape jsort_event i_def by (simp add: r)
  show "same_event v outcome code rel" unfolding v by (simp add: same_event_def jget_def)
  have d: "event_digest (sha256 e) v = i"
    unfolding v event_digest_def i_def canonical_def jsort_value by (simp add: pop_key_def jsort_value r)
  have f: "fields_are v EVENT_FIELDS" unfolding v by (simp add: fields_are_def keys_of_def EVENT_FIELDS_def same_set_iff) auto
  have "rel = JNull \<or> sha rel" using assms(7) sha_digest [OF assms(1)] by (auto simp: sha_def)
  moreover have "match_count is_hex 64 i" unfolding i_def by (rule sha_digest [OF assms(1)])
  ultimately show "well_formed (sha256 e) v"
    unfolding well_formed_def d using f assms(2-5) by (simp add: notification_ok_def v jget_def sha_def)
qed

section \<open>Publishing\<close>

definition event_file :: "(string \<Rightarrow> string) \<Rightarrow> node option \<Rightarrow> bool" where
  "event_file h n \<longleftrightarrow> (\<forall>c m u. n = Some (NFile c m u) \<longrightarrow> (\<exists>v. decode c = Inr v \<and> well_formed h v))"

definition sane_clock :: "'x env \<Rightarrow> bool" where
  "sane_clock e \<longleftrightarrow> (\<forall>w. 0 < clock e w \<and> clock e w < 10 ^ 20)"

interpretation events: guarantee "\<lambda>w w'. event_file h (files w p) \<longrightarrow> event_file h (files w' p)" for h p
  by unfold_locales auto

lemma release_field_hex: "release_field (sha256 e) rel = JNull \<or> (\<exists>x. release_field (sha256 e) rel = JStr (sha256 e x))"
  by (auto simp: release_field_def split: option.splits)

lemma event_written:
  assumes "hex_digests e" "sane_clock e" and "outcome \<in> set OUTCOMES" "0 \<le> code" "code \<le> 255"
  shows "moves (\<lambda>w w'. event_file (sha256 e) (files w p) \<longrightarrow> event_file (sha256 e) (files w' p))
     (atomicM p (canonical (event_value (sha256 e) outcome code (clock e w0) (release_field (sha256 e) rel))))"
proof -
  have "0 < clock e w0" "clock e w0 < 10 ^ 20" using assms(2) by (auto simp: sane_clock_def)
  from event_read_back [OF assms(1,3-5) this release_field_hex]
  show ?thesis by (auto simp: moves_def atomicM_def Let_def event_file_def)
qed

lemma event_chmod: "moves (\<lambda>w w'. event_file h (files w p) \<longrightarrow> event_file h (files w' p)) (chmodM p m)"
proof (rule movesI, rule impI)
  fix w r w' assume c: "chmodM p m w = (r, w')" and e: "event_file h (files w p)"
  show "event_file h (files w' p)"
  proof (cases "files w p")
    case None
    with c have "w' = w" by (simp add: chmodM_def updateM_def follow_absent)
    with e show ?thesis by simp
  next
    case (Some n)
    show ?thesis
    proof (cases n)
      case (NFile x y z)
      with Some e show ?thesis using chmodM_file [of w p x y z m] c by (auto simp: event_file_def)
    next
      case (NDir x y)
      with Some c show ?thesis by (auto simp: chmodM_def updateM_def follow_plain is_link_at_def event_file_def)
    next
      case (NLink t)
      with Some c show ?thesis
        by (auto simp: chmodM_def updateM_def event_file_def split: option.splits if_splits)
    qed
  qed
qed

lemma publish_locked_events:
  assumes "hex_digests e" "sane_clock e" and "outcome \<in> set OUTCOMES" "0 \<le> code" "code \<le> 255"
  shows "moves (\<lambda>w w'. event_file (sha256 e) (files w (d @ [''latest.json''])) \<longrightarrow> event_file (sha256 e) (files w' (d @ [''latest.json''])))
    (publish_locked e d outcome code rel)"
proof -
  have x: "moves (\<lambda>w w'. event_file h (files w q) \<longrightarrow> event_file h (files w' q)) (existsM p)"
    "moves (\<lambda>w w'. event_file h (files w q) \<longrightarrow> event_file h (files w' q)) (read_event p)" for h p q
  proof -
    have "moves (\<lambda>w w'. event_file h (files w q) \<longrightarrow> event_file h (files w' q)) (read_protectedM p None)"
      by (rule moves_mono [OF keeps_reads(6) [of q]]) simp
    then show "moves (\<lambda>w w'. event_file h (files w q) \<longrightarrow> event_file h (files w' q)) (read_event p)"
      unfolding read_event_def by (intro events.moves_bind events.moves_pure events.moves_require)
  qed (simp add: moves_def existsM_def)
  show ?thesis
    unfolding publish_locked_def Let_def
    by (intro events.moves_bind x moves_gets event_written [OF assms] event_chmod events.moves_pure events.moves_if)
qed

lemma read_event_Inr:
  "read_event p w = (Inr v, w') \<longleftrightarrow> w' = w \<and> is_dict v \<and>
     (\<exists>c. protected_file (files w) p None = Inr p \<and> read_bytes (files w) p = Inr c \<and> decode c = Inr v)"
  by (auto simp: read_event_def bindM_eq_iff read_protectedM_Inr requireM_eq_iff)

lemma publish_locked_Inr:
  assumes "hex_digests e" "sane_clock e" and "outcome \<in> set OUTCOMES" "0 \<le> code" "code \<le> 255"
    and "publish_locked e d outcome code rel w = (Inr v, w')"
  defines "p \<equiv> d @ [''latest.json'']"
  shows "\<exists>c m u x. files w' p = Some (NFile c m u) \<and> m AND 18 = 0 \<and> decode c = Inr x \<and> is_dict x \<and>
    same_event x outcome code (release_field (sha256 e) rel) \<and> canonical x = canonical v"
proof -
  let ?r = "release_field (sha256 e) rel"
  have c: "0 < clock e w0" "clock e w0 < 10 ^ 20" for w0 using assms(2) by (auto simp: sane_clock_def)
  consider (old) "same_event v outcome code ?r" "read_event p w = (Inr v, w')"
    | (new) w1 w2 where "v = event_value (sha256 e) outcome code (clock e w1) ?r" "atomicM p (canonical v) w1 = (Inr (), w2)"
        "chmodM p 420 w2 = (Inr (), w')"
    using assms(6) unfolding publish_locked_def Let_def p_def [symmetric]
    by (auto simp: bindM_eq_iff existsM_Inr same_event_def jget_def split: if_splits)
  then show ?thesis
  proof cases
    case old
    then show ?thesis
      by (auto simp: read_event_Inr protected_file_iff intro!: exI [of _ v])
  next
    case new
    have "files w2 p = Some (NFile (canonical v) 384 (euid w1))" using new(2) by (auto simp: atomicM_def Let_def split: if_splits)
    with new(3) have f: "files w' p = Some (NFile (canonical v) 420 (euid w1))" by (auto simp: chmodM_file)
    note rb = event_read_back [OF assms(1,3-5) c release_field_hex, of w1 rel, folded new(1)]
    have m: "(420 :: nat) AND 18 = 0" by code_simp
    have "is_dict (jsort v)" unfolding new(1) event_value_shape jsort_event by simp
    with f m rb show ?thesis by (auto simp: canonical_def)
  qed
qed

text \<open>The form of the file is kept, and what was published can be published again without any change.\<close>

lemma publish_Inr:
  "publish e d outcome code rel w = (Inr v, w') \<longleftrightarrow> outcome \<in> set OUTCOMES \<and> 0 \<le> code \<and> code \<le> 255 \<and>
     event_directory_ok (files w) (euid w) d \<and> lockM (d @ [''.event.lock'']) (publish_locked e d outcome code rel) w = (Inr v, w')"
  by (auto simp: publish_def requireM_eq_iff bindM_eq_iff)


section \<open>Delivery\<close>

lemma mkdir_chain_plain:
  assumes "mkdir_chain u m ds fs = Inr fs'" and "\<And>q. q \<in> set ds \<Longrightarrow> \<not> is_link_at fs q"
  shows "\<forall>q \<in> set ds. \<exists>x y. fs' q = Some (NDir x y)" and "fs \<subseteq>\<^sub>m fs'"
proof -
  have "(\<forall>q \<in> set ds. \<exists>x y. fs' q = Some (NDir x y)) \<and> fs \<subseteq>\<^sub>m fs'"
    using assms
  proof (induction ds arbitrary: fs)
    case (Cons d ds)
    show ?case
    proof (cases "is_dir_at fs d")
      case True
      then have "mkdir_chain u m ds fs = Inr fs'" using Cons.prems(1) by simp
      from Cons.IH [OF this Cons.prems(2)] have IH: "(\<forall>q \<in> set ds. \<exists>x y. fs' q = Some (NDir x y)) \<and> fs \<subseteq>\<^sub>m fs'" by simp
      have "\<exists>x y. fs d = Some (NDir x y)"
        using True Cons.prems(2) [of d]
        by (cases "fs d") (auto simp: is_dir_at_def node_at_def follow_absent follow_plain is_link_at_def elim!: is_dirn.elims split: option.splits)
      with IH show ?thesis by (auto simp: map_le_def dom_def)
    next
      case False
      let ?fs = "fs(d \<mapsto> NDir (if ds = [] then m else 493) u)"
      from False Cons.prems(1) have n: "fs d = None" and c: "mkdir_chain u m ds ?fs = Inr fs'" by (auto split: if_splits)
      have "\<not> is_link_at ?fs q" if "q \<in> set ds" for q using Cons.prems(2) [of q] that by (auto simp: is_link_at_def)
      then have IH: "(\<forall>q \<in> set ds. \<exists>x y. fs' q = Some (NDir x y)) \<and> ?fs \<subseteq>\<^sub>m fs'" by (rule Cons.IH [OF c])
      moreover have "fs' d = ?fs d" using IH unfolding map_le_def by (metis domI fun_upd_same)
      moreover have "fs \<subseteq>\<^sub>m fs'"
        by (rule map_le_trans [OF _ IH [THEN conjunct2]]) (use n in \<open>auto simp: map_le_def\<close>)
      ultimately show ?thesis by simp
    qed
  qed simp
  then show "\<forall>q \<in> set ds. \<exists>x y. fs' q = Some (NDir x y)" and "fs \<subseteq>\<^sub>m fs'" by blast+
qed

lemma mkdir_chain_present:
  "(\<And>q. q \<in> set ds \<Longrightarrow> \<exists>x y. fs q = Some (NDir x y)) \<Longrightarrow> mkdir_chain u m ds fs = Inr fs"
proof (induction ds)
  case (Cons d ds)
  then obtain x y where "fs d = Some (NDir x y)" by (meson list.set_intros(1))
  then have "is_dir_at fs d" by (simp add: is_dir_at_def node_at_plain)
  with Cons show ?case by simp
qed simp

lemma read_text_hex:
  assumes "fs p = Some (NFile t m u)" and "match_count is_hex 64 t"
  shows "read_text fs p = Inr t"
proof -
  have a: "ascii_only t" by (rule ascii_hex [OF assms(2)])
  moreover have "list_all (\<lambda>c. c \<noteq> CHR 0x0D) t"
    using assms(2) by (auto simp: match_count_def is_hex_def elim!: list.pred_mono_strong)
  ultimately show ?thesis using assms(1) by (simp add: read_text_def ascii_text)
qed

text \<open>What a delivery that returned has done, and what makes the next one return at once.\<close>

definition delivered :: "path \<Rightarrow> string \<Rightarrow> 'x world \<Rightarrow> bool" where
  "delivered d event_id w \<longleftrightarrow> (\<exists>c m u. files w (d @ [''seen'']) = Some (NFile c m u) \<and> m AND 18 = 0 \<and>
     read_text (files w) (d @ [''seen'']) = Inr event_id)"

lemma deliver_locked_seen:
  assumes "delivered d event_id w"
  shows "deliver_locked e d outcome event_id w = (Inr (notified False), w)"
proof -
  let ?p = "d @ [''seen'']"
  obtain c m u where f: "files w ?p = Some (NFile c m u)" "m AND 18 = 0" and r: "read_text (files w) ?p = Inr event_id"
    using assms by (auto simp: delivered_def)
  have "protected_file (files w) ?p None = Inr ?p" using f by (simp add: protected_file_iff)
  moreover have "exists_at (files w) ?p" using f(1) by (simp add: exists_at_def node_at_plain)
  ultimately show ?thesis
    using r by (simp add: deliver_locked_def Let_def bindM_def existsM_def protectedM_def read_textM_def ret_def)
qed

definition only_shows :: "'x env \<Rightarrow> bool" where
  "only_shows e \<longleftrightarrow> (\<forall>m w. let w' = snd (cmd e (notify_args m) None w) in
     files w' = files w \<and> euid w' = euid w \<and> busy w' = busy w)"

lemma deliver_locked_Inr:
  assumes "only_shows e" and "match_count is_hex 64 event_id" and "deliver_locked e d outcome event_id w = (Inr x, w')"
  shows "delivered d event_id w'" and "euid w' = euid w \<and> busy w' = busy w" and "q \<noteq> d @ [''seen''] \<Longrightarrow> files w' q = files w q"
proof -
  let ?p = "d @ [''seen'']"
  have r: "files w2 = files w1 \<and> euid w2 = euid w1 \<and> busy w2 = busy w1" if "runM (cmd e) (notify_args m) None w1 = (Inr y, w2)" for m y w1 w2
    using assms(1) [unfolded only_shows_def, THEN spec [of _ m], THEN spec [of _ w1]] that
    by (auto simp: runM_def Let_def split: prod.splits outcome.splits if_splits)
  consider (old) "w' = w" "exists_at (files w) ?p" "protected_file (files w) ?p None = Inr ?p" "read_text (files w) ?p = Inr event_id"
    | (new) w2 where "files w2 = files w \<and> euid w2 = euid w \<and> busy w2 = busy w" "atomicM ?p event_id w2 = (Inr (), w')"
    using assms(3) unfolding deliver_locked_def Let_def
    by (auto simp: bindM_eq_iff existsM_Inr protectedM_def protected_file_iff read_textM_def split: if_splits option.splits dest!: r)
  then have "delivered d event_id w' \<and> euid w' = euid w \<and> busy w' = busy w \<and> (q \<noteq> ?p \<longrightarrow> files w' q = files w q)"
  proof cases
    case old
    then show ?thesis by (auto simp: delivered_def protected_file_iff)
  next
    case new
    then have f: "files w' = (files w)(?p \<mapsto> NFile event_id 384 (euid w))" and s: "euid w' = euid w" "busy w' = busy w"
      by (auto simp: atomicM_def Let_def split: if_splits)
    have "read_text (files w') ?p = Inr event_id" by (rule read_text_hex [OF _ assms(2)]) (simp add: f)
    moreover have "(384 :: nat) AND 18 = 0" by code_simp
    ultimately show ?thesis using s by (simp add: delivered_def f)
  qed
  then show "delivered d event_id w'" and "euid w' = euid w \<and> busy w' = busy w" and "q \<noteq> ?p \<Longrightarrow> files w' q = files w q" by blast+
qed

text \<open>The part of \<^verbatim>\<open>deliver\<close> after the checks of the event.\<close>

definition deliver_event :: "'x env \<Rightarrow> path \<Rightarrow> string \<Rightarrow> string \<Rightarrow> ('x world, json) prog" where
  "deliver_event e d outcome event_id =
     bindM (mkdir_allM d 448) (\<lambda>_.
     bindM (getsM (\<lambda>w. state_directory_ok (files w) (euid w) d)) (\<lambda>ok.
     requireM ok ''unsafe-notification-state'' 78 (
     lockM (d @ [''notify.lock'']) (deliver_locked e d outcome event_id))))"

definition event_checked :: "'x env \<Rightarrow> fsys \<Rightarrow> path \<Rightarrow> json \<Rightarrow> bool" where
  "event_checked e fs event value \<longleftrightarrow> (\<exists>c m u. fs event = Some (NFile c m u) \<and> m AND 18 = 0 \<and> length c \<le> 4096 \<and>
     decode c = Inr value \<and> well_formed (sha256 e) value)"

lemma deliver_checked:
  fixes e :: "'x env"
  assumes "event_checked e (files w) event value"
  shows "deliver e event d w = deliver_event e d (str_of (jget value ''outcome'')) (str_of (jget value ''event_id'')) w"
proof -
  obtain c m u where f: "files w event = Some (NFile c m u)" "m AND 18 = 0" "length c \<le> 4096" and
    v: "decode c = Inr value" "notification_ok value = Inr True" "jget value ''event_id'' = JStr (event_digest (sha256 e) value)"
    using assms by (auto simp: event_checked_def well_formed_def)
  have "protected_file (files w) event None = Inr event" using f by (simp add: protected_file_iff)
  moreover have "node_at (files w) event = Some (NFile c m u)" using f(1) by (simp add: node_at_plain)
  moreover have "requireM True r n k = k" for r n and k :: "('x world, json) prog" by (simp add: requireM_def)
  ultimately show ?thesis
    using f v by (simp add: deliver_def deliver_event_def bindM_def existsM_def exists_at_def statM_def small_file_def
        read_protectedM_def protectedM_def readM_def liftE_def)
qed

lemma deliver_checks:
  assumes "deliver e event d w = (Inr x, w')" and "exists_at (files w) event"
  obtains ev0 where "event_checked e (files w) event ev0"
proof -
  from assms obtain n c ev0 where "node_at (files w) event = Some n" "small_file n"
    "protected_file (files w) event None = Inr event" "read_bytes (files w) event = Inr c" "decode c = Inr ev0"
    "notification_ok ev0 = Inr True" "jget ev0 ''event_id'' = JStr (event_digest (sha256 e) ev0)"
    by (auto simp: deliver_def bindM_eq_iff existsM_Inr statM_Inr read_protectedM_Inr requireM_eq_iff)
  then have "event_checked e (files w) event ev0"
    by (auto simp: event_checked_def protected_file_iff well_formed_def small_file_def node_at_plain)
  then show ?thesis by (rule that)
qed

text \<open>
  C24 (one notification for an event): once \<^verbatim>\<open>deliver\<close> has returned, delivering the same event again returns at
  once, changes nothing and runs no command, whatever the commands would do; the only program it runs,
  \<^verbatim>\<open>notify-send\<close>, is taken to show the message and nothing else.
\<close>

theorem deliver_once:
  assumes "only_shows e" and "event \<noteq> d @ [''seen'']" and "\<And>q. q \<in> set (prefixes d) \<Longrightarrow> \<not> is_link_at (files w) q"
    and "deliver e event d w = (Inr x, w')"
  shows "deliver (e\<lparr>cmd := c\<rparr>) event d w' = (Inr (notified False), w')"
proof (cases "exists_at (files w) event")
  case False
  with assms(4) have "w' = w" by (simp add: deliver_def bindM_def existsM_def ret_def)
  with False show ?thesis by (simp add: deliver_def bindM_def existsM_def ret_def)
next
  case True
  then obtain ev0 where v: "event_checked e (files w) event ev0" using assms(4) deliver_checks by blast
  let ?o = "str_of (jget ev0 ''outcome'')" and ?i = "str_of (jget ev0 ''event_id'')"
  let ?l = "d @ [''notify.lock'']"
  have i: "match_count is_hex 64 ?i"
    using v by (auto simp: event_checked_def well_formed_def notification_ok_def Let_def sha_def split: if_splits)
  from assms(4) obtain fs w2 where m: "mkdir_chain (euid w) 448 (prefixes d) (files w) = Inr fs"
    and ok: "state_directory_ok fs (euid w) d" and l: "opens_lock fs ?l" "?l \<notin> set (busy w)"
    and b: "deliver_locked e d ?o ?i (locked ?l (set_files fs w)) = (Inr x, w2)" and w': "w' = w2\<lparr>busy := remove1 ?l (busy w2)\<rparr>"
    unfolding deliver_checked [OF v] deliver_event_def
    by (auto simp: bindM_eq_iff requireM_eq_iff mkdir_allM_def lockM_Inr_iff split: sum.splits)
  note dl = deliver_locked_Inr [OF assms(1) i b]
  have fs: "files w' q = fs q" if "q \<noteq> d @ [''seen'']" "q \<noteq> ?l" for q
    using dl(3) [OF that(1)] that(2) by (simp add: w')
  note pl = mkdir_chain_plain [OF m assms(3)]
  have short: "q \<noteq> d @ [n]" if "q \<in> set (prefixes d)" for q n
    using that by (auto simp: prefixes_def simp del: upt_Suc dest: arg_cong [where f = length])
  have dirs: "\<exists>x y. files w' q = Some (NDir x y)" if "q \<in> set (prefixes d)" for q
    using pl(1) that fs [OF short [OF that] short [OF that]] by auto
  have dd: "d \<in> set (prefixes d)" by (simp add: prefixes_def)
  have same: "files w' event = files w event"
  proof -
    obtain c0 m0 u0 where e: "files w event = Some (NFile c0 m0 u0)" using v by (auto simp: event_checked_def)
    then have k: "fs event = files w event" using pl(2) by (metis domI map_le_def)
    have "files (locked ?l (set_files fs w)) event = fs event"
      using e k by (cases "event = ?l") (auto simp: locked_def with_lock_file_def)
    with dl(3) [OF assms(2)] k show ?thesis by (simp add: w')
  qed
  have v': "event_checked (e\<lparr>cmd := c\<rparr>) (files w') event ev0"
    using v same by (simp add: event_checked_def)
  have eu: "euid w' = euid w" and bu: "busy w' = busy w" using dl(2) by (simp_all add: w')
  have ok': "state_directory_ok (files w') (euid w') d"
    using ok fs [OF short [OF dd] short [OF dd]] pl(1) dd eu by (auto simp: state_directory_ok_def is_link_at_def node_at_plain)
  have lf: "files w' ?l = files (locked ?l (set_files fs w)) ?l" using dl(3) [of ?l] by (simp add: w')
  then have ln: "files w' ?l \<noteq> None" and lo: "opens_lock (files w') ?l"
    using l(1) by (auto simp: locked_def with_lock_file_def opens_lock_def split: option.splits)
  have lk: "files (locked ?l w') = files w'" using ln by (auto simp: locked_def with_lock_file_def)
  have "delivered d ?i (locked ?l w')" using dl(1) lk by (simp add: delivered_def w')
  from deliver_locked_seen [OF this, of "e\<lparr>cmd := c\<rparr>" ?o]
  have r: "lockM ?l (deliver_locked (e\<lparr>cmd := c\<rparr>) d ?o ?i) w' = (Inr (notified False), w')"
    using lo l(2) bu ln by (auto simp: lockM_Inr_iff locked_def with_lock_file_def)
  have mk: "mkdir_allM d 448 w' = (Inr (), w')"
    using mkdir_chain_present [OF dirs] by (simp add: mkdir_allM_def set_files_def)
  show ?thesis
    unfolding deliver_checked [OF v'] deliver_event_def using mk ok' r by (simp add: bindM_def getsM_def requireM_def)
qed

section \<open>A concrete event\<close>

definition event_env :: "nat env" where
  "event_env = \<lparr>sha256 = (\<lambda>s. replicate 64 CHR ''b''), cmd = (\<lambda>a d w. (Exited 0 [], w)), boot = (\<lambda>w. ''b''), clock = (\<lambda>w. 1000),
     rglob_rpm = (\<lambda>fs d. []), space = (\<lambda>p w. 0), account = (\<lambda>w. None), pause = (\<lambda>n w. w),
     source = [''s''], group = (\<lambda>p w. 0), wall = (\<lambda>w. 0), tar = (\<lambda>s. None), fresh = (\<lambda>w. ''x'')\<rparr>"

definition event_world :: "nat world" where
  "event_world = \<lparr>files = map_of [([], NDir 493 0), ([''v''], NDir 493 0), ([''n''], NDir 448 0)],
     euid = 0, busy = [], faults = [], ext = 0\<rparr>"

definition published :: "nat world" where
  "published = snd (publish event_env [''v''] ''completed'' 0 None event_world)"

lemma event_env_ok: "hex_digests event_env" "sane_clock event_env" "only_shows event_env"
proof -
  have "list_all is_hex (replicate 64 CHR ''b'')" by code_simp
  then show "hex_digests event_env" by (simp add: hex_digests_def event_env_def)
qed (simp_all add: sane_clock_def only_shows_def event_env_def)


theorem deliver_once_witness:
  "let w' = snd (deliver event_env [''v'', ''latest.json''] [''n''] published) in
   fst (deliver event_env [''v'', ''latest.json''] [''n''] published) = Inr (notified True) \<and>
   deliver (event_env\<lparr>cmd := \<lambda>a d w. (Unavailable, w)\<rparr>) [''v'', ''latest.json''] [''n''] w' = (Inr (notified False), w')"
proof -
  let ?w = "snd (deliver event_env [''v'', ''latest.json''] [''n''] published)"
  have r: "fst (deliver event_env [''v'', ''latest.json''] [''n''] published) = Inr (notified True)" by code_simp
  have d: "deliver event_env [''v'', ''latest.json''] [''n''] published = (Inr (notified True), ?w)"
    using r by (metis prod.collapse)
  have n: "[''v'', ''latest.json''] \<noteq> [''n''] @ [''seen'']" by simp
  have "list_all (\<lambda>q. \<not> is_link_at (files published) q) (prefixes [''n''])" by code_simp
  then have l: "\<not> is_link_at (files published) q" if "q \<in> set (prefixes [''n''])" for q using that by (simp add: list_all_iff)
  show ?thesis
    unfolding Let_def using r deliver_once [OF event_env_ok(3) n l d] by blast
qed

end
