(* ===== verification/Migration.thy ===== *)
theory Migration
  imports Fs
begin

text \<open>
  \<^verbatim>\<open>toolbox/generate-migration-manifest.py\<close>: the manifest that records, for every file of the working
  tree, its hash and mode, where it came from and how it was changed, with the identity of every input.
  \<^verbatim>\<open>git\<close>, \<^verbatim>\<open>shfmt\<close> and the hash are parameters; everything else is a function of the trees. A
  dictionary is an association list in insertion order.
\<close>

unbundle bit_operations_syntax

section \<open>Constants\<close>

definition BASE_COMMIT :: string where
  "BASE_COMMIT = ''de8fb8ba1ef8729e895e340ff6244232d3d2193e''"

definition REASONS_FILE :: string where
  "REASONS_FILE = ''docs/migration-adaptations.txt''"

definition OUTPUT_FILE :: string where
  "OUTPUT_FILE = ''docs/migration-manifest.txt''"

definition GENERATOR_VERSION :: string where
  "GENERATOR_VERSION = ''3''"

definition PAYLOAD_ALGORITHM :: string where
  "PAYLOAD_ALGORITHM = ''sha256-lines(path NUL dest_sha256 NUL dest_mode LF, path-sorted)''"

definition INVENTORY_ALGORITHM :: string where
  "INVENTORY_ALGORITHM = ''sha256(json object path -> {sha256, mode}, path-sorted, sort_keys, indent 2, trailing LF)''"

definition DIRTY_ALGORITHM :: string where
  "DIRTY_ALGORITHM = ''hermes-dirty-input-v3''"

definition PREVIOUS_DIRTY_ALGORITHM :: string where
  "PREVIOUS_DIRTY_ALGORITHM = ''hermes-dirty-input-v2''"

definition LEGACY_DIRTY_ALGORITHM :: string where
  "LEGACY_DIRTY_ALGORITHM = ''v1-changed-paths-with-file-bytes''"

definition UNREPORTED_MODE_STATUS :: string where
  "UNREPORTED_MODE_STATUS = '' M''"

definition COMPANION_SOURCES :: "(string \<times> string) list" where
  "COMPANION_SOURCES =
    [(''docs/reviews/HERMES_MANUAL_OFFLINE_REVIEW.md'', ''docs/HERMES_MANUAL_OFFLINE_REVIEW.md''),
     (''docs/reviews/HERMES_MANUAL_CORRECTION_REVIEW.md'', ''docs/HERMES_MANUAL_CORRECTION_REVIEW.md''),
     (''docs/reviews/HERMES_MANUAL_CORRECTION_REPRO.py'', ''docs/HERMES_MANUAL_CORRECTION_REPRO.py''),
     (''docs/reviews/HERMES_FEDORA44_REVIEW_PROMPT.md'', ''docs/HERMES_FEDORA44_REVIEW_PROMPT.md'')]"

definition RELOCATED_SOURCES :: "(string \<times> string) list" where
  "RELOCATED_SOURCES =
    [(''scripts/hermes/deploy.sh'', ''hermes-deploy.sh''),
     (''scripts/hermes/remediation-wizard.sh'', ''hermes-remediation-wizard.sh''),
     (''scripts/hermes/simple/deploy.sh'', ''hermes-simple-deploy.sh''),
     (''vm/hermes-certify-vm.sh'', ''hermes-certify-vm.sh''),
     (''docs/hermes-fedora-server-install-guide.html'', ''hermes-fedora-server-install-guide.html''),
     (''docs/secure-hermes-installation-plan.html'', ''secure-hermes-installation-plan.html''),
     (''docs/setup-ssh-key-only.md'', ''setup-ssh-key-only.md'')]"

definition IDENTITY_KEYS :: "string list" where
  "IDENTITY_KEYS =
    [''version'', ''base_commit'', ''payload_algorithm'', ''payload_fingerprint'', ''payload_rows'',
     ''payload_excludes'', ''inventory_algorithm'', ''inventory_fingerprint'', ''inventory_rows'',
     ''inventory_excludes'', ''source_root'', ''source_head'', ''source_dirty_algorithm'',
     ''source_dirty_fingerprint'', ''source_dirty_inputs'', ''source_dirty_files'',
     ''source_dirty_deletions'', ''source_dirty_mode_or_type_changes'', ''source_dirty_previous_algorithm'',
     ''source_dirty_previous_fingerprint'', ''source_dirty_historical_algorithm'',
     ''source_dirty_historical_fingerprint'', ''toolbox_root'', ''toolbox_head'',
     ''toolbox_dirty_algorithm'', ''toolbox_dirty_fingerprint'', ''toolbox_dirty_inputs'',
     ''toolbox_dirty_files'', ''toolbox_dirty_deletions'', ''toolbox_dirty_mode_or_type_changes'',
     ''toolbox_dirty_previous_algorithm'', ''toolbox_dirty_previous_fingerprint'',
     ''toolbox_dirty_historical_algorithm'', ''toolbox_dirty_historical_fingerprint'', ''companion_root'',
     ''companion_head'', ''destination_mode_policy'', ''destination_index_mode_mismatches'']"

definition SCOPE_EXACT :: "string list" where
  "SCOPE_EXACT =
    [''hermes-deploy.sh'', ''hermes-certify-vm.sh'', ''hermes-remediation-wizard.sh'',
     ''hermes-simple-deploy.sh'', ''hermes-fedora-server-install-guide.html'',
     ''secure-hermes-installation-plan.html'', ''setup-ssh-key-only.sh'', ''setup-ssh-key-only.md'',
     ''.shellspec'']"

definition SCOPE_TESTS :: "string list" where
  "SCOPE_TESTS =
    [''tests/test-hermes-'', ''tests/test_hermes_'', ''tests/test_remaining_preflight.py'',
     ''tests/test_ssh_key_only.py'', ''tests/check_ssh_key_only_docs.py'', ''tests/lib-test-helpers.sh'',
     ''tests/Containerfile.e2e'', ''tests/Containerfile.sshd'']"

definition SCOPE_DOCS_EXACT :: "string list" where
  "SCOPE_DOCS_EXACT =
    [''docs/VM_TESTING_GUIDE.md'', ''docs/plans/2026-09-12-fedora-ssh-key-only.md'']"

definition SCOPE_ROOT_GLOBS :: "string list" where
  "SCOPE_ROOT_GLOBS =
    [''devbox.json'', ''devbox.lock'', ''.mcp.json'', ''.claude/settings.local.json'', ''lefthook.yml'']"

definition EXCLUSIONS :: "(string \<times> string) list" where
  "EXCLUSIONS =
    [(''devbox.json'', ''Retired Devbox environment; replaced by the dev-toolbox infra profile''),
     (''devbox.lock'', ''Retired Devbox lockfile; replaced by uv.lock and the infra profile''),
     (''.mcp.json'', ''Credential-bearing local MCP configuration; never extracted''),
     (''.claude/settings.local.json'', ''Credential-bearing local settings; never extracted''),
     (''AGENTS.md'', ''Source-repository guidance; this repository authors its own''),
     (''CLAUDE.md'', ''Source-repository guidance; this repository authors its own''),
     (''lefthook.yml'', ''Lefthook retired; gates ported to .pre-commit-config.yaml''),
     (''.gitignore'', ''Destination already has an adopted equivalent''),
     (''.markdownlint-cli2.yaml'', ''Destination already has an adopted equivalent'')]"

section \<open>Bytes and text\<close>

definition nul :: char where "nul = CHR 0x00"
definition tab :: char where "tab = CHR 0x09"

text \<open>
  \<^verbatim>\<open>bytes.decode(errors="replace")\<close>: the lead byte fixes how many continuation bytes follow and the range
  of the first of them; the longest valid start of a broken sequence becomes one \<open>U+FFFD\<close>.
\<close>

definition lead_byte :: "nat \<Rightarrow> (nat \<times> nat \<times> nat) option" where
  "lead_byte x =
     (if 194 \<le> x \<and> x < 224 then Some (1, 128, 192)
      else if x = 224 then Some (2, 160, 192)
      else if x = 237 then Some (2, 128, 160)
      else if 225 \<le> x \<and> x < 240 then Some (2, 128, 192)
      else if x = 240 then Some (3, 144, 192)
      else if 241 \<le> x \<and> x < 244 then Some (3, 128, 192)
      else if x = 244 then Some (3, 128, 144)
      else None)"

fun continuation :: "nat \<Rightarrow> nat \<Rightarrow> nat \<Rightarrow> string \<Rightarrow> nat" where
  "continuation n lo hi [] = 0"
| "continuation n lo hi (c # cs) =
     (if n = 0 then 0
      else if lo \<le> of_char c \<and> (of_char c :: nat) < hi then Suc (continuation (n - 1) 128 192 cs) else 0)"

definition replacement :: string where
  "replacement = [CHR 0xEF, CHR 0xBF, CHR 0xBD]"

function utf8_replace :: "string \<Rightarrow> string" where
  "utf8_replace [] = []"
| "utf8_replace (c # cs) =
     (if of_char c < (128 :: nat) then c # utf8_replace cs
      else (case lead_byte (of_char c) of
          None \<Rightarrow> replacement @ utf8_replace cs
        | Some (n, lo, hi) \<Rightarrow>
            let k = continuation n lo hi cs in
            if k = n then c # take n cs @ utf8_replace (drop n cs)
            else replacement @ utf8_replace (drop k cs)))"
  by pat_completeness auto
termination by (relation "measure length") auto

section \<open>Repositories\<close>

text \<open>
  \<open>git repo args\<close> is the output of \<^verbatim>\<open>git -C repo args\<close> or the exception of a failing call; \<open>shfmt\<close> is
  the formatter's status and output on its input, None when it is not installed. \<open>mhash\<close> and \<open>mraw\<close> are
  the hexadecimal and the raw SHA-256.
\<close>

record menv =
  git :: "path \<Rightarrow> string list \<Rightarrow> string res"
  mtree :: fsys
  shfmt :: "string \<Rightarrow> (int \<times> string) option"
  mhash :: "string \<Rightarrow> string"
  mraw :: "string \<Rightarrow> string"

record margs =
  dest :: path
  origin_src :: path
  toolbox :: path
  companion :: path

type_synonym dict = "(string \<times> string) list"

definition git_text :: "menv \<Rightarrow> path \<Rightarrow> string list \<Rightarrow> string res" where
  "git_text e repo args = bindE (git e repo args) decode_text"

definition sha256_file :: "menv \<Rightarrow> path \<Rightarrow> string res" where
  "sha256_file e p = bindE (read_bytes (mtree e) p) (\<lambda>c. Inr (mhash e c))"

text \<open>One record of \<^verbatim>\<open>git ls-files -s -z\<close> or \<^verbatim>\<open>git ls-tree -r -z\<close>: the mode is the first word.\<close>

definition mode_record :: "string \<Rightarrow> dict \<Rightarrow> dict res" where
  "mode_record rc modes =
     (if rc = [] then Inr modes
      else (case part_at tab rc of (meta, found, p) \<Rightarrow>
        if \<not> found then Inl ValueError
        else bindE (decode_text (fst (part_at (CHR '' '') meta))) (\<lambda>mode.
          bindE (decode_text p) (\<lambda>name. Inr (AList.update name mode modes)))))"

definition index_modes :: "menv \<Rightarrow> path \<Rightarrow> dict res" where
  "index_modes e repo = bindE (git e repo [''ls-files'', ''-s'', ''-z''])
     (\<lambda>out. foldE mode_record (split_on nul out) [])"

definition base_modes :: "menv \<Rightarrow> path \<Rightarrow> string \<Rightarrow> dict res" where
  "base_modes e repo base = bindE (git e repo [''ls-tree'', ''-r'', ''-z'', base])
     (\<lambda>out. foldE mode_record (split_on nul out) [])"

definition worktree_files :: "menv \<Rightarrow> path \<Rightarrow> string list res" where
  "worktree_files e repo = bindE (git_text e repo [''ls-files'', ''-z'', ''-co'', ''--exclude-standard''])
     (\<lambda>out. Inr (filter (\<lambda>p. p \<noteq> []) (split_on nul out)))"

definition filesystem_mode :: "fsys \<Rightarrow> path \<Rightarrow> string res" where
  "filesystem_mode fs p = (case fs p of
      None \<Rightarrow> Inl OSError
    | Some (NLink t) \<Rightarrow> Inr ''120000''
    | Some (NDir m u) \<Rightarrow> Inr ''040000''
    | Some (NFile c m u) \<Rightarrow> Inr (if m AND 73 \<noteq> 0 then ''100755'' else ''100644''))"

definition content_digest :: "menv \<Rightarrow> path \<Rightarrow> string res" where
  "content_digest e p = (case mtree e p of
      None \<Rightarrow> Inl OSError
    | Some (NLink t) \<Rightarrow> Inr (mhash e t)
    | Some (NFile c m u) \<Rightarrow> sha256_file e p
    | Some (NDir m u) \<Rightarrow> Inr ''-'')"

definition kind_of :: "fsys \<Rightarrow> path \<Rightarrow> string" where
  "kind_of fs p = (if is_link_at fs p then ''symlink'' else if is_file_at fs p then ''file'' else ''missing'')"

section \<open>Dirty inputs\<close>

text \<open>A rename or a copy is followed by its original path, which becomes an input of its own.\<close>

function status_list :: "string list \<Rightarrow> (string \<times> string) list" where
  "status_list [] = []"
| "status_list (r # rs) =
     (if r = [] then status_list rs
      else let status = utf8_replace (take 2 r); p = utf8_replace (drop 3 r) in
        (status, p) #
        (if hd status \<in> set ''RC'' \<and> rs \<noteq> []
         then ([hd status] @ ''-'', utf8_replace (hd rs)) # status_list (tl rs)
         else status_list rs))"
  by pat_completeness auto
termination by (relation "measure length") auto

definition status_entries :: "menv \<Rightarrow> path \<Rightarrow> (string \<times> string) list res" where
  "status_entries e repo = bindE (git e repo [''status'', ''--porcelain'', ''-z'', ''--untracked-files=all''])
     (\<lambda>out. Inr (status_list (split_on nul out)))"

definition mismatch_step :: "menv \<Rightarrow> path \<Rightarrow> string \<times> string \<Rightarrow> (string \<times> string \<times> string) list
    \<Rightarrow> (string \<times> string \<times> string) list res" where
  "mismatch_step e repo = (\<lambda>(p, mode) found.
     if mode \<notin> set [''100644'', ''100755'', ''120000''] then Inr found
     else let c = under repo p in
       if \<not> (is_link_at (mtree e) c \<or> is_file_at (mtree e) c) then Inr found
       else bindE (filesystem_mode (mtree e) c) (\<lambda>actual.
         Inr (if actual \<noteq> mode then found @ [(p, mode, actual)] else found)))"

definition tracked_mode_mismatches :: "menv \<Rightarrow> path \<Rightarrow> dict \<Rightarrow> (string \<times> string \<times> string) list res" where
  "tracked_mode_mismatches e repo modes = foldE (mismatch_step e repo) modes []"

record dirty =
  dpath :: string
  dstatus :: string
  dkind :: string
  dindex :: string
  dwork :: string
  ddigest :: string

definition dash_or :: "string option \<Rightarrow> string" where
  "dash_or x = (case x of None \<Rightarrow> ''-'' | Some s \<Rightarrow> s)"

definition status_entry :: "menv \<Rightarrow> path \<Rightarrow> dict \<Rightarrow> string \<times> string \<Rightarrow> dirty res" where
  "status_entry e repo modes = (\<lambda>(status, p).
     let c = under repo p; kind = kind_of (mtree e) c; mk = (\<lambda>d w.
       \<lparr>dpath = p, dstatus = status, dkind = kind, dindex = dash_or (map_of modes p), dwork = w, ddigest = d\<rparr>) in
     if kind = ''missing'' then Inr (mk ''-'' ''-'')
     else bindE (content_digest e c) (\<lambda>d. bindE (filesystem_mode (mtree e) c) (\<lambda>w. Inr (mk d w))))"

definition mode_entry :: "menv \<Rightarrow> path \<Rightarrow> string \<times> string \<times> string \<Rightarrow> dirty res" where
  "mode_entry e repo = (\<lambda>(p, mode, actual).
     let c = under repo p in bindE (content_digest e c) (\<lambda>d.
       Inr \<lparr>dpath = p, dstatus = UNREPORTED_MODE_STATUS,
            dkind = (if is_link_at (mtree e) c then ''symlink'' else ''file''),
            dindex = mode, dwork = actual, ddigest = d\<rparr>))"

definition dirty_entries :: "menv \<Rightarrow> path \<Rightarrow> bool \<Rightarrow> dirty list res" where
  "dirty_entries e repo unreported =
     bindE (index_modes e repo) (\<lambda>modes.
     bindE (status_entries e repo) (\<lambda>items.
     bindE (mapE (status_entry e repo modes) items) (\<lambda>entries.
     bindE (if unreported then
              bindE (tracked_mode_mismatches e repo modes) (\<lambda>ms.
                mapE (mode_entry e repo) (filter (\<lambda>m. fst m \<notin> set (map snd items)) ms))
            else Inr []) (\<lambda>hidden.
     Inr (sort_key dpath (entries @ hidden))))))"

definition dirty_line :: "dirty \<Rightarrow> string" where
  "dirty_line d = join_with [nul] [dpath d, dstatus d, dkind d, dindex d, dwork d, ddigest d] @ [newline]"

record dirty_sum =
  fingerprint :: string
  inputs :: nat
  dfiles :: nat
  deletions :: nat
  mode_changes :: nat

definition dirty_summary :: "menv \<Rightarrow> dirty list \<Rightarrow> dirty_sum" where
  "dirty_summary e ds =
     \<lparr>fingerprint = mhash e (concat (map dirty_line ds)),
      inputs = length ds,
      dfiles = length (filter (\<lambda>d. dkind d \<in> set [''file'', ''symlink'']) ds),
      deletions = length (filter (\<lambda>d. dkind d = ''missing'' \<or> CHR ''D'' \<in> set (dstatus d)) ds),
      mode_changes = length (filter (\<lambda>d. dindex d \<noteq> ''-'' \<and> dwork d \<noteq> ''-'' \<and> dindex d \<noteq> dwork d) ds)\<rparr>"

definition dirty_identity :: "menv \<Rightarrow> path \<Rightarrow> dirty_sum res" where
  "dirty_identity e repo = bindE (dirty_entries e repo True) (\<lambda>ds. Inr (dirty_summary e ds))"

definition previous_dirty_fingerprint :: "menv \<Rightarrow> path \<Rightarrow> string res" where
  "previous_dirty_fingerprint e repo =
     bindE (dirty_entries e repo False) (\<lambda>ds. Inr (fingerprint (dirty_summary e ds)))"

text \<open>\<^verbatim>\<open>json.dumps(value, indent=2)\<close>\<close>

primrec dumps_indent :: "json \<Rightarrow> nat \<Rightarrow> string" where
  "dumps_indent JNull n = dumps JNull"
| "dumps_indent (JBool b) n = dumps (JBool b)"
| "dumps_indent (JInt i) n = dumps (JInt i)"
| "dumps_indent (JFloat t) n = t"
| "dumps_indent (JStr s) n = json_str s"
| "dumps_indent (JList xs) n =
     (if xs = [] then ''[]''
      else let pad = newline # replicate (2 * Suc n) CHR '' '' in
        ''['' @ pad @ join_with ('','' @ pad) (map (\<lambda>f. f (Suc n)) (map dumps_indent xs))
        @ newline # replicate (2 * n) CHR '' '' @ '']'')"
| "dumps_indent (JObj kvs) n =
     (if kvs = [] then ''{}''
      else let pad = newline # replicate (2 * Suc n) CHR '' '' in
        ''{'' @ pad @ join_with ('','' @ pad)
           (map (\<lambda>(k, f). json_str k @ '': '' @ f (Suc n)) (map (map_prod id dumps_indent) kvs))
        @ newline # replicate (2 * n) CHR '' '' @ ''}'')"

type_synonym rows_now = "(string \<times> string \<times> string) list"

definition inventory_document :: "menv \<Rightarrow> rows_now \<Rightarrow> string \<times> string" where
  "inventory_document e current =
     (let doc = JObj (map (\<lambda>(rel, h, m). (rel, JObj [(''sha256'', JStr h), (''mode'', JStr m)])) (sort_key fst current));
          t = dumps_indent (jsort doc) 0 @ [newline]
      in (t, mhash e t))"

text \<open>The first algorithm: a set of paths, deletions skipped, only the files that exist hashed.\<close>

function legacy_paths :: "string list \<Rightarrow> string list" where
  "legacy_paths [] = []"
| "legacy_paths (r # rs) =
     (if r = [] then legacy_paths rs
      else let status = utf8_replace (take 2 r); p = utf8_replace (drop 3 r) in
        if strip status = ''D'' then legacy_paths rs
        else p # (if hd status \<in> set ''RC'' \<and> rs \<noteq> [] then utf8_replace (hd rs) # legacy_paths (tl rs)
                  else legacy_paths rs))"
  by pat_completeness auto
termination by (relation "measure length") auto

definition legacy_bytes :: "menv \<Rightarrow> path \<Rightarrow> string \<Rightarrow> string res" where
  "legacy_bytes e repo p =
     (let c = under repo p in
      if \<not> is_file_at (mtree e) c then Inr []
      else bindE (read_bytes (mtree e) c) (\<lambda>b. Inr (p @ [nul] @ mraw e b)))"

definition legacy_dirty_fingerprint :: "menv \<Rightarrow> path \<Rightarrow> (string \<times> nat) res" where
  "legacy_dirty_fingerprint e repo =
     bindE (git e repo [''status'', ''--porcelain'', ''-z'']) (\<lambda>out.
     let ps = sorted_set (legacy_paths (split_on nul out)) in
     bindE (mapE (legacy_bytes e repo) ps) (\<lambda>bs. Inr (mhash e (concat bs), length ps)))"

section \<open>Where a file comes from\<close>

definition is_reformat :: "menv \<Rightarrow> path \<Rightarrow> path \<Rightarrow> bool res" where
  "is_reformat e src_path dest_path =
     (if \<not> endswith (path_text dest_path) ''.sh'' then Inr False
      else bindE (read_bytes (mtree e) src_path) (\<lambda>data.
        case shfmt e data of None \<Rightarrow> Inr False
        | Some (code, out) \<Rightarrow>
            if code \<noteq> 0 then Inr False
            else bindE (read_bytes (mtree e) dest_path) (\<lambda>c. Inr (out = c))))"

type_synonym counterpart = "string \<times> string \<times> path"

definition counterpart_of :: "menv \<Rightarrow> path \<Rightarrow> counterpart res" where
  "counterpart_of e c = bindE (sha256_file e c) (\<lambda>h. bindE (filesystem_mode (mtree e) c) (\<lambda>m. Inr (h, m, c)))"

definition companion_counterpart :: "menv \<Rightarrow> margs \<Rightarrow> string \<Rightarrow> counterpart res" where
  "companion_counterpart e a rel =
     (case map_of COMPANION_SOURCES rel of None \<Rightarrow> Inl KeyError
      | Some src_rel \<Rightarrow>
          let c = under (companion a) src_rel in
          if \<not> is_file_at (mtree e) c then
            Inl (SourceMissing (rel @ '': known companion source '' @ src_rel @ '' not found under '' @ path_text (companion a)))
          else counterpart_of e c)"

definition source_counterpart :: "menv \<Rightarrow> margs \<Rightarrow> string \<Rightarrow> counterpart option res" where
  "source_counterpart e a rel =
     (let src_rel = (case map_of RELOCATED_SOURCES rel of None \<Rightarrow> rel | Some s \<Rightarrow> s); c = under (origin_src a) src_rel in
      if \<not> is_file_at (mtree e) c then
        (if map_of RELOCATED_SOURCES rel \<noteq> None then
           Inl (SourceMissing (rel @ '': declared relocated source '' @ src_rel @ '' not found under '' @ path_text (origin_src a)))
         else Inr None)
      else bindE (counterpart_of e c) (\<lambda>x. Inr (Some x)))"

text \<open>The state of a file with a source counterpart, and the problems it adds.\<close>

definition source_state ::
    "menv \<Rightarrow> string \<Rightarrow> counterpart \<Rightarrow> string \<Rightarrow> string \<Rightarrow> path \<Rightarrow> dict \<Rightarrow> (string \<times> string list) res" where
  "source_state e rel cp dest_hash dest_mode dest_path reasons =
     (case cp of (src_hash, src_mode, src_path) \<Rightarrow>
      if src_hash = dest_hash then
        if src_mode = dest_mode then Inr (''IDENTICAL'', [])
        else Inr (''ADAPTED'', if map_of reasons rel = None then [rel @ '': mode-only adaptation needs a reason''] else [])
      else bindE (is_reformat e src_path dest_path) (\<lambda>r.
        if r then Inr (''REFORMAT'', [])
        else Inr (''ADAPTED'', if map_of reasons rel = None then [rel @ '': SOURCE/ADAPTED needs a reason''] else [])))"

definition reason_step :: "nat \<times> string \<Rightarrow> dict \<Rightarrow> dict res" where
  "reason_step = (\<lambda>(number, raw) reasons.
     let line = strip raw in
     if line = [] \<or> startswith line ''#'' then Inr reasons
     else (case part_at tab line of (rel, found, reason) \<Rightarrow>
       if \<not> found then Inl (SystemExit (REASONS_FILE @ '':'' @ show_nat number @ '': expected 'path<TAB>reason''  @ [CHR 0x27]))
       else Inr (AList.update (strip rel) (strip reason) reasons)))"

definition load_reasons :: "menv \<Rightarrow> path \<Rightarrow> dict res" where
  "load_reasons e d =
     (let p = under d REASONS_FILE in
      if \<not> is_file_at (mtree e) p then Inr []
      else bindE (read_text (mtree e) p) (\<lambda>t. foldE reason_step (enumerate 1 (splitlines t)) []))"

definition exclusion_reason :: "string \<Rightarrow> string" where
  "exclusion_reason rel =
     (case map_of EXCLUSIONS rel of Some r \<Rightarrow> r
      | None \<Rightarrow>
          if startswith rel ''docs/plans/evidence/'' then ''Network/VLAN or other non-Hermes evidence; outside the Hermes scope''
          else if startswith rel ''docs/archive/'' then ''Non-Hermes archive material; outside the Hermes scope''
          else ''Excluded by the approved Hermes scope; unrelated to this repository'')"

definition ascii_lower :: "char \<Rightarrow> char" where
  "ascii_lower c = (if is_upper c then ascii (of_char c + 32) else c)"

definition in_scope :: "string \<Rightarrow> bool" where
  "in_scope rel =
     (if rel \<in> set SCOPE_EXACT then True
      else if list_ex (startswith rel) [''scripts/hermes/'', ''spec/'', ''vm/''] then True
      else if list_ex (startswith rel) SCOPE_TESTS then True
      else if rel \<in> set SCOPE_DOCS_EXACT then True
      else if startswith rel ''docs/HERMES_'' \<or> startswith rel ''docs/plans/evidence/'' then True
      else if startswith rel ''docs/archive/'' then substr ''hermes'' (map ascii_lower rel)
      else if startswith rel ''docs/plans/'' \<and> substr ''hermes'' rel then True
      else if startswith rel ''docs/'' \<and> (substr ''TPM'' rel \<or> substr ''SELINUX'' rel) then True
      else rel \<in> set SCOPE_ROOT_GLOBS)"

section \<open>The destination\<close>

record dest_state =
  current :: rows_now
  payload :: string
  mismatched :: "(string \<times> string \<times> string) list"
  missing :: "string list"

definition payload_line :: "string \<times> string \<times> string \<Rightarrow> string" where
  "payload_line = (\<lambda>(rel, h, m). rel @ [nul] @ h @ [nul] @ m @ [newline])"

definition dest_step :: "menv \<Rightarrow> path \<Rightarrow> dict \<Rightarrow> string \<Rightarrow> dest_state \<Rightarrow> dest_state res" where
  "dest_step e d index rel st =
     (let p = under d rel in
      if rel = OUTPUT_FILE then Inr st
      else if is_link_at (mtree e) p \<or> is_file_at (mtree e) p then
        bindE (filesystem_mode (mtree e) p) (\<lambda>mode.
        bindE (content_digest e p) (\<lambda>h.
        Inr (st\<lparr>current := AList.update rel (h, mode) (current st),
                mismatched := mismatched st @ (case map_of index rel of
                   None \<Rightarrow> [] | Some im \<Rightarrow> if im \<noteq> mode then [(rel, im, mode)] else [])\<rparr>)))
      else Inr (st\<lparr>current := AList.update rel (''-'', ''-'') (current st), missing := missing st @ [rel]\<rparr>))"

text \<open>Tuples of strings in their order: no component holds a zero byte, so joining with it keeps the order.\<close>

definition triple_key :: "string \<times> string \<times> string \<Rightarrow> string" where
  "triple_key = (\<lambda>(a, b, c). a @ [nul] @ b @ [nul] @ c)"

definition destination_state :: "menv \<Rightarrow> path \<Rightarrow> dest_state res" where
  "destination_state e d =
     bindE (index_modes e d) (\<lambda>index.
     bindE (worktree_files e d) (\<lambda>fs.
     bindE (foldE (dest_step e d index) fs \<lparr>current = [], payload = [], mismatched = [], missing = []\<rparr>) (\<lambda>st.
     Inr (st\<lparr>mismatched := sort_key triple_key (mismatched st),
             payload := mhash e (concat (map payload_line (sort_key fst (current st))))\<rparr>))))"

definition joined_tabs :: "string list \<Rightarrow> string" where
  "joined_tabs xs = join_with [tab] xs"

definition dirty_audit_lines :: "string \<Rightarrow> dirty list \<Rightarrow> string list" where
  "dirty_audit_lines name ds = map (\<lambda>d. joined_tabs
     [''# dirty'', name, dpath d, dstatus d, dkind d, dindex d, dwork d, ddigest d]) ds"

text \<open>The part of the identity that one repository contributes, with the prefix of its keys.\<close>

definition repo_identity :: "menv \<Rightarrow> string \<Rightarrow> path \<Rightarrow> dirty_sum \<Rightarrow> string \<Rightarrow> string \<Rightarrow> string \<Rightarrow> dict" where
  "repo_identity e name root s head previous legacy =
     map (\<lambda>(k, v). (name @ k, v))
      [(''_root'', path_text root), (''_head'', strip head), (''_dirty_algorithm'', DIRTY_ALGORITHM),
       (''_dirty_fingerprint'', fingerprint s), (''_dirty_inputs'', show_nat (inputs s)),
       (''_dirty_files'', show_nat (dfiles s)), (''_dirty_deletions'', show_nat (deletions s)),
       (''_dirty_mode_or_type_changes'', show_nat (mode_changes s)),
       (''_dirty_previous_algorithm'', PREVIOUS_DIRTY_ALGORITHM), (''_dirty_previous_fingerprint'', previous),
       (''_dirty_historical_algorithm'', LEGACY_DIRTY_ALGORITHM), (''_dirty_historical_fingerprint'', legacy)]"

definition environment_identity :: "menv \<Rightarrow> margs \<Rightarrow> nat \<Rightarrow> (dict \<times> string list) res" where
  "environment_identity e a n =
     bindE (dirty_entries e (origin_src a) True) (\<lambda>sd.
     bindE (legacy_dirty_fingerprint e (origin_src a)) (\<lambda>sl.
     bindE (dirty_entries e (toolbox a) True) (\<lambda>td.
     bindE (legacy_dirty_fingerprint e (toolbox a)) (\<lambda>tl.
     bindE (git_text e (origin_src a) [''rev-parse'', ''HEAD'']) (\<lambda>sh.
     bindE (previous_dirty_fingerprint e (origin_src a)) (\<lambda>sp.
     bindE (git_text e (toolbox a) [''rev-parse'', ''HEAD'']) (\<lambda>th.
     bindE (previous_dirty_fingerprint e (toolbox a)) (\<lambda>tp.
     bindE (git_text e (companion a) [''rev-parse'', ''HEAD'']) (\<lambda>ch.
     Inr ([(''version'', GENERATOR_VERSION), (''base_commit'', BASE_COMMIT),
           (''payload_algorithm'', PAYLOAD_ALGORITHM), (''payload_fingerprint'', []), (''payload_rows'', []),
           (''payload_excludes'', OUTPUT_FILE), (''inventory_algorithm'', INVENTORY_ALGORITHM),
           (''inventory_fingerprint'', []), (''inventory_rows'', []), (''inventory_excludes'', OUTPUT_FILE)]
          @ repo_identity e ''source'' (origin_src a) (dirty_summary e sd) sh sp (fst sl)
          @ repo_identity e ''toolbox'' (toolbox a) (dirty_summary e td) th tp (fst tl)
          @ [(''companion_root'', path_text (companion a)), (''companion_head'', strip ch),
             (''destination_mode_policy'', ''filesystem (index modes audited separately)''),
             (''destination_index_mode_mismatches'', show_nat n)],
          dirty_audit_lines ''source'' sd @ dirty_audit_lines ''toolbox'' td))))))))))"

section \<open>Classification\<close>

record row =
  rpath :: string
  dest_hash :: string
  dest_mode :: string
  src_hash :: string
  src_mode :: string
  origin :: string
  state :: string

text \<open>What the loop body decides: the counterpart, the origin, the state and the problems; None is \<^verbatim>\<open>continue\<close>.\<close>

type_synonym verdict = "(counterpart option \<times> string \<times> string) option \<times> string list"

definition as_source :: "menv \<Rightarrow> string \<Rightarrow> counterpart \<Rightarrow> string \<Rightarrow> string \<Rightarrow> path \<Rightarrow> dict \<Rightarrow> string list \<Rightarrow> verdict res" where
  "as_source e rel cp h m p reasons problems =
     bindE (source_state e rel cp h m p reasons) (\<lambda>(st, ps). Inr (Some (Some cp, ''SOURCE'', st), problems @ ps))"

definition relocated_row :: "menv \<Rightarrow> margs \<Rightarrow> string \<Rightarrow> string \<Rightarrow> string \<Rightarrow> path \<Rightarrow> dict \<Rightarrow> string list \<Rightarrow> verdict res" where
  "relocated_row e a rel h m p reasons problems =
     (case source_counterpart e a rel of
        Inl (SourceMissing msg) \<Rightarrow> Inr (None, problems @ [msg])
      | Inl x \<Rightarrow> Inl x
      | Inr None \<Rightarrow> Inl TypeError
      | Inr (Some cp) \<Rightarrow> as_source e rel cp h m p reasons problems)"

definition foundation_row :: "menv \<Rightarrow> margs \<Rightarrow> string \<Rightarrow> string \<Rightarrow> string \<Rightarrow> string \<Rightarrow> dict \<Rightarrow> string list \<Rightarrow> verdict res" where
  "foundation_row e a rel base_mode h m reasons problems =
     bindE (git e (dest a) [''show'', BASE_COMMIT @ '':'' @ rel]) (\<lambda>base_bytes.
     let st = (if h = mhash e base_bytes \<and> m = base_mode then ''UNCHANGED'' else ''MODIFIED'') in
     Inr (Some (None, ''FOUNDATION'', st),
          problems @ (if st = ''MODIFIED'' \<and> map_of reasons rel = None
                      then [rel @ '': FOUNDATION/MODIFIED needs a reason''] else [])))"

definition other_row :: "menv \<Rightarrow> margs \<Rightarrow> string \<Rightarrow> string \<Rightarrow> string \<Rightarrow> path \<Rightarrow> dict \<Rightarrow> string list \<Rightarrow> verdict res" where
  "other_row e a rel h m p reasons problems =
     bindE (source_counterpart e a rel) (\<lambda>c. case c of
        Some cp \<Rightarrow> as_source e rel cp h m p reasons problems
      | None \<Rightarrow> Inr (Some (None, ''AUTHORED'', ''ADDED''), problems))"

definition row_verdict ::
    "menv \<Rightarrow> margs \<Rightarrow> dict \<Rightarrow> dict \<Rightarrow> string \<Rightarrow> string \<Rightarrow> string \<Rightarrow> path \<Rightarrow> string list \<Rightarrow> verdict res" where
  "row_verdict e a base reasons rel h m p problems =
     bindE (if map_of COMPANION_SOURCES rel = None then Inr (None, problems)
            else (case companion_counterpart e a rel of
                Inl (SourceMissing msg) \<Rightarrow> Inr (None, problems @ [msg])
              | Inl x \<Rightarrow> Inl x
              | Inr cp \<Rightarrow> Inr (Some cp, problems))) (\<lambda>(comp, problems).
     if map_of RELOCATED_SOURCES rel \<noteq> None then relocated_row e a rel h m p reasons problems
     else case comp of
        Some cp \<Rightarrow> as_source e rel cp h m p reasons problems
      | None \<Rightarrow>
          (case map_of base rel of
             Some base_mode \<Rightarrow> foundation_row e a rel base_mode h m reasons problems
           | None \<Rightarrow> other_row e a rel h m p reasons problems))"

definition make_row :: "string \<Rightarrow> string \<Rightarrow> string \<Rightarrow> counterpart option \<Rightarrow> string \<Rightarrow> string \<Rightarrow> row" where
  "make_row rel h m cp org st = \<lparr>rpath = rel, dest_hash = h, dest_mode = m,
     src_hash = (case cp of None \<Rightarrow> ''-'' | Some (sh, sm, _) \<Rightarrow> sh),
     src_mode = (case cp of None \<Rightarrow> ''-'' | Some (sh, sm, _) \<Rightarrow> sm), origin = org, state = st\<rparr>"

fun add_row :: "string \<Rightarrow> string \<Rightarrow> string \<Rightarrow> row list \<Rightarrow> verdict \<Rightarrow> row list \<times> string list" where
  "add_row rel h m rows (None, problems) = (rows, problems)"
| "add_row rel h m rows (Some (cp, org, st), problems) = (rows @ [make_row rel h m cp org st], problems)"

definition row_step :: "menv \<Rightarrow> margs \<Rightarrow> dict \<Rightarrow> dict \<Rightarrow> string \<Rightarrow> row list \<times> string list \<Rightarrow> (row list \<times> string list) res" where
  "row_step e a base reasons rel = (\<lambda>(rows, problems).
     let p = under (dest a) rel in
     if rel = OUTPUT_FILE then Inr (rows, problems)
     else if \<not> (is_link_at (mtree e) p \<or> is_file_at (mtree e) p) then
       Inr (rows, problems @ [rel @ '': tracked path is missing from the working tree''])
     else bindE (content_digest e p) (\<lambda>h. bindE (filesystem_mode (mtree e) p) (\<lambda>m.
       bindE (row_verdict e a base reasons rel h m p problems) (\<lambda>v. Inr (add_row rel h m rows v)))))"

record classified =
  rows :: "row list"
  excluded :: "(string \<times> string) list"
  problems :: "string list"
  payload_fp :: string
  identity :: dict
  audit :: "string list"

definition excluded_of :: "string list \<Rightarrow> string list \<Rightarrow> (string \<times> string) list" where
  "excluded_of included source_files =
     map (\<lambda>rel. (rel, exclusion_reason rel))
       (filter (\<lambda>rel. rel \<noteq> [] \<and> in_scope rel \<and> rel \<notin> set included) (sort source_files))"

definition row_triple :: "row \<Rightarrow> string \<times> string \<times> string" where
  "row_triple r = (rpath r, dest_hash r, dest_mode r)"

definition mode_mismatch_lines :: "(string \<times> string \<times> string) list \<Rightarrow> string list" where
  "mode_mismatch_lines ms = map (\<lambda>(rel, im, wm). joined_tabs [''# mode-mismatch'', rel, im, wm]) ms"

definition origin_lines :: "string \<Rightarrow> path \<Rightarrow> dict \<Rightarrow> string list" where
  "origin_lines tag root m =
     map (\<lambda>(dest_rel, src_rel). joined_tabs [tag, dest_rel, path_text root, src_rel]) (sort_key fst m)"

definition update_all :: "dict \<Rightarrow> dict \<Rightarrow> dict" where
  "update_all kvs d = fold (\<lambda>(k, v) d. AList.update k v d) kvs d"

definition classify :: "menv \<Rightarrow> margs \<Rightarrow> classified res" where
  "classify e a =
     bindE (base_modes e (dest a) BASE_COMMIT) (\<lambda>base.
     bindE (load_reasons e (dest a)) (\<lambda>reasons.
     bindE (worktree_files e (dest a)) (\<lambda>fs.
     bindE (foldE (row_step e a base reasons) fs ([], [])) (\<lambda>(rs, ps).
     let rs = sort_key rpath rs in
     bindE (worktree_files e (origin_src a)) (\<lambda>sfs.
     let exc = excluded_of (map rpath rs) sfs; fp = mhash e (concat (map (payload_line \<circ> row_triple) rs)) in
     bindE (destination_state e (dest a)) (\<lambda>ds.
     bindE (environment_identity e a (length (mismatched ds))) (\<lambda>(ident, aud).
     Inr \<lparr>rows = rs, excluded = exc,
          problems = ps @ map (\<lambda>rel. rel @ '': tracked path is missing from the working tree'') (missing ds),
          payload_fp = fp,
          identity = update_all [(''payload_fingerprint'', fp), (''payload_rows'', show_nat (length rs)),
             (''inventory_fingerprint'', snd (inventory_document e (current ds))),
             (''inventory_rows'', show_nat (length (current ds)))] ident,
          audit = aud @ origin_lines ''# relocation'' (origin_src a) RELOCATED_SOURCES
            @ origin_lines ''# companion'' (companion a) COMPANION_SOURCES
            @ mode_mismatch_lines (mismatched ds)\<rparr>)))))))"

section \<open>Rendering\<close>

definition header_lines :: "margs \<Rightarrow> string list" where
  "header_lines a =
    [''# Migration manifest - Hermes assets migrated into hermes-fedora-host'', ''#'',
     ''# Generated by toolbox/generate-migration-manifest.py. Verify with:'',
     ''#   python3 toolbox/generate-migration-manifest.py --verify'', ''#'',
     ''# Columns: dest_sha256 dest_mode source_sha256 source_mode origin state path'',
     ''#   origin SOURCE      added from a source or companion checkout'',
     ''#   origin FOUNDATION  tracked at the migration base commit'',
     ''#   origin AUTHORED    added in this repository with no source counterpart'',
     ''#   state  IDENTICAL / REFORMAT / ADAPTED / UNCHANGED / MODIFIED / ADDED'',
     ''#   dest_mode is the actual working-tree mode; index/worktree disagreements'',
     ''#   are listed below and in the identity block.'',
     ''#   '-' in a source column means there is no source counterpart.'', ''#'',
     ''# Destination: hermes-fedora-host, base commit '' @ BASE_COMMIT,
     ''# Source:      '' @ path_text (origin_src a), ''# Tooling:     '' @ path_text (toolbox a),
     ''# Companion:   '' @ path_text (companion a), ''#'',
     ''# --- identity (machine-readable; each key appears exactly once) ---'']"

definition identity_notes :: "string \<Rightarrow> string \<Rightarrow> nat \<Rightarrow> nat \<Rightarrow> string list" where
  "identity_notes pf ifp n k =
    [''# --- end identity ---'', ''#'', ''# Payload identity (manifest-excluding): '' @ pf,
     ''#   SHA-256 over sorted 'path'' @ [CHR 0x5C] @ ''0dest_sha256'' @ [CHR 0x5C] @ ''0dest_mode'' @ [CHR 0x5C] @ ''n' for every row'',
     ''#   below. This deliberately EXCLUDES this manifest file, so it identifies'',
     ''#   the payload and is not a hash binding this file. The manifest's own'',
     ''#   SHA-256 is recorded separately in the handoff, not here.'', ''#'',
     ''# Inventory identity (manifest-excluding): '' @ ifp,
     ''#   Reproducible inventory of the whole destination: SHA-256 over a'',
     ''#   path-sorted JSON object mapping every path to its sha256 and mode,'',
     ''#   serialized with sort_keys, indent 2 and a trailing LF. Reproduce it with'',
     ''#   'python3 toolbox/generate-migration-manifest.py --inventory | sha256sum'.'',
     ''#   It excludes the manifest for the same self-reference reason as the'',
     ''#   payload; the full artifact is this inventory plus the manifest's own'',
     ''#   SHA-256, which is reported separately.'', ''#'',
     ''# Dirty-input fingerprint algorithm (hermes-dirty-input-v3):'',
     ''#   git status --porcelain -z --untracked-files=all; for each entry sorted'',
     ''#   by path: sha256( path '' @ [CHR 0x5C] @ ''0 status '' @ [CHR 0x5C] @ ''0 kind '' @ [CHR 0x5C] @ ''0 index_mode '' @ [CHR 0x5C] @ ''0'',
     ''#   worktree_mode '' @ [CHR 0x5C] @ ''0 content_sha256 '' @ [CHR 0x5C] @ ''n ). Recursively enumerates untracked'',
     ''#   files, encodes deletions as kind=missing, and records index-vs-worktree'',
     ''#   mode/type changes. Selection is independent of core.filemode: a tracked'',
     ''#   input whose actual mode differs from the index is included even when git'',
     ''#   status hides it, with the canonical ' M' status. The superseded v2'',
     ''#   fingerprint ('hermes-dirty-input-v2', status-selected only) and the'',
     ''#   historical v1 fingerprint ('v1-changed-paths-with-file-bytes', which'',
     ''#   skipped deletions and collapsed untracked directories) are retained in'',
     ''#   the identity block so earlier recorded values are not redefined.'', ''#'',
     ''# Rows: '' @ show_nat n @ ''; excluded candidates: '' @ show_nat k,
     ''# This manifest does not list a row for itself (a file cannot record its own'',
     ''# hash); it is identified by the payload fingerprint above.'', ''#'', ''# Counts by origin/state:'']"

definition closing_notes :: "string list" where
  "closing_notes =
    [''#'', ''# Superseded record: docs/extraction-manifest.txt is SUPERSEDED by this file'',
     ''# and is preserved unmodified as historical evidence. It has 153 actual hash'',
     ''# rows (not the 166 once claimed); two of those rows no longer match the'',
     ''# destination: the restored correction record and the adapted guide test.'',
     ''# Use this manifest, not the old one, for completeness and current hashes.'', ''#'',
     ''# Row-count basis: the old manifest listed only selected source-derived files'',
     ''# (311 rows). This one records the whole reviewed working tree, so it also'',
     ''# includes FOUNDATION rows tracked at the base commit and AUTHORED rows added'',
     ''# here without a source counterpart.'', ''#'',
     ''# Adapted files and reasons are listed in docs/migration-adaptations.txt.'', ''#'',
     ''# Dirty-input audit (tab-separated):'',
     ''#   # dirty <repo> <path> <status> <kind> <index_mode> <worktree_mode> <sha256>'',
     ''#     status is the git porcelain status; ' M' is also used for a tracked'',
     ''#     mode-only change that git did not report because core.filemode is false'',
     ''#   # companion <dest_path> <companion_root> <source_relative_path>'',
     ''#   # relocation <dest_path> <source_root> <original_source_relative_path>'',
     ''#   # mode-mismatch <path> <index_mode> <worktree_mode>'']"

definition excluded_title :: "string list" where
  "excluded_title =
    [''#'', ''# Excluded Hermes-scope candidates (path<TAB>reason):'']"

definition rows_title :: "string list" where
  "rows_title =
    [''#'', ''# --- rows ---'']"

text \<open>\<^verbatim>\<open>identity[key]\<close> of a key that is always there.\<close>

definition dict_get :: "dict \<Rightarrow> string \<Rightarrow> string res" where
  "dict_get d k = (case map_of d k of None \<Rightarrow> Inl KeyError | Some v \<Rightarrow> Inr v)"

definition identity_line :: "dict \<Rightarrow> string \<Rightarrow> string res" where
  "identity_line ident k = bindE (dict_get ident k) (\<lambda>v. Inr (joined_tabs [''# identity'', k, v]))"

definition state_pairs :: "row list \<Rightarrow> (string \<times> string) list" where
  "state_pairs rs = sort_key (\<lambda>(og, st). og @ [nul] @ st) (remdups (map (\<lambda>r. (origin r, state r)) rs))"

definition count_lines :: "row list \<Rightarrow> string list" where
  "count_lines rs = map (\<lambda>(og, st). ''#   '' @ og @ ''/'' @ st @ '': ''
     @ show_nat (length (filter (\<lambda>r. origin r = og \<and> state r = st) rs))) (state_pairs rs)"

definition row_line :: "row \<Rightarrow> string" where
  "row_line r = join_with '' '' [dest_hash r, dest_mode r, src_hash r, src_mode r, origin r, state r, rpath r]"

definition excluded_line :: "string \<times> string \<Rightarrow> string" where
  "excluded_line = (\<lambda>(rel, reason). joined_tabs [''#   EXCLUDED'', rel, reason])"

definition render_lines :: "margs \<Rightarrow> classified \<Rightarrow> string list res" where
  "render_lines a c =
     bindE (mapE (identity_line (identity c)) IDENTITY_KEYS) (\<lambda>ids.
     bindE (dict_get (identity c) ''payload_fingerprint'') (\<lambda>pf.
     bindE (dict_get (identity c) ''inventory_fingerprint'') (\<lambda>ifp.
     Inr (header_lines a @ ids @ identity_notes pf ifp (length (rows c)) (length (excluded c)) @ count_lines (rows c)
          @ closing_notes @ audit c @ excluded_title @ map excluded_line (excluded c) @ rows_title
          @ map row_line (rows c)))))"

definition render :: "margs \<Rightarrow> classified \<Rightarrow> string res" where
  "render a c = bindE (render_lines a c) (\<lambda>ls. Inr (join_with [newline] ls @ [newline]))"

section \<open>Reading a manifest\<close>

text \<open>\<^verbatim>\<open>line.split(sep, n)\<close>: at most \<open>n\<close> cuts.\<close>

fun split_max :: "char \<Rightarrow> nat \<Rightarrow> string \<Rightarrow> string list" where
  "split_max sep n s =
     (if n = 0 then [s]
      else (case part_at sep s of (x, found, r) \<Rightarrow> if found then x # split_max sep (n - 1) r else [s]))"

declare split_max.simps [simp del]

type_synonym recorded = "(string \<times> string \<times> string \<times> string \<times> string \<times> string \<times> string) list"

definition malformed :: "nat \<Rightarrow> string \<Rightarrow> string \<Rightarrow> exn" where
  "malformed number what line = ManifestError (''line '' @ show_nat number @ '': malformed '' @ what @ '': '' @ repr_str line)"

definition parse_row :: "nat \<times> string \<Rightarrow> recorded \<Rightarrow> recorded res" where
  "parse_row = (\<lambda>(number, line) rs.
     if line = [] \<or> startswith line ''#'' then Inr rs
     else (case split_max CHR '' '' 6 line of
         [dh, dm, sh, sm, og, st, p] \<Rightarrow>
           if map_of rs p \<noteq> None then
             Inl (ManifestError (''line '' @ show_nat number @ '': duplicate manifest row for '' @ p))
           else Inr (rs @ [(p, dh, dm, sh, sm, og, st)])
       | _ \<Rightarrow> Inl (malformed number ''manifest row'' line)))"

definition parse_manifest :: "string \<Rightarrow> recorded res" where
  "parse_manifest t = foldE parse_row (enumerate 1 (splitlines t)) []"

definition parse_identity_line :: "nat \<times> string \<Rightarrow> dict \<Rightarrow> dict res" where
  "parse_identity_line = (\<lambda>(number, line) ident.
     if \<not> startswith line (''# identity'' @ [tab]) then Inr ident
     else (case split_on tab line of
         [_, k, v] \<Rightarrow>
           if k \<notin> set IDENTITY_KEYS then
             Inl (ManifestError (''line '' @ show_nat number @ '': unknown identity key '' @ repr_str k))
           else if map_of ident k \<noteq> None then
             Inl (ManifestError (''line '' @ show_nat number @ '': duplicate identity key '' @ repr_str k))
           else Inr (ident @ [(k, v)])
       | _ \<Rightarrow> Inl (malformed number ''identity line'' line)))"

definition parse_identity :: "string \<Rightarrow> dict res" where
  "parse_identity t =
     bindE (foldE parse_identity_line (enumerate 1 (splitlines t)) []) (\<lambda>ident.
     let absent = filter (\<lambda>k. map_of ident k = None) IDENTITY_KEYS in
     if absent \<noteq> [] then Inl (ManifestError (''missing identity keys: '' @ join_with '', '' absent))
     else Inr ident)"

section \<open>Verification\<close>

text \<open>\<^verbatim>\<open>{line for line in text.splitlines() if line.startswith(prefix)}\<close>\<close>

definition lines_with :: "string \<Rightarrow> string \<Rightarrow> string list" where
  "lines_with prefix t = filter (\<lambda>l. startswith l prefix) (splitlines t)"

definition fail_if :: "bool \<Rightarrow> string \<Rightarrow> string list" where
  "fail_if b msg = (if b then [msg] else [])"

definition identity_failures :: "menv \<Rightarrow> string \<Rightarrow> dict \<Rightarrow> dest_state \<Rightarrow> string list" where
  "identity_failures e t ident ds =
     fail_if (map_of ident ''version'' \<noteq> Some GENERATOR_VERSION)
       (''identity version '' @ (case map_of ident ''version'' of None \<Rightarrow> ''None'' | Some v \<Rightarrow> repr_str v)
        @ '' != '' @ repr_str GENERATOR_VERSION)
     @ fail_if (map_of ident ''payload_algorithm'' \<noteq> Some PAYLOAD_ALGORITHM)
         ''recorded payload algorithm differs from the implementation''
     @ fail_if (map_of ident ''payload_fingerprint'' \<noteq> Some (payload ds))
         ''recorded payload fingerprint differs from the recomputed destination payload''
     @ fail_if (map_of ident ''payload_rows'' \<noteq> Some (show_nat (length (current ds))))
         ''recorded payload row count differs from the working tree''
     @ fail_if (map_of ident ''payload_excludes'' \<noteq> Some OUTPUT_FILE)
         ''recorded payload exclusion differs from the implementation''
     @ fail_if (map_of ident ''inventory_algorithm'' \<noteq> Some INVENTORY_ALGORITHM)
         ''recorded inventory algorithm differs from the implementation''
     @ fail_if (map_of ident ''inventory_fingerprint'' \<noteq> Some (snd (inventory_document e (current ds))))
         ''recorded inventory fingerprint differs from the recomputed destination inventory''
     @ fail_if (map_of ident ''inventory_rows'' \<noteq> Some (show_nat (length (current ds))))
         ''recorded inventory row count differs from the working tree''
     @ fail_if (map_of ident ''inventory_excludes'' \<noteq> Some OUTPUT_FILE)
         ''recorded inventory exclusion differs from the implementation''
     @ fail_if (map_of ident ''base_commit'' \<noteq> Some BASE_COMMIT)
         ''recorded base commit differs from the implementation''
     @ fail_if (map_of ident ''destination_index_mode_mismatches'' \<noteq> Some (show_nat (length (mismatched ds))))
         ''recorded destination index/worktree mode-mismatch count differs''
     @ fail_if (\<not> same_set (lines_with (''# mode-mismatch'' @ [tab]) t) (mode_mismatch_lines (mismatched ds)))
         ''destination index/worktree mode-mismatch audit differs''"

definition row_failures :: "recorded \<Rightarrow> rows_now \<Rightarrow> string list" where
  "row_failures rec now =
     concat (map (\<lambda>(p, h, m). case map_of rec p of
         None \<Rightarrow> [p @ '': missing from the manifest'']
       | Some (dh, dm, _) \<Rightarrow> fail_if (dh \<noteq> h \<or> dm \<noteq> m) (p @ '': destination hash or mode differs from the manifest'')) now)
     @ concat (map (\<lambda>(p, _). fail_if (map_of now p = None)
         (p @ '': recorded in the manifest but not present in the working tree'')) rec)"

definition repr_opt :: "string option \<Rightarrow> string" where
  "repr_opt x = (case x of None \<Rightarrow> ''None'' | Some v \<Rightarrow> repr_str v)"

definition provenance_failures :: "string \<Rightarrow> recorded option \<Rightarrow> dict option \<Rightarrow> dest_state \<Rightarrow> classified \<Rightarrow> string list" where
  "provenance_failures t rec ident ds c =
     (let dirty_part = (\<lambda>prefix. \<not> same_set (lines_with (prefix @ [tab]) t)
                                    (filter (\<lambda>l. startswith l (prefix @ [tab])) (audit c))) in
      problems c
      @ concat (map (\<lambda>(k, v). let r = (case ident of None \<Rightarrow> None | Some i \<Rightarrow> map_of i k) in
          fail_if (r \<noteq> Some v) (''identity '' @ k @ '': recorded '' @ repr_opt r @ '' != recomputed '' @ repr_str v))
          (identity c))
      @ fail_if (dirty_part ''# dirty'') ''dirty-input audit lines differ from the recomputed inputs''
      @ fail_if (dirty_part ''# relocation'') ''relocation origin map differs from the recomputed mapping''
      @ fail_if (dirty_part ''# companion'') ''companion origin map differs from the recomputed mapping''
      @ fail_if (payload_fp c \<noteq> payload ds) ''source-aware payload fingerprint differs from the destination fingerprint''
      @ concat (map (\<lambda>r. case rec of None \<Rightarrow> []
          | Some rs \<Rightarrow> (case map_of rs (rpath r) of None \<Rightarrow> []
             | Some vs \<Rightarrow> fail_if (vs \<noteq> (dest_hash r, dest_mode r, src_hash r, src_mode r, origin r, state r))
                 (rpath r @ '': manifest row differs from recomputed provenance''))) (rows c))
      @ concat (map (\<lambda>(rel, _). fail_if (\<not> substr (joined_tabs [''EXCLUDED'', rel, []]) t)
          (rel @ '': excluded candidate missing from the inventory'')) (excluded c)))"

text \<open>A parse that fails becomes a failure of its own; other exceptions are not caught.\<close>

definition attempt :: "'a res \<Rightarrow> ('a option \<times> string list) res" where
  "attempt r = (case r of Inr x \<Rightarrow> Inr (Some x, []) | Inl (ManifestError m) \<Rightarrow> Inr (None, [m]) | Inl x \<Rightarrow> Inl x)"

definition unavailable :: "menv \<Rightarrow> margs \<Rightarrow> string list" where
  "unavailable e a = map fst (filter (\<lambda>(name, root). \<not> is_dir_at (mtree e) root)
     [(''source'', origin_src a), (''toolbox'', toolbox a), (''companion'', companion a)])"

definition destination_failures :: "menv \<Rightarrow> string \<Rightarrow> recorded option \<Rightarrow> dict option \<Rightarrow> dest_state \<Rightarrow> string list" where
  "destination_failures e t rec ident ds =
     map (\<lambda>rel. rel @ '': tracked path is missing from the working tree'') (missing ds)
     @ (case ident of None \<Rightarrow> [] | Some i \<Rightarrow> identity_failures e t i ds)
     @ (case rec of None \<Rightarrow> [] | Some rs \<Rightarrow> row_failures rs (current ds))"

definition verify :: "menv \<Rightarrow> margs \<Rightarrow> string list res" where
  "verify e a =
     bindE (read_text (mtree e) (under (dest a) OUTPUT_FILE)) (\<lambda>t.
     bindE (attempt (parse_manifest t)) (\<lambda>(rec, f1).
     bindE (attempt (parse_identity t)) (\<lambda>(ident, f2).
     bindE (destination_state e (dest a)) (\<lambda>ds.
     let fs = fail_if (\<not> startswith t ''# Migration manifest'') ''manifest header missing'' @ f1 @ f2
              @ destination_failures e t rec ident ds in
     if unavailable e a \<noteq> [] then Inr fs
     else bindE (classify e a) (\<lambda>c. Inr (fs @ provenance_failures t rec ident ds c))))))"

section \<open>The command\<close>

datatype manifest_mode = Inventory | Verify | Report | Generate

text \<open>The exit status, what goes to standard output, and the manifest that is written.\<close>

definition manifest_main :: "menv \<Rightarrow> margs \<Rightarrow> manifest_mode \<Rightarrow> (int \<times> string \<times> string option) res" where
  "manifest_main e a m =
     (case m of
        Inventory \<Rightarrow> bindE (destination_state e (dest a)) (\<lambda>ds. Inr (0, fst (inventory_document e (current ds)), None))
      | Verify \<Rightarrow>
          bindE (verify e a) (\<lambda>fs.
          if fs \<noteq> [] then Inr (1, [], None)
          else bindE (read_text (mtree e) (under (dest a) OUTPUT_FILE)) (\<lambda>t.
            bindE (attempt (parse_manifest t)) (\<lambda>(rec, _).
            Inr (0, ''PASS: '' @ OUTPUT_FILE @ '' matches the working tree (''
                @ show_nat (case rec of None \<Rightarrow> 0 | Some rs \<Rightarrow> length rs) @ '' rows)'' @ [newline], None))))
      | _ \<Rightarrow>
          if unavailable e a \<noteq> [] then Inr (1, [], None)
          else bindE (classify e a) (\<lambda>c.
            if m = Report then
              Inr (0, concat (map (\<lambda>(rel, reason). joined_tabs [rel, reason] @ [newline]) (excluded c)), None)
            else if problems c \<noteq> [] then Inr (1, [], None)
            else bindE (render a c) (\<lambda>t.
              Inr (0, ''wrote '' @ OUTPUT_FILE @ '': '' @ show_nat (length (rows c)) @ '' rows, ''
                  @ show_nat (length (excluded c)) @ '' excluded candidates, payload fingerprint ''
                  @ payload_fp c @ [newline], Some t))))"

end
