(* ===== verification/MigrationFacts.thy ===== *)
theory MigrationFacts
  imports Migration
begin

text \<open>
  Facts on the migration manifest: what is rendered is read back, what \<^verbatim>\<open>--verify\<close> accepts is the
  tree that was recorded, what was generated is accepted, and the selection of dirty inputs does not
  depend on whether \<^verbatim>\<open>git\<close> reports mode changes.
\<close>

section \<open>Round trip\<close>

definition comment_line :: "string \<Rightarrow> bool" where
  "comment_line l \<longleftrightarrow> plain_line l \<and> startswith l ''#'' \<and> \<not> startswith l (''# identity'' @ [tab])"

text \<open>The lines outside the audit part: comments with none of the audit's tags.\<close>

definition tags :: "string list" where
  "tags = [''# dirty'' @ [tab], ''# relocation'' @ [tab], ''# companion'' @ [tab], ''# mode-mismatch'' @ [tab]]"

definition noise :: "string \<Rightarrow> bool" where
  "noise l \<longleftrightarrow> comment_line l \<and> \<not> list_ex (startswith l) tags"

definition word :: "string \<Rightarrow> bool" where
  "word f \<longleftrightarrow> plain_line f \<and> CHR '' '' \<notin> set f"

definition row_ok :: "row \<Rightarrow> bool" where
  "row_ok r \<longleftrightarrow> list_all word [dest_hash r, dest_mode r, src_hash r, src_mode r, origin r, state r]
     \<and> plain_line (rpath r) \<and> \<not> startswith (dest_hash r) ''#''"

definition value_ok :: "string \<Rightarrow> bool" where
  "value_ok v \<longleftrightarrow> plain_line v \<and> tab \<notin> set v"

definition roots_ok :: "margs \<Rightarrow> bool" where
  "roots_ok a \<longleftrightarrow> plain_line (path_text (origin_src a)) \<and> plain_line (path_text (toolbox a))
     \<and> plain_line (path_text (companion a))"

definition result_ok :: "classified \<Rightarrow> bool" where
  "result_ok c \<longleftrightarrow> list_all row_ok (rows c) \<and> distinct (map rpath (rows c))
     \<and> list_all (\<lambda>(k, v). value_ok v) (identity c) \<and> list_all comment_line (audit c)
     \<and> list_all (\<lambda>(rel, reason). plain_line rel \<and> plain_line reason) (excluded c)"

definition recorded_row :: "row \<Rightarrow> string \<times> string \<times> string \<times> string \<times> string \<times> string \<times> string" where
  "recorded_row r = (rpath r, dest_hash r, dest_mode r, src_hash r, src_mode r, origin r, state r)"

lemma tab_facts [simp]: "\<not> str_boundary tab" "\<not> str_boundary (CHR '' '')" "tab \<noteq> CHR '' ''"
  by code_simp+

lemma startswith_Cons_iff: "startswith (c # s) (d # p) \<longleftrightarrow> c = d \<and> startswith s p"
  by (auto simp: startswith_iff)

lemma startswith_Nil [simp]: "startswith s []" "startswith [] p \<longleftrightarrow> p = []"
  by (auto simp: startswith_iff)

lemma noise_const: "list_all noise closing_notes" "list_all noise excluded_title" "list_all noise rows_title"
  by code_simp+

lemma noise_comment: "noise l \<Longrightarrow> comment_line l"
  by (simp add: noise_def)

lemma plain_tab_line: "list_all plain_line xs \<Longrightarrow> plain_line (joined_tabs xs)"
  unfolding joined_tabs_def by (induction xs rule: induct_list012) auto

lemma plain_show_nat [simp]: "plain_line (show_nat n)"
proof -
  have "\<not> str_boundary c" if "is_digit c" for c
    using that by (auto simp: is_digit_iff str_boundary_def)
  with show_nat_digits [of n] show ?thesis by (auto simp: plain_line_def list_all_iff)
qed

text \<open>A line with a constant beginning: what differs within the beginning is not a prefix.\<close>

definition clash :: "string \<Rightarrow> string \<Rightarrow> bool" where
  "clash p q \<longleftrightarrow> take (length p) q \<noteq> take (length q) p"

lemma clash_not_prefix: "clash p q \<Longrightarrow> \<not> startswith (p @ s) q"
proof
  assume c: "clash p q" and "startswith (p @ s) q"
  then obtain r where r: "p @ s = q @ r" by (auto simp: startswith_iff)
  have "take (length q) (take (length p) (p @ s)) = take (length p) (take (length q) (q @ r))"
    by (simp only: r take_take min.commute)
  with c show False by (simp add: clash_def)
qed

definition noise_head :: "string \<Rightarrow> bool" where
  "noise_head p \<longleftrightarrow> plain_line p \<and> startswith p ''#'' \<and> list_all (clash p) ((''# identity'' @ [tab]) # tags)"

lemma noise_append: "noise_head p \<Longrightarrow> plain_line s \<Longrightarrow> noise (p @ s)"
proof -
  assume h: "noise_head p" and "plain_line s"
  have "\<not> startswith (p @ s) q" if "q \<in> set ((''# identity'' @ [tab]) # tags)" for q
    using h that clash_not_prefix [of p q s] by (auto simp: noise_head_def list_all_iff)
  moreover have "startswith (p @ s) ''#''" using h by (auto simp: noise_head_def startswith_iff)
  ultimately show ?thesis
    using h \<open>plain_line s\<close> by (simp add: noise_head_def noise_def comment_line_def list_ex_iff)
qed

lemma header_noise:
  assumes "roots_ok a"
  shows "list_all noise (header_lines a)"
proof -
  have f: "noise (''# Source:      '' @ path_text (origin_src a))" "noise (''# Tooling:     '' @ path_text (toolbox a))"
    "noise (''# Companion:   '' @ path_text (companion a))"
    by (rule noise_append, code_simp, use assms in \<open>simp add: roots_ok_def\<close>)+
  show ?thesis
    unfolding header_lines_def list.pred_inject by (intro conjI TrueI; (rule f | code_simp))
qed

lemma notes_noise:
  assumes "plain_line pf" and "plain_line ifp"
  shows "list_all noise (identity_notes pf ifp n k)"
proof -
  have f: "noise (''# Payload identity (manifest-excluding): '' @ pf)"
    "noise (''# Inventory identity (manifest-excluding): '' @ ifp)"
    by (rule noise_append, code_simp, use assms in simp)+
  have "plain_line ''; excluded candidates: ''" by code_simp
  then have g: "noise (''# Rows: '' @ show_nat n @ ''; excluded candidates: '' @ show_nat k)"
    by (intro noise_append) (code_simp, simp)
  show ?thesis
    unfolding identity_notes_def list.pred_inject by (intro conjI TrueI; (rule f g | code_simp))
qed

lemma counts_noise:
  assumes "list_all row_ok rs"
  shows "list_all noise (count_lines rs)"
proof -
  have "plain_line og \<and> plain_line st" if "(og, st) \<in> set (state_pairs rs)" for og st
    using that assms by (auto simp: state_pairs_def list_all_iff row_ok_def word_def)
  moreover have "plain_line '': ''" "plain_line ''/''" by code_simp+
  moreover have "noise_head ''#   ''" by code_simp
  ultimately have "noise (''#   '' @ og @ ''/'' @ st @ '': '' @ show_nat n)" if "(og, st) \<in> set (state_pairs rs)" for og st n
    using that by (intro noise_append) auto
  then show ?thesis by (auto simp: count_lines_def list_all_iff)
qed

lemma excluded_noise:
  assumes "list_all (\<lambda>(rel, reason). plain_line rel \<and> plain_line reason) exc"
  shows "list_all noise (map excluded_line exc)"
proof -
  have h: "noise_head ''#   EXCLUDED''" by code_simp
  have "noise (excluded_line x)" if "x \<in> set exc" for x
  proof -
    have "plain_line (fst x)" "plain_line (snd x)" using that assms by (auto simp: list_all_iff)
    with noise_append [OF h, of "tab # fst x @ tab # snd x"] show ?thesis
      by (cases x) (simp add: excluded_line_def joined_tabs_def)
  qed
  then show ?thesis by (auto simp: list_all_iff)
qed

lemma split_max_word: "CHR '' '' \<notin> set x \<Longrightarrow> split_max CHR '' '' (Suc n) (x @ CHR '' '' # r) = x # split_max CHR '' '' n r"
proof -
  assume "CHR '' '' \<notin> set x"
  then have "part_at CHR '' '' (x @ CHR '' '' # r) = (x, True, r)" by (simp add: part_at_found)
  then show ?thesis by (subst split_max.simps) simp
qed

lemma split_max_0: "split_max sep 0 s = [s]"
  by (subst split_max.simps) simp

lemma split_row_line:
  assumes "row_ok r"
  shows "split_max CHR '' '' 6 (row_line r) = [dest_hash r, dest_mode r, src_hash r, src_mode r, origin r, state r, rpath r]"
proof -
  have six: "(6 :: nat) = Suc (Suc (Suc (Suc (Suc (Suc 0)))))" by simp
  from assms show ?thesis
    unfolding six row_line_def by (simp add: row_ok_def word_def split_max_word split_max_0)
qed

lemma row_line_not_comment:
  assumes "row_ok r"
  shows "row_line r \<noteq> []" "\<not> startswith (row_line r) ''#''" "plain_line (row_line r)"
  using assms by (cases "dest_hash r"; auto simp: row_line_def row_ok_def word_def startswith_iff)+

lemma parse_rows:
  assumes "list_all row_ok rs" and "distinct (map fst acc @ map rpath rs)"
  shows "foldE parse_row (enumerate n (map row_line rs)) acc = Inr (acc @ map recorded_row rs)"
  using assms
proof (induction rs arbitrary: n acc)
  case Nil
  then show ?case by simp
next
  case (Cons r rs)
  then have r: "row_ok r" and new: "map_of acc (rpath r) = None" by (auto simp: map_of_eq_None_iff)
  have "parse_row (n, row_line r) acc = Inr (acc @ [recorded_row r])"
    using row_line_not_comment [OF r] new by (simp add: parse_row_def split_row_line [OF r] recorded_row_def)
  with Cons show ?case by (simp add: recorded_row_def)
qed

lemma parse_comments:
  "list_all (\<lambda>l. startswith l ''#'') ls \<Longrightarrow> foldE parse_row (enumerate n ls) acc = Inr acc"
  by (induction ls arbitrary: n) (auto simp: parse_row_def)

lemma skip_identity:
  "list_all (\<lambda>l. \<not> startswith l (''# identity'' @ [tab])) ls \<Longrightarrow>
     foldE parse_identity_line (enumerate n ls) acc = Inr acc"
  by (induction ls arbitrary: n) (auto simp: parse_identity_line_def)

lemma split_identity_line:
  "tab \<notin> set k \<Longrightarrow> tab \<notin> set v \<Longrightarrow> split_on tab (joined_tabs [''# identity'', k, v]) = [''# identity'', k, v]"
proof -
  assume kv: "tab \<notin> set k" "tab \<notin> set v"
  have "tab \<notin> set ''# identity''" by code_simp
  from split_on_append [OF this] have "split_on tab (''# identity'' @ tab # (k @ tab # v)) = ''# identity'' # split_on tab (k @ tab # v)" .
  also have "split_on tab (k @ tab # v) = [k, v]"
    using split_on_append [OF kv(1), of v] split_on_id [OF kv(2)] by simp
  finally show ?thesis by (simp add: joined_tabs_def)
qed

lemma identity_line_Inr:
  "identity_line ident k = Inr l \<longleftrightarrow> (\<exists>v. map_of ident k = Some v \<and> l = joined_tabs [''# identity'', k, v])"
  by (auto simp: identity_line_def dict_get_def split: option.splits)

lemma parse_identities:
  assumes "distinct (map fst acc @ ks)" and "set ks \<subseteq> set IDENTITY_KEYS"
    and "mapE (identity_line ident) ks = Inr ls" and "list_all (\<lambda>(k, v). value_ok v) ident"
  shows "foldE parse_identity_line (enumerate n ls) acc = Inr (acc @ map (\<lambda>k. (k, the (map_of ident k))) ks)"
  using assms
proof (induction ks arbitrary: n acc ls)
  case Nil
  then show ?case by simp
next
  case (Cons k ks)
  from Cons.prems(3) obtain v ls' where v: "map_of ident k = Some v"
    and ls: "ls = joined_tabs [''# identity'', k, v] # ls'" "mapE (identity_line ident) ks = Inr ls'"
    by (auto simp: bindE_Inr_iff identity_line_Inr)
  have "(k, v) \<in> set ident" using v by (rule map_of_SomeD)
  with Cons.prems(4) have vt: "tab \<notin> set v" by (auto simp: list_all_iff value_ok_def)
  have keys: "list_all (\<lambda>k. tab \<notin> set k) IDENTITY_KEYS" by code_simp
  with Cons.prems(2) have kt: "tab \<notin> set k" by (auto simp: list_all_iff)
  have new: "map_of acc k = None" using Cons.prems(1) by (auto simp: map_of_eq_None_iff)
  have "startswith (joined_tabs [''# identity'', k, v]) (''# identity'' @ [tab])"
    by (auto simp: joined_tabs_def startswith_iff)
  then have "parse_identity_line (n, joined_tabs [''# identity'', k, v]) acc = Inr (acc @ [(k, v)])"
    using Cons.prems(2) new split_identity_line [OF kt vt] by (simp add: parse_identity_line_def)
  moreover have "foldE parse_identity_line (enumerate (Suc n) ls') (acc @ [(k, v)]) =
      Inr ((acc @ [(k, v)]) @ map (\<lambda>k. (k, the (map_of ident k))) ks)"
    using Cons.prems ls by (intro Cons.IH) auto
  ultimately show ?case using ls v by simp
qed

definition recorded_identity :: "classified \<Rightarrow> dict" where
  "recorded_identity c = map (\<lambda>k. (k, the (map_of (identity c) k))) IDENTITY_KEYS"

lemma identity_lines:
  assumes "mapE (identity_line ident) ks = Inr ids" and "list_all (\<lambda>(k, v). value_ok v) ident"
    and "list_all plain_line ks"
  shows "list_all (\<lambda>l. plain_line l \<and> startswith l ''#'' \<and> \<not> list_ex (startswith l) tags) ids"
  using assms
proof (induction ks arbitrary: ids)
  case Nil
  then show ?case by simp
next
  case (Cons k ks)
  from Cons.prems(1) obtain v ids' where v: "map_of ident k = Some v"
    and ids: "ids = joined_tabs [''# identity'', k, v] # ids'" "mapE (identity_line ident) ks = Inr ids'"
    by (auto simp: bindE_Inr_iff identity_line_Inr)
  have "plain_line v" using Cons.prems(2) map_of_SomeD [OF v] by (auto simp: list_all_iff value_ok_def)
  moreover have i: "plain_line ''# identity''" "list_all (clash ''# identity'') tags" by code_simp+
  ultimately have "plain_line (joined_tabs [''# identity'', k, v])"
    using Cons.prems(3) by (simp add: joined_tabs_def)
  moreover have "startswith (joined_tabs [''# identity'', k, v]) ''#''" by (simp add: joined_tabs_def startswith_iff)
  moreover have "\<not> list_ex (startswith (joined_tabs [''# identity'', k, v])) tags"
    using i(2) clash_not_prefix [of "''# identity''" _ "tab # k @ tab # v"]
    by (auto simp: joined_tabs_def list_all_iff list_ex_iff)
  ultimately show ?case using Cons.IH [OF ids(2)] Cons.prems ids(1) by simp
qed

lemma rendered_parts:
  assumes "render a c = Inr t" and "roots_ok a" and "result_ok c"
  obtains pre ids x y where "splitlines t = pre @ ids @ (x @ audit c @ y) @ map row_line (rows c)"
    and "list_all noise pre" and "mapE (identity_line (identity c)) IDENTITY_KEYS = Inr ids"
    and "list_all (\<lambda>l. plain_line l \<and> startswith l ''#'' \<and> \<not> list_ex (startswith l) tags) ids"
    and "list_all noise x" and "list_all noise y" and "pre = header_lines a"
    and "\<exists>y'. y = excluded_title @ map excluded_line (excluded c) @ y'"
    and "t = concat (map (\<lambda>l. l @ [newline]) (splitlines t))"
proof -
  from assms(1) obtain ids pf ifp where
    ids: "mapE (identity_line (identity c)) IDENTITY_KEYS = Inr ids"
    and pf: "map_of (identity c) ''payload_fingerprint'' = Some pf"
    and ifp: "map_of (identity c) ''inventory_fingerprint'' = Some ifp"
    and t: "t = join_with [newline] (header_lines a @ ids @ (identity_notes pf ifp (length (rows c)) (length (excluded c))
       @ count_lines (rows c) @ closing_notes @ audit c @ excluded_title @ map excluded_line (excluded c) @ rows_title)
       @ map row_line (rows c)) @ [newline]"
    by (auto simp: render_def render_lines_def bindE_Inr_iff dict_get_def split: option.splits)
  define post where "post = identity_notes pf ifp (length (rows c)) (length (excluded c))
       @ count_lines (rows c) @ closing_notes @ audit c @ excluded_title @ map excluded_line (excluded c) @ rows_title"
  have plain: "plain_line pf" "plain_line ifp"
    using assms(3) map_of_SomeD [OF pf] map_of_SomeD [OF ifp] by (auto simp: result_ok_def list_all_iff value_ok_def)
  have pre: "list_all noise (header_lines a)" by (rule header_noise [OF assms(2)])
  define x where "x = identity_notes pf ifp (length (rows c)) (length (excluded c)) @ count_lines (rows c) @ closing_notes"
  define y where "y = excluded_title @ map excluded_line (excluded c) @ rows_title"
  have x: "list_all noise x" and y: "list_all noise y"
    using assms(3) plain unfolding x_def y_def list_all_append
    by (simp_all add: result_ok_def notes_noise counts_noise excluded_noise noise_const)
  have post: "list_all comment_line post"
    using assms(3) x y by (auto simp: post_def x_def y_def result_ok_def list_all_iff noise_comment)
  have keys: "list_all plain_line IDENTITY_KEYS" by code_simp
  have i: "list_all (\<lambda>l. plain_line l \<and> startswith l ''#'' \<and> \<not> list_ex (startswith l) tags) ids"
    using identity_lines [OF ids _ keys] assms(3) by (simp add: result_ok_def)
  define ls where "ls = header_lines a @ ids @ post @ map row_line (rows c)"
  have "list_all plain_line ls"
    using pre post i assms(3) row_line_not_comment(3) by (auto simp: ls_def list_all_iff comment_line_def noise_def result_ok_def)
  moreover have "ls \<noteq> []" by (simp add: ls_def header_lines_def)
  moreover have "t = join_with [newline] ls @ [newline]" by (simp add: t ls_def post_def)
  ultimately have ls: "splitlines t = ls" "t = concat (map (\<lambda>l. l @ [newline]) ls)"
    by (simp_all add: join_lines splitlines_lines)
  have "splitlines t = header_lines a @ ids @ (x @ audit c @ y) @ map row_line (rows c)"
    using ls(1) by (simp add: ls_def post_def x_def y_def)
  from that [OF this pre ids i x y refl] ls show ?thesis by (simp add: y_def)
qed

text \<open>
  C36 (a rendered manifest is read back): when the rendered values stay on their lines and in their
  columns, the two readers of the verification recover from the text exactly the rows, in order, and
  the complete identity block.
\<close>

theorem manifest_roundtrip:
  assumes "render a c = Inr t" and "roots_ok a" and "result_ok c"
  shows "parse_manifest t = Inr (map recorded_row (rows c)) \<and> parse_identity t = Inr (recorded_identity c)"
proof -
  from assms obtain pre ids x y where l': "splitlines t = pre @ ids @ (x @ audit c @ y) @ map row_line (rows c)"
    and p': "list_all noise pre" "list_all noise x" "list_all noise y"
    and i: "mapE (identity_line (identity c)) IDENTITY_KEYS = Inr ids"
      "list_all (\<lambda>l. plain_line l \<and> startswith l ''#'' \<and> \<not> list_ex (startswith l) tags) ids"
    by (rule rendered_parts)
  define post where "post = x @ audit c @ y"
  have l: "splitlines t = pre @ ids @ post @ map row_line (rows c)" by (simp add: l' post_def)
  have p: "list_all comment_line pre" "list_all comment_line post"
    using p' assms(3) by (auto simp: post_def list_all_iff noise_comment result_ok_def)
  have hash: "list_all (\<lambda>l. startswith l ''#'') (pre @ ids @ post)"
    using p i(2) by (auto simp: list_all_iff comment_line_def)
  have "parse_manifest t = bindE (foldE parse_row (enumerate 1 (pre @ ids @ post)) [])
      (foldE parse_row (enumerate (1 + length (pre @ ids @ post)) (map row_line (rows c))))"
    unfolding parse_manifest_def foldE_append [symmetric] enumerate_append_eq [symmetric] by (simp add: l)
  also have "\<dots> = Inr (map recorded_row (rows c))"
    using assms(3) parse_rows [of "rows c" "[]"] by (simp only: parse_comments [OF hash]) (simp add: result_ok_def)
  finally have m: "parse_manifest t = Inr (map recorded_row (rows c))" .
  have "list_all (\<lambda>l. \<not> startswith l (''# identity'' @ [tab])) (map row_line (rows c))"
  proof -
    have "\<not> startswith (row_line r) (''# identity'' @ [tab])" if "r \<in> set (rows c)" for r
      using row_line_not_comment(2) [of r] assms(3) that by (auto simp: result_ok_def list_all_iff startswith_iff)
    then show ?thesis by (simp add: list_all_iff)
  qed
  then have rest: "list_all (\<lambda>l. \<not> startswith l (''# identity'' @ [tab])) (post @ map row_line (rows c))"
    and first: "list_all (\<lambda>l. \<not> startswith l (''# identity'' @ [tab])) pre"
    using p by (auto simp: list_all_iff comment_line_def)
  have "distinct IDENTITY_KEYS" by code_simp
  then have "foldE parse_identity_line (enumerate n ids) [] = Inr (recorded_identity c)" for n
    using parse_identities [of "[]" IDENTITY_KEYS "identity c" ids n] i(1) assms(3)
    by (simp add: recorded_identity_def result_ok_def)
  moreover have "foldE parse_identity_line (enumerate 1 (splitlines t)) [] =
      bindE (foldE parse_identity_line (enumerate 1 pre) []) (\<lambda>x.
      bindE (foldE parse_identity_line (enumerate (1 + length pre) ids) x)
        (foldE parse_identity_line (enumerate (1 + length pre + length ids) (post @ map row_line (rows c)))))"
    unfolding l enumerate_append_eq foldE_append by (simp add: foldE_append enumerate_append_eq add.assoc bindE_def split: sum.split)
  ultimately have "foldE parse_identity_line (enumerate 1 (splitlines t)) [] = Inr (recorded_identity c)"
    by (simp only: skip_identity [OF first] skip_identity [OF rest] bindE_simps)
  moreover have "filter (\<lambda>k. map_of (recorded_identity c) k = None) IDENTITY_KEYS = []"
    by (simp add: recorded_identity_def filter_empty_conv map_of_map_restrict)
  ultimately show ?thesis using m by (simp add: parse_identity_def)
qed

section \<open>Rows and destination\<close>

text \<open>What a file of the destination contributes to the payload.\<close>

definition file_value :: "menv \<Rightarrow> path \<Rightarrow> string \<Rightarrow> string \<Rightarrow> string \<Rightarrow> bool" where
  "file_value e d rel h m \<longleftrightarrow> rel \<noteq> OUTPUT_FILE \<and> content_digest e (under d rel) = Inr h
     \<and> filesystem_mode (mtree e) (under d rel) = Inr m"

lemma triple_make_row [simp]: "row_triple (make_row rel h m cp og st) = (rel, h, m)"
  by (simp add: row_triple_def make_row_def)

lemma row_verdict_problems:
  assumes "row_verdict e a base reasons rel h m p ps = Inr (v, ps')"
  shows "\<exists>extra. ps' = ps @ extra \<and> (v = None \<longrightarrow> extra \<noteq> [])"
proof -
  let ?G = "\<lambda>ps. \<exists>extra. ps' = ps @ extra \<and> (v = None \<longrightarrow> extra \<noteq> [])"
  have s: "?G ps" if "as_source e rel cp h m p reasons ps = Inr (v, ps')" for cp ps
    using that by (auto simp: as_source_def bindE_Inr_iff split: prod.splits)
  have f: "?G ps" if "foundation_row e a rel bm h m reasons ps = Inr (v, ps')" for bm ps
    using that by (auto simp: foundation_row_def bindE_Inr_iff Let_def split: prod.splits)
  have o: "?G ps" if "other_row e a rel h m p reasons ps = Inr (v, ps')" for ps
  proof -
    from that obtain c where "(case c of Some cp \<Rightarrow> as_source e rel cp h m p reasons ps
      | None \<Rightarrow> Inr (Some (None, ''AUTHORED'', ''ADDED''), ps)) = Inr (v, ps')"
      by (auto simp: other_row_def bindE_Inr_iff)
    then show ?thesis by (cases c) (auto dest: s)
  qed
  have r: "?G ps" if "relocated_row e a rel h m p reasons ps = Inr (v, ps')" for ps
  proof (cases "source_counterpart e a rel")
    case (Inl x)
    with that show ?thesis by (cases x) (auto simp: relocated_row_def)
  next
    case (Inr c)
    with that show ?thesis by (cases c) (auto simp: relocated_row_def dest: s)
  qed
  from assms obtain z where
    x: "(if map_of COMPANION_SOURCES rel = None then Inr (None, ps)
            else (case companion_counterpart e a rel of
                Inl (SourceMissing msg) \<Rightarrow> Inr (None, ps @ [msg])
              | Inl x \<Rightarrow> Inl x
              | Inr cp \<Rightarrow> Inr (Some cp, ps))) = Inr z"
    and b': "(case z of (cmpn, ps1) \<Rightarrow> (if map_of RELOCATED_SOURCES rel \<noteq> None then relocated_row e a rel h m p reasons ps1
     else case cmpn of Some cp \<Rightarrow> as_source e rel cp h m p reasons ps1
      | None \<Rightarrow> (case map_of base rel of Some bm \<Rightarrow> foundation_row e a rel bm h m reasons ps1
           | None \<Rightarrow> other_row e a rel h m p reasons ps1))) = Inr (v, ps')"
    unfolding row_verdict_def bindE_Inr_iff by blast
  obtain cmpn ps1 where z: "z = (cmpn, ps1)" by (cases z)
  note b = b' [unfolded z prod.case]
  have c: "\<exists>x. ps1 = ps @ x"
    using x z by (auto split: if_splits sum.splits exn.splits)
  have "\<exists>extra. ps' = ps1 @ extra \<and> (v = None \<longrightarrow> extra \<noteq> [])"
  proof (cases "map_of RELOCATED_SOURCES rel = None")
    case True
    with b show ?thesis by (cases cmpn; cases "map_of base rel") (auto dest: s f o)
  next
    case False
    with b show ?thesis by (auto dest: r)
  qed
  with c show ?thesis by auto
qed

lemma row_step_Inr:
  assumes "row_step e a base reasons rel (rs, ps) = Inr (rs', ps')"
  shows "\<exists>new extra. rs' = rs @ new \<and> ps' = ps @ extra \<and>
    (extra = [] \<longrightarrow> (rel = OUTPUT_FILE \<and> new = []) \<or>
       (\<exists>h m r. new = [r] \<and> row_triple r = (rel, h, m) \<and> file_value e (dest a) rel h m))"
proof (cases "rel = OUTPUT_FILE")
  case False
  let ?p = "under (dest a) rel"
  show ?thesis
  proof (cases "is_link_at (mtree e) ?p \<or> is_file_at (mtree e) ?p")
    case True
    from True assms False have "bindE (content_digest e ?p) (\<lambda>h. bindE (filesystem_mode (mtree e) ?p) (\<lambda>m.
       bindE (row_verdict e a base reasons rel h m ?p ps) (\<lambda>v. Inr (add_row rel h m rs v)))) = Inr (rs', ps')"
      by (elim disjE) (simp_all add: row_step_def Let_def)
    then obtain h m z where h: "content_digest e ?p = Inr h" "filesystem_mode (mtree e) ?p = Inr m"
      and z: "row_verdict e a base reasons rel h m ?p ps = Inr z" "add_row rel h m rs z = (rs', ps')"
      unfolding bindE_Inr_iff by blast
    obtain v q where vq: "z = (v, q)" by (cases z)
    note v = z(1) [unfolded vq] and k = z(2) [unfolded vq]
    from k have "q = ps'" and r: "rs' = rs \<and> v = None \<or> (\<exists>r. rs' = rs @ [r] \<and> row_triple r = (rel, h, m))"
      by (cases v; auto)+
    note v = v [unfolded \<open>q = ps'\<close>]
    from row_verdict_problems [OF v] r h False show ?thesis by (auto simp: file_value_def)
  qed (use assms False in \<open>auto simp: row_step_def Let_def\<close>)
qed (use assms in \<open>auto simp: row_step_def\<close>)

lemma row_steps:
  "foldE (row_step e a base reasons) fs (rs, ps) = Inr (rs', ps') \<Longrightarrow> ps' = [] \<Longrightarrow>
     ps = [] \<and> (\<exists>new. rs' = rs @ new \<and>
       list_all2 (\<lambda>rel r. \<exists>h m. row_triple r = (rel, h, m) \<and> file_value e (dest a) rel h m)
         (filter (\<lambda>rel. rel \<noteq> OUTPUT_FILE) fs) new)"
proof (induction fs arbitrary: rs ps)
  case Nil
  then show ?case by simp
next
  case (Cons rel fs)
  then obtain rs1 ps1 where s: "row_step e a base reasons rel (rs, ps) = Inr (rs1, ps1)"
    and f: "foldE (row_step e a base reasons) fs (rs1, ps1) = Inr (rs', ps')" by (auto simp: bindE_Inr_iff)
  from Cons.IH [OF f Cons.prems(2)] row_step_Inr [OF s] show ?case by (fastforce simp: file_value_def)
qed

lemma update_new: "k \<notin> fst ` set xs \<Longrightarrow> AList.update k v xs = xs @ [(k, v)]"
  by (induction xs) auto

lemma dest_steps:
  "foldE (dest_step e d index) fs st = Inr st' \<Longrightarrow> missing st' = [] \<Longrightarrow>
     distinct (map fst (current st)) \<Longrightarrow> distinct (map fst (current st') ) \<and> missing st = [] \<and>
     (distinct (map fst (current st) @ fs) \<longrightarrow> (\<exists>new. current st' = current st @ new \<and>
       list_all2 (\<lambda>rel x. \<exists>h m. x = (rel, h, m) \<and> file_value e d rel h m)
         (filter (\<lambda>rel. rel \<noteq> OUTPUT_FILE) fs) new))"
proof (induction fs arbitrary: st)
  case Nil
  then show ?case by simp
next
  case (Cons rel fs)
  then obtain st1 where s: "dest_step e d index rel st = Inr st1"
    and f: "foldE (dest_step e d index) fs st1 = Inr st'" by (auto simp: bindE_Inr_iff)
  show ?case
  proof (cases "rel = OUTPUT_FILE")
    case True
    with s have "st1 = st" by (simp add: dest_step_def)
    with Cons.IH [OF f Cons.prems(2)] Cons.prems(3) True show ?thesis by auto
  next
    case False
    have m1: "distinct (map fst (current st1))" using s Cons.prems(3) False
      by (auto simp: dest_step_def Let_def bindE_Inr_iff distinct_update split: if_splits)
    note ih = Cons.IH [OF f Cons.prems(2) m1]
    with s False obtain h m where v: "file_value e d rel h m" and c: "current st1 = AList.update rel (h, m) (current st)"
      and ms: "missing st = []"
      by (auto simp: dest_step_def Let_def bindE_Inr_iff file_value_def split: if_splits)
    have "current st1 = current st @ [(rel, h, m)]" if "rel \<notin> set (map fst (current st))"
      using c that by (simp add: update_new)
    with ih v ms False m1 show ?thesis by fastforce
  qed
qed

text \<open>The rows of a classification without problems are the destination as it is found.\<close>

lemma map_sort_key: "map f (sort_key (g \<circ> f) xs) = sort_key g (map f xs)"
proof -
  have "map f (insort_key (g \<circ> f) x ys) = insort_key g (f x) (map f ys)" for x ys
    by (induction ys) auto
  then show ?thesis by (induction xs) auto
qed

lemma classify_cases:
  assumes "classify e a = Inr c"
  obtains base reasons fs rs ps ds ident aud sfs where
    "worktree_files e (dest a) = Inr fs" "foldE (row_step e a base reasons) fs ([], []) = Inr (rs, ps)"
    "destination_state e (dest a) = Inr ds" "worktree_files e (origin_src a) = Inr sfs"
    "environment_identity e a (length (mismatched ds)) = Inr (ident, aud)"
    "rows c = sort_key rpath rs" "excluded c = excluded_of (map rpath (rows c)) sfs"
    "problems c = ps @ map (\<lambda>rel. rel @ '': tracked path is missing from the working tree'') (missing ds)"
    "payload_fp c = mhash e (concat (map (payload_line \<circ> row_triple) (rows c)))"
    "identity c = update_all [(''payload_fingerprint'', payload_fp c), (''payload_rows'', show_nat (length (rows c))),
             (''inventory_fingerprint'', snd (inventory_document e (current ds))),
             (''inventory_rows'', show_nat (length (current ds)))] ident"
    "audit c = aud @ origin_lines ''# relocation'' (origin_src a) RELOCATED_SOURCES
            @ origin_lines ''# companion'' (companion a) COMPANION_SOURCES
            @ mode_mismatch_lines (mismatched ds)"
  using assms
  by (auto simp: classify_def bindE_Inr_iff Let_def)

lemma destination_cases:
  assumes "destination_state e d = Inr ds"
  obtains index fs st where "worktree_files e d = Inr fs"
    "foldE (dest_step e d index) fs \<lparr>current = [], payload = [], mismatched = [], missing = []\<rparr> = Inr st"
    "current ds = current st" "missing ds = missing st"
    "payload ds = mhash e (concat (map payload_line (sort_key fst (current ds))))"
  using assms by (auto simp: destination_state_def bindE_Inr_iff)

lemma list_all2_functional:
  "list_all2 P xs ys \<Longrightarrow> list_all2 P xs zs \<Longrightarrow> (\<And>x y z. P x y \<Longrightarrow> P x z \<Longrightarrow> y = z) \<Longrightarrow> ys = zs"
proof (induction xs arbitrary: ys zs)
  case Nil
  then show ?case by simp
next
  case (Cons x xs)
  then show ?case by (auto simp: list_all2_Cons1)
qed

lemma rows_are_destination:
  assumes "classify e a = Inr c" and "problems c = []"
    and "worktree_files e (dest a) = Inr fs" and "distinct fs"
  obtains ds where "destination_state e (dest a) = Inr ds" "missing ds = []"
    "map row_triple (rows c) = sort_key fst (current ds)" "distinct (map fst (current ds))"
    "payload_fp c = payload ds"
proof -
  from assms(1) obtain base reasons fs' rs ps ds where c: "worktree_files e (dest a) = Inr fs'"
    "foldE (row_step e a base reasons) fs' ([], []) = Inr (rs, ps)" "destination_state e (dest a) = Inr ds"
    "rows c = sort_key rpath rs"
    "problems c = ps @ map (\<lambda>rel. rel @ '': tracked path is missing from the working tree'') (missing ds)"
    "payload_fp c = mhash e (concat (map (payload_line \<circ> row_triple) (rows c)))"
    by (rule classify_cases)
  have m: "ps = []" "missing ds = []" and [simp]: "fs' = fs" using c assms(2,3) by simp_all
  from c(3) obtain index st where d: "foldE (dest_step e (dest a) index) fs \<lparr>current = [], payload = [], mismatched = [], missing = []\<rparr> = Inr st"
    "current ds = current st" "missing ds = missing st" "payload ds = mhash e (concat (map payload_line (sort_key fst (current ds))))"
    using c(1) by (auto elim!: destination_cases)
  let ?P = "\<lambda>rel x. \<exists>h m. x = (rel, h, m) \<and> file_value e (dest a) rel h m"
  from row_steps [OF c(2) m(1)] have r: "list_all2 ?P (filter (\<lambda>rel. rel \<noteq> OUTPUT_FILE) fs) (map row_triple rs)"
    by (auto simp: list_all2_map2)
  from dest_steps [OF d(1)] m d(2,3) assms(4) have s: "distinct (map fst (current ds))"
    "list_all2 ?P (filter (\<lambda>rel. rel \<noteq> OUTPUT_FILE) fs) (current ds)" by auto
  have f: "x = y" if "?P rel x" "?P rel y" for rel x y using that by (auto simp: file_value_def)
  from r s(2) f have eq: "map row_triple rs = current ds" by (rule list_all2_functional)
  have "map row_triple (rows c) = sort_key fst (current ds)"
    using map_sort_key [of row_triple fst rs] eq by (simp add: c(4) comp_def row_triple_def)
  moreover from this have "payload_fp c = payload ds" by (simp add: c(6) d(4) flip: map_map)
  ultimately show ?thesis using that c(3) m(2) s(1) by blast
qed

section \<open>Verification\<close>

lemma update_keys: "k \<in> set (map fst d) \<Longrightarrow> map fst (AList.update k v d) = map fst d"
  by (induction d) auto

lemma update_all_keys: "fst ` set kvs \<subseteq> set (map fst d) \<Longrightarrow> map fst (update_all kvs d) = map fst d"
  unfolding update_all_def
proof (induction kvs arbitrary: d)
  case (Cons kv kvs)
  obtain k v where "kv = (k, v)" by (cases kv)
  with Cons.prems Cons.IH [of "AList.update k v d"] update_keys [of k d v] show ?case by simp
qed simp

lemma environment_keys:
  assumes "environment_identity e a n = Inr (ident, aud)"
  shows "map fst ident = IDENTITY_KEYS"
  using assms by (auto simp: environment_identity_def bindE_Inr_iff IDENTITY_KEYS_def repo_identity_def)

lemma environment_values:
  assumes "environment_identity e a n = Inr (ident, aud)"
  shows "map_of ident ''version'' = Some GENERATOR_VERSION" "map_of ident ''payload_algorithm'' = Some PAYLOAD_ALGORITHM"
    "map_of ident ''payload_excludes'' = Some OUTPUT_FILE" "map_of ident ''inventory_algorithm'' = Some INVENTORY_ALGORITHM"
    "map_of ident ''inventory_excludes'' = Some OUTPUT_FILE" "map_of ident ''base_commit'' = Some BASE_COMMIT"
    "map_of ident ''destination_index_mode_mismatches'' = Some (show_nat n)"
  using assms by (auto simp: environment_identity_def bindE_Inr_iff repo_identity_def)

lemma update_all_get: "map_of (update_all kvs d) k = (map_of d ++ map_of (rev kvs)) k"
proof (induction kvs arbitrary: d)
  case Nil
  then show ?case by (simp add: update_all_def)
next
  case (Cons kv kvs)
  obtain i v where kv: "kv = (i, v)" by (cases kv)
  have "map_of (update_all (kv # kvs) d) k = map_of (update_all kvs (AList.update i v d)) k"
    by (simp add: kv update_all_def)
  also have "\<dots> = (map_of (AList.update i v d) ++ map_of (rev kvs)) k" by (rule Cons.IH)
  also have "\<dots> = (map_of d ++ map_of (rev (kv # kvs))) k"
    by (simp add: kv update_conv' map_add_def split: option.splits)
  finally show ?case .
qed

lemma recorded_identity_eq:
  assumes "map fst (identity c) = IDENTITY_KEYS"
  shows "recorded_identity c = identity c"
proof -
  have "distinct IDENTITY_KEYS" by code_simp
  with assms have d: "distinct (map fst (identity c))" by simp
  have "map (\<lambda>k. (k, the (map_of (identity c) k))) (map fst (identity c)) = identity c"
    using d unfolding map_map by (intro map_idI) auto
  with assms show ?thesis by (simp add: recorded_identity_def)
qed

text \<open>The tagged lines of a rendered text are those of the audit.\<close>

lemma tagged_lines:
  assumes "render a c = Inr t" and "roots_ok a" and "result_ok c" and "q \<in> set tags"
  shows "lines_with q t = filter (\<lambda>l. startswith l q) (audit c)"
proof -
  from assms(1-3) obtain pre ids x y where l: "splitlines t = pre @ ids @ (x @ audit c @ y) @ map row_line (rows c)"
    and p: "list_all noise pre" "list_all noise x" "list_all noise y"
      "list_all (\<lambda>l. plain_line l \<and> startswith l ''#'' \<and> \<not> list_ex (startswith l) tags) ids"
    by (rule rendered_parts)
  have n: "filter (\<lambda>l. startswith l q) ls = []" if "list_all noise ls" for ls
    using that assms(4) by (auto simp: filter_empty_conv list_all_iff noise_def list_ex_iff)
  have i: "filter (\<lambda>l. startswith l q) ids = []"
    using p(4) assms(4) by (auto simp: filter_empty_conv list_all_iff list_ex_iff)
  have "\<not> startswith (row_line r) q" if "r \<in> set (rows c)" for r
  proof -
    have "\<not> startswith (row_line r) ''#''" using row_line_not_comment(2) [of r] assms(3) that by (auto simp: result_ok_def list_all_iff)
    then show ?thesis using assms(4) by (auto simp: tags_def startswith_iff)
  qed
  then have "filter (\<lambda>l. startswith l q) (map row_line (rows c)) = []" by (auto simp: filter_empty_conv)
  with n [OF p(1)] n [OF p(2)] n [OF p(3)] i show ?thesis by (simp add: lines_with_def l)
qed

lemma row_failures_Nil:
  assumes "row_failures rec now = []"
  shows "map_option (\<lambda>(h, m, _). (h, m)) (map_of rec p) = map_of now p"
proof (cases "map_of now p")
  case None
  have "map_of rec p = None"
  proof (rule ccontr)
    assume "map_of rec p \<noteq> None"
    then obtain x where "(p, x) \<in> set rec" by (auto dest: map_of_SomeD)
    with assms None show False by (fastforce simp: row_failures_def fail_if_def)
  qed
  with None show ?thesis by simp
next
  case (Some hm)
  obtain h m where hm: "hm = (h, m)" by (cases hm)
  from Some have "(p, h, m) \<in> set now" by (auto simp: hm dest: map_of_SomeD)
  with assms have "(case map_of rec p of None \<Rightarrow> [p @ '': missing from the manifest'']
       | Some (dh, dm, _) \<Rightarrow> fail_if (dh \<noteq> h \<or> dm \<noteq> m) (p @ '': destination hash or mode differs from the manifest'')) = []"
    by (fastforce simp: row_failures_def)
  then show ?thesis by (auto simp: Some hm fail_if_def split: option.splits if_splits)
qed

lemma attempt_Inr: "attempt r = Inr (x, []) \<Longrightarrow> \<exists>y. r = Inr y \<and> x = Some y"
  by (auto simp: attempt_def split: sum.splits exn.splits)

text \<open>
  C34 (what \<^verbatim>\<open>--verify\<close> accepts is what was recorded): when it reports no failure, the manifest parses,
  no file is missing, the recorded rows name exactly the files of the working tree with their hashes and
  modes, the recorded payload fingerprint is the one of the tree, and, when the checkouts are there, the
  tree classifies without problems, every recomputed identity value is the recorded one and no recorded
  row differs from its recomputed provenance.
\<close>

theorem verify_sound:
  assumes "verify e a = Inr []"
  shows "\<exists>t rec ident ds. read_text (mtree e) (under (dest a) OUTPUT_FILE) = Inr t \<and> parse_manifest t = Inr rec \<and>
     parse_identity t = Inr ident \<and> destination_state e (dest a) = Inr ds \<and> missing ds = [] \<and>
     (\<forall>p. map_option (\<lambda>(h, m, _). (h, m)) (map_of rec p) = map_of (current ds) p) \<and>
     map_of ident ''payload_fingerprint'' = Some (payload ds) \<and>
     (unavailable e a = [] \<longrightarrow> (\<exists>c. classify e a = Inr c \<and> problems c = [] \<and>
        (\<forall>(k, v) \<in> set (identity c). map_of ident k = Some v) \<and>
        (\<forall>r \<in> set (rows c). map_of rec (rpath r) \<in> {None, Some (snd (recorded_row r))})))"
proof -
  from assms obtain t x f1 y f2 ds where t: "read_text (mtree e) (under (dest a) OUTPUT_FILE) = Inr t"
    and p: "attempt (parse_manifest t) = Inr (x, f1)" "attempt (parse_identity t) = Inr (y, f2)"
    and ds: "destination_state e (dest a) = Inr ds"
    and f: "(let fs = fail_if (\<not> startswith t ''# Migration manifest'') ''manifest header missing'' @ f1 @ f2
              @ destination_failures e t x y ds in
       if unavailable e a \<noteq> [] then Inr fs
       else bindE (classify e a) (\<lambda>c. Inr (fs @ provenance_failures t x y ds c))) = Inr []"
    by (auto simp: verify_def bindE_Inr_iff)
  from f have nil: "f1 = []" "f2 = []" "destination_failures e t x y ds = []"
    and c: "unavailable e a = [] \<Longrightarrow> \<exists>c. classify e a = Inr c \<and> provenance_failures t x y ds c = []"
    by (auto simp: Let_def bindE_Inr_iff split: if_splits)
  from attempt_Inr [OF p(1) [unfolded nil]] obtain rec where rec: "parse_manifest t = Inr rec" "x = Some rec" by blast
  from attempt_Inr [OF p(2) [unfolded nil]] obtain ident where ident: "parse_identity t = Inr ident" "y = Some ident" by blast
  from nil(3) have d: "missing ds = []" "identity_failures e t ident ds = []" "row_failures rec (current ds) = []"
    by (simp_all add: destination_failures_def rec ident)
  have "map_of ident ''payload_fingerprint'' = Some (payload ds)"
    using d(2) by (simp add: identity_failures_def fail_if_def split: if_splits)
  moreover have "\<exists>c. classify e a = Inr c \<and> problems c = [] \<and> (\<forall>(k, v) \<in> set (identity c). map_of ident k = Some v) \<and>
        (\<forall>r \<in> set (rows c). map_of rec (rpath r) \<in> {None, Some (snd (recorded_row r))})" if "unavailable e a = []"
  proof -
    from c [OF that] obtain c where c: "classify e a = Inr c" "provenance_failures t x y ds c = []" by blast
    then have "problems c = []" "\<forall>(k, v) \<in> set (identity c). fail_if (map_of ident k \<noteq> Some v)
        (''identity '' @ k @ '': recorded '' @ repr_opt (map_of ident k) @ '' != recomputed '' @ repr_str v) = []"
      "\<forall>r \<in> set (rows c). (case map_of rec (rpath r) of None \<Rightarrow> []
             | Some vs \<Rightarrow> fail_if (vs \<noteq> (dest_hash r, dest_mode r, src_hash r, src_mode r, origin r, state r))
                 (rpath r @ '': manifest row differs from recomputed provenance'')) = []"
      by (auto simp: provenance_failures_def Let_def rec ident)
    moreover from this(3) have "map_of rec (rpath r) \<in> {None, Some (snd (recorded_row r))}" if "r \<in> set (rows c)" for r
      using that by (cases "map_of rec (rpath r)") (auto simp: fail_if_def recorded_row_def split: if_splits)
    ultimately show ?thesis
      using c(1) by (intro exI [of _ c]) (auto simp: fail_if_def split: if_splits)
  qed
  ultimately show ?thesis using t rec ident ds d row_failures_Nil [OF d(3)] by blast
qed

lemma tagged_join:
  assumes "h @ [tab] \<in> set tags" and "q \<in> set tags" and "q \<noteq> h @ [tab]"
  shows "\<not> startswith (joined_tabs (h # x # xs)) q"
proof -
  have "list_all (\<lambda>p. list_all (\<lambda>q. p = q \<or> clash p q) tags) tags" by code_simp
  with assms have "clash (h @ [tab]) q" by (auto simp: list_all_iff)
  from clash_not_prefix [OF this, of "joined_tabs (x # xs)"] show ?thesis by (simp add: joined_tabs_def)
qed

lemma audit_mismatch:
  assumes "environment_identity e a n = Inr (ident, aud)"
    and "ls = aud @ origin_lines ''# relocation'' r RELOCATED_SOURCES @ origin_lines ''# companion'' p COMPANION_SOURCES
      @ mode_mismatch_lines ms"
  shows "filter (\<lambda>l. startswith l (''# mode-mismatch'' @ [tab])) ls = mode_mismatch_lines ms"
proof -
  define q where "q = ''# mode-mismatch'' @ [tab]"
  have no: "\<not> startswith (joined_tabs (h # x # xs)) q" if "h \<in> set [''# dirty'', ''# relocation'', ''# companion'']" for h x xs
    using that by (intro tagged_join) (auto simp: tags_def q_def)
  have "filter (\<lambda>l. startswith l q) aud = []"
    using assms(1) by (auto simp: environment_identity_def bindE_Inr_iff dirty_audit_lines_def filter_empty_conv no)
  moreover have "filter (\<lambda>l. startswith l q) (origin_lines h d m) = []" if "h \<in> set [''# relocation'', ''# companion'']" for h d m
    using that no [of h] by (auto simp: origin_lines_def filter_empty_conv)
  moreover have "startswith (joined_tabs [''# mode-mismatch'', x, y, z]) q" for x y z
    by (auto simp: q_def joined_tabs_def startswith_iff)
  then have "filter (\<lambda>l. startswith l q) (mode_mismatch_lines ms) = mode_mismatch_lines ms"
    by (auto simp: mode_mismatch_lines_def filter_id_conv)
  ultimately show ?thesis unfolding q_def [symmetric] by (simp add: assms(2))
qed

lemma verify_accepts:
  assumes "classify e a = Inr c" and "problems c = []" and "render a c = Inr t"
    and "read_text (mtree e) (under (dest a) OUTPUT_FILE) = Inr t"
    and "roots_ok a" and "result_ok c" and "worktree_files e (dest a) = Inr fs" and "distinct fs"
  shows "verify e a = Inr []"
proof -
  from assms(1) obtain base reasons fs' rs ps ds ident aud sfs where c:
    "destination_state e (dest a) = Inr ds" "environment_identity e a (length (mismatched ds)) = Inr (ident, aud)"
    "excluded c = excluded_of (map rpath (rows c)) sfs"
    "identity c = update_all [(''payload_fingerprint'', payload_fp c), (''payload_rows'', show_nat (length (rows c))),
             (''inventory_fingerprint'', snd (inventory_document e (current ds))),
             (''inventory_rows'', show_nat (length (current ds)))] ident"
    "audit c = aud @ origin_lines ''# relocation'' (origin_src a) RELOCATED_SOURCES
            @ origin_lines ''# companion'' (companion a) COMPANION_SOURCES
            @ mode_mismatch_lines (mismatched ds)"
    by (rule classify_cases)
  from rows_are_destination [OF assms(1,2,7,8)] c(1) have d: "missing ds = []"
    "map row_triple (rows c) = sort_key fst (current ds)" "distinct (map fst (current ds))" "payload_fp c = payload ds"
    by auto
  have len: "length (rows c) = length (current ds)" using arg_cong [OF d(2), of length] by simp
  have keys: "map fst (identity c) = IDENTITY_KEYS"
  proof -
    have "{''payload_fingerprint'', ''payload_rows'', ''inventory_fingerprint'', ''inventory_rows''} \<subseteq> set IDENTITY_KEYS"
      by (simp add: IDENTITY_KEYS_def)
    then show ?thesis unfolding c(4) environment_keys [OF c(2), symmetric] by (intro update_all_keys) simp
  qed
  note parsed = manifest_roundtrip [OF assms(3,5,6), unfolded recorded_identity_eq [OF keys]]
  have ok: "result_ok c" by (rule assms(6))
  from rendered_parts [OF assms(3,5,6)] obtain pre rest where
    l: "splitlines t = pre @ rest" "pre = header_lines a" "t = concat (map (\<lambda>l. l @ [newline]) (splitlines t))"
    and exl: "\<And>x. x \<in> set (excluded c) \<Longrightarrow> excluded_line x \<in> set (splitlines t)" 
    by (metis (no_types, lifting) append_assoc in_set_conv_decomp_first image_eqI set_map Un_iff set_append)
  have head: "startswith t ''# Migration manifest''"
    by (subst l(3)) (auto simp: l(1,2) header_lines_def startswith_iff)
  have mm: "lines_with (''# mode-mismatch'' @ [tab]) t = mode_mismatch_lines (mismatched ds)"
    using tagged_lines [OF assms(3,5,6), of "''# mode-mismatch'' @ [tab]"] audit_mismatch [OF c(2,5)]
    by (simp add: tags_def)
  have iv: "map_of (identity c) ''version'' = Some GENERATOR_VERSION" "map_of (identity c) ''payload_algorithm'' = Some PAYLOAD_ALGORITHM"
    "map_of (identity c) ''payload_excludes'' = Some OUTPUT_FILE" "map_of (identity c) ''inventory_algorithm'' = Some INVENTORY_ALGORITHM"
    "map_of (identity c) ''inventory_excludes'' = Some OUTPUT_FILE" "map_of (identity c) ''base_commit'' = Some BASE_COMMIT"
    "map_of (identity c) ''destination_index_mode_mismatches'' = Some (show_nat (length (mismatched ds)))"
    "map_of (identity c) ''payload_fingerprint'' = Some (payload ds)"
    "map_of (identity c) ''payload_rows'' = Some (show_nat (length (current ds)))"
    "map_of (identity c) ''inventory_fingerprint'' = Some (snd (inventory_document e (current ds)))"
    "map_of (identity c) ''inventory_rows'' = Some (show_nat (length (current ds)))"
    unfolding c(4) update_all_get using environment_values [OF c(2)] by (simp_all add: d(4) len map_add_def)
  then have idf: "identity_failures e t (identity c) ds = []"
    unfolding identity_failures_def fail_if_def mm by (simp add: same_set_iff)
  have rowf: "row_failures (map recorded_row (rows c)) (current ds) = []"
  proof -
    have tr: "set (map row_triple (rows c)) = set (current ds)" by (simp add: d(2))
    have dr: "distinct (map fst (map recorded_row (rows c)))" using ok by (simp add: result_ok_def recorded_row_def comp_def)
    have mo: "map_of (map recorded_row (rows c)) (rpath r) = Some (snd (recorded_row r))" if "r \<in> set (rows c)" for r
      using dr that by (intro map_of_is_SomeI) (auto simp: recorded_row_def)
    have "\<exists>x. map_of (map recorded_row (rows c)) p = Some (h, m, x)" if "(p, h, m) \<in> set (current ds)" for p h m
    proof -
      from that tr have "(p, h, m) \<in> row_triple ` set (rows c)" by simp
      then obtain r where "r \<in> set (rows c)" "row_triple r = (p, h, m)" by auto
      with mo [of r] show ?thesis by (simp add: row_triple_def recorded_row_def)
    qed
    moreover have "map_of (current ds) (rpath r) \<noteq> None" if "r \<in> set (rows c)" for r
    proof -
      have "row_triple r \<in> set (current ds)" using that tr by (metis image_eqI set_map)
      then show ?thesis by (auto simp: row_triple_def map_of_eq_None_iff rev_image_eqI)
    qed
    ultimately show ?thesis by (fastforce simp: row_failures_def fail_if_def recorded_row_def)
  qed
  have prov: "provenance_failures t (Some (map recorded_row (rows c))) (Some (identity c)) ds c = []"
  proof -
    have di: "distinct (map fst (identity c))" unfolding keys by code_simp
    have dr: "distinct (map fst (map recorded_row (rows c)))" using ok by (simp add: result_ok_def recorded_row_def comp_def)
    have "map_of (identity c) k = Some v" if "(k, v) \<in> set (identity c)" for k v using di that by simp
    moreover have "map_of (map recorded_row (rows c)) (rpath r) = Some (snd (recorded_row r))" if "r \<in> set (rows c)" for r
      using dr that by (intro map_of_is_SomeI) (auto simp: recorded_row_def)
    moreover have "substr (joined_tabs [''EXCLUDED'', fst x, []]) t" if "x \<in> set (excluded c)" for x
    proof -
      from exl [OF that] obtain ls1 ls2 where "splitlines t = ls1 @ excluded_line x # ls2" by (meson split_list)
      with l(3) have "t = concat (map (\<lambda>l. l @ [newline]) (ls1 @ excluded_line x # ls2))" by metis
      then obtain u v where t: "t = u @ excluded_line x @ v" by simp
      have "excluded_line x = ''#   '' @ joined_tabs [''EXCLUDED'', fst x, []] @ snd x"
        by (cases x) (simp add: excluded_line_def joined_tabs_def)
      with t have "t = (u @ ''#   '') @ joined_tabs [''EXCLUDED'', fst x, []] @ (snd x @ v)" by simp
      then show ?thesis unfolding substr_iff by blast
    qed
    moreover have tl: "lines_with (''# dirty'' @ [tab]) t = filter (\<lambda>l. startswith l (''# dirty'' @ [tab])) (audit c)"
      "lines_with (''# relocation'' @ [tab]) t = filter (\<lambda>l. startswith l (''# relocation'' @ [tab])) (audit c)"
      "lines_with (''# companion'' @ [tab]) t = filter (\<lambda>l. startswith l (''# companion'' @ [tab])) (audit c)"
      using tagged_lines [OF assms(3,5,6)] unfolding tags_def list.set by blast+
    ultimately show ?thesis
      unfolding provenance_failures_def Let_def tl
      by (auto simp: assms(2) fail_if_def same_set_iff d(4) recorded_row_def)
  qed
  show ?thesis
    using assms(1,4) c(1) head parsed idf rowf prov
    by (simp add: verify_def attempt_def destination_failures_def d(1) fail_if_def)
qed

text \<open>
  C35 (what was generated is accepted): if the classification has no problems, the rendered text is what
  the manifest file of the destination holds, its values stay in their lines and columns, and \<^verbatim>\<open>git\<close> lists
  no file twice, then \<^verbatim>\<open>--verify\<close> reports no failure, with or without the source checkouts.
\<close>

theorem generated_is_accepted:
  assumes "classify e a = Inr c" and "problems c = []" and "render a c = Inr t"
    and "read_text (mtree e) (under (dest a) OUTPUT_FILE) = Inr t"
    and "roots_ok a" and "result_ok c" and "worktree_files e (dest a) = Inr fs" and "distinct fs"
  shows "verify e a = Inr []"
  using assms by (rule verify_accepts)

section \<open>The selection of dirty inputs\<close>

lemma sort_key_unique:
  assumes "set xs = set ys" and "distinct (map k xs)" and "distinct (map k ys)"
  shows "sort_key k xs = sort_key k ys"
proof -
  have "map k (sort_key k xs) = map k (sort_key k ys)"
    using assms by (intro sorted_distinct_set_unique) (simp_all add: distinct_map)
  moreover have "inj_on k (set (sort_key k xs) \<union> set (sort_key k ys))"
    using assms by (simp add: distinct_map)
  ultimately show ?thesis by (rule map_inj_on)
qed

lemma mapE_pure: "(\<And>x. x \<in> set xs \<Longrightarrow> f x = Inr (g x)) \<Longrightarrow> mapE f xs = Inr (map g xs)"
  by (induction xs) auto

text \<open>A selected input always has a record: what is a link or a file can be read.\<close>

definition status_of :: "menv \<Rightarrow> path \<Rightarrow> dict \<Rightarrow> string \<times> string \<Rightarrow> dirty" where
  "status_of e repo modes x = (case status_entry e repo modes x of Inr d \<Rightarrow> d)"

lemma readable:
  assumes "is_link_at (mtree e) p \<or> is_file_at (mtree e) p"
  shows "\<exists>h m. content_digest e p = Inr h \<and> filesystem_mode (mtree e) p = Inr m"
proof (cases "mtree e p")
  case (Some n)
  then show ?thesis using assms
    by (cases n) (auto simp: content_digest_def filesystem_mode_def sha256_file_def is_link_at_def is_file_at_def node_at_plain)
next
  case None
  with assms show ?thesis by (simp add: is_link_at_def is_file_at_def node_at_def numeral_eq_Suc)
qed

lemma status_entry_Inr: "status_entry e repo modes x = Inr (status_of e repo modes x)"
proof -
  have "\<exists>d. status_entry e repo modes x = Inr d"
    using readable [of e "under repo (snd x)"]
    by (cases x) (auto simp: status_entry_def Let_def kind_of_def)
  then show ?thesis by (auto simp: status_of_def)
qed

definition mode_changed :: "menv \<Rightarrow> path \<Rightarrow> string \<times> string \<Rightarrow> bool" where
  "mode_changed e repo = (\<lambda>(p, mode). mode \<in> set [''100644'', ''100755'', ''120000'']
     \<and> (is_link_at (mtree e) (under repo p) \<or> is_file_at (mtree e) (under repo p))
     \<and> filesystem_mode (mtree e) (under repo p) \<noteq> Inr mode)"

definition actual_mode :: "menv \<Rightarrow> path \<Rightarrow> string \<Rightarrow> string" where
  "actual_mode e repo p = (case filesystem_mode (mtree e) (under repo p) of Inr m \<Rightarrow> m)"

lemma mismatches_Inr:
  "foldE (mismatch_step e repo) modes acc =
     Inr (acc @ map (\<lambda>(p, m). (p, m, actual_mode e repo p)) (filter (mode_changed e repo) modes))"
proof (induction modes arbitrary: acc)
  case Nil
  then show ?case by simp
next
  case (Cons x modes)
  obtain p m where x: "x = (p, m)" by (cases x)
  have "mismatch_step e repo x acc = Inr (acc @ (if mode_changed e repo x then [(p, m, actual_mode e repo p)] else []))"
    using readable [of e "under repo p"]
    by (auto simp: x mismatch_step_def mode_changed_def actual_mode_def Let_def)
  with Cons show ?case by (simp add: x)
qed

definition mode_of :: "menv \<Rightarrow> path \<Rightarrow> string \<times> string \<times> string \<Rightarrow> dirty" where
  "mode_of e repo x = (case mode_entry e repo x of Inr d \<Rightarrow> d)"

lemma mode_entry_Inr:
  assumes "mode_changed e repo (p, m)"
  shows "mode_entry e repo (p, m, w) = Inr (mode_of e repo (p, m, w))"
  using assms readable [of e "under repo p"]
  by (auto simp: mode_entry_def mode_of_def mode_changed_def Let_def)

lemma mode_is_status:
  assumes "mode_changed e repo (p, m)" and "map_of modes p = Some m"
  shows "mode_of e repo (p, m, actual_mode e repo p) = status_of e repo modes (UNREPORTED_MODE_STATUS, p)"
  using assms readable [of e "under repo p"]
  by (auto simp: mode_of_def mode_entry_def status_of_def status_entry_def mode_changed_def Let_def kind_of_def
      dash_or_def actual_mode_def)

definition hidden_of :: "menv \<Rightarrow> path \<Rightarrow> dict \<Rightarrow> (string \<times> string) list \<Rightarrow> dirty list" where
  "hidden_of e repo modes items = map (\<lambda>(p, m). mode_of e repo (p, m, actual_mode e repo p))
     (filter (\<lambda>(p, m). mode_changed e repo (p, m) \<and> p \<notin> set (map snd items)) modes)"

lemma dirty_entries_eq:
  assumes "index_modes e repo = Inr modes" and "status_entries e repo = Inr items"
  shows "dirty_entries e repo True = Inr (sort_key dpath (map (status_of e repo modes) items @ hidden_of e repo modes items))"
    and "dirty_entries e repo False = Inr (sort_key dpath (map (status_of e repo modes) items))"
proof -
  have s: "mapE (status_entry e repo modes) items = Inr (map (status_of e repo modes) items)"
    by (rule mapE_pure) (rule status_entry_Inr)
  let ?ms = "map (\<lambda>(p, m). (p, m, actual_mode e repo p)) (filter (mode_changed e repo) modes)"
  have "mapE (mode_entry e repo) (filter (\<lambda>m. fst m \<notin> set (map snd items)) ?ms) =
      Inr (map (mode_of e repo) (filter (\<lambda>m. fst m \<notin> set (map snd items)) ?ms))"
    by (rule mapE_pure) (auto simp: mode_entry_Inr)
  also have "map (mode_of e repo) (filter (\<lambda>m. fst m \<notin> set (map snd items)) ?ms) = hidden_of e repo modes items"
    by (auto simp: hidden_of_def filter_map comp_def case_prod_unfold intro!: map_cong filter_cong)
  finally have h: "mapE (mode_entry e repo) (filter (\<lambda>m. fst m \<notin> set (map snd items)) ?ms) = Inr (hidden_of e repo modes items)" .
  show "dirty_entries e repo True = Inr (sort_key dpath (map (status_of e repo modes) items @ hidden_of e repo modes items))"
    using h by (simp add: dirty_entries_def assms s tracked_mode_mismatches_def mismatches_Inr)
  show "dirty_entries e repo False = Inr (sort_key dpath (map (status_of e repo modes) items))"
    by (simp add: dirty_entries_def assms s)
qed

text \<open>
  C37 (the dirty identity does not depend on \<^verbatim>\<open>core.filemode\<close>): let two runs differ only in the entries
  that \<^verbatim>\<open>git status\<close> reports, the second one hiding some of the \<^verbatim>\<open> M\<close> entries of tracked files whose
  mode differs from the index. The version 3 records, so their fingerprint and counts, are the same;
  every tracked file with another mode than the index is in them; and the superseded version 2 selection
  is that of the reported entries alone.
\<close>

theorem dirty_filemode_independent:
  assumes "index_modes e1 repo = Inr modes" and "index_modes e2 repo = Inr modes" and "distinct (map fst modes)"
    and "mtree e1 = mtree e2" and "mhash e1 = mhash e2"
    and "status_entries e1 repo = Inr items" and "status_entries e2 repo = Inr (filter shown items)"
    and "distinct (map snd items)"
    and "\<forall>x \<in> set items. \<not> shown x \<longrightarrow> fst x = UNREPORTED_MODE_STATUS \<and>
           (\<exists>m. map_of modes (snd x) = Some m \<and> mode_changed e1 repo (snd x, m))"
  shows "\<exists>ds. dirty_entries e1 repo True = Inr ds \<and> dirty_entries e2 repo True = Inr ds \<and>
     dirty_summary e1 ds = dirty_summary e2 ds \<and>
     (\<forall>(p, m) \<in> set modes. mode_changed e1 repo (p, m) \<longrightarrow> p \<in> set (map dpath ds)) \<and>
     (\<exists>old. dirty_entries e2 repo False = Inr old \<and> set (map dpath old) = set (map snd (filter shown items)))"
proof -
  let ?s = "status_of e1 repo modes" and ?n = "filter shown items"
  have cd: "content_digest e1 = content_digest e2"
    unfolding content_digest_def [abs_def] sha256_file_def [abs_def] assms(4,5) by simp
  have c: "mode_changed e2 = mode_changed e1" "actual_mode e2 = actual_mode e1" "status_of e2 = status_of e1" "mode_of e2 = mode_of e1"
    unfolding mode_changed_def [abs_def] actual_mode_def [abs_def] status_of_def [abs_def] status_entry_def [abs_def]
      mode_of_def [abs_def] mode_entry_def [abs_def] cd assms(4) by simp_all
  have h2: "hidden_of e2 repo modes xs = hidden_of e1 repo modes xs" for xs by (simp add: hidden_of_def c)
  have dp: "dpath (?s x) = snd x" for x
    using status_entry_Inr [of e1 repo modes x]
    by (cases x) (auto simp: status_entry_def Let_def bindE_Inr_iff dirty.ext_inject split: if_splits dest: arg_cong [of _ _ dpath])
  have dm: "dpath (mode_of e1 repo (p, m, w)) = p" if "mode_changed e1 repo (p, m)" for p m w
    using mode_entry_Inr [OF that, of w] by (auto simp: mode_entry_def Let_def bindE_Inr_iff dest: arg_cong [of _ _ dpath])
  have hp: "map dpath (hidden_of e1 repo modes xs) = map fst (filter (\<lambda>(p, m). mode_changed e1 repo (p, m) \<and> p \<notin> set (map snd xs)) modes)" for xs
    by (auto simp: hidden_of_def dm)
  have dist: "distinct (map dpath (map ?s xs @ hidden_of e1 repo modes xs))" if "distinct (map snd xs)" for xs
    using that assms(3) by (force simp: hp dp comp_def distinct_map_filter)
  have dn: "distinct (map snd ?n)" using assms(8) by (rule distinct_map_filter)
  have key: "set (hidden_of e1 repo modes ?n) = set (hidden_of e1 repo modes items) \<union> ?s ` {x \<in> set items. \<not> shown x}"
  proof -
    have u: "x = y" if "x \<in> set items" "y \<in> set items" "snd x = snd y" for x y
      using assms(8) that by (auto simp: distinct_map inj_on_def)
    have g: "map_of modes p = Some m" if "(p, m) \<in> set modes" for p m using assms(3) that by simp
    have mem: "d \<in> set (hidden_of e1 repo modes xs) \<longleftrightarrow>
        (\<exists>p m. (p, m) \<in> set modes \<and> mode_changed e1 repo (p, m) \<and> p \<notin> snd ` set xs
          \<and> d = mode_of e1 repo (p, m, actual_mode e1 repo p))" for d xs
      by (force simp: hidden_of_def)
    have "d \<in> set (hidden_of e1 repo modes items) \<union> ?s ` {x \<in> set items. \<not> shown x}"
      if d: "d \<in> set (hidden_of e1 repo modes ?n)" for d
    proof -
      from d obtain p m where pm: "(p, m) \<in> set modes" "mode_changed e1 repo (p, m)" "p \<notin> snd ` set ?n"
        "d = mode_of e1 repo (p, m, actual_mode e1 repo p)" unfolding mem by blast
      show ?thesis
      proof (cases "p \<in> snd ` set items")
        case True
        then obtain x where x: "x \<in> set items" "snd x = p" by blast
        with pm(3) have "\<not> shown x" by auto
        with x assms(9) have "x = (UNREPORTED_MODE_STATUS, p)" by (auto simp: prod_eq_iff)
        with mode_is_status [OF pm(2) g [OF pm(1)]] pm(4) have "d = ?s x" by simp
        with x \<open>\<not> shown x\<close> show ?thesis by blast
      next
        case False
        with pm show ?thesis unfolding Un_iff mem by blast
      qed
    qed
    moreover have "d \<in> set (hidden_of e1 repo modes ?n)" if "d \<in> set (hidden_of e1 repo modes items)" for d
    proof -
      from that obtain p m where pm: "(p, m) \<in> set modes" "mode_changed e1 repo (p, m)" "p \<notin> snd ` set items"
        "d = mode_of e1 repo (p, m, actual_mode e1 repo p)" unfolding mem by blast
      moreover have "p \<notin> snd ` set ?n" using pm(3) by auto
      ultimately show ?thesis unfolding mem by blast
    qed
    moreover have "?s x \<in> set (hidden_of e1 repo modes ?n)" if x: "x \<in> set items" "\<not> shown x" for x
    proof -
      from x assms(9) obtain m where m: "fst x = UNREPORTED_MODE_STATUS" "map_of modes (snd x) = Some m" "mode_changed e1 repo (snd x, m)"
        by blast
      have "snd x \<notin> snd ` set ?n"
      proof
        assume "snd x \<in> snd ` set ?n"
        then obtain y where "y \<in> set items" "shown y" "snd y = snd x" by auto
        with u [of y x] x show False by simp
      qed
      moreover have "?s x = mode_of e1 repo (snd x, m, actual_mode e1 repo (snd x))"
        using mode_is_status [OF m(3,2)] m(1) by (metis prod.collapse)
      ultimately show ?thesis unfolding mem using m map_of_SomeD [OF m(2)] by blast
    qed
    ultimately show ?thesis by blast
  qed
  have "set (map ?s ?n @ hidden_of e1 repo modes ?n) = set (map ?s items @ hidden_of e1 repo modes items)"
    unfolding set_append key by auto
  then have "sort_key dpath (map ?s ?n @ hidden_of e1 repo modes ?n) = sort_key dpath (map ?s items @ hidden_of e1 repo modes items)"
    using dist [OF dn] dist [OF assms(8)] by (rule sort_key_unique)
  then have e2: "dirty_entries e2 repo True = Inr (sort_key dpath (map ?s items @ hidden_of e1 repo modes items))"
    using dirty_entries_eq(1) [OF assms(2,7)] by (simp add: c h2)
  have e1: "dirty_entries e1 repo True = Inr (sort_key dpath (map ?s items @ hidden_of e1 repo modes items))"
    by (rule dirty_entries_eq(1) [OF assms(1,6)])
  have sums: "dirty_summary e1 ds = dirty_summary e2 ds" for ds by (simp add: dirty_summary_def assms(5))
  have all: "p \<in> set (map dpath (sort_key dpath (map ?s items @ hidden_of e1 repo modes items)))"
    if "(p, m) \<in> set modes" "mode_changed e1 repo (p, m)" for p m
  proof (cases "p \<in> snd ` set items")
    case True
    then show ?thesis by (force simp: dp)
  next
    case False
    with that have "p \<in> set (map dpath (hidden_of e1 repo modes items))" unfolding hp by force
    then show ?thesis by (simp add: image_Un)
  qed
  have old: "dirty_entries e2 repo False = Inr (sort_key dpath (map ?s ?n))"
    using dirty_entries_eq(2) [OF assms(2,7)] by (simp add: c)
  have "set (map dpath (sort_key dpath (map ?s ?n))) = set (map snd ?n)" by (auto simp: dp image_comp comp_def)
  with e1 e2 sums all old show ?thesis by fast
qed

section \<open>A concrete manifest\<close>

text \<open>One file of the destination, added here, and one that was imported from the source checkout.\<close>

definition demo_git :: "string \<Rightarrow> path \<Rightarrow> string list \<Rightarrow> string res" where
  "demo_git status repo args =
     (if args = [''rev-parse'', ''HEAD''] then Inr (''c0ffee'' @ [newline])
      else if args = [''ls-files'', ''-s'', ''-z''] then
        Inr (if repo = [''d''] then ''100644 1 0'' @ [tab] @ ''a'' @ [nul] @ ''100755 2 0'' @ [tab] @ ''vm/b'' @ [nul] else [])
      else if take 1 args = [''ls-files''] then
        Inr (if repo = [''d''] then ''a'' @ [nul] @ ''vm/b'' @ [nul]
             else if repo = [''s''] then ''vm/b'' @ [nul] @ ''vm/old'' @ [nul] else [])
      else if take 1 args = [''status''] \<and> repo = [''d''] then Inr status
      else Inr [])"

definition demo_menv :: "string \<Rightarrow> string \<Rightarrow> menv" where
  "demo_menv status t = \<lparr>git = demo_git status,
     mtree = (\<lambda>p. map_of [([''d''], NDir 493 0), ([''s''], NDir 493 0), ([''t''], NDir 493 0), ([''c''], NDir 493 0),
       ([''d'', ''a''], NFile ''new'' 493 0), ([''d'', ''vm'', ''b''], NFile ''run'' 493 0),
       ([''s'', ''vm'', ''b''], NFile ''run'' 493 0), ([''s'', ''vm'', ''old''], NFile ''x'' 420 0),
       (under [''d''] OUTPUT_FILE, NFile t 420 0)] p),
     shfmt = (\<lambda>s. None), mhash = (\<lambda>s. ''h'' @ show_nat (length s)), mraw = id\<rparr>"

definition demo_margs :: margs where
  "demo_margs = \<lparr>dest = [''d''], origin_src = [''s''], toolbox = [''t''], companion = [''c'']\<rparr>"

definition demo_class :: classified where
  "demo_class = (case classify (demo_menv [] []) demo_margs of Inr c \<Rightarrow> c)"

definition demo_lines :: "string list" where
  "demo_lines = (case render_lines demo_margs demo_class of Inr ls \<Rightarrow> ls)"

definition demo_text :: string where
  "demo_text = join_with [newline] demo_lines @ [newline]"

lemma demo_classify: "classify (demo_menv [] t) demo_margs = Inr demo_class"
  unfolding demo_class_def by code_simp

lemma demo_rows: "map row_triple (rows demo_class) = [(''a'', ''h3'', ''100755''), (''vm/b'', ''h3'', ''100755'')]
    \<and> problems demo_class = [] \<and> excluded demo_class = [(''vm/old'', ''Excluded by the approved Hermes scope; unrelated to this repository'')]"
  by code_simp

lemma demo_ok: "result_ok demo_class" "roots_ok demo_margs"
  by code_simp+

lemma demo_render: "render demo_margs demo_class = Inr demo_text" and demo_ascii: "list_all ascii_only demo_lines"
  and demo_no_cr: "list_all (\<lambda>l. list_all (\<lambda>c. c \<noteq> CHR 0x0D) l) demo_lines" and demo_not_Nil: "demo_lines \<noteq> []"
proof -
  have "case render_lines demo_margs demo_class of Inr ls \<Rightarrow> list_all ascii_only ls
      \<and> list_all (\<lambda>l. list_all (\<lambda>c. c \<noteq> CHR 0x0D) l) ls \<and> ls \<noteq> [] | Inl e \<Rightarrow> False"
    by code_simp
  then have "render_lines demo_margs demo_class = Inr demo_lines \<and> list_all ascii_only demo_lines
      \<and> list_all (\<lambda>l. list_all (\<lambda>c. c \<noteq> CHR 0x0D) l) demo_lines \<and> demo_lines \<noteq> []"
    by (simp add: demo_lines_def split: sum.splits)
  then show "render demo_margs demo_class = Inr demo_text" "list_all ascii_only demo_lines"
    "list_all (\<lambda>l. list_all (\<lambda>c. c \<noteq> CHR 0x0D) l) demo_lines" "demo_lines \<noteq> []"
    by (simp_all add: render_def demo_text_def)
qed

lemma demo_read: "read_text (mtree (demo_menv st demo_text)) (under (dest demo_margs) OUTPUT_FILE) = Inr demo_text"
proof -
  have f: "mtree (demo_menv st demo_text) (under (dest demo_margs) OUTPUT_FILE) = Some (NFile demo_text 420 0)"
    by (simp add: demo_menv_def demo_margs_def) code_simp
  have t: "demo_text = concat (map (\<lambda>l. l @ [newline]) demo_lines)"
    by (simp add: demo_text_def join_lines demo_not_Nil)
  have "ascii_only newline_s \<and> list_all (\<lambda>c. c \<noteq> CHR 0x0D) newline_s" if "newline_s = [newline]" for newline_s
    unfolding that by code_simp
  then have "ascii_only demo_text" "list_all (\<lambda>c. c \<noteq> CHR 0x0D) demo_text"
    using demo_ascii demo_no_cr unfolding t ascii_only_def by (auto simp: list_all_iff)
  with ascii_text [of demo_text] read_bytes_file [where fs = "mtree (demo_menv st demo_text)", OF f] show ?thesis by (simp add: read_text_def)
qed

theorem manifest_roundtrip_witness:
  "parse_manifest demo_text = Inr (map recorded_row (rows demo_class))"
  using manifest_roundtrip [OF demo_render demo_ok(2,1)] by simp

lemma demo_files: "problems demo_class = []"
  "worktree_files (demo_menv [] demo_text) (dest demo_margs) = Inr [''a'', ''vm/b'']"
  using demo_rows by (simp, code_simp)

theorem generated_is_accepted_witness: "verify (demo_menv [] demo_text) demo_margs = Inr []"
proof (rule generated_is_accepted [OF demo_classify _ demo_render demo_read demo_ok(2,1)])
  show "problems demo_class = []" "worktree_files (demo_menv [] demo_text) (dest demo_margs) = Inr [''a'', ''vm/b'']"
    by (rule demo_files)+
qed simp

theorem verify_sound_witness:
  "\<exists>rec. parse_manifest demo_text = Inr rec \<and> map_option (\<lambda>(h, m, _). (h, m)) (map_of rec ''a'') = Some (''h3'', ''100755'')"
proof -
  have "verify (demo_menv [] demo_text) demo_margs = Inr []"
    by (rule verify_accepts [OF demo_classify demo_files(1) demo_render demo_read demo_ok(2,1) demo_files(2)]) simp
  from verify_sound [OF this] demo_read obtain rec ds where r: "parse_manifest demo_text = Inr rec"
    "destination_state (demo_menv [] demo_text) (dest demo_margs) = Inr ds"
    "map_option (\<lambda>(h, m, _). (h, m)) (map_of rec ''a'') = map_of (current ds) ''a''"
    by fastforce
  have "case destination_state (demo_menv [] t) (dest demo_margs) of Inr ds \<Rightarrow> map_of (current ds) ''a'' = Some (''h3'', ''100755'') | _ \<Rightarrow> False" for t
    by code_simp
  from this [of demo_text] r show ?thesis by simp
qed

theorem dirty_filemode_independent_witness:
  "\<exists>ds. dirty_entries (demo_menv ('' M a'' @ [nul]) []) [''d''] True = Inr ds \<and>
     dirty_entries (demo_menv [] []) [''d''] True = Inr ds \<and> ''a'' \<in> set (map dpath ds)"
proof -
  let ?e1 = "demo_menv ('' M a'' @ [nul]) []" and ?e2 = "demo_menv [] []"
  let ?modes = "[(''a'', ''100644''), (''vm/b'', ''100755'')]" and ?items = "[('' M'', ''a'')]"
  have i: "index_modes ?e1 [''d''] = Inr ?modes" "index_modes ?e2 [''d''] = Inr ?modes"
    "status_entries ?e1 [''d''] = Inr ?items" "status_entries ?e2 [''d''] = Inr (filter (\<lambda>x. False) ?items)"
    "mode_changed ?e1 [''d''] (''a'', ''100644'')"
    by code_simp+
  have "distinct (map fst ?modes)" "distinct (map snd ?items)" "mtree ?e1 = mtree ?e2" "mhash ?e1 = mhash ?e2"
    by (simp_all add: demo_menv_def)
  moreover have "\<forall>x \<in> set ?items. \<not> False \<longrightarrow> fst x = UNREPORTED_MODE_STATUS \<and>
           (\<exists>m. map_of ?modes (snd x) = Some m \<and> mode_changed ?e1 [''d''] (snd x, m))"
    using i(5) by (simp add: UNREPORTED_MODE_STATUS_def)
  ultimately obtain ds where ds: "dirty_entries ?e1 [''d''] True = Inr ds" "dirty_entries ?e2 [''d''] True = Inr ds"
    "\<forall>(p, m) \<in> set ?modes. mode_changed ?e1 [''d''] (p, m) \<longrightarrow> p \<in> set (map dpath ds)"
    using dirty_filemode_independent [OF i(1,2) _ _ _ i(3,4)] by blast
  then show ?thesis using i(5) by auto
qed

end
