(* ===== verification/Encodings.thy ===== *)
theory Encodings
  imports Guest
begin

text \<open>
  The parts of Python's library that \<^verbatim>\<open>scripts/hermes/simple/\<close> uses beside those of the other programs:
  \<^verbatim>\<open>json\<close> with its defaults, \<^verbatim>\<open>base64\<close>, and \<^verbatim>\<open>ipaddress\<close> for version 4. Whether a text is an address or a
  network of version 6 is a parameter, since the sources only ask whether it is one.
\<close>

section \<open>JSON with the default options\<close>

text \<open>\<^verbatim>\<open>json.dumps(v)\<close>\<close>

primrec spaced :: "json \<Rightarrow> string" where
  "spaced JNull = ''null''"
| "spaced (JBool b) = (if b then ''true'' else ''false'')"
| "spaced (JInt i) = show_int i"
| "spaced (JFloat t) = t"
| "spaced (JStr s) = json_str s"
| "spaced (JList xs) = ''['' @ join_with '', '' (map spaced xs) @ '']''"
| "spaced (JObj kvs) =
     ''{'' @ join_with '', '' (map (\<lambda>(k, t). json_str k @ '': '' @ t) (map (map_prod id spaced) kvs)) @ ''}''"

text \<open>\<^verbatim>\<open>json.loads\<close> without a hook: of several equal keys the last value counts, at the place of the first.\<close>

definition dict_of :: "(string \<times> json) list \<Rightarrow> json" where
  "dict_of pairs = foldl (\<lambda>d kv. jset d (fst kv) (snd kv)) (JObj []) pairs"

fun plain_value :: "nat \<Rightarrow> string \<Rightarrow> (json \<times> string) res"
  and plain_elems :: "nat \<Rightarrow> string \<Rightarrow> (json list \<times> string) res"
  and plain_members :: "nat \<Rightarrow> string \<Rightarrow> ((string \<times> json) list \<times> string) res" where
  "plain_value 0 s = Inl OutOfFuel"
| "plain_value (Suc n) s =
     (case s of [] \<Rightarrow> Inl ValueError
      | c # r \<Rightarrow>
        if c = CHR 0x22 then bindE (scan_str r) (\<lambda>(t, r'). Inr (JStr t, r'))
        else if c = CHR ''['' then
          (if startswith (skip_ws r) '']'' then Inr (JList [], tl (skip_ws r))
           else bindE (plain_elems n (skip_ws r)) (\<lambda>(xs, r'). Inr (JList xs, r')))
        else if c = CHR ''{'' then
          (if startswith (skip_ws r) ''}'' then Inr (JObj [], tl (skip_ws r))
           else bindE (plain_members n (skip_ws r)) (\<lambda>(kvs, r'). Inr (dict_of kvs, r')))
        else scan_word (c # r))"
| "plain_elems 0 s = Inl OutOfFuel"
| "plain_elems (Suc n) s =
     bindE (plain_value n s) (\<lambda>(v, r).
       (case skip_ws r of [] \<Rightarrow> Inl ValueError
        | c # r' \<Rightarrow>
          if c = CHR '','' then bindE (plain_elems n (skip_ws r')) (\<lambda>(vs, t). Inr (v # vs, t))
          else if c = CHR '']'' then Inr ([v], r')
          else Inl ValueError))"
| "plain_members 0 s = Inl OutOfFuel"
| "plain_members (Suc n) s =
     bindE (parse_key s) (\<lambda>(k, r2).
       bindE (plain_value n r2) (\<lambda>(v, r3).
         (case skip_ws r3 of [] \<Rightarrow> Inl ValueError
          | c # r4 \<Rightarrow>
            if c = CHR '','' then
              bindE (plain_members n (skip_ws r4)) (\<lambda>(kvs, t). Inr ((k, v) # kvs, t))
            else if c = CHR ''}'' then Inr ([(k, v)], r4)
            else Inl ValueError)))"

definition plain_text :: "string \<Rightarrow> json res" where
  "plain_text t =
     (let s = skip_ws t in
      bindE (plain_value (2 * length s + 1) s) (\<lambda>(v, r). if skip_ws r = [] then Inr v else Inl ValueError))"

text \<open>For bytes, a byte order mark is dropped first; a text must not start with one.\<close>

definition plain_loads :: "string \<Rightarrow> json res" where
  "plain_loads raw =
     (if utf8_dec raw = None then Inl ValueError else plain_text (removeprefix [ascii 239, ascii 187, ascii 191] raw))"

section \<open>Base 64\<close>

definition b64_char :: "nat \<Rightarrow> char" where
  "b64_char n =
     (if n < 26 then ascii (65 + n) else if n < 52 then ascii (71 + n) else if n < 62 then ascii (n - 4)
      else if n = 62 then CHR ''+'' else CHR ''/'')"

definition b64_val :: "char \<Rightarrow> nat option" where
  "b64_val c = (let x = of_char c in
     if 65 \<le> x \<and> x < 91 then Some (x - 65) else if 97 \<le> x \<and> x < 123 then Some (x - 71)
     else if 48 \<le> x \<and> x < 58 then Some (x + 4) else if c = CHR ''+'' then Some 62
     else if c = CHR ''/'' then Some 63 else None)"

fun b64encode :: "string \<Rightarrow> string" where
  "b64encode [] = []"
| "b64encode [a] = (let x = of_char a in [b64_char (x div 4), b64_char (x mod 4 * 16), CHR ''='', CHR ''=''])"
| "b64encode [a, b] = (let x = of_char a; y = of_char b in
     [b64_char (x div 4), b64_char (x mod 4 * 16 + y div 16), b64_char (y mod 16 * 4), CHR ''=''])"
| "b64encode (a # b # c # r) = (let x = of_char a; y = of_char b; z = of_char c in
     [b64_char (x div 4), b64_char (x mod 4 * 16 + y div 16), b64_char (y mod 16 * 4 + z div 64), b64_char (z mod 64)]
       @ b64encode r)"

text \<open>\<^verbatim>\<open>base64.b64decode(s, validate=True)\<close>\<close>

fun b64_strict :: "string \<Rightarrow> string res" where
  "b64_strict [] = Inr []"
| "b64_strict (a # b # c # d # r) =
     (case (b64_val a, b64_val b) of
        (Some w, Some x) \<Rightarrow>
          (let first = ascii (w * 4 + x div 16) in
           if d = CHR ''='' then
             (if r \<noteq> [] then Inl ValueError
              else if c = CHR ''='' then Inr [first]
              else (case b64_val c of None \<Rightarrow> Inl ValueError
                    | Some y \<Rightarrow> Inr [first, ascii (x mod 16 * 16 + y div 4)]))
           else (case (b64_val c, b64_val d) of
                   (Some y, Some z) \<Rightarrow> bindE (b64_strict r) (\<lambda>bs.
                     Inr ([first, ascii (x mod 16 * 16 + y div 4), ascii (y mod 4 * 64 + z)] @ bs))
                 | _ \<Rightarrow> Inl ValueError))
      | _ \<Rightarrow> Inl ValueError)"
| "b64_strict _ = Inl ValueError"

text \<open>
  \<^verbatim>\<open>base64.b64decode(s)\<close> skips what is not in its alphabet and stops at the padding: the position in the group of
  four, the bits left over, and the padding seen since the last data character.
\<close>

fun b64_lenient :: "nat \<Rightarrow> nat \<Rightarrow> nat \<Rightarrow> string \<Rightarrow> string res" where
  "b64_lenient quad left pads [] = (if quad = 0 then Inr [] else Inl ValueError)"
| "b64_lenient quad left pads (c # cs) =
     (if c = CHR ''='' then
        (if 2 \<le> quad then (if 4 \<le> quad + Suc pads then Inr [] else b64_lenient quad left (Suc pads) cs)
         else b64_lenient quad left pads cs)
      else (case b64_val c of
          None \<Rightarrow> b64_lenient quad left pads cs
        | Some x \<Rightarrow>
            if quad = 0 then b64_lenient 1 x 0 cs
            else if quad = 1 then bindE (b64_lenient 2 (x mod 16) 0 cs) (\<lambda>bs. Inr (ascii (left * 4 + x div 16) # bs))
            else if quad = 2 then bindE (b64_lenient 3 (x mod 4) 0 cs) (\<lambda>bs. Inr (ascii (left * 16 + x div 4) # bs))
            else bindE (b64_lenient 0 0 0 cs) (\<lambda>bs. Inr (ascii (left * 64 + x) # bs))))"

text \<open>The argument is a text of ASCII characters.\<close>

definition b64decode :: "json \<Rightarrow> string res" where
  "b64decode v = (if \<not> is_str v then Inl TypeError else if \<not> ascii_only (str_of v) then Inl ValueError
     else b64_lenient 0 0 0 (str_of v))"

definition b64decode_valid :: "json \<Rightarrow> string res" where
  "b64decode_valid v = (if \<not> is_str v then Inl TypeError else if \<not> ascii_only (str_of v) then Inl ValueError
     else b64_strict (str_of v))"

section \<open>Addresses\<close>

definition ipv4_octet :: "string \<Rightarrow> bool" where
  "ipv4_octet s \<longleftrightarrow> match_plus is_digit s \<and> length s \<le> 3 \<and> (s = ''0'' \<or> hd s \<noteq> CHR ''0'') \<and> read_nat s \<le> 255"

definition ipv4 :: "string \<Rightarrow> nat option" where
  "ipv4 s =
     (let os = split_on (CHR ''.'') s in
      if length os = 4 \<and> list_all ipv4_octet os then Some (foldl (\<lambda>a x. a * 256 + read_nat x) 0 os) else None)"

text \<open>A mask is a number of bits, a netmask or a host mask.\<close>

definition ipv4_prefix :: "string \<Rightarrow> nat option" where
  "ipv4_prefix s =
     (if match_plus is_digit s \<and> read_nat s \<le> 32 then Some (read_nat s)
      else (case ipv4 s of None \<Rightarrow> None
        | Some m \<Rightarrow>
            (case find (\<lambda>n. m + 2 ^ (32 - n) = 2 ^ 32) [0..<33] of
               Some n \<Rightarrow> Some n
             | None \<Rightarrow> find (\<lambda>n. m + 1 = 2 ^ (32 - n)) [0..<33])))"

text \<open>
  \<^verbatim>\<open>ipaddress.ip_network(v, strict=True)\<close>: address and prefix of a network of version 4, None for version 6.
\<close>

definition ip_network_text :: "(string \<Rightarrow> bool) \<Rightarrow> string \<Rightarrow> (nat \<times> nat) option res" where
  "ip_network_text v6 s =
     (let parts = split_on (CHR ''/'') s;
          found = (case parts of
              [a] \<Rightarrow> map_option (\<lambda>x. (x, 32)) (ipv4 a)
            | [a, m] \<Rightarrow> (case (ipv4 a, ipv4_prefix m) of (Some x, Some n) \<Rightarrow> Some (x, n) | _ \<Rightarrow> None)
            | _ \<Rightarrow> None) in
      (case found of
         Some (x, n) \<Rightarrow> if x mod 2 ^ (32 - n) = 0 then Inr (Some (x, n)) else Inl ValueError
       | None \<Rightarrow> if v6 s then Inr None else Inl ValueError))"

fun ip_network_of :: "(string \<Rightarrow> bool) \<Rightarrow> json \<Rightarrow> (nat \<times> nat) option res" where
  "ip_network_of v6 (JStr s) = ip_network_text v6 s"
| "ip_network_of v6 (JInt i) =
     (if 0 \<le> i \<and> i < 2 ^ 32 then Inr (Some (nat i, 32)) else if 0 \<le> i \<and> i < 2 ^ 128 then Inr None else Inl ValueError)"
| "ip_network_of v6 (JBool b) = Inr (Some (if b then 1 else 0, 32))"
| "ip_network_of v6 _ = Inl ValueError"

text \<open>\<^verbatim>\<open>ipaddress.ip_address(s) in network\<close>, for a network of version 4.\<close>

definition address_in :: "(string \<Rightarrow> bool) \<Rightarrow> string \<Rightarrow> nat \<times> nat \<Rightarrow> bool res" where
  "address_in v6 s net =
     (case ipv4 s of
        Some x \<Rightarrow> Inr (x div 2 ^ (32 - snd net) = fst net div 2 ^ (32 - snd net))
      | None \<Rightarrow> if v6 s then Inr False else Inl ValueError)"

section \<open>Facts\<close>

lemma b64_val_char: "n < 64 \<Longrightarrow> b64_val (b64_char n) = Some n"
  by (auto simp: b64_val_def b64_char_def Let_def)

lemma b64_char_not_pad: "n < 64 \<Longrightarrow> b64_char n \<noteq> CHR ''=''"
  using b64_val_char [of n] by (auto simp: b64_val_def)

text \<open>The groups of six bits of up to three bytes, and the bytes that they give back.\<close>

lemma byte_less: "of_char (c :: char) < (256 :: nat)"
  by (simp add: of_char_of [symmetric] del: of_char_of)

lemma sextets:
  fixes x y z :: nat
  assumes "x < 256" and "y < 256" and "z < 256"
  shows "x div 4 < 64" "x mod 4 * 16 < 64" "x mod 4 * 16 + y div 16 < 64" "y mod 16 * 4 < 64"
    "y mod 16 * 4 + z div 64 < 64" "z mod 64 < 64"
    and "y div 16 div 16 = 0" "y div 16 mod 16 = y div 16" "z div 64 div 4 = 0" "z div 64 mod 4 = z div 64"
proof -
  have q: "x div 4 < 64" "y div 16 < 16" "z div 64 < 4" using assms by (simp_all add: less_mult_imp_div_less)
  have m: "x mod 4 < 4" "y mod 16 < 16" "z mod 64 < 64" by simp_all
  show "x div 4 < 64" "x mod 4 * 16 < 64" "x mod 4 * 16 + y div 16 < 64" "y mod 16 * 4 < 64"
    "y mod 16 * 4 + z div 64 < 64" "z mod 64 < 64"
    using q m by linarith+
  show "y div 16 div 16 = 0" "y div 16 mod 16 = y div 16" "z div 64 div 4 = 0" "z div 64 mod 4 = z div 64"
    using q by simp_all
qed

lemmas sextet_simps = b64_val_char b64_char_not_pad sextets [OF byte_less byte_less byte_less]

text \<open>What was encoded is decoded, with and without validation.\<close>

lemma b64_strict_encode: "b64_strict (b64encode s) = Inr s"
  by (induction s rule: b64encode.induct) (simp_all add: Let_def sextet_simps)

lemma b64_lenient_encode: "b64_lenient 0 0 0 (b64encode s) = Inr s"
  by (induction s rule: b64encode.induct) (simp_all add: Let_def sextet_simps)

end
