(* ===== verification/Observe.thy ===== *)
theory Observe
  imports TpmProfile Encodings
begin

text \<open>
  \<^verbatim>\<open>scripts/hermes/unattended/materialize.py\<close>: the provider's environment file, made anew from the channel
  settings and the decrypted credential, and \<^verbatim>\<open>scripts/hermes/unattended/certify_observe.py\<close>: the observations and the
  restore probes of the certification. The directory of the credentials and the command line are arguments; the
  name of a temporary file is fresh.
\<close>

section \<open>The provider environment\<close>

definition SECRETS :: path where "SECRETS = [''run'', ''hermes-secrets'']"
definition ENVIRONMENT :: path where "ENVIRONMENT = SECRETS @ [''provider.env'']"

definition read_channel :: string where
  "read_channel = text_lines
     [''import os,stat,sys'', ''try:'', ''    fd=os.open('.env',os.O_RDONLY|os.O_NOFOLLOW|os.O_NONBLOCK)'',
      ''except FileNotFoundError:'', ''    raise SystemExit(0)'', ''with os.fdopen(fd,'rb') as stream:'',
      ''    info=os.fstat(stream.fileno())'',
      ''    if not stat.S_ISREG(info.st_mode) or info.st_size>131072: raise SystemExit(78)'',
      ''    raw=stream.read(131073)'', ''    if len(raw)>131072: raise SystemExit(78)'',
      ''    sys.stdout.buffer.write(raw)'']"

definition channel_args :: "nat \<Rightarrow> string list" where
  "channel_args uid = [''runuser'', ''-u'', ''hermes'', ''--'', ''env'', ''HOME=/home/hermes'',
     ''XDG_RUNTIME_DIR=/run/user/'' @ show_nat uid, ''podman'', ''unshare'', ''--'', ''env'', ''--chdir=/home/hermes/data'',
     ''setpriv'', ''--reuid=10000'', ''--regid=10000'', ''--clear-groups'', ''python3'', ''-c'', read_channel]"

text \<open>\<^verbatim>\<open>subprocess.run(args, check=True)\<close>\<close>

definition checked :: "'x env \<Rightarrow> string list \<Rightarrow> ('x world, string) prog" where
  "checked e args w = answered (cmd e args None w) (\<lambda>rc out. if rc = 0 then Inr out else Inl CalledProcessError)"

definition channel_environment :: "'x env \<Rightarrow> nat \<Rightarrow> ('x world, string list) prog" where
  "channel_environment e uid =
     bindM (checked e (channel_args uid)) (\<lambda>raw. bindM (liftE (decode_text raw)) (\<lambda>text. ret (splitlines text)))"

definition setting_name :: "string \<Rightarrow> string" where
  "setting_name line = strip (fst (part_at (CHR ''='') line))"

text \<open>The settings of the channels stay; those of the provider are replaced.\<close>

definition provider_lines :: "string \<Rightarrow> string list \<Rightarrow> string list" where
  "provider_lines key channel =
     filter (\<lambda>line. setting_name line \<notin> set [''OPENAI_API_KEY'', ''OPENAI_BASE_URL'']) channel
     @ [''OPENAI_API_KEY='' @ key, ''OPENAI_BASE_URL=https://api.openai.com/v1'']"

definition provider_text :: "string list \<Rightarrow> string" where
  "provider_text ls = join_with [newline] ls @ [newline]"

definition provider_key_ok :: "string \<Rightarrow> bool" where
  "provider_key_ok key \<longleftrightarrow> key \<noteq> [] \<and> \<not> contains_any key [10, 13, 0]"

definition hand_over :: "'x env \<Rightarrow> string \<Rightarrow> ('x world, unit) prog" where
  "hand_over e name =
     forM [[''runuser'', ''-u'', ''hermes'', ''--'', ''podman'', ''unshare'', ''chown'', ''10000:10000'', name],
           [''chcon'', ''system_u:object_r:container_file_t:s0'', name]] (\<lambda>args. bindM (checked e args) (\<lambda>_. ret ()))"

text \<open>The temporary file is removed whatever happens to it.\<close>

definition write_environment :: "'x env \<Rightarrow> nat \<Rightarrow> string \<Rightarrow> ('x world, unit) prog" where
  "write_environment e uid text =
     bindM (getsM (\<lambda>w. SECRETS @ [''.provider-'' @ fresh e w])) (\<lambda>temporary.
     bindM (createM temporary [] 384) (\<lambda>_.
     finallyM
      (bindM (write_bytesM temporary text) (\<lambda>_.
       bindM (chownM temporary uid) (\<lambda>_.
       bindM (hand_over e (path_text temporary)) (\<lambda>_.
       replaceM temporary ENVIRONMENT))))
      (bindM (existsM temporary) (\<lambda>x. whenM x (unlinkM temporary False)))))"

definition deliver_environment :: "'x env \<Rightarrow> nat \<Rightarrow> string \<Rightarrow> string list \<Rightarrow> ('x world, int) prog" where
  "deliver_environment e uid key channel =
     bindM (is_linkM SECRETS) (\<lambda>l.
     if l then ret 78
     else
       bindM (mkdirM SECRETS 457 True) (\<lambda>_.
       bindM (chmodM SECRETS 457) (\<lambda>_.
       bindM (write_environment e uid (provider_text (provider_lines key channel))) (\<lambda>_.
       ret 0))))"

definition materialize :: "'x env \<Rightarrow> path option \<Rightarrow> ('x world, int) prog" where
  "materialize e directory =
     bindM (getsM euid) (\<lambda>me.
     if me \<noteq> 0 then ret 77
     else
       bindM (case directory of None \<Rightarrow> raiseM KeyError | Some d \<Rightarrow> read_textM (d @ [''openai-api''])) (\<lambda>raw.
       let key = strip raw in
       if \<not> provider_key_ok key then ret 78
       else
         bindM (getpwnam e) (\<lambda>a.
         bindM (channel_environment e (fst a)) (deliver_environment e (fst a) key))))"

text \<open>The exit status; what is not caught leaves the program.\<close>

definition materialize_exit :: "'x env \<Rightarrow> path option \<Rightarrow> ('x world, int) prog" where
  "materialize_exit e directory =
     exceptM (\<lambda>x. x \<in> set [OSError, ValueError, KeyError, TimeoutExpired, CalledProcessError]) (materialize e directory) (ret 78)"

section \<open>Observations of the certification\<close>

definition application :: "'x env \<Rightarrow> string \<Rightarrow> ('x world, json) prog" where
  "application e script =
     bindM (as_hermes e [''podman'', ''exec'', ''-i'', ''--user'', ''10000:10000'', ''hermes'', ''python3'', ''-''] (Some script))
       (\<lambda>raw. liftE (decode raw))"

text \<open>\<^verbatim>\<open>next(r for r in records if r['path'] == str(path))\<close>\<close>

fun find_record :: "string \<Rightarrow> json list \<Rightarrow> json res" where
  "find_record p [] = Inl StopIteration"
| "find_record p (r # rs) = bindE (idx r ''path'') (\<lambda>x. if x = JStr p then Inr r else find_record p rs)"

definition restored_credential :: "'x env \<Rightarrow> json \<Rightarrow> path \<Rightarrow> json \<Rightarrow> ('x world, unit) prog" where
  "restored_credential e img previous r =
     bindM (liftE (bindE (idx r ''index'') str_arg)) (\<lambda>i.
     bindM (protectedM (under previous i) (Some 0)) (\<lambda>saved.
     bindM (readM saved) (\<lambda>c.
     bindM (atomicM CREDENTIAL c) (\<lambda>_.
     bindM (liftE (bindE (idx r ''mode'') int_arg)) (\<lambda>mode.
     bindM (chmodM CREDENTIAL mode) (\<lambda>_.
     bindM (runs e [''systemctl'', ''restart'', ''hermes-runtime-credentials.service'']) (\<lambda>_.
     bindM (getpwnam e) (\<lambda>a.
     bindM (runs e [''systemctl'', ''start'', ''user@'' @ show_nat (fst a) @ ''.service'']) (\<lambda>_.
     bindM (serve e [''restart'', ''hermes.service'']) (\<lambda>_.
     bindM (wait_health e img) (\<lambda>_.
     bindM (digestM (sha256 e) CREDENTIAL) (\<lambda>now.
     bindM (digestM (sha256 e) saved) (\<lambda>before.
     requireM (now = before) ''prior-credential-not-restored'' 78 (ret ()))))))))))))))"

definition cleanup_credential :: "'x env \<Rightarrow> json \<Rightarrow> path \<Rightarrow> ('x world, json) prog" where
  "cleanup_credential e img d =
     bindM (load_host d) (\<lambda>(h, s).
     bindM (read_records (previous_dir h)) (\<lambda>v.
     bindM (liftE (bindE (iterate v) (find_record (path_text CREDENTIAL)))) (\<lambda>r.
     bindM (liftE (idx r ''exists'')) (\<lambda>x.
     bindM (if truthy x then restored_credential e img (previous_dir h) r
            else bindM (serve e [''stop'', ''hermes.service'']) (\<lambda>_. unlinkM CREDENTIAL True)) (\<lambda>_.
     ret (JObj [(''ok'', JBool True), (''stage'', JStr ''prior-credential-restored'')]))))))"

definition probe_script :: "string \<Rightarrow> string \<Rightarrow> string" where
  "probe_script action run_id =
     (let marker = repr_str (if action \<noteq> ''damage'' then run_id else ''deliberately-changed-'' @ run_id) in
      text_lines [''import json,pathlib,yaml'', ''from hermes_cli.config import load_config'',
        ''p=pathlib.Path('/opt/data/config.yaml')'', ''c=yaml.safe_load(p.read_text())'']
      @ (if action \<noteq> ''restore-check''
         then text_lines [''c['certification_restore_probe']='' @ marker, ''p.write_text(yaml.safe_dump(c,sort_keys=False))'']
         else [])
      @ text_lines [''assert load_config()['certification_restore_probe']=='' @ marker,
        ''assert load_config()['approvals']['mode']=='manual'' @ [CHR 0x27],
        ''assert load_config()['security']['allow_private_urls'] is False'',
        ''print(json.dumps({'ok':True,'stage':'' @ repr_str action @ '','application_loaded_state':True}))''])"

definition probe :: "'x env \<Rightarrow> string \<Rightarrow> string \<Rightarrow> ('x world, json) prog" where
  "probe e action run_id =
     bindM (application e (probe_script action run_id)) (\<lambda>result.
     bindM (if action = ''damage'' then serve e [''stop'', ''hermes.service''] else ret ()) (\<lambda>_. ret result))"

definition restore_data :: "'x env \<Rightarrow> json \<Rightarrow> string \<Rightarrow> ('x world, json) prog" where
  "restore_data e img archive =
     bindM (serve e [''stop'', ''hermes.service'']) (\<lambda>_.
     bindM (getpwnam e) (\<lambda>a.
     bindM (\<lambda>w. answered (cmd e (hermes_args (fst a) [''podman'', ''unshare'', ''tar'', ''-C'', ''/home/hermes/data'', ''-xf'', ''-''])
         (Some archive) w) (\<lambda>rc out. requireE (rc = 0) ''rootless-restore-failed'' 78 (Inr ()))) (\<lambda>_.
     bindM (serve e [''start'', ''hermes.service'']) (\<lambda>_.
     bindM (wait_health e img) (\<lambda>_.
     ret (JObj [(''ok'', JBool True), (''stage'', JStr ''restored''), (''runtime_healthy'', JBool True)]))))))"

text \<open>What the enrolled machine must show, and the entry whose image is running.\<close>

definition expected_uki :: "bool \<Rightarrow> json \<Rightarrow> json \<Rightarrow> json res" where
  "expected_uki old manifest prior =
     (if old then idx prior ''uki_sha256''
      else bindE (idx manifest ''files'') (\<lambda>fs. bindE (idx manifest ''boot_artifact'') (\<lambda>a.
           bindE (if is_str a \<or> \<not> is_dict fs then Inr (str_of a) else if is_list a \<or> is_dict a then Inl TypeError else Inl KeyError)
             (\<lambda>name. bindE (idx fs name) (\<lambda>r. idx r ''sha256'')))))"

fun entry_selected :: "string \<Rightarrow> json list \<Rightarrow> bool res" where
  "entry_selected name [] = Inr False"
| "entry_selected name (x # xs) =
     bindE (get_default x ''id'' JNull) (\<lambda>i. bindE (if i = JStr name then get_default x ''isSelected'' JNull else Inr JNull) (\<lambda>flag.
     if truthy flag then Inr True else entry_selected name xs))"

definition observe_boot :: "'x env \<Rightarrow> json \<Rightarrow> json \<Rightarrow> bool \<Rightarrow> ('x world, path) prog" where
  "observe_boot e manifest prior old =
     bindM (if old then ret PREVIOUS
       else liftE (bindE (idx manifest ''release_id'') (\<lambda>v. bindE (str_arg v) (\<lambda>r. Inr (''hermes-'' @ r @ ''.efi''))))) (\<lambda>entry.
     let target = under ESP entry in
     bindM (liftE (expected_uki old manifest prior)) (\<lambda>expected.
     bindM (digestM (sha256 e) target) (\<lambda>d.
     requireM (JStr d = expected) ''wrong-installed-uki'' 78 (
     bindM (runM (cmd e) [''bootctl'', ''--esp-path=/boot/efi'', ''--json=short'', ''list''] None) (\<lambda>raw.
     bindM (liftE (bindE (decode raw) (\<lambda>v. bindE (iterated v) (entry_selected (last target))))) (\<lambda>selected.
     requireM selected ''wrong-selected-uki'' 78 (ret target)))))))"

definition decrypted_credential :: "'x env \<Rightarrow> ('x world, string) prog" where
  "decrypted_credential e =
     bindM (runs e [''systemctl'', ''is-active'', ''--quiet'', ''hermes-runtime-credentials.service'']) (\<lambda>_.
     bindM (statM CREDENTIAL) (\<lambda>n.
     requireM (node_uid n = 0 \<and> \<not> open_to_others n) ''unsafe-encrypted-credential-mode'' 78 (
     bindM (runM (cmd e) [''systemd-creds'', ''decrypt'', ''--name=openai-api'', path_text CREDENTIAL, ''-''] None) (\<lambda>raw.
     bindM (liftE (decode_text raw)) (\<lambda>text. ret (strip text))))))"

definition observe_script :: string where
  "observe_script = text_lines
     [''import json,pathlib,errno,sys,yaml'', ''expected=json.loads(sys.stdin.readline())'',
      ''p=pathlib.Path('/opt/data/.env')'', ''lines=p.read_text().splitlines()'',
      ''assert 'OPENAI_API_KEY='+expected in lines'',
      ''assert 'OPENAI_BASE_URL=https://api.openai.com/v1' in lines'', ''try:'', '' with p.open('a'): pass'',
      ''except OSError as error: assert error.errno==errno.EROFS'',
      ''else: raise AssertionError('credential mount writable')'',
      ''c=yaml.safe_load(pathlib.Path('/opt/data/config.yaml').read_text())'',
      ''assert c['approvals']==dict(c['approvals'],mode='manual',cron_mode='deny',single_query_mode='deny')'',
      ''assert c['security']['allow_private_urls'] is False and c['security']['tirith_fail_open'] is False'',
      ''assert c['hooks']=={} and c['mcp_servers']=={} and c['cron']['allow_agent_scheduling'] is False'',
      ''print(json.dumps({'credential_matches':True,'overlay_read_only':True,'security_config':True}))'']"

text \<open>The output of the log command is what it writes to both of its streams.\<close>

definition no_leak :: "'x env \<Rightarrow> string \<Rightarrow> ('x world, unit) prog" where
  "no_leak e expected =
     bindM (as_hermes e [''podman'', ''inspect'', ''hermes''] None) (\<lambda>metadata.
     bindM (getpwnam e) (\<lambda>a.
     bindM (\<lambda>w. answered (cmd e (hermes_args (fst a) [''podman'', ''logs'', ''--tail'', ''200'', ''hermes'']) None w)
         (\<lambda>rc out. requireE (rc = 0) ''runtime-log-check-failed'' 78 (Inr out))) (\<lambda>logs.
     requireM (\<not> substr expected metadata \<and> \<not> substr expected logs) ''runtime-credential-leak'' 78 (ret ()))))"

definition observe_runtime :: "'x env \<Rightarrow> ('x world, json) prog" where
  "observe_runtime e =
     bindM (decrypted_credential e) (\<lambda>expected.
     bindM (as_hermes e [''podman'', ''exec'', ''-i'', ''--user'', ''10000:10000'', ''hermes'', ''python3'', ''-c'', observe_script]
       (Some (spaced (JStr expected) @ [newline]))) (\<lambda>raw.
     bindM (liftE (decode raw)) (\<lambda>result.
     bindM (no_leak e expected) (\<lambda>_. ret result))))"

definition retained_fields :: "'x env \<Rightarrow> tools \<Rightarrow> json \<Rightarrow> string \<Rightarrow> ('x world, (string \<times> json) list) prog" where
  "retained_fields e t prior updated_kernel =
     bindM (digestM (sha256 e) CREDENTIAL) (\<lambda>credential_digest.
     bindM (liftE (idx prior ''modules_sha256'')) (\<lambda>before.
     bindM (previous_modules e t (JStr updated_kernel)) (\<lambda>after.
     bindM (runM (cmd e) [''cryptsetup'', ''luksDump'', ''--dump-json-metadata'', ''/dev/vda3''] None) (\<lambda>luks.
     bindM (digestM (sha256 e) [''etc'', ''systemd'', ''tpm2-pcr-public-key.pem'']) (\<lambda>pcr.
     ret [(''encrypted_credential_sha256'', JStr credential_digest), (''previous_modules_sha256'', before),
       (''updated_modules_sha256'', JStr after), (''luks_metadata_sha256'', JStr (sha256 e luks)),
       (''pcr_public_key_sha256'', JStr pcr)])))))"

definition observed_fields :: "'x env \<Rightarrow> json \<Rightarrow> path \<Rightarrow> json \<Rightarrow> ('x world, (string \<times> json) list) prog" where
  "observed_fields e running target tpm =
     bindM (getsM (boot e)) (\<lambda>b.
     bindM (package_baseline (sha256 e) (cmd e)) (\<lambda>inventory.
     bindM (digestM (sha256 e) target) (\<lambda>uki.
     bindM (getsM (clock e)) (\<lambda>now.
     ret ([(''ok'', JBool True), (''stage'', JStr ''observed''), (''boot_id'', JStr b), (''kernel'', running),
       (''package_inventory'', JStr inventory), (''uki_sha256'', JStr uki)]
       @ map (\<lambda>k. (k, JBool True)) [''runtime_healthy'', ''secure_boot'', ''tpm_services'']
       @ [(''tpm_profile'', tpm), (''selinux'', JStr ''Enforcing'')]
       @ map (\<lambda>k. (k, JBool True)) [''root_read_only'', ''no_ports'', ''bounded_credential_leak_check'']
       @ [(''completed_at'', JInt now)])))))"

text \<open>
  The endpoint has checked the fields of the enrolled policy before it starts an observation. Nothing but a
  dictionary has \<^verbatim>\<open>update\<close>.
\<close>

definition observe_machine :: "'x env \<Rightarrow> tools \<Rightarrow> path \<Rightarrow> json \<Rightarrow> json \<Rightarrow> string \<Rightarrow> string \<Rightarrow> ('x world, json) prog" where
  "observe_machine e t d manifest img action expected_kernel =
     bindM (readM GUEST_POLICY) (\<lambda>raw. bindM (liftE (decode raw)) (\<lambda>policy.
     bindM (retained e t policy) (\<lambda>prior.
     let old = (action = ''observe-previous'') in
     bindM (if old then liftE (idx prior ''kernel'') else ret (JStr expected_kernel)) (\<lambda>kernel.
     bindM (preflight e (JObj [(''luks_device'', JStr ''/dev/vda3'')])) (\<lambda>_.
     bindM (runM (cmd e) [''uname'', ''-r''] None) (\<lambda>u. bindM (liftE (decode_text u)) (\<lambda>text.
     requireM (JStr (strip text) = kernel) ''wrong-running-kernel'' 78 (
     bindM (package_baseline (sha256 e) (cmd e)) (\<lambda>inventory.
     bindM (read_textM (d @ [''packages'', ''installed-after.sha256''])) (\<lambda>after.
     requireM (inventory = strip after) ''wrong-result-inventory'' 78 (
     bindM (tpm_services e t []) (\<lambda>tpm.
     bindM (observe_boot e manifest prior old) (\<lambda>target.
     bindM (wait_health e img) (\<lambda>_.
     bindM (observe_runtime e) (\<lambda>result.
     bindM (if action \<in> set [''observe-previous'', ''observe-returned'']
       then bindM (load_host d) (\<lambda>(h, s). bindM (acceptance e h) (\<lambda>_.
            if is_dict result then ret (jset result ''inference'' (JStr ''HERMES_OK'')) else raiseM TypeError))
       else ret result) (\<lambda>accepted.
     if \<not> is_dict accepted then raiseM AttributeError
     else
       bindM (retained_fields e t prior expected_kernel) (\<lambda>first.
       bindM (observed_fields e kernel target tpm) (\<lambda>second.
       ret (update second (update first accepted))))))))))))))))))))"

definition certify_observation :: "'x env \<Rightarrow> tools \<Rightarrow> string list \<Rightarrow> string \<Rightarrow> ('x world, json) prog" where
  "certify_observation e t args input =
     (case args of
        [action, directory, run_id, expected_kernel] \<Rightarrow>
          let d = abs_path directory in
          bindM (readM (d @ [''manifest.json''])) (\<lambda>raw. bindM (liftE (decode raw)) (\<lambda>manifest.
          bindM (liftE (idx manifest ''image'')) (\<lambda>img.
          if action = ''cleanup-credential'' then cleanup_credential e img d
          else if action \<in> set [''seed'', ''damage'', ''restore-check''] then probe e action run_id
          else if action = ''restore'' then restore_data e img input
          else
            requireM (action \<in> set [''observe'', ''observe-previous'', ''observe-returned'']) ''unknown-observation'' 78 (
            observe_machine e t d manifest img action expected_kernel))))
      | _ \<Rightarrow> raiseM ValueError)"

text \<open>What is printed, and the exit status; only the reason of a failure is shown.\<close>

definition failure_reason :: "exn \<Rightarrow> string" where
  "failure_reason x = (case x of Failure c r \<Rightarrow> r | _ \<Rightarrow> ''observation-failed'')"

definition observe_main :: "'x env \<Rightarrow> tools \<Rightarrow> string list \<Rightarrow> string \<Rightarrow> ('x world, string \<times> int) prog" where
  "observe_main e t args input =
     catchM (bindM (certify_observation e t args input) (\<lambda>v. ret (spaced (jsort v) @ [newline], 0)))
       (\<lambda>x. ret (spaced (error_json (failure_reason x)) @ [newline], 78))"

end
