(* ===== verification/ObserveFacts.thy ===== *)
theory ObserveFacts
  imports Observe
begin

text \<open>
  Facts on the provider's environment file: it is replaced as a whole, with exactly one key and one address of the
  provider, and nothing else is left behind.
\<close>

section \<open>The lines of the file\<close>

lemma lines_by_plain: "l \<in> set (lines_by bd acc s) \<Longrightarrow> list_all (\<lambda>c. \<not> bd c) acc \<Longrightarrow> list_all (\<lambda>c. \<not> bd c) l"
proof (induction bd acc s rule: lines_by.induct)
  case (2 bd acc c cs)
  then show ?case by (cases cs) (auto split: if_splits)
qed (auto split: if_splits)

lemma splitlines_plain: "l \<in> set (splitlines s) \<Longrightarrow> newline \<notin> set l"
  using lines_by_plain [of l str_boundary "[]" s] boundary_newline by (auto simp: splitlines_def list_all_iff)

lemma split_lines: "list_all (\<lambda>l. newline \<notin> set l) ls \<Longrightarrow> split_on newline (concat (map (\<lambda>l. l @ [newline]) ls)) = ls @ [[]]"
  by (induction ls) (simp_all add: split_on_append)

lemma provider_names [simp]:
  "setting_name (''OPENAI_API_KEY='' @ key) = ''OPENAI_API_KEY''"
  "setting_name ''OPENAI_BASE_URL=https://api.openai.com/v1'' = ''OPENAI_BASE_URL''"
proof -
  have "part_at (CHR ''='') (''OPENAI_API_KEY='' @ key) = (''OPENAI_API_KEY'', True, key)"
    by (simp add: part_at_found)
  moreover have "strip ''OPENAI_API_KEY'' = ''OPENAI_API_KEY''" by code_simp
  ultimately show "setting_name (''OPENAI_API_KEY='' @ key) = ''OPENAI_API_KEY''" by (simp add: setting_name_def)
qed code_simp

definition provider_settings :: "string list" where
  "provider_settings = [''OPENAI_API_KEY'', ''OPENAI_BASE_URL'']"

lemma provider_lines_once:
  "filter (\<lambda>l. setting_name l = ''OPENAI_API_KEY'') (provider_lines key channel) = [''OPENAI_API_KEY='' @ key]"
  "filter (\<lambda>l. setting_name l = ''OPENAI_BASE_URL'') (provider_lines key channel) = [''OPENAI_BASE_URL=https://api.openai.com/v1'']"
  "filter (\<lambda>l. setting_name l \<notin> set provider_settings) (provider_lines key channel)
     = filter (\<lambda>l. setting_name l \<notin> set provider_settings) channel"
  using provider_names(1) [of key]
  by (auto simp: provider_lines_def provider_settings_def filter_empty_conv simp del: append_Cons append.simps(2))

lemma provider_text_lines:
  assumes "provider_key_ok key" and "channel = splitlines out"
  shows "split_on newline (provider_text (provider_lines key channel)) = provider_lines key channel @ [[]]"
proof -
  have "newline \<notin> set key"
    using assms(1) by (auto simp: provider_key_ok_def contains_any_def newline_def list_ex_iff)
  then have "newline \<notin> set (''OPENAI_API_KEY='' @ key)" "newline \<notin> set ''OPENAI_BASE_URL=https://api.openai.com/v1''"
    by (simp_all add: newline_def)
  then have "list_all (\<lambda>l. newline \<notin> set l) (provider_lines key channel)"
    using splitlines_plain assms(2) by (auto simp: provider_lines_def list_all_iff)
  moreover have "provider_lines key channel \<noteq> []" by (simp add: provider_lines_def)
  ultimately show ?thesis unfolding provider_text_def by (simp add: join_lines split_lines)
qed

section \<open>What is written\<close>

text \<open>A node but for its owner, which the commands of the hand-over may change.\<close>

definition held :: "fsys \<Rightarrow> path \<Rightarrow> node option" where
  "held fs p = map_option (with_owner 0) (fs p)"

definition keeps_content :: "'x env \<Rightarrow> bool" where
  "keeps_content e \<longleftrightarrow> (\<forall>a i w p. held (files (snd (cmd e a i w))) p = held (files w) p)"

interpretation content: guarantee "\<lambda>w w'. held (files w') p = held (files w) p" for p
  by unfold_locales auto

abbreviation keeps_held :: "path \<Rightarrow> ('x world, 'a) prog \<Rightarrow> bool" where
  "keeps_held p \<equiv> moves (\<lambda>w w'. held (files w') p = held (files w) p)"

lemma held_file: "held fs p = Some (NFile c m 0) \<longleftrightarrow> (\<exists>u. fs p = Some (NFile c m u))"
proof (cases "fs p")
  case (Some n)
  then show ?thesis by (cases n) (auto simp: held_def)
qed (simp add: held_def)

lemma held_upd [simp]:
  "held (fs(q := n)) p = (if p = q then map_option (with_owner 0) n else held fs p)"
  by (simp add: held_def)

lemma keeps_checked: "keeps_content e \<Longrightarrow> keeps_held p (checked e args)"
  by (auto simp: moves_def keeps_content_def checked_def answered_def split: prod.splits outcome.splits) (metis snd_conv)+

lemma keeps_hand_over: "keeps_content e \<Longrightarrow> keeps_held p (hand_over e name)"
  unfolding hand_over_def by (intro content.moves_forM content.moves_bind content.moves_pure keeps_checked)

lemma temporary_differs: "SECRETS @ [''.provider-'' @ n] \<noteq> ENVIRONMENT"
  by (simp add: ENVIRONMENT_def)

text \<open>What becomes of a temporary file whose text is written, handed over and put in place.\<close>

lemma place_environment:
  assumes "keeps_content e" and "files w t = Some (NFile [] 384 v)" and "t \<noteq> ENVIRONMENT"
    and "bindM (write_bytesM t text) (\<lambda>_. bindM (chownM t uid) (\<lambda>_. bindM (hand_over e name) (\<lambda>_.
       replaceM t ENVIRONMENT))) w = (r, w')"
  shows "if r = Inr () then files w' t = None \<and> (\<exists>u. files w' ENVIRONMENT = Some (NFile text 384 u))
      \<and> (\<forall>p. p \<noteq> t \<and> p \<noteq> ENVIRONMENT \<longrightarrow> held (files w') p = held (files w) p)
    else (\<exists>u. files w' t = Some (NFile text 384 u)) \<and> (\<forall>p. p \<noteq> t \<longrightarrow> held (files w') p = held (files w) p)"
proof -
  define w1 where "w1 = set_files ((files w)(t \<mapsto> NFile text 384 v)) w"
  define w2 where "w2 = set_files ((files w1)(t \<mapsto> NFile text 384 uid)) w1"
  have 1: "write_bytesM t text w = (Inr (), w1)"
    using assms(2) by (simp add: write_bytesM_def w1_def)
  have 2: "chownM t uid w1 = (Inr (), w2)"
    by (simp add: chownM_def updateM_def w1_def w2_def follow_plain is_link_at_def)
  obtain x w3 where 3: "hand_over e name w2 = (x, w3)" by fastforce
  have h: "held (files w3) p = held (files w2) p" for p
    using movesD [OF keeps_hand_over [OF assms(1)] 3] .
  have "held (files w3) t = Some (NFile text 384 0)"
    by (simp add: h w2_def)
  then obtain u where u: "files w3 t = Some (NFile text 384 u)" unfolding held_file by blast
  have o: "held (files w3) p = held (files w) p" if "p \<noteq> t" for p
    using that by (simp add: h w2_def w1_def)
  show ?thesis
  proof (cases x)
    case (Inl y)
    with assms(4) 1 2 3 have "r = Inl y" "w' = w3" by (simp_all add: bindM_def)
    with u o show ?thesis by simp
  next
    case (Inr y)
    with assms(4) 1 2 3 have r: "replaceM t ENVIRONMENT w3 = (r, w')" by (simp add: bindM_def)
    with u o assms(3) show ?thesis by (auto simp: replaceM_def split: if_splits)
  qed
qed

lemma write_environment_spec:
  assumes "keeps_content e" and "write_environment e uid text w = (r, w')"
  shows "(r = Inr () \<longrightarrow> (\<exists>u. files w' ENVIRONMENT = Some (NFile text 384 u))) \<and>
    (\<forall>p. p \<noteq> ENVIRONMENT \<or> r \<noteq> Inr () \<longrightarrow> held (files w') p = held (files w) p)"
proof -
  define t where "t = SECRETS @ [''.provider-'' @ fresh e w]"
  have t: "t \<noteq> ENVIRONMENT" using temporary_differs by (simp add: t_def)
  define body where "body = bindM (write_bytesM t text) (\<lambda>_. bindM (chownM t uid) (\<lambda>_. bindM (hand_over e (path_text t))
    (\<lambda>_. replaceM t ENVIRONMENT)))"
  define tidy where "tidy = bindM (existsM t) (\<lambda>x. whenM x (unlinkM t False) :: ('a world, unit) prog)"
  have run: "bindM (createM t [] 384) (\<lambda>_. finallyM body tidy) w = (r, w')"
    using assms(2) by (simp add: write_environment_def bindM_def getsM_def t_def body_def tidy_def)
  show ?thesis
  proof (cases "files w t \<noteq> None \<or> \<not> is_dir_at (files w) (butlast t)")
    case True
    with run have "r = Inl OSError" "w' = w" by (simp_all add: bindM_def createM_def)
    then show ?thesis by simp
  next
    case False
    define w1 where "w1 = set_files ((files w)(t \<mapsto> NFile [] 384 (euid w))) w"
    from run False have f: "finallyM body tidy w1 = (r, w')" by (simp add: bindM_def createM_def w1_def)
    obtain x w2 where b: "body w1 = (x, w2)" by fastforce
    have new: "files w1 t = Some (NFile [] 384 (euid w))" by (simp add: w1_def)
    have absent: "held (files w) t = None" using False by (simp add: held_def)
    note placed = place_environment [OF assms(1) new t b [unfolded body_def]]
    show ?thesis
    proof (cases "x = Inr ()")
      case True
      with placed have "tidy w2 = (Inr (), w2)"
        by (simp add: tidy_def bindM_def existsM_def exists_at_def node_at_def follow_absent whenM_def ret_def)
      with f b True have "r = Inr ()" "w' = w2" by (simp_all add: finallyM_def)
      moreover have "held (files w2) t = held (files w) t"
        using placed True absent by (simp add: held_def)
      ultimately show ?thesis using placed True by (auto simp: w1_def)
    next
      case False
      with placed obtain u where u: "files w2 t = Some (NFile text 384 u)" by auto
      then have "tidy w2 = (Inr (), set_files ((files w2)(t := None)) w2)"
        by (simp add: tidy_def bindM_def existsM_def exists_at_def node_at_plain whenM_def unlinkM_def)
      with f b have "r = x" "w' = set_files ((files w2)(t := None)) w2" by (auto simp: finallyM_def)
      with placed False absent show ?thesis by (auto simp: w1_def)
    qed
  qed
qed

lemma deliver_spec:
  assumes "keeps_content e" and "deliver_environment e uid key channel w = (r, w')"
  shows "(r = Inr 0 \<longrightarrow> (\<exists>u. files w' ENVIRONMENT = Some (NFile (provider_text (provider_lines key channel)) 384 u))) \<and>
    (\<forall>p. p \<noteq> SECRETS \<and> (p \<noteq> ENVIRONMENT \<or> r \<noteq> Inr 0) \<longrightarrow> held (files w') p = held (files w) p)"
proof (cases "is_link_at (files w) SECRETS")
  case True
  with assms(2) show ?thesis by (auto simp: deliver_environment_def bindM_def is_linkM_def ret_def)
next
  case False
  obtain x w1 where 1: "mkdirM SECRETS 457 True w = (x, w1)" by fastforce
  obtain y w2 where 2: "chmodM SECRETS 457 w1 = (y, w2)" by fastforce
  obtain z w3 where 3: "write_environment e uid (provider_text (provider_lines key channel)) w2 = (z, w3)" by fastforce
  have l: "\<not> is_link_at (files w1) SECRETS"
    using 1 False by (auto simp: mkdirM_def is_link_at_def split: if_splits)
  have k1: "held (files w1) p = held (files w) p" if "p \<noteq> SECRETS" for p
    using movesD [OF keeps_writes(1) 1, of p] that by (simp add: held_def)
  have k2: "held (files w2) p = held (files w1) p" if "p \<noteq> SECRETS" for p
    using keeps_update [OF _ l 2 [unfolded chmodM_def], of p] that by (simp add: held_def)
  note s = write_environment_spec [OF assms(1) 3]
  consider e1 where "x = Inl e1" "r = Inl e1" "w' = w1" | e2 where "x = Inr ()" "y = Inl e2" "r = Inl e2" "w' = w2"
    | e3 where "z = Inl e3" "r = Inl e3" "w' = w3" | "z = Inr ()" "r = Inr 0" "w' = w3"
    using assms(2) False 1 2 3
    by (cases x; cases y; cases z) (auto simp: deliver_environment_def bindM_def is_linkM_def ret_def)
  then show ?thesis
    by cases (use k1 k2 s in \<open>auto\<close>)
qed

text \<open>
  C40 (the provider's environment): when no command changes the content of a file, a run that ends with 0 has
  replaced the environment file by a private one whose lines are the channel's settings without those of the
  provider, in their order, followed by the key of the credential, once, and the provider's address, once; a run
  that ends otherwise, in whatever step, leaves the environment file as it was; and no run changes or leaves any
  other file, the temporary one included.
\<close>

theorem environment_replaced:
  assumes "keeps_content e" and "materialize e directory w = (r, w')"
  shows "(\<forall>p. p \<noteq> SECRETS \<and> (p \<noteq> ENVIRONMENT \<or> r \<noteq> Inr 0) \<longrightarrow> held (files w') p = held (files w) p) \<and>
    (r = Inr 0 \<longrightarrow> (\<exists>d raw a out w1 u.
       directory = Some d \<and> read_text (files w) (d @ [''openai-api'']) = Inr raw \<and>
       account e w = Some a \<and> cmd e (channel_args (fst a)) None w = (Exited 0 out, w1) \<and>
       (let ls = provider_lines (strip raw) (splitlines out) in
          files w' ENVIRONMENT = Some (NFile (provider_text ls) 384 u) \<and>
          split_on newline (provider_text ls) = ls @ [[]] \<and>
          filter (\<lambda>l. setting_name l = ''OPENAI_API_KEY'') ls = [''OPENAI_API_KEY='' @ strip raw] \<and>
          filter (\<lambda>l. setting_name l = ''OPENAI_BASE_URL'') ls = [''OPENAI_BASE_URL=https://api.openai.com/v1''] \<and>
          filter (\<lambda>l. setting_name l \<notin> set provider_settings) ls
            = filter (\<lambda>l. setting_name l \<notin> set provider_settings) (splitlines out))))"
    (is "_ \<and> (r = Inr 0 \<longrightarrow> ?new w')")
proof -
  consider "w' = w" "r \<noteq> Inr 0"
    | d raw a where "directory = Some d" "read_text (files w) (d @ [''openai-api'']) = Inr raw"
        "provider_key_ok (strip raw)" "account e w = Some a"
        "bindM (channel_environment e (fst a)) (deliver_environment e (fst a) (strip raw)) w = (r, w')"
    using assms(2)
    by (auto simp: materialize_def bindM_def getsM_def ret_def raiseM_def read_textM_def getpwnam_def Let_def
        split: if_splits option.splits sum.splits)
  then show ?thesis
  proof cases
    case 1
    then show ?thesis by simp
  next
    case (2 d raw a)
    obtain x w1 where c: "cmd e (channel_args (fst a)) None w = (x, w1)" by fastforce
    have k: "held (files w1) p = held (files w) p" for p
      using assms(1) c unfolding keeps_content_def by (metis snd_conv)
    consider "w' = w1" "r \<noteq> Inr 0"
      | out where "x = Exited 0 out" "deliver_environment e (fst a) (strip raw) (splitlines out) w1 = (r, w')"
      using 2(5) c
      by (auto simp: channel_environment_def checked_def answered_def bindM_def liftE_def ret_def decode_text_def
          split: outcome.splits if_splits option.splits sum.splits)
    then show ?thesis
    proof cases
      case 1
      with k show ?thesis by simp
    next
      case (2 out)
      note 3 = deliver_spec [OF assms(1) 2(2)]
      have "\<forall>p. p \<noteq> SECRETS \<and> (p \<noteq> ENVIRONMENT \<or> r \<noteq> Inr 0) \<longrightarrow> held (files w') p = held (files w) p"
        using 3 k by simp
      moreover have "?new w'" if "r = Inr 0"
        using that 3 2(1) c \<open>directory = _\<close> \<open>read_text _ _ = _\<close> \<open>account e w = _\<close>
          provider_text_lines [OF \<open>provider_key_ok _\<close> refl, of out] provider_lines_once [of "strip raw" "splitlines out"]
        by (auto simp: Let_def)
      ultimately show ?thesis by blast
    qed
  qed
qed

section \<open>Observations\<close>

text \<open>Whatever goes wrong in an observation, the caller gets one object: the result, or an error with a bounded status.\<close>

lemma observe_main_reports:
  "(\<exists>v. fst (observe_main e t args input w) = Inr (spaced (jsort v) @ [newline], 0)) \<or>
   (\<exists>r. fst (observe_main e t args input w) = Inr (spaced (error_json r) @ [newline], 78))"
  by (auto simp: observe_main_def catchM_def bindM_def ret_def split: prod.splits sum.splits)

text \<open>The record that is found is one of those that were saved, and the first for its path.\<close>

lemma find_record_Inr:
  "find_record p rs = Inr r \<Longrightarrow> r \<in> set rs \<and> idx r ''path'' = Inr (JStr p)"
  by (induction rs) (auto simp: bindE_Inr_iff split: if_splits)

section \<open>A machine\<close>

definition channel_command :: "unit commands" where
  "channel_command a i w =
     (Exited 0 (if substr ''XDG_RUNTIME_DIR=/run/user/7'' (concat a)
        then ''A=1'' @ [newline] @ ''OPENAI_API_KEY=old'' @ [newline] @ ''B=2'' @ [newline] else []), w)"

definition channel_env :: "unit env" where
  "channel_env = \<lparr>sha256 = (\<lambda>s. s), cmd = channel_command, boot = (\<lambda>w. ''b''), clock = (\<lambda>w. 7), rglob_rpm = (\<lambda>fs d. []),
     space = (\<lambda>p w. 0), account = (\<lambda>w. Some (7, ''/home/hermes'')), pause = (\<lambda>n w. w), source = [''s''],
     group = (\<lambda>p w. 0), wall = (\<lambda>w. 0), tar = (\<lambda>s. None), fresh = (\<lambda>w. ''x'')\<rparr>"

definition channel_world :: "unit world" where
  "channel_world = blank\<lparr>files := [[] \<mapsto> NDir 493 0, [''run''] \<mapsto> NDir 493 0, [''c''] \<mapsto> NDir 448 0,
     [''c'', ''openai-api''] \<mapsto> NFile (''sk-1'' @ [newline]) 256 0]\<rparr>"

theorem environment_replaced_witness:
  "fst (materialize channel_env (Some [''c'']) channel_world) = Inr 0 \<and>
   (\<exists>u text. files (snd (materialize channel_env (Some [''c'']) channel_world)) ENVIRONMENT = Some (NFile text 384 u) \<and>
      text = ''A=1'' @ [newline] @ ''B=2'' @ [newline] @ ''OPENAI_API_KEY=sk-1'' @ [newline]
        @ ''OPENAI_BASE_URL=https://api.openai.com/v1'' @ [newline])"
proof -
  have k: "keeps_content channel_env" by (simp add: keeps_content_def channel_env_def channel_command_def)
  have r: "fst (materialize channel_env (Some [''c'']) channel_world) = Inr 0" by code_simp
  have o: "read_text (files channel_world) [''c'', ''openai-api''] = Inr (''sk-1'' @ [newline])"
    "fst (cmd channel_env (channel_args 7) None channel_world)
       = Exited 0 (''A=1'' @ [newline] @ ''OPENAI_API_KEY=old'' @ [newline] @ ''B=2'' @ [newline])"
    "provider_text (provider_lines (strip (''sk-1'' @ [newline]))
        (splitlines (''A=1'' @ [newline] @ ''OPENAI_API_KEY=old'' @ [newline] @ ''B=2'' @ [newline])))
       = ''A=1'' @ [newline] @ ''B=2'' @ [newline] @ ''OPENAI_API_KEY=sk-1'' @ [newline]
        @ ''OPENAI_BASE_URL=https://api.openai.com/v1'' @ [newline]"
    "account channel_env channel_world = Some (7, ''/home/hermes'')"
    by code_simp+
  obtain d raw a out w1 u where d: "Some [''c''] = Some d" and "read_text (files channel_world) (d @ [''openai-api'']) = Inr raw"
    "account channel_env channel_world = Some a" "cmd channel_env (channel_args (fst a)) None channel_world = (Exited 0 out, w1)"
    "files (snd (materialize channel_env (Some [''c'']) channel_world)) ENVIRONMENT
       = Some (NFile (provider_text (provider_lines (strip raw) (splitlines out))) 384 u)"
    using environment_replaced [OF k, of "Some [''c'']" channel_world "Inr 0"
        "snd (materialize channel_env (Some [''c'']) channel_world)"] r
    by (auto simp: Let_def prod_eq_iff)
  moreover from d have "d = [''c'']" by simp
  ultimately show ?thesis using r o by auto
qed

end
