(* ===== verification/OfflineFacts.thy ===== *)
theory OfflineFacts
  imports Offline
begin

text \<open>
  Facts on \<^verbatim>\<open>offline.py\<close>: the stored transaction is replayed at most once per staging, whatever happens
  between the boots; a replay that reports success ran a verified transaction and reached the expected
  package set; and staging leaves exactly the unit, the link, the marker and the state it promises.
\<close>

section \<open>Counting the replays\<close>

text \<open>\<open>n\<close> reads a count of the \<^verbatim>\<open>dnf5\<close> calls off the commands' part of the world; no command makes the marker.\<close>

definition counts_replays :: "'x env \<Rightarrow> ('x \<Rightarrow> nat) \<Rightarrow> bool" where
  "counts_replays e n \<longleftrightarrow> (\<forall>a d w.
     n (ext (snd (cmd e a d w))) = n (ext w) + (if take 1 a = [''dnf5''] then 1 else 0) \<and>
     (files w MARKER = None \<longrightarrow> files (snd (cmd e a d w)) MARKER = None))"

definition quietly :: "('x \<Rightarrow> nat) \<Rightarrow> 'x world \<Rightarrow> 'x world \<Rightarrow> bool" where
  "quietly n w w' \<longleftrightarrow> n (ext w') = n (ext w) \<and> (files w MARKER = None \<longrightarrow> files w' MARKER = None)"

interpretation quietly: guarantee "quietly n" for n
  by unfold_locales (auto simp: quietly_def)

lemma quietly_creates: "moves (creates P) m \<Longrightarrow> \<not> P MARKER \<Longrightarrow> moves (quietly n) m"
  by (auto simp: moves_def creates_def quietly_def)

lemma quietly_runM: "counts_replays e n \<Longrightarrow> take 1 a \<noteq> [''dnf5''] \<Longrightarrow> moves (quietly n) (runM (cmd e) a d)"
  by (simp add: moves_def counts_replays_def quietly_def snd_runM)

lemma quietly_reads [intro!]:
  "moves (quietly n) (read_protectedM p owner)" "moves (quietly n) (is_linkM p)" "moves (quietly n) (readlinkM p)"
  "moves (quietly n) (unlinkM p b)"
proof -
  have r: "moves (creates (\<lambda>_. False)) (readlinkM p)"
    by (simp add: moves_def readlinkM_def creates.R_refl split: option.splits node.splits)
  show "moves (quietly n) (read_protectedM p owner)" "moves (quietly n) (is_linkM p)"
    "moves (quietly n) (readlinkM p)" "moves (quietly n) (unlinkM p b)"
    by (rule quietly_creates [of "\<lambda>_. False"]; use r in \<open>auto\<close>)+
qed

lemma state_not_marker: "state_path h d b \<noteq> MARKER" "UNIT \<noteq> MARKER" "WANT \<noteq> MARKER"
  by (simp_all add: state_path_def OROOT_def MARKER_def UNIT_def WANT_def)

lemma quietly_state [intro!]: "moves (quietly n) (atomicM (state_path h d b) c)"
  by (rule quietly_creates [of "\<lambda>p. p = state_path h d b"]) (use state_not_marker(1) [of h d b] in auto)

lemma quietly_package_baseline: "counts_replays e n \<Longrightarrow> moves (quietly n) (package_baseline h (cmd e))"
  unfolding package_baseline_def by (auto intro!: quietly_runM)

lemma quietly_check_package: "counts_replays e n \<Longrightarrow> moves (quietly n) (check_package (cmd e) d x rel)"
  unfolding check_package_def [abs_def] Let_def
  by (rule quietly.moves_app) (auto intro!: quietly_runM)

lemma quietly_verify: "counts_replays e n \<Longrightarrow> moves (quietly n) (verify_packages h g (cmd e) d b)"
  unfolding verify_packages_def Let_def
  apply (rule quietly.moves_bind)
   apply (erule quietly_package_baseline)
  apply (rule quietly.moves_require)
  apply (rule quietly.moves_bind, rule quietly.moves_pure)
  apply (rule quietly.moves_bind, rule quietly.moves_pure)
  apply (rule quietly.moves_bind, rule quietly.moves_pure)
  apply (rule quietly.moves_require)
  apply (rule quietly.moves_then)
   apply (rule quietly.moves_forM)
  apply (erule quietly_check_package)
  apply (rule quietly.moves_pure)
  done

lemma quietly_select_boot: "counts_replays e n \<Longrightarrow> moves (quietly n) (select_boot e st)"
  unfolding select_boot_def by (auto intro!: quietly_runM)

lemma quietly_cleanup: "moves (quietly n) (cleanup_unit e st)"
  unfolding cleanup_unit_def by auto

lemma quietly_stop: "moves (quietly n) (stop_after_failure e (state_path h d b) st x)"
proof (rule movesI)
  fix w r w' assume a: "stop_after_failure e (state_path h d b) st x w = (r, w')"
  let ?m = "bindM (atomicM (state_path h d b) (canonical (jset (jset (jset st ''status'' (JStr ''failed''))
      ''error'' (JStr (exn_name x))) ''completed_at'' (JInt (clock e w))))) (\<lambda>_. raiseM (Failure 75 ''offline-package-recovery-required''))"
  have "moves (quietly n) ?m" by (intro quietly.moves_bind quietly_state quietly.moves_pure)
  moreover have "?m w = (r, w') \<or> raiseM x w = (r, w')"
    using a by (cases x) (simp_all add: stop_after_failure_def)
  ultimately show "quietly n w w'" using movesD quietly.moves_pure(2) by metis
qed

text \<open>One call to \<^verbatim>\<open>execute\<close> either replays nothing or replays once and leaves no marker.\<close>

definition at_most_one :: "('x \<Rightarrow> nat) \<Rightarrow> 'x world \<Rightarrow> 'x world \<Rightarrow> bool" where
  "at_most_one n w w' \<longleftrightarrow> files w MARKER = None \<longrightarrow> n (ext w') \<le> Suc (n (ext w)) \<and> files w' MARKER = None"

lemma one_bind:
  assumes "moves (quietly n) m" and "\<And>x. moves (at_most_one n) (k x)"
  shows "moves (at_most_one n) (bindM m k)"
proof (rule movesI)
  fix s r s' assume r: "bindM m k s = (r, s')"
  obtain x t where m: "m s = (x, t)" by fastforce
  with assms(1) have q: "quietly n s t" by (rule movesD)
  show "at_most_one n s s'"
  proof (cases x)
    case (Inl e)
    with r m q show ?thesis by (auto simp: bindM_def quietly_def at_most_one_def)
  next
    case (Inr y)
    with r m have "k y t = (r, s')" by (simp add: bindM_def)
    with assms(2) have "at_most_one n t s'" by (rule movesD)
    with q show ?thesis by (auto simp: quietly_def at_most_one_def)
  qed
qed

lemma one_bind':
  assumes "moves (at_most_one n) m" and "\<And>x. moves (quietly n) (k x)"
  shows "moves (at_most_one n) (bindM m k)"
proof (rule movesI)
  fix s r s' assume r: "bindM m k s = (r, s')"
  obtain x t where m: "m s = (x, t)" by fastforce
  with assms(1) have q: "at_most_one n s t" by (rule movesD)
  show "at_most_one n s s'"
  proof (cases x)
    case (Inl e)
    with r m q show ?thesis by (auto simp: bindM_def)
  next
    case (Inr y)
    with r m have "k y t = (r, s')" by (simp add: bindM_def)
    with assms(2) have "quietly n t s'" by (rule movesD)
    with q show ?thesis by (auto simp: quietly_def at_most_one_def)
  qed
qed

lemma one_catch:
  assumes "moves (at_most_one n) m" and "\<And>x. moves (quietly n) (h x)"
  shows "moves (at_most_one n) (catchM m h)"
proof (rule movesI)
  fix s r s' assume r: "catchM m h s = (r, s')"
  obtain x t where m: "m s = (x, t)" by fastforce
  with assms(1) have q: "at_most_one n s t" by (rule movesD)
  show "at_most_one n s s'"
  proof (cases x)
    case (Inl e)
    with r m have "h e t = (r, s')" by (simp add: catchM_def)
    with assms(2) have "quietly n t s'" by (rule movesD)
    with q show ?thesis by (auto simp: quietly_def at_most_one_def)
  qed (use r m q in \<open>auto simp: catchM_def\<close>)
qed

lemma one_runM: "counts_replays e n \<Longrightarrow> moves (at_most_one n) (runM (cmd e) a d)"
  by (simp add: moves_def counts_replays_def at_most_one_def snd_runM)

lemma one_replay: "counts_replays e n \<Longrightarrow> moves (at_most_one n) (replay e d b st)"
  unfolding replay_def
  by (intro one_bind [OF quietly_verify] one_bind' [OF one_runM])
    (auto intro!: quietly_package_baseline quietly_select_boot quietly_cleanup)

lemma one_run_replay:
  assumes "counts_replays e n"
  shows "moves (at_most_one n) (run_replay e d b (state_path h d' b') st)"
  unfolding run_replay_def
  by (intro one_bind' [OF one_catch] one_bind' [OF one_replay])
    (use assms in \<open>auto intro!: quietly_stop quietly_runM\<close>)

definition execute_body :: "'x env \<Rightarrow> path \<Rightarrow> string \<Rightarrow> ('x world, json) prog" where
  "execute_body e d baseline =
     (let target = state_path (sha256 e) d baseline in
      bindM (runM (cmd e) [''sync'', ''-f'', ''/''] None) (\<lambda>_.
      bindM (read_protectedM target (Some 0)) (\<lambda>raw.
      bindM (liftE (decode raw)) (\<lambda>st.
      bindM (getsM (boot e)) (\<lambda>b.
      bindM (liftE (stage_matches st d baseline b)) (\<lambda>ok.
      requireM ok ''offline-stage-or-boot-mismatch'' 78 (
      let st' = jset (jset st ''status'' (JStr ''running'')) ''update_boot'' (JStr b) in
      bindM (atomicM target (canonical st')) (\<lambda>_. run_replay e d baseline target st'))))))))"

lemma execute_eq:
  "execute e d baseline w =
     (if euid w \<noteq> 0 then (Inl (Failure 78 ''offline-execution-requires-root''), w)
      else if \<not> selected (files w) d then (Inr (JObj [(''stage'', JStr ''offline-update-not-selected'')]), w)
      else execute_body e d baseline (set_files ((files w)(MARKER := None)) w))"
  by (simp add: execute_def execute_body_def Let_def prog_defs unlinkM_def selected_def
      split: option.splits node.splits)

lemma one_execute_body: "counts_replays e n \<Longrightarrow> moves (at_most_one n) (execute_body e d b)"
  unfolding execute_body_def Let_def
proof (intro one_bind)
  fix x :: unit and raw st bt ok
  assume c: "counts_replays e n"
  show "moves (at_most_one n)
     (requireM ok ''offline-stage-or-boot-mismatch'' 78
       (bindM (atomicM (state_path (sha256 e) d b) (canonical (jset (jset st ''status'' (JStr ''running'')) ''update_boot'' (JStr bt))))
         (\<lambda>_. run_replay e d b (state_path (sha256 e) d b) (jset (jset st ''status'' (JStr ''running'')) ''update_boot'' (JStr bt)))))"
  proof (cases ok)
    case True
    then show ?thesis using c by (auto simp: requireM_def intro!: one_bind one_run_replay)
  qed (simp add: requireM_def moves_def raiseM_def at_most_one_def)
qed (auto intro!: quietly_runM)

lemma execute_step:
  assumes "counts_replays e n" and "w' = snd (execute e d b w)"
  shows "quietly n w w' \<or> (n (ext w') \<le> Suc (n (ext w)) \<and> files w' MARKER = None \<and> files w MARKER \<noteq> None)"
proof (cases "euid w = 0 \<and> selected (files w) d")
  case True
  define w1 where "w1 = set_files ((files w)(MARKER := None)) w"
  have "at_most_one n w1 (snd (execute_body e d b w1))"
    using one_execute_body [OF assms(1), of d b] by (simp add: moves_def)
  moreover have "w' = snd (execute_body e d b w1)" using True assms(2) by (simp add: execute_eq w1_def)
  moreover have "files w MARKER \<noteq> None" using True by (auto simp: selected_def split: option.splits)
  ultimately show ?thesis by (auto simp: at_most_one_def w1_def)
next
  case False
  then have "w' = w" using assms(2) by (auto simp: execute_eq)
  then show ?thesis by (simp add: quietly.R_refl)
qed

text \<open>
  The life of the machine after a staging: calls of \<^verbatim>\<open>execute\<close> for any directory and baseline, and
  anything else that neither replays nor stages.
\<close>

inductive later :: "'x env \<Rightarrow> ('x \<Rightarrow> nat) \<Rightarrow> 'x world \<Rightarrow> 'x world \<Rightarrow> bool" for e n w where
  now: "later e n w w"
| executed: "later e n w w1 \<Longrightarrow> later e n w (snd (execute e d b w1))"
| other: "later e n w w1 \<Longrightarrow> quietly n w1 w2 \<Longrightarrow> later e n w w2"

text \<open>
  C6 (a staged transaction is replayed at most once): from any world, whatever number of offline boots
  and other events follow, with any directories and baselines, \<^verbatim>\<open>dnf5\<close> is started at most once more
  as long as nothing stages again (no event creates the marker), and once it has been started the
  marker is gone for good.
\<close>

theorem execute_at_most_once:
  assumes "counts_replays e n" and "later e n w w'"
  shows "n (ext w') \<le> n (ext w) + 1 \<and> (n (ext w') > n (ext w) \<longrightarrow> files w' MARKER = None)"
proof -
  have "n (ext w') \<le> n (ext w) \<or> (n (ext w') \<le> Suc (n (ext w)) \<and> files w' MARKER = None)"
    using assms(2)
  proof (induction rule: later.induct)
    case (executed w1 d b)
    with execute_step [OF assms(1), of "snd (execute e d b w1)" d b w1] show ?case by (auto simp: quietly_def)
  qed (auto simp: quietly_def)
  then show ?thesis by auto
qed

section \<open>What a completed replay did\<close>

lemma stop_raises: "\<not> (\<exists>y v. stop_after_failure e p st x w = (Inr y, v))"
  by (cases x) (auto simp: stop_after_failure_def bindM_eq_iff raiseM_def)

lemma replay_Inr:
  assumes "replay e d b st w = (Inr u, w')"
  shows "\<exists>k w1 w2 out w3 w4. verify_packages (sha256 e) (rglob_rpm e) (cmd e) d b w = (Inr k, w1)
     \<and> cmd e [''dnf5'', ''--disable-repo=*'', ''--assumeyes'', ''replay'', path_text d] None w1 = (Exited 0 out, w2)
     \<and> (\<exists>h. package_baseline (sha256 e) (cmd e) w2 = (Inr h, w3) \<and> idx st ''expected'' = Inr (JStr h))
     \<and> select_boot e st w3 = (Inr (), w4) \<and> cleanup_unit e st w4 = (Inr u, w')"
  using assms by (auto simp: replay_def bindM_eq_iff runM_Inr requireM_eq_iff)


section \<open>Staging\<close>

lemma not_staged_Inr: "not_staged p w = (Inr u, w') \<longleftrightarrow> w' = w \<and> files w p = None"
proof -
  have "\<not> exists_at (files w) p \<and> \<not> is_link_at (files w) p \<longleftrightarrow> files w p = None"
    by (cases "files w p"; cases "the (files w p)") (auto simp: exists_at_def node_at_def numeral_eq_Suc is_link_at_def)
  then show ?thesis
    by (auto simp: not_staged_def existsM_def is_linkM_def prog_defs)
qed

lemma symlinkM_Inr: "symlinkM p t w = (Inr u, w') \<Longrightarrow> files w p = None \<and> w' = set_files ((files w)(p \<mapsto> NLink t)) w"
  by (auto simp: symlinkM_def split: if_splits)

lemma mkdir_chain_keeps: "mkdir_chain u m ds fs = Inr fs' \<Longrightarrow> fs q \<noteq> None \<Longrightarrow> fs' q = fs q"
  by (induction ds arbitrary: fs) (auto split: if_splits)

lemma mkdir_chain_other: "mkdir_chain u m ds fs = Inr fs' \<Longrightarrow> q \<notin> set ds \<Longrightarrow> fs' q = fs q"
proof (induction ds arbitrary: fs)
  case Nil
  then show ?case by simp
next
  case (Cons d ds)
  then have q: "q \<noteq> d" "q \<notin> set ds" by auto
  consider "is_dir_at fs d" | "\<not> is_dir_at fs d" "fs d = None" using Cons.prems by (auto split: if_splits)
  then show ?case
  proof cases
    case 1
    with Cons q show ?thesis by simp
  next
    case 2
    with Cons.prems have "mkdir_chain u m ds (fs(d \<mapsto> NDir (if ds = [] then m else 493) u)) = Inr fs'" by simp
    from Cons.IH [OF this q(2)] q(1) show ?thesis by simp
  qed
qed

lemma mkdir_allM_Inr:
  "mkdir_allM p m w = (Inr u, w') \<Longrightarrow>
     \<exists>fs. w' = set_files fs w \<and> (\<forall>q. files w q \<noteq> None \<longrightarrow> fs q = files w q) \<and>
       (\<forall>q. \<not> is_prefix q p \<longrightarrow> fs q = files w q)"
proof (cases "mkdir_chain (euid w) m (prefixes p) (files w)")
  case (Inr fs)
  assume "mkdir_allM p m w = (Inr u, w')"
  with Inr have w': "w' = set_files fs w" by (simp add: mkdir_allM_def)
  have "fs q = files w q" if "\<not> is_prefix q p" for q
  proof -
    have "q \<notin> set (prefixes p)" using that by (auto simp: prefixes_def is_prefix_def min_def)
    then show ?thesis by (rule mkdir_chain_other [OF Inr])
  qed
  with w' mkdir_chain_keeps [OF Inr] show ?thesis by blast
qed (simp add: mkdir_allM_def)

definition staged_json :: "'x env \<Rightarrow> path \<Rightarrow> string \<Rightarrow> string \<Rightarrow> json \<Rightarrow> string \<Rightarrow> int \<Rightarrow> string \<Rightarrow> json" where
  "staged_json e d b expected bt content t bid =
     JObj [(''directory'', JStr (path_text d)), (''baseline'', JStr b), (''expected'', JStr expected),
        (''status'', JStr ''staged''), (''boot_before'', JStr bid), (''started_at'', JInt t),
        (''unit_sha256'', JStr (sha256 e content)), (''boot'', bt)]"

lemma stage_state_staged:
  "jset (stage_state e d b x bt content s w) ''status'' (JStr ''staged'') = staged_json e d b x bt content (clock e w) (boot e w)"
  by (simp add: stage_state_def staged_json_def jset_def)

lemma staging_paths_distinct:
  "UNIT \<noteq> WANT" "UNIT \<noteq> MARKER" "WANT \<noteq> MARKER" "state_path h d b \<noteq> UNIT" "state_path h d b \<noteq> WANT"
  "state_path h d b \<noteq> MARKER"
  by (simp_all add: state_path_def OROOT_def MARKER_def UNIT_def WANT_def)

lemma stage_locked_Inr:
  assumes "stage_locked e d b bt content w = (Inr u, w')"
    and cmd: "\<And>a x u. files (snd (cmd e a x u)) = files u"
  shows "\<exists>expected. let target = state_path (sha256 e) d b in
     files w MARKER = None \<and> files w OTHER_MARKER = None \<and> files w UNIT = None \<and> files w WANT = None \<and>
     files w' MARKER = Some (NLink (path_text d)) \<and> files w' UNIT = Some (NFile content 420 (euid w)) \<and>
     files w' WANT = Some (NLink (path_text UNIT)) \<and>
     (\<exists>v. files w' target = Some (NFile (canonical (staged_json e d b expected bt content (clock e w) (boot e w))) 384 v))"
proof -
  let ?target = "state_path (sha256 e) d b"
  from assms(1) obtain x w1 w2 w3 w4 o1 w5 w6 w7 w8 w9 o2 where
    absent: "files w MARKER = None" "files w OTHER_MARKER = None" "files w UNIT = None" "files w WANT = None"
    and w1: "atomicM ?target (canonical (stage_state e d b x bt content ''staging'' w)) w = (Inr (), w1)"
    and w2: "atomicM UNIT content w1 = (Inr (), w2)"
    and w3: "chmodM UNIT 420 w2 = (Inr (), w3)"
    and w4: "cmd e [''systemd-analyze'', ''verify'', path_text UNIT] None w3 = (Exited 0 o1, w4)"
    and w5: "mkdir_allM (butlast WANT) 493 w4 = (Inr (), w5)"
    and w6: "symlinkM WANT (path_text UNIT) w5 = (Inr (), w6)"
    and w7: "atomicM ?target (canonical (staged_json e d b x bt content (clock e w) (boot e w))) w6 = (Inr (), w7)"
    and w8: "symlinkM MARKER (path_text d) w7 = (Inr (), w8)"
    and w9: "cmd e [''sync'', ''-f'', ''/''] None w8 = (Exited 0 o2, w')"
    by (clarsimp simp: stage_locked_def bindM_eq_iff thenM_def not_staged_Inr Let_def requireM_eq_iff existsM_def
      read_protectedM_Inr runM_Inr stage_state_staged ret_def)
  have f2: "files w2 UNIT = Some (NFile content 384 (euid w2))" "euid w2 = euid w"
    using atomicM_Inr [OF w1] atomicM_Inr [OF w2] by simp_all
  have f3: "files w3 UNIT = Some (NFile content 420 (euid w))" "euid w3 = euid w"
    using w3 chmodM_file [OF f2(1), of 420] f2(2) by auto
  have t3: "files w3 ?target \<noteq> None"
    using w3 chmodM_file [OF f2(1), of 420] atomicM_Inr [OF w1] atomicM_Inr [OF w2]
    by (auto simp: staging_paths_distinct)
  have f4: "files w4 = files w3" using cmd [of _ None w3] w4 by (metis snd_conv)
  from mkdir_allM_Inr [OF w5] f3 f4 have f5: "files w5 UNIT = Some (NFile content 420 (euid w))"
    by auto
  from symlinkM_Inr [OF w6] symlinkM_Inr [OF w8] atomicM_Inr [OF w7] f5
  have "files w8 MARKER = Some (NLink (path_text d))" "files w8 UNIT = Some (NFile content 420 (euid w))"
    "files w8 WANT = Some (NLink (path_text UNIT))"
    "files w8 ?target = Some (NFile (canonical (staged_json e d b x bt content (clock e w) (boot e w))) 384 (euid w6))"
    by (simp_all add: staging_paths_distinct staging_paths_distinct [symmetric])
  moreover have "files w' = files w8" using cmd [of _ None w8] w9 by (metis snd_conv)
  ultimately show ?thesis using absent unfolding Let_def by auto
qed

lemma lockM_Inr:
  assumes "lockM p body w = (Inr x, w')"
  shows "\<exists>w1 w2. w1 = (with_lock_file p w)\<lparr>busy := p # busy (with_lock_file p w)\<rparr> \<and>
    body w1 = (Inr x, w2) \<and> files w' = files w2"
  using assms
  by (auto simp: lockM_def Let_def finallyM_def unlock_def modifyM_def split: if_splits prod.splits sum.splits)

lemma boot_record_same: "boot_record e en w = (Inr x, w') \<Longrightarrow> w' = w"
  by (auto simp: boot_record_def bindM_eq_iff requireM_eq_iff read_protectedM_Inr ret_def split: option.splits)

lemma with_lock_file_shape: "\<exists>fs. with_lock_file p w = w\<lparr>files := fs\<rparr> \<and> (\<forall>q. files w q \<noteq> None \<longrightarrow> fs q \<noteq> None)"
  by (cases "files w p") (auto simp: with_lock_file_def intro: exI [of _ "files w"])

text \<open>
  C8 (what staging leaves): when \<^verbatim>\<open>stage\<close> returns and the two commands it runs leave the files alone,
  then nothing was staged before, the marker now selects the directory, the unit has exactly the
  generated text with mode 0644, the target wants it, and the state is \<^verbatim>\<open>staged\<close>, in the boot it was
  staged in, with the hash of the unit; so an \<^verbatim>\<open>execute\<close> in the same boot finds no match.
\<close>

theorem stage_replay_sound:
  assumes "stage_replay e d b entry w = (Inr v, w')"
    and "\<And>a x u. files (snd (cmd e a x u)) = files u"
    and "\<And>u fs bs. boot e (u\<lparr>files := fs, busy := bs\<rparr>) = boot e u"
  shows "\<exists>content bt expected t u. let target = state_path (sha256 e) d b in
     unit_text (source e) d b = Inr content \<and>
     files w MARKER = None \<and> files w OTHER_MARKER = None \<and> files w UNIT = None \<and> files w WANT = None \<and>
     files w' MARKER = Some (NLink (path_text d)) \<and> files w' UNIT = Some (NFile content 420 0) \<and>
     files w' WANT = Some (NLink (path_text UNIT)) \<and>
     files w' target = Some (NFile (canonical (staged_json e d b expected bt content t (boot e w))) 384 u) \<and>
     stage_matches (staged_json e d b expected bt content t (boot e w)) d b (boot e w) = Inr False"
proof -
  let ?target = "state_path (sha256 e) d b"
  from assms(1) obtain content bt w1 w2 where root: "euid w = 0" and u: "unit_text (source e) d b = Inr content"
    and m: "mkdir_allM OROOT 448 w = (Inr (), w1)"
    and l: "lockM (OROOT @ [''stage.lock'']) (stage_locked e d b bt content) w1 = (Inr (), w2)" and w': "w' = w2"
    by (clarsimp simp: stage_replay_def bindM_eq_iff requireM_eq_iff protectedM_def is_linkM_def dest!: boot_record_same)
  from mkdir_allM_Inr [OF m] obtain fs where fs: "w1 = set_files fs w" "\<And>q. files w q \<noteq> None \<Longrightarrow> fs q \<noteq> None" by force
  from lockM_Inr [OF l] obtain w3 w4 where
    w3: "w3 = (with_lock_file (OROOT @ [''stage.lock'']) w1)\<lparr>busy := (OROOT @ [''stage.lock'']) # busy (with_lock_file (OROOT @ [''stage.lock'']) w1)\<rparr>"
    and b: "stage_locked e d b bt content w3 = (Inr (), w4)" and w4: "files w2 = files w4" by blast
  from with_lock_file_shape [of "OROOT @ [''stage.lock'']" w1] obtain fs' where
    fs': "with_lock_file (OROOT @ [''stage.lock'']) w1 = w1\<lparr>files := fs'\<rparr>" "\<And>q. fs q \<noteq> None \<Longrightarrow> fs' q \<noteq> None"
    using fs(1) by auto
  have e3: "w3 = w\<lparr>files := fs', busy := (OROOT @ [''stage.lock'']) # busy w\<rparr>"
    using w3 fs'(1) fs(1) by (simp add: set_files_def)
  have b3: "boot e w3 = boot e w" unfolding e3 by (rule assms(3))
  have a3: "files w p = None" if "files w3 p = None" for p
  proof (rule ccontr)
    assume "files w p \<noteq> None"
    then have "fs' p \<noteq> None" using fs(2) fs'(2) by blast
    with that show False by (simp add: e3)
  qed
  from stage_locked_Inr [OF b assms(2)] obtain x v where
    f: "files w3 MARKER = None" "files w3 OTHER_MARKER = None" "files w3 UNIT = None" "files w3 WANT = None"
      "files w4 MARKER = Some (NLink (path_text d))" "files w4 UNIT = Some (NFile content 420 (euid w3))"
      "files w4 WANT = Some (NLink (path_text UNIT))"
      "files w4 ?target = Some (NFile (canonical (staged_json e d b x bt content (clock e w3) (boot e w3))) 384 v)"
    unfolding Let_def by blast
  have "stage_matches (staged_json e d b x bt content (clock e w3) (boot e w)) d b (boot e w) = Inr False"
    by (simp add: stage_matches_def staged_json_def)
  moreover have "files w2 UNIT = Some (NFile content 420 0)" using f(6) root by (simp add: w4 e3)
  ultimately show ?thesis
    using f(1-5,7) f(8) [unfolded b3] u a3 unfolding Let_def w' w4 by metis
qed

section \<open>A concrete staging and replay\<close>

definition demo_before :: string where "demo_before = ''a-0:1-1.x'' @ [newline]"
definition demo_after :: string where "demo_after = ''a-0:2-1.x'' @ [newline]"
definition demo_trx :: string where
  "demo_trx = canonical (JObj [(''version'', JStr ''1.0''), (''rpms'', JList
       [JObj [(''action'', JStr ''Upgrade''), (''nevra'', JStr ''a-2-1.x''), (''package_path'', JStr ''packages/a.rpm'')],
        JObj [(''action'', JStr ''Replaced''), (''nevra'', JStr ''a-1-1.x'')]])])"

definition demo_hash :: "nat \<Rightarrow> string \<Rightarrow> string" where
  "demo_hash n s = replicate n (if s = demo_before then CHR ''a'' else if s = demo_after then CHR ''b'' else CHR ''c'')"

definition demo_cmd :: "nat commands" where
  "demo_cmd a d w =
     (if take 1 a = [''dnf5''] then (Exited 0 [], w\<lparr>ext := Suc (ext w)\<rparr>)
      else if take 2 a = [''rpm'', ''-qa''] then (Exited 0 (if ext w = 0 then demo_before else demo_after), w)
      else if take 1 a = [''rpm''] then (Exited 0 ''a-0:2-1.x'', w)
      else if take 1 a = [''rpmkeys''] then (Exited 0 ''digests signatures OK'', w)
      else (Exited 0 [], w))"

definition demo_env :: "nat \<Rightarrow> string \<Rightarrow> nat env" where
  "demo_env n b = \<lparr>sha256 = demo_hash n, cmd = demo_cmd, boot = (\<lambda>w. b), clock = (\<lambda>w. 7),
     rglob_rpm = (\<lambda>fs d. [''packages/a.rpm'']), space = (\<lambda>p w. 0), account = (\<lambda>w. None), pause = (\<lambda>n w. w),
     source = [''usr'', ''offline.py''], group = (\<lambda>p w. 0),
     wall = (\<lambda>w. 0), tar = (\<lambda>s. None), fresh = (\<lambda>w. ''x'')\<rparr>"

definition demo_dirs :: "path list" where
  "demo_dirs = [[], [''t''], [''t'', ''packages''], [''usr''], [''var''], [''var'', ''lib''], [''etc''], [''etc'', ''systemd''],
                [''etc'', ''systemd'', ''system'']]"

definition demo_host :: "nat world" where
  "demo_host = \<lparr>files = (\<lambda>p. if p \<in> set demo_dirs then Some (NDir 493 0) else
      map_of [([''t'', ''installed-before.txt''], NFile demo_before 420 0), ([''t'', ''transaction.json''], NFile demo_trx 420 0),
        ([''t'', ''installed-after.sha256''], NFile (replicate 64 CHR ''b'' @ [newline]) 420 0),
        ([''t'', ''packages'', ''a.rpm''], NFile ''rpm'' 420 0), ([''usr'', ''offline.py''], NFile ''code'' 420 0)] p),
     euid = 0, busy = [], faults = [], ext = 0\<rparr>"

definition demo_staged :: "nat world" where
  "demo_staged = snd (stage_replay (demo_env 64 ''boot-1'') [''t''] (demo_hash 64 demo_before) None demo_host)"

text \<open>A host where the same transaction is staged, with a shorter hash function.\<close>

definition demo_ready :: "nat world" where
  "demo_ready = demo_host\<lparr>files := (files demo_host)
     ([''t'', ''installed-after.sha256''] \<mapsto> NFile ''b'' 420 0,
      [''etc'', ''systemd'', ''system'', ''system-update.target.wants''] \<mapsto> NDir 493 0,
      [''var'', ''lib'', ''hermes-unattended''] \<mapsto> NDir 493 0, OROOT \<mapsto> NDir 448 0,
      UNIT \<mapsto> NFile ''unit'' 420 0, WANT \<mapsto> NLink (path_text UNIT), MARKER \<mapsto> NLink ''/t'',
      state_path (demo_hash 1) [''t''] ''a'' \<mapsto> NFile (canonical
        (staged_json (demo_env 1 ''2'') [''t''] ''a'' ''b'' JNull ''unit'' 7 ''1'')) 384 0)\<rparr>"

definition demo_replayed :: "nat world" where
  "demo_replayed = snd (execute (demo_env 1 ''2'') [''t''] ''a'' demo_ready)"

lemma demo_counts: "counts_replays (demo_env n b) id"
  by (simp add: counts_replays_def demo_env_def demo_cmd_def)

lemma demo_stages:
  "stage_replay (demo_env 64 ''boot-1'') [''t''] (demo_hash 64 demo_before) None demo_host =
     (Inr (JObj [(''stage'', JStr ''offline-update-staged'')]), demo_staged)"
proof -
  have "fst (stage_replay (demo_env 64 ''boot-1'') [''t''] (demo_hash 64 demo_before) None demo_host) =
     Inr (JObj [(''stage'', JStr ''offline-update-staged'')])"
    by code_simp
  then show ?thesis by (metis demo_staged_def prod.collapse)
qed

lemma demo_completes:
  "execute (demo_env 1 ''2'') [''t''] ''a'' demo_ready =
     (Inr (JObj [(''stage'', JStr ''offline-replay-complete'')]), demo_replayed)" (is ?completes)
  and demo_count: "ext demo_replayed = 1"
proof -
  define r where "r = execute (demo_env 1 ''2'') [''t''] ''a'' demo_ready"
  have "fst r = Inr (JObj [(''stage'', JStr ''offline-replay-complete'')]) \<and> ext (snd r) = 1"
    unfolding r_def by code_simp
  then show ?completes "ext demo_replayed = 1"
    unfolding demo_replayed_def r_def [symmetric] by (simp_all add: prod_eq_iff)
qed

theorem stage_replay_sound_witness:
  "files demo_staged MARKER = Some (NLink ''/t'')"
proof -
  have "files (snd (cmd (demo_env 64 ''boot-1'') a x u)) = files u" for a x u
    by (simp add: demo_env_def demo_cmd_def)
  moreover have "boot (demo_env 64 ''boot-1'') (u\<lparr>files := fs, busy := bs\<rparr>) = boot (demo_env 64 ''boot-1'') u" for u fs bs
    by (simp add: demo_env_def)
  ultimately show ?thesis
    using stage_replay_sound [OF demo_stages] unfolding Let_def by (auto simp: path_text_def)
qed

theorem execute_at_most_once_witness:
  "ext demo_ready = 0 \<and> ext demo_replayed = 1 \<and> files demo_replayed MARKER = None"
proof -
  have l: "later (demo_env 1 ''2'') id demo_ready demo_replayed"
    unfolding demo_replayed_def by (rule later.executed [OF later.now])
  have "ext demo_ready = 0" by (simp add: demo_ready_def demo_host_def)
  with execute_at_most_once [OF demo_counts l] demo_count show ?thesis by simp
qed


end
