(* ===== verification/Simple.thy ===== *)
theory Simple
  imports TpmProfile Encodings
begin

text \<open>
  \<^verbatim>\<open>scripts/hermes/simple/host.py\<close>: the bounded installer of the application alone. Its state dictionary is the
  memory of the process and is written to \<^verbatim>\<open>state.json\<close> by every \<^verbatim>\<open>save\<close>. Its failures have a reason and no code
  of their own: the exit status is always 1. The process runs with the mask 077.
\<close>

definition SIMPLE_ROOT :: path where "SIMPLE_ROOT = [''var'', ''lib'', ''hermes-simple'']"
definition SIMPLE_LIB :: path where "SIMPLE_LIB = [''usr'', ''local'', ''libexec'', ''hermes-simple'']"
definition SIMPLE_STATE :: path where "SIMPLE_STATE = SIMPLE_ROOT @ [''state.json'']"
definition SIMPLE_KEY :: path where "SIMPLE_KEY = [''etc'', ''credstore.encrypted'', ''hermes-simple-openai'']"
definition SSH_CONFIG :: path where "SSH_CONFIG = [''etc'', ''ssh'', ''sshd_config.d'', ''00-hermes-simple.conf'']"

definition PACKAGES :: "string list" where
  "PACKAGES = [''podman'', ''curl'', ''openssl'', ''python3'', ''mokutil'', ''firewalld'', ''restic'', ''shadow-utils'']"

definition PAYLOAD :: "string list" where
  "PAYLOAD = [''host.py'', ''data.py'', ''materialize.py'', ''hermes.container'', ''60-hermes-runtime.conf'',
     ''70-hermes-volume-label.conf'', ''harden-config.py'', ''set-model.py'']"

text \<open>
  What the installer finds on the machine: the architecture, the environment of the connection, the other
  accounts, the programs on the path, the next random token, and the address syntax of version 6.
\<close>

record 'x site =
  architecture :: string
  ssh_connection :: string
  administrator :: "string \<Rightarrow> 'x world \<Rightarrow> nat option"
  program :: "string \<Rightarrow> 'x world \<Rightarrow> bool"
  random_token :: "'x world \<Rightarrow> string"
  ipv6_network :: "string \<Rightarrow> bool"
  ipv6_address :: "string \<Rightarrow> bool"

section \<open>Files and commands\<close>

definition failS :: "string \<Rightarrow> exn" where
  "failS reason = Failure 1 reason"

definition needE :: "bool \<Rightarrow> string \<Rightarrow> 'a res \<Rightarrow> 'a res" where
  "needE c reason k = requireE c reason 1 k"

definition needM :: "bool \<Rightarrow> string \<Rightarrow> ('s, 'a) prog \<Rightarrow> ('s, 'a) prog" where
  "needM c reason k = requireM c reason 1 k"

text \<open>A command that may be allowed to fail; its status and its output.\<close>

definition run_status :: "'x env \<Rightarrow> string list \<Rightarrow> string option \<Rightarrow> bool \<Rightarrow> ('x world, int \<times> string) prog" where
  "run_status e args data allow w =
     answered (cmd e args data w) (\<lambda>rc out.
       needE (rc = 0 \<or> allow) (''command-failed:'' @ last (path_comps (hd args))) (Inr (rc, out)))"

definition outS :: "'x env \<Rightarrow> string list \<Rightarrow> string option \<Rightarrow> ('x world, string) prog" where
  "outS e args data = bindM (run_status e args data False) (\<lambda>r. ret (snd r))"

definition runS :: "'x env \<Rightarrow> string list \<Rightarrow> bool \<Rightarrow> ('x world, unit) prog" where
  "runS e args allow = bindM (run_status e args None allow) (\<lambda>_. ret ())"

definition userS :: "'x env \<Rightarrow> string list \<Rightarrow> string option \<Rightarrow> bool \<Rightarrow> ('x world, string) prog" where
  "userS e args data allow =
     bindM (getpwnam e) (\<lambda>a. bindM (run_status e (hermes_args (fst a) args) data allow) (\<lambda>r. ret (snd r)))"

definition serviceS :: "'x env \<Rightarrow> string list \<Rightarrow> bool \<Rightarrow> ('x world, unit) prog" where
  "serviceS e args allow = bindM (userS e ([''systemctl'', ''--user''] @ args) None allow) (\<lambda>_. ret ())"

definition managed_step :: "fsys \<Rightarrow> path \<Rightarrow> unit \<Rightarrow> unit res" where
  "managed_step fs d _ =
     (case fs d of None \<Rightarrow> Inr ()
      | Some n \<Rightarrow> needE (\<not> is_link n \<and> node_uid n = 0 \<and> \<not> writable_by_others n) ''unsafe-managed-path'' (Inr ()))"

definition managed :: "path \<Rightarrow> ('x world, unit) prog" where
  "managed p = bindM (getsM files) (\<lambda>fs. liftE (foldE (managed_step fs) (p # parents p) ()))"

text \<open>\<^verbatim>\<open>mkdir(parents=True, exist_ok=True)\<close> under the mask 077\<close>

fun private_chain :: "nat \<Rightarrow> path list \<Rightarrow> fsys \<Rightarrow> fsys res" where
  "private_chain u [] fs = Inr fs"
| "private_chain u (d # ds) fs =
     (if is_dir_at fs d then private_chain u ds fs
      else if fs d \<noteq> None then Inl OSError
      else private_chain u ds (fs(d \<mapsto> NDir 448 u)))"

definition private_dirs :: "path \<Rightarrow> ('x world, unit) prog" where
  "private_dirs p w =
     (case private_chain (euid w) (prefixes p) (files w) of
        Inl x \<Rightarrow> (Inl x, w) | Inr fs \<Rightarrow> (Inr (), set_files fs w))"

text \<open>
  The new content is written to a temporary file, with its mode, before the file is replaced; a fault in one of the
  steps before the replacement leaves the old content.
\<close>

definition replace_with_mode :: "path \<Rightarrow> string \<Rightarrow> nat \<Rightarrow> ('x world, unit) prog" where
  "replace_with_mode p d mode w =
     (let k = (case faults w of [] \<Rightarrow> 0 | k # _ \<Rightarrow> k); w' = w\<lparr>faults := tl (faults w)\<rparr>;
          new = w'\<lparr>files := (files w)(p \<mapsto> NFile d mode (euid w))\<rparr>
      in if \<not> is_link_at (files w) p \<and> is_dir_at (files w) p then (Inl OSError, w')
         else if 0 < k \<and> k < 5 then (Inl OSError, w')
         else if k = 5 then (Inl OSError, new)
         else (Inr (), new))"

definition atomicS :: "path \<Rightarrow> string \<Rightarrow> nat \<Rightarrow> ('x world, unit) prog" where
  "atomicS p d mode =
     bindM (managed p) (\<lambda>_. bindM (private_dirs (butlast p)) (\<lambda>_. replace_with_mode p d mode))"

text \<open>\<^verbatim>\<open>save(state, phase)\<close>\<close>

definition put :: "string \<Rightarrow> json \<Rightarrow> (json, 'x, unit) process" where
  "put k v = bindM recall (\<lambda>s. if is_dict s then remember (\<lambda>s. jset s k v) else raiseM TypeError)"

definition saveS :: "'x env \<Rightarrow> string option \<Rightarrow> (json, 'x, unit) process" where
  "saveS e phase =
     bindM (case phase of None \<Rightarrow> ret () | Some p \<Rightarrow> put ''phase'' (JStr p)) (\<lambda>_.
     bindM (outside (getsM (clock e))) (\<lambda>now.
     bindM (put ''updated_at'' (JInt now)) (\<lambda>_.
     bindM recall (\<lambda>s.
     outside (atomicS SIMPLE_STATE (spaced (jsort s)) 384)))))"

definition get :: "string \<Rightarrow> (json, 'x, json) process" where
  "get k = bindM recall (\<lambda>s. liftE (get_default s k JNull))"

definition item :: "string \<Rightarrow> (json, 'x, json) process" where
  "item k = bindM recall (\<lambda>s. liftE (idx s k))"

section \<open>Preflight\<close>

text \<open>
  \<^verbatim>\<open>any(n.get('type') == 'crypt' or encrypted(n.get('children', [])) for n in nodes)\<close>; what is iterated but no
  list has elements without \<^verbatim>\<open>get\<close>.
\<close>

definition children :: "json \<Rightarrow> json" where
  "children n = (if has_key n ''children'' then jget n ''children'' else JList [])"

lemma jget_size: "has_key n k \<Longrightarrow> size (jget n k) < size n"
proof (cases n)
  case (JObj kvs)
  assume "has_key n k"
  with JObj obtain v where "map_of kvs k = Some v" "jget n k = v"
    by (auto simp: has_key_def jget_def keys_of_def dest!: weak_map_of_SomeI split: option.splits)
  then have "(k, v) \<in> set kvs" by (simp add: map_of_SomeD)
  then have "size v < size_list (size_prod (\<lambda>_. 0) size) kvs"
    by (induction kvs) auto
  with JObj \<open>jget n k = v\<close> show ?thesis by simp
qed (simp_all add: has_key_def keys_of_def)

function encrypted :: "json list \<Rightarrow> bool res" where
  "encrypted [] = Inr False"
| "encrypted (n # ns) =
     (if \<not> is_dict n then Inl AttributeError
      else if jget n ''type'' = JStr ''crypt'' then Inr True
      else (case (case children n of
                JList xs \<Rightarrow> encrypted xs
              | JObj kvs \<Rightarrow> if kvs = [] then Inr False else Inl AttributeError
              | JStr s \<Rightarrow> if s = [] then Inr False else Inl AttributeError
              | _ \<Rightarrow> Inl TypeError) of
          Inl x \<Rightarrow> Inl x | Inr True \<Rightarrow> Inr True | Inr False \<Rightarrow> encrypted ns))"
  by pat_completeness auto

termination
proof (relation "measure (size_list size)")
  fix n and ns xs :: "json list"
  assume "children n = JList xs"
  then show "(xs, n # ns) \<in> measure (size_list size)"
    using jget_size [of n "''children''"] by (auto simp: children_def split: if_splits)
qed simp_all

definition encrypted_value :: "json \<Rightarrow> bool res" where
  "encrypted_value v = (case v of
       JList xs \<Rightarrow> encrypted xs
     | JObj kvs \<Rightarrow> if kvs = [] then Inr False else Inl AttributeError
     | JStr s \<Rightarrow> if s = [] then Inr False else Inl AttributeError
     | _ \<Rightarrow> Inl TypeError)"

definition crypt_backed :: "'x env \<Rightarrow> string \<Rightarrow> ('x world, unit) prog" where
  "crypt_backed e place =
     bindM (outS e [''findmnt'', ''-n'', ''-o'', ''SOURCE'', ''-T'', place] None) (\<lambda>raw.
     bindM (liftE (decode_text raw)) (\<lambda>text.
     let device = fst (part_at (CHR ''['') (strip text)) in
     needM (startswith device ''/dev/'') ''application-storage-not-block-backed'' (
     bindM (outS e [''lsblk'', ''-s'', ''-J'', ''-o'', ''TYPE'', device] None) (\<lambda>devices.
     bindM (liftE (bindE (plain_loads devices) (\<lambda>v. bindE (idx v ''blockdevices'') encrypted_value))) (\<lambda>ok.
     needM ok ''application-storage-not-luks-backed'' (ret ()))))))"

definition unquoted :: "string \<Rightarrow> string" where
  "unquoted s = rev (dropWhile (\<lambda>c. c = CHR 0x22) (rev (dropWhile (\<lambda>c. c = CHR 0x22) s)))"

definition os_field :: "(string \<times> string) list \<Rightarrow> string \<Rightarrow> string" where
  "os_field values k = (case map_of values k of None \<Rightarrow> [] | Some v \<Rightarrow> unquoted v)"

text \<open>\<^verbatim>\<open>re.search(r'MemTotal:\s+(\d+)', text)\<close>\<close>

fun mem_total :: "string \<Rightarrow> nat option" where
  "mem_total [] = None"
| "mem_total (c # cs) =
     (case after_prefix ''MemTotal:'' (c # cs) of
        None \<Rightarrow> mem_total cs
      | Some r \<Rightarrow>
          let digits = takeWhile is_digit (lstrip r) in
          if lstrip r \<noteq> r \<and> digits \<noteq> [] then Some (read_nat digits) else mem_total cs)"

definition simple_target_ok :: "string \<Rightarrow> bool" where
  "simple_target_ok s = (case part_at (CHR ''@'') s of
     (user, found, host) \<Rightarrow> found \<and> match_head_tail user_head user_tail user
       \<and> match_plus (\<lambda>c. is_alnum c \<or> c \<in> set ''.-'') host)"

definition interface_ok :: "string \<Rightarrow> bool" where
  "interface_ok s \<longleftrightarrow> match_range (\<lambda>c. is_alnum c \<or> c \<in> set ''_.:-'') 1 15 s"

definition simple_model_ok :: "string \<Rightarrow> bool" where
  "simple_model_ok s \<longleftrightarrow> length s \<le> 128 \<and> match_head_tail is_alnum (\<lambda>c. is_alnum c \<or> c \<in> set ''._:/-'') s"

definition str_item :: "json \<Rightarrow> string \<Rightarrow> string res" where
  "str_item v k = bindE (idx v k) str_arg"

definition check_platform :: "'x env \<Rightarrow> 'x site \<Rightarrow> tools \<Rightarrow> ('x world, unit) prog" where
  "check_platform e st t =
     bindM (getsM euid) (\<lambda>me.
     needM (me = 0) ''administrator-required'' (
     bindM (read_textM [''etc'', ''os-release'']) (\<lambda>text.
     let value = os_field (assignments text) in
     needM (value ''ID'' = ''fedora'' \<and> value ''VERSION_ID'' = ''44'' \<and> value ''VARIANT_ID'' = ''server''
         \<and> architecture st = ''x86_64'') ''fedora-server-44-x86_64-required'' (
     bindM (outS e [''getenforce''] None) (\<lambda>enforce.
     needM (bstrip enforce = ''Enforcing'') ''selinux-enforcing-required'' (
     bindM (getsM files) (\<lambda>fs.
     let efivars = [''sys'', ''firmware'', ''efi'', ''efivars''];
         flags = filter (\<lambda>rel. length rel = 1 \<and> startswith (hd rel) ''SecureBoot-'') (entries t fs efivars) in
     bindM (if length flags = 1 then bindM (readM (efivars @ hd flags)) (\<lambda>c. ret (drop 4 c = [ascii 1])) else ret False) (\<lambda>secure.
     needM secure ''secure-boot-required'' (
     bindM (existsM [''home'', ''hermes'']) (\<lambda>home.
     bindM (crypt_backed e (if home then ''/home/hermes'' else ''/home'')) (\<lambda>_.
     bindM (crypt_backed e ''/var/lib'') (\<lambda>_.
     bindM (getsM (space e [''var''])) (\<lambda>free.
     needM (free \<ge> 20 * 1024 ^ 3) ''20-gib-var-space-required'' (
     bindM (read_textM [''proc'', ''meminfo'']) (\<lambda>meminfo.
     bindM (case mem_total meminfo of None \<Rightarrow> raiseM TypeError | Some n \<Rightarrow> ret n) (\<lambda>memory.
     needM (memory \<ge> 8388608) ''8-gib-memory-required'' (
     bindM (existsM [''sys'', ''fs'', ''cgroup'', ''cgroup.controllers'']) (\<lambda>cgroup.
     needM cgroup ''cgroup-v2-required'' (ret ())))))))))))))))))))"

definition check_management :: "'x env \<Rightarrow> 'x site \<Rightarrow> json \<Rightarrow> ('x world, unit) prog" where
  "check_management e st config =
     bindM (liftE (str_item config ''target'')) (\<lambda>target.
     needM (simple_target_ok target) ''target-invalid'' (
     let admin = fst (part_at (CHR ''@'') target) in
     bindM (if admin = ''root'' then ret False
       else bindM (getsM (administrator st admin)) (\<lambda>u. case u of None \<Rightarrow> raiseM KeyError | Some n \<Rightarrow> ret (n \<noteq> 0))) (\<lambda>usable.
     needM usable ''nonroot-administrator-required'' (
     bindM (liftE (str_item config ''management_interface'')) (\<lambda>iface.
     needM (interface_ok iface) ''interface-invalid'' (
     bindM (liftE (bindE (idx config ''management_cidr'') (ip_network_of (ipv6_network st)))) (\<lambda>network.
     needM (network \<noteq> None \<and> snd (the network) > 0) ''management-network-invalid'' (
     bindM (existsM ([''sys'', ''class'', ''net''] @ path_comps iface)) (\<lambda>x.
     needM x ''interface-not-found'' (
     let connection = words_acc [] (ssh_connection st) in
     bindM (if connection = [] then ret False else liftE (address_in (ipv6_address st) (hd connection) (the network))) (\<lambda>managed_source.
     needM managed_source ''management-source-required'' (ret ()))))))))))))"

definition preflightS :: "'x env \<Rightarrow> 'x site \<Rightarrow> tools \<Rightarrow> json \<Rightarrow> ('x world, json) prog" where
  "preflightS e st t config =
     bindM (check_platform e st t) (\<lambda>_.
     bindM (check_management e st config) (\<lambda>_.
     bindM (liftE (str_item config ''image'')) (\<lambda>img.
     needM (image_ok img) ''official-image-digest-required'' (
     bindM (liftE (andE (field_is config ''provider'' (JStr ''openai-api''))
       (bindE (str_item config ''model'') (\<lambda>m. Inr (simple_model_ok m))))) (\<lambda>ok.
     needM ok ''provider-model-invalid'' (
     bindM (getsM (\<lambda>w. program st ''dnf5'' w \<and> program st ''systemd-creds'' w)) (\<lambda>found.
     needM found ''bootstrap-tools-missing'' (
     bindM (existsM [''etc'', ''systemd'', ''system'', ''hermes-runtime-credentials.service'']) (\<lambda>x.
     needM (\<not> x) ''advanced-profile-already-enrolled'' (
     ret (JObj [(''ok'', JBool True), (''bootstrap'', JStr ''ready''), (''phase'', JStr ''checked'')])))))))))))"

end
