(* ===== verification/SimpleHost.thy ===== *)
theory SimpleHost
  imports Simple
begin

text \<open>
  The rest of \<^verbatim>\<open>scripts/hermes/simple/host.py\<close>: the payload, the tracked files, the recovery guards, the access
  restrictions, the account, the backup, the runtime, the recovery and the transaction that ties them together.
\<close>

section \<open>Payload and tracked files\<close>

definition without_keys :: "string list \<Rightarrow> json \<Rightarrow> json" where
  "without_keys ks v = JObj (filter (\<lambda>kv. fst kv \<notin> set ks) (items_of v))"

definition config_fingerprint :: "'x env \<Rightarrow> json \<Rightarrow> json \<Rightarrow> string res" where
  "config_fingerprint e config payload =
     (if \<not> is_dict config then Inl AttributeError
      else Inr (sha256 e (spaced (jsort (JList [without_keys [''identity_file'', ''known_hosts_file''] config, payload])))))"

definition install_payload :: "json \<Rightarrow> ('x world, unit) prog" where
  "install_payload payload =
     bindM (liftE (set_is payload PAYLOAD)) (\<lambda>ok.
     needM ok ''payload-files-invalid'' (
     bindM (managed SIMPLE_LIB) (\<lambda>_.
     bindM (private_dirs SIMPLE_LIB) (\<lambda>_.
     if \<not> is_dict payload then raiseM AttributeError
     else forM (items_of payload) (\<lambda>(name, encoded).
       bindM (liftE (b64decode_valid encoded)) (\<lambda>raw.
       needM (length raw < 512 * 1024) ''payload-too-large'' (
       atomicS (SIMPLE_LIB @ [name]) raw 420)))))))"

text \<open>The former content of a file and its mode, or nothing when it is not there.\<close>

definition former :: "path \<Rightarrow> ('x world, json) prog" where
  "former p =
     bindM (existsM p) (\<lambda>x.
     if x then bindM (readM p) (\<lambda>c. bindM (statM p) (\<lambda>n.
       ret (JObj [(''data'', JStr (b64encode c)), (''mode'', JInt (int (node_mode n)))])))
     else ret JNull)"

definition trackS :: "'x env \<Rightarrow> path \<Rightarrow> (json, 'x, unit) process" where
  "trackS e p =
     bindM (outside (managed p)) (\<lambda>_.
     bindM (item ''files'') (\<lambda>tracked.
     bindM (liftE (contains_str tracked (path_text p))) (\<lambda>known.
     if known then ret ()
     else bindM (outside (former p)) (\<lambda>r.
       if \<not> is_dict tracked then raiseM TypeError
       else bindM (put ''files'' (jset tracked (path_text p) r)) (\<lambda>_. saveS e None)))))"

definition writeS :: "'x env \<Rightarrow> path \<Rightarrow> string \<Rightarrow> (json, 'x, unit) process" where
  "writeS e p data = bindM (trackS e p) (\<lambda>_. outside (atomicS p data 420))"

section \<open>Recovery guards\<close>

definition arm :: "'x env \<Rightarrow> nat \<Rightarrow> (json, 'x, unit) process" where
  "arm e seconds =
     bindM (bindM (item ''token'') (\<lambda>v. liftE (str_arg v))) (\<lambda>tok.
     let guard = ''hermes-simple-recovery-'' @ take 16 tok in
     bindM (put ''guard'' (JStr guard)) (\<lambda>_.
     bindM (saveS e None) (\<lambda>_.
     outside (runS e [''systemd-run'', ''--quiet'', ''--unit='' @ guard, ''--on-active='' @ show_nat seconds @ ''s'',
       ''/usr/bin/python3'', ''-I'', path_text (SIMPLE_LIB @ [''host.py'']), ''recover''] False))))"

definition disarm :: "'x env \<Rightarrow> (json, 'x, unit) process" where
  "disarm e =
     bindM (get ''guard'') (\<lambda>g.
     if truthy g then bindM (liftE (str_arg g)) (\<lambda>guard. outside (runS e [''systemctl'', ''stop'', guard @ ''.timer''] True))
     else ret ())"

definition recovery_unit :: string where
  "recovery_unit = text_lines
     [''[Unit]'', ''Description=Reconcile interrupted Hermes application deployment'',
      ''After=local-fs.target network-online.target'', ''Before=hermes-simple-credentials.service'', ''[Service]'',
      ''Type=oneshot'', ''ExecStart=/usr/bin/python3 -I /usr/local/libexec/hermes-simple/host.py recover'',
      ''TimeoutStartSec=600'', ''StandardOutput=null'', ''StandardError=null'', ''[Install]'', ''WantedBy=multi-user.target'']"

definition setup_recovery :: "'x env \<Rightarrow> ('x world, unit) prog" where
  "setup_recovery e =
     bindM (atomicS [''etc'', ''systemd'', ''system'', ''hermes-simple-recovery.service''] recovery_unit 420) (\<lambda>_.
     bindM (runS e [''systemctl'', ''daemon-reload''] False) (\<lambda>_.
     runS e [''systemctl'', ''enable'', ''hermes-simple-recovery.service''] False))"

section \<open>Access\<close>

definition out_text :: "'x env \<Rightarrow> string list \<Rightarrow> ('x world, string) prog" where
  "out_text e args = bindM (outS e args None) (\<lambda>raw. liftE (decode_text raw))"

definition active_zone :: "'x env \<Rightarrow> string \<Rightarrow> ('x world, string) prog" where
  "active_zone e iface =
     bindM (out_text e [''firewall-cmd'', ''--get-zone-of-interface='' @ iface]) (\<lambda>a.
     let zone = strip a in
     if zone = [] \<or> zone = ''no zone''
     then bindM (out_text e [''firewall-cmd'', ''--get-default-zone'']) (\<lambda>b. ret (strip b))
     else ret zone)"

definition zone_ok :: "string \<Rightarrow> bool" where
  "zone_ok s \<longleftrightarrow> match_plus (\<lambda>c. is_alnum c \<or> c \<in> set ''_-'') s"

definition ssh_text :: "string \<Rightarrow> string" where
  "ssh_text admin = text_lines
     [''PasswordAuthentication no'', ''KbdInteractiveAuthentication no'', ''PubkeyAuthentication yes'', ''PermitRootLogin no'',
      ''AllowUsers '' @ admin, ''AllowTcpForwarding no'', ''X11Forwarding no'', ''PermitTunnel no'', ''GatewayPorts no'']"

definition without_active :: "string \<Rightarrow> string" where
  "without_active s = replace_all '' (active)'' [] s"

text \<open>How a validated network is written into a text; a network of another type is refused before.\<close>

fun cidr_text :: "json \<Rightarrow> string res" where
  "cidr_text (JStr s) = Inr s"
| "cidr_text (JInt i) = Inr (show_int i)"
| "cidr_text (JBool b) = Inr (if b then ''True'' else ''False'')"
| "cidr_text _ = Inl TypeError"

definition configure_access :: "'x env \<Rightarrow> (json, 'x, unit) process" where
  "configure_access e =
     bindM (item ''config'') (\<lambda>config.
     bindM (liftE (str_item config ''target'')) (\<lambda>target.
     let admin = fst (part_at (CHR ''@'') target) in
     bindM (liftE (str_item config ''management_interface'')) (\<lambda>iface.
     bindM (outside (active_zone e iface)) (\<lambda>zone.
     needM (zone_ok zone) ''firewall-zone-invalid'' (
     let in_zone = (\<lambda>args. ''firewall-cmd'' # ''--permanent'' # (''--zone='' @ zone) # args) in
     bindM (trackS e [''etc'', ''firewalld'', ''zones'', zone @ ''.xml'']) (\<lambda>_.
     bindM (outside (out_text e [''firewall-cmd'', ''--zone='' @ zone, ''--list-all''])) (\<lambda>runtime.
     bindM (outside (out_text e [''firewall-cmd'', ''--zone='' @ zone, ''--list-all'', ''--permanent''])) (\<lambda>permanent.
     needM (without_active runtime = without_active permanent) ''firewall-runtime-permanent-drift'' (
     bindM (writeS e SSH_CONFIG (ssh_text admin)) (\<lambda>_.
     bindM (outside (runS e [''/usr/sbin/sshd'', ''-t''] False)) (\<lambda>_.
     bindM (liftE (bindE (idx config ''management_cidr'') cidr_text)) (\<lambda>cidr.
     bindM (outside (runS e (in_zone [''--add-rich-rule=rule family=\"ipv4\" source address=\"'' @ cidr
       @ ''\" service name=\"ssh\" accept'']) False)) (\<lambda>_.
     bindM (outside (forM [''ssh'', ''cockpit'', ''mdns''] (\<lambda>name. runS e (in_zone [''--remove-service='' @ name]) False))) (\<lambda>_.
     bindM (outside (outS e (in_zone [''--list-ports'']) None)) (\<lambda>ports.
     needM (bstrip ports = []) ''unmanaged-firewall-ports'' (
     bindM (put ''access_changed'' (JBool True)) (\<lambda>_.
     bindM (saveS e None) (\<lambda>_.
     bindM (outside (runS e [''firewall-cmd'', ''--reload''] False)) (\<lambda>_.
     outside (runS e [''systemctl'', ''reload'', ''sshd''] False))))))))))))))))))))"

section \<open>The account\<close>

definition create_account :: "'x env \<Rightarrow> (json, 'x, nat \<times> string) process" where
  "create_account e =
     bindM (put ''created_account'' (JBool True)) (\<lambda>_.
     bindM (saveS e None) (\<lambda>_.
     bindM (outside (runS e [''useradd'', ''--create-home'', ''--home-dir'', ''/home/hermes'', ''--user-group'',
       ''--shell'', ''/usr/sbin/nologin'', ''hermes''] False)) (\<lambda>_.
     outside (getpwnam e))))"

definition subordinate_range :: "path \<Rightarrow> ('x world, unit) prog" where
  "subordinate_range p = bindM (read_textM p) (\<lambda>t.
     needM (list_ex (\<lambda>l. startswith l ''hermes:'') (splitlines t)) ''missing-subordinate-ids'' (ret ()))"

definition identityS :: "'x env \<Rightarrow> (json, 'x, unit) process" where
  "identityS e =
     bindM (exceptM (\<lambda>x. x = KeyError) (outside (getpwnam e)) (create_account e)) (\<lambda>(uid, home).
     needM (home = ''/home/hermes'' \<and> uid \<ge> 1000) ''unsafe-hermes-account'' (
     bindM (outside (is_linkM [''home'', ''hermes''])) (\<lambda>l. bindM (outside (is_linkM DATA)) (\<lambda>l'.
     needM (\<not> l \<and> \<not> l') ''unsafe-hermes-home'' (
     bindM (outside (existsM [''home'', ''hermes'', ''.ssh'', ''authorized_keys''])) (\<lambda>keys.
     needM (\<not> keys) ''hermes-has-ssh-keys'' (
     bindM (outside (out_text e [''id'', ''-nG'', ''hermes''])) (\<lambda>groups.
     needM (\<not> list_ex (\<lambda>g. g \<in> set [''wheel'', ''sudo'', ''adm'', ''systemd-journal'']) (words_acc [] groups))
       ''privileged-hermes-account'' (
     bindM (outside (forM [[''etc'', ''subuid''], [''etc'', ''subgid'']] subordinate_range)) (\<lambda>_.
     bindM (outside (runS e [''passwd'', ''-l'', ''hermes''] False)) (\<lambda>_.
     bindM (outside (runS e [''loginctl'', ''enable-linger'', ''hermes''] False)) (\<lambda>_.
     bindM (outside (runS e [''systemctl'', ''start'', ''user@'' @ show_nat uid @ ''.service''] False)) (\<lambda>_.
     bindM (outside (userS e [''chmod'', ''0700'', ''/home/hermes''] None False)) (\<lambda>_.
     bindM (outside (userS e [''mkdir'', ''-p'', ''-m'', ''0700'', ''/home/hermes/data''] None False)) (\<lambda>_.
     bindM (put ''uid'' (JInt (int uid))) (\<lambda>_. saveS e None))))))))))))))))"

section \<open>Backup and credential\<close>

definition encrypt_to :: "'x env \<Rightarrow> path \<Rightarrow> string \<Rightarrow> string \<Rightarrow> ('x world, unit) prog" where
  "encrypt_to e p name value =
     bindM (outS e [''systemd-creds'', ''encrypt'', ''--with-key=host'', ''--name='' @ name, ''-'', ''-''] (Some value)) (\<lambda>data.
     atomicS p data 384)"

definition backup_args :: "string list" where
  "backup_args = [''restic'', ''--no-cache'', ''--repo'', ''/var/lib/hermes-simple/backups'', ''--password-command'',
     ''/usr/bin/systemd-creds decrypt --name=backup /var/lib/hermes-simple/backup.cred -'']"

definition data_args :: "string \<Rightarrow> string list" where
  "data_args action = [''podman'', ''unshare'', ''python3'', ''-I'', path_text (SIMPLE_LIB @ [''data.py'']), action]"

text \<open>\<^verbatim>\<open>next(json.loads(line) for line in reversed(records) if json.loads(line).get('snapshot_id'))\<close>\<close>

fun find_summary :: "string list \<Rightarrow> json res" where
  "find_summary [] = Inl StopIteration"
| "find_summary (l # ls) =
     bindE (plain_loads l) (\<lambda>v. bindE (get_default v ''snapshot_id'' JNull) (\<lambda>i.
     if truthy i then Inr v else find_summary ls))"

definition snapshotS :: "'x env \<Rightarrow> 'x site \<Rightarrow> (json, 'x, unit) process" where
  "snapshotS e st =
     bindM (outside (existsM (SIMPLE_ROOT @ [''backup.cred'']))) (\<lambda>x.
     bindM (if x then ret () else outside (bindM (getsM (random_token st)) (encrypt_to e (SIMPLE_ROOT @ [''backup.cred'']) ''backup''))) (\<lambda>_.
     bindM (outside (existsM (SIMPLE_ROOT @ [''backups'', ''config'']))) (\<lambda>y.
     bindM (if y then ret () else outside (runS e (backup_args @ [''init'']) False)) (\<lambda>_.
     bindM (outside (userS e (data_args ''snapshot'') None False)) (\<lambda>archive.
     bindM (outside (outS e (backup_args @ [''backup'', ''--stdin'', ''--stdin-filename'', ''application.tar'', ''--json'']) (Some archive))) (\<lambda>raw.
     bindM (liftE (bindE (find_summary (rev (bsplitlines raw))) (\<lambda>s. str_item s ''snapshot_id''))) (\<lambda>snapshot_id.
     bindM (outside (outS e (backup_args @ [''dump'', snapshot_id, ''application.tar'']) None)) (\<lambda>restored.
     needM (sha256 e restored = sha256 e archive) ''backup-readback-mismatch'' (
     bindM (put ''backup'' (JStr snapshot_id)) (\<lambda>_.
     bindM (put ''backup_sha256'' (JStr (sha256 e archive))) (\<lambda>_.
     saveS e (Some ''backup-verified''))))))))))))"

text \<open>A key that is given is a text.\<close>

definition simple_key_ok :: "string \<Rightarrow> bool" where
  "simple_key_ok k \<longleftrightarrow> length (codepoints k) \<le> 8192 \<and> \<not> list_ex is_space k \<and> ascii 0 \<notin> set k"

definition credentialsS :: "'x env \<Rightarrow> json \<Rightarrow> (json, 'x, unit) process" where
  "credentialsS e key =
     bindM (if truthy key then
         bindM (liftE (str_arg key)) (\<lambda>k.
         needM (simple_key_ok k) ''invalid-key'' (
         bindM (outside (existsM SIMPLE_KEY)) (\<lambda>x.
         needM (\<not> x) ''credential-rotation-requires-separate-provisioning'' (
         bindM (put ''created_credential'' (JBool True)) (\<lambda>_.
         bindM (saveS e None) (\<lambda>_.
         outside (encrypt_to e SIMPLE_KEY ''openai-api'' k)))))))
       else ret ()) (\<lambda>_.
     bindM (outside (existsM SIMPLE_KEY)) (\<lambda>x. needM x ''one-time-api-key-required'' (ret ())))"

section \<open>Health\<close>

definition some_option :: "json \<Rightarrow> bool res" where
  "some_option v = bindE (iterated v) (\<lambda>xs.
     foldE (\<lambda>x found. if found then Inr True else contains_str x ''no-new-privileges'') xs False)"

definition mount_step :: "json \<Rightarrow> (json \<times> json) list \<Rightarrow> (json \<times> json) list res" where
  "mount_step m mounts =
     bindE (idx m ''Destination'') (\<lambda>d. if hashable d then Inr ((d, m) # mounts) else Inl TypeError)"

definition mounts_ok :: "json \<Rightarrow> bool res" where
  "mounts_ok value =
     bindE (bindE (get_default value ''Mounts'' (JList [])) iterated) (\<lambda>ms.
     bindE (foldE mount_step ms []) (\<lambda>mounts.
     if same_set (map fst mounts) [JStr ''/opt/data'', JStr ''/opt/data/.env'']
     then bindE (idx (the (map_of mounts (JStr ''/opt/data/.env''))) ''RW'') (\<lambda>rw. Inr (\<not> truthy rw))
     else Inr False))"

definition truthyE :: "json res \<Rightarrow> bool res" where
  "truthyE v = bindE v (\<lambda>x. Inr (truthy x))"

definition falsyE :: "json res \<Rightarrow> bool res" where
  "falsyE v = bindE v (\<lambda>x. Inr (\<not> truthy x))"

definition isolation_ok :: "json \<Rightarrow> json \<Rightarrow> bool res" where
  "isolation_ok value host =
     andE (truthyE (get_default host ''ReadonlyRootfs'' JNull))
      (andE (falsyE (get_default host ''Privileged'' JNull))
       (andE (falsyE (get_default host ''Devices'' JNull))
        (andE (falsyE (get_in value ''NetworkSettings'' ''Ports''))
         (bindE (get_default host ''PidsLimit'' JNull) (\<lambda>n. Inr (py_eq n (JInt 512)))))))"

definition container_verdict :: "json \<Rightarrow> json \<Rightarrow> unit res" where
  "container_verdict config value =
     bindE (get_default value ''State'' (JObj [])) (\<lambda>state.
     bindE (get_in state ''Health'' ''Status'') (\<lambda>status.
     needE (status = JStr ''healthy'') ''runtime-unhealthy'' (
     bindE (idx config ''image'') (\<lambda>img.
     needE (py_eq (jget value ''ImageName'') img) ''runtime-image-mismatch'' (
     bindE (idx value ''HostConfig'') (\<lambda>host.
     bindE (isolation_ok value host) (\<lambda>isolated.
     needE isolated ''runtime-isolation-mismatch'' (
     bindE (bindE (get_default host ''SecurityOpt'' (JList [])) some_option) (\<lambda>opt.
     needE opt ''privilege-escalation-enabled'' (
     bindE (mounts_ok value) (\<lambda>mounts.
     needE mounts ''runtime-mounts-mismatch'' (Inr ()))))))))))))"

definition inference_args :: "string \<Rightarrow> string \<Rightarrow> string list" where
  "inference_args provider model =
     [''podman'', ''exec'', ''-i'', ''--user'', ''10000:10000'', ''hermes'', ''hermes'', ''--safe-mode'', ''--provider'', provider,
      ''--model'', model, ''--toolsets'', ''context_engine'', ''-z'',
      ''Return exactly HERMES_OK. The complete response must be HERMES_OK and nothing else.'']"

definition healthyS :: "'x env \<Rightarrow> json \<Rightarrow> bool \<Rightarrow> ('x world, unit) prog" where
  "healthyS e config inference =
     bindM (userS e [''podman'', ''inspect'', ''hermes''] None False) (\<lambda>raw.
     bindM (liftE (bindE (plain_loads raw) (\<lambda>v. bindE (item0 v) (container_verdict config)))) (\<lambda>_.
     if \<not> inference then ret ()
     else
       bindM (liftE (str_item config ''provider'')) (\<lambda>provider.
       bindM (liftE (str_item config ''model'')) (\<lambda>model.
       bindM (userS e (inference_args provider model) None False) (\<lambda>response.
       needM (rev (dropWhile (\<lambda>c. c = newline) (rev response)) = ''HERMES_OK'') ''inference-not-exact'' (ret ()))))))"

fun healthy_rounds :: "'x env \<Rightarrow> json \<Rightarrow> nat \<Rightarrow> ('x world, unit) prog" where
  "healthy_rounds e config n =
     (if n = 0 then raiseM (failS ''runtime-health-timeout'')
      else exceptM is_failure (healthyS e config False) (bindM (pauseM e 5) (\<lambda>_. healthy_rounds e config (n - 1))))"

declare healthy_rounds.simps [simp del]

definition wait_healthy :: "'x env \<Rightarrow> json \<Rightarrow> ('x world, unit) prog" where
  "wait_healthy e config = healthy_rounds e config 36"

section \<open>The runtime\<close>

definition init_script :: string where
  "init_script = text_lines
     [''from pathlib import Path'', ''p=Path('/opt/data/config.yaml')'',
      ''if not p.exists(): p.write_text('{}'' @ [ascii 92] @ ''n')'']"

text \<open>What stands before the first occurrence: \<^verbatim>\<open>raw.split(sub)[0]\<close>\<close>

fun before_first :: "string \<Rightarrow> string \<Rightarrow> string" where
  "before_first sub [] = []"
| "before_first sub (c # cs) = (if startswith (c # cs) sub then [] else c # before_first sub cs)"

definition setup_args :: "string \<Rightarrow> string \<Rightarrow> string \<Rightarrow> string list" where
  "setup_args provider model img =
     [''podman'', ''run'', ''--rm'', ''-i'', ''--pull=never'', ''--network=none'', ''--read-only'',
      ''--cap-drop=all'', ''--security-opt=no-new-privileges'', ''--user=10000:10000'',
      ''--tmpfs=/tmp:rw,size=64m'', ''-v'', ''/home/hermes/data:/opt/data:z'',
      ''-e'', ''HERMES_PROVIDER='' @ provider, ''-e'', ''HERMES_MODEL='' @ model,
      ''--entrypoint=python3'', img, ''-'']"

text \<open>The materializer writes to a directory of its own and closes what the provider environment must not open.\<close>

definition key_line :: string where
  "key_line = ''lines.append(\"OPENAI_API_KEY=\" + key)''"

definition closed_key_lines :: string where
  "closed_key_lines =
     ''lines = [line for line in lines if line.split(\"=\", 1)[0].strip() not in ''
     @ ''(\"API_SERVER_ENABLED\", \"HERMES_DASHBOARD\", \"GATEWAY_ALLOW_ALL_USERS\", \"WEBHOOK_ENABLED\")]'' @ [newline]
     @ ''    lines.extend([\"API_SERVER_ENABLED=false\", \"HERMES_DASHBOARD=0\", ''
     @ ''\"GATEWAY_ALLOW_ALL_USERS=false\", \"WEBHOOK_ENABLED=false\"])'' @ [newline]
     @ ''    '' @ key_line"

definition simple_materializer :: "string \<Rightarrow> string" where
  "simple_materializer s =
     replace_all key_line closed_key_lines (replace_all ''/run/hermes-secrets'' ''/run/hermes-simple-secrets'' s)"

definition credential_unit :: "string \<Rightarrow> string" where
  "credential_unit uid = text_lines
     [''[Unit]'', ''Requires=user-runtime-dir@'' @ uid @ ''.service'', ''After=user-runtime-dir@'' @ uid @ ''.service'',
      ''[Service]'', ''Type=oneshot'', ''RemainAfterExit=true'',
      ''LoadCredentialEncrypted=openai-api:'' @ path_text SIMPLE_KEY,
      ''ExecStart=/usr/bin/python3 -I '' @ path_text SIMPLE_LIB @ ''/runtime-materialize.py'',
      ''UMask=0077'', ''LimitCORE=0'', ''StandardOutput=null'', ''StandardError=null'']"

definition credential_order :: string where
  "credential_order = text_lines
     [''[Unit]'', ''Requires=hermes-simple-credentials.service'', ''After=hermes-simple-credentials.service'']"

text \<open>\<^verbatim>\<open>re.sub(r'^Image=.*$', 'Image=' + image, text, flags=re.M)\<close>, and the volume of the secrets\<close>

definition pinned_unit :: "string \<Rightarrow> string \<Rightarrow> string" where
  "pinned_unit img text =
     join_with [newline] (map (\<lambda>l. if startswith l ''Image='' then ''Image='' @ img else l) (split_on newline text))"

definition simple_quadlet :: "string \<Rightarrow> string \<Rightarrow> string" where
  "simple_quadlet img text =
     replace_all (''[Container]'' @ [newline])
       (''[Container]'' @ [newline] @ ''Volume=/run/hermes-simple-secrets/provider.env:/opt/data/.env:ro,z'' @ [newline])
       (pinned_unit img text)"

definition uid_text :: "json \<Rightarrow> string res" where
  "uid_text v = (if is_int v then Inr (show_int (int_of v)) else Inl TypeError)"

definition configure_application :: "'x env \<Rightarrow> json \<Rightarrow> ('x world, unit) prog" where
  "configure_application e config =
     bindM (userS e [''podman'', ''unshare'', ''chown'', ''10000:10000'', ''/home/hermes/data''] None False) (\<lambda>_.
     bindM (userS e [''podman'', ''unshare'', ''chcon'', ''-R'', ''system_u:object_r:container_file_t:s0'', ''/home/hermes/data''] None False) (\<lambda>_.
     bindM (readM (SIMPLE_LIB @ [''harden-config.py''])) (\<lambda>harden.
     bindM (readM (SIMPLE_LIB @ [''set-model.py''])) (\<lambda>set_model.
     let setup = init_script @ before_first ''if env_path.exists():'' harden @ [newline] @ set_model in
     bindM (liftE (str_item config ''provider'')) (\<lambda>provider.
     bindM (liftE (str_item config ''model'')) (\<lambda>model.
     bindM (liftE (str_item config ''image'')) (\<lambda>img.
     bindM (userS e (setup_args provider model img) (Some setup) False) (\<lambda>_. ret ()))))))))"

definition install_units :: "'x env \<Rightarrow> string \<Rightarrow> string \<Rightarrow> (json, 'x, unit) process" where
  "install_units e uid img =
     bindM (outside (read_textM (SIMPLE_LIB @ [''materialize.py'']))) (\<lambda>m.
     bindM (writeS e (SIMPLE_LIB @ [''runtime-materialize.py'']) (simple_materializer m)) (\<lambda>_.
     bindM (writeS e [''etc'', ''systemd'', ''system'', ''hermes-simple-credentials.service''] (credential_unit uid)) (\<lambda>_.
     bindM (writeS e [''etc'', ''systemd'', ''system'', ''user@'' @ uid @ ''.service.d'', ''80-hermes-simple.conf''] credential_order) (\<lambda>_.
     bindM (outside (read_textM (SIMPLE_LIB @ [''hermes.container'']))) (\<lambda>q.
     bindM (writeS e [''etc'', ''containers'', ''systemd'', ''users'', uid, ''hermes.container''] (simple_quadlet img q)) (\<lambda>_.
     forM [''60-hermes-runtime.conf'', ''70-hermes-volume-label.conf''] (\<lambda>name.
       bindM (outside (readM (SIMPLE_LIB @ [name])))
         (writeS e [''etc'', ''systemd'', ''user'', ''hermes.service.d'', name]))))))))"

definition runtimeS :: "'x env \<Rightarrow> (json, 'x, unit) process" where
  "runtimeS e =
     bindM (item ''config'') (\<lambda>config.
     bindM (bindM (item ''uid'') (\<lambda>v. liftE (uid_text v))) (\<lambda>uid.
     bindM (outside (configure_application e config)) (\<lambda>_.
     bindM (liftE (str_item config ''image'')) (\<lambda>img.
     bindM (install_units e uid img) (\<lambda>_.
     bindM (outside (runS e [''systemctl'', ''daemon-reload''] False)) (\<lambda>_.
     bindM (outside (runS e [''systemctl'', ''restart'', ''hermes-simple-credentials.service''] False)) (\<lambda>_.
     bindM (outside (runS e [''systemctl'', ''start'', ''user@'' @ uid @ ''.service''] False)) (\<lambda>_.
     bindM (outside (serviceS e [''daemon-reload''] False)) (\<lambda>_.
     bindM (outside (serviceS e [''restart'', ''hermes.service''] False)) (\<lambda>_.
     bindM (outside (wait_healthy e config)) (\<lambda>_.
     outside (healthyS e config True))))))))))))"

section \<open>Recovery\<close>

text \<open>One tracked file: what was recorded of it is put back.\<close>

definition restoreS :: "string \<times> json \<Rightarrow> ('x world, unit) prog" where
  "restoreS = (\<lambda>(name, record).
     let p = abs_path name in
     bindM (managed p) (\<lambda>_.
     if record = JNull then unlinkM p True
     else
       bindM (liftE (bindE (idx record ''data'') b64decode)) (\<lambda>data.
       bindM (liftE (bindE (idx record ''mode'') int_arg)) (\<lambda>mode.
       atomicS p data mode))))"

definition restore_application :: "'x env \<Rightarrow> json \<Rightarrow> (json, 'x, unit) process" where
  "restore_application e backup =
     bindM (liftE (str_arg backup)) (\<lambda>snapshot_id.
     bindM (outside (outS e (backup_args @ [''dump'', snapshot_id, ''application.tar'']) None)) (\<lambda>archive.
     bindM (item ''backup_sha256'') (\<lambda>d.
     needM (d = JStr (sha256 e archive)) ''rollback-backup-mismatch'' (
     bindM (outside (userS e (data_args ''restore'') (Some archive) False)) (\<lambda>_. ret ())))))"

definition restart_previous :: "'x env \<Rightarrow> json \<Rightarrow> (json, 'x, unit) process" where
  "restart_previous e previous =
     bindM (outside (existsM [''etc'', ''systemd'', ''system'', ''hermes-simple-credentials.service''])) (\<lambda>x.
     bindM (if x then outside (runS e [''systemctl'', ''restart'', ''hermes-simple-credentials.service''] False) else ret ()) (\<lambda>_.
     bindM (bindM (item ''uid'') (\<lambda>v. liftE (uid_text v))) (\<lambda>uid.
     bindM (outside (runS e [''systemctl'', ''start'', ''user@'' @ uid @ ''.service''] False)) (\<lambda>_.
     bindM (outside (serviceS e [''daemon-reload''] False)) (\<lambda>_.
     bindM (outside (serviceS e [''start'', ''hermes.service''] False)) (\<lambda>_.
     bindM (liftE (idx previous ''config'')) (\<lambda>config.
     bindM (outside (wait_healthy e config)) (\<lambda>_.
     outside (healthyS e config True)))))))))"

definition remove_account :: "'x env \<Rightarrow> (json, 'x, unit) process" where
  "remove_account e =
     bindM (outside (serviceS e [''stop'', ''hermes.service''] True)) (\<lambda>_.
     bindM (outside (userS e [''podman'', ''rm'', ''-f'', ''hermes''] None True)) (\<lambda>_.
     bindM (outside (runS e [''loginctl'', ''disable-linger'', ''hermes''] False)) (\<lambda>_.
     bindM (bindM (item ''uid'') (\<lambda>v. liftE (uid_text v))) (\<lambda>uid.
     bindM (outside (runS e [''systemctl'', ''stop'', ''user@'' @ uid @ ''.service''] True)) (\<lambda>_.
     bindM (outside (runS e [''userdel'', ''--remove'', ''hermes''] False)) (\<lambda>_.
     bindM (get ''created_credential'') (\<lambda>c.
     bindM (if truthy c then outside (unlinkM SIMPLE_KEY True) else ret ()) (\<lambda>_.
     outside (unlinkM [''run'', ''hermes-simple-secrets'', ''provider.env''] True)))))))))"

definition recoverS :: "'x env \<Rightarrow> (json, 'x, unit) process" where
  "recoverS e =
     bindM (get ''phase'') (\<lambda>phase.
     if in_phases phase [''closed'', ''rolled-back''] then ret ()
     else
       bindM (get ''uid'') (\<lambda>uid.
       bindM (if truthy uid then outside (serviceS e [''stop'', ''hermes.service''] True) else ret ()) (\<lambda>_.
       bindM (get ''backup'') (\<lambda>backup.
       bindM (if truthy backup then restore_application e backup else ret ()) (\<lambda>_.
       bindM (bindM recall (\<lambda>s. liftE (get_default s ''files'' (JObj [])))) (\<lambda>tracked.
       if \<not> is_dict tracked then raiseM AttributeError
       else
         bindM (outside (forM (rev (items_of tracked)) restoreS)) (\<lambda>_.
         bindM (outside (runS e [''systemctl'', ''daemon-reload''] False)) (\<lambda>_.
         bindM (outside (runS e [''firewall-cmd'', ''--reload''] True)) (\<lambda>_.
         bindM (outside (runS e [''/usr/sbin/sshd'', ''-t''] False)) (\<lambda>_.
         bindM (outside (runS e [''systemctl'', ''reload'', ''sshd''] False)) (\<lambda>_.
         bindM (get ''previous'') (\<lambda>previous.
         bindM (if truthy previous then restart_previous e previous
                else bindM (get ''created_account'') (\<lambda>c. if truthy c then remove_account e else ret ())) (\<lambda>_.
         bindM (disarm e) (\<lambda>_.
         saveS e (Some ''rolled-back'')))))))))))))))"

section \<open>The transaction\<close>

definition phase_reply :: "string \<Rightarrow> (string \<times> json) list \<Rightarrow> json" where
  "phase_reply phase values = JObj ([(''ok'', JBool True), (''phase'', JStr phase)] @ values)"

definition rolled_back_reply :: json where
  "rolled_back_reply = phase_reply ''rolled-back'' []"

text \<open>\<^verbatim>\<open>try: m except Exception: recover(state); raise\<close>\<close>

definition recovering :: "'x env \<Rightarrow> (json, 'x, 'a) process \<Rightarrow> (json, 'x, 'a) process" where
  "recovering e m = catchM m (\<lambda>x. bindM (recoverS e) (\<lambda>_. raiseM x))"

definition new_transaction :: "json \<Rightarrow> string \<Rightarrow> string \<Rightarrow> json \<Rightarrow> string \<Rightarrow> json" where
  "new_transaction config fingerprint tok previous machine_id =
     JObj [(''phase'', JStr ''preparing''), (''config'', config), (''fingerprint'', JStr fingerprint), (''token'', JStr tok),
       (''files'', JObj []), (''previous'', previous), (''machine_id'', JStr machine_id)]"

definition pull_image :: "'x env \<Rightarrow> json \<Rightarrow> ('x world, unit) prog" where
  "pull_image e config =
     bindM (liftE (str_item config ''image'')) (\<lambda>img.
     bindM (userS e [''podman'', ''pull'', img] None False) (\<lambda>_.
     bindM (userS e [''podman'', ''image'', ''inspect'', img, ''--format'', ''{{.Digest}}''] None False) (\<lambda>raw.
     bindM (liftE (decode_text (bstrip raw))) (\<lambda>d.
     bindM (case split_on (CHR ''@'') img of a # b # r \<Rightarrow> ret b | _ \<Rightarrow> raiseM IndexError) (\<lambda>pinned.
     needM (d = pinned) ''pulled-digest-mismatch'' (ret ()))))))"

definition prepare_body :: "'x env \<Rightarrow> 'x site \<Rightarrow> json \<Rightarrow> json \<Rightarrow> json \<Rightarrow> (json, 'x, json) process" where
  "prepare_body e st config key previous =
     bindM (outside (runS e ([''dnf5'', ''install'', ''-y''] @ PACKAGES) False)) (\<lambda>_.
     bindM (outside (run_status e [''systemctl'', ''is-active'', ''--quiet'', ''firewalld''] None True)) (\<lambda>active.
     bindM (put ''firewall_was_active'' (JBool (fst active = 0))) (\<lambda>_.
     bindM (saveS e None) (\<lambda>_.
     bindM (outside (runS e [''systemctl'', ''enable'', ''--now'', ''firewalld'', ''sshd''] False)) (\<lambda>_.
     bindM (identityS e) (\<lambda>_.
     bindM (credentialsS e key) (\<lambda>_.
     bindM (outside (pull_image e config)) (\<lambda>_.
     bindM (if truthy previous then
         bindM (outside (serviceS e [''stop'', ''hermes.service''] False)) (\<lambda>_. snapshotS e st)
       else ret ()) (\<lambda>_.
     bindM (configure_access e) (\<lambda>_.
     bindM (saveS e (Some ''awaiting-access'')) (\<lambda>_.
     bindM (disarm e) (\<lambda>_.
     bindM (arm e 120) (\<lambda>_.
     bindM (item ''token'') (\<lambda>tok.
     ret (JObj [(''ok'', JBool True), (''token'', tok), (''phase'', JStr ''awaiting-access'')])))))))))))))))"

definition start_transaction :: "'x env \<Rightarrow> 'x site \<Rightarrow> json \<Rightarrow> json \<Rightarrow> json \<Rightarrow> string \<Rightarrow> json \<Rightarrow> (json, 'x, json) process" where
  "start_transaction e st config payload key fingerprint previous =
     bindM (if truthy previous then ret () else
       bindM (outside (existsM DATA)) (\<lambda>x. needM (\<not> x) ''unmanaged-existing-hermes-data'' (ret ()))) (\<lambda>_.
     bindM (outside (existsM SIMPLE_KEY)) (\<lambda>provisioned.
     needM (truthy key \<or> provisioned) ''one-time-api-key-required'' (
     needM (\<not> (provisioned \<and> truthy key)) ''credential-already-provisioned'' (
     bindM (outside (install_payload payload)) (\<lambda>_.
     bindM (outside (getsM (random_token st))) (\<lambda>tok.
     bindM (outside (read_textM [''etc'', ''machine-id''])) (\<lambda>m.
     bindM (remember (\<lambda>_. new_transaction config fingerprint tok previous (strip m))) (\<lambda>_.
     bindM (saveS e None) (\<lambda>_.
     bindM (outside (setup_recovery e)) (\<lambda>_.
     bindM (arm e 1200) (\<lambda>_.
     recovering e (prepare_body e st config key previous))))))))))))"

definition prepareS :: "'x env \<Rightarrow> 'x site \<Rightarrow> tools \<Rightarrow> json \<Rightarrow> json \<Rightarrow> (json, 'x, json) process" where
  "prepareS e st t request config =
     bindM (outside (preflightS e st t config)) (\<lambda>_.
     bindM recall (\<lambda>s.
     bindM (if truthy s then
         bindM (get ''phase'') (\<lambda>phase. if in_phases phase [''closed'', ''rolled-back''] then ret () else recoverS e)
       else ret ()) (\<lambda>_.
     bindM (liftE (idx request ''files'')) (\<lambda>payload.
     bindM (liftE (config_fingerprint e config payload)) (\<lambda>fingerprint.
     bindM (get ''phase'') (\<lambda>phase.
     bindM (get ''fingerprint'') (\<lambda>known.
     let key = jget request ''key''; closed = (phase = JStr ''closed'') in
     if closed \<and> known = JStr fingerprint \<and> \<not> truthy key then
       bindM (outside (healthyS e config True)) (\<lambda>_. ret (phase_reply ''closed'' [(''unchanged'', JBool True)]))
     else
       bindM (if closed then recall else get ''previous'') (\<lambda>previous.
       start_transaction e st config payload key fingerprint previous))))))))"

definition confirm_access :: "'x env \<Rightarrow> 'x site \<Rightarrow> tools \<Rightarrow> json \<Rightarrow> (json, 'x, json) process" where
  "confirm_access e st t config =
     bindM (item ''phase'') (\<lambda>phase.
     needM (phase = JStr ''awaiting-access'') ''access-phase-mismatch'' (
     bindM (outside (preflightS e st t config)) (\<lambda>_.
     bindM (saveS e (Some ''access-confirmed'')) (\<lambda>_.
     bindM (disarm e) (\<lambda>_.
     bindM (arm e 600) (\<lambda>_. ret (phase_reply ''access-confirmed'' [])))))))"

definition deployS :: "'x env \<Rightarrow> json \<Rightarrow> (json, 'x, json) process" where
  "deployS e config =
     bindM (item ''phase'') (\<lambda>phase.
     needM (phase = JStr ''access-confirmed'') ''deployment-phase-mismatch'' (
     recovering e (
       bindM (saveS e (Some ''installing'')) (\<lambda>_.
       bindM (runtimeS e) (\<lambda>_.
       bindM (saveS e (Some ''closed'')) (\<lambda>_.
       bindM (disarm e) (\<lambda>_.
       bindM (liftE (idx config ''image'')) (\<lambda>img.
       ret (phase_reply ''closed'' [(''image'', img)])))))))))"

definition roll_back :: "'x env \<Rightarrow> (json, 'x, json) process" where
  "roll_back e =
     bindM (get ''phase'') (\<lambda>phase. bindM (get ''previous'') (\<lambda>previous.
     needM (phase = JStr ''closed'' \<and> truthy previous) ''no-previous-deployment'' (
     bindM (saveS e (Some ''rolling-back'')) (\<lambda>_.
     bindM (arm e 600) (\<lambda>_.
     bindM (recoverS e) (\<lambda>_. ret rolled_back_reply))))))"

text \<open>What is done with the lock held; the memory holds the state that was read.\<close>

definition locked_action :: "'x env \<Rightarrow> 'x site \<Rightarrow> tools \<Rightarrow> json \<Rightarrow> json \<Rightarrow> json \<Rightarrow> (json, 'x, json) process" where
  "locked_action e st t request config action =
     (if action = JStr ''recover'' then bindM (recoverS e) (\<lambda>_. ret rolled_back_reply)
      else if action = JStr ''rollback'' then roll_back e
      else if action = JStr ''prepare'' then prepareS e st t request config
      else
        bindM (get ''token'') (\<lambda>tok. bindM (get ''config'') (\<lambda>own.
        needM (py_eq tok (jget request ''token'') \<and> py_eq own config) ''transaction-binding-mismatch'' (
        if action = JStr ''confirm-access'' then confirm_access e st t config
        else if action = JStr ''deploy'' then deployS e config
        else raiseM (failS ''unsupported-action'')))))"

text \<open>The lock does not wait: a busy one is an \<^verbatim>\<open>OSError\<close>.\<close>

definition lock_now :: "path \<Rightarrow> ('x world, 'a) prog \<Rightarrow> ('x world, 'a) prog" where
  "lock_now p body w =
     (if \<not> opens_lock (files w) p then (Inl OSError, w)
      else let w1 = with_lock_file p w in
        if p \<in> set (busy w) then (Inl OSError, w1)
        else finallyM body (unlock p) (w1\<lparr>busy := p # busy w1\<rparr>))"

definition read_state :: "('x world, json) prog" where
  "read_state =
     bindM (existsM SIMPLE_STATE) (\<lambda>x.
     if x then bindM (read_textM SIMPLE_STATE) (\<lambda>raw. liftE (plain_text raw)) else ret (JObj []))"

definition status_reply :: "'x env \<Rightarrow> ('x world, json) prog" where
  "status_reply e =
     bindM (existsM SIMPLE_STATE) (\<lambda>x.
     needM x ''not-installed'' (
     bindM (bindM (read_textM SIMPLE_STATE) (\<lambda>raw. liftE (plain_text raw))) (\<lambda>s.
     bindM (liftE (idx s ''phase'')) (\<lambda>phase.
     needM (phase = JStr ''closed'') ''deployment-not-closed'' (
     bindM (liftE (idx s ''config'')) (\<lambda>config.
     bindM (healthyS e config False) (\<lambda>_.
     bindM (liftE (idx config ''image'')) (\<lambda>img.
     ret (phase_reply ''closed'' [(''image'', img)])))))))))"

definition dispatchS :: "'x env \<Rightarrow> 'x site \<Rightarrow> tools \<Rightarrow> json \<Rightarrow> ('x world, json) prog" where
  "dispatchS e st t request =
     bindM (liftE (idx request ''action'')) (\<lambda>action.
     let config = jget request ''config'' in
     if action = JStr ''check'' then preflightS e st t config
     else
       bindM (managed SIMPLE_ROOT) (\<lambda>_.
       if action = JStr ''status'' then status_reply e
       else
         bindM (private_dirs SIMPLE_ROOT) (\<lambda>_.
         lock_now (SIMPLE_ROOT @ [''lock'']) (
           bindM read_state (\<lambda>s. process s (locked_action e st t request config action))))))"

text \<open>What is printed, and the exit status; the classes that are not caught leave the program.\<close>

definition simple_caught :: "exn \<Rightarrow> bool" where
  "simple_caught x = (case x of
     Failure c r \<Rightarrow> True | OSError \<Rightarrow> True | KeyError \<Rightarrow> True | ValueError \<Rightarrow> True | TimeoutExpired \<Rightarrow> True
   | CalledProcessError \<Rightarrow> True | _ \<Rightarrow> False)"

definition simple_reason :: "exn \<Rightarrow> string" where
  "simple_reason x = (if x = TimeoutExpired then ''TimeoutExpired'' else exn_name x)"

definition simple_main :: "'x env \<Rightarrow> 'x site \<Rightarrow> tools \<Rightarrow> json \<Rightarrow> ('x world, string \<times> int) prog" where
  "simple_main e st t request =
     catchM (bindM (dispatchS e st t request) (\<lambda>r. ret (spaced r @ [newline], 0)))
       (\<lambda>x. if simple_caught x
            then ret (spaced (JObj [(''ok'', JBool False), (''reason'', JStr (simple_reason x))]) @ [newline], 1)
            else raiseM x)"

end
