(* ===== verification/SimpleData.thy ===== *)
theory SimpleData
  imports SimpleHost
begin

text \<open>
  \<^verbatim>\<open>scripts/hermes/simple/data.py\<close>: the archive of the application's data, made and restored in the user's
  namespace, and \<^verbatim>\<open>scripts/hermes/simple/controller.py\<close>: the operator's side of the simple installer. The tar
  reader and writer are parameters; an error of the remote side (\<^verbatim>\<open>RuntimeError\<close>) is a \<open>Failure\<close> with its text.
\<close>

section \<open>Application archives\<close>

record data_member =
  dname :: string
  ddir :: bool
  dfile :: bool
  dsize :: int
  dmode :: int
  ddata :: string

record archiver =
  read_tar :: "string \<Rightarrow> data_member list option"
  write_tar :: "(string \<times> node) list \<Rightarrow> string"

definition DATA_LIMIT :: int where "DATA_LIMIT = 512 * 1024 * 1024"

definition private_part :: "string \<Rightarrow> bool" where
  "private_part s \<longleftrightarrow> startswith s ''.env'' \<or> startswith s ''auth.json'' \<or> startswith s ''credentials''"

definition private_name :: "string \<Rightarrow> bool" where
  "private_name name \<longleftrightarrow> list_ex private_part (path_parts name)"

definition entry_ok :: "data_member \<Rightarrow> string list \<times> int \<Rightarrow> (string list \<times> int) res" where
  "entry_ok m = (\<lambda>(seen, total).
     if path_absolute (dname m) \<or> ''..'' \<in> set (path_parts (dname m)) \<or> private_name (dname m) then Inl ValueError
     else if \<not> (ddir m \<or> dfile m) \<or> dname m \<in> set seen then Inl ValueError
     else if total + dsize m > DATA_LIMIT then Inl ValueError
     else Inr (dname m # seen, total + dsize m))"

definition data_members :: "data_member list \<Rightarrow> data_member list res" where
  "data_members ms = bindE (foldE entry_ok ms ([], 0)) (\<lambda>_. Inr ms)"

text \<open>The members of a snapshot: every file and directory but the private ones; anything else is refused.\<close>

definition snapshot_step :: "fsys \<Rightarrow> path \<Rightarrow> path \<Rightarrow> (string \<times> node) list \<times> int \<Rightarrow> ((string \<times> node) list \<times> int) res" where
  "snapshot_step fs root rel = (\<lambda>(ms, total).
     if list_ex private_part rel then Inr (ms, total)
     else (case fs (root @ rel) of
         Some (NFile c m u) \<Rightarrow>
           if total + int (length c) > DATA_LIMIT then Inl ValueError
           else Inr (ms @ [(join_with ''/'' rel, NFile c m u)], total + int (length c))
       | Some (NDir m u) \<Rightarrow> Inr (ms @ [(join_with ''/'' rel, NDir m u)], total)
       | _ \<Rightarrow> Inl ValueError))"

definition data_snapshot :: "archiver \<Rightarrow> tools \<Rightarrow> path \<Rightarrow> ('x world, string) prog" where
  "data_snapshot a t root =
     bindM (getsM files) (\<lambda>fs.
     bindM (liftE (foldE (snapshot_step fs root) (sort (entries t fs root)) ([], 0))) (\<lambda>r.
     ret (write_tar a (fst r))))"

text \<open>What the tree held is removed, the deepest first: directories only when they are empty.\<close>

definition clear_step :: "tools \<Rightarrow> path \<Rightarrow> path \<Rightarrow> ('x world, unit) prog" where
  "clear_step t root rel =
     (if list_ex private_part rel then ret ()
      else bindM (getsM files) (\<lambda>fs.
        if is_dir_at fs (root @ rel) \<and> \<not> is_link_at fs (root @ rel)
        then (if entries t fs (root @ rel) = [] then modifyM (\<lambda>w. set_files ((files w)(root @ rel := None)) w) else ret ())
        else unlinkM (root @ rel) False))"

definition restore_member :: "path \<Rightarrow> data_member \<Rightarrow> ('x world, unit) prog" where
  "restore_member root m =
     (let target = root @ path_comps (dname m) in
      bindM (getsM files) (\<lambda>fs.
      if list_ex (is_link_at fs) (target # parents target) then raiseM ValueError
      else
        bindM (mkdir_allM (butlast target) 493) (\<lambda>_.
        bindM (if ddir m then mkdirM target 493 True else write_bytesM target (ddata m)) (\<lambda>_.
        bindM (chmodM target (nat (dmode m) AND 448)) (\<lambda>_.
        chownM target 10000)))))"

definition data_restore :: "archiver \<Rightarrow> tools \<Rightarrow> path \<Rightarrow> string \<Rightarrow> ('x world, unit) prog" where
  "data_restore a t root raw =
     bindM (case read_tar a raw of None \<Rightarrow> raiseM TarError | Some ms \<Rightarrow> liftE (data_members ms)) (\<lambda>ms.
     bindM (getsM files) (\<lambda>fs.
     bindM (forM (sort_key (\<lambda>rel. - int (length rel)) (entries t fs root)) (clear_step t root)) (\<lambda>_.
     forM ms (restore_member root))))"

text \<open>What is written to the standard output.\<close>

definition data_main :: "archiver \<Rightarrow> tools \<Rightarrow> string list \<Rightarrow> string \<Rightarrow> ('x world, string) prog" where
  "data_main a t args input =
     bindM (getsM files) (\<lambda>fs.
     if is_link_at fs DATA \<or> \<not> is_dir_at fs DATA then raiseM ValueError
     else (case args of
         [] \<Rightarrow> raiseM IndexError
       | action # r \<Rightarrow>
           if action = ''snapshot'' then data_snapshot a t DATA
           else if action = ''restore'' then
             (let limit = nat DATA_LIMIT + 16 * 1024 * 1024; raw = take (limit + 1) input in
              if length raw > limit then raiseM ValueError
              else bindM (data_restore a t DATA raw) (\<lambda>_. ret []))
           else raiseM ValueError))"

section \<open>The operator's side\<close>

definition SIMPLE_FIELDS :: "string list" where
  "SIMPLE_FIELDS = [''target'', ''identity_file'', ''known_hosts_file'', ''management_cidr'',
     ''management_interface'', ''image'', ''provider'', ''model'']"

definition valueE :: "bool \<Rightarrow> 'a res \<Rightarrow> 'a res" where
  "valueE c k = (if c then k else Inl ValueError)"

definition operator_file :: "fsys \<Rightarrow> nat \<Rightarrow> json \<Rightarrow> string \<Rightarrow> unit \<Rightarrow> unit res" where
  "operator_file fs uid config name _ =
     bindE (str_item config name) (\<lambda>s.
     let p = abs_path s in
     valueE (path_absolute s \<and> \<not> is_link_at fs p \<and> is_file_at fs p) (
     case node_at fs p of None \<Rightarrow> Inl OSError
     | Some n \<Rightarrow>
         valueE (node_uid n = uid \<and> \<not> writable_by_others n) (
         valueE (name = ''identity_file'' \<longrightarrow> \<not> open_to_others n) (Inr ()))))"

definition simple_validate :: "'x site \<Rightarrow> fsys \<Rightarrow> nat \<Rightarrow> json \<Rightarrow> json res" where
  "simple_validate st fs uid config =
     bindE (set_is config SIMPLE_FIELDS) (\<lambda>known.
     valueE known (
     bindE (str_item config ''target'') (\<lambda>target.
     valueE (simple_target_ok target) (
     valueE (\<not> startswith target ''root@'') (
     bindE (bindE (idx config ''management_cidr'') (ip_network_of (ipv6_network st))) (\<lambda>network.
     valueE (network \<noteq> None \<and> snd (the network) \<noteq> 0) (
     bindE (str_item config ''management_interface'') (\<lambda>iface.
     valueE (interface_ok iface) (
     bindE (str_item config ''image'') (\<lambda>img.
     valueE (image_ok img) (
     bindE (field_is config ''provider'' (JStr ''openai-api'')) (\<lambda>provider.
     valueE provider (
     bindE (str_item config ''model'') (\<lambda>model.
     valueE (simple_model_ok model) (
     bindE (foldE (operator_file fs uid config) [''identity_file'', ''known_hosts_file''] ()) (\<lambda>_.
     Inr config))))))))))))))))"

definition simple_ssh :: "json \<Rightarrow> string list" where
  "simple_ssh config =
     [''ssh'', ''-T'', ''-o'', ''BatchMode=yes'', ''-o'', ''StrictHostKeyChecking=yes'',
      ''-o'', ''IdentitiesOnly=yes'', ''-o'', ''ControlMaster=no'', ''-o'', ''ControlPath=none'',
      ''-o'', ''ConnectTimeout=15'', ''-o'', ''ServerAliveInterval=15'',
      ''-o'', ''ServerAliveCountMax=3'', ''-o'', ''ClearAllForwardings=yes'',
      ''-o'', ''UserKnownHostsFile='' @ cfg config ''known_hosts_file'',
      ''-i'', cfg config ''identity_file'', ''--'', cfg config ''target'']"

text \<open>The files of the payload, in the order of the dictionary.\<close>

definition payload_files :: "path \<Rightarrow> (string \<times> path) list" where
  "payload_files here =
     map (\<lambda>n. (n, here @ [n])) [''host.py'', ''data.py'']
     @ map (\<lambda>n. (n, butlast here @ [n])) [''hermes.container'', ''60-hermes-runtime.conf'', ''70-hermes-volume-label.conf'',
         ''harden-config.py'', ''set-model.py'']
     @ [(''materialize.py'', butlast here @ [''unattended'', ''materialize.py''])]"

definition payload_step :: "string \<times> path \<Rightarrow> (string \<times> json) list \<Rightarrow> ('x world, (string \<times> json) list) prog" where
  "payload_step = (\<lambda>(name, p) acc. bindM (readM p) (\<lambda>c. ret (acc @ [(name, JStr (b64encode c))])))"

definition bootstrap_script :: "string \<Rightarrow> string" where
  "bootstrap_script raw = text_lines
     [''import base64,json'', ''REQUEST=json.loads(base64.b64decode('' @ [CHR 0x27] @ raw @ [CHR 0x27] @ ''))'',
      ''exec(compile(base64.b64decode(REQUEST['files']['host.py']), '<hermes-simple>', 'exec'))'']"

definition simple_message :: "json \<Rightarrow> string \<Rightarrow> (string \<times> json) list \<Rightarrow> json \<Rightarrow> json \<Rightarrow> json" where
  "simple_message config action payload key tok =
     JObj [(''config'', config), (''action'', JStr action), (''files'', JObj payload), (''key'', key), (''token'', tok)]"

definition remote_verdict :: "string \<Rightarrow> int \<Rightarrow> string \<Rightarrow> json res" where
  "remote_verdict action rc out =
     needE (rc = 0) (''remote-'' @ action @ ''-failed (exit '' @ show_int rc @ '')'') (
     bindE (case plain_loads out of Inl ValueError \<Rightarrow> Inl (failS ''invalid-remote-response'') | r \<Rightarrow> r) (\<lambda>value.
     needE (is_dict value \<and> truthy (jget value ''ok'')) (''remote-'' @ action @ ''-rejected'') (Inr value)))"

definition simple_request :: "'x env \<Rightarrow> json \<Rightarrow> string \<Rightarrow> json \<Rightarrow> json \<Rightarrow> ('x world, json) prog" where
  "simple_request e config action key tok =
     bindM (foldM (payload_files (butlast (source e))) [] payload_step) (\<lambda>payload w.
     let raw = b64encode (spaced (simple_message config action payload key tok)) in
     answered (cmd e (simple_ssh config @ [''sudo -n /usr/bin/python3 -I -'']) (Some (bootstrap_script raw)) w)
       (remote_verdict action))"

text \<open>The key that is read from the protected standard input.\<close>

definition stdin_key :: "string \<Rightarrow> bool \<Rightarrow> string \<Rightarrow> json res" where
  "stdin_key command terminal input =
     valueE (command = ''deploy'' \<and> \<not> terminal) (
     bindE (decode_text (take 8193 input)) (\<lambda>text.
     let key = strip text in
     valueE (key \<noteq> [] \<and> simple_key_ok key) (Inr (JStr key))))"

definition transport_failed :: "exn \<Rightarrow> bool" where
  "transport_failed x \<longleftrightarrow> is_failure x \<or> x = TimeoutExpired \<or> x = CalledProcessError"

text \<open>Recovery is asked for when a step after the preparation fails; whether it succeeds does not matter to the result.\<close>

definition simple_deploy :: "'x env \<Rightarrow> json \<Rightarrow> json \<Rightarrow> ('x world, json) prog" where
  "simple_deploy e config key =
     bindM (simple_request e config ''check'' JNull JNull) (\<lambda>_.
     bindM (simple_request e config ''prepare'' key JNull) (\<lambda>prepared.
     if truthy (jget prepared ''unchanged'') then ret prepared
     else
       catchM
        (bindM (liftE (idx prepared ''token'')) (\<lambda>tok.
         bindM (simple_request e config ''confirm-access'' JNull tok) (\<lambda>_.
         simple_request e config ''deploy'' JNull tok)))
        (\<lambda>x. if transport_failed x
             then bindM (exceptM transport_failed (bindM (simple_request e config ''recover'' JNull JNull) (\<lambda>_. ret ())) (ret ()))
               (\<lambda>_. raiseM x)
             else raiseM x)))"

definition shown_fields :: "json \<Rightarrow> json" where
  "shown_fields result =
     JObj (map (\<lambda>k. (k, jget result k)) (filter (has_key result) [''ok'', ''phase'', ''unchanged'', ''image'', ''bootstrap'']))"

definition simple_control ::
  "'x env \<Rightarrow> 'x site \<Rightarrow> string \<Rightarrow> path \<Rightarrow> bool \<Rightarrow> bool \<Rightarrow> string \<Rightarrow> ('x world, string) prog" where
  "simple_control e st command config_file key_stdin terminal input =
     bindM (read_textM config_file) (\<lambda>raw.
     bindM (getsM files) (\<lambda>fs. bindM (getsM euid) (\<lambda>me.
     bindM (liftE (bindE (plain_text raw) (simple_validate st fs me))) (\<lambda>config.
     bindM (liftE (if key_stdin then stdin_key command terminal input else Inr JNull)) (\<lambda>key.
     bindM (if command = ''deploy'' then simple_deploy e config key else simple_request e config command JNull JNull) (\<lambda>result.
     ret (spaced (shown_fields result) @ [newline])))))))"

end
