(* ===== verification/SimpleFacts.thy ===== *)
theory SimpleFacts
  imports SimpleData
begin

text \<open>
  Facts on the simple installer: a restore of the application's data leaves every private file alone, a
  tracked file is put back exactly, and an account that was created without a recorded identity is never
  reconciled.
\<close>

section \<open>Private files\<close>

text \<open>A step that touches one path which is no link: another path stays, and the path does not become a link.\<close>

interpretation beside: guarantee
  "\<lambda>w w'. \<not> is_link_at (files w) t \<longrightarrow> files w' q = files w q \<and> \<not> is_link_at (files w') t" for t q :: path
  by unfold_locales auto

lemma is_link_at_upd [simp]: "is_link_at (fs(p \<mapsto> n)) p = is_link n"
  by (simp add: is_link_at_def)

lemma is_link_at_same: "fs' p = fs p \<Longrightarrow> is_link_at fs' p = is_link_at fs p"
  by (simp add: is_link_at_def)

abbreviation beside :: "path \<Rightarrow> path \<Rightarrow> ('x world, 'a) prog \<Rightarrow> bool" where
  "beside t q \<equiv> moves (\<lambda>w w'. \<not> is_link_at (files w) t \<longrightarrow> files w' q = files w q \<and> \<not> is_link_at (files w') t)"

lemma beside_writes:
  assumes "t \<noteq> q"
  shows "beside t q (mkdirM t m b)" "beside t q (write_bytesM t c)"
  using assms by (auto simp: moves_def mkdirM_def write_bytesM_def split: option.splits node.splits)

lemma beside_update:
  assumes "t \<noteq> q" and "\<And>n. is_link (f n) = is_link n"
  shows "beside t q (updateM f t)"
proof (rule movesI, intro impI)
  fix w r w' assume u: "updateM f t w = (r, w')" and l: "\<not> is_link_at (files w) t"
  show "files w' q = files w q \<and> \<not> is_link_at (files w') t"
  proof (cases "files w t")
    case None
    with u l show ?thesis by (auto simp: updateM_def follow_absent is_link_at_def)
  next
    case (Some n)
    with u l have "w' = set_files ((files w)(t \<mapsto> f n)) w" by (simp add: updateM_def follow_plain)
    with assms l Some show ?thesis by (simp add: is_link_at_def)
  qed
qed

lemma beside_modes:
  assumes "t \<noteq> q"
  shows "beside t q (chmodM t m)" "beside t q (chownM t u)"
proof -
  have "is_link (with_mode m n) = is_link n" "is_link (with_owner u n) = is_link n" for n by (cases n; simp)+
  with assms show "beside t q (chmodM t m)" "beside t q (chownM t u)"
    unfolding chmodM_def chownM_def by (auto intro: beside_update)
qed

lemma beside_mkdir_all:
  assumes "q \<notin> set (prefixes p)" and "t \<notin> set (prefixes p)"
  shows "beside t q (mkdir_allM p m)"
proof (rule movesI, intro impI)
  fix w r w' assume r: "mkdir_allM p m w = (r, w')" and l: "\<not> is_link_at (files w) t"
  have "files w' q = files w q" "files w' t = files w t"
    using movesD [OF keeps_mkdir_all [OF assms(1)] r] movesD [OF keeps_mkdir_all [OF assms(2)] r] .
  with l show "files w' q = files w q \<and> \<not> is_link_at (files w') t" by (simp add: is_link_at_def)
qed

lemma prefixes_take: "d \<in> set (prefixes p) \<Longrightarrow> \<exists>n. d = take n p"
  unfolding prefixes_def by (metis imageE set_map)

lemma prefixes_butlast: "d \<in> set (prefixes (butlast p)) \<Longrightarrow> \<exists>n. d = take n p \<and> n \<le> length p - 1"
  using prefixes_take [of d "butlast p"] by (metis butlast_conv_take min.cobounded2 take_take)

lemma not_below_itself: "p \<noteq> [] \<Longrightarrow> p \<notin> set (prefixes (butlast p))"
proof
  assume p: "p \<noteq> []" and "p \<in> set (prefixes (butlast p))"
  then obtain n where n: "p = take n p" "n \<le> length p - 1" using prefixes_butlast by blast
  then have "length p \<le> n" by (metis length_take min.cobounded2)
  with n(2) p show False by (cases p) auto
qed

text \<open>Neither the target of a public member nor a directory above it is a private path.\<close>

lemma private_apart:
  assumes "\<not> list_ex private_part cs" and "list_ex private_part rel"
  shows "root @ rel \<noteq> root @ cs" and "root @ rel \<notin> set (prefixes (butlast (root @ cs)))"
proof -
  show "root @ rel \<noteq> root @ cs" using assms by auto
  show "root @ rel \<notin> set (prefixes (butlast (root @ cs)))"
  proof
    assume "root @ rel \<in> set (prefixes (butlast (root @ cs)))"
    then obtain n where n: "root @ rel = take n (root @ cs)" using prefixes_butlast by blast
    have "drop (length root) (root @ rel) = drop (length root) (take n (root @ cs))" by (simp only: n)
    also have "\<dots> = take (n - length root) (drop (length root) (root @ cs))" by (rule drop_take)
    finally have "rel = take (n - length root) cs" by simp
    then have "set rel \<subseteq> set cs" by (metis set_take_subset)
    with assms show False by (auto simp: list_ex_iff)
  qed
qed

lemma restore_member_keeps:
  assumes "\<not> private_name (dname m)" and "\<not> path_absolute (dname m)" and "list_ex private_part rel" and "root \<noteq> []"
  shows "keeps_file (root @ rel) (restore_member root m)"
proof -
  let ?t = "root @ path_comps (dname m)" and ?q = "root @ rel"
  have np: "\<not> list_ex private_part (path_comps (dname m))"
    using assms(1,2) by (simp add: private_name_def path_parts_def)
  note apart = private_apart [OF np assms(3), of root]
  have rest: "beside ?t ?q (bindM (mkdir_allM (butlast ?t) 493) (\<lambda>_.
      bindM (if ddir m then mkdirM ?t 493 True else write_bytesM ?t (ddata m)) (\<lambda>_.
      bindM (chmodM ?t (nat (dmode m) AND 448)) (\<lambda>_. chownM ?t 10000))))" (is "beside ?t ?q ?body")
    using apart(1) [symmetric] not_below_itself [of ?t] assms(4)
    by (intro beside.moves_bind beside.moves_if beside_mkdir_all [OF apart(2)] beside_writes beside_modes) auto
  show ?thesis
  proof (rule movesI)
    fix w r w' assume r: "restore_member root m w = (r, w')"
    show "files w' ?q = files w ?q"
    proof (cases "list_ex (is_link_at (files w)) (?t # parents ?t)")
      case True
      with r show ?thesis by (simp add: restore_member_def Let_def bindM_def getsM_def raiseM_def)
    next
      case False
      with r have "?body w = (r, w')" by (simp add: restore_member_def Let_def bindM_def [of "getsM _"] getsM_def)
      with movesD [OF rest] False show ?thesis by auto
    qed
  qed
qed

lemma data_members_public:
  assumes "data_members ms = Inr ms'" and "m \<in> set ms'"
  shows "\<not> private_name (dname m) \<and> \<not> path_absolute (dname m)"
proof -
  have "foldE entry_ok ms a = Inr b \<Longrightarrow> m \<in> set ms \<Longrightarrow> \<not> private_name (dname m) \<and> \<not> path_absolute (dname m)" for a b
  proof (induction ms arbitrary: a)
    case Nil
    then show ?case by simp
  next
    case (Cons x ms)
    then show ?case by (auto simp: bindE_Inr_iff entry_ok_def case_prod_beta split: if_splits)
  qed
  with assms show ?thesis by (auto simp: data_members_def bindE_Inr_iff)
qed

lemma clear_step_keeps:
  assumes "list_ex private_part rel"
  shows "keeps_file (root @ rel) (clear_step t root rel')"
proof (cases "list_ex private_part rel'")
  case True
  then show ?thesis by (auto simp: clear_step_def)
next
  case False
  with assms have "rel \<noteq> rel'" by auto
  with False show ?thesis
    by (auto simp: clear_step_def moves_def bindM_def getsM_def modifyM_def ret_def unlinkM_def split: option.splits node.splits)
qed

lemma bindM_liftE_Inr [simp]: "bindM (liftE (Inr x)) k = k x"
  by (rule ext) (simp add: bindM_def liftE_def)

text \<open>
  C39 (private files survive a restore): whatever archive is restored over the application's data, and
  wherever the restore fails, every file or directory below the data root whose relative path has a private
  part (an environment file, an authorization file or the credentials) holds what it held before.
\<close>

theorem restore_keeps_private:
  assumes "list_ex private_part rel" and "root \<noteq> []" and "data_restore a t root raw w = (r, w')"
  shows "files w' (root @ rel) = files w (root @ rel)"
proof -
  have "keeps_file (root @ rel) (data_restore a t root raw)"
  proof (cases "read_tar a raw")
    case None
    then show ?thesis by (auto simp: data_restore_def moves_def bindM_def raiseM_def)
  next
    case (Some ms)
    show ?thesis
    proof (cases "data_members ms")
      case (Inl x)
      with Some show ?thesis by (auto simp: data_restore_def moves_def bindM_def liftE_def)
    next
      case (Inr ms')
      have "keeps_file (root @ rel) (bindM (getsM files) (\<lambda>fs.
          bindM (forM (sort_key (\<lambda>rel. - int (length rel)) (entries t fs root)) (clear_step t root)) (\<lambda>_.
          forM ms' (restore_member root))))"
        using data_members_public [OF Inr] assms(1,2)
        by (intro keeps.moves_bind keeps.moves_pure keeps.moves_forM clear_step_keeps restore_member_keeps) auto
      with Some Inr show ?thesis by (simp add: data_restore_def)
    qed
  qed
  then show ?thesis using assms(3) by (rule movesD)
qed

section \<open>Tracked files\<close>

lemma get_Inr: "get k s = (Inr v, s') \<longleftrightarrow> s' = s \<and> get_default (fst s) k JNull = Inr v"
  by (auto simp: get_def bindM_eq_iff)

lemma item_Inr: "item k s = (Inr v, s') \<longleftrightarrow> s' = s \<and> idx (fst s) k = Inr v"
  by (auto simp: item_def bindM_eq_iff)

lemma put_Inr: "put k v s = (Inr u, s') \<longleftrightarrow> is_dict (fst s) \<and> s' = (jset (fst s) k v, snd s)"
  by (auto simp: put_def bindM_eq_iff raiseM_def split: if_splits)

lemma saveS_None: "saveS e None s = (Inr u, s') \<Longrightarrow> \<exists>now. fst s' = jset (fst s) ''updated_at'' (JInt now)"
  by (auto simp: saveS_def bindM_eq_iff put_Inr outside_Inr)

lemma managed_Inr: "managed p w = (Inr u, w') \<Longrightarrow> w' = w"
  by (auto simp: managed_def bindM_eq_iff)

text \<open>The record that a tracked file leaves in the state, when there was none.\<close>

lemma trackS_record:
  assumes "trackS e p (s, w) = (Inr u, (s', w'))" and "is_dict (jget s ''files'')" and "\<not> has_key (jget s ''files'') (path_text p)"
  shows "\<exists>r. former p w = (Inr r, w) \<and> jget (jget s' ''files'') (path_text p) = r"
proof -
  have "path_text p \<notin> set (map fst (items_of (jget s ''files'')))"
    using assms(3) by (auto simp: has_key_def map_of_eq_None_iff)
  then have nk: "contains_str (jget s ''files'') (path_text p) = Inr False"
    using assms(2) by (cases "jget s ''files''") auto
  have f: "idx s ''files'' = Inr v \<Longrightarrow> v = jget s ''files''" for v
    by (cases s) (auto simp: jget_def split: option.splits)
  have former_same: "former p x = (Inr r, y) \<Longrightarrow> y = x" for x r and y :: "'a world"
    by (auto simp: former_def bindM_eq_iff existsM_Inr statM_Inr split: if_splits)
  from assms(1) nk assms(2) obtain r w1 now where r: "former p w = (Inr r, w1)"
    and "s' = jset (jset s ''files'' (jset (jget s ''files'') (path_text p) r)) ''updated_at'' (JInt now)"
    by (auto simp: trackS_def bindM_eq_iff outside_Inr item_Inr put_Inr raiseM_def
        dest!: managed_Inr f saveS_None split: if_splits)
  with former_same [OF r] r show ?thesis by (simp add: jget_jset)
qed

lemma former_file:
  assumes "former p w = (Inr r, w')" and "files w p = Some (NFile c m u)"
  shows "r = JObj [(''data'', JStr (b64encode c)), (''mode'', JInt (int m))]"
  using assms by (auto simp: former_def bindM_eq_iff existsM_Inr statM_Inr exists_at_def node_at_plain split: if_splits)

lemma former_absent: "former p w = (Inr r, w') \<Longrightarrow> files w p = None \<Longrightarrow> r = JNull"
  by (auto simp: former_def bindM_eq_iff existsM_Inr exists_at_def node_at_def follow_absent split: if_splits)

lemma b64_char_ascii: "n < 64 \<Longrightarrow> of_char (b64_char n) < (128 :: nat)"
  by (auto simp: b64_char_def)

lemma b64encode_ascii: "ascii_only (b64encode c)"
  by (induction c rule: b64encode.induct) (simp_all add: ascii_only_def Let_def sextet_simps b64_char_ascii)

lemma b64decode_encode: "b64decode (JStr (b64encode c)) = Inr c"
  by (simp add: b64decode_def b64encode_ascii b64_lenient_encode)

lemma replace_with_mode_Inr:
  "replace_with_mode p d m w = (Inr u, w') \<Longrightarrow>
     w' = w\<lparr>faults := tl (faults w), files := (files w)(p \<mapsto> NFile d m (euid w))\<rparr>"
  by (auto simp: replace_with_mode_def Let_def split: list.splits if_splits)

lemma atomicS_Inr:
  assumes "atomicS p d m w = (Inr u, w')"
  shows "files w' p = Some (NFile d m (euid w))"
proof -
  from assms obtain x w1 where d: "private_dirs (butlast p) w = (Inr x, w1)" and r: "replace_with_mode p d m w1 = (Inr u, w')"
    by (auto simp: atomicS_def bindM_eq_iff dest!: managed_Inr)
  have "euid w1 = euid w" using d by (auto simp: private_dirs_def split: sum.splits)
  with replace_with_mode_Inr [OF r] show ?thesis by simp
qed

lemma restoreS_record:
  assumes "abs_path name = p" and "restoreS (name, JObj [(''data'', JStr (b64encode c)), (''mode'', JInt (int m))]) w = (Inr u, w')"
  shows "files w' p = Some (NFile c m (euid w))"
proof -
  from assms have "atomicS p c m w = (Inr (), w')"
    by (auto simp: restoreS_def bindM_eq_iff b64decode_encode int_arg_def dest!: managed_Inr split: if_splits)
  then show ?thesis by (rule atomicS_Inr)
qed

lemma restoreS_absent:
  assumes "abs_path name = p" and "restoreS (name, JNull) w = (Inr u, w')"
  shows "files w' p = None"
  using assms by (auto simp: restoreS_def bindM_eq_iff dest!: managed_Inr unlinkM_Inr split: if_splits)

text \<open>
  Tracked files are put back: when a file is tracked before it is first changed, the record in the state
  puts it back exactly, whatever has become of it and of the world since: a file that was there has its old
  content and mode again and belongs to the installer's user, and one that was not there is gone.
\<close>

lemma tracked_file_restored:
  assumes "trackS e p (s, w) = (Inr (), (s', w'))"
    and "is_dict (jget s ''files'') \<and> \<not> has_key (jget s ''files'') (path_text p)"
    and "\<forall>c \<in> set p. c \<noteq> [] \<and> c \<noteq> ''.'' \<and> CHR ''/'' \<notin> set c"
    and "restoreS (path_text p, jget (jget s' ''files'') (path_text p)) w2 = (Inr (), w3)"
  shows "(\<forall>c m u. files w p = Some (NFile c m u) \<longrightarrow> files w3 p = Some (NFile c m (euid w2))) \<and>
    (files w p = None \<longrightarrow> files w3 p = None)"
proof -
  from trackS_record [OF assms(1)] assms(2)
  obtain r where r: "former p w = (Inr r, w)" and j: "jget (jget s' ''files'') (path_text p) = r" by auto
  have a: "abs_path (path_text p) = p" using assms(3) by (intro path_of_text) auto
  have "files w3 p = Some (NFile c m (euid w2))" if "files w p = Some (NFile c m u)" for c m u
    using assms(4) j former_file [OF r that] by (auto intro: restoreS_record [OF a])
  moreover have "files w3 p = None" if "files w p = None"
    using assms(4) j former_absent [OF r that] by (auto intro: restoreS_absent [OF a])
  ultimately show ?thesis by blast
qed

section \<open>Recovery without an identity\<close>

text \<open>
  An account is recorded as created before it exists, its number only after all checks have passed. When the
  installer stops in between, the recovery asks for the number that was never recorded: it never returns,
  so that the account stays and the transaction is never marked as rolled back.
\<close>

lemma remove_account_fails:
  assumes "\<not> has_key s ''uid''"
  shows "remove_account e (s, w) \<noteq> (Inr u, t)"
proof
  assume "remove_account e (s, w) = (Inr u, t)"
  then obtain v s1 where "fst s1 = s" "item ''uid'' s1 = (Inr v, s1)"
    by (auto simp: remove_account_def bindM_eq_iff outside_Inr item_Inr)
  then have "idx s ''uid'' = Inr v" by (simp add: item_Inr)
  with assms show False by (cases s) (auto simp: has_key_def split: option.splits)
qed

text \<open>A step that keeps the memory, before one that cannot return.\<close>

lemma never_get:
  "\<lbrakk>fst t = s; \<And>t. fst t = s \<Longrightarrow> wp (k (jget s key)) (\<lambda>_ _. False) (\<lambda>_ _. True) t\<rbrakk> \<Longrightarrow>
     wp (bindM (get key) k) (\<lambda>_ _. False) (\<lambda>_ _. True) t"
  by (cases t) (auto simp: get_def wp_simps get_default_def jget_def has_key_def split: sum.split option.splits)

lemma never_after:
  "\<lbrakk>fst t = s; \<And>t. fst t = s \<Longrightarrow> wp m (\<lambda>_ t. fst t = s) (\<lambda>_ _. True) t;
    \<And>x t. fst t = s \<Longrightarrow> wp (k x) (\<lambda>_ _. False) (\<lambda>_ _. True) t\<rbrakk> \<Longrightarrow>
     wp (bindM m k) (\<lambda>_ _. False) (\<lambda>_ _. True) t"
  by (rule wp_seq [where M = "\<lambda>_ t. fst t = s"]) blast+

lemma never_first: "wp m (\<lambda>_ _. False) (\<lambda>_ _. True) t \<Longrightarrow> wp (bindM m k) (\<lambda>_ _. False) (\<lambda>_ _. True) t"
  by (rule wp_seq [where M = "\<lambda>_ _. False"]) simp_all

lemma never_if:
  "\<lbrakk>c \<Longrightarrow> wp m (\<lambda>_ _. False) (\<lambda>_ _. True) t; \<not> c \<Longrightarrow> wp n (\<lambda>_ _. False) (\<lambda>_ _. True) t\<rbrakk> \<Longrightarrow>
     wp (if c then m else n) (\<lambda>_ _. False) (\<lambda>_ _. True) t"
  by simp

lemma keeps_memory:
  "fst t = s \<Longrightarrow> wp (outside m) (\<lambda>_ t. fst t = s) (\<lambda>_ _. True) t"
  "fst t = s \<Longrightarrow> wp (restore_application e b) (\<lambda>_ t. fst t = s) (\<lambda>_ _. True) t"
  "fst t = s \<Longrightarrow> wp (ret x) (\<lambda>_ t. fst t = s) (\<lambda>_ _. True) t"
  "fst t = s \<Longrightarrow> wp (bindM recall (\<lambda>s. liftE (f s))) (\<lambda>_ t. fst t = s) (\<lambda>_ _. True) t"
  by (rule wp_resultI; auto simp: restore_application_def bindM_eq_iff requireM_eq_iff needM_def outside_Inr item_Inr)+

lemma never_outside:
  "\<lbrakk>fst t = s; \<And>x t. fst t = s \<Longrightarrow> wp (k x) (\<lambda>_ _. False) (\<lambda>_ _. True) t\<rbrakk> \<Longrightarrow>
     wp (bindM (outside m :: (json, 'x, 'b) process) k) (\<lambda>_ _. False) (\<lambda>_ _. True) t"
  by (rule never_after, assumption, rule keeps_memory, assumption, blast)

theorem recovery_needs_identity:
  assumes "\<not> has_key s ''uid''" and "truthy (jget s ''created_account'')" and "\<not> truthy (jget s ''previous'')"
    and "\<not> in_phases (jget s ''phase'') [''closed'', ''rolled-back'']"
  shows "\<exists>x. fst (recoverS e (s, w)) = Inl x"
proof -
  have last: "wp (remove_account e) (\<lambda>_ _. False) (\<lambda>_ _. True) t" if "fst t = s" for t
    using remove_account_fails [OF assms(1), of e "snd t"] that
    by (cases t) (auto simp: wp_def split: prod.split sum.split)
  have "wp (recoverS e) (\<lambda>_ _. False) (\<lambda>_ _. True) (s, w)"
    unfolding recoverS_def
    apply (rule never_get, simp)
    apply (rule never_if, simp only: assms(4))
    apply (rule never_get, assumption)
    apply (rule never_after, assumption, simp add: keeps_memory)
    apply (rule never_get, assumption)
    apply (rule never_after, assumption, simp add: keeps_memory)
    apply (rule never_after, assumption, simp add: keeps_memory)
    apply (rule never_if, simp add: wp_raiseM)
    apply (rule never_outside, assumption)+
    apply (rule never_get, assumption)
    apply (rule never_first)
    apply (simp only: assms(3) if_False)
    apply (rule never_get, assumption)
    apply (simp only: assms(2) if_True)
    apply (erule last)
    done
  then show ?thesis by (auto simp: wp_def split: prod.splits sum.splits)
qed

section \<open>Examples\<close>

definition simple_env :: "unit env" where
  "simple_env = \<lparr>sha256 = (\<lambda>s. s), cmd = quiet, boot = (\<lambda>w. ''b''), clock = (\<lambda>w. 7), rglob_rpm = (\<lambda>fs d. []),
     space = (\<lambda>p w. 0), account = (\<lambda>w. None), pause = (\<lambda>n w. w), source = [''s''], group = (\<lambda>p w. 0), wall = (\<lambda>w. 0),
     tar = (\<lambda>s. None), fresh = (\<lambda>w. ''x'')\<rparr>"

definition etc_world :: "unit world" where
  "etc_world = blank\<lparr>files := [[] \<mapsto> NDir 493 0, [''etc''] \<mapsto> NDir 493 0, [''etc'', ''f''] \<mapsto> NFile ''old'' 420 0]\<rparr>"

definition tracked_etc :: "(exn + unit) \<times> json \<times> unit world" where
  "tracked_etc = trackS simple_env [''etc'', ''f''] (JObj [(''files'', JObj [])], etc_world)"

definition etc_record :: json where
  "etc_record = jget (jget (fst (snd tracked_etc)) ''files'') ''/etc/f''"

definition changed_etc :: "unit world" where
  "changed_etc = set_files ((files (snd (snd tracked_etc)))([''etc'', ''f''] \<mapsto> NFile ''new'' 384 0)) (snd (snd tracked_etc))"

lemma tracked_etc_run: "fst tracked_etc = Inr ()" "fst (restoreS (''/etc/f'', etc_record) changed_etc) = Inr ()" "euid changed_etc = 0"
  "files etc_world [''etc'', ''f''] = Some (NFile ''old'' 420 0)" "path_text [''etc'', ''f''] = ''/etc/f''"
  by code_simp+

lemma tracked_file_restored_example:
  "files (snd (restoreS (''/etc/f'', etc_record) changed_etc)) [''etc'', ''f''] = Some (NFile ''old'' 420 0)"
proof -
  have "trackS simple_env [''etc'', ''f''] (JObj [(''files'', JObj [])], etc_world)
      = (Inr (), (fst (snd tracked_etc), snd (snd tracked_etc)))"
    using tracked_etc_run(1) by (simp add: tracked_etc_def prod_eq_iff)
  moreover have "restoreS (''/etc/f'', etc_record) changed_etc = (Inr (), snd (restoreS (''/etc/f'', etc_record) changed_etc))"
    using tracked_etc_run(2) by (simp add: prod_eq_iff)
  ultimately show ?thesis
    using tracked_file_restored [of simple_env "[''etc'', ''f'']" "JObj [(''files'', JObj [])]" etc_world
        "fst (snd tracked_etc)" "snd (snd tracked_etc)" changed_etc "snd (restoreS (''/etc/f'', etc_record) changed_etc)"]
      tracked_etc_run(3-5)
    by (simp add: etc_record_def jget_def has_key_def)
qed

definition empty_archive :: archiver where
  "empty_archive = \<lparr>read_tar = (\<lambda>s. Some []), write_tar = (\<lambda>ms. [])\<rparr>"

definition data_tools :: tools where
  "data_tools = \<lparr>entries = (\<lambda>fs p. if p = [''data''] then [[''.env''], [''notes'']] else []), pack = (\<lambda>ms. [])\<rparr>"

definition data_world :: "unit world" where
  "data_world = blank\<lparr>files := [[] \<mapsto> NDir 493 0, [''data''] \<mapsto> NDir 448 0, [''data'', ''.env''] \<mapsto> NFile ''key'' 384 0,
     [''data'', ''notes''] \<mapsto> NFile ''old'' 384 0]\<rparr>"

theorem restore_keeps_private_witness:
  "let w' = snd (data_restore empty_archive data_tools [''data''] ''tar'' data_world) in
     files w' [''data'', ''.env''] = Some (NFile ''key'' 384 0) \<and> files w' [''data'', ''notes''] = None"
proof -
  let ?w' = "snd (data_restore empty_archive data_tools [''data''] ''tar'' data_world)"
  have "files ?w' [''data'', ''notes''] = None" by code_simp
  moreover have "files ?w' ([''data''] @ [''.env'']) = files data_world ([''data''] @ [''.env''])"
    by (rule restore_keeps_private [OF _ _ surjective_pairing]) (code_simp, simp)
  moreover have "files data_world [''data'', ''.env''] = Some (NFile ''key'' 384 0)" by code_simp
  ultimately show ?thesis by (simp add: Let_def)
qed

end
