(* ===== verification/TpmFacts.thy ===== *)
theory TpmFacts
  imports TpmProfile
begin

text \<open>
  Facts on the TPM2 profile: rendering it into a staging tree never replaces anything, and a tree into which
  it was rendered has the standard profile and stays as it is when it is rendered again.
\<close>

section \<open>Only new nodes\<close>

text \<open>\<open>adds E\<close>: what differs was not there before, and is a directory or one of the paths in \<open>E\<close>.\<close>

definition adds :: "path set \<Rightarrow> fsys \<Rightarrow> fsys \<Rightarrow> bool" where
  "adds E fs fs' \<longleftrightarrow>
     (\<forall>p. fs' p \<noteq> fs p \<longrightarrow> fs p = None \<and> (p \<in> E \<or> (\<exists>m u. fs' p = Some (NDir m u))))"

definition added :: "path set \<Rightarrow> 'x world \<Rightarrow> 'x world \<Rightarrow> bool" where
  "added E w w' \<longleftrightarrow> adds E (files w) (files w') \<and> euid w' = euid w"

lemma adds_refl [simp]: "adds E fs fs"
  by (simp add: adds_def)

lemma adds_keeps: "adds E fs fs' \<Longrightarrow> fs p = Some n \<Longrightarrow> fs' p = Some n"
  by (metis adds_def option.distinct(1))

lemma adds_trans:
  assumes "adds E f g" and "adds E g h"
  shows "adds E f h"
  unfolding adds_def
proof (intro allI impI)
  fix p assume "h p \<noteq> f p"
  show "f p = None \<and> (p \<in> E \<or> (\<exists>m u. h p = Some (NDir m u)))"
  proof (cases "h p = g p")
    case True
    with \<open>h p \<noteq> f p\<close> assms(1) show ?thesis by (auto simp: adds_def)
  next
    case False
    with assms(2) have g: "g p = None" "p \<in> E \<or> (\<exists>m u. h p = Some (NDir m u))" by (auto simp: adds_def)
    with assms(1) have "f p = None" by (metis adds_keeps option.exhaust)
    with g show ?thesis by simp
  qed
qed

interpretation added: guarantee "added E" for E
  by unfold_locales (auto simp: added_def intro: adds_trans)

lemma adds_new: "fs p = None \<Longrightarrow> p \<in> E \<or> (\<exists>m u. n = NDir m u) \<Longrightarrow> adds E fs (fs(p \<mapsto> n))"
  by (auto simp: adds_def)

lemma mkdir_chain_adds: "mkdir_chain u m ds fs = Inr fs' \<Longrightarrow> adds E fs fs'"
proof (induction ds arbitrary: fs)
  case Nil
  then show ?case by simp
next
  case (Cons d ds)
  show ?case
  proof (cases "is_dir_at fs d")
    case True
    with Cons show ?thesis by simp
  next
    case False
    define fs1 where "fs1 = fs(d \<mapsto> NDir (if ds = [] then m else 493) u)"
    from False Cons.prems have d: "fs d = None" and r: "mkdir_chain u m ds fs1 = Inr fs'"
      by (simp_all add: fs1_def split: if_splits)
    from d have "adds E fs fs1" unfolding fs1_def by (intro adds_new) auto
    with Cons.IH [OF r] show ?thesis by (metis adds_trans)
  qed
qed

lemma added_steps [intro!]:
  "moves (added E) (mkdir_allM p m)" "moves (added E) (existsM p)"
  "p \<in> E \<Longrightarrow> moves (added E) (symlinkM p t)" "p \<in> E \<Longrightarrow> moves (added E) (createM p c m)"
  by (auto simp: moves_def added_def mkdir_allM_def existsM_def symlinkM_def createM_def
      intro!: adds_new dest: mkdir_chain_adds split: sum.splits)

text \<open>Whatever a path names stays what it names when nodes are only added.\<close>

lemma follow_adds:
  "adds E fs fs' \<Longrightarrow> follow n fs p = Some q \<Longrightarrow> fs q \<noteq> None \<Longrightarrow> follow n fs' p = Some q"
proof (induction n arbitrary: p)
  case 0
  then show ?case by simp
next
  case (Suc n)
  show ?case
  proof (cases "fs p")
    case None
    with Suc.prems show ?thesis by simp
  next
    case (Some x)
    with Suc.prems(1) have "fs' p = Some x" by (rule adds_keeps)
    with Some Suc show ?thesis by (cases x) auto
  qed
qed

lemma node_at_adds:
  assumes "adds E fs fs'" and "node_at fs p = Some n"
  shows "node_at fs' p = Some n"
proof -
  from assms(2) obtain q where q: "follow 40 fs p = Some q" "fs q = Some n"
    by (auto simp: node_at_def split: option.splits)
  then have "follow 40 fs' p = Some q" using follow_adds [OF assms(1)] by simp
  with q(2) assms(1) show ?thesis by (simp add: node_at_def adds_keeps)
qed

lemma is_dir_at_adds: "adds E fs fs' \<Longrightarrow> is_dir_at fs p \<Longrightarrow> is_dir_at fs' p"
  by (auto simp: is_dir_at_def node_at_adds split: option.splits)

lemma is_file_at_adds: "adds E fs fs' \<Longrightarrow> is_file_at fs p \<Longrightarrow> is_file_at fs' p"
  by (auto simp: is_file_at_def node_at_adds split: option.splits)

section \<open>Directories that are made\<close>

lemma mkdir_chain_dirs: "mkdir_chain u m ds fs = Inr fs' \<Longrightarrow> d \<in> set ds \<Longrightarrow> is_dir_at fs' d"
proof (induction ds arbitrary: fs)
  case Nil
  then show ?case by simp
next
  case (Cons x ds)
  have x: "is_dir_at fs' x"
  proof (cases "is_dir_at fs x")
    case True
    with Cons.prems(1) have "mkdir_chain u m ds fs = Inr fs'" by simp
    then show ?thesis using True mkdir_chain_adds is_dir_at_adds by blast
  next
    case False
    define fs1 where "fs1 = fs(x \<mapsto> NDir (if ds = [] then m else 493) u)"
    from False Cons.prems(1) have "mkdir_chain u m ds fs1 = Inr fs'" by (simp add: fs1_def split: if_splits)
    moreover have "is_dir_at fs1 x" by (simp add: fs1_def is_dir_at_def node_at_plain)
    ultimately show ?thesis using mkdir_chain_adds is_dir_at_adds by blast
  qed
  show ?case
  proof (cases "d = x")
    case True
    with x show ?thesis by simp
  next
    case False
    with Cons show ?thesis by (auto split: if_splits)
  qed
qed

lemma mkdir_chain_idle: "list_all (is_dir_at fs) ds \<Longrightarrow> mkdir_chain u m ds fs = Inr fs"
  by (induction ds) auto

lemma profile_dirs_made:
  "mkdir_allM p m w = (Inr x, w') \<Longrightarrow> list_all (is_dir_at (files w')) (prefixes p)"
  by (auto simp: mkdir_allM_def list_all_iff dest: mkdir_chain_dirs split: sum.splits)

lemma mkdir_allM_idle: "list_all (is_dir_at (files w)) (prefixes p) \<Longrightarrow> mkdir_allM p m w = (Inr (), w)"
  by (simp add: mkdir_allM_def mkdir_chain_idle set_files_def)

lemma dirs_adds: "adds E fs fs' \<Longrightarrow> list_all (is_dir_at fs) ds \<Longrightarrow> list_all (is_dir_at fs') ds"
  by (auto simp: list_all_iff is_dir_at_adds)

section \<open>A rendered tree\<close>

definition rendered_paths :: "path \<Rightarrow> path set" where
  "rendered_paths root = (\<lambda>rel. root @ rel) ` set (MASKS @ [DRACUT_PATH])"

lemma rendered_pathsI [intro]: "rel \<in> set MASKS \<Longrightarrow> root @ rel \<in> rendered_paths root"
  "root @ DRACUT_PATH \<in> rendered_paths root"
  by (auto simp: rendered_paths_def)

lemma added_make_mask: "rel \<in> set MASKS \<Longrightarrow> moves (added (rendered_paths root)) (make_mask root rel)"
  unfolding make_mask_def by blast

lemma added_make_masks: "moves (added (rendered_paths root)) (forM MASKS (make_mask root))"
  by (rule added.moves_forM) (rule added_make_mask)

lemma added_make_dracut: "moves (added (rendered_paths root)) (make_dracut root)"
  unfolding make_dracut_def by blast

lemma added_render: "moves (added (rendered_paths root)) (tpm_render t root)"
  unfolding tpm_render_def by (blast intro: added_make_mask added_make_dracut)

text \<open>An entry is there, below directories.\<close>

definition entry_there :: "fsys \<Rightarrow> path \<Rightarrow> path \<Rightarrow> bool" where
  "entry_there fs root rel \<longleftrightarrow> list_all (is_dir_at fs) (prefixes (butlast (root @ rel))) \<and> fs (root @ rel) \<noteq> None"

lemma entry_there_adds: "adds E fs fs' \<Longrightarrow> entry_there fs root rel \<Longrightarrow> entry_there fs' root rel"
  by (auto simp: entry_there_def dirs_adds adds_keeps)

lemma exists_at_present: "exists_at fs p \<Longrightarrow> fs p \<noteq> None"
  by (cases "fs p") (simp_all add: exists_at_def node_at_def follow_absent)

lemma make_mask_there: "make_mask root rel w = (Inr x, w') \<Longrightarrow> entry_there (files w') root rel"
  unfolding make_mask_def entry_there_def
  by (auto simp: bindM_eq_iff symlinkM_def split: if_splits
      intro: dirs_adds [OF adds_new [where E = "{root @ rel}"]] dest!: profile_dirs_made)

lemma make_dracut_there:
  assumes "make_dracut root w = (Inr x, w')"
  shows "entry_there (files w') root DRACUT_PATH"
proof -
  let ?p = "root @ DRACUT_PATH"
  from assms obtain y w1 where m: "mkdir_allM (butlast ?p) 493 w = (Inr y, w1)"
    and r: "(if exists_at (files w1) ?p then ret () else createM ?p DRACUT 420) w1 = (Inr x, w')"
    by (auto simp: make_dracut_def bindM_eq_iff existsM_def)
  have d: "list_all (is_dir_at (files w1)) (prefixes (butlast ?p))" by (rule profile_dirs_made [OF m])
  show ?thesis
  proof (cases "exists_at (files w1) ?p")
    case True
    with r d show ?thesis by (simp add: entry_there_def exists_at_present)
  next
    case False
    with r have n: "files w1 ?p = None" "files w' = (files w1)(?p \<mapsto> NFile DRACUT 420 (euid w1))"
      by (auto simp: createM_def split: if_splits)
    have "adds {?p} (files w1) (files w')" unfolding n(2) by (rule adds_new) (use n(1) in simp_all)
    with d n(2) show ?thesis by (simp add: entry_there_def dirs_adds [of "{?p}" "files w1"])
  qed
qed

lemma make_mask_idle: "entry_there (files w) root rel \<Longrightarrow> make_mask root rel w = (Inr (), w)"
  by (auto simp: make_mask_def entry_there_def bindM_def mkdir_allM_idle getsM_def ret_def)

lemma make_masks_there:
  "\<lbrakk>forM rels (make_mask root) w = (Inr x, w'); set rels \<subseteq> set MASKS; rel \<in> set rels\<rbrakk> \<Longrightarrow> entry_there (files w') root rel"
proof (induction rels arbitrary: w)
  case Nil
  then show ?case by simp
next
  case (Cons r rels)
  from Cons.prems(1) obtain y w1 where h: "make_mask root r w = (Inr y, w1)" and t: "forM rels (make_mask root) w1 = (Inr x, w')"
    by (auto simp: thenM_def bindM_eq_iff)
  show ?case
  proof (cases "rel \<in> set rels")
    case True
    with Cons.IH [OF t] Cons.prems(2) show ?thesis by simp
  next
    case False
    with Cons.prems(3) have "entry_there (files w1) root rel" using make_mask_there [OF h] by simp
    moreover have "moves (added (rendered_paths root)) (forM rels (make_mask root))"
      using Cons.prems(2) by (intro added.moves_forM added_make_mask) auto
    then have "adds (rendered_paths root) (files w1) (files w')" using movesD t by (fastforce simp: added_def)
    ultimately show ?thesis by (metis entry_there_adds)
  qed
qed

lemma make_masks_idle: "\<forall>rel \<in> set rels. entry_there (files w) root rel \<Longrightarrow> forM rels (make_mask root) w = (Inr (), w)"
  by (induction rels) (auto simp: make_mask_idle thenM_def bindM_def ret_def)

lemma dracut_ok_iff:
  "dracut_ok fs p = Inr True \<longleftrightarrow> \<not> is_link_at fs p \<and> is_file_at fs p \<and> read_text fs p = Inr DRACUT"
  by (auto simp: dracut_ok_def bindE_Inr_iff)

lemma make_dracut_idle:
  "entry_there (files w) root DRACUT_PATH \<Longrightarrow> dracut_ok (files w) (root @ DRACUT_PATH) = Inr True \<Longrightarrow>
     make_dracut root w = (Inr (), w)"
  by (auto simp: make_dracut_def entry_there_def bindM_def mkdir_allM_idle existsM_def ret_def dracut_ok_iff
      is_file_at_def exists_at_def split: option.splits)

lemma profile_present:
  assumes "profile t fs root = Inr p" and "fs (root @ DRACUT_PATH) \<noteq> None"
  shows "p = ''standard-tpm2'' \<and> (\<forall>rel \<in> set MASKS. masked fs (root @ rel)) \<and> dracut_ok fs (root @ DRACUT_PATH) = Inr True"
  using assms by (auto simp: profile_def bindE_Inr_iff requireE_Inr_iff list_all_iff split: if_splits)

text \<open>The checks of the second run.\<close>

lemma no_new_links:
  assumes "adds (rendered_paths root) fs fs'" and "\<not> is_link_at fs p" and "p \<notin> rendered_paths root"
  shows "\<not> is_link_at fs' p"
  using assms by (cases "fs' p = fs p") (auto simp: adds_def is_link_at_def)

lemma no_entry_prefix:
  assumes "rel \<in> set (MASKS @ [DRACUT_PATH])" and "n < length rel" and "rel' \<in> set (MASKS @ [DRACUT_PATH])"
  shows "take n rel \<noteq> rel'"
proof
  assume t: "take n rel = rel'"
  with assms(2) have n: "n = length rel'" by auto
  have "3 \<le> length rel'" using assms(3) by (auto simp: MASKS_def DRACUT_PATH_def)
  moreover have "length rel \<le> 4" using assms(1) by (auto simp: MASKS_def DRACUT_PATH_def)
  ultimately have "n = 3" "length rel = 4" using assms(2) n by auto
  with assms(1) have "rel = [''etc'', ''systemd'', ''system'', ''systemd-pcrproduct.service'']"
    by (auto simp: MASKS_def DRACUT_PATH_def)
  with t \<open>n = 3\<close> have "rel' = [''etc'', ''systemd'', ''system'']" by (simp add: numeral_eq_Suc)
  with assms(3) show False by (simp add: MASKS_def DRACUT_PATH_def)
qed

lemma between_not_entry:
  "rel \<in> set (MASKS @ [DRACUT_PATH]) \<Longrightarrow> d \<in> set (between root rel) \<Longrightarrow> d \<notin> rendered_paths root"
  unfolding rendered_paths_def between_def using no_entry_prefix by fastforce

lemma between_prefixes:
  assumes "d \<in> set (between root rel)"
  shows "d \<in> set (prefixes (butlast (root @ rel)))"
proof -
  from assms obtain n where n: "d = root @ take n rel" "n < length rel" by (auto simp: between_def)
  then have "d = take (length root + n) (butlast (root @ rel))" by (auto simp: butlast_conv_take min_def)
  moreover have "length root + n < Suc (length (butlast (root @ rel)))" using n(2) by simp
  ultimately show ?thesis unfolding prefixes_def by force
qed

lemma staging_root_again:
  assumes s: "staging_root fs root u = Inr ()" and a: "adds (rendered_paths root) fs fs'"
  shows "staging_root fs' root u = Inr ()"
proof -
  from s have l: "\<not> is_link_at fs d" if "d \<in> set (root # parents root)" for d
    using that by (auto simp: staging_root_def list_ex_iff)
  have "d \<notin> rendered_paths root" if "d \<in> set (root # parents root)" for d
    using that by (auto simp: rendered_paths_def parents_def MASKS_def DRACUT_PATH_def dest: arg_cong [of _ _ length])
  with l no_new_links [OF a] have l': "\<not> list_ex (is_link_at fs') (root # parents root)" by (simp add: list_ex_iff)
  from s obtain n where n: "node_at fs root = Some n" by (auto simp: staging_root_def is_dir_at_def split: option.splits)
  have "follow 40 fs' root = follow 40 fs root"
    using l [of root] l' n by (cases "fs root"; cases "fs' root") (simp_all add: follow_plain follow_absent)
  with s n l' node_at_adds [OF a n] is_dir_at_adds [OF a] show ?thesis by (simp add: staging_root_def list_ex_iff)
qed

lemma profile_entry_again:
  assumes e: "profile_entry fs root rel () = Inr ()" and a: "adds (rendered_paths root) fs fs'"
    and rel: "rel \<in> set (MASKS @ [DRACUT_PATH])" and there: "entry_there fs' root rel"
    and ok: "(if rel \<in> set MASKS then Inr (masked fs' (root @ rel)) else dracut_ok fs' (root @ rel)) = Inr True"
  shows "profile_entry fs' root rel () = Inr ()"
proof -
  have "profile_parent fs' d () = Inr ()" if d: "d \<in> set (between root rel)" for d
  proof -
    from e d have "\<not> is_link_at fs d"
      by (auto simp: profile_entry_def bindE_Inr_iff foldE_unit profile_parent_def)
    then have "\<not> is_link_at fs' d" by (rule no_new_links [OF a _ between_not_entry [OF rel d]])
    moreover have "is_dir_at fs' d"
      using there between_prefixes [OF d] by (auto simp: entry_there_def list_all_iff)
    ultimately show ?thesis by (simp add: profile_parent_def)
  qed
  then have "foldE (profile_parent fs') (between root rel) () = Inr ()" by (simp add: foldE_unit)
  with ok show ?thesis by (simp add: profile_entry_def)
qed

lemma render_steps:
  assumes "tpm_render t root w = (Inr v, w')"
  shows "staging_root (files w) root (euid w) = Inr ()"
    and "\<forall>rel \<in> set (MASKS @ [DRACUT_PATH]). profile_entry (files w) root rel () = Inr ()"
    and "\<forall>rel \<in> set (MASKS @ [DRACUT_PATH]). entry_there (files w') root rel"
    and "\<exists>p. profile t (files w') root = Inr p \<and>
      v = JObj [(''ok'', JBool True), (''profile'', JStr p), (''scope'', JStr ''offline-staging-only'')]"
proof -
  from assms obtain w1 where m: "forM MASKS (make_mask root) w = (Inr (), w1)" and d: "make_dracut root w1 = (Inr (), w')"
    and e: "foldE (profile_entry (files w) root) (MASKS @ [DRACUT_PATH]) () = Inr ()"
    by (auto simp: tpm_render_def bindM_eq_iff)
  from movesD [OF added_make_dracut d] have a: "adds (rendered_paths root) (files w1) (files w')" by (simp add: added_def)
  from make_masks_there [OF m] entry_there_adds [OF a] make_dracut_there [OF d]
  show "\<forall>rel \<in> set (MASKS @ [DRACUT_PATH]). entry_there (files w') root rel" by auto
  from e show "\<forall>rel \<in> set (MASKS @ [DRACUT_PATH]). profile_entry (files w) root rel () = Inr ()"
    by (simp only: foldE_unit)
qed (use assms in \<open>auto simp: tpm_render_def bindM_eq_iff\<close>)

lemma render_again:
  assumes "tpm_render t root w = (Inr v, w')"
  shows "tpm_render t root w' = (Inr v, w')"
proof -
  note steps = render_steps [OF assms]
  from movesD [OF added_render assms] have a: "adds (rendered_paths root) (files w) (files w')" and u: "euid w' = euid w"
    by (simp_all add: added_def)
  from steps(4) obtain p where p: "profile t (files w') root = Inr p"
    and v: "v = JObj [(''ok'', JBool True), (''profile'', JStr p), (''scope'', JStr ''offline-staging-only'')]" by auto
  from steps(3) have there: "entry_there (files w') root rel" if "rel \<in> set (MASKS @ [DRACUT_PATH])" for rel using that by auto
  from there [of DRACUT_PATH] have "files w' (root @ DRACUT_PATH) \<noteq> None" by (simp add: entry_there_def)
  from profile_present [OF p this] have ok: "\<forall>rel \<in> set MASKS. masked (files w') (root @ rel)"
    and dracut: "dracut_ok (files w') (root @ DRACUT_PATH) = Inr True" by auto
  have s: "staging_root (files w') root (euid w') = Inr ()" using staging_root_again [OF steps(1) a] u by simp
  have "profile_entry (files w') root rel () = Inr ()" if r: "rel \<in> set (MASKS @ [DRACUT_PATH])" for rel
  proof (rule profile_entry_again [OF _ a r there [OF r]])
    show "profile_entry (files w) root rel () = Inr ()" using steps(2) r by blast
    show "(if rel \<in> set MASKS then Inr (masked (files w') (root @ rel)) else dracut_ok (files w') (root @ rel)) = Inr True"
      using r ok dracut by (cases "rel \<in> set MASKS") simp_all
  qed
  then have e: "foldE (profile_entry (files w') root) (MASKS @ [DRACUT_PATH]) () = Inr ()" unfolding foldE_unit by blast
  have m: "forM MASKS (make_mask root) w' = (Inr (), w')" by (rule make_masks_idle) (use there in simp)
  have d: "make_dracut root w' = (Inr (), w')" by (rule make_dracut_idle) (use there dracut in simp_all)
  show ?thesis
    by (simp only: tpm_render_def bindM_def getsM_def liftE_def ret_def s e m d p v prod.case sum.case)
qed

text \<open>
  C28 (rendering the TPM2 profile): whatever happens, the renderer replaces nothing: every node that was there
  is there unchanged, and what it adds are directories, the three masks and the dracut configuration. When it
  returns, the staging tree has the standard profile: each mask is a link to the null device, the
  configuration is exactly the reviewed one, and rendering again returns the same and changes nothing.
\<close>

theorem render_standard:
  assumes "tpm_render t root w = (r, w')"
  shows "(\<forall>p. files w' p \<noteq> files w p \<longrightarrow> files w p = None \<and>
      ((\<exists>rel \<in> set (MASKS @ [DRACUT_PATH]). p = root @ rel) \<or> (\<exists>m u. files w' p = Some (NDir m u)))) \<and>
    (\<forall>v. r = Inr v \<longrightarrow>
      profile t (files w') root = Inr ''standard-tpm2'' \<and>
      v = JObj [(''ok'', JBool True), (''profile'', JStr ''standard-tpm2''), (''scope'', JStr ''offline-staging-only'')] \<and>
      (\<forall>rel \<in> set MASKS. files w' (root @ rel) = Some (NLink ''/dev/null'')) \<and>
      read_text (files w') (root @ DRACUT_PATH) = Inr DRACUT \<and>
      tpm_render t root w' = (Inr v, w'))"
proof -
  have "adds (rendered_paths root) (files w) (files w')" using movesD [OF added_render assms] by (simp add: added_def)
  then have a: "\<forall>p. files w' p \<noteq> files w p \<longrightarrow> files w p = None \<and>
      ((\<exists>rel \<in> set (MASKS @ [DRACUT_PATH]). p = root @ rel) \<or> (\<exists>m u. files w' p = Some (NDir m u)))"
    unfolding adds_def rendered_paths_def image_iff .
  {
    fix v assume r: "r = Inr v"
    note steps = render_steps [OF assms [unfolded r]]
    from steps(4) obtain p where p: "profile t (files w') root = Inr p"
      and v: "v = JObj [(''ok'', JBool True), (''profile'', JStr p), (''scope'', JStr ''offline-staging-only'')]" by auto
    from steps(3) have "files w' (root @ DRACUT_PATH) \<noteq> None" by (simp add: entry_there_def)
    note profile_present [OF p this]
    with p v render_again [OF assms [unfolded r]]
    have "profile t (files w') root = Inr ''standard-tpm2'' \<and>
      v = JObj [(''ok'', JBool True), (''profile'', JStr ''standard-tpm2''), (''scope'', JStr ''offline-staging-only'')] \<and>
      (\<forall>rel \<in> set MASKS. files w' (root @ rel) = Some (NLink ''/dev/null'')) \<and>
      read_text (files w') (root @ DRACUT_PATH) = Inr DRACUT \<and>
      tpm_render t root w' = (Inr v, w')"
      by (auto simp: masked_def dracut_ok_iff)
  }
  with a show ?thesis by blast
qed

text \<open>An empty staging directory, and no other definitions anywhere.\<close>

definition stage_world :: "unit world" where
  "stage_world = blank\<lparr>files := [[] \<mapsto> NDir 493 0, [''stage''] \<mapsto> NDir 493 0]\<rparr>"

definition stage_tools :: tools where
  "stage_tools = \<lparr>entries = (\<lambda>fs p. []), pack = (\<lambda>ms. [])\<rparr>"

lemma stage_rendered:
  "fst (tpm_render stage_tools [''stage''] stage_world) =
     Inr (JObj [(''ok'', JBool True), (''profile'', JStr ''standard-tpm2''), (''scope'', JStr ''offline-staging-only'')])"
  by code_simp

theorem render_standard_witness:
  "let w' = snd (tpm_render stage_tools [''stage''] stage_world) in
     files w' [''stage'', ''etc'', ''nvpcr'', ''hardware.nvpcr''] = Some (NLink ''/dev/null'') \<and>
     snd (tpm_render stage_tools [''stage''] w') = w'"
  using render_standard [OF surjective_pairing, of stage_tools "[''stage'']" stage_world] stage_rendered
  by (auto simp: MASKS_def)

end
